(* ===== verification/Prelude.thy ===== *)
theory Prelude
  imports Main "HOL-Library.Word"
begin

text \<open>
  What every component shares.

  \<^item> Types of the program's values: a UUID is a 128-bit word (Python and PostgreSQL both order
    UUIDs as unsigned 128-bit numbers), an instant is a number of microseconds since the epoch.
  \<^item> Tables. A PostgreSQL table is the list of its rows in insertion order; a SELECT by key is
    \<open>row_get\<close>, an UPDATE with a WHERE clause is \<open>rows_update\<close>, a SUM with a WHERE
    clause is \<open>sum_where\<close>. The lemmas about them carry the component proofs.
  \<^item> Python strings: \<open>strip\<close>, \<open>upper\<close>, \<open>lower\<close>, \<open>split\<close>,
    \<open>str(int)\<close>, \<open>int(str)\<close>, \<open>str(UUID)\<close>. A Python string is a list of
    8-bit characters (code points below 256); case mapping is exact on ASCII.
  \<^item> Two interfaces every state machine of the development offers: a step that keeps an
    invariant, and a step that only appends to a log.
\<close>

named_theorems table_simps \<open>selection, update and sums over tables\<close>

section \<open>Identifiers and instants\<close>

type_synonym uuid = "128 word"
type_synonym timestamp = int

definition seconds :: "int \<Rightarrow> timestamp" where
  "seconds n = n * 1000000"

section \<open>Tables\<close>

definition row_get :: "('r \<Rightarrow> 'k) \<Rightarrow> 'k \<Rightarrow> 'r list \<Rightarrow> 'r option" where
  "row_get key k rows = find (\<lambda>r. key r = k) rows"

definition rows_update :: "('r \<Rightarrow> bool) \<Rightarrow> ('r \<Rightarrow> 'r) \<Rightarrow> 'r list \<Rightarrow> 'r list" where
  "rows_update P f rows = map (\<lambda>r. if P r then f r else r) rows"

definition sum_where :: "('r \<Rightarrow> bool) \<Rightarrow> ('r \<Rightarrow> int) \<Rightarrow> 'r list \<Rightarrow> int" where
  "sum_where P amount rows = sum_list (map amount (filter P rows))"

definition known :: "('r \<Rightarrow> 'k) \<Rightarrow> 'k \<Rightarrow> 'r list \<Rightarrow> bool" where
  "known key k rows \<longleftrightarrow> k \<in> set (map key rows)"

lemma knownI: "r \<in> set rows \<Longrightarrow> key r = k \<Longrightarrow> known key k rows"
  by (auto simp: known_def)

lemma knownE:
  assumes "known key k rows"
  obtains r where "r \<in> set rows" "key r = k"
  using assms by (auto simp: known_def)

lemma known_Nil [simp, table_simps]: "\<not> known key k []"
  by (simp add: known_def)

lemma known_Cons [table_simps]: "known key k (r # rows) \<longleftrightarrow> key r = k \<or> known key k rows"
  by (auto simp: known_def)

lemma known_append [table_simps]: "known key k (xs @ ys) \<longleftrightarrow> known key k xs \<or> known key k ys"
  by (auto simp: known_def)

lemma known_rows_update:
  "(\<And>r. key (f r) = key r) \<Longrightarrow> known key k (rows_update P f rows) = known key k rows"
  by (simp add: known_def rows_update_def image_image if_distrib cong: if_cong)

lemma row_get_Nil [simp, table_simps]: "row_get key k [] = None"
  by (simp add: row_get_def)

lemma row_get_Cons [table_simps]:
  "row_get key k (r # rows) = (if key r = k then Some r else row_get key k rows)"
  by (simp add: row_get_def)

lemma row_get_append [table_simps]:
  "row_get key k (xs @ ys) =
     (case row_get key k xs of None \<Rightarrow> row_get key k ys | Some r \<Rightarrow> Some r)"
  by (induction xs) (auto simp: table_simps)

lemma row_get_SomeD: "row_get key k rows = Some r \<Longrightarrow> r \<in> set rows \<and> key r = k"
  by (induction rows) (auto simp: table_simps split: if_splits)

lemma row_get_None: "row_get key k rows = None \<longleftrightarrow> k \<notin> key ` set rows"
  by (induction rows) (auto simp: table_simps)

lemma row_get_None_known: "row_get key k rows = None \<longleftrightarrow> \<not> known key k rows"
  by (simp add: row_get_None known_def)

lemma row_get_filter:
  assumes "distinct (map key rows)"
  shows "row_get key k (filter P rows) =
    (case row_get key k rows of None \<Rightarrow> None | Some r \<Rightarrow> if P r then Some r else None)"
  using assms
proof (induction rows)
  case (Cons r rows)
  then show ?case
    by (auto simp: row_get_Cons row_get_None split: option.splits; metis row_get_SomeD image_eqI)
qed simp

lemma row_get_in:
  "distinct (map key rows) \<Longrightarrow> r \<in> set rows \<Longrightarrow> row_get key (key r) rows = Some r"
  by (induction rows) (auto simp: table_simps)

lemma filter_key:
  "distinct (map key rows) \<Longrightarrow>
     filter (\<lambda>r. key r = k) rows = (case row_get key k rows of None \<Rightarrow> [] | Some r \<Rightarrow> [r])"
  by (induction rows) (auto simp: table_simps filter_empty_conv split: option.splits dest: row_get_SomeD
      intro: sym)

lemma rows_update_Nil [simp, table_simps]: "rows_update P f [] = []"
  by (simp add: rows_update_def)

lemma rows_update_Cons [table_simps]:
  "rows_update P f (r # rows) = (if P r then f r else r) # rows_update P f rows"
  by (simp add: rows_update_def)

lemma length_rows_update [simp]: "length (rows_update P f rows) = length rows"
  by (simp add: rows_update_def)

lemma set_rows_update: "set (rows_update P f rows) = (\<lambda>r. if P r then f r else r) ` set rows"
  by (simp add: rows_update_def)

lemma map_rows_update:
  "(\<And>r. r \<in> set rows \<Longrightarrow> P r \<Longrightarrow> g (f r) = g r) \<Longrightarrow> map g (rows_update P f rows) = map g rows"
  by (auto simp: rows_update_def)

lemma rows_update_none: "(\<And>r. r \<in> set rows \<Longrightarrow> \<not> P r) \<Longrightarrow> rows_update P f rows = rows"
  by (auto simp: rows_update_def intro!: map_idI)

lemma rows_update_append [table_simps]:
  "rows_update P f (xs @ ys) = rows_update P f xs @ rows_update P f ys"
  by (simp add: rows_update_def)

text \<open>An UPDATE that keeps the key column commutes with selection by key.\<close>

lemma row_get_rows_update:
  assumes "\<And>r. key (f r) = key r"
  shows "row_get key k (rows_update P f rows) =
           map_option (\<lambda>r. if P r then f r else r) (row_get key k rows)"
  by (induction rows) (auto simp: table_simps assms)

lemma sum_where_Nil [simp, table_simps]: "sum_where P amount [] = 0"
  by (simp add: sum_where_def)

lemma sum_where_Cons [table_simps]:
  "sum_where P amount (r # rows) = (if P r then amount r else 0) + sum_where P amount rows"
  by (simp add: sum_where_def)

lemma sum_where_append [table_simps]:
  "sum_where P amount (xs @ ys) = sum_where P amount xs + sum_where P amount ys"
  by (induction xs) (auto simp: table_simps)

lemma sum_where_none: "(\<And>r. r \<in> set rows \<Longrightarrow> \<not> P r) \<Longrightarrow> sum_where P amount rows = 0"
  by (induction rows) (auto simp: table_simps)

lemma sum_where_cong:
  "(\<And>r. r \<in> set rows \<Longrightarrow> P r = Q r) \<Longrightarrow> sum_where P amount rows = sum_where Q amount rows"
  by (induction rows) (auto simp: table_simps)

lemma find_SomeD: "find P xs = Some x \<Longrightarrow> x \<in> set xs \<and> P x"
  by (auto simp: find_Some_iff)

lemma filter_oneD: "filter P xs = [x] \<Longrightarrow> x \<in> set xs"
  by (metis filter_is_subset list.set_intros(1) subsetD)

section \<open>Results and transactions\<close>

text \<open>
  A computation that may raise is a sum, the left side the exception. \<open>andthen\<close> runs the next
  statement when the one before did not raise.
\<close>

definition andthen :: "'e + 'a \<Rightarrow> ('a \<Rightarrow> 'e + 'b) \<Rightarrow> 'e + 'b" where
  "andthen m f = (case m of Inl e \<Rightarrow> Inl e | Inr x \<Rightarrow> f x)"

lemma andthen_simps [simp]:
  "andthen (Inl e) f = Inl e" "andthen (Inr x) f = f x"
  by (simp_all add: andthen_def)

lemma andthen_InrE:
  assumes "andthen m f = Inr y"
  obtains x where "m = Inr x" "f x = Inr y"
  using assms by (cases m) auto

lemma andthen_Inr_iff: "andthen m f = Inr y \<longleftrightarrow> (\<exists>x. m = Inr x \<and> f x = Inr y)"
  by (cases m) auto

lemma andthen_Inl_iff: "andthen m f = Inl e \<longleftrightarrow> m = Inl e \<or> (\<exists>x. m = Inr x \<and> f x = Inl e)"
  by (cases m) auto

lemma andthen_cong [fundef_cong]:
  "m = m' \<Longrightarrow> (\<And>x. m' = Inr x \<Longrightarrow> f x = g x) \<Longrightarrow> andthen m f = andthen m' g"
  by (cases m') auto

text \<open>
  \<open>with connection.transaction()\<close>: a body that raises leaves the state as it was.
\<close>

definition in_transaction :: "('s \<Rightarrow> 'e + 'a \<times> 's) \<Rightarrow> 's \<Rightarrow> ('e + 'a) \<times> 's" where
  "in_transaction body s = (case body s of Inl e \<Rightarrow> (Inl e, s) | Inr (x, s') \<Rightarrow> (Inr x, s'))"

lemma in_transaction_Inl [simp]: "body s = Inl e \<Longrightarrow> in_transaction body s = (Inl e, s)"
  by (simp add: in_transaction_def)

lemma in_transaction_Inr [simp]: "body s = Inr (x, s') \<Longrightarrow> in_transaction body s = (Inr x, s')"
  by (simp add: in_transaction_def)

lemma in_transaction_rollback:
  "in_transaction body s = (Inl e, s') \<Longrightarrow> body s = Inl e \<and> s' = s"
  by (auto simp: in_transaction_def split: sum.splits)

lemma in_transaction_commit:
  "in_transaction body s = (Inr x, s') \<Longrightarrow> body s = Inr (x, s')"
  by (auto simp: in_transaction_def split: sum.splits)

text \<open>
  A procedure over an autocommit connection: what was executed before an exception stays executed.
  \<open>run_then\<close> runs the rest unless an exception was raised, \<open>statement\<close> is one statement,
  and \<open>handling\<close> is an \<open>except\<close> clause.
\<close>

type_synonym ('s, 'e, 'a) proc = "'s \<Rightarrow> ('e + 'a) \<times> 's"

definition returning :: "'a \<Rightarrow> ('s, 'e, 'a) proc" where
  "returning x s = (Inr x, s)"

definition raising :: "'e \<Rightarrow> ('s, 'e, 'a) proc" where
  "raising e s = (Inl e, s)"

definition run_then :: "('s, 'e, 'a) proc \<Rightarrow> ('a \<Rightarrow> ('s, 'e, 'b) proc) \<Rightarrow> ('s, 'e, 'b) proc" where
  "run_then m f s = (case m s of (Inl e, s') \<Rightarrow> (Inl e, s') | (Inr x, s') \<Rightarrow> f x s')"

definition statement :: "('s \<Rightarrow> 'e + 's) \<Rightarrow> ('s, 'e, unit) proc" where
  "statement q s = (case q s of Inl e \<Rightarrow> (Inl e, s) | Inr s' \<Rightarrow> (Inr (), s'))"

definition handling :: "('e \<Rightarrow> ('s, 'e, 'a) proc option) \<Rightarrow> ('s, 'e, 'a) proc \<Rightarrow> ('s, 'e, 'a) proc" where
  "handling h m s =
     (case m s of
        (Inl e, s') \<Rightarrow> (case h e of None \<Rightarrow> (Inl e, s') | Some m' \<Rightarrow> m' s')
      | r \<Rightarrow> r)"

lemma returning_iff [simp]: "returning x s = (r, s') \<longleftrightarrow> r = Inr x \<and> s' = s"
  by (auto simp: returning_def)

lemma raising_iff [simp]: "raising e s = (r, s') \<longleftrightarrow> r = Inl e \<and> s' = s"
  by (auto simp: raising_def)

lemma run_then_Inr_iff:
  "run_then m f s = (Inr y, s'') \<longleftrightarrow> (\<exists>x s'. m s = (Inr x, s') \<and> f x s' = (Inr y, s''))"
  by (auto simp: run_then_def split: sum.splits prod.splits)

lemma run_then_Inl_iff:
  "run_then m f s = (Inl e, s'') \<longleftrightarrow>
     m s = (Inl e, s'') \<or> (\<exists>x s'. m s = (Inr x, s') \<and> f x s' = (Inl e, s''))"
  by (auto simp: run_then_def split: sum.splits prod.splits)

lemma run_then_cases:
  assumes "run_then m f s = (r, s'')"
  obtains (raised) e where "m s = (Inl e, s'')" "r = Inl e"
    | (ran) x s' where "m s = (Inr x, s')" "f x s' = (r, s'')"
  using assms by (auto simp: run_then_def split: sum.splits prod.splits)

lemma run_then_Inr [simp]: "m s = (Inr x, s') \<Longrightarrow> run_then m f s = f x s'"
  by (simp add: run_then_def)

lemma run_then_Inl [simp]: "m s = (Inl e, s') \<Longrightarrow> run_then m f s = (Inl e, s')"
  by (simp add: run_then_def)

lemma statement_Inr_iff: "statement q s = (Inr u, s') \<longleftrightarrow> q s = Inr s'"
  by (auto simp: statement_def split: sum.splits)

lemma statement_Inl_iff: "statement q s = (Inl e, s') \<longleftrightarrow> q s = Inl e \<and> s' = s"
  by (auto simp: statement_def split: sum.splits)

text \<open>What every step of a procedure keeps, the procedure keeps, also when it raises.\<close>

definition preserves :: "('s \<Rightarrow> bool) \<Rightarrow> ('s, 'e, 'a) proc \<Rightarrow> bool" where
  "preserves P m \<longleftrightarrow> (\<forall>s. P s \<longrightarrow> P (snd (m s)))"

named_theorems preserve_rules \<open>a procedure keeps a property of the state\<close>

lemma preservesD: "preserves P m \<Longrightarrow> m s = (r, s') \<Longrightarrow> P s \<Longrightarrow> P s'"
  unfolding preserves_def by (metis snd_conv)

lemma preservesI: "(\<And>s r s'. P s \<Longrightarrow> m s = (r, s') \<Longrightarrow> P s') \<Longrightarrow> preserves P m"
  unfolding preserves_def by (metis prod.collapse)

lemma preserves_returning [preserve_rules]: "preserves P (returning x)"
  by (simp add: preserves_def returning_def)

lemma preserves_raising [preserve_rules]: "preserves P (raising e)"
  by (simp add: preserves_def raising_def)

lemma preserves_run_then [preserve_rules]:
  "preserves P m \<Longrightarrow> (\<And>x. preserves P (f x)) \<Longrightarrow> preserves P (run_then m f)"
  by (auto simp: preserves_def run_then_def split: sum.splits prod.splits)

lemma preserves_statement [preserve_rules]:
  "(\<And>s s'. P s \<Longrightarrow> q s = Inr s' \<Longrightarrow> P s') \<Longrightarrow> preserves P (statement q)"
  by (auto simp: preserves_def statement_def split: sum.splits)

lemma preserves_in_transaction [preserve_rules]:
  "(\<And>s x s'. P s \<Longrightarrow> body s = Inr (x, s') \<Longrightarrow> P s') \<Longrightarrow> preserves P (in_transaction body)"
  by (auto simp: preserves_def in_transaction_def split: sum.splits)

lemma preserves_handling [preserve_rules]:
  "preserves P m \<Longrightarrow> (\<And>e m'. h e = Some m' \<Longrightarrow> preserves P m') \<Longrightarrow> preserves P (handling h m)"
  by (auto simp: preserves_def handling_def split: sum.splits prod.splits option.splits)

lemma preserves_if [preserve_rules]:
  "(b \<Longrightarrow> preserves P m) \<Longrightarrow> (\<not> b \<Longrightarrow> preserves P m') \<Longrightarrow> preserves P (if b then m else m')"
  by simp

lemma preserves_case_option [preserve_rules]:
  "(x = None \<Longrightarrow> preserves P m) \<Longrightarrow> (\<And>y. x = Some y \<Longrightarrow> preserves P (f y)) \<Longrightarrow>
     preserves P (case x of None \<Rightarrow> m | Some y \<Rightarrow> f y)"
  by (cases x) simp_all

section \<open>Interfaces of a state machine\<close>

text \<open>
  A component whose steps keep an invariant keeps it along every sequence of steps.
\<close>

locale invariant_machine =
  fixes step :: "'e \<Rightarrow> 's \<Rightarrow> 's"
    and inv :: "'s \<Rightarrow> bool"
  assumes step_inv: "inv s \<Longrightarrow> inv (step e s)"
begin

lemma run_inv: "inv s \<Longrightarrow> inv (fold step es s)"
  by (induction es arbitrary: s) (auto intro: step_inv)

end

text \<open>
  A component whose steps only append to a log: what was logged stays, in its place.
\<close>

locale append_only_log =
  fixes step :: "'e \<Rightarrow> 's \<Rightarrow> 's"
    and log :: "'s \<Rightarrow> 'l list"
  assumes step_log: "\<exists>zs. log (step e s) = log s @ zs"
begin

lemma run_log: "\<exists>zs. log (fold step es s) = log s @ zs"
proof (induction es arbitrary: s)
  case Nil
  then show ?case by simp
next
  case (Cons e es)
  from Cons.IH [of "step e s"] step_log [of e s] show ?case by auto
qed

lemma run_length: "length (log s) \<le> length (log (fold step es s))"
  using run_log [of es s] by auto

lemma run_nth: "i < length (log s) \<Longrightarrow> log (fold step es s) ! i = log s ! i"
  using run_log [of es s] by (auto simp: nth_append)

end

section \<open>Python strings\<close>

definition ord :: "char \<Rightarrow> nat" where
  "ord c = of_char c"

definition chr :: "nat \<Rightarrow> char" where
  "chr n = char_of n"

definition py_isspace :: "char \<Rightarrow> bool" where
  "py_isspace c \<longleftrightarrow> ord c \<in> {9, 10, 11, 12, 13, 28, 29, 30, 31, 32, 133, 160}"

definition is_digit :: "char \<Rightarrow> bool" where
  "is_digit c \<longleftrightarrow> 48 \<le> ord c \<and> ord c \<le> 57"

definition is_lower :: "char \<Rightarrow> bool" where
  "is_lower c \<longleftrightarrow> 97 \<le> ord c \<and> ord c \<le> 122"

definition is_upper :: "char \<Rightarrow> bool" where
  "is_upper c \<longleftrightarrow> 65 \<le> ord c \<and> ord c \<le> 90"

definition is_alnum :: "char \<Rightarrow> bool" where
  "is_alnum c \<longleftrightarrow> is_digit c \<or> is_lower c \<or> is_upper c"

definition py_strip :: "string \<Rightarrow> string" where
  "py_strip s = rev (dropWhile py_isspace (rev (dropWhile py_isspace s)))"

definition py_lower :: "string \<Rightarrow> string" where
  "py_lower s = map (\<lambda>c. if is_upper c then chr (ord c + 32) else c) s"

definition py_upper :: "string \<Rightarrow> string" where
  "py_upper s = map (\<lambda>c. if is_lower c then chr (ord c - 32) else c) s"

definition utf8_length :: "string \<Rightarrow> nat" where
  "utf8_length s = sum_list (map (\<lambda>c. if ord c < 128 then 1 else 2) s)"

definition py_startswith :: "string \<Rightarrow> string \<Rightarrow> bool" where
  "py_startswith s p \<longleftrightarrow> take (length p) s = p"

definition py_removeprefix :: "string \<Rightarrow> string \<Rightarrow> string" where
  "py_removeprefix s p = (if py_startswith s p then drop (length p) s else s)"

text \<open>The length bounds of a text field in a request model.\<close>

definition length_in :: "nat \<Rightarrow> nat \<Rightarrow> string \<Rightarrow> bool" where
  "length_in lo hi s \<longleftrightarrow> lo \<le> length s \<and> length s \<le> hi"

fun py_split :: "char \<Rightarrow> string \<Rightarrow> string list" where
  "py_split sep [] = [[]]"
| "py_split sep (c # cs) =
     (if c = sep then [] # py_split sep cs
      else (case py_split sep cs of [] \<Rightarrow> [[c]] | w # ws \<Rightarrow> (c # w) # ws))"

fun py_contains :: "string \<Rightarrow> string \<Rightarrow> bool" where
  "py_contains [] p = (p = [])"
| "py_contains (c # cs) p = (py_startswith (c # cs) p \<or> py_contains cs p)"

fun py_join :: "string \<Rightarrow> string list \<Rightarrow> string" where
  "py_join sep [] = []"
| "py_join sep [w] = w"
| "py_join sep (w # ws) = w @ sep @ py_join sep ws"

lemma py_strip_Nil [simp]: "py_strip [] = []"
  by (simp add: py_strip_def)

lemma length_py_lower [simp]: "length (py_lower s) = length s"
  by (simp add: py_lower_def)

lemma length_py_upper [simp]: "length (py_upper s) = length s"
  by (simp add: py_upper_def)

lemma length_py_strip: "length (py_strip s) \<le> length s"
  by (metis py_strip_def length_rev length_dropWhile_le le_trans)

lemma py_split_nonempty [simp]: "py_split sep s \<noteq> []"
  by (cases s) (auto split: list.splits)

lemma py_split_no_sep: "w \<in> set (py_split sep s) \<Longrightarrow> sep \<notin> set w"
proof (induction s arbitrary: w)
  case Nil
  then show ?case by simp
next
  case (Cons c cs)
  then show ?case by (fastforce split: if_splits list.splits)
qed

lemma py_split_join: "py_join [sep] (py_split sep s) = s"
proof (induction s)
  case Nil
  then show ?case by simp
next
  case (Cons c cs)
  then show ?case
    by (cases "py_split sep cs"; cases "tl (py_split sep cs)") auto
qed

section \<open>Numbers as text\<close>

definition digit :: "nat \<Rightarrow> char" where
  "digit n = ''0123456789abcdef'' ! n"

fun nat_str :: "nat \<Rightarrow> string" where
  "nat_str n = (if n < 10 then [digit n] else nat_str (n div 10) @ [digit (n mod 10)])"

declare nat_str.simps [simp del]

definition int_str :: "int \<Rightarrow> string" where
  "int_str i = (if i < 0 then CHR ''-'' # nat_str (nat (- i)) else nat_str (nat i))"

definition hex_str :: "nat \<Rightarrow> nat \<Rightarrow> string" where
  "hex_str width n = map (\<lambda>i. digit ((n div 16 ^ i) mod 16)) (rev [0..<width])"

definition uuid_hex :: "uuid \<Rightarrow> string" where
  "uuid_hex u = hex_str 32 (unat u)"

definition uuid_str :: "uuid \<Rightarrow> string" where
  "uuid_str u =
     (let h = uuid_hex u in
      take 8 h @ ''-'' @ take 4 (drop 8 h) @ ''-'' @ take 4 (drop 12 h) @ ''-'' @
      take 4 (drop 16 h) @ ''-'' @ drop 20 h)"

definition digit_val :: "char \<Rightarrow> nat" where
  "digit_val c = ord c - 48"

text \<open>\<open>int(text)\<close>: surrounding white space, one sign, digits with single underscores between.\<close>

fun py_digits :: "nat \<Rightarrow> string \<Rightarrow> nat option" where
  "py_digits acc [] = Some acc"
| "py_digits acc (c # cs) =
     (if is_digit c then py_digits (10 * acc + digit_val c) cs
      else if c = CHR ''_'' then
        (case cs of
           [] \<Rightarrow> None
         | d # ds \<Rightarrow> if is_digit d then py_digits (10 * acc + digit_val d) ds else None)
      else None)"

definition py_nat :: "string \<Rightarrow> nat option" where
  "py_nat s = (case s of [] \<Rightarrow> None
               | c # cs \<Rightarrow> if is_digit c then py_digits (digit_val c) cs else None)"

definition py_int :: "string \<Rightarrow> int option" where
  "py_int s =
     (case py_strip s of
        [] \<Rightarrow> None
      | c # cs \<Rightarrow>
          if c = CHR ''-'' then map_option (\<lambda>n. - int n) (py_nat cs)
          else if c = CHR ''+'' then map_option int (py_nat cs)
          else map_option int (py_nat (c # cs)))"

lemma less_10_cases: "(n::nat) < 10 \<Longrightarrow>
  n = 0 \<or> n = 1 \<or> n = 2 \<or> n = 3 \<or> n = 4 \<or> n = 5 \<or> n = 6 \<or> n = 7 \<or> n = 8 \<or> n = 9"
  by arith

lemma less_16_cases: "(n::nat) < 16 \<Longrightarrow>
  n < 10 \<or> n = 10 \<or> n = 11 \<or> n = 12 \<or> n = 13 \<or> n = 14 \<or> n = 15"
  by arith

lemma is_digit_digit: "n < 10 \<Longrightarrow> is_digit (digit n)"
  by (drule less_10_cases) (auto simp: is_digit_def digit_def ord_def)

lemma digit_val_digit: "n < 10 \<Longrightarrow> digit_val (digit n) = n"
  by (drule less_10_cases) (auto simp: digit_val_def digit_def ord_def)

lemma digit_inj: "m < 16 \<Longrightarrow> n < 16 \<Longrightarrow> digit m = digit n \<Longrightarrow> m = n"
  using nth_eq_iff_index_eq [of "''0123456789abcdef''" m n] by (simp add: digit_def)

lemma nat_str_nonempty [simp]: "nat_str n \<noteq> []"
  by (subst nat_str.simps) simp

lemma nat_str_digits: "\<forall>c \<in> set (nat_str n). is_digit c"
proof (induction n rule: nat_str.induct)
  case (1 n)
  then show ?case
    by (subst nat_str.simps) (auto simp: is_digit_digit)
qed

lemma py_digits_append:
  "\<forall>c \<in> set xs. is_digit c \<Longrightarrow> py_digits acc xs = Some n \<Longrightarrow> py_digits acc (xs @ ys) = py_digits n ys"
  by (induction xs arbitrary: acc) auto

lemma py_nat_append_digit:
  assumes "\<forall>c \<in> set xs. is_digit c" and "py_nat xs = Some n" and "is_digit d"
  shows "py_nat (xs @ [d]) = Some (10 * n + digit_val d)"
proof -
  from assms(2) obtain c cs where xs: "xs = c # cs" and "py_digits (digit_val c) cs = Some n"
    by (auto simp: py_nat_def split: list.splits if_splits)
  with assms(1,3) show ?thesis
    by (simp add: py_nat_def py_digits_append [of cs _ n])
qed

lemma py_nat_nat_str: "py_nat (nat_str n) = Some n"
proof (induction n rule: nat_str.induct)
  case (1 n)
  show ?case
  proof (cases "n < 10")
    case True
    then show ?thesis
      by (subst nat_str.simps) (simp add: py_nat_def is_digit_digit digit_val_digit)
  next
    case False
    have "py_nat (nat_str (n div 10) @ [digit (n mod 10)]) =
          Some (10 * (n div 10) + digit_val (digit (n mod 10)))"
      using 1 [OF False] by (intro py_nat_append_digit nat_str_digits is_digit_digit) auto
    with False show ?thesis
      by (subst nat_str.simps) (simp add: digit_val_digit)
  qed
qed

lemma digit_not_space: "is_digit c \<Longrightarrow> \<not> py_isspace c"
  by (auto simp: is_digit_def py_isspace_def)

lemma py_strip_no_space:
  "\<forall>c \<in> set s. \<not> py_isspace c \<Longrightarrow> py_strip s = s"
proof -
  assume h: "\<forall>c \<in> set s. \<not> py_isspace c"
  have keep: "dropWhile py_isspace t = t" if "\<forall>c \<in> set t. \<not> py_isspace c" for t
    using that by (cases t) auto
  from h have "dropWhile py_isspace s = s" and "dropWhile py_isspace (rev s) = rev s"
    by (intro keep; simp)+
  then show ?thesis by (simp add: py_strip_def)
qed

lemma int_str_no_space: "\<forall>c \<in> set (int_str i). \<not> py_isspace c"
  using nat_str_digits digit_not_space
  by (auto simp: int_str_def py_isspace_def [of "CHR ''-''"] ord_def)

lemma py_int_int_str: "py_int (int_str i) = Some i"
proof (cases "i < 0")
  case True
  then have "int_str i = CHR ''-'' # nat_str (nat (- i))" by (simp add: int_str_def)
  with py_strip_no_space [OF int_str_no_space, of i] have
    "py_strip (int_str i) = CHR ''-'' # nat_str (nat (- i))" by simp
  with True show ?thesis by (simp add: py_int_def py_nat_nat_str)
next
  case False
  then obtain c cs where s: "int_str i = c # cs" "is_digit c" "py_nat (c # cs) = Some (nat i)"
    using nat_str_digits [of "nat i"] py_nat_nat_str [of "nat i"]
    by (cases "nat_str (nat i)") (auto simp: int_str_def)
  then have "c \<noteq> CHR ''-''" and "c \<noteq> CHR ''+''"
    by (auto simp: is_digit_def ord_def)
  moreover from s have "py_strip (c # cs) = c # cs"
    using py_strip_no_space [OF int_str_no_space, of i] by simp
  ultimately show ?thesis
    using s False by (simp add: py_int_def)
qed

lemma int_str_inj: "int_str i = int_str j \<Longrightarrow> i = j"
  by (metis py_int_int_str option.inject)

lemma length_hex_str [simp]: "length (hex_str w n) = w"
  by (simp add: hex_str_def)

lemma hex_digits_inj:
  "(\<forall>i < w. (m div 16 ^ i) mod 16 = (n div 16 ^ i) mod (16::nat)) \<Longrightarrow> m mod 16 ^ w = n mod 16 ^ w"
proof (induction w)
  case 0
  then show ?case by simp
next
  case (Suc w)
  have unfold: "k mod 16 ^ Suc w = k mod 16 ^ w + 16 ^ w * ((k div 16 ^ w) mod 16)" for k :: nat
    using mod_mult2_eq [of k "16 ^ w" 16] by (simp add: power_commutes)
  from Suc show ?case by (simp add: unfold del: power_Suc)
qed

lemma hex_str_inj:
  assumes "hex_str w m = hex_str w n" and "m < 16 ^ w" and "n < 16 ^ w"
  shows "m = n"
proof -
  have "(m div 16 ^ i) mod 16 = (n div 16 ^ i) mod 16" if "i < w" for i
  proof (rule digit_inj)
    from assms(1) have "map (\<lambda>i. digit ((m div 16 ^ i) mod 16)) [0..<w] =
                        map (\<lambda>i. digit ((n div 16 ^ i) mod 16)) [0..<w]"
      unfolding hex_str_def by (metis rev_map rev_rev_ident)
    with that show "digit ((m div 16 ^ i) mod 16) = digit ((n div 16 ^ i) mod 16)"
      by simp
  qed auto
  then have "m mod 16 ^ w = n mod 16 ^ w" by (intro hex_digits_inj) blast
  with assms(2,3) show ?thesis by simp
qed

lemma uuid_hex_inj: "uuid_hex u = uuid_hex v \<Longrightarrow> u = v"
  unfolding uuid_hex_def
  by (drule hex_str_inj) (use unsigned_less [where 'a = nat, of u] unsigned_less [where 'a = nat, of v]
    in \<open>simp_all add: unsigned_word_eqI\<close>)

lemma length_uuid_hex [simp]: "length (uuid_hex u) = 32"
  by (simp add: uuid_hex_def)

lemma length_uuid_str [simp]: "length (uuid_str u) = 36"
  by (simp add: uuid_str_def Let_def)

end
