(* ===== verification/Net.thy ===== *)
theory Net
  imports Prelude
begin

unbundle bit_operations_syntax

text \<open>
  The part of Python's \<open>ipaddress\<close> module that the program uses (\<open>bantam/security.py\<close>,
  function \<open>client_ip\<close>; \<open>bantam/config.py\<close>, function \<open>_proxy_networks\<close>): parsing
  an IPv4 or IPv6 address, its compressed spelling, and membership of an address in a network.
  These are the language's standard library, so nothing here is mapped to the repository's lines.
\<close>

datatype ip_address =
    V4 "32 word"
  | V6 "128 word" string  \<comment> \<open>address and scope id (empty when there is none)\<close>

datatype ip_network =
    Net4 "32 word" nat    \<comment> \<open>network address and prefix length\<close>
  | Net6 "128 word" nat

section \<open>Parsing\<close>

definition parse_octet :: "string \<Rightarrow> nat option" where
  "parse_octet s =
     (if s = [] \<or> \<not> list_all is_digit s \<or> 3 < length s \<or> (1 < length s \<and> hd s = CHR ''0'') then None
      else (case py_nat s of
              None \<Rightarrow> None
            | Some n \<Rightarrow> if 255 < n then None else Some n))"

definition parse_v4 :: "string \<Rightarrow> (32 word) option" where
  "parse_v4 s =
     (case map parse_octet (py_split CHR ''.'' s) of
        [Some a, Some b, Some c, Some d] \<Rightarrow>
          Some (word_of_nat (((a * 256 + b) * 256 + c) * 256 + d))
      | _ \<Rightarrow> None)"

definition is_hex :: "char \<Rightarrow> bool" where
  "is_hex c \<longleftrightarrow> is_digit c \<or> (97 \<le> ord c \<and> ord c \<le> 102) \<or> (65 \<le> ord c \<and> ord c \<le> 70)"

definition hex_val :: "char \<Rightarrow> nat" where
  "hex_val c = (if is_digit c then ord c - 48 else if is_lower c then ord c - 87 else ord c - 55)"

definition parse_hextet :: "string \<Rightarrow> nat option" where
  "parse_hextet s =
     (if s = [] \<or> \<not> list_all is_hex s \<or> 4 < length s then None
      else Some (foldl (\<lambda>n c. n * 16 + hex_val c) 0 s))"

fun hex_min :: "nat \<Rightarrow> string" where
  "hex_min n = (if n < 16 then [digit n] else hex_min (n div 16) @ [digit (n mod 16)])"

declare hex_min.simps [simp del]

fun parse_hextets :: "nat \<Rightarrow> string list \<Rightarrow> nat option" where
  "parse_hextets acc [] = Some acc"
| "parse_hextets acc (p # ps) =
     (case parse_hextet p of None \<Rightarrow> None | Some h \<Rightarrow> parse_hextets (acc * 65536 + h) ps)"

text \<open>The positions of the empty parts strictly inside the list (a \<open>::\<close> leaves one).\<close>

definition inner_empty :: "string list \<Rightarrow> nat list" where
  "inner_empty parts = filter (\<lambda>i. parts ! i = []) [1..<length parts - 1]"

definition v6_from_parts :: "string list \<Rightarrow> nat option" where
  "v6_from_parts parts =
     (let n = length parts in
      if 9 < n then None
      else (case inner_empty parts of
        [] \<Rightarrow> if n \<noteq> 8 \<or> hd parts = [] \<or> last parts = [] then None
              else parse_hextets 0 parts
      | [k] \<Rightarrow>
          let hi0 = k; lo0 = n - k - 1;
              hi = (if hd parts = [] then hi0 - 1 else hi0);
              lo = (if last parts = [] then lo0 - 1 else lo0)
          in if (hd parts = [] \<and> hi \<noteq> 0) \<or> (last parts = [] \<and> lo \<noteq> 0) \<or> 8 \<le> hi + lo then None
             else (case parse_hextets 0 (take hi parts) of
                     None \<Rightarrow> None
                   | Some a \<Rightarrow> parse_hextets (a * 65536 ^ (8 - (hi + lo))) (drop (n - lo) parts))
      | _ \<Rightarrow> None))"

definition parse_v6_int :: "string \<Rightarrow> nat option" where
  "parse_v6_int s =
     (let parts = py_split CHR '':'' s in
      if s = [] \<or> length parts < 3 then None
      else if CHR ''.'' \<in> set (last parts) then
        (case parse_v4 (last parts) of
           None \<Rightarrow> None
         | Some w \<Rightarrow>
             v6_from_parts (butlast parts @
               [hex_min (unat w div 65536), hex_min (unat w mod 65536)]))
      else v6_from_parts parts)"

definition parse_v6 :: "string \<Rightarrow> ip_address option" where
  "parse_v6 s =
     (case py_split CHR ''%'' s of
        [a] \<Rightarrow> map_option (\<lambda>n. V6 (word_of_nat n) []) (parse_v6_int a)
      | [a, z] \<Rightarrow> if z = [] then None else map_option (\<lambda>n. V6 (word_of_nat n) z) (parse_v6_int a)
      | _ \<Rightarrow> None)"

definition parse_ip :: "string \<Rightarrow> ip_address option" where
  "parse_ip s =
     (if CHR ''/'' \<in> set s then None
      else (case parse_v4 s of Some w \<Rightarrow> Some (V4 w) | None \<Rightarrow> parse_v6 s))"

section \<open>Printing\<close>

definition v4_str :: "32 word \<Rightarrow> string" where
  "v4_str w =
     (let n = unat w in
      py_join ''.'' [nat_str (n div 16777216), nat_str (n div 65536 mod 256),
                     nat_str (n div 256 mod 256), nat_str (n mod 256)])"

definition hextets :: "128 word \<Rightarrow> string list" where
  "hextets w = map (\<lambda>i. hex_min (unat w div 65536 ^ i mod 65536)) [7,6,5,4,3,2,1,0]"

definition zero_run :: "string list \<Rightarrow> nat \<Rightarrow> nat" where
  "zero_run hs i = length (takeWhile (\<lambda>h. h = ''0'') (drop i hs))"

definition compress_hextets :: "string list \<Rightarrow> string list" where
  "compress_hextets hs =
     (let best = foldl max 0 (map (zero_run hs) [0..<length hs]) in
      if best \<le> 1 then hs
      else (case find (\<lambda>i. zero_run hs i = best) [0..<length hs] of
              None \<Rightarrow> hs
            | Some i \<Rightarrow> (if i = 0 then [[]] else []) @ take i hs @ [[]] @ drop (i + best) hs
                         @ (if i + best = length hs then [[]] else [])))"

definition compressed :: "ip_address \<Rightarrow> string" where
  "compressed a =
     (case a of
        V4 w \<Rightarrow> v4_str w
      | V6 w z \<Rightarrow> py_join '':'' (compress_hextets (hextets w)) @ (if z = [] then [] else CHR ''%'' # z))"

section \<open>Networks\<close>

definition mask4 :: "nat \<Rightarrow> 32 word" where
  "mask4 p = NOT (mask (32 - p))"

definition mask6 :: "nat \<Rightarrow> 128 word" where
  "mask6 p = NOT (mask (128 - p))"

fun in_network :: "ip_address \<Rightarrow> ip_network \<Rightarrow> bool" where
  "in_network (V4 a) (Net4 n p) \<longleftrightarrow> a AND mask4 p = n"
| "in_network (V6 a _) (Net6 n p) \<longleftrightarrow> a AND mask6 p = n"
| "in_network _ _ \<longleftrightarrow> False"

fun ip_version :: "ip_address \<Rightarrow> nat" where
  "ip_version (V4 _) = 4"
| "ip_version (V6 _ _) = 6"

fun net_version :: "ip_network \<Rightarrow> nat" where
  "net_version (Net4 _ _) = 4"
| "net_version (Net6 _ _) = 6"

text \<open>\<open>ip_network(value, strict=False)\<close>: the address with the host bits cleared.\<close>

definition parse_prefix :: "nat \<Rightarrow> string \<Rightarrow> nat option" where
  "parse_prefix width s =
     (if s = [] \<or> \<not> list_all is_digit s then None
      else (case py_nat s of None \<Rightarrow> None | Some p \<Rightarrow> if width < p then None else Some p))"

text \<open>A dotted netmask or hostmask stands for the prefix whose mask it spells.\<close>

definition prefix_of_mask4 :: "32 word \<Rightarrow> nat option" where
  "prefix_of_mask4 w =
     (case find (\<lambda>p. mask4 p = w) [0..<33] of
        Some p \<Rightarrow> Some p
      | None \<Rightarrow> find (\<lambda>p. mask4 p = NOT w) [0..<33])"

definition parse_network :: "string \<Rightarrow> ip_network option" where
  "parse_network s =
     (case py_split CHR ''/'' s of
        [a] \<Rightarrow> (case parse_ip a of
                 Some (V4 w) \<Rightarrow> Some (Net4 w 32)
               | Some (V6 w z) \<Rightarrow> if z = [] then Some (Net6 w 128) else None
               | None \<Rightarrow> None)
      | [a, m] \<Rightarrow>
          (case parse_v4 a of
             Some w \<Rightarrow>
               (case (case parse_prefix 32 m of
                        Some p \<Rightarrow> Some p
                      | None \<Rightarrow> Option.bind (parse_v4 m) prefix_of_mask4) of
                  Some p \<Rightarrow> Some (Net4 (w AND mask4 p) p)
                | None \<Rightarrow> None)
           | None \<Rightarrow>
               (case parse_v6 a of
                  Some (V6 w z) \<Rightarrow>
                    (if z \<noteq> [] then None
                     else map_option (\<lambda>p. Net6 (w AND mask6 p) p) (parse_prefix 128 m))
                | _ \<Rightarrow> None))
      | _ \<Rightarrow> None)"

lemma parse_ip_no_slash: "parse_ip s = Some a \<Longrightarrow> CHR ''/'' \<notin> set s"
  by (auto simp: parse_ip_def split: if_splits)

lemma in_network_version: "in_network a n \<Longrightarrow> ip_version a = net_version n"
  by (cases a; cases n) auto

text \<open>The compressed spelling of an IPv4 address reads back as the same address.\<close>

lemma list_all_digit_nat_str: "list_all is_digit (nat_str n)"
  using nat_str_digits by (auto simp: list_all_iff)

lemma nat_str_small: "n < 10 \<Longrightarrow> nat_str n = [digit n]"
  by (subst nat_str.simps) simp

lemma nat_str_medium: "10 \<le> n \<Longrightarrow> n < 100 \<Longrightarrow> nat_str n = [digit (n div 10), digit (n mod 10)]"
  by (subst nat_str.simps) (simp add: nat_str_small)

lemma nat_str_large:
  "100 \<le> n \<Longrightarrow> n < 1000 \<Longrightarrow>
   nat_str n = [digit (n div 100), digit (n div 10 mod 10), digit (n mod 10)]"
  by (subst nat_str.simps) (simp add: nat_str_medium div_mult2_eq [symmetric])

lemma digit_zero: "n < 10 \<Longrightarrow> digit n = CHR ''0'' \<Longrightarrow> n = 0"
  using digit_inj [of n 0] by (simp add: digit_def)

lemma nat_str_shape:
  assumes "n \<le> 255"
  shows "length (nat_str n) \<le> 3 \<and> (1 < length (nat_str n) \<longrightarrow> hd (nat_str n) \<noteq> CHR ''0'')"
proof -
  consider "n < 10" | "10 \<le> n" "n < 100" | "100 \<le> n" by linarith
  then show ?thesis
  proof cases
    case 1
    then show ?thesis by (simp add: nat_str_small)
  next
    case 2
    then have "n div 10 < 10" and "n div 10 \<noteq> 0"
      by (simp_all add: less_mult_imp_div_less div_eq_0_iff)
    then have "digit (n div 10) \<noteq> CHR ''0''" using digit_zero [of "n div 10"] by auto
    with 2 show ?thesis by (simp add: nat_str_medium)
  next
    case 3
    with assms have "n div 100 < 10" and "n div 100 \<noteq> 0"
      by (simp_all add: less_mult_imp_div_less div_eq_0_iff)
    then have "digit (n div 100) \<noteq> CHR ''0''" using digit_zero [of "n div 100"] by auto
    with 3 assms show ?thesis by (simp add: nat_str_large)
  qed
qed

lemma parse_octet_nat_str: "n \<le> 255 \<Longrightarrow> parse_octet (nat_str n) = Some n"
  using nat_str_shape [of n]
  by (auto simp: parse_octet_def list_all_digit_nat_str py_nat_nat_str)

lemma py_split_word_dot:
  "sep \<notin> set w \<Longrightarrow> py_split sep (w @ sep # rest) = w # py_split sep rest"
  by (induction w) auto

lemma py_split_word: "sep \<notin> set w \<Longrightarrow> py_split sep w = [w]"
  by (induction w) auto

lemma dot_not_digit: "CHR ''.'' \<notin> set (nat_str n)"
  using nat_str_digits [of n] by (auto simp: is_digit_def ord_def)

lemma slash_not_digit: "CHR ''/'' \<notin> set (nat_str n)"
  using nat_str_digits [of n] by (auto simp: is_digit_def ord_def)

lemma parse_v4_v4_str: "parse_v4 (v4_str w) = Some w"
proof -
  define n where "n = unat w"
  have bound: "n < 4294967296"
    using unsigned_less [where 'a = nat, of w] by (simp add: n_def)
  have sum_eq: "((n div 16777216 * 256 + n div 65536 mod 256) * 256 + n div 256 mod 256) * 256
          + n mod 256 = n"
  proof -
    have "n div 65536 = n div 256 div 256" and "n div 16777216 = n div 256 div 256 div 256"
      by (simp_all add: div_mult2_eq [symmetric])
    then show ?thesis by (simp only: div_mult_mod_eq)
  qed
  have "n div 16777216 < 256" using bound by (intro less_mult_imp_div_less) simp
  then have "n div 16777216 \<le> 255" by simp
  then have "map parse_octet (py_split CHR ''.'' (v4_str w)) =
             [Some (n div 16777216), Some (n div 65536 mod 256), Some (n div 256 mod 256),
              Some (n mod 256)]"
    unfolding v4_str_def Let_def n_def [symmetric]
    by (simp add: py_split_word_dot py_split_word dot_not_digit parse_octet_nat_str)
  then have "parse_v4 (v4_str w) = Some (word_of_nat n)"
    unfolding parse_v4_def by (simp only: sum_eq list.case option.case)
  then show ?thesis by (simp add: n_def)
qed

lemma parse_ip_compressed_v4: "parse_ip (compressed (V4 w)) = Some (V4 w)"
proof -
  have "CHR ''/'' \<notin> set (v4_str w)"
    using slash_not_digit by (simp add: v4_str_def Let_def)
  then show ?thesis by (simp add: parse_ip_def compressed_def parse_v4_v4_str)
qed

end
