(* ===== verification/Domain.thy ===== *)
theory Domain
  imports Net
begin

text \<open>
  The canonical roles, states and value objects of \<open>bantam/domain.py\<close>, the stable errors of
  \<open>bantam/errors.py\<close> and the integer money helpers of \<open>bantam/money.py\<close>.

  The role and state constants of the source are strings restricted by CHECK constraints in the
  migrations; each such set of strings is a datatype here, and \<open>role_str\<close> /
  \<open>role_of_string\<close> are the two directions where the source moves a role through text.
  Everything a request can raise is a value of type \<open>failure\<close>: the application's
  \<open>BantamError\<close> and \<open>MfaFailure\<close>, the driver's constraint violations, and the
  built-in exceptions that end as an internal error at the HTTP edge.
\<close>

section \<open>Roles and states (domain.py)\<close>

datatype role =
    CUSTOMER | BANK_ADMIN | RISK_ANALYST | COMPLIANCE_AUDITOR
  | ASPIS_AUDITOR | ASPIS_ADMIN | PENDING_APPROVAL | SERVICE_ACCOUNT

definition role_str :: "role \<Rightarrow> string" where
  "role_str r =
     (case r of
        CUSTOMER \<Rightarrow> ''CUSTOMER''
      | BANK_ADMIN \<Rightarrow> ''BANK_ADMIN''
      | RISK_ANALYST \<Rightarrow> ''RISK_ANALYST''
      | COMPLIANCE_AUDITOR \<Rightarrow> ''COMPLIANCE_AUDITOR''
      | ASPIS_AUDITOR \<Rightarrow> ''ASPIS_AUDITOR''
      | ASPIS_ADMIN \<Rightarrow> ''ASPIS_ADMIN''
      | PENDING_APPROVAL \<Rightarrow> ''PENDING_APPROVAL''
      | SERVICE_ACCOUNT \<Rightarrow> ''SERVICE_ACCOUNT'')"

definition all_roles :: "role list" where
  "all_roles = [CUSTOMER, BANK_ADMIN, RISK_ANALYST, COMPLIANCE_AUDITOR,
                ASPIS_AUDITOR, ASPIS_ADMIN, PENDING_APPROVAL, SERVICE_ACCOUNT]"

definition role_of_string :: "string \<Rightarrow> role option" where
  "role_of_string s = find (\<lambda>r. role_str r = s) all_roles"

lemma role_str_inj: "role_str r = role_str r' \<longleftrightarrow> r = r'"
  by (cases r; cases r') (simp_all add: role_str_def)

lemma role_of_string_role_str [simp]: "role_of_string (role_str r) = Some r"
  by (cases r) (simp_all add: role_of_string_def all_roles_def role_str_def)

lemma role_of_string_Some: "role_of_string s = Some r \<Longrightarrow> s = role_str r"
  by (auto simp: role_of_string_def all_roles_def split: if_splits)

definition ADMIN_PERMISSION_SCOPES :: "string list" where
  "ADMIN_PERMISSION_SCOPES =
     [''admin_users'', ''customers'', ''transactions'', ''risk'', ''audit'', ''asvs'',
      ''aspis_auditors'', ''reconciliation'', ''workflows'', ''attack_lab'',
      ''company_financials'']"

datatype kyc_status = PENDING_KYC | PENDING_REVIEW | KYC_VERIFIED | KYC_REJECTED

datatype account_status = ACCOUNT_PENDING | ACCOUNT_ACTIVE | ACCOUNT_FROZEN | ACCOUNT_CLOSED

datatype transaction_type = TRANSFER | DEMO_DEPOSIT | REVERSAL

definition transaction_type_str :: "transaction_type \<Rightarrow> string" where
  "transaction_type_str t =
     (case t of TRANSFER \<Rightarrow> ''TRANSFER'' | DEMO_DEPOSIT \<Rightarrow> ''DEMO_DEPOSIT''
      | REVERSAL \<Rightarrow> ''REVERSAL'')"

record principal =
  pr_user_id :: uuid
  pr_role :: role
  pr_customer_id :: "uuid option"

text \<open>
  \<open>tc_transaction_type\<close> is \<open>None\<close> for the empty string, which \<open>_normalise\<close>
  replaces by \<open>TRANSFER\<close>.
\<close>

record transfer_command =
  tc_request_id :: uuid
  tc_idempotency_key :: string
  tc_actor :: principal
  tc_source_account_id :: uuid
  tc_destination_account_id :: uuid
  tc_amount_minor :: int
  tc_currency :: string
  tc_description :: string
  tc_sca_challenge_id :: "uuid option"
  tc_sca_code :: string
  tc_operator_override :: bool
  tc_transaction_type :: "transaction_type option"
  tc_reverses_transaction_id :: "uuid option"

section \<open>Errors (errors.py)\<close>

record bantam_error =
  err_code :: string
  err_message :: string
  err_status :: int

definition bantam_error :: "string \<Rightarrow> string \<Rightarrow> int \<Rightarrow> bantam_error" where
  "bantam_error code message status = \<lparr>err_code = code, err_message = message, err_status = status\<rparr>"

datatype failure =
    BantamFailure bantam_error
  | MfaFailure string string int        \<comment> \<open>code, message, status\<close>
  | UniqueViolation string              \<comment> \<open>psycopg.errors, with the constraint\<close>
  | CheckViolation string
  | ForeignKeyViolation string
  | NotNullViolation string
  | NumericValueOutOfRange
  | DataError string
  | RaiseException string               \<comment> \<open>RAISE EXCEPTION in a trigger\<close>
  | ValueError string
  | RuntimeError string
  | KeyError
  | TypeError

definition bantam :: "string \<Rightarrow> string \<Rightarrow> int \<Rightarrow> failure" where
  "bantam code message status = BantamFailure (bantam_error code message status)"

definition err_NOT_FOUND :: failure where
  "err_NOT_FOUND = bantam ''NOT_FOUND'' ''resource was not found'' 404"

definition err_FORBIDDEN :: failure where
  "err_FORBIDDEN = bantam ''FORBIDDEN'' ''the action is not permitted'' 403"

definition err_CONFLICT :: failure where
  "err_CONFLICT = bantam ''CONFLICT'' ''the action conflicts with current state'' 409"

definition err_INSUFFICIENT_FUNDS :: failure where
  "err_INSUFFICIENT_FUNDS =
     bantam ''INSUFFICIENT_FUNDS'' ''the source account has insufficient funds'' 422"

definition err_ACCOUNT_FROZEN :: failure where
  "err_ACCOUNT_FROZEN = bantam ''ACCOUNT_FROZEN'' ''one of the accounts is not active'' 422"

definition err_KYC_NOT_VERIFIED :: failure where
  "err_KYC_NOT_VERIFIED = bantam ''KYC_NOT_VERIFIED'' ''KYC verification is required'' 422"

definition err_SCA_REQUIRED :: failure where
  "err_SCA_REQUIRED = bantam ''SCA_REQUIRED'' ''a transaction-bound SCA challenge is required'' 422"

definition err_SCA_FAILED :: failure where
  "err_SCA_FAILED = bantam ''SCA_FAILED'' ''the SCA challenge is invalid or expired'' 422"

definition err_CURRENCY_MISMATCH :: failure where
  "err_CURRENCY_MISMATCH = bantam ''CURRENCY_MISMATCH'' ''account currencies do not match'' 422"

definition validation_error :: "string \<Rightarrow> string \<Rightarrow> failure" where
  "validation_error message code = bantam code message 422"

definition validation :: "string \<Rightarrow> failure" where
  "validation message = validation_error message ''VALIDATION_FAILED''"

lemmas error_defs =
  bantam_def bantam_error_def err_NOT_FOUND_def err_FORBIDDEN_def err_CONFLICT_def
  err_INSUFFICIENT_FUNDS_def err_ACCOUNT_FROZEN_def err_KYC_NOT_VERIFIED_def
  err_SCA_REQUIRED_def err_SCA_FAILED_def err_CURRENCY_MISMATCH_def
  validation_error_def validation_def

section \<open>Money (money.py)\<close>

definition balanced :: "int list \<Rightarrow> bool" where
  "balanced entries \<longleftrightarrow> sum_list entries = 0"

lemma balanced_pair: "balanced [- a, a]"
  by (simp add: balanced_def)

text \<open>
  \<open>f"{currency.upper()} {amount:,.2f}"\<close> for \<open>amount = Decimal(minor) / 100\<close>: the
  quotient has two decimals, so it is printed exactly.
\<close>

fun group_thousands_rev :: "string \<Rightarrow> string" where
  "group_thousands_rev (a # b # c # d # rest) =
     a # b # c # CHR '','' # group_thousands_rev (d # rest)"
| "group_thousands_rev s = s"

definition group_thousands :: "string \<Rightarrow> string" where
  "group_thousands s = rev (group_thousands_rev (rev s))"

definition format_minor :: "int \<Rightarrow> string \<Rightarrow> string" where
  "format_minor amount_minor currency =
     (let n = nat \<bar>amount_minor\<bar> in
      py_upper currency @ '' '' @ (if amount_minor < 0 then ''-'' else []) @
      group_thousands (nat_str (n div 100)) @ ''.'' @
      [digit (n mod 100 div 10), digit (n mod 10)])"

text \<open>The printed amount determines the amount: nothing is rounded away.\<close>

lemma filter_group_thousands_rev:
  "CHR '','' \<notin> set s \<Longrightarrow> filter (\<lambda>c. c \<noteq> CHR '','') (group_thousands_rev s) = s"
proof (induction s rule: group_thousands_rev.induct)
  case (1 a b c d rest)
  then show ?case by auto
qed auto

lemma filter_group_thousands:
  "CHR '','' \<notin> set s \<Longrightarrow> filter (\<lambda>c. c \<noteq> CHR '','') (group_thousands s) = s"
  by (simp add: group_thousands_def rev_filter [symmetric] filter_group_thousands_rev)

lemma comma_not_digit: "CHR '','' \<notin> set (nat_str n)"
  using nat_str_digits [of n] by (auto simp: is_digit_def ord_def)

lemma nat_str_inj: "nat_str m = nat_str n \<Longrightarrow> m = n"
  by (metis py_nat_nat_str option.inject)

lemma hd_nat_str: "is_digit (hd (nat_str n))"
  using nat_str_digits [of n] by (cases "nat_str n") auto

lemma group_thousands_nat_str:
  "group_thousands (nat_str m) = group_thousands (nat_str n) \<Longrightarrow> m = n"
  by (metis filter_group_thousands comma_not_digit nat_str_inj)

lemma hd_group_thousands_rev: "s \<noteq> [] \<Longrightarrow> last (group_thousands_rev s) = last s
    \<and> group_thousands_rev s \<noteq> []"
  by (induction s rule: group_thousands_rev.induct) (auto split: if_splits)

lemma hd_group_thousands: "s \<noteq> [] \<Longrightarrow> hd (group_thousands s) = hd s"
  using hd_group_thousands_rev [of "rev s"]
  by (simp add: group_thousands_def hd_rev last_rev)

lemma group_thousands_minus: "group_thousands (nat_str m) \<noteq> CHR ''-'' # xs"
proof
  assume h: "group_thousands (nat_str m) = CHR ''-'' # xs"
  have "hd (nat_str m) = CHR ''-''"
    using hd_group_thousands [of "nat_str m"] by (simp add: h)
  then show False using hd_nat_str [of m] by (simp add: is_digit_def ord_def)
qed

lemma dvd_numeral_100: "(10::nat) dvd 100"
  by simp

lemma format_minor_inj:
  assumes "format_minor a c = format_minor b c"
  shows "a = b"
proof -
  let ?g = "\<lambda>i::int. group_thousands (nat_str (nat \<bar>i\<bar> div 100))"
  let ?d = "\<lambda>i::int. [digit (nat \<bar>i\<bar> mod 100 div 10), digit (nat \<bar>i\<bar> mod 10)]"
  let ?s = "\<lambda>i::int. if i < 0 then ''-'' else []"
  from assms have all: "(?s a @ ?g a @ ''.'') @ ?d a = (?s b @ ?g b @ ''.'') @ ?d b"
    by (simp add: format_minor_def Let_def)
  then have d: "?d a = ?d b" and g: "?s a @ ?g a = ?s b @ ?g b"
    by (simp_all add: append_eq_append_conv)
  from g group_thousands_minus have neg: "(a < 0) = (b < 0)"
    by (auto split: if_splits) (metis)+
  with g have high: "nat \<bar>a\<bar> div 100 = nat \<bar>b\<bar> div 100"
    by (auto split: if_splits dest: group_thousands_nat_str)
  have small: "n mod 100 div 10 < 16" "n mod 10 < 16" for n :: nat
    by (auto intro: less_mult_imp_div_less order_less_trans [of _ 10])
  from d small have "nat \<bar>a\<bar> mod 100 div 10 = nat \<bar>b\<bar> mod 100 div 10"
    and "nat \<bar>a\<bar> mod 10 = nat \<bar>b\<bar> mod 10"
    by (auto intro: digit_inj)
  moreover have "n mod 100 = 10 * (n mod 100 div 10) + n mod 10" for n :: nat
    by (metis mod_mod_cancel [of 10 100] mult_div_mod_eq [of 10] dvd_numeral_100)
  ultimately have "nat \<bar>a\<bar> mod 100 = nat \<bar>b\<bar> mod 100"
    by (metis (no_types))
  with high have "nat \<bar>a\<bar> = nat \<bar>b\<bar>" by (metis div_mult_mod_eq)
  with neg show ?thesis by (auto split: if_splits)
qed

end
