(* ===== verification/Store.thy ===== *)
theory Store
  imports Domain
begin

text \<open>
  The PostgreSQL schema of \<open>migrations/*.sql\<close> as one state record, and the statements the
  components share.

  A table is the list of its rows, in insertion order. Columns that a CHECK constraint restricts to
  a set of strings are datatypes. Each \<open>insert_*\<close> function is one INSERT: it evaluates the
  column types (BIGINT), the CHECK constraints, the unique indexes and the foreign keys of the
  migrations and raises what the driver raises, or appends the row. \<open>update_balance\<close> is
  the balance UPDATE with the range of BIGINT, the non-negative trigger and the CHECK of
  \<open>002_security_hardening.sql\<close>; \<open>mark_reversed\<close> is the only UPDATE the history
  trigger admits on \<open>transactions\<close>. \<open>audit_record\<close> is \<open>audit.record\<close>.

  Text columns are taken to accept every string (the driver refuses a NUL byte, which no caller
  passes on purpose); defaults such as \<open>now()\<close> are arguments of the caller.
\<close>

section \<open>Column types\<close>

datatype json =
    JNull | JBool bool | JInt int | JStr string | JList "json list" | JObj "(string \<times> json) list"

datatype risk_rating = RATING_LOW | RATING_MEDIUM | RATING_HIGH
datatype customer_status = CUSTOMER_ACTIVE | CUSTOMER_SUSPENDED | CUSTOMER_CLOSED
datatype user_status = USER_ACTIVE | USER_LOCKED | USER_DISABLED
datatype account_type = CURRENT | SYSTEM
datatype transaction_status = TX_PENDING | TX_POSTED | TX_FAILED | TX_REVERSED
datatype direction = DEBIT | CREDIT
datatype challenge_status = CH_PENDING | CH_CONSUMED | CH_EXPIRED | CH_FAILED
datatype outbox_status = OB_PENDING | OB_PUBLISHING | OB_PUBLISHED
datatype severity = SEV_LOW | SEV_MEDIUM | SEV_HIGH | SEV_CRITICAL
datatype alert_status = ALERT_OPEN | ALERT_REVIEWED | ALERT_DISMISSED
datatype notification_direction = SENT | RECEIVED
datatype request_status = REQ_PENDING | REQ_APPROVED | REQ_REJECTED
datatype mfa_purpose = LOGIN | ENROLL_CHOICE | ENROLL_PASSKEY | ENROLL_TOTP

definition is_bigint :: "int \<Rightarrow> bool" where
  "is_bigint i \<longleftrightarrow> - (2 ^ 63) \<le> i \<and> i < 2 ^ 63"

section \<open>Rows\<close>

record customer_row =
  cu_customer_id :: uuid
  cu_legal_name :: string
  cu_date_of_birth :: string
  cu_email :: string
  cu_phone :: "string option"
  cu_kyc_status :: kyc_status
  cu_risk_rating :: risk_rating
  cu_status :: customer_status
  cu_created_at :: timestamp
  cu_updated_at :: timestamp

record user_row =
  ua_user_id :: uuid
  ua_email :: string
  ua_password_hash :: string
  ua_role :: role
  ua_customer_id :: "uuid option"
  ua_status :: user_status
  ua_mfa_enabled :: bool
  ua_created_at :: timestamp
  ua_updated_at :: timestamp

record account_row =
  ba_account_id :: uuid
  ba_customer_id :: "uuid option"
  ba_account_number_hash :: string
  ba_account_reference :: string
  ba_account_type :: account_type
  ba_currency :: string
  ba_status :: account_status
  ba_allow_negative :: bool
  ba_opened_at :: timestamp

record transaction_row =
  tx_transaction_id :: uuid
  tx_idempotency_key :: string
  tx_request_id :: uuid
  tx_initiated_by_user_id :: uuid
  tx_source_account_id :: uuid
  tx_destination_account_id :: uuid
  tx_amount_minor :: int
  tx_currency :: string
  tx_description :: string
  tx_transaction_type :: transaction_type
  tx_reverses_transaction_id :: "uuid option"
  tx_status :: transaction_status
  tx_failure_reason :: "string option"
  tx_created_at :: timestamp
  tx_posted_at :: "timestamp option"

record entry_row =
  le_ledger_entry_id :: uuid
  le_transaction_id :: uuid
  le_account_id :: uuid
  le_amount_minor :: int
  le_currency :: string
  le_direction :: direction
  le_entry_type :: transaction_type
  le_created_at :: timestamp

record balance_row =
  ab_account_id :: uuid
  ab_available_balance_minor :: int
  ab_current_balance_minor :: int
  ab_currency :: string
  ab_last_ledger_entry_id :: "uuid option"
  ab_updated_at :: timestamp

record challenge_row =
  sc_challenge_id :: uuid
  sc_user_id :: uuid
  sc_source_account_id :: uuid
  sc_destination_account_id :: uuid
  sc_amount_minor :: int
  sc_code_hash :: string
  sc_status :: challenge_status
  sc_expires_at :: timestamp
  sc_consumed_at :: "timestamp option"

record outbox_row =
  ob_outbox_event_id :: uuid
  ob_aggregate_type :: string
  ob_aggregate_id :: uuid
  ob_event_type :: string
  ob_event_version :: int
  ob_payload :: json
  ob_status :: outbox_status
  ob_publish_attempts :: int
  ob_last_error :: "string option"
  ob_claimed_at :: "timestamp option"
  ob_created_at :: timestamp
  ob_published_at :: "timestamp option"

record audit_row =
  au_audit_event_id :: uuid
  au_actor_type :: string
  au_actor_id :: string
  au_action :: string
  au_resource_type :: string
  au_resource_id :: string
  au_request_id :: uuid
  au_correlation_id :: uuid
  au_ip_address :: "ip_address option"
  au_user_agent :: "string option"
  au_metadata :: json
  au_created_at :: timestamp

record alert_row =
  ra_risk_alert_id :: uuid
  ra_transaction_id :: uuid
  ra_customer_id :: "uuid option"
  ra_rule_id :: string
  ra_severity :: severity
  ra_status :: alert_status
  ra_explanation :: string
  ra_created_at :: timestamp
  ra_reviewed_at :: "timestamp option"
  ra_reviewed_by :: "uuid option"

record notification_row =
  no_notification_id :: uuid
  no_customer_id :: uuid
  no_event_id :: uuid
  no_notification_type :: string
  no_subject :: string
  no_body :: string
  no_account_id :: "uuid option"
  no_direction :: "notification_direction option"
  no_created_at :: timestamp
  no_read_at :: "timestamp option"

record revocation_row =
  sr_jti :: uuid
  sr_user_id :: uuid
  sr_expires_at :: timestamp
  sr_revoked_at :: timestamp

record auditor_request_row =
  ar_request_id :: uuid
  ar_user_id :: uuid
  ar_status :: request_status
  ar_decided_by :: "uuid option"
  ar_decision_reason :: "string option"
  ar_requested_at :: timestamp
  ar_decided_at :: "timestamp option"

record webauthn_row =
  wc_webauthn_credential_id :: uuid
  wc_user_id :: uuid
  wc_credential_id :: string
  wc_public_key :: string
  wc_sign_count :: int
  wc_transports :: "string list"
  wc_device_type :: string
  wc_backed_up :: bool
  wc_label :: string
  wc_created_at :: timestamp
  wc_last_used_at :: "timestamp option"
  wc_revoked_at :: "timestamp option"

record totp_row =
  to_user_id :: uuid
  to_encrypted_secret :: string
  to_label :: string
  to_last_used_step :: int
  to_confirmed_at :: timestamp
  to_last_used_at :: "timestamp option"
  to_revoked_at :: "timestamp option"

record mfa_row =
  mf_transaction_id :: uuid
  mf_user_id :: uuid
  mf_purpose :: mfa_purpose
  mf_challenge :: "string option"
  mf_pending_secret :: "string option"
  mf_factor_label :: "string option"
  mf_source_jti :: "uuid option"
  mf_source_expires_at :: "timestamp option"
  mf_attempts :: int
  mf_expires_at :: timestamp
  mf_consumed_at :: "timestamp option"

record permission_row =
  ap_user_id :: uuid
  ap_scope :: string
  ap_granted_by :: "uuid option"

record rate_limit_row =
  rl_key_hash :: string
  rl_window_started_at :: timestamp
  rl_attempts :: int
  rl_updated_at :: timestamp

section \<open>The database\<close>

record db =
  customers :: "customer_row list"
  user_accounts :: "user_row list"
  bank_accounts :: "account_row list"
  transactions :: "transaction_row list"
  ledger_entries :: "entry_row list"
  account_balances :: "balance_row list"
  sca_challenges :: "challenge_row list"
  outbox_events :: "outbox_row list"
  audit_events :: "audit_row list"
  risk_alerts :: "alert_row list"
  notifications :: "notification_row list"
  session_revocations :: "revocation_row list"
  aspis_auditor_requests :: "auditor_request_row list"
  webauthn_credentials :: "webauthn_row list"
  totp_credentials :: "totp_row list"
  mfa_transactions :: "mfa_row list"
  admin_permissions :: "permission_row list"
  auth_rate_limits :: "rate_limit_row list"

definition empty_db :: db where
  "empty_db = \<lparr>customers = [], user_accounts = [], bank_accounts = [], transactions = [],
     ledger_entries = [], account_balances = [], sca_challenges = [], outbox_events = [],
     audit_events = [], risk_alerts = [], notifications = [], session_revocations = [],
     aspis_auditor_requests = [], webauthn_credentials = [], totp_credentials = [],
     mfa_transactions = [], admin_permissions = [], auth_rate_limits = []\<rparr>"

section \<open>INSERT statements\<close>

definition insert_customer :: "customer_row \<Rightarrow> db \<Rightarrow> failure + db" where
  "insert_customer c d =
     (if known cu_customer_id (cu_customer_id c) (customers d)
      then Inl (UniqueViolation ''customers_pkey'')
      else if known cu_email (cu_email c) (customers d)
      then Inl (UniqueViolation ''customers_email_key'')
      else Inr (d\<lparr>customers := customers d @ [c]\<rparr>))"

definition insert_user :: "user_row \<Rightarrow> db \<Rightarrow> failure + db" where
  "insert_user u d =
     (if (ua_role u = CUSTOMER) \<noteq> (ua_customer_id u \<noteq> None)
      then Inl (CheckViolation ''user_accounts_check'')
      else if known ua_user_id (ua_user_id u) (user_accounts d)
      then Inl (UniqueViolation ''user_accounts_pkey'')
      else if known ua_email (ua_email u) (user_accounts d)
      then Inl (UniqueViolation ''user_accounts_email_key'')
      else if ua_customer_id u \<noteq> None \<and> known ua_customer_id (ua_customer_id u) (user_accounts d)
      then Inl (UniqueViolation ''user_accounts_customer_id_key'')
      else if (case ua_customer_id u of None \<Rightarrow> False
               | Some c \<Rightarrow> \<not> known cu_customer_id c (customers d))
      then Inl (ForeignKeyViolation ''user_accounts_customer_id_fkey'')
      else Inr (d\<lparr>user_accounts := user_accounts d @ [u]\<rparr>))"

definition insert_account :: "account_row \<Rightarrow> db \<Rightarrow> failure + db" where
  "insert_account a d =
     (if \<not> (ba_account_type a = SYSTEM \<and> ba_customer_id a = None \<and> ba_allow_negative a \<or>
             ba_account_type a = CURRENT \<and> ba_customer_id a \<noteq> None \<and> \<not> ba_allow_negative a)
      then Inl (CheckViolation ''bank_accounts_check'')
      else if known ba_account_id (ba_account_id a) (bank_accounts d)
      then Inl (UniqueViolation ''bank_accounts_pkey'')
      else if known ba_account_number_hash (ba_account_number_hash a) (bank_accounts d)
      then Inl (UniqueViolation ''bank_accounts_account_number_hash_key'')
      else if known ba_account_reference (ba_account_reference a) (bank_accounts d)
      then Inl (UniqueViolation ''bank_accounts_account_reference_key'')
      else if (case ba_customer_id a of None \<Rightarrow> False
               | Some c \<Rightarrow> \<not> known cu_customer_id c (customers d))
      then Inl (ForeignKeyViolation ''bank_accounts_customer_id_fkey'')
      else Inr (d\<lparr>bank_accounts := bank_accounts d @ [a]\<rparr>))"

text \<open>The row trigger of \<open>account_balances\<close>, run before an INSERT or an UPDATE.\<close>

definition reject_negative_customer_balance :: "balance_row \<Rightarrow> db \<Rightarrow> failure option" where
  "reject_negative_customer_balance b d =
     (case row_get ba_account_id (ab_account_id b) (bank_accounts d) of
        None \<Rightarrow> Some (RaiseException ''balance references an unknown account'')
      | Some a \<Rightarrow>
          if \<not> ba_allow_negative a \<and>
             (ab_current_balance_minor b < 0 \<or> ab_available_balance_minor b < 0)
          then Some (CheckViolation ''account_balances_non_negative'')
          else None)"

definition write_balance :: "balance_row \<Rightarrow> db \<Rightarrow> failure option" where
  "write_balance b d =
     (if \<not> is_bigint (ab_current_balance_minor b) \<or> \<not> is_bigint (ab_available_balance_minor b)
      then Some NumericValueOutOfRange
      else case reject_negative_customer_balance b d of
             Some e \<Rightarrow> Some e
           | None \<Rightarrow>
               if ab_available_balance_minor b > ab_current_balance_minor b
               then Some (CheckViolation ''account_balances_available_not_above_current'')
               else if (case ab_last_ledger_entry_id b of None \<Rightarrow> False
                        | Some e \<Rightarrow> \<not> known le_ledger_entry_id e (ledger_entries d))
               then Some (ForeignKeyViolation ''account_balances_last_ledger_entry_id_fkey'')
               else None)"

definition insert_balance :: "balance_row \<Rightarrow> db \<Rightarrow> failure + db" where
  "insert_balance b d =
     (case write_balance b d of
        Some e \<Rightarrow> Inl e
      | None \<Rightarrow>
          if known ab_account_id (ab_account_id b) (account_balances d)
          then Inl (UniqueViolation ''account_balances_pkey'')
          else Inr (d\<lparr>account_balances := account_balances d @ [b]\<rparr>))"

definition insert_transaction :: "transaction_row \<Rightarrow> db \<Rightarrow> failure + db" where
  "insert_transaction t d =
     (if \<not> is_bigint (tx_amount_minor t) then Inl NumericValueOutOfRange
      else if tx_amount_minor t \<le> 0 then Inl (CheckViolation ''transactions_amount_minor_check'')
      else if tx_source_account_id t = tx_destination_account_id t
      then Inl (CheckViolation ''transactions_check'')
      else if known tx_transaction_id (tx_transaction_id t) (transactions d)
      then Inl (UniqueViolation ''transactions_pkey'')
      else if known (\<lambda>r. (tx_initiated_by_user_id r, tx_idempotency_key r))
                (tx_initiated_by_user_id t, tx_idempotency_key t) (transactions d)
      then Inl (UniqueViolation ''idx_transactions_idempotency'')
      else if tx_reverses_transaction_id t \<noteq> None \<and>
              known tx_reverses_transaction_id (tx_reverses_transaction_id t) (transactions d)
      then Inl (UniqueViolation ''idx_transactions_single_reversal'')
      else if \<not> known ua_user_id (tx_initiated_by_user_id t) (user_accounts d)
      then Inl (ForeignKeyViolation ''transactions_initiated_by_user_id_fkey'')
      else if \<not> known ba_account_id (tx_source_account_id t) (bank_accounts d)
      then Inl (ForeignKeyViolation ''transactions_source_account_id_fkey'')
      else if \<not> known ba_account_id (tx_destination_account_id t) (bank_accounts d)
      then Inl (ForeignKeyViolation ''transactions_destination_account_id_fkey'')
      else if (case tx_reverses_transaction_id t of None \<Rightarrow> False
               | Some r \<Rightarrow> \<not> known tx_transaction_id r (transactions d) \<and> r \<noteq> tx_transaction_id t)
      then Inl (ForeignKeyViolation ''transactions_reverses_transaction_id_fkey'')
      else Inr (d\<lparr>transactions := transactions d @ [t]\<rparr>))"

definition insert_entry :: "entry_row \<Rightarrow> db \<Rightarrow> failure + db" where
  "insert_entry e d =
     (if \<not> is_bigint (le_amount_minor e) then Inl NumericValueOutOfRange
      else if le_amount_minor e = 0
      then Inl (CheckViolation ''ledger_entries_amount_minor_check'')
      else if \<not> (le_direction e = DEBIT \<and> le_amount_minor e < 0 \<or>
                  le_direction e = CREDIT \<and> le_amount_minor e > 0)
      then Inl (CheckViolation ''ledger_entries_check'')
      else if known le_ledger_entry_id (le_ledger_entry_id e) (ledger_entries d)
      then Inl (UniqueViolation ''ledger_entries_pkey'')
      else if \<not> known tx_transaction_id (le_transaction_id e) (transactions d)
      then Inl (ForeignKeyViolation ''ledger_entries_transaction_id_fkey'')
      else if \<not> known ba_account_id (le_account_id e) (bank_accounts d)
      then Inl (ForeignKeyViolation ''ledger_entries_account_id_fkey'')
      else Inr (d\<lparr>ledger_entries := ledger_entries d @ [e]\<rparr>))"

text \<open>The deferred constraint trigger, run for the inserted entries when the transaction commits.\<close>

definition assert_transaction_balanced :: "uuid \<Rightarrow> db \<Rightarrow> bool" where
  "assert_transaction_balanced tid d \<longleftrightarrow>
     length (filter (\<lambda>e. le_transaction_id e = tid) (ledger_entries d)) \<ge> 2 \<and>
     sum_where (\<lambda>e. le_transaction_id e = tid) le_amount_minor (ledger_entries d) = 0"

definition commit_balanced :: "uuid \<Rightarrow> db \<Rightarrow> failure + db" where
  "commit_balanced tid d =
     (if assert_transaction_balanced tid d then Inr d
      else Inl (RaiseException ''transaction is not balanced''))"

definition insert_challenge :: "challenge_row \<Rightarrow> db \<Rightarrow> failure + db" where
  "insert_challenge c d =
     (if \<not> is_bigint (sc_amount_minor c) then Inl NumericValueOutOfRange
      else if sc_amount_minor c \<le> 0
      then Inl (CheckViolation ''sca_challenges_amount_minor_check'')
      else if known sc_challenge_id (sc_challenge_id c) (sca_challenges d)
      then Inl (UniqueViolation ''sca_challenges_pkey'')
      else if \<not> known ua_user_id (sc_user_id c) (user_accounts d)
      then Inl (ForeignKeyViolation ''sca_challenges_user_id_fkey'')
      else if \<not> known ba_account_id (sc_source_account_id c) (bank_accounts d)
      then Inl (ForeignKeyViolation ''sca_challenges_source_account_id_fkey'')
      else if \<not> known ba_account_id (sc_destination_account_id c) (bank_accounts d)
      then Inl (ForeignKeyViolation ''sca_challenges_destination_account_id_fkey'')
      else Inr (d\<lparr>sca_challenges := sca_challenges d @ [c]\<rparr>))"

definition insert_outbox :: "outbox_row \<Rightarrow> db \<Rightarrow> failure + db" where
  "insert_outbox o' d =
     (if known ob_outbox_event_id (ob_outbox_event_id o') (outbox_events d)
      then Inl (UniqueViolation ''outbox_events_pkey'')
      else Inr (d\<lparr>outbox_events := outbox_events d @ [o']\<rparr>))"

definition outbox_pending ::
  "uuid \<Rightarrow> string \<Rightarrow> uuid \<Rightarrow> string \<Rightarrow> json \<Rightarrow> timestamp \<Rightarrow> outbox_row" where
  "outbox_pending i aggregate_type aggregate_id event_type payload now =
     \<lparr>ob_outbox_event_id = i, ob_aggregate_type = aggregate_type, ob_aggregate_id = aggregate_id,
      ob_event_type = event_type, ob_event_version = 1, ob_payload = payload,
      ob_status = OB_PENDING, ob_publish_attempts = 0, ob_last_error = None,
      ob_claimed_at = None, ob_created_at = now, ob_published_at = None\<rparr>"

section \<open>UPDATE statements with triggers\<close>

definition update_balance :: "uuid \<Rightarrow> int \<Rightarrow> uuid \<Rightarrow> timestamp \<Rightarrow> db \<Rightarrow> failure + db" where
  "update_balance acct delta entry now d =
     (case row_get ab_account_id acct (account_balances d) of
        None \<Rightarrow> Inr d
      | Some b \<Rightarrow>
          let b' = b\<lparr>ab_current_balance_minor := ab_current_balance_minor b + delta,
                     ab_available_balance_minor := ab_available_balance_minor b + delta,
                     ab_last_ledger_entry_id := Some entry, ab_updated_at := now\<rparr> in
          case write_balance b' d of
            Some e \<Rightarrow> Inl e
          | None \<Rightarrow>
              Inr (d\<lparr>account_balances :=
                       rows_update (\<lambda>r. ab_account_id r = acct) (\<lambda>_. b') (account_balances d)\<rparr>))"

text \<open>
  \<open>UPDATE transactions SET status = 'REVERSED'\<close>: the row trigger refuses it unless the row is
  POSTED; the other columns are unchanged, as the trigger also demands.
\<close>

definition mark_reversed :: "uuid \<Rightarrow> db \<Rightarrow> failure + db" where
  "mark_reversed tid d =
     (if \<exists>t \<in> set (transactions d). tx_transaction_id t = tid \<and> tx_status t \<noteq> TX_POSTED
      then Inl (RaiseException ''posted transaction history is immutable'')
      else Inr (d\<lparr>transactions :=
                    rows_update (\<lambda>t. tx_transaction_id t = tid) (tx_status_update (\<lambda>_. TX_REVERSED))
                      (transactions d)\<rparr>))"

section \<open>Audit evidence (audit.py)\<close>

record audit_args =
  aa_actor_type :: string
  aa_actor_id :: string
  aa_action :: string
  aa_resource_type :: string
  aa_resource_id :: string
  aa_request_id :: "uuid option"
  aa_correlation_id :: "uuid option"
  aa_ip_address :: "string option"
  aa_user_agent :: "string option"
  aa_metadata :: json

text \<open>
  \<open>ip_address\<close> is an INET column: text that is no address is refused by the server. A
  \<open>uuid4()\<close> that the code may draw for the request is an argument, as is the event's own.
\<close>

record audit_fresh =
  af_request :: uuid
  af_event :: uuid
  af_now :: timestamp

definition audit_record :: "audit_args \<Rightarrow> audit_fresh \<Rightarrow> db \<Rightarrow> failure + db" where
  "audit_record a fx d =
     (let request_id = (case aa_request_id a of Some r \<Rightarrow> r | None \<Rightarrow> af_request fx);
          correlation_id = (case aa_correlation_id a of Some c \<Rightarrow> c | None \<Rightarrow> request_id) in
      case (case aa_ip_address a of None \<Rightarrow> Some None | Some s \<Rightarrow> map_option Some (parse_ip s)) of
        None \<Rightarrow> Inl (DataError ''invalid input syntax for type inet'')
      | Some ip \<Rightarrow>
          if known au_audit_event_id (af_event fx) (audit_events d)
          then Inl (UniqueViolation ''audit_events_pkey'')
          else Inr (d\<lparr>audit_events := audit_events d @
            [\<lparr>au_audit_event_id = af_event fx, au_actor_type = aa_actor_type a,
              au_actor_id = aa_actor_id a, au_action = aa_action a,
              au_resource_type = aa_resource_type a, au_resource_id = aa_resource_id a,
              au_request_id = request_id, au_correlation_id = correlation_id,
              au_ip_address = ip, au_user_agent = aa_user_agent a,
              au_metadata = aa_metadata a, au_created_at = af_now fx\<rparr>]\<rparr>))"

section \<open>What a statement that succeeded did\<close>

lemma insert_customer_InrD:
  "insert_customer c d = Inr d' \<Longrightarrow> d' = d\<lparr>customers := customers d @ [c]\<rparr> \<and>
     \<not> known cu_customer_id (cu_customer_id c) (customers d) \<and>
     \<not> known cu_email (cu_email c) (customers d)"
  by (auto simp: insert_customer_def split: if_splits)

lemma insert_user_InrD:
  "insert_user u d = Inr d' \<Longrightarrow> d' = d\<lparr>user_accounts := user_accounts d @ [u]\<rparr> \<and>
     \<not> known ua_user_id (ua_user_id u) (user_accounts d) \<and>
     \<not> known ua_email (ua_email u) (user_accounts d) \<and>
     (ua_role u = CUSTOMER) = (ua_customer_id u \<noteq> None) \<and>
     (ua_customer_id u \<noteq> None \<longrightarrow> \<not> known ua_customer_id (ua_customer_id u) (user_accounts d)) \<and>
     (\<forall>c. ua_customer_id u = Some c \<longrightarrow> known cu_customer_id c (customers d))"
  by (auto simp: insert_user_def split: if_splits option.splits)

lemma insert_account_InrD:
  "insert_account a d = Inr d' \<Longrightarrow> d' = d\<lparr>bank_accounts := bank_accounts d @ [a]\<rparr> \<and>
     \<not> known ba_account_id (ba_account_id a) (bank_accounts d) \<and>
     (ba_customer_id a = None \<longleftrightarrow> ba_allow_negative a)"
  by (auto simp: insert_account_def split: if_splits)

lemma write_balance_NoneD:
  "write_balance b d = None \<Longrightarrow>
     is_bigint (ab_current_balance_minor b) \<and> is_bigint (ab_available_balance_minor b) \<and>
     ab_available_balance_minor b \<le> ab_current_balance_minor b \<and>
     (\<exists>a. row_get ba_account_id (ab_account_id b) (bank_accounts d) = Some a \<and>
        (ba_allow_negative a \<or> 0 \<le> ab_current_balance_minor b \<and> 0 \<le> ab_available_balance_minor b))"
  by (auto simp: write_balance_def reject_negative_customer_balance_def split: if_splits option.splits)

lemma insert_balance_InrD:
  "insert_balance b d = Inr d' \<Longrightarrow> d' = d\<lparr>account_balances := account_balances d @ [b]\<rparr> \<and>
     write_balance b d = None \<and> \<not> known ab_account_id (ab_account_id b) (account_balances d)"
  by (auto simp: insert_balance_def split: if_splits option.splits)

lemma insert_transaction_InrD:
  "insert_transaction t d = Inr d' \<Longrightarrow> d' = d\<lparr>transactions := transactions d @ [t]\<rparr> \<and>
     is_bigint (tx_amount_minor t) \<and> 0 < tx_amount_minor t \<and>
     tx_source_account_id t \<noteq> tx_destination_account_id t \<and>
     \<not> known tx_transaction_id (tx_transaction_id t) (transactions d) \<and>
     \<not> known (\<lambda>r. (tx_initiated_by_user_id r, tx_idempotency_key r))
         (tx_initiated_by_user_id t, tx_idempotency_key t) (transactions d) \<and>
     (tx_reverses_transaction_id t \<noteq> None \<longrightarrow>
        \<not> known tx_reverses_transaction_id (tx_reverses_transaction_id t) (transactions d)) \<and>
     known ba_account_id (tx_source_account_id t) (bank_accounts d) \<and>
     known ba_account_id (tx_destination_account_id t) (bank_accounts d)"
  by (auto simp: insert_transaction_def split: if_splits)

lemma insert_entry_InrD:
  "insert_entry e d = Inr d' \<Longrightarrow> d' = d\<lparr>ledger_entries := ledger_entries d @ [e]\<rparr> \<and>
     \<not> known le_ledger_entry_id (le_ledger_entry_id e) (ledger_entries d) \<and>
     known tx_transaction_id (le_transaction_id e) (transactions d) \<and>
     known ba_account_id (le_account_id e) (bank_accounts d)"
  by (auto simp: insert_entry_def split: if_splits)

lemma commit_balanced_InrD:
  "commit_balanced tid d = Inr d' \<Longrightarrow> d' = d \<and> assert_transaction_balanced tid d"
  by (auto simp: commit_balanced_def split: if_splits)

lemma insert_challenge_InrD:
  "insert_challenge c d = Inr d' \<Longrightarrow> d' = d\<lparr>sca_challenges := sca_challenges d @ [c]\<rparr> \<and>
     is_bigint (sc_amount_minor c) \<and> 0 < sc_amount_minor c \<and>
     \<not> known sc_challenge_id (sc_challenge_id c) (sca_challenges d)"
  by (auto simp: insert_challenge_def split: if_splits)

lemma insert_outbox_InrD:
  "insert_outbox ev d = Inr d' \<Longrightarrow> d' = d\<lparr>outbox_events := outbox_events d @ [ev]\<rparr> \<and>
     \<not> known ob_outbox_event_id (ob_outbox_event_id ev) (outbox_events d)"
  by (auto simp: insert_outbox_def split: if_splits)

lemma update_balance_InrD:
  "update_balance acct delta entry now d = Inr d' \<Longrightarrow>
     \<exists>f. d' = d\<lparr>account_balances := rows_update (\<lambda>r. ab_account_id r = acct) f (account_balances d)\<rparr> \<and>
       (\<forall>b. row_get ab_account_id acct (account_balances d) = Some b \<longrightarrow>
          write_balance (f b) d = None \<and>
          (\<forall>r. f r = b\<lparr>ab_current_balance_minor := ab_current_balance_minor b + delta,
             ab_available_balance_minor := ab_available_balance_minor b + delta,
             ab_last_ledger_entry_id := Some entry, ab_updated_at := now\<rparr>))"
proof (cases "row_get ab_account_id acct (account_balances d)")
  case None
  assume "update_balance acct delta entry now d = Inr d'"
  with None have "d' = d" by (simp add: update_balance_def)
  moreover from None have "rows_update (\<lambda>r. ab_account_id r = acct) id (account_balances d) = account_balances d"
    by (intro rows_update_none) (auto simp: row_get_None)
  ultimately show ?thesis using None by (intro exI [of _ id]) simp
next
  case (Some b)
  assume "update_balance acct delta entry now d = Inr d'"
  with Some show ?thesis
    by (auto simp: update_balance_def Let_def split: option.splits)
qed

lemma mark_reversed_InrD:
  "mark_reversed tid d = Inr d' \<Longrightarrow> d' = d\<lparr>transactions :=
     rows_update (\<lambda>t. tx_transaction_id t = tid) (tx_status_update (\<lambda>_. TX_REVERSED)) (transactions d)\<rparr>"
  by (auto simp: mark_reversed_def split: if_splits)

lemma audit_record_InrD:
  "audit_record a fx d = Inr d' \<Longrightarrow>
     \<exists>row. d' = d\<lparr>audit_events := audit_events d @ [row]\<rparr> \<and> au_action row = aa_action a \<and>
       au_actor_id row = aa_actor_id a \<and> au_resource_id row = aa_resource_id a"
  by (auto simp: audit_record_def Let_def split: option.splits if_splits)

end
