(* ===== verification/Security.thy ===== *)
theory Security
  imports Net "HOL-Library.Code_Target_Nat"
begin

text \<open>
  The helpers at the trust boundaries: \<open>bantam/security.py\<close>, apart from the two rate limiters.

  A request is what the helpers read of it: the peer address, method, scheme, path, headers and
  cookies. Header names are kept in lower case, the way the case-insensitive lookup sees them.
\<close>

record http_request =
  rq_client_host :: "string option"
  rq_method :: string
  rq_scheme :: string
  rq_path :: string
  rq_headers :: "(string \<times> string) list"
  rq_cookies :: "(string \<times> string) list"

definition lookup_default :: "string \<Rightarrow> (string \<times> string) list \<Rightarrow> string \<Rightarrow> string" where
  "lookup_default k kvs v = (case map_of kvs k of None \<Rightarrow> v | Some x \<Rightarrow> x)"

definition MAX_BCRYPT_PASSWORD_BYTES :: nat where "MAX_BCRYPT_PASSWORD_BYTES = 72"
definition MIN_PASSWORD_LENGTH :: nat where "MIN_PASSWORD_LENGTH = 14"
definition MAX_FORWARDED_HOPS :: nat where "MAX_FORWARDED_HOPS = 10"
definition SAFE_HTTP_METHODS :: "string list" where
  "SAFE_HTTP_METHODS = [''GET'', ''HEAD'', ''OPTIONS'', ''TRACE'']"
definition SESSION_COOKIE_NAME :: string where "SESSION_COOKIE_NAME = ''bantam_session''"
definition CSRF_COOKIE_NAME :: string where "CSRF_COOKIE_NAME = ''bantam_csrf''"

section \<open>The client address\<close>

definition is_trusted :: "ip_address \<Rightarrow> ip_network list \<Rightarrow> bool" where
  "is_trusted address networks \<longleftrightarrow>
     list_ex (\<lambda>network. ip_version address = net_version network \<and> in_network address network) networks"

definition forwarded_values :: "string \<Rightarrow> string list" where
  "forwarded_values raw = filter (\<lambda>v. v \<noteq> []) (map py_strip (py_split (CHR '','') raw))"

fun parse_chain :: "string list \<Rightarrow> ip_address list option" where
  "parse_chain [] = Some []"
| "parse_chain (v # vs) =
     (case parse_ip v of
        None \<Rightarrow> None
      | Some a \<Rightarrow> (case parse_chain vs of None \<Rightarrow> None | Some as \<Rightarrow> Some (a # as)))"

definition client_ip :: "http_request \<Rightarrow> ip_network list \<Rightarrow> string" where
  "client_ip request trusted =
     (let raw_peer = (case rq_client_host request of None \<Rightarrow> [] | Some h \<Rightarrow> h) in
      case parse_ip raw_peer of
        None \<Rightarrow> ''unknown''
      | Some peer \<Rightarrow>
          if \<not> is_trusted peer trusted then compressed peer
          else
            let values = forwarded_values (lookup_default ''x-forwarded-for'' (rq_headers request) []) in
            if values = [] \<or> length values > MAX_FORWARDED_HOPS then compressed peer
            else case parse_chain values of
              None \<Rightarrow> compressed peer
            | Some chain \<Rightarrow>
                (case find (\<lambda>a. \<not> is_trusted a trusted) (rev (chain @ [peer])) of
                   Some a \<Rightarrow> compressed a
                 | None \<Rightarrow> compressed (hd chain)))"

section \<open>Response headers\<close>

definition SECURITY_HEADERS :: "(string \<times> string) list" where
  "SECURITY_HEADERS =
     [(''X-Content-Type-Options'', ''nosniff''),
      (''X-Frame-Options'', ''DENY''),
      (''Referrer-Policy'', ''no-referrer''),
      (''Permissions-Policy'', ''camera=(), microphone=(), geolocation=(), payment=()''),
      (''Cross-Origin-Resource-Policy'', ''same-origin''),
      (''Cross-Origin-Opener-Policy'', ''same-origin'')]"

definition API_CONTENT_SECURITY_POLICY :: string where
  "API_CONTENT_SECURITY_POLICY =
     ''default-src 'none'; frame-ancestors 'none'; base-uri 'none'; form-action 'none'' @ [CHR 0x27]"

definition DOCS_CONTENT_SECURITY_POLICY :: string where
  "DOCS_CONTENT_SECURITY_POLICY =
     ''default-src 'none'; img-src 'self' data: https://fastapi.tiangolo.com; '' @
     ''script-src 'self' 'unsafe-inline' https://cdn.jsdelivr.net; '' @
     ''style-src 'self' 'unsafe-inline' https://cdn.jsdelivr.net; '' @
     ''font-src 'self' https://cdn.jsdelivr.net; frame-ancestors 'none'; '' @
     ''base-uri 'none'; form-action 'none'' @ [CHR 0x27]"

text \<open>\<open>headers.setdefault\<close> compares names without case.\<close>

definition setdefault :: "string \<Rightarrow> string \<Rightarrow> (string \<times> string) list \<Rightarrow> (string \<times> string) list" where
  "setdefault name v headers =
     (if list_ex (\<lambda>h. py_lower (fst h) = py_lower name) headers then headers else headers @ [(name, v)])"

definition add_security_headers :: "http_request \<Rightarrow> (string \<times> string) list \<Rightarrow> (string \<times> string) list" where
  "add_security_headers request headers =
     (let h1 = foldl (\<lambda>h nv. setdefault (fst nv) (snd nv) h) headers SECURITY_HEADERS;
          docs_path = list_ex (py_startswith (rq_path request)) [''/docs'', ''/redoc'', ''/openapi.json''];
          h2 = setdefault ''Content-Security-Policy''
                 (if docs_path then DOCS_CONTENT_SECURITY_POLICY else API_CONTENT_SECURITY_POLICY) h1;
          h3 = setdefault ''Cache-Control'' ''no-store'' h2;
          h4 = setdefault ''Pragma'' ''no-cache'' h3 in
      if rq_scheme request = ''https''
      then setdefault ''Strict-Transport-Security'' ''max-age=31536000; includeSubDomains'' h4
      else h4)"

section \<open>Passwords\<close>

text \<open>
  \<open>str.casefold\<close> on the characters below 256 (the micro sign, whose folding is outside that
  range, is left alone).
\<close>

definition casefold_char :: "char \<Rightarrow> string" where
  "casefold_char c =
     (if is_upper c \<or> (192 \<le> ord c \<and> ord c \<le> 222 \<and> ord c \<noteq> 215) then [chr (ord c + 32)]
      else if ord c = 223 then ''ss'' else [c])"

definition py_casefold :: "string \<Rightarrow> string" where
  "py_casefold s = concat (map casefold_char s)"

definition password_classes :: "((char \<Rightarrow> bool) \<times> string) list" where
  "password_classes =
     [(is_lower, ''a lowercase letter''), (is_upper, ''an uppercase letter''),
      (is_digit, ''a number''), (\<lambda>c. \<not> is_alnum c, ''a symbol'')]"

text \<open>\<open>cleaned.split("@", 1)[0]\<close>\<close>

definition local_part :: "string \<Rightarrow> string" where
  "local_part s = takeWhile (\<lambda>c. c \<noteq> CHR ''@'') s"

definition personal :: "string \<Rightarrow> string \<Rightarrow> bool" where
  "personal folded v \<longleftrightarrow>
     (let cleaned = py_casefold (py_strip v); local = local_part cleaned in
      (length cleaned \<ge> 4 \<and> py_contains folded cleaned) \<or>
      (length local \<ge> 4 \<and> py_contains folded local))"

definition password_problem :: "string \<Rightarrow> string list \<Rightarrow> string option" where
  "password_problem password disallowed_values =
     (if length password < MIN_PASSWORD_LENGTH
      then Some (''password must be at least '' @ nat_str MIN_PASSWORD_LENGTH @ '' characters'')
      else if utf8_length password > MAX_BCRYPT_PASSWORD_BYTES
      then Some ''password must be 72 bytes or fewer''
      else
        let missing = map snd (filter (\<lambda>cl. \<not> list_ex (fst cl) password) password_classes) in
        if missing \<noteq> [] then Some (''password must include '' @ py_join '', '' missing)
        else if list_ex (personal (py_casefold password)) disallowed_values
        then Some ''password must not contain personal details''
        else None)"

section \<open>Idempotency keys and CSRF\<close>

definition idempotency_char :: "char \<Rightarrow> bool" where
  "idempotency_char c \<longleftrightarrow> is_alnum c \<or> c \<in> set ''._:-''"

definition IDEMPOTENCY_KEY_PATTERN :: "string \<Rightarrow> bool" where
  "IDEMPOTENCY_KEY_PATTERN s \<longleftrightarrow> 8 \<le> length s \<and> length s \<le> 128 \<and> list_all idempotency_char s"

definition normalise_idempotency_key :: "string option \<Rightarrow> string + string" where
  "normalise_idempotency_key raw =
     (let v = py_strip (case raw of None \<Rightarrow> [] | Some r \<Rightarrow> r) in
      if v = [] then Inl ''required''
      else if \<not> IDEMPOTENCY_KEY_PATTERN v then Inl ''invalid''
      else Inr v)"

definition csrf_problem :: "http_request \<Rightarrow> string option" where
  "csrf_problem request =
     (if py_upper (rq_method request) \<in> set SAFE_HTTP_METHODS then None
      else if py_lower (lookup_default ''sec-fetch-site'' (rq_headers request) []) = ''cross-site''
      then Some ''cross-site request rejected''
      else
        let cookie = lookup_default CSRF_COOKIE_NAME (rq_cookies request) [];
            header = lookup_default ''x-csrf-token'' (rq_headers request) [] in
        if cookie = [] \<or> header = [] \<or> length cookie > 128 \<or> length header > 128
        then Some ''CSRF token is required''
        else if cookie \<noteq> header then Some ''CSRF token is invalid''
        else None)"

section \<open>The body limit\<close>

datatype asgi_message =
    HttpDisconnect
  | HttpRequest (msg_body: string) (msg_more: bool)
  | OtherMessage

datatype body_outcome =
    Reject int string string       \<comment> \<open>status, code, message\<close>
  | Disconnected                   \<comment> \<open>the middleware returns without an answer\<close>
  | Deliver string                 \<comment> \<open>the application runs on this body\<close>
  | Receiving                      \<comment> \<open>the messages so far do not end the request\<close>

fun receive_body :: "int \<Rightarrow> string \<Rightarrow> asgi_message list \<Rightarrow> body_outcome" where
  "receive_body max_bytes body [] = Receiving"
| "receive_body max_bytes body (HttpDisconnect # ms) = Disconnected"
| "receive_body max_bytes body (OtherMessage # ms) = receive_body max_bytes body ms"
| "receive_body max_bytes body (HttpRequest chunk more_body # ms) =
     (let body' = body @ chunk in
      if int (length body') > max_bytes
      then Reject 413 ''REQUEST_TOO_LARGE'' ''request body is too large''
      else if more_body then receive_body max_bytes body' ms
      else Deliver body')"

text \<open>The header list of the scope becomes a dictionary: the last value of a name wins.\<close>

definition limit_body ::
  "int \<Rightarrow> (string \<times> string) list \<Rightarrow> asgi_message list \<Rightarrow> body_outcome" where
  "limit_body max_bytes headers messages =
     (case map_of (rev (map (\<lambda>h. (py_lower (fst h), snd h)) headers)) ''content-length'' of
        None \<Rightarrow> receive_body max_bytes [] messages
      | Some raw_length \<Rightarrow>
          (case py_int raw_length of
             None \<Rightarrow> Reject 400 ''INVALID_CONTENT_LENGTH'' ''invalid request size''
           | Some declared \<Rightarrow>
               if declared < 0 then Reject 400 ''INVALID_CONTENT_LENGTH'' ''invalid request size''
               else if declared > max_bytes
               then Reject 413 ''REQUEST_TOO_LARGE'' ''request body is too large''
               else receive_body max_bytes [] messages))"

section \<open>Properties\<close>

lemma parse_chain_append:
  "parse_chain (xs @ ys) =
     (case parse_chain xs of None \<Rightarrow> None
      | Some as \<Rightarrow> (case parse_chain ys of None \<Rightarrow> None | Some bs \<Rightarrow> Some (as @ bs)))"
  by (induction xs) (auto split: option.splits)

lemma find_append_Some:
  "find P xs = Some x \<Longrightarrow> find P (xs @ ys) = Some x"
  by (induction xs) auto

lemma find_untrusted:
  "\<exists>x \<in> set xs. P x \<Longrightarrow> \<exists>x. find P (rev xs) = Some x \<and> P x \<and> x \<in> set xs"
  by (metis find_None_iff find_Some_iff in_set_conv_nth not_None_eq set_rev)

text \<open>C21. A client that puts forged addresses in front of the forwarding chain gains nothing: when
  some hop of the honest chain (or the peer itself) is no trusted proxy, the answer is the one
  without the forged part, or, when the forgery makes the chain malformed or too long, the peer's
  own address; never an address the client chose. With an untrusted peer the header is not read.\<close>

theorem client_ip_spoof_resistant:
  assumes "parse_ip host = Some peer" and "rq_client_host request = Some host"
    and "rq_client_host request' = Some host"
    and "forwarded_values (lookup_default ''x-forwarded-for'' (rq_headers request') []) =
         forged @ forwarded_values (lookup_default ''x-forwarded-for'' (rq_headers request) [])"
    and "parse_chain (forwarded_values (lookup_default ''x-forwarded-for'' (rq_headers request) [])) = Some chain"
    and "\<exists>hop \<in> set (chain @ [peer]). \<not> is_trusted hop trusted"
  shows "client_ip request' trusted = client_ip request trusted \<or>
         client_ip request' trusted = compressed peer"
proof (cases "is_trusted peer trusted")
  case False
  then show ?thesis using assms(1-3) by (simp add: client_ip_def)
next
  case True
  let ?vs = "forwarded_values (lookup_default ''x-forwarded-for'' (rq_headers request) [])"
  from find_untrusted [OF assms(6)] obtain a where
    a: "find (\<lambda>a. \<not> is_trusted a trusted) (rev (chain @ [peer])) = Some a" by blast
  from True assms(6) have "chain \<noteq> []" by auto
  then have ne: "?vs \<noteq> []" using assms(5) by auto
  show ?thesis
  proof (cases "length (forged @ ?vs) > MAX_FORWARDED_HOPS \<or> parse_chain forged = None")
    case True
    then show ?thesis
      using assms(1-4) ne by (auto simp: client_ip_def Let_def parse_chain_append split: option.splits)
  next
    case False
    then obtain fs where fs: "parse_chain forged = Some fs" and short: "length (forged @ ?vs) \<le> MAX_FORWARDED_HOPS"
      by auto
    have "find (\<lambda>a. \<not> is_trusted a trusted) (rev ((fs @ chain) @ [peer])) = Some a"
      using find_append_Some [OF a, of "rev fs"] by simp
    then have "client_ip request' trusted = compressed a"
      using True assms(1,3-5) fs short ne by (simp add: client_ip_def Let_def parse_chain_append)
    moreover have "client_ip request trusted = compressed a"
      using True assms(1,2,5) short ne a by (simp add: client_ip_def Let_def)
    ultimately show ?thesis by simp
  qed
qed

definition demo_request :: "string \<Rightarrow> http_request" where
  "demo_request forwarded = \<lparr>rq_client_host = Some ''10.0.0.9'', rq_method = ''post'', rq_scheme = ''https'',
     rq_path = ''/v1/transfers'', rq_headers = [(''x-forwarded-for'', forwarded), (''x-csrf-token'', ''t'')],
     rq_cookies = [(''bantam_csrf'', ''t'')]\<rparr>"

theorem client_ip_spoof_resistant_witness:
  "client_ip (demo_request ''1.2.3.4, 9.9.9.9'') [Net4 0x0A000000 8] \<in> {''9.9.9.9'', ''10.0.0.9''} \<and>
   client_ip (demo_request ''9.9.9.9'') [Net4 0x0A000000 8] = ''9.9.9.9''"
proof -
  have base: "parse_ip ''10.0.0.9'' = Some (V4 0x0A000009)"
    "forwarded_values (lookup_default ''x-forwarded-for'' (rq_headers (demo_request ''1.2.3.4, 9.9.9.9'')) []) =
       [''1.2.3.4''] @ forwarded_values (lookup_default ''x-forwarded-for'' (rq_headers (demo_request ''9.9.9.9'')) [])"
    "parse_chain (forwarded_values (lookup_default ''x-forwarded-for'' (rq_headers (demo_request ''9.9.9.9'')) [])) =
       Some [V4 0x09090909]"
    "\<not> is_trusted (V4 0x09090909) [Net4 0x0A000000 8]"
    "client_ip (demo_request ''9.9.9.9'') [Net4 0x0A000000 8] = ''9.9.9.9''"
    "compressed (V4 0x0A000009) = ''10.0.0.9''"
    by code_simp+
  have "client_ip (demo_request ''1.2.3.4, 9.9.9.9'') [Net4 0x0A000000 8] =
        client_ip (demo_request ''9.9.9.9'') [Net4 0x0A000000 8] \<or>
        client_ip (demo_request ''1.2.3.4, 9.9.9.9'') [Net4 0x0A000000 8] = compressed (V4 0x0A000009)"
    by (rule client_ip_spoof_resistant [OF base(1) _ _ base(2,3)]) (use base(4) in \<open>simp_all add: demo_request_def\<close>)
  then show ?thesis using base(5,6) by auto
qed

lemma py_startswith_iff: "py_startswith s p \<longleftrightarrow> (\<exists>b. s = p @ b)"
  by (metis append_eq_conv_conj append_take_drop_id py_startswith_def)

lemma py_contains_iff: "py_contains s p \<longleftrightarrow> (\<exists>a b. s = a @ p @ b)"
proof (induction s)
  case Nil
  then show ?case by auto
next
  case (Cons c s)
  then show ?case
    by (auto simp: py_startswith_iff Cons_eq_append_conv)
qed

text \<open>A password is accepted exactly when it has at least 14 characters and at most 72 bytes, a
  lower and an upper case letter, a digit and a symbol, and contains, without regard to case, none
  of the disallowed values nor their parts before an at sign, as far as these have four characters.\<close>

theorem password_accepted_iff:
  "password_problem p vs = None \<longleftrightarrow>
     14 \<le> length p \<and> utf8_length p \<le> 72 \<and>
     (\<exists>c \<in> set p. is_lower c) \<and> (\<exists>c \<in> set p. is_upper c) \<and> (\<exists>c \<in> set p. is_digit c) \<and>
     (\<exists>c \<in> set p. \<not> is_alnum c) \<and>
     (\<forall>v \<in> set vs. \<forall>w \<in> {py_casefold (py_strip v), local_part (py_casefold (py_strip v))}.
        4 \<le> length w \<longrightarrow> (\<nexists>a b. py_casefold p = a @ w @ b))"
proof -
  have missing: "map snd (filter (\<lambda>cl. \<not> list_ex (fst cl) p) password_classes) = [] \<longleftrightarrow>
      (\<exists>c \<in> set p. is_lower c) \<and> (\<exists>c \<in> set p. is_upper c) \<and> (\<exists>c \<in> set p. is_digit c) \<and>
      (\<exists>c \<in> set p. \<not> is_alnum c)"
    by (auto simp: password_classes_def list_ex_iff)
  have pers: "\<not> list_ex (personal (py_casefold p)) vs \<longleftrightarrow>
      (\<forall>v \<in> set vs. \<forall>w \<in> {py_casefold (py_strip v), local_part (py_casefold (py_strip v))}.
        4 \<le> length w \<longrightarrow> (\<nexists>a b. py_casefold p = a @ w @ b))"
    by (auto simp: list_ex_iff personal_def Let_def py_contains_iff)
  have "password_problem p vs = None \<longleftrightarrow> 14 \<le> length p \<and> utf8_length p \<le> 72 \<and>
      map snd (filter (\<lambda>cl. \<not> list_ex (fst cl) p) password_classes) = [] \<and>
      \<not> list_ex (personal (py_casefold p)) vs"
    by (auto simp: password_problem_def Let_def MIN_PASSWORD_LENGTH_def MAX_BCRYPT_PASSWORD_BYTES_def not_less)
  then show ?thesis unfolding missing pers by blast
qed

theorem password_accepted_iff_witness:
  "password_problem ''Correct-Horse-7'' [''alice@example.org''] = None \<and>
   password_problem ''Alice-Horse-7777'' [''alice@example.org''] \<noteq> None"
proof -
  have "password_problem ''Correct-Horse-7'' [''alice@example.org''] = None"
    unfolding password_accepted_iff py_contains_iff [symmetric]
    by (code_simp)
  then show ?thesis by code_simp
qed


text \<open>An unsafe request passes the CSRF check exactly when it is not marked cross-site and carries
  one token of 1 to 128 characters both as the cookie and as the header.\<close>

theorem csrf_accepted_iff:
  "csrf_problem request = None \<longleftrightarrow>
     py_upper (rq_method request) \<in> {''GET'', ''HEAD'', ''OPTIONS'', ''TRACE''} \<or>
     py_lower (lookup_default ''sec-fetch-site'' (rq_headers request) []) \<noteq> ''cross-site'' \<and>
     (\<exists>t. t \<noteq> [] \<and> length t \<le> 128 \<and> map_of (rq_cookies request) CSRF_COOKIE_NAME = Some t \<and>
        map_of (rq_headers request) ''x-csrf-token'' = Some t)"
  by (auto simp: csrf_problem_def SAFE_HTTP_METHODS_def Let_def lookup_default_def split: option.splits)

theorem csrf_accepted_iff_witness: "csrf_problem (demo_request ''9.9.9.9'') = None"
  unfolding csrf_accepted_iff
  by (rule disjI2) (simp add: demo_request_def lookup_default_def CSRF_COOKIE_NAME_def py_lower_def)

text \<open>The edge accepts an idempotency key exactly when, stripped, it consists of 8 to 128 characters
  of the allowed alphabet, and stripping such a key again changes nothing, so the key the ledger
  compares is the one the edge accepted.\<close>

lemma idempotency_char_no_space: "idempotency_char c \<Longrightarrow> \<not> py_isspace c"
  by (auto simp: idempotency_char_def is_alnum_def is_digit_def is_lower_def is_upper_def py_isspace_def ord_def)

theorem idempotency_key_accepted_iff:
  "normalise_idempotency_key raw = Inr v \<longleftrightarrow>
     (\<exists>r. raw = Some r \<and> v = py_strip r \<and> py_strip v = v \<and> 8 \<le> length v \<and> length v \<le> 128 \<and>
        (\<forall>c \<in> set v. idempotency_char c))"
proof -
  have "py_strip v = v" if "\<forall>c \<in> set v. idempotency_char c"
    using that by (intro py_strip_no_space) (auto dest: idempotency_char_no_space)
  then show ?thesis
    by (auto simp: normalise_idempotency_key_def Let_def IDEMPOTENCY_KEY_PATTERN_def list_all_iff
        split: option.splits if_splits)
qed

theorem idempotency_key_accepted_iff_witness:
  "normalise_idempotency_key (Some '' order:2024-01 '') = Inr ''order:2024-01''"
  unfolding idempotency_key_accepted_iff by (rule exI [of _ "'' order:2024-01 ''"]) code_simp

text \<open>The body of a request as the protocol defines it: the chunks up to the first that is not
  followed by more, unless the client disconnects before.\<close>

fun whole_body :: "asgi_message list \<Rightarrow> string option" where
  "whole_body [] = None"
| "whole_body (HttpDisconnect # ms) = None"
| "whole_body (OtherMessage # ms) = whole_body ms"
| "whole_body (HttpRequest chunk more_body # ms) =
     (if more_body then map_option (\<lambda>b. chunk @ b) (whole_body ms) else Some chunk)"

lemma receive_body_iff:
  "receive_body max_bytes acc ms = Deliver b \<longleftrightarrow>
     (\<exists>b'. whole_body ms = Some b' \<and> b = acc @ b' \<and> int (length b) \<le> max_bytes)"
  by (induction max_bytes acc ms rule: receive_body.induct) (auto simp: Let_def)

text \<open>The body limit refines the protocol: the application runs exactly on the whole body, however
  it is chunked, and only if it has at most the limit of bytes; a declared length cannot widen this.\<close>

theorem body_limit_sound:
  "limit_body max_bytes headers ms = Deliver b \<Longrightarrow>
     whole_body ms = Some b \<and> int (length b) \<le> max_bytes"
  by (auto simp: limit_body_def receive_body_iff split: option.splits if_splits)

theorem body_limit_sound_witness:
  "limit_body 4 [(''Content-Length'', ''1'')] [HttpRequest ''ab'' True, OtherMessage, HttpRequest ''cd'' False] = Deliver ''abcd'' \<and>
   whole_body [HttpRequest ''ab'' True, OtherMessage, HttpRequest ''cd'' False] = Some ''abcd''"
proof -
  have run: "limit_body 4 [(''Content-Length'', ''1'')] [HttpRequest ''ab'' True, OtherMessage, HttpRequest ''cd'' False] = Deliver ''abcd''"
    by code_simp
  from body_limit_sound [OF run] run show ?thesis by simp
qed

theorem body_limit_complete:
  "map_of (rev (map (\<lambda>h. (py_lower (fst h), snd h)) headers)) ''content-length'' = None \<Longrightarrow>
   limit_body max_bytes headers ms = Deliver b \<longleftrightarrow> whole_body ms = Some b \<and> int (length b) \<le> max_bytes"
  by (auto simp: limit_body_def receive_body_iff)

lemma setdefault_present:
  "list_ex (\<lambda>h. py_lower (fst h) = py_lower n) (setdefault n v hs)"
  by (auto simp: setdefault_def list_ex_iff)

lemma setdefault_keeps: "set hs \<subseteq> set (setdefault n v hs)"
  by (auto simp: setdefault_def)

lemma setdefault_fold_keeps: "set hs \<subseteq> set (foldl (\<lambda>h nv. setdefault (fst nv) (snd nv) h) hs nvs)"
proof (induction nvs arbitrary: hs)
  case (Cons nv nvs)
  from Cons.IH [of "setdefault (fst nv) (snd nv) hs"] setdefault_keeps [of hs "fst nv" "snd nv"]
  show ?case by auto
qed simp

lemma setdefault_fold_present:
  "nv \<in> set nvs \<Longrightarrow> \<exists>h \<in> set (foldl (\<lambda>h nv. setdefault (fst nv) (snd nv) h) hs nvs). py_lower (fst h) = py_lower (fst nv)"
proof (induction nvs arbitrary: hs)
  case (Cons x nvs)
  show ?case
  proof (cases "nv = x")
    case True
    with setdefault_present [of "fst nv" "snd nv" hs]
      setdefault_fold_keeps [of "setdefault (fst nv) (snd nv) hs" nvs] show ?thesis
      by (auto simp: list_ex_iff)
  next
    case False
    with Cons show ?thesis by simp
  qed
qed simp

lemma setdefault_chain:
  "\<exists>h \<in> set hs. P h \<Longrightarrow> \<exists>h \<in> set (setdefault n v hs). P h"
  using setdefault_keeps [of hs n v] by blast

text \<open>Every response leaves with each of the browser hardening headers, a content security policy
  and no-store, and, over HTTPS, strict transport security; a header the endpoint set itself is kept.\<close>

theorem security_headers_present:
  "(\<forall>n \<in> fst ` set SECURITY_HEADERS \<union> {''Content-Security-Policy'', ''Cache-Control'', ''Pragma''}.
      \<exists>h \<in> set (add_security_headers request headers). py_lower (fst h) = py_lower n) \<and>
   (rq_scheme request = ''https'' \<longrightarrow>
      (\<exists>h \<in> set (add_security_headers request headers). py_lower (fst h) = ''strict-transport-security'')) \<and>
   set headers \<subseteq> set (add_security_headers request headers)"
proof -
  have present: "\<exists>h \<in> set (setdefault n v hs). py_lower (fst h) = py_lower n" for n v hs
    using setdefault_present [of n v hs] by (auto simp: list_ex_iff)
  have low: "py_lower ''Strict-Transport-Security'' = ''strict-transport-security''" by code_simp
  define csp where "csp = (if list_ex (py_startswith (rq_path request)) [''/docs'', ''/redoc'', ''/openapi.json'']
    then DOCS_CONTENT_SECURITY_POLICY else API_CONTENT_SECURITY_POLICY)"
  define h1 where "h1 = foldl (\<lambda>h nv. setdefault (fst nv) (snd nv) h) headers SECURITY_HEADERS"
  define h2 where "h2 = setdefault ''Content-Security-Policy'' csp h1"
  define h3 where "h3 = setdefault ''Cache-Control'' ''no-store'' h2"
  define h4 where "h4 = setdefault ''Pragma'' ''no-cache'' h3"
  have final: "add_security_headers request headers =
      (if rq_scheme request = ''https''
       then setdefault ''Strict-Transport-Security'' ''max-age=31536000; includeSubDomains'' h4 else h4)"
    by (simp add: add_security_headers_def Let_def csp_def h1_def h2_def h3_def h4_def)
  have sub: "set h4 \<subseteq> set (add_security_headers request headers)" "set h3 \<subseteq> set h4" "set h2 \<subseteq> set h3"
    "set h1 \<subseteq> set h2" "set headers \<subseteq> set h1"
    by (simp_all add: final h4_def h3_def h2_def h1_def setdefault_keeps setdefault_fold_keeps)
  have base: "\<exists>h \<in> set h1. py_lower (fst h) = py_lower n" if "n \<in> fst ` set SECURITY_HEADERS" for n
    using that setdefault_fold_present [of _ SECURITY_HEADERS headers] by (auto simp: h1_def)
  have lift: "\<exists>h \<in> set (add_security_headers request headers). Q h"
    if "(\<exists>h \<in> set h1. Q h) \<or> (\<exists>h \<in> set h2. Q h) \<or> (\<exists>h \<in> set h3. Q h) \<or> (\<exists>h \<in> set h4. Q h)" for Q
    using that sub by blast
  have "\<exists>h \<in> set h2. py_lower (fst h) = py_lower ''Content-Security-Policy''"
    "\<exists>h \<in> set h3. py_lower (fst h) = py_lower ''Cache-Control''"
    "\<exists>h \<in> set h4. py_lower (fst h) = py_lower ''Pragma''"
    unfolding h2_def h3_def h4_def by (rule present)+
  note base' = base this
  have each: "\<exists>h \<in> set (add_security_headers request headers). py_lower (fst h) = py_lower n"
    if "n \<in> fst ` set SECURITY_HEADERS \<union> {''Content-Security-Policy'', ''Cache-Control'', ''Pragma''}" for n
  proof (rule lift)
    from that consider "n \<in> fst ` set SECURITY_HEADERS" | "n = ''Content-Security-Policy''"
      | "n = ''Cache-Control''" | "n = ''Pragma''" by blast
    then show "(\<exists>h \<in> set h1. py_lower (fst h) = py_lower n) \<or> (\<exists>h \<in> set h2. py_lower (fst h) = py_lower n) \<or>
      (\<exists>h \<in> set h3. py_lower (fst h) = py_lower n) \<or> (\<exists>h \<in> set h4. py_lower (fst h) = py_lower n)"
    proof cases
      case 1
      show ?thesis by (rule disjI1, rule base [OF 1])
    next
      case 2
      show ?thesis unfolding 2 by (rule disjI2, rule disjI1, rule base'(2))
    next
      case 3
      show ?thesis unfolding 3 by (rule disjI2, rule disjI2, rule disjI1, rule base'(3))
    next
      case 4
      show ?thesis unfolding 4 by (rule disjI2, rule disjI2, rule disjI2, rule base'(4))
    qed
  qed
  have sts: "\<exists>h \<in> set (add_security_headers request headers). py_lower (fst h) = ''strict-transport-security''"
    if "rq_scheme request = ''https''"
    using that present [of "''Strict-Transport-Security''"] by (auto simp: final low)
  have "set headers \<subseteq> set (add_security_headers request headers)"
    using sub by (meson order_trans)
  with each sts show ?thesis by (intro conjI ballI impI)
qed

theorem security_headers_present_witness:
  "\<exists>h \<in> set (add_security_headers (demo_request '''') []). py_lower (fst h) = ''strict-transport-security''"
  using security_headers_present [of "demo_request ''''" "[]"] by (simp add: demo_request_def)

end
