(* ===== verification/Auth.thy ===== *)
theory Auth
  imports Store Security
begin

text \<open>
  Session tokens, revocation, passwords and signed account-status claims: \<open>bantam/auth.py\<close>.

  PyJWT and bcrypt are parameters. \<open>jwt_encode claims secret typ\<close> is \<open>jwt.encode\<close> with HS256
  and the header type; \<open>jwt_header token\<close> is the (unverified) pair of \<open>alg\<close> and \<open>typ\<close>;
  \<open>jwt_decode token secret audience issuer required now\<close> is \<open>jwt.decode\<close> at an instant.
  The encoder writes a \<open>datetime\<close> claim as whole seconds, which is how the claims appear here.
  \<open>jwt_contract\<close> states what the library documents.
\<close>

section \<open>Text of JSON values and UUIDs\<close>

fun truthy :: "json \<Rightarrow> bool" where
  "truthy JNull = False"
| "truthy (JBool b) = b"
| "truthy (JInt i) = (i \<noteq> 0)"
| "truthy (JStr s) = (s \<noteq> [])"
| "truthy (JList xs) = (xs \<noteq> [])"
| "truthy (JObj kvs) = (kvs \<noteq> [])"

text \<open>\<open>str(value)\<close>; quotes inside the strings of a container are not escaped.\<close>

fun py_repr :: "json \<Rightarrow> string" where
  "py_repr JNull = ''None''"
| "py_repr (JBool b) = (if b then ''True'' else ''False'')"
| "py_repr (JInt i) = int_str i"
| "py_repr (JStr s) = [CHR 0x27] @ s @ [CHR 0x27]"
| "py_repr (JList xs) = ''['' @ py_join '', '' (map py_repr xs) @ '']''"
| "py_repr (JObj kvs) = ''{'' @ py_join '', '' (map (\<lambda>kv. [CHR 0x27] @ fst kv @ [CHR 0x27] @ '': '' @ py_repr (snd kv)) kvs) @ ''}''"

definition py_str :: "json \<Rightarrow> string" where
  "py_str j = (case j of JStr s \<Rightarrow> s | _ \<Rightarrow> py_repr j)"

text \<open>\<open>int(value)\<close> of a JSON value.\<close>

definition py_int_of :: "json \<Rightarrow> int option" where
  "py_int_of j =
     (case j of JInt i \<Rightarrow> Some i | JBool b \<Rightarrow> Some (if b then 1 else 0) | JStr s \<Rightarrow> py_int s | _ \<Rightarrow> None)"

text \<open>
  \<open>UUID(text)\<close>: braces around and hyphens inside are ignored, 32 hexadecimal digits remain. (The
  \<open>urn:\<close> prefixes and the spellings \<open>int(text, 16)\<close> takes beyond digits are refused here.)
\<close>

definition strip_braces :: "string \<Rightarrow> string" where
  "strip_braces s =
     (let brace = (\<lambda>c. c = CHR ''{'' \<or> c = CHR ''}'') in rev (dropWhile brace (rev (dropWhile brace s))))"

definition parse_uuid :: "string \<Rightarrow> uuid option" where
  "parse_uuid s =
     (let h = filter (\<lambda>c. c \<noteq> CHR ''-'') (strip_braces s) in
      if length h \<noteq> 32 \<or> \<not> list_all is_hex h then None
      else Some (word_of_nat (foldl (\<lambda>n c. n * 16 + hex_val c) 0 h)))"

section \<open>Sessions\<close>

definition ALLOWED_ROLES :: "role list" where
  "ALLOWED_ROLES = [ASPIS_ADMIN, ASPIS_AUDITOR, BANK_ADMIN, COMPLIANCE_AUDITOR, CUSTOMER, RISK_ANALYST]"

definition JWT_ALGORITHM :: string where "JWT_ALGORITHM = ''HS256''"

type_synonym claims = "(string \<times> json) list"
type_synonym jwt_encoder = "claims \<Rightarrow> string \<Rightarrow> string \<Rightarrow> string"
type_synonym jwt_header_reader = "string \<Rightarrow> (string \<times> string) option"
type_synonym jwt_decoder =
  "string \<Rightarrow> string \<Rightarrow> string \<Rightarrow> string \<Rightarrow> string list \<Rightarrow> timestamp \<Rightarrow> claims option"

record parsed_token =
  pt_principal :: principal
  pt_jti :: uuid
  pt_expires_at :: timestamp
  pt_auth_methods :: "string list"
  pt_mfa_at :: "timestamp option"

record auth_service =
  as_secret :: string
  as_ttl :: int

definition valid_auth_methods :: "string list \<Rightarrow> bool" where
  "valid_auth_methods ms \<longleftrightarrow>
     ms \<noteq> [] \<and> ''pwd'' \<in> set ms \<and> list_all (\<lambda>m. m \<in> set [''pwd'', ''webauthn'', ''otp'']) ms \<and> distinct ms"

definition second_factor :: "string list \<Rightarrow> bool" where
  "second_factor ms \<longleftrightarrow> ''webauthn'' \<in> set ms \<or> ''otp'' \<in> set ms"

definition to_seconds :: "timestamp \<Rightarrow> int" where
  "to_seconds t = t div 1000000"

definition issue_claims ::
  "principal \<Rightarrow> string list \<Rightarrow> timestamp option \<Rightarrow> uuid \<Rightarrow> timestamp \<Rightarrow> timestamp \<Rightarrow> claims" where
  "issue_claims pr auth_methods mfa_at token_id now expires_at =
     [(''sub'', JStr (uuid_str (pr_user_id pr))), (''iss'', JStr ''bantam-auth''),
      (''aud'', JList [JStr ''bantam-api'']), (''iat'', JInt (to_seconds now)),
      (''nbf'', JInt (to_seconds now)), (''exp'', JInt (to_seconds expires_at)),
      (''jti'', JStr (uuid_str token_id)), (''role'', JStr (role_str (pr_role pr))),
      (''amr'', JList (map JStr auth_methods))] @
     (case mfa_at of None \<Rightarrow> [] | Some t \<Rightarrow> [(''mfa_at'', JInt (to_seconds t))]) @
     (case pr_customer_id pr of None \<Rightarrow> [] | Some c \<Rightarrow> [(''customer_id'', JStr (uuid_str c))])"

definition issue ::
  "jwt_encoder \<Rightarrow> auth_service \<Rightarrow> principal \<Rightarrow> string list \<Rightarrow> timestamp option \<Rightarrow> uuid \<Rightarrow> timestamp
     \<Rightarrow> failure + (string \<times> timestamp)" where
  "issue jwt_encode svc pr auth_methods mfa_at token_id now =
     (if pr_role pr \<notin> set ALLOWED_ROLES then Inl (ValueError ''unknown role'')
      else if \<not> valid_auth_methods auth_methods then Inl (ValueError ''invalid authentication methods'')
      else if mfa_at \<noteq> None \<and> \<not> second_factor auth_methods then Inl (ValueError ''invalid MFA timestamp'')
      else
        let expires_at = now + as_ttl svc in
        Inr (jwt_encode (issue_claims pr auth_methods mfa_at token_id now expires_at) (as_secret svc) ''JWT'',
             expires_at))"

text \<open>The revocation check fails closed when the query raises.\<close>

datatype revocation_pool = NoPool | Pool db | FailingPool

definition is_revoked :: "uuid \<Rightarrow> timestamp \<Rightarrow> db \<Rightarrow> bool" where
  "is_revoked jti now d \<longleftrightarrow> list_ex (\<lambda>r. sr_jti r = jti \<and> sr_expires_at r > now) (session_revocations d)"

definition reject_revoked_token :: "revocation_pool \<Rightarrow> uuid \<Rightarrow> timestamp \<Rightarrow> failure + unit" where
  "reject_revoked_token pool jti now =
     (case pool of
        NoPool \<Rightarrow> Inr ()
      | FailingPool \<Rightarrow> Inl (ValueError ''invalid access token'')
      | Pool d \<Rightarrow> if is_revoked jti now d then Inl (ValueError ''invalid access token'') else Inr ())"

definition revoke_access_token :: "parsed_token \<Rightarrow> timestamp \<Rightarrow> db \<Rightarrow> failure + db" where
  "revoke_access_token token now d =
     (let d1 = d\<lparr>session_revocations := filter (\<lambda>r. \<not> sr_expires_at r \<le> now) (session_revocations d)\<rparr> in
      if known sr_jti (pt_jti token) (session_revocations d1) then Inr d1
      else if \<not> known ua_user_id (pr_user_id (pt_principal token)) (user_accounts d1)
      then Inl (ForeignKeyViolation ''session_revocations_user_id_fkey'')
      else Inr (d1\<lparr>session_revocations := session_revocations d1 @
             [\<lparr>sr_jti = pt_jti token, sr_user_id = pr_user_id (pt_principal token),
               sr_expires_at = pt_expires_at token, sr_revoked_at = now\<rparr>]\<rparr>))"

definition REQUIRED_CLAIMS :: "string list" where
  "REQUIRED_CLAIMS = [''sub'', ''exp'', ''iat'', ''nbf'', ''iss'', ''aud'', ''jti'', ''role'', ''amr'']"

text \<open>The claims of a verified token become a principal, or one of the checks refuses them.\<close>

definition claims_role :: "claims \<Rightarrow> role option" where
  "claims_role claims =
     (case map_of claims ''role'' of
        None \<Rightarrow> None
      | Some j \<Rightarrow> (case role_of_string (py_str j) of
                    None \<Rightarrow> None
                  | Some r \<Rightarrow> if r \<in> set ALLOWED_ROLES then Some r else None))"

definition claims_methods :: "claims \<Rightarrow> string list option" where
  "claims_methods claims =
     (case map_of claims ''amr'' of
        Some (JList xs) \<Rightarrow> (let ms = map py_str xs in if valid_auth_methods ms then Some ms else None)
      | _ \<Rightarrow> None)"

definition claims_mfa_at :: "claims \<Rightarrow> timestamp option option" where
  "claims_mfa_at claims =
     (case map_of claims ''mfa_at'' of
        None \<Rightarrow> Some None
      | Some j \<Rightarrow> if j = JNull then Some None
                  else (case py_int_of j of None \<Rightarrow> None | Some s \<Rightarrow> Some (Some (seconds s))))"

definition claims_uuid :: "claims \<Rightarrow> string \<Rightarrow> uuid option" where
  "claims_uuid claims k = (case map_of claims k of None \<Rightarrow> None | Some j \<Rightarrow> parse_uuid (py_str j))"

definition claims_customer :: "claims \<Rightarrow> role \<Rightarrow> uuid option option" where
  "claims_customer claims r =
     (let customer_id = (case map_of claims ''customer_id'' of None \<Rightarrow> JNull | Some j \<Rightarrow> j) in
      if (r = CUSTOMER) \<noteq> truthy customer_id then None
      else if truthy customer_id then map_option Some (parse_uuid (py_str customer_id))
      else Some None)"

definition parse_claims :: "claims \<Rightarrow> parsed_token option" where
  "parse_claims claims =
     (case claims_role claims of None \<Rightarrow> None | Some r \<Rightarrow>
      case claims_methods claims of None \<Rightarrow> None | Some methods \<Rightarrow>
      case claims_mfa_at claims of None \<Rightarrow> None | Some mfa_at \<Rightarrow>
      if (mfa_at = None) \<noteq> (\<not> second_factor methods) then None
      else
      case claims_customer claims r of None \<Rightarrow> None | Some customer_id \<Rightarrow>
      case claims_uuid claims ''sub'' of None \<Rightarrow> None | Some user_id \<Rightarrow>
      case claims_uuid claims ''jti'' of None \<Rightarrow> None | Some jti \<Rightarrow>
      case map_option py_int_of (map_of claims ''exp'') of
        Some (Some expires) \<Rightarrow>
          Some \<lparr>pt_principal = \<lparr>pr_user_id = user_id, pr_role = r, pr_customer_id = customer_id\<rparr>,
                pt_jti = jti, pt_expires_at = seconds expires, pt_auth_methods = methods, pt_mfa_at = mfa_at\<rparr>
      | _ \<Rightarrow> None)"

definition parse_with_claims ::
  "jwt_header_reader \<Rightarrow> jwt_decoder \<Rightarrow> auth_service \<Rightarrow> revocation_pool \<Rightarrow> string \<Rightarrow> timestamp
     \<Rightarrow> failure + parsed_token" where
  "parse_with_claims jwt_header jwt_decode svc pool raw_token now =
     (let invalid = Inl (ValueError ''invalid access token'') in
      if length raw_token > 4096 then invalid
      else if jwt_header raw_token \<noteq> Some (JWT_ALGORITHM, ''JWT'') then invalid
      else case jwt_decode raw_token (as_secret svc) ''bantam-api'' ''bantam-auth'' REQUIRED_CLAIMS now of
        None \<Rightarrow> invalid
      | Some claims \<Rightarrow>
          (case parse_claims claims of
             None \<Rightarrow> invalid
           | Some parsed \<Rightarrow>
               (case reject_revoked_token pool (pt_jti parsed) now of
                  Inl _ \<Rightarrow> invalid
                | Inr _ \<Rightarrow> Inr parsed)))"

section \<open>Passwords\<close>

definition hash_password ::
  "(string \<Rightarrow> string \<Rightarrow> string) \<Rightarrow> string \<Rightarrow> string \<Rightarrow> string list \<Rightarrow> failure + string" where
  "hash_password bcrypt_hash salt password disallowed_values =
     (case password_problem password disallowed_values of
        Some problem \<Rightarrow> Inl (ValueError problem)
      | None \<Rightarrow> Inr (bcrypt_hash salt password))"

text \<open>\<open>bcrypt_check hash password\<close> is \<open>None\<close> when the library raises on a malformed hash.\<close>

definition check_password :: "(string \<Rightarrow> string \<Rightarrow> bool option) \<Rightarrow> string \<Rightarrow> string \<Rightarrow> bool" where
  "check_password bcrypt_check password_hash password =
     (case bcrypt_check password_hash password of None \<Rightarrow> False | Some b \<Rightarrow> b)"

definition password_hash_for_check :: "string \<Rightarrow> string option \<Rightarrow> string" where
  "password_hash_for_check dummy_hash password_hash =
     (case password_hash of None \<Rightarrow> dummy_hash | Some h \<Rightarrow> if h = [] then dummy_hash else h)"

section \<open>Account-status claims\<close>

definition status_claims :: "uuid \<Rightarrow> uuid \<Rightarrow> bool \<Rightarrow> string \<Rightarrow> timestamp \<Rightarrow> timestamp \<Rightarrow> claims" where
  "status_claims claim_id customer_id has_active_account kyc now expires_at =
     [(''jti'', JStr (uuid_str claim_id)), (''iss'', JStr ''did:xbank:bantam''),
      (''sub'', JStr (''did:xid:person:'' @ uuid_str customer_id)),
      (''aud'', JList [JStr ''bantam-account-status-verifier'']),
      (''iat'', JInt (to_seconds now)), (''nbf'', JInt (to_seconds now)), (''exp'', JInt (to_seconds expires_at)),
      (''claim_type'', JStr ''bank_account_status''),
      (''has_active_account'', JBool has_active_account), (''kyc_status'', JStr kyc)]"

definition issue_account_status ::
  "jwt_encoder \<Rightarrow> auth_service \<Rightarrow> uuid \<Rightarrow> uuid \<Rightarrow> bool \<Rightarrow> string \<Rightarrow> timestamp \<Rightarrow> string \<times> timestamp" where
  "issue_account_status jwt_encode svc claim_id customer_id has_active_account kyc now =
     (let expires_at = now + as_ttl svc in
      (jwt_encode (status_claims claim_id customer_id has_active_account kyc now expires_at)
         (as_secret svc) ''bantam-account-status+jwt'', expires_at))"

definition verify_account_status ::
  "jwt_header_reader \<Rightarrow> jwt_decoder \<Rightarrow> auth_service \<Rightarrow> string \<Rightarrow> timestamp \<Rightarrow> failure + claims" where
  "verify_account_status jwt_header jwt_decode svc token now =
     (let invalid = Inl (ValueError ''invalid account-status assertion'') in
      if length token > 8192 then invalid
      else if jwt_header token \<noteq> Some (JWT_ALGORITHM, ''bantam-account-status+jwt'') then invalid
      else case jwt_decode token (as_secret svc) ''bantam-account-status-verifier'' ''did:xbank:bantam''
             [''jti'', ''iss'', ''sub'', ''aud'', ''iat'', ''nbf'', ''exp'', ''claim_type''] now of
        None \<Rightarrow> invalid
      | Some claims \<Rightarrow> Inr claims)"

section \<open>UUIDs read back\<close>

lemma hex_digit: "k < 16 \<Longrightarrow> hex_val (digit k) = k \<and> is_hex (digit k) \<and> digit k \<noteq> CHR ''-'' \<and>
    digit k \<noteq> CHR ''{'' \<and> digit k \<noteq> CHR ''}''"
  by (drule less_16_cases, elim disjE, drule less_10_cases, elim disjE)
    (simp_all add: hex_val_def is_hex_def is_digit_def is_lower_def digit_def ord_def)

lemma hex_str_Suc: "hex_str (Suc w) n = digit ((n div 16 ^ w) mod 16) # hex_str w n"
  by (simp add: hex_str_def)

lemma hex_str_chars: "c \<in> set (hex_str w n) \<Longrightarrow> is_hex c \<and> c \<noteq> CHR ''-'' \<and> c \<noteq> CHR ''{'' \<and> c \<noteq> CHR ''}''"
  using hex_digit by (auto simp: hex_str_def)

lemma foldl_hex_str: "foldl (\<lambda>n c. n * 16 + hex_val c) a (hex_str w n) = a * 16 ^ w + n mod 16 ^ w"
proof (induction w arbitrary: a)
  case 0
  then show ?case by (simp add: hex_str_def)
next
  case (Suc w)
  have split_mod: "n mod 16 ^ Suc w = n mod 16 ^ w + 16 ^ w * ((n div 16 ^ w) mod 16)"
    using mod_mult2_eq [of n "16 ^ w" 16] by (simp add: power_commutes)
  have "foldl (\<lambda>n c. n * 16 + hex_val c) a (hex_str (Suc w) n) =
      (a * 16 + (n div 16 ^ w) mod 16) * 16 ^ w + n mod 16 ^ w"
    by (simp only: hex_str_Suc foldl_Cons Suc.IH) (simp add: hex_digit)
  also have "\<dots> = a * 16 ^ Suc w + n mod 16 ^ Suc w"
    unfolding split_mod by (simp add: algebra_simps)
  finally show ?case .
qed

lemma parse_uuid_str: "parse_uuid (uuid_str u) = Some u"
proof -
  let ?h = "uuid_hex u"
  have chars: "\<forall>c \<in> set ?h. is_hex c \<and> c \<noteq> CHR ''-'' \<and> c \<noteq> CHR ''{'' \<and> c \<noteq> CHR ''}''"
    by (auto simp: uuid_hex_def dest: hex_str_chars)
  then have keep: "filter (\<lambda>c. c \<noteq> CHR ''-'') xs = xs" if "set xs \<subseteq> set ?h" for xs
    using that by (intro filter_True) auto
  have "set (uuid_str u) \<subseteq> insert (CHR ''-'') (set ?h)"
    by (auto simp: uuid_str_def Let_def dest: in_set_takeD in_set_dropD)
  with chars have nob: "\<forall>c \<in> set (uuid_str u). c \<noteq> CHR ''{'' \<and> c \<noteq> CHR ''}''" by auto
  have dw: "dropWhile (\<lambda>c. c = CHR ''{'' \<or> c = CHR ''}'') xs = xs" if "set xs \<subseteq> set (uuid_str u)" for xs
    using nob that by (cases xs) auto
  have "strip_braces (uuid_str u) = uuid_str u" by (simp add: strip_braces_def Let_def dw)
  moreover have "filter (\<lambda>c. c \<noteq> CHR ''-'') (uuid_str u) = ?h"
  proof -
    have "set (take a (drop b ?h)) \<subseteq> set ?h" "set (drop b ?h) \<subseteq> set ?h" "set (take a ?h) \<subseteq> set ?h" for a b
      by (auto dest: in_set_takeD in_set_dropD)
    then have "filter (\<lambda>c. c \<noteq> CHR ''-'') (uuid_str u) =
        take 8 ?h @ take 4 (drop 8 ?h) @ take 4 (drop 12 ?h) @ take 4 (drop 16 ?h) @ drop 20 ?h"
      by (simp add: uuid_str_def Let_def keep)
    then show ?thesis
      using append_take_drop_id [of 8 ?h] append_take_drop_id [of 4 "drop 8 ?h"]
        append_take_drop_id [of 4 "drop 12 ?h"] append_take_drop_id [of 4 "drop 16 ?h"]
      by simp
  qed
  moreover have "list_all is_hex ?h" using chars by (simp add: list_all_iff)
  moreover have "unat u < 16 ^ 32" using unsigned_less [where 'a = nat, of u] by simp
  then have "foldl (\<lambda>n c. n * 16 + hex_val c) 0 ?h = unat u" by (simp add: uuid_hex_def foldl_hex_str)
  ultimately show ?thesis by (simp add: parse_uuid_def Let_def)
qed

section \<open>Properties\<close>

text \<open>When the library accepts the registered claims of a token.\<close>

definition claims_valid :: "claims \<Rightarrow> string \<Rightarrow> string \<Rightarrow> string list \<Rightarrow> timestamp \<Rightarrow> bool" where
  "claims_valid claims audience issuer required now \<longleftrightarrow>
     list_all (\<lambda>k. map_of claims k \<noteq> None) required \<and>
     (case map_of claims ''iat'' of Some (JInt i) \<Rightarrow> seconds i \<le> now | _ \<Rightarrow> False) \<and>
     (case map_of claims ''nbf'' of Some (JInt i) \<Rightarrow> seconds i \<le> now | _ \<Rightarrow> False) \<and>
     (case map_of claims ''exp'' of Some (JInt i) \<Rightarrow> now < seconds i | _ \<Rightarrow> False) \<and>
     (case map_of claims ''aud'' of Some (JList xs) \<Rightarrow> JStr audience \<in> set xs | _ \<Rightarrow> False) \<and>
     map_of claims ''iss'' = Some (JStr issuer)"

text \<open>What PyJWT documents about a token it encoded: its header, and that decoding it with the same
  key gives the claims back as long as the registered claims are valid.\<close>

definition jwt_reads_back ::
  "jwt_encoder \<Rightarrow> jwt_header_reader \<Rightarrow> jwt_decoder \<Rightarrow> claims \<Rightarrow> string \<Rightarrow> string \<Rightarrow> bool" where
  "jwt_reads_back enc hdr dec claims secret typ \<longleftrightarrow>
     hdr (enc claims secret typ) = Some (''HS256'', typ) \<and>
     (\<forall>audience issuer required now. claims_valid claims audience issuer required now \<longrightarrow>
        dec (enc claims secret typ) secret audience issuer required now = Some claims)"

text \<open>And that it accepts a token only if it was encoded with that key from these claims, valid now.\<close>

definition jwt_authentic :: "jwt_encoder \<Rightarrow> jwt_header_reader \<Rightarrow> jwt_decoder \<Rightarrow> string \<Rightarrow> string \<Rightarrow> bool" where
  "jwt_authentic enc hdr dec token secret \<longleftrightarrow>
     (\<forall>audience issuer required now claims typ. dec token secret audience issuer required now = Some claims \<longrightarrow>
        hdr token = Some (''HS256'', typ) \<longrightarrow>
        token = enc claims secret typ \<and> claims_valid claims audience issuer required now)"

lemma issue_InrD:
  assumes "issue enc svc pr ms mfa jti now = Inr (tok, exp)"
  shows "exp = now + as_ttl svc \<and> tok = enc (issue_claims pr ms mfa jti now exp) (as_secret svc) ''JWT'' \<and>
    pr_role pr \<in> set ALLOWED_ROLES \<and> valid_auth_methods ms \<and> (mfa \<noteq> None \<longrightarrow> second_factor ms)"
  using assms by (auto simp: issue_def Let_def split: if_splits)

lemma to_seconds_le: "seconds (to_seconds t) \<le> t"
  by (simp add: seconds_def to_seconds_def)

lemma issue_claims_lookup:
  "map_of (issue_claims pr ms mfa jti now exp) ''sub'' = Some (JStr (uuid_str (pr_user_id pr)))"
  "map_of (issue_claims pr ms mfa jti now exp) ''iss'' = Some (JStr ''bantam-auth'')"
  "map_of (issue_claims pr ms mfa jti now exp) ''aud'' = Some (JList [JStr ''bantam-api''])"
  "map_of (issue_claims pr ms mfa jti now exp) ''iat'' = Some (JInt (to_seconds now))"
  "map_of (issue_claims pr ms mfa jti now exp) ''nbf'' = Some (JInt (to_seconds now))"
  "map_of (issue_claims pr ms mfa jti now exp) ''exp'' = Some (JInt (to_seconds exp))"
  "map_of (issue_claims pr ms mfa jti now exp) ''jti'' = Some (JStr (uuid_str jti))"
  "map_of (issue_claims pr ms mfa jti now exp) ''role'' = Some (JStr (role_str (pr_role pr)))"
  "map_of (issue_claims pr ms mfa jti now exp) ''amr'' = Some (JList (map JStr ms))"
  "map_of (issue_claims pr ms mfa jti now exp) ''mfa_at'' = map_option (\<lambda>t. JInt (to_seconds t)) mfa"
  "map_of (issue_claims pr ms mfa jti now exp) ''customer_id'' = map_option (\<lambda>c. JStr (uuid_str c)) (pr_customer_id pr)"
  by (simp_all add: issue_claims_def map_add_def split: option.splits)

lemma parse_issued_claims:
  assumes "pr_role pr \<in> set ALLOWED_ROLES" and "valid_auth_methods ms"
    and "(mfa = None) = (\<not> second_factor ms)" and "(pr_role pr = CUSTOMER) = (pr_customer_id pr \<noteq> None)"
  shows "parse_claims (issue_claims pr ms mfa jti now exp) =
    Some \<lparr>pt_principal = pr, pt_jti = jti, pt_expires_at = seconds (to_seconds exp), pt_auth_methods = ms,
          pt_mfa_at = map_option (\<lambda>t. seconds (to_seconds t)) mfa\<rparr>"
proof -
  have long: "uuid_str u \<noteq> []" for u using length_uuid_str [of u] by (metis length_0_conv zero_neq_numeral)
  have "claims_customer (issue_claims pr ms mfa jti now exp) (pr_role pr) = Some (pr_customer_id pr)"
    using assms(4) long by (auto simp: claims_customer_def issue_claims_lookup py_str_def parse_uuid_str split: option.splits)
  moreover have "claims_role (issue_claims pr ms mfa jti now exp) = Some (pr_role pr)"
    using assms(1) by (simp add: claims_role_def issue_claims_lookup py_str_def)
  moreover have "claims_methods (issue_claims pr ms mfa jti now exp) = Some ms"
    using assms(2) by (simp add: claims_methods_def issue_claims_lookup py_str_def comp_def)
  moreover have "claims_mfa_at (issue_claims pr ms mfa jti now exp) = Some (map_option (\<lambda>t. seconds (to_seconds t)) mfa)"
    by (simp add: claims_mfa_at_def issue_claims_lookup py_int_of_def split: option.splits)
  ultimately show ?thesis
    using assms(3)
    by (simp add: parse_claims_def claims_uuid_def issue_claims_lookup py_str_def parse_uuid_str py_int_of_def)
qed

lemma parse_claims_SomeD:
  "parse_claims claims = Some p \<Longrightarrow>
     claims_role claims = Some (pr_role (pt_principal p)) \<and>
     claims_customer claims (pr_role (pt_principal p)) = Some (pr_customer_id (pt_principal p)) \<and>
     claims_methods claims = Some (pt_auth_methods p) \<and>
     (pt_mfa_at p = None) = (\<not> second_factor (pt_auth_methods p))"
  by (auto simp: parse_claims_def split: option.splits if_splits)

lemma claims_customer_SomeD: "claims_customer claims r = Some c \<Longrightarrow> (r = CUSTOMER) = (c \<noteq> None)"
  by (auto simp: claims_customer_def Let_def split: if_splits option.splits; metis)

lemma claims_methods_SomeD: "claims_methods claims = Some ms \<Longrightarrow> valid_auth_methods ms"
  by (auto simp: claims_methods_def Let_def split: option.splits json.splits if_splits)

text \<open>A session the service issues is read back as it was issued: until it expires or is revoked,
  parsing the token gives the principal, the methods, the token id and, to the second, its times.\<close>

theorem session_round_trip:
  assumes "issue enc svc pr ms mfa jti now = Inr (tok, exp)"
    and "jwt_reads_back enc hdr dec (issue_claims pr ms mfa jti now exp) (as_secret svc) ''JWT''"
    and "(mfa = None) = (\<not> second_factor ms)" and "(pr_role pr = CUSTOMER) = (pr_customer_id pr \<noteq> None)"
    and "length tok \<le> 4096" and "now \<le> later" and "later < seconds (to_seconds exp)"
    and "reject_revoked_token pool jti later = Inr ()"
  shows "parse_with_claims hdr dec svc pool tok later =
    Inr \<lparr>pt_principal = pr, pt_jti = jti, pt_expires_at = seconds (to_seconds exp), pt_auth_methods = ms,
         pt_mfa_at = map_option (\<lambda>t. seconds (to_seconds t)) mfa\<rparr>"
proof -
  note i = issue_InrD [OF assms(1)]
  have "claims_valid (issue_claims pr ms mfa jti now exp) ''bantam-api'' ''bantam-auth'' REQUIRED_CLAIMS later"
    using assms(6,7) to_seconds_le [of now] by (auto simp: claims_valid_def issue_claims_lookup REQUIRED_CLAIMS_def)
  with assms(2) i have "dec tok (as_secret svc) ''bantam-api'' ''bantam-auth'' REQUIRED_CLAIMS later =
      Some (issue_claims pr ms mfa jti now exp)" "hdr tok = Some (''HS256'', ''JWT'')"
    by (auto simp: jwt_reads_back_def)
  moreover have "parse_claims (issue_claims pr ms mfa jti now exp) =
    Some \<lparr>pt_principal = pr, pt_jti = jti, pt_expires_at = seconds (to_seconds exp), pt_auth_methods = ms,
          pt_mfa_at = map_option (\<lambda>t. seconds (to_seconds t)) mfa\<rparr>"
    using i assms(3,4) by (intro parse_issued_claims) simp_all
  ultimately show ?thesis
    using assms(5,8) by (simp add: parse_with_claims_def JWT_ALGORITHM_def)
qed

definition demo_auth :: auth_service where
  "demo_auth = \<lparr>as_secret = ''secret'', as_ttl = seconds 900\<rparr>"

definition demo_claims :: claims where
  "demo_claims = issue_claims \<lparr>pr_user_id = 2, pr_role = CUSTOMER, pr_customer_id = Some 21\<rparr>
     [''pwd'', ''otp''] (Some (seconds 10)) 77 (seconds 10) (seconds 910)"

definition demo_decode :: jwt_decoder where
  "demo_decode token secret audience issuer required now =
     (if token = ''JWT'' \<and> claims_valid demo_claims audience issuer required now then Some demo_claims else None)"

theorem session_round_trip_witness:
  "parse_with_claims (\<lambda>t. Some (''HS256'', t)) demo_decode demo_auth NoPool ''JWT'' (seconds 20) =
     Inr \<lparr>pt_principal = \<lparr>pr_user_id = 2, pr_role = CUSTOMER, pr_customer_id = Some 21\<rparr>, pt_jti = 77,
       pt_expires_at = seconds 910, pt_auth_methods = [''pwd'', ''otp''], pt_mfa_at = Some (seconds 10)\<rparr>"
proof -
  let ?pr = "\<lparr>pr_user_id = 2, pr_role = CUSTOMER, pr_customer_id = Some 21\<rparr> :: principal"
  have "issue (\<lambda>_ _ typ. typ) demo_auth ?pr [''pwd'', ''otp''] (Some (seconds 10)) 77 (seconds 10) = Inr (''JWT'', seconds 910)"
    by (simp add: issue_def demo_auth_def ALLOWED_ROLES_def valid_auth_methods_def second_factor_def Let_def seconds_def)
  moreover have "jwt_reads_back (\<lambda>_ _ typ. typ) (\<lambda>t. Some (''HS256'', t)) demo_decode
      (issue_claims ?pr [''pwd'', ''otp''] (Some (seconds 10)) 77 (seconds 10) (seconds 910)) (as_secret demo_auth) ''JWT''"
    by (simp add: jwt_reads_back_def demo_decode_def demo_claims_def)
  moreover have "reject_revoked_token NoPool 77 (seconds 20) = Inr ()" by (simp add: reject_revoked_token_def)
  ultimately show ?thesis
    using session_round_trip [of "\<lambda>_ _ typ. typ" demo_auth ?pr "[''pwd'', ''otp'']" "Some (seconds 10)" 77 "seconds 10"
        "''JWT''" "seconds 910" "\<lambda>t. Some (''HS256'', t)" demo_decode "seconds 20" NoPool]
    by (simp add: second_factor_def seconds_def to_seconds_def)
qed

text \<open>A request is authenticated only by a live session: if a token parses, it was encoded with
  the service's key from claims valid now, it is not revoked (nor did the check fail), its role is one
  of the six session roles, it names a customer exactly for the customer role, a password was among the
  methods, and a second factor is claimed exactly with the time it was used.\<close>

theorem parsed_sessions_are_sound:
  assumes "parse_with_claims hdr dec svc pool tok now = Inr p"
    and "jwt_authentic enc hdr dec tok (as_secret svc)"
  shows "(\<exists>claims. tok = enc claims (as_secret svc) ''JWT'' \<and> parse_claims claims = Some p \<and>
      claims_valid claims ''bantam-api'' ''bantam-auth'' REQUIRED_CLAIMS now) \<and>
    pr_role (pt_principal p) \<in> set ALLOWED_ROLES \<and>
    (pr_role (pt_principal p) = CUSTOMER) = (pr_customer_id (pt_principal p) \<noteq> None) \<and>
    ''pwd'' \<in> set (pt_auth_methods p) \<and> (pt_mfa_at p \<noteq> None) = second_factor (pt_auth_methods p) \<and>
    pool \<noteq> FailingPool \<and> (\<forall>d. pool = Pool d \<longrightarrow> \<not> is_revoked (pt_jti p) now d)"
proof -
  from assms(1) obtain claims where
    c: "dec tok (as_secret svc) ''bantam-api'' ''bantam-auth'' REQUIRED_CLAIMS now = Some claims"
      "parse_claims claims = Some p" "hdr tok = Some (''HS256'', ''JWT'')"
      "reject_revoked_token pool (pt_jti p) now = Inr ()"
    by (auto simp: parse_with_claims_def Let_def JWT_ALGORITHM_def split: if_splits option.splits sum.splits)
  note r = parse_claims_SomeD [OF c(2)]
  have "pr_role (pt_principal p) \<in> set ALLOWED_ROLES"
    using r by (auto simp: claims_role_def split: option.splits if_splits)
  moreover have "(pr_role (pt_principal p) = CUSTOMER) = (pr_customer_id (pt_principal p) \<noteq> None)"
    using r claims_customer_SomeD by blast
  moreover have "''pwd'' \<in> set (pt_auth_methods p)"
    using r claims_methods_SomeD by (auto simp: valid_auth_methods_def)
  moreover have "pool \<noteq> FailingPool \<and> (\<forall>d. pool = Pool d \<longrightarrow> \<not> is_revoked (pt_jti p) now d)"
    using c(4) by (auto simp: reject_revoked_token_def split: if_splits)
  moreover have "tok = enc claims (as_secret svc) ''JWT'' \<and> claims_valid claims ''bantam-api'' ''bantam-auth'' REQUIRED_CLAIMS now"
    using assms(2) c(1,3) by (auto simp: jwt_authentic_def)
  ultimately show ?thesis using c(2) r by auto
qed

theorem parsed_sessions_are_sound_witness:
  "pr_role (pt_principal \<lparr>pt_principal = \<lparr>pr_user_id = 2, pr_role = CUSTOMER, pr_customer_id = Some 21\<rparr>, pt_jti = 77,
       pt_expires_at = seconds 910, pt_auth_methods = [''pwd'', ''otp''], pt_mfa_at = Some (seconds 10)\<rparr>) \<in> set ALLOWED_ROLES"
proof -
  have "parse_claims demo_claims = Some \<lparr>pt_principal = \<lparr>pr_user_id = 2, pr_role = CUSTOMER, pr_customer_id = Some 21\<rparr>, pt_jti = 77,
       pt_expires_at = seconds 910, pt_auth_methods = [''pwd'', ''otp''], pt_mfa_at = Some (seconds 10)\<rparr>"
    unfolding demo_claims_def
    by (subst parse_issued_claims)
      (simp_all add: ALLOWED_ROLES_def valid_auth_methods_def second_factor_def seconds_def to_seconds_def)
  moreover have "claims_valid demo_claims ''bantam-api'' ''bantam-auth'' REQUIRED_CLAIMS (seconds 20)"
    by (simp add: claims_valid_def demo_claims_def issue_claims_lookup REQUIRED_CLAIMS_def seconds_def to_seconds_def)
  ultimately have parse: "parse_with_claims (\<lambda>t. Some (''HS256'', t)) demo_decode demo_auth NoPool ''JWT'' (seconds 20) =
     Inr \<lparr>pt_principal = \<lparr>pr_user_id = 2, pr_role = CUSTOMER, pr_customer_id = Some 21\<rparr>, pt_jti = 77,
       pt_expires_at = seconds 910, pt_auth_methods = [''pwd'', ''otp''], pt_mfa_at = Some (seconds 10)\<rparr>"
    by (simp add: parse_with_claims_def JWT_ALGORITHM_def demo_decode_def reject_revoked_token_def)
  have "jwt_authentic (\<lambda>_ _ typ. typ) (\<lambda>t. Some (''HS256'', t)) demo_decode ''JWT'' (as_secret demo_auth)"
    by (auto simp: jwt_authentic_def demo_decode_def split: if_splits)
  from parsed_sessions_are_sound [OF parse this] show ?thesis by blast
qed

lemma revoke_sets_revoked:
  assumes "revoke_access_token p now d = Inr d'" and "now < pt_expires_at p"
    and "\<forall>r \<in> set (session_revocations d). sr_jti r = pt_jti p \<longrightarrow> sr_expires_at r = pt_expires_at p"
    and "later < pt_expires_at p"
  shows "is_revoked (pt_jti p) later d'"
  using assms
  by (auto simp: revoke_access_token_def Let_def is_revoked_def list_ex_iff known_def split: if_splits)

lemma revoke_keeps_revoked:
  assumes "revoke_access_token q now d = Inr d'" and "is_revoked jti later d" and "now \<le> later"
  shows "is_revoked jti later d'"
  using assms
  by (fastforce simp: revoke_access_token_def Let_def is_revoked_def list_ex_iff split: if_splits)

fun revoke_all :: "(parsed_token \<times> timestamp) list \<Rightarrow> db \<Rightarrow> failure + db" where
  "revoke_all [] d = Inr d"
| "revoke_all (pt # pts) d = andthen (revoke_access_token (fst pt) (snd pt) d) (revoke_all pts)"

lemma revoke_all_keeps:
  "revoke_all pts d = Inr d' \<Longrightarrow> is_revoked jti later d \<Longrightarrow> \<forall>pt \<in> set pts. snd pt \<le> later \<Longrightarrow>
     is_revoked jti later d'"
  by (induction pts arbitrary: d) (auto elim!: andthen_InrE dest: revoke_keeps_revoked)

text \<open>Logging out ends the session: after the token is revoked, parsing it fails until it would have
  expired anyway, also after any number of further revocations (which purge expired rows).\<close>

theorem revoked_sessions_are_refused:
  assumes "revoke_access_token p now d = Inr d1" and "now < pt_expires_at p"
    and "\<forall>r \<in> set (session_revocations d). sr_jti r = pt_jti p \<longrightarrow> sr_expires_at r = pt_expires_at p"
    and "revoke_all pts d1 = Inr d'" and "\<forall>pt \<in> set pts. snd pt \<le> later" and "later < pt_expires_at p"
    and "\<And>claims. dec tok (as_secret svc) ''bantam-api'' ''bantam-auth'' REQUIRED_CLAIMS later = Some claims \<Longrightarrow>
           parse_claims claims = Some p"
  shows "parse_with_claims hdr dec svc (Pool d') tok later = Inl (ValueError ''invalid access token'')"
proof -
  from revoke_all_keeps [OF assms(4) revoke_sets_revoked [OF assms(1-3,6)] assms(5)]
  have "is_revoked (pt_jti p) later d'" .
  with assms(7) show ?thesis
    by (auto simp: parse_with_claims_def Let_def reject_revoked_token_def split: option.splits)
qed

theorem revoked_sessions_are_refused_witness:
  "\<exists>d1. revoke_access_token \<lparr>pt_principal = \<lparr>pr_user_id = 2, pr_role = CUSTOMER, pr_customer_id = Some 21\<rparr>, pt_jti = 77,
       pt_expires_at = seconds 910, pt_auth_methods = [''pwd'', ''otp''], pt_mfa_at = Some (seconds 10)\<rparr> (seconds 20)
       (empty_db\<lparr>user_accounts := [\<lparr>ua_user_id = 2, ua_email = ''a'', ua_password_hash = ''h'', ua_role = CUSTOMER,
          ua_customer_id = Some 21, ua_status = USER_ACTIVE, ua_mfa_enabled = True, ua_created_at = 0, ua_updated_at = 0\<rparr>]\<rparr>) = Inr d1 \<and>
     parse_with_claims (\<lambda>t. Some (''HS256'', t)) demo_decode demo_auth (Pool d1) ''JWT'' (seconds 30) =
       Inl (ValueError ''invalid access token'')"
proof -
  let ?p = "\<lparr>pt_principal = \<lparr>pr_user_id = 2, pr_role = CUSTOMER, pr_customer_id = Some 21\<rparr>, pt_jti = 77,
       pt_expires_at = seconds 910, pt_auth_methods = [''pwd'', ''otp''], pt_mfa_at = Some (seconds 10)\<rparr>"
  let ?d = "empty_db\<lparr>user_accounts := [\<lparr>ua_user_id = 2, ua_email = ''a'', ua_password_hash = ''h'', ua_role = CUSTOMER,
          ua_customer_id = Some 21, ua_status = USER_ACTIVE, ua_mfa_enabled = True, ua_created_at = 0, ua_updated_at = 0\<rparr>]\<rparr>"
  obtain d1 where d1: "revoke_access_token ?p (seconds 20) ?d = Inr d1"
    by (simp add: revoke_access_token_def empty_db_def table_simps Let_def)
  have "parse_claims demo_claims = Some ?p" unfolding demo_claims_def
    by (subst parse_issued_claims)
      (simp_all add: ALLOWED_ROLES_def valid_auth_methods_def second_factor_def seconds_def to_seconds_def)
  then have "parse_claims claims = Some ?p"
    if "demo_decode ''JWT'' (as_secret demo_auth) ''bantam-api'' ''bantam-auth'' REQUIRED_CLAIMS (seconds 30) = Some claims" for claims
    using that by (auto simp: demo_decode_def split: if_splits)
  from revoked_sessions_are_refused [OF d1 _ _ _ _ _ this, where pts = "[]" and d' = d1 and hdr = "\<lambda>t. Some (''HS256'', t)"] d1
  show ?thesis by (simp add: empty_db_def seconds_def)
qed

text \<open>Only the six session roles ever get a session: for a user who awaits approval, or a service
  account, nothing is issued; and a session is issued only with a password among its methods.\<close>

theorem issue_only_session_roles:
  "(\<exists>x. issue enc svc pr ms mfa jti now = Inr x) \<longleftrightarrow>
     pr_role pr \<noteq> PENDING_APPROVAL \<and> pr_role pr \<noteq> SERVICE_ACCOUNT \<and>
     set ms \<subseteq> {''pwd'', ''webauthn'', ''otp''} \<and> ''pwd'' \<in> set ms \<and> distinct ms \<and>
     (mfa = None \<or> ''webauthn'' \<in> set ms \<or> ''otp'' \<in> set ms)"
proof -
  have "pr_role pr \<in> set ALLOWED_ROLES \<longleftrightarrow> pr_role pr \<noteq> PENDING_APPROVAL \<and> pr_role pr \<noteq> SERVICE_ACCOUNT"
    by (cases "pr_role pr") (simp_all add: ALLOWED_ROLES_def)
  moreover have "valid_auth_methods ms \<longleftrightarrow> set ms \<subseteq> {''pwd'', ''webauthn'', ''otp''} \<and> ''pwd'' \<in> set ms \<and> distinct ms"
    by (auto simp: valid_auth_methods_def list_all_iff subset_iff)
  ultimately show ?thesis
    by (auto simp: issue_def Let_def second_factor_def)
qed

text \<open>The two kinds of token are not interchangeable, whatever their keys: an account-status claim is
  refused as a session and a session as an account-status claim.\<close>

theorem token_kinds_are_separate:
  assumes "\<And>claims secret typ. hdr (enc claims secret typ) = Some (''HS256'', typ)"
  shows "parse_with_claims hdr dec svc pool (fst (issue_account_status enc svc' i c active kyc now)) later =
      Inl (ValueError ''invalid access token'') \<and>
    (\<forall>tok exp. issue enc svc pr ms mfa jti now = Inr (tok, exp) \<longrightarrow>
      verify_account_status hdr dec svc' tok later = Inl (ValueError ''invalid account-status assertion''))"
  using assms
  by (auto simp: parse_with_claims_def verify_account_status_def issue_account_status_def Let_def dest!: issue_InrD)

theorem token_kinds_are_separate_witness:
  "parse_with_claims (\<lambda>t. Some (''HS256'', t)) demo_decode demo_auth NoPool
     (fst (issue_account_status (\<lambda>_ _ typ. typ) demo_auth 1 2 True ''KYC_VERIFIED'' 0)) 5 = Inl (ValueError ''invalid access token'')"
  using token_kinds_are_separate [of "\<lambda>t. Some (''HS256'', t)" "\<lambda>_ _ typ. typ"] by simp

end
