(* ===== verification/Sca.thy ===== *)
theory Sca
  imports Store
begin

text \<open>
  Transaction-bound strong customer authentication: \<open>bantam/sca.py\<close>.

  \<open>sca_service\<close> is the state of a \<open>SCAService\<close> object, \<open>sca_create\<close> and
  \<open>sca_validate_and_consume\<close> are its \<open>create\<close> and \<open>validate_and_consume\<close>. The keyed hash
  \<open>hmac.new(secret, message, sha256).hexdigest()\<close> is the parameter \<open>hmac\<close>; the
  random challenge id, the random number below a million and the clocks are arguments.
\<close>

record sca_service =
  sca_secret :: string
  sca_ttl :: int
  sca_threshold :: int
  sca_demo_mode :: bool

record sca_fresh =
  sf_challenge_id :: uuid
  sf_random :: nat          \<comment> \<open>\<open>secrets.randbelow(1_000_000)\<close>\<close>
  sf_now :: timestamp

record sca_challenge =
  ch_challenge_id :: uuid
  ch_expires_at :: timestamp
  ch_required :: bool
  ch_demo_code :: "string option"

definition sca_required :: "sca_service \<Rightarrow> int \<Rightarrow> bool" where
  "sca_required svc amount_minor \<longleftrightarrow> amount_minor \<ge> sca_threshold svc"

definition zfill :: "nat \<Rightarrow> string \<Rightarrow> string" where
  "zfill w s = replicate (w - length s) (CHR ''0'') @ s"

definition sca_bound_value :: "uuid \<Rightarrow> uuid \<Rightarrow> uuid \<Rightarrow> uuid \<Rightarrow> int \<Rightarrow> string \<Rightarrow> string" where
  "sca_bound_value challenge_id user_id source_account_id destination_account_id amount_minor code =
     uuid_str challenge_id @ '':'' @ uuid_str user_id @ '':'' @ uuid_str source_account_id @ '':'' @
     uuid_str destination_account_id @ '':'' @ int_str amount_minor @ '':'' @ code"

definition sca_hash ::
  "(string \<Rightarrow> string \<Rightarrow> string) \<Rightarrow> sca_service \<Rightarrow> uuid \<Rightarrow> uuid \<Rightarrow> uuid \<Rightarrow> uuid \<Rightarrow> int \<Rightarrow> string \<Rightarrow> string" where
  "sca_hash hmac svc challenge_id user_id src dst amount_minor code =
     hmac (sca_secret svc) (sca_bound_value challenge_id user_id src dst amount_minor code)"

text \<open>\<open>datetime.min\<close> in UTC, in microseconds since the epoch.\<close>

definition datetime_min :: timestamp where
  "datetime_min = - 62135596800000000"

definition sca_create ::
  "(string \<Rightarrow> string \<Rightarrow> string) \<Rightarrow> sca_service \<Rightarrow> principal \<Rightarrow> uuid \<Rightarrow> uuid \<Rightarrow> int \<Rightarrow> sca_fresh \<Rightarrow> db
     \<Rightarrow> (failure + sca_challenge) \<times> db" where
  "sca_create hmac svc pr src dst amount_minor fx d =
     (case pr_customer_id pr of
        None \<Rightarrow> (Inl err_FORBIDDEN, d)
      | Some customer_id \<Rightarrow>
          if amount_minor \<le> 0 then (Inl (validation ''amount must be positive''), d)
          else if src = dst then (Inl (validation ''source and destination must differ''), d)
          else if \<not> list_ex (\<lambda>a. ba_account_id a = src \<and> ba_customer_id a = Some customer_id \<and>
                              ba_status a = ACCOUNT_ACTIVE) (bank_accounts d)
          then (Inl err_FORBIDDEN, d)
          else if \<not> list_ex (\<lambda>a. ba_account_id a = dst \<and> ba_status a = ACCOUNT_ACTIVE) (bank_accounts d)
          then (Inl err_NOT_FOUND, d)
          else if \<not> sca_required svc amount_minor
          then (Inr \<lparr>ch_challenge_id = 0, ch_expires_at = datetime_min, ch_required = False,
                     ch_demo_code = None\<rparr>, d)
          else
            let code = zfill 6 (nat_str (sf_random fx));
                expires_at = sf_now fx + sca_ttl svc;
                code_hash = sca_hash hmac svc (sf_challenge_id fx) (pr_user_id pr) src dst amount_minor code in
            case insert_challenge
                   \<lparr>sc_challenge_id = sf_challenge_id fx, sc_user_id = pr_user_id pr,
                    sc_source_account_id = src, sc_destination_account_id = dst,
                    sc_amount_minor = amount_minor, sc_code_hash = code_hash,
                    sc_status = CH_PENDING, sc_expires_at = expires_at, sc_consumed_at = None\<rparr> d of
              Inl e \<Rightarrow> (Inl e, d)
            | Inr d' \<Rightarrow>
                (Inr \<lparr>ch_challenge_id = sf_challenge_id fx, ch_expires_at = expires_at,
                      ch_required = True,
                      ch_demo_code = (if sca_demo_mode svc then Some code else None)\<rparr>, d'))"

text \<open>
  \<open>str.isascii\<close> and \<open>str.isdigit\<close>: the superscripts two, three and one are digits for
  Python.
\<close>

definition py_isascii :: "string \<Rightarrow> bool" where
  "py_isascii s \<longleftrightarrow> list_all (\<lambda>c. ord c < 128) s"

definition py_isdigit :: "string \<Rightarrow> bool" where
  "py_isdigit s \<longleftrightarrow> s \<noteq> [] \<and> list_all (\<lambda>c. is_digit c \<or> ord c \<in> {178, 179, 185}) s"

definition consume_challenge :: "uuid \<Rightarrow> timestamp \<Rightarrow> db \<Rightarrow> failure + db" where
  "consume_challenge challenge_id db_now d =
     (let pending = (\<lambda>c. sc_challenge_id c = challenge_id \<and> sc_status c = CH_PENDING) in
      if \<not> list_ex pending (sca_challenges d) then Inl err_SCA_FAILED
      else Inr (d\<lparr>sca_challenges := rows_update pending
             (\<lambda>c. c\<lparr>sc_status := CH_CONSUMED, sc_consumed_at := Some db_now\<rparr>) (sca_challenges d)\<rparr>))"

definition sca_validate_and_consume ::
  "(string \<Rightarrow> string \<Rightarrow> string) \<Rightarrow> sca_service \<Rightarrow> principal \<Rightarrow> uuid \<Rightarrow> uuid \<Rightarrow> int \<Rightarrow> uuid option \<Rightarrow> string
     \<Rightarrow> timestamp \<Rightarrow> timestamp \<Rightarrow> db \<Rightarrow> failure + db" where
  "sca_validate_and_consume hmac svc pr src dst amount_minor challenge_id code now db_now d =
     (if \<not> sca_required svc amount_minor then Inr d
      else case challenge_id of
        None \<Rightarrow> Inl err_SCA_REQUIRED
      | Some cid \<Rightarrow>
          if length code \<noteq> 6 \<or> \<not> py_isascii code \<or> \<not> py_isdigit code then Inl err_SCA_REQUIRED
          else case row_get sc_challenge_id cid (sca_challenges d) of
            None \<Rightarrow> Inl err_SCA_FAILED
          | Some c \<Rightarrow>
              if sc_status c \<noteq> CH_PENDING \<or> now > sc_expires_at c then Inl err_SCA_FAILED
              else if sc_user_id c \<noteq> pr_user_id pr \<or> sc_source_account_id c \<noteq> src \<or>
                      sc_destination_account_id c \<noteq> dst \<or> sc_amount_minor c \<noteq> amount_minor
              then Inl err_SCA_FAILED
              else if sca_hash hmac svc cid (pr_user_id pr) src dst amount_minor code \<noteq> sc_code_hash c
              then Inl err_SCA_FAILED
              else consume_challenge cid db_now d)"

section \<open>The text of a code\<close>

lemma length_zfill: "length s \<le> w \<Longrightarrow> length (zfill w s) = w"
  by (simp add: zfill_def)

lemma length_nat_str_bound: "n < 10 ^ k \<Longrightarrow> 0 < k \<Longrightarrow> length (nat_str n) \<le> k"
proof (induction k arbitrary: n)
  case 0
  then show ?case by simp
next
  case (Suc k)
  show ?case
  proof (cases "n < 10")
    case True
    then show ?thesis by (subst nat_str.simps) simp
  next
    case False
    with Suc.prems have "n div 10 < 10 ^ k" and "0 < k"
      by (auto intro!: less_mult_imp_div_less simp: mult.commute) (cases k; simp)
    then have "length (nat_str (n div 10)) \<le> k" by (rule Suc.IH)
    with False show ?thesis by (subst nat_str.simps) simp
  qed
qed

lemma sca_code_format:
  assumes "n < 1000000"
  shows "length (zfill 6 (nat_str n)) = 6" and "py_isascii (zfill 6 (nat_str n))"
    and "py_isdigit (zfill 6 (nat_str n))"
proof -
  from assms have "length (nat_str n) \<le> 6"
    using length_nat_str_bound [of n 6] by simp
  then show "length (zfill 6 (nat_str n)) = 6" by (rule length_zfill)
  have digits: "list_all is_digit (zfill 6 (nat_str n))"
    using nat_str_digits [of n] by (auto simp: zfill_def list_all_iff is_digit_def ord_def)
  then show "py_isascii (zfill 6 (nat_str n))"
    by (auto simp: py_isascii_def list_all_iff is_digit_def)
  from digits show "py_isdigit (zfill 6 (nat_str n))"
    by (auto simp: py_isdigit_def list_all_iff zfill_def)
qed

section \<open>The bound message\<close>

lemma take_drop_8_4_4_4_12:
  "take 8 xs @ take 4 (drop 8 xs) @ take 4 (drop 12 xs) @ take 4 (drop 16 xs) @ drop 20 xs = xs"
proof -
  have "take 4 (drop 16 xs) @ drop 20 xs = drop 16 xs"
    using append_take_drop_id [of 4 "drop 16 xs"] by simp
  moreover have "take 4 (drop 12 xs) @ drop 16 xs = drop 12 xs"
    using append_take_drop_id [of 4 "drop 12 xs"] by simp
  moreover have "take 4 (drop 8 xs) @ drop 12 xs = drop 8 xs"
    using append_take_drop_id [of 4 "drop 8 xs"] by simp
  ultimately show ?thesis by simp
qed

lemma uuid_str_inj: "uuid_str u = uuid_str v \<Longrightarrow> u = v"
proof (rule uuid_hex_inj)
  assume "uuid_str u = uuid_str v"
  then show "uuid_hex u = uuid_hex v"
    by (subst take_drop_8_4_4_4_12 [of "uuid_hex u", symmetric],
        subst take_drop_8_4_4_4_12 [of "uuid_hex v", symmetric])
      (simp add: uuid_str_def Let_def)
qed

lemma colon_not_in_int_str: "CHR '':'' \<notin> set (int_str i)"
  using nat_str_digits [of "nat i"] nat_str_digits [of "nat (- i)"]
  by (auto simp: int_str_def is_digit_def ord_def)

lemma append_sep_inj:
  "c \<notin> set xs \<Longrightarrow> c \<notin> set ys \<Longrightarrow> xs @ c # us = ys @ c # vs \<Longrightarrow> xs = ys \<and> us = vs"
  by (induction xs arbitrary: ys) (auto simp: Cons_eq_append_conv)

lemma sca_bound_value_inj:
  assumes "sca_bound_value c u s t a k = sca_bound_value c' u' s' t' a' k'"
  shows "c = c' \<and> u = u' \<and> s = s' \<and> t = t' \<and> a = a' \<and> k = k'"
proof -
  have "int_str a @ CHR '':'' # k = int_str a' @ CHR '':'' # k'"
    and ids: "uuid_str c = uuid_str c'" "uuid_str u = uuid_str u'" "uuid_str s = uuid_str s'"
      "uuid_str t = uuid_str t'"
    using assms by (simp_all add: sca_bound_value_def)
  from this(1) have "int_str a = int_str a' \<and> k = k'"
    by (intro append_sep_inj [of "CHR '':''"]) (simp_all add: colon_not_in_int_str)
  with ids show ?thesis by (blast dest: uuid_str_inj int_str_inj)
qed

section \<open>What an operation that succeeded did\<close>

lemma consume_challenge_InrD:
  "consume_challenge cid t d = Inr d' \<Longrightarrow>
     d' = d\<lparr>sca_challenges := rows_update (\<lambda>c. sc_challenge_id c = cid \<and> sc_status c = CH_PENDING)
             (\<lambda>c. c\<lparr>sc_status := CH_CONSUMED, sc_consumed_at := Some t\<rparr>) (sca_challenges d)\<rparr>"
  by (auto simp: consume_challenge_def Let_def split: if_splits)

lemma sca_validate_InrD:
  assumes "sca_validate_and_consume hmac svc pr src dst a ch code now t d = Inr d'"
  shows "\<not> sca_required svc a \<and> d' = d \<or>
    (\<exists>cid c. sca_required svc a \<and> ch = Some cid \<and> row_get sc_challenge_id cid (sca_challenges d) = Some c \<and>
      sc_status c = CH_PENDING \<and> now \<le> sc_expires_at c \<and> sc_user_id c = pr_user_id pr \<and>
      sc_source_account_id c = src \<and> sc_destination_account_id c = dst \<and> sc_amount_minor c = a \<and>
      sc_code_hash c = sca_hash hmac svc cid (pr_user_id pr) src dst a code \<and>
      d' = d\<lparr>sca_challenges := rows_update (\<lambda>c. sc_challenge_id c = cid \<and> sc_status c = CH_PENDING)
             (\<lambda>c. c\<lparr>sc_status := CH_CONSUMED, sc_consumed_at := Some t\<rparr>) (sca_challenges d)\<rparr>)"
  using assms
  by (auto simp: sca_validate_and_consume_def dest!: consume_challenge_InrD
      split: if_splits option.splits)

lemma sca_validate_frame:
  assumes "sca_validate_and_consume hmac svc pr src dst a ch code now t d = Inr d'"
  shows "\<exists>cs. d' = d\<lparr>sca_challenges := cs\<rparr> \<and> map sc_challenge_id cs = map sc_challenge_id (sca_challenges d)"
  using sca_validate_InrD [OF assms]
  by (elim disjE exE conjE) (auto intro!: exI map_rows_update simp: map_rows_update)

lemma sca_create_frame:
  "sca_create hmac svc pr src dst a fx d = (r, d') \<Longrightarrow> \<exists>cs. d' = d\<lparr>sca_challenges := sca_challenges d @ cs\<rparr>"
  by (auto simp: sca_create_def Let_def split: option.splits if_splits sum.splits
      dest!: insert_challenge_InrD intro: exI [of _ "[]"])

end
