(* ===== verification/Mfa.thy ===== *)
theory Mfa
  imports Auth Sca
begin

text \<open>
  Passkey and authenticator-app ceremonies: \<open>bantam/mfa.py\<close>.

  The cryptography is the record \<open>mfa_library\<close>: Fernet, pyotp and the webauthn package,
  each function returning \<open>None\<close> where the source catches the library's exception. Random values
  and clocks are the record \<open>mfa_fresh\<close>. A method that runs in \<open>with connection.transaction()\<close> and
  raises only after the block committed is a body that returns the failure as a value;
  \<open>raise_after_commit\<close> is its end. So a failed verification keeps its increment of
  \<open>attempts\<close>, and an exception raised inside the block keeps nothing.
\<close>

section \<open>Service, libraries and fresh values\<close>

definition MFA_REQUIRED_ROLES :: "role list" where
  "MFA_REQUIRED_ROLES = [BANK_ADMIN, ASPIS_ADMIN]"

definition MAX_ATTEMPTS :: int where "MAX_ATTEMPTS = 5"

datatype mfa_method = PASSKEY | TOTP

record mfa_service =
  ms_ttl :: int
  ms_rp_id :: "string option"
  ms_rp_name :: string
  ms_origins :: "string list"

record verified_authentication =
  va_new_sign_count :: int
  va_backed_up :: bool

record verified_registration =
  vr_credential_id :: string
  vr_public_key :: string
  vr_sign_count :: int
  vr_device_type :: string
  vr_backed_up :: bool

record mfa_library =
  lib_b64url :: "string \<Rightarrow> string option"
  lib_verify_authentication ::
    "(string \<times> json) list \<Rightarrow> string \<Rightarrow> string \<Rightarrow> string list \<Rightarrow> string \<Rightarrow> int \<Rightarrow> verified_authentication option"
  lib_verify_registration ::
    "(string \<times> json) list \<Rightarrow> string \<Rightarrow> string \<Rightarrow> string list \<Rightarrow> verified_registration option"
  lib_registration_options :: "string \<Rightarrow> string \<Rightarrow> uuid \<Rightarrow> string \<Rightarrow> string list \<Rightarrow> string \<Rightarrow> json"
  lib_authentication_options :: "string \<Rightarrow> string list \<Rightarrow> string \<Rightarrow> json"
  lib_encrypt :: "string \<Rightarrow> string \<Rightarrow> string"
  lib_decrypt :: "string \<Rightarrow> string option"
  lib_totp_at :: "string \<Rightarrow> int \<Rightarrow> string"
  lib_totp_interval :: int
  lib_totp_timecode :: "int \<Rightarrow> int"
  lib_provisioning_uri :: "string \<Rightarrow> string \<Rightarrow> string \<Rightarrow> string"

record mfa_fresh =
  mx_transaction_id :: uuid
  mx_credential_row :: uuid
  mx_challenge :: string         \<comment> \<open>the random challenge of the webauthn package\<close>
  mx_secret :: string            \<comment> \<open>\<open>pyotp.random_base32()\<close>\<close>
  mx_nonce :: string             \<comment> \<open>Fernet's randomness\<close>
  mx_now :: timestamp            \<comment> \<open>\<open>datetime.now(UTC)\<close>\<close>
  mx_db_now :: timestamp         \<comment> \<open>\<open>now()\<close> of the transaction\<close>
  mx_time :: int                 \<comment> \<open>\<open>int(time.time())\<close>\<close>

record mfa_completion =
  mc_user_id :: uuid
  mc_customer_id :: "uuid option"
  mc_role :: role
  mc_method :: mfa_method
  mc_enrolled :: bool

record mfa_challenge =
  mg_enrollment :: bool          \<comment> \<open>\<open>mfa_enrollment_required\<close> rather than \<open>mfa_required\<close>\<close>
  mg_transaction_id :: uuid
  mg_methods :: "mfa_method list"
  mg_passkey_options :: "json option"
  mg_expires_at :: timestamp

record mfa_setup =
  mu_transaction_id :: uuid
  mu_method :: mfa_method
  mu_passkey_options :: "json option"
  mu_totp_secret :: "string option"
  mu_totp_uri :: "string option"
  mu_expires_at :: timestamp

definition passkeys_enabled :: "mfa_service \<Rightarrow> bool" where
  "passkeys_enabled svc \<longleftrightarrow> ms_rp_id svc \<noteq> None \<and> ms_rp_id svc \<noteq> Some [] \<and> ms_origins svc \<noteq> []"

definition rp_id_text :: "mfa_service \<Rightarrow> string" where
  "rp_id_text svc = (case ms_rp_id svc of None \<Rightarrow> [] | Some r \<Rightarrow> r)"

definition role_requires_mfa :: "role \<Rightarrow> bool" where
  "role_requires_mfa r \<longleftrightarrow> r \<in> set MFA_REQUIRED_ROLES"

section \<open>Factors of a user\<close>

definition active_passkey :: "uuid \<Rightarrow> webauthn_row \<Rightarrow> bool" where
  "active_passkey uid c \<longleftrightarrow> wc_user_id c = uid \<and> wc_revoked_at c = None"

definition active_totp :: "uuid \<Rightarrow> totp_row \<Rightarrow> bool" where
  "active_totp uid c \<longleftrightarrow> to_user_id c = uid \<and> to_revoked_at c = None"

definition has_factor :: "uuid \<Rightarrow> db \<Rightarrow> bool" where
  "has_factor uid d \<longleftrightarrow>
     list_ex (active_passkey uid) (webauthn_credentials d) \<or> list_ex (active_totp uid) (totp_credentials d)"

definition factor_methods :: "mfa_service \<Rightarrow> db \<Rightarrow> uuid \<Rightarrow> failure + mfa_method list" where
  "factor_methods svc d uid =
     (let passkey = list_ex (active_passkey uid) (webauthn_credentials d);
          totp = list_ex (active_totp uid) (totp_credentials d) in
      if passkey \<and> \<not> passkeys_enabled svc \<and> \<not> totp
      then Inl (MfaFailure ''PASSKEY_CONFIGURATION_REQUIRED''
                  ''This account requires its configured passkey origin.'' 503)
      else Inr ((if passkey \<and> passkeys_enabled svc then [PASSKEY] else []) @ (if totp then [TOTP] else [])))"

definition registration_options ::
  "mfa_library \<Rightarrow> mfa_service \<Rightarrow> db \<Rightarrow> uuid \<Rightarrow> string \<Rightarrow> string \<Rightarrow> json \<times> string" where
  "registration_options lib svc d uid email challenge =
     (lib_registration_options lib (rp_id_text svc) (ms_rp_name svc) uid email
        (map wc_credential_id (filter (active_passkey uid) (webauthn_credentials d))) challenge, challenge)"

definition authentication_options ::
  "mfa_library \<Rightarrow> mfa_service \<Rightarrow> db \<Rightarrow> uuid \<Rightarrow> string \<Rightarrow> json \<times> string" where
  "authentication_options lib svc d uid challenge =
     (lib_authentication_options lib (rp_id_text svc)
        (map wc_credential_id (filter (active_passkey uid) (webauthn_credentials d))) challenge, challenge)"

section \<open>Transactions of a ceremony\<close>

definition delete_stale_mfa :: "uuid \<Rightarrow> timestamp \<Rightarrow> db \<Rightarrow> db" where
  "delete_stale_mfa uid db_now d =
     d\<lparr>mfa_transactions := filter
         (\<lambda>t. \<not> (mf_user_id t = uid \<and> (mf_expires_at t \<le> db_now \<or> mf_consumed_at t \<noteq> None))) (mfa_transactions d)\<rparr>"

definition insert_mfa_row :: "mfa_row \<Rightarrow> db \<Rightarrow> failure + db" where
  "insert_mfa_row t d =
     (if (mf_source_jti t = None) \<noteq> (mf_source_expires_at t = None)
      then Inl (CheckViolation ''mfa_transactions_check'')
      else if known mf_transaction_id (mf_transaction_id t) (mfa_transactions d)
      then Inl (UniqueViolation ''mfa_transactions_pkey'')
      else if \<not> known ua_user_id (mf_user_id t) (user_accounts d)
      then Inl (ForeignKeyViolation ''mfa_transactions_user_id_fkey'')
      else Inr (d\<lparr>mfa_transactions := mfa_transactions d @ [t]\<rparr>))"

definition insert_mfa ::
  "mfa_service \<Rightarrow> mfa_fresh \<Rightarrow> uuid \<Rightarrow> mfa_purpose \<Rightarrow> string option \<Rightarrow> uuid option \<Rightarrow> timestamp option
     \<Rightarrow> (db, failure, uuid \<times> timestamp) proc" where
  "insert_mfa svc fx uid purpose challenge source_jti source_expires_at =
     (let expires_at = mx_now fx + ms_ttl svc in
      run_then (statement (\<lambda>d. Inr (delete_stale_mfa uid (mx_db_now fx) d))) (\<lambda>_.
      run_then (statement (insert_mfa_row
        \<lparr>mf_transaction_id = mx_transaction_id fx, mf_user_id = uid, mf_purpose = purpose,
         mf_challenge = challenge, mf_pending_secret = None, mf_factor_label = None,
         mf_source_jti = source_jti, mf_source_expires_at = source_expires_at,
         mf_attempts = 0, mf_expires_at = expires_at, mf_consumed_at = None\<rparr>)) (\<lambda>_.
      returning (mx_transaction_id fx, expires_at))))"

definition new_choice_transaction ::
  "mfa_service \<Rightarrow> mfa_fresh \<Rightarrow> uuid \<Rightarrow> (db, failure, mfa_challenge) proc" where
  "new_choice_transaction svc fx uid =
     run_then (insert_mfa svc fx uid ENROLL_CHOICE None None None) (\<lambda>(tid, expires_at).
       returning \<lparr>mg_enrollment = True, mg_transaction_id = tid,
                  mg_methods = (if passkeys_enabled svc then [PASSKEY, TOTP] else [TOTP]),
                  mg_passkey_options = None, mg_expires_at = expires_at\<rparr>)"

definition begin_login ::
  "mfa_library \<Rightarrow> mfa_service \<Rightarrow> mfa_fresh \<Rightarrow> user_row \<Rightarrow> (db, failure, mfa_challenge option) proc" where
  "begin_login lib svc fx u d =
     (case factor_methods svc d (ua_user_id u) of
        Inl e \<Rightarrow> raising e d
      | Inr methods \<Rightarrow>
          if methods = [] then
            (if role_requires_mfa (ua_role u)
             then run_then (new_choice_transaction svc fx (ua_user_id u)) (\<lambda>g. returning (Some g)) d
             else returning None d)
          else
            let (options, challenge) =
                  (if PASSKEY \<in> set methods
                   then let (opts, ch) = authentication_options lib svc d (ua_user_id u) (mx_challenge fx)
                        in (Some opts, Some ch)
                   else (None, None)) in
            run_then (insert_mfa svc fx (ua_user_id u) LOGIN challenge None None) (\<lambda>(tid, expires_at).
              returning (Some \<lparr>mg_enrollment = False, mg_transaction_id = tid, mg_methods = methods,
                               mg_passkey_options = options, mg_expires_at = expires_at\<rparr>)) d)"

definition begin_authenticated_enrollment ::
  "mfa_service \<Rightarrow> mfa_fresh \<Rightarrow> uuid \<Rightarrow> uuid \<Rightarrow> timestamp \<Rightarrow> (db, failure, uuid) proc" where
  "begin_authenticated_enrollment svc fx uid source_jti source_expires_at =
     run_then (insert_mfa svc fx uid ENROLL_CHOICE None (Some source_jti) (Some source_expires_at))
       (\<lambda>(tid, _). returning tid)"

definition update_mfa :: "uuid \<Rightarrow> (mfa_row \<Rightarrow> mfa_row) \<Rightarrow> db \<Rightarrow> db" where
  "update_mfa tid f d = d\<lparr>mfa_transactions := rows_update (\<lambda>t. mf_transaction_id t = tid) f (mfa_transactions d)\<rparr>"

definition transaction_for_update :: "uuid \<Rightarrow> timestamp \<Rightarrow> db \<Rightarrow> failure + mfa_row \<times> user_row" where
  "transaction_for_update tid db_now d =
     (let refuse = Inl (MfaFailure ''INVALID_MFA_TRANSACTION'' ''This MFA request expired or was already used.'' 401) in
      case row_get mf_transaction_id tid (mfa_transactions d) of
        None \<Rightarrow> refuse
      | Some t \<Rightarrow>
          if mf_expires_at t > db_now \<and> mf_consumed_at t = None \<and> mf_attempts t < MAX_ATTEMPTS
          then (case row_get ua_user_id (mf_user_id t) (user_accounts d) of
                  None \<Rightarrow> refuse
                | Some u \<Rightarrow> if ua_status u = USER_ACTIVE then Inr (t, u) else refuse)
          else refuse)"

text \<open>A verification step: it may raise, or leave a failure to raise after the commit.\<close>

type_synonym checked = "failure + failure option \<times> db"

definition record_failure :: "uuid \<Rightarrow> string \<Rightarrow> db \<Rightarrow> checked" where
  "record_failure tid message d =
     (if \<exists>t \<in> set (mfa_transactions d). mf_transaction_id t = tid \<and> mf_attempts t + 1 > 5
      then Inl (CheckViolation ''mfa_transactions_attempts_check'')
      else Inr (Some (MfaFailure ''MFA_VERIFICATION_FAILED'' message 401),
             update_mfa tid (\<lambda>t. t\<lparr>mf_attempts := mf_attempts t + 1\<rparr>) d))"

definition raise_after_commit :: "(failure + (failure + 'a)) \<times> db \<Rightarrow> (failure + 'a) \<times> db" where
  "raise_after_commit rd = (case fst rd of Inl e \<Rightarrow> Inl e | Inr x \<Rightarrow> x, snd rd)"

definition enrolling :: "mfa_purpose \<Rightarrow> bool" where
  "enrolling p \<longleftrightarrow> p \<noteq> LOGIN"

definition consume_mfa ::
  "mfa_row \<Rightarrow> mfa_method \<Rightarrow> timestamp \<Rightarrow> db \<Rightarrow> failure + mfa_completion \<times> db" where
  "consume_mfa t m db_now d =
     (let d1 = update_mfa (mf_transaction_id t) (\<lambda>t. t\<lparr>mf_consumed_at := Some db_now\<rparr>) d;
          d2 = d1\<lparr>user_accounts := rows_update (\<lambda>u. ua_user_id u = mf_user_id t)
                    (ua_mfa_enabled_update (\<lambda>_. True)) (user_accounts d1)\<rparr>;
          d3 = (case (mf_source_jti t, mf_source_expires_at t) of
                  (Some jti, Some expires_at) \<Rightarrow>
                    if known sr_jti jti (session_revocations d2) then d2
                    else d2\<lparr>session_revocations := session_revocations d2 @
                           [\<lparr>sr_jti = jti, sr_user_id = mf_user_id t, sr_expires_at = expires_at,
                             sr_revoked_at = db_now\<rparr>]\<rparr>
                | _ \<Rightarrow> d2);
          refuse = Inl (MfaFailure ''UNAUTHENTICATED'' ''The user account is no longer active.'' 401) in
      case row_get ua_user_id (mf_user_id t) (user_accounts d3) of
        None \<Rightarrow> refuse
      | Some u \<Rightarrow>
          if ua_status u = USER_ACTIVE
          then Inr (\<lparr>mc_user_id = ua_user_id u, mc_customer_id = ua_customer_id u, mc_role = ua_role u,
                     mc_method = m, mc_enrolled = enrolling (mf_purpose t)\<rparr>, d3)
          else refuse)"

text \<open>The end of both completions: consume the transaction unless a failure is pending.\<close>

definition complete_checked ::
  "mfa_row \<Rightarrow> mfa_method \<Rightarrow> timestamp \<Rightarrow> checked \<Rightarrow> failure + (failure + mfa_completion) \<times> db" where
  "complete_checked t m db_now checked =
     andthen checked (\<lambda>(failed, d1).
       case failed of
         Some f \<Rightarrow> Inr (Inl f, d1)
       | None \<Rightarrow> andthen (consume_mfa t m db_now d1) (\<lambda>(c, d2). Inr (Inr c, d2)))"

section \<open>Choosing and preparing a factor\<close>

definition method_of_text :: "string \<Rightarrow> mfa_method option" where
  "method_of_text s =
     (let m = py_lower (py_strip s) in
      if m = ''passkey'' then Some PASSKEY else if m = ''totp'' then Some TOTP else None)"

definition default_label :: "mfa_method \<Rightarrow> string" where
  "default_label m = (case m of PASSKEY \<Rightarrow> ''Passkey'' | TOTP \<Rightarrow> ''Authenticator app'')"

definition prepare_body ::
  "mfa_library \<Rightarrow> mfa_service \<Rightarrow> mfa_fresh \<Rightarrow> uuid \<Rightarrow> mfa_method \<Rightarrow> string \<Rightarrow> db
     \<Rightarrow> failure + (failure + mfa_setup) \<times> db" where
  "prepare_body lib svc fx tid m label d =
     andthen (transaction_for_update tid (mx_db_now fx) d) (\<lambda>(t, u).
       if mf_purpose t \<noteq> ENROLL_CHOICE
       then Inr (Inl (MfaFailure ''INVALID_MFA_TRANSACTION'' ''This MFA setup request is no longer available.'' 409), d)
       else case m of
         PASSKEY \<Rightarrow>
           if \<not> passkeys_enabled svc
           then Inr (Inl (MfaFailure ''PASSKEYS_NOT_CONFIGURED'' ''Passkeys are not configured for this hostname.'' 503), d)
           else
             let (options, challenge) = registration_options lib svc d (mf_user_id t) (ua_email u) (mx_challenge fx) in
             Inr (Inr \<lparr>mu_transaction_id = tid, mu_method = m, mu_passkey_options = Some options,
                       mu_totp_secret = None, mu_totp_uri = None, mu_expires_at = mf_expires_at t\<rparr>,
                  update_mfa tid (\<lambda>t. t\<lparr>mf_purpose := ENROLL_PASSKEY, mf_challenge := Some challenge,
                                    mf_factor_label := Some label\<rparr>) d)
       | TOTP \<Rightarrow>
           if list_ex (active_totp (mf_user_id t)) (totp_credentials d)
           then Inr (Inl (MfaFailure ''TOTP_ALREADY_ENROLLED''
                            ''Remove the existing authenticator app before replacing it.'' 409), d)
           else
             let secret = mx_secret fx; encrypted = lib_encrypt lib (mx_nonce fx) secret in
             Inr (Inr \<lparr>mu_transaction_id = tid, mu_method = m, mu_passkey_options = None,
                       mu_totp_secret = Some secret,
                       mu_totp_uri = Some (lib_provisioning_uri lib secret (ua_email u) (ms_rp_name svc)),
                       mu_expires_at = mf_expires_at t\<rparr>,
                  update_mfa tid (\<lambda>t. t\<lparr>mf_purpose := ENROLL_TOTP, mf_pending_secret := Some encrypted,
                                    mf_factor_label := Some label\<rparr>) d))"

definition prepare_enrollment ::
  "mfa_library \<Rightarrow> mfa_service \<Rightarrow> mfa_fresh \<Rightarrow> uuid \<Rightarrow> string \<Rightarrow> string \<Rightarrow> db \<Rightarrow> (failure + mfa_setup) \<times> db" where
  "prepare_enrollment lib svc fx tid meth label d =
     (case method_of_text meth of
        None \<Rightarrow> (Inl (MfaFailure ''INVALID_MFA_METHOD'' ''Choose a passkey or authenticator-app code.'' 422), d)
      | Some m \<Rightarrow>
          let label = (if py_strip label = [] then default_label m else py_strip label) in
          if length label > 80 then (Inl (MfaFailure ''INVALID_MFA_LABEL'' ''MFA label is too long.'' 422), d)
          else raise_after_commit (in_transaction (prepare_body lib svc fx tid m label) d))"

section \<open>Passkeys\<close>

definition SAFE_TRANSPORTS :: "string list" where
  "SAFE_TRANSPORTS = [''ble'', ''cable'', ''hybrid'', ''internal'', ''nfc'', ''smart-card'', ''usb'']"

text \<open>
  \<open>sorted({str(item) for item in transports if str(item) in ...})\<close>: iterating a string yields its
  characters, iterating an object its keys, and anything else but a list is no iterable.
\<close>

definition safe_transports :: "(string \<times> json) list \<Rightarrow> failure + string list" where
  "safe_transports credential =
     (case map_of credential ''response'' of
        Some (JObj response) \<Rightarrow>
          (case map_of response ''transports'' of
             None \<Rightarrow> Inr []
           | Some (JList items) \<Rightarrow> Inr (filter (\<lambda>s. s \<in> set (map py_str items)) SAFE_TRANSPORTS)
           | Some (JObj kvs) \<Rightarrow> Inr (filter (\<lambda>s. s \<in> set (map fst kvs)) SAFE_TRANSPORTS)
           | Some (JStr cs) \<Rightarrow> Inr (filter (\<lambda>s. s \<in> set (map (\<lambda>c. [c]) cs)) SAFE_TRANSPORTS)
           | Some _ \<Rightarrow> Inl TypeError)
      | _ \<Rightarrow> Inr [])"

definition insert_webauthn :: "webauthn_row \<Rightarrow> db \<Rightarrow> failure + db" where
  "insert_webauthn c d =
     (if \<not> is_bigint (wc_sign_count c) then Inl NumericValueOutOfRange
      else if wc_sign_count c < 0 then Inl (CheckViolation ''webauthn_credentials_sign_count_check'')
      else if length (wc_label c) < 1 \<or> length (wc_label c) > 80
      then Inl (CheckViolation ''webauthn_credentials_label_check'')
      else if known wc_webauthn_credential_id (wc_webauthn_credential_id c) (webauthn_credentials d)
      then Inl (UniqueViolation ''webauthn_credentials_pkey'')
      else if known wc_credential_id (wc_credential_id c) (webauthn_credentials d)
      then Inl (UniqueViolation ''webauthn_credentials_credential_id_key'')
      else if \<not> known ua_user_id (wc_user_id c) (user_accounts d)
      then Inl (ForeignKeyViolation ''webauthn_credentials_user_id_fkey'')
      else Inr (d\<lparr>webauthn_credentials := webauthn_credentials d @ [c]\<rparr>))"

definition touch_passkey :: "uuid \<Rightarrow> string \<Rightarrow> verified_authentication \<Rightarrow> timestamp \<Rightarrow> db \<Rightarrow> checked" where
  "touch_passkey uid raw_id v db_now d =
     (if \<not> is_bigint (va_new_sign_count v) then Inl NumericValueOutOfRange
      else if va_new_sign_count v < 0 then Inl (CheckViolation ''webauthn_credentials_sign_count_check'')
      else Inr (None, d\<lparr>webauthn_credentials :=
             rows_update (\<lambda>c. wc_user_id c = uid \<and> wc_credential_id c = raw_id)
               (\<lambda>c. c\<lparr>wc_sign_count := va_new_sign_count v, wc_last_used_at := Some db_now,
                       wc_backed_up := va_backed_up v\<rparr>) (webauthn_credentials d)\<rparr>))"

definition check_login_passkey ::
  "mfa_library \<Rightarrow> mfa_service \<Rightarrow> mfa_fresh \<Rightarrow> (string \<times> json) list \<Rightarrow> string \<Rightarrow> mfa_row \<Rightarrow> db \<Rightarrow> checked" where
  "check_login_passkey lib svc fx credential raw_id t d =
     (let refuse = record_failure (mf_transaction_id t) ''The passkey could not be verified.'' d in
      case find (\<lambda>c. active_passkey (mf_user_id t) c \<and> wc_credential_id c = raw_id) (webauthn_credentials d) of
        None \<Rightarrow> refuse
      | Some c \<Rightarrow>
          (case mf_challenge t of
             None \<Rightarrow> refuse          \<comment> \<open>\<open>bytes(None)\<close> is a caught TypeError\<close>
           | Some challenge \<Rightarrow>
               (case lib_verify_authentication lib credential challenge (rp_id_text svc) (ms_origins svc)
                       (wc_public_key c) (wc_sign_count c) of
                  None \<Rightarrow> refuse
                | Some v \<Rightarrow> touch_passkey (mf_user_id t) raw_id v (mx_db_now fx) d)))"

definition check_new_passkey ::
  "mfa_library \<Rightarrow> mfa_service \<Rightarrow> mfa_fresh \<Rightarrow> (string \<times> json) list \<Rightarrow> mfa_row \<Rightarrow> db \<Rightarrow> checked" where
  "check_new_passkey lib svc fx credential t d =
     (let refuse = record_failure (mf_transaction_id t) ''The passkey could not be registered.'' d in
      case mf_challenge t of
        None \<Rightarrow> refuse
      | Some challenge \<Rightarrow>
          (case lib_verify_registration lib credential challenge (rp_id_text svc) (ms_origins svc) of
             None \<Rightarrow> refuse
           | Some v \<Rightarrow>
               if known wc_credential_id (vr_credential_id v) (webauthn_credentials d)
               then record_failure (mf_transaction_id t) ''That passkey is already registered.'' d
               else andthen (safe_transports credential) (\<lambda>transports.
                 case mf_factor_label t of
                   None \<Rightarrow> Inl (NotNullViolation ''label'')
                 | Some label \<Rightarrow>
                     andthen (insert_webauthn
                       \<lparr>wc_webauthn_credential_id = mx_credential_row fx, wc_user_id = mf_user_id t,
                        wc_credential_id = vr_credential_id v, wc_public_key = vr_public_key v,
                        wc_sign_count = vr_sign_count v, wc_transports = transports,
                        wc_device_type = vr_device_type v, wc_backed_up = vr_backed_up v, wc_label = label,
                        wc_created_at = mx_db_now fx, wc_last_used_at = None, wc_revoked_at = None\<rparr> d)
                       (\<lambda>d'. Inr (None, d')))))"

definition check_passkey ::
  "mfa_library \<Rightarrow> mfa_service \<Rightarrow> mfa_fresh \<Rightarrow> (string \<times> json) list \<Rightarrow> string \<Rightarrow> mfa_row \<Rightarrow> db \<Rightarrow> checked" where
  "check_passkey lib svc fx credential raw_id t d =
     (case mf_purpose t of
        LOGIN \<Rightarrow> check_login_passkey lib svc fx credential raw_id t d
      | ENROLL_PASSKEY \<Rightarrow> check_new_passkey lib svc fx credential t d
      | _ \<Rightarrow> Inr (Some (MfaFailure ''INVALID_MFA_TRANSACTION'' ''This MFA request cannot accept a passkey.'' 409), d))"

definition passkey_body ::
  "mfa_library \<Rightarrow> mfa_service \<Rightarrow> mfa_fresh \<Rightarrow> uuid \<Rightarrow> (string \<times> json) list \<Rightarrow> string \<Rightarrow> db
     \<Rightarrow> failure + (failure + mfa_completion) \<times> db" where
  "passkey_body lib svc fx tid credential raw_id d =
     andthen (transaction_for_update tid (mx_db_now fx) d) (\<lambda>(t, u).
       complete_checked t PASSKEY (mx_db_now fx) (check_passkey lib svc fx credential raw_id t d))"

definition complete_passkey ::
  "mfa_library \<Rightarrow> mfa_service \<Rightarrow> mfa_fresh \<Rightarrow> uuid \<Rightarrow> (string \<times> json) list \<Rightarrow> db
     \<Rightarrow> (failure + mfa_completion) \<times> db" where
  "complete_passkey lib svc fx tid credential d =
     (case (case map_of credential ''rawId'' of None \<Rightarrow> None | Some j \<Rightarrow> lib_b64url lib (py_str j)) of
        None \<Rightarrow> (Inl (MfaFailure ''INVALID_PASSKEY_RESPONSE'' ''The passkey response was invalid.'' 401), d)
      | Some raw_id \<Rightarrow>
          (case raise_after_commit (in_transaction (passkey_body lib svc fx tid credential raw_id) d) of
             (Inl (UniqueViolation _), d') \<Rightarrow>
               (Inl (MfaFailure ''PASSKEY_ALREADY_ENROLLED'' ''That passkey is already registered.'' 409), d')
           | r \<Rightarrow> r))"

section \<open>Authenticator codes\<close>

text \<open>\<open>TOTP_CODE\<close> is \<open>\d{6}\<close>; of the Unicode decimals only the ASCII ones are in this alphabet.\<close>

definition is_totp_code :: "string \<Rightarrow> bool" where
  "is_totp_code code \<longleftrightarrow> length code = 6 \<and> list_all is_digit code"

definition matching_totp_step :: "mfa_library \<Rightarrow> int \<Rightarrow> string \<Rightarrow> string \<Rightarrow> int option" where
  "matching_totp_step lib now secret code =
     map_option (\<lambda>offset. lib_totp_timecode lib (now + offset * lib_totp_interval lib))
       (find (\<lambda>offset. lib_totp_at lib secret (now + offset * lib_totp_interval lib) = code) [0, -1, 1])"

definition upsert_totp :: "uuid \<Rightarrow> string \<Rightarrow> string option \<Rightarrow> int \<Rightarrow> timestamp \<Rightarrow> db \<Rightarrow> checked" where
  "upsert_totp uid encrypted label step db_now d =
     (case label of
        None \<Rightarrow> Inl (NotNullViolation ''label'')
      | Some l \<Rightarrow>
          if \<not> is_bigint step then Inl NumericValueOutOfRange
          else if length l < 1 \<or> length l > 80 then Inl (CheckViolation ''totp_credentials_label_check'')
          else
            let row = \<lparr>to_user_id = uid, to_encrypted_secret = encrypted, to_label = l, to_last_used_step = step,
                       to_confirmed_at = db_now, to_last_used_at = None, to_revoked_at = None\<rparr> in
            if known to_user_id uid (totp_credentials d)
            then Inr (None, d\<lparr>totp_credentials :=
                   rows_update (\<lambda>c. to_user_id c = uid) (\<lambda>_. row) (totp_credentials d)\<rparr>)
            else if \<not> known ua_user_id uid (user_accounts d)
            then Inl (ForeignKeyViolation ''totp_credentials_user_id_fkey'')
            else Inr (None, d\<lparr>totp_credentials := totp_credentials d @ [row]\<rparr>))"

definition touch_totp :: "uuid \<Rightarrow> int \<Rightarrow> timestamp \<Rightarrow> db \<Rightarrow> checked" where
  "touch_totp uid step db_now d =
     (if \<not> is_bigint step then Inl NumericValueOutOfRange
      else Inr (None, d\<lparr>totp_credentials := rows_update (active_totp uid)
             (\<lambda>c. c\<lparr>to_last_used_step := step, to_last_used_at := Some db_now\<rparr>) (totp_credentials d)\<rparr>))"

definition check_totp ::
  "mfa_library \<Rightarrow> mfa_fresh \<Rightarrow> string \<Rightarrow> mfa_row \<Rightarrow> db \<Rightarrow> checked" where
  "check_totp lib fx code t d =
     (let stored = (if mf_purpose t = LOGIN then find (active_totp (mf_user_id t)) (totp_credentials d) else None);
          encrypted = (case stored of Some c \<Rightarrow> Some (to_encrypted_secret c) | None \<Rightarrow> mf_pending_secret t);
          last_used_step = (case stored of Some c \<Rightarrow> to_last_used_step c | None \<Rightarrow> -1) in
      if mf_purpose t \<noteq> LOGIN \<and> mf_purpose t \<noteq> ENROLL_TOTP
      then Inr (Some (MfaFailure ''INVALID_MFA_TRANSACTION'' ''This MFA request cannot accept an authenticator code.'' 409), d)
      else case encrypted of
        None \<Rightarrow> record_failure (mf_transaction_id t) ''The authenticator code could not be verified.'' d
      | Some encrypted \<Rightarrow>
          if encrypted = [] then record_failure (mf_transaction_id t) ''The authenticator code could not be verified.'' d
          else
            (case lib_decrypt lib encrypted of
               None \<Rightarrow> Inr (Some (MfaFailure ''MFA_CONFIGURATION_ERROR'' ''The authenticator could not be verified.'' 503), d)
             | Some secret \<Rightarrow>
                 if \<not> py_isascii secret
                 then Inr (Some (MfaFailure ''MFA_CONFIGURATION_ERROR'' ''The authenticator could not be verified.'' 503), d)
                 else
                   (case matching_totp_step lib (mx_time fx) secret code of
                      None \<Rightarrow> record_failure (mf_transaction_id t) ''The authenticator code is invalid or was already used.'' d
                    | Some step \<Rightarrow>
                        if step \<le> last_used_step
                        then record_failure (mf_transaction_id t) ''The authenticator code is invalid or was already used.'' d
                        else if mf_purpose t = LOGIN
                        then touch_totp (mf_user_id t) step (mx_db_now fx) d
                        else upsert_totp (mf_user_id t) encrypted (mf_factor_label t) step (mx_db_now fx) d)))"

definition totp_body ::
  "mfa_library \<Rightarrow> mfa_fresh \<Rightarrow> uuid \<Rightarrow> string \<Rightarrow> db \<Rightarrow> failure + (failure + mfa_completion) \<times> db" where
  "totp_body lib fx tid code d =
     andthen (transaction_for_update tid (mx_db_now fx) d) (\<lambda>(t, u).
       complete_checked t TOTP (mx_db_now fx) (check_totp lib fx code t d))"

definition complete_totp ::
  "mfa_library \<Rightarrow> mfa_fresh \<Rightarrow> uuid \<Rightarrow> string \<Rightarrow> db \<Rightarrow> (failure + mfa_completion) \<times> db" where
  "complete_totp lib fx tid code d =
     (if \<not> is_totp_code code
      then (Inl (MfaFailure ''INVALID_OTP'' ''Enter the six-digit code from your authenticator app.'' 401), d)
      else raise_after_commit (in_transaction (totp_body lib fx tid code) d))"

section \<open>Describing and removing factors\<close>

record mfa_description =
  md_required :: bool
  md_enabled :: bool
  md_passkeys_available :: bool
  md_passkeys :: "webauthn_row list"
  md_totp :: "totp_row option"

definition describe :: "mfa_service \<Rightarrow> db \<Rightarrow> uuid \<Rightarrow> role \<Rightarrow> mfa_description" where
  "describe svc d uid r =
     (let passkeys = sort_key wc_created_at (filter (active_passkey uid) (webauthn_credentials d));
          totp = find (active_totp uid) (totp_credentials d) in
      \<lparr>md_required = role_requires_mfa r, md_enabled = (passkeys \<noteq> [] \<or> totp \<noteq> None),
       md_passkeys_available = passkeys_enabled svc, md_passkeys = passkeys, md_totp = totp\<rparr>)"

definition sync_enabled :: "uuid \<Rightarrow> db \<Rightarrow> db" where
  "sync_enabled uid d =
     d\<lparr>user_accounts := rows_update (\<lambda>u. ua_user_id u = uid) (ua_mfa_enabled_update (\<lambda>_. has_factor uid d))
         (user_accounts d)\<rparr>"

definition guard_last_factor :: "db \<Rightarrow> uuid \<Rightarrow> role \<Rightarrow> uuid option \<Rightarrow> bool \<Rightarrow> failure + unit" where
  "guard_last_factor d uid r removing_passkey removing_totp =
     (if \<not> role_requires_mfa r then Inr ()
      else
        let remaining_passkeys = length (filter (\<lambda>c. active_passkey uid c \<and>
              (removing_passkey = None \<or> Some (wc_webauthn_credential_id c) \<noteq> removing_passkey)) (webauthn_credentials d));
            remaining_totp = length (filter (\<lambda>c. active_totp uid c \<and> \<not> removing_totp) (totp_credentials d)) in
        if remaining_passkeys + remaining_totp = 0
        then Inl (MfaFailure ''MFA_FACTOR_REQUIRED'' ''Administrators must keep at least one MFA factor.'' 409)
        else Inr ())"

definition remove_passkey_body :: "uuid \<Rightarrow> role \<Rightarrow> uuid \<Rightarrow> timestamp \<Rightarrow> db \<Rightarrow> failure + unit \<times> db" where
  "remove_passkey_body uid r cid db_now d =
     (if \<not> list_ex (\<lambda>c. wc_webauthn_credential_id c = cid \<and> active_passkey uid c) (webauthn_credentials d)
      then Inl (MfaFailure ''NOT_FOUND'' ''Passkey was not found.'' 404)
      else andthen (guard_last_factor d uid r (Some cid) False) (\<lambda>_.
        Inr ((), sync_enabled uid
          (d\<lparr>webauthn_credentials := rows_update (\<lambda>c. wc_webauthn_credential_id c = cid \<and> wc_user_id c = uid)
               (wc_revoked_at_update (\<lambda>_. Some db_now)) (webauthn_credentials d)\<rparr>))))"

definition remove_passkey :: "uuid \<Rightarrow> role \<Rightarrow> uuid \<Rightarrow> timestamp \<Rightarrow> db \<Rightarrow> (failure + unit) \<times> db" where
  "remove_passkey uid r cid db_now d = in_transaction (remove_passkey_body uid r cid db_now) d"

definition remove_totp_body :: "uuid \<Rightarrow> role \<Rightarrow> timestamp \<Rightarrow> db \<Rightarrow> failure + unit \<times> db" where
  "remove_totp_body uid r db_now d =
     (if \<not> list_ex (active_totp uid) (totp_credentials d)
      then Inl (MfaFailure ''NOT_FOUND'' ''Authenticator-app factor was not found.'' 404)
      else andthen (guard_last_factor d uid r None True) (\<lambda>_.
        Inr ((), sync_enabled uid
          (d\<lparr>totp_credentials := rows_update (active_totp uid)
               (to_revoked_at_update (\<lambda>_. Some db_now)) (totp_credentials d)\<rparr>))))"

definition remove_totp :: "uuid \<Rightarrow> role \<Rightarrow> timestamp \<Rightarrow> db \<Rightarrow> (failure + unit) \<times> db" where
  "remove_totp uid r db_now d = in_transaction (remove_totp_body uid r db_now) d"

section \<open>The contract of a factor check\<close>

definition verification_failed :: "failure \<Rightarrow> bool" where
  "verification_failed f \<longleftrightarrow> (case f of MfaFailure code _ _ \<Rightarrow> code = ''MFA_VERIFICATION_FAILED'' | _ \<Rightarrow> False)"

definition count_attempt :: "uuid \<Rightarrow> db \<Rightarrow> db" where
  "count_attempt tid d = update_mfa tid (\<lambda>t. t\<lparr>mf_attempts := mf_attempts t + 1\<rparr>) d"

lemma record_failure_Inr:
  "record_failure tid message d = Inr (x, d') \<Longrightarrow>
     (\<exists>f. x = Some f \<and> verification_failed f) \<and> d' = count_attempt tid d"
  by (auto simp: record_failure_def count_attempt_def verification_failed_def split: if_splits)

lemma record_failure_Inl: "record_failure tid message d = Inl e \<Longrightarrow> \<not> verification_failed e"
  by (auto simp: record_failure_def verification_failed_def split: if_splits)

text \<open>
  What the two completions rely on: a check that accepts changed factor rows only, and the user has a
  factor then; a check that refuses counted one attempt, or changed nothing and is no guess.
\<close>

definition mfa_row_ok :: "mfa_row \<Rightarrow> bool" where
  "mfa_row_ok t \<longleftrightarrow> 0 \<le> mf_attempts t \<and> mf_attempts t \<le> MAX_ATTEMPTS \<and>
     (mf_purpose t = LOGIN \<longrightarrow> mf_pending_secret t = None) \<and>
     (mf_source_jti t = None \<longleftrightarrow> mf_source_expires_at t = None)"

locale factor_check =
  fixes check :: "mfa_row \<Rightarrow> db \<Rightarrow> checked"
  assumes accepts: "check t d = Inr (None, d') \<Longrightarrow> mfa_row_ok t \<Longrightarrow>
      (\<exists>cs ts. d' = d\<lparr>webauthn_credentials := cs, totp_credentials := ts\<rparr>) \<and>
      (\<forall>u. has_factor u d' = (has_factor u d \<or> u = mf_user_id t))"
    and refuses: "check t d = Inr (Some f, d') \<Longrightarrow>
      verification_failed f \<and> d' = count_attempt (mf_transaction_id t) d \<or> \<not> verification_failed f \<and> d' = d"
    and raises: "check t d = Inl e \<Longrightarrow> \<not> verification_failed e"
begin

abbreviation ceremony :: "uuid \<Rightarrow> mfa_method \<Rightarrow> timestamp \<Rightarrow> db \<Rightarrow> failure + (failure + mfa_completion) \<times> db" where
  "ceremony tid m db_now d \<equiv>
     andthen (transaction_for_update tid db_now d) (\<lambda>(t, u). complete_checked t m db_now (check t d))"

lemma completed:
  assumes "raise_after_commit (in_transaction (ceremony tid m db_now) d) = (Inr c, d')"
  shows "\<exists>t u d1. transaction_for_update tid db_now d = Inr (t, u) \<and> check t d = Inr (None, d1) \<and>
           consume_mfa t m db_now d1 = Inr (c, d')"
  using assms
  by (auto simp: raise_after_commit_def in_transaction_def complete_checked_def andthen_Inr_iff
      split: sum.splits option.splits prod.splits)

lemma refused:
  assumes "raise_after_commit (in_transaction (ceremony tid m db_now) d) = (Inl f, d')"
  shows "verification_failed f \<and> d' = count_attempt tid d \<and> (\<exists>tu. transaction_for_update tid db_now d = Inr tu)
       \<or> \<not> verification_failed f \<and> d' = d"
proof (cases "transaction_for_update tid db_now d")
  case (Inl e)
  with assms show ?thesis
    by (auto simp: raise_after_commit_def in_transaction_def transaction_for_update_def verification_failed_def Let_def
        split: if_splits option.splits)
next
  case (Inr tu)
  obtain t u where tu: "tu = (t, u)" by (cases tu)
  from Inr tu have tid: "mf_transaction_id t = tid"
    by (auto simp: transaction_for_update_def Let_def split: if_splits option.splits dest: row_get_SomeD)
  show ?thesis
  proof (cases "check t d")
    case (Inl e)
    with assms Inr tu raises [OF Inl] show ?thesis
      by (simp add: raise_after_commit_def in_transaction_def complete_checked_def)
  next
    case chk: (Inr x)
    obtain failed d1 where x: "x = (failed, d1)" by (cases x)
    show ?thesis
    proof (cases failed)
      case (Some g)
      from refuses [of t d g d1] chk x Some tid assms Inr tu show ?thesis
        by (auto simp: raise_after_commit_def in_transaction_def complete_checked_def)
    next
      case None
      with assms Inr tu chk x show ?thesis
        by (cases "consume_mfa t m db_now d1")
          (auto simp: raise_after_commit_def in_transaction_def complete_checked_def consume_mfa_def
            verification_failed_def Let_def split: if_splits option.splits)
    qed
  qed
qed

end

section \<open>Both completions meet the contract\<close>

lemma list_ex_rows_update:
  "(\<And>r. r \<in> set rows \<Longrightarrow> Q (if P r then f r else r) = Q r) \<Longrightarrow> list_ex Q (rows_update P f rows) = list_ex Q rows"
  by (induction rows) (auto simp: table_simps)

lemma has_factor_new_passkey:
  "has_factor u (d\<lparr>webauthn_credentials := webauthn_credentials d @ [c]\<rparr>) \<longleftrightarrow> active_passkey u c \<or> has_factor u d"
  by (auto simp: has_factor_def)

lemma has_factor_new_totp:
  "has_factor u (d\<lparr>totp_credentials := totp_credentials d @ [c]\<rparr>) \<longleftrightarrow> active_totp u c \<or> has_factor u d"
  by (auto simp: has_factor_def)

lemma touch_passkey_Inr:
  "touch_passkey uid raw_id v now d = Inr (x, d') \<Longrightarrow> x = None \<and>
     (\<exists>cs. d' = d\<lparr>webauthn_credentials := cs\<rparr>) \<and> (\<forall>u. has_factor u d' = has_factor u d)"
  by (auto simp: touch_passkey_def has_factor_def active_passkey_def list_ex_rows_update split: if_splits)

lemma insert_webauthn_Inr:
  "insert_webauthn c d = Inr d' \<Longrightarrow> d' = d\<lparr>webauthn_credentials := webauthn_credentials d @ [c]\<rparr>"
  by (auto simp: insert_webauthn_def split: if_splits)

lemma check_login_passkey_Inr:
  assumes "check_login_passkey lib svc fx credential raw_id t d = Inr (None, d')"
  shows "(\<exists>cs. d' = d\<lparr>webauthn_credentials := cs\<rparr>) \<and> (\<forall>u. has_factor u d' = has_factor u d) \<and>
         has_factor (mf_user_id t) d"
proof -
  from assms obtain c v where
    c: "find (\<lambda>c. active_passkey (mf_user_id t) c \<and> wc_credential_id c = raw_id) (webauthn_credentials d) = Some c"
    and touched: "touch_passkey (mf_user_id t) raw_id v (mx_db_now fx) d = Inr (None, d')"
    by (auto simp: check_login_passkey_def Let_def split: option.splits dest: record_failure_Inr)
  from c have "has_factor (mf_user_id t) d"
    by (auto simp: find_Some_iff has_factor_def list_ex_iff)
  with touch_passkey_Inr [OF touched] show ?thesis by blast
qed

lemma check_new_passkey_Inr:
  assumes "check_new_passkey lib svc fx credential t d = Inr (None, d')"
  shows "(\<exists>cs. d' = d\<lparr>webauthn_credentials := cs\<rparr>) \<and>
         (\<forall>u. has_factor u d' = (has_factor u d \<or> u = mf_user_id t))"
proof -
  from assms obtain c where "d' = d\<lparr>webauthn_credentials := webauthn_credentials d @ [c]\<rparr>"
    and "wc_user_id c = mf_user_id t" "wc_revoked_at c = None"
    by (auto simp: check_new_passkey_def Let_def andthen_Inr_iff split: option.splits if_splits
        dest!: record_failure_Inr insert_webauthn_Inr)
  then show ?thesis by (auto simp: has_factor_new_passkey active_passkey_def)
qed

lemma touch_totp_Inr:
  "touch_totp uid step now d = Inr (x, d') \<Longrightarrow> x = None \<and>
     (\<exists>ts. d' = d\<lparr>totp_credentials := ts\<rparr>) \<and> (\<forall>u. has_factor u d' = has_factor u d)"
  by (auto simp: touch_totp_def has_factor_def active_totp_def list_ex_rows_update split: if_splits)

lemma has_factor_replaced_totp:
  assumes "known to_user_id uid (totp_credentials d)" and "to_user_id row = uid" and "to_revoked_at row = None"
  shows "has_factor u (d\<lparr>totp_credentials := rows_update (\<lambda>c. to_user_id c = uid) (\<lambda>_. row) (totp_credentials d)\<rparr>) \<longleftrightarrow>
    has_factor u d \<or> u = uid"
proof (cases "u = uid")
  case True
  with assms show ?thesis
    by (auto simp: has_factor_def active_totp_def list_ex_iff rows_update_def known_def)
next
  case False
  with assms(2) show ?thesis
    by (auto simp: has_factor_def active_totp_def list_ex_rows_update)
qed

lemma upsert_totp_Inr:
  "upsert_totp uid encrypted label step now d = Inr (x, d') \<Longrightarrow>
     x = None \<and> (\<exists>ts. d' = d\<lparr>totp_credentials := ts\<rparr>) \<and>
     (\<forall>u. has_factor u d' = (has_factor u d \<or> u = uid))"
  by (auto simp: upsert_totp_def Let_def has_factor_replaced_totp has_factor_new_totp active_totp_def
      split: option.splits if_splits)

lemma check_totp_Inr:
  assumes "check_totp lib fx code t d = Inr (None, d')" and "mfa_row_ok t"
  shows "(\<exists>ts. d' = d\<lparr>totp_credentials := ts\<rparr>) \<and>
         (\<forall>u. has_factor u d' = (has_factor u d \<or> u = mf_user_id t))"
proof -
  from assms consider (login) c step where "mf_purpose t = LOGIN" "find (active_totp (mf_user_id t)) (totp_credentials d) = Some c"
      "touch_totp (mf_user_id t) step (mx_db_now fx) d = Inr (None, d')"
    | (enrol) e step where "mf_purpose t = ENROLL_TOTP"
      "upsert_totp (mf_user_id t) e (mf_factor_label t) step (mx_db_now fx) d = Inr (None, d')"
    by (auto simp: check_totp_def Let_def mfa_row_ok_def split: option.splits if_splits dest!: record_failure_Inr)
  then show ?thesis
  proof cases
    case login
    then have "has_factor (mf_user_id t) d"
      by (auto simp: find_Some_iff has_factor_def list_ex_iff)
    with touch_totp_Inr [OF login(3)] show ?thesis by blast
  next
    case enrol
    with upsert_totp_Inr [OF enrol(2)] show ?thesis by blast
  qed
qed

lemma check_refuses:
  "check_passkey lib svc fx credential raw_id t d = Inr (Some f, d') \<Longrightarrow>
     verification_failed f \<and> d' = count_attempt (mf_transaction_id t) d \<or> \<not> verification_failed f \<and> d' = d"
  "check_totp lib fx code t d = Inr (Some f, d') \<Longrightarrow>
     verification_failed f \<and> d' = count_attempt (mf_transaction_id t) d \<or> \<not> verification_failed f \<and> d' = d"
  by (auto simp: check_passkey_def check_login_passkey_def check_new_passkey_def Let_def andthen_Inr_iff
      split: mfa_purpose.splits option.splits if_splits dest!: record_failure_Inr touch_passkey_Inr)
    (auto simp: verification_failed_def check_totp_def Let_def
      split: option.splits if_splits dest!: record_failure_Inr touch_totp_Inr upsert_totp_Inr)

lemma check_raises:
  "check_passkey lib svc fx credential raw_id t d = Inl e \<Longrightarrow> \<not> verification_failed e"
  "check_totp lib fx code t d = Inl e \<Longrightarrow> \<not> verification_failed e"
proof -
  have "safe_transports credential = Inl e \<Longrightarrow> \<not> verification_failed e"
    by (auto simp: safe_transports_def verification_failed_def split: option.splits json.splits)
  moreover have "insert_webauthn c d = Inl e \<Longrightarrow> \<not> verification_failed e" for c
    by (auto simp: insert_webauthn_def verification_failed_def split: if_splits)
  moreover have "touch_passkey u r v n d = Inl e \<Longrightarrow> \<not> verification_failed e" for u r v n
    by (auto simp: touch_passkey_def verification_failed_def split: if_splits)
  moreover have not_a_guess: "\<not> verification_failed (NotNullViolation l)" for l
    by (simp add: verification_failed_def)
  ultimately show "check_passkey lib svc fx credential raw_id t d = Inl e \<Longrightarrow> \<not> verification_failed e"
    by (auto simp: check_passkey_def check_login_passkey_def check_new_passkey_def Let_def andthen_Inl_iff
        not_a_guess split: mfa_purpose.splits option.splits if_splits dest!: record_failure_Inl)
  have "touch_totp u s n d = Inl e \<Longrightarrow> \<not> verification_failed e" for u s n
    by (auto simp: touch_totp_def verification_failed_def split: if_splits)
  moreover have "upsert_totp u c l s n d = Inl e \<Longrightarrow> \<not> verification_failed e" for u c l s n
    by (auto simp: upsert_totp_def verification_failed_def Let_def split: if_splits option.splits)
  ultimately show "check_totp lib fx code t d = Inl e \<Longrightarrow> \<not> verification_failed e"
    by (auto simp: check_totp_def Let_def split: option.splits if_splits dest!: record_failure_Inl)
qed

lemma passkeys_only: "\<exists>cs' ts. d\<lparr>webauthn_credentials := cs\<rparr> = d\<lparr>webauthn_credentials := cs', totp_credentials := ts\<rparr>"
  by (intro exI [of _ cs] exI [of _ "totp_credentials d"]) simp

lemma codes_only: "\<exists>cs ts'. d\<lparr>totp_credentials := ts\<rparr> = d\<lparr>webauthn_credentials := cs, totp_credentials := ts'\<rparr>"
  by (intro exI [of _ "webauthn_credentials d"] exI [of _ ts]) simp

interpretation passkeys: factor_check "check_passkey lib svc fx credential raw_id" for lib svc fx credential raw_id
proof
  fix t d d'
  assume "check_passkey lib svc fx credential raw_id t d = Inr (None, d')" "mfa_row_ok t"
  then show "(\<exists>cs ts. d' = d\<lparr>webauthn_credentials := cs, totp_credentials := ts\<rparr>) \<and>
      (\<forall>u. has_factor u d' = (has_factor u d \<or> u = mf_user_id t))"
    by (auto simp: check_passkey_def split: mfa_purpose.splits dest!: check_login_passkey_Inr check_new_passkey_Inr
        intro: passkeys_only)
qed (use check_refuses check_raises in auto)

interpretation codes: factor_check "check_totp lib fx code" for lib fx code
proof
  fix t d d'
  assume "check_totp lib fx code t d = Inr (None, d')" "mfa_row_ok t"
  from check_totp_Inr [OF this] show "(\<exists>cs ts. d' = d\<lparr>webauthn_credentials := cs, totp_credentials := ts\<rparr>) \<and>
      (\<forall>u. has_factor u d' = (has_factor u d \<or> u = mf_user_id t))"
    by (auto intro: codes_only)
qed (use check_refuses check_raises in auto)

end
