(* ===== verification/Rate_Limit.thy ===== *)
theory Rate_Limit
  imports Store "HOL-Library.AList"
begin

text \<open>
  The two rate limiters of \<open>bantam/security.py\<close>: \<open>SlidingWindowRateLimiter\<close>, in memory,
  and \<open>DatabaseRateLimiter\<close>, whose rows every replica shares.

  Time is in microseconds. The dictionary of the sliding limiter is an association list in
  insertion order, its deques are lists with the oldest attempt first. SHA-256 is the parameter
  \<open>sha256_hex\<close>.
\<close>

record rate_limit =
  rl_allowed :: bool
  rl_retry_after_seconds :: int

section \<open>The sliding window\<close>

record sliding =
  sw_limit :: int
  sw_window :: int
  sw_max_keys :: int
  sw_attempts :: "(string \<times> int list) list"

definition sliding_new :: "int \<Rightarrow> int \<Rightarrow> int \<Rightarrow> sliding" where
  "sliding_new limit window max_keys =
     \<lparr>sw_limit = max 1 limit, sw_window = max (seconds 1) window, sw_max_keys = max 100 max_keys,
      sw_attempts = []\<rparr>"

definition deque :: "string \<Rightarrow> (string \<times> int list) list \<Rightarrow> int list" where
  "deque key attempts = (case map_of attempts key of None \<Rightarrow> [] | Some q \<Rightarrow> q)"

definition sliding_prune :: "int \<Rightarrow> sliding \<Rightarrow> sliding" where
  "sliding_prune current s =
     (let cutoff = current - sw_window s in
      s\<lparr>sw_attempts := filter (\<lambda>kq. \<not> (snd kq = [] \<or> last (snd kq) \<le> cutoff)) (sw_attempts s)\<rparr>)"

definition sliding_check :: "string \<Rightarrow> int \<Rightarrow> sliding \<Rightarrow> rate_limit \<times> sliding" where
  "sliding_check key current s =
     (let crowded = (\<lambda>s. int (length (sw_attempts s)) \<ge> sw_max_keys s);
          s1 = (if crowded s \<and> key \<notin> fst ` set (sw_attempts s) then sliding_prune current s else s) in
      if crowded s \<and> key \<notin> fst ` set (sw_attempts s) \<and> crowded s1
      then (\<lparr>rl_allowed = False, rl_retry_after_seconds = sw_window s div 1000000\<rparr>, s1)
      else
        let attempts = dropWhile (\<lambda>t. t \<le> current - sw_window s) (deque key (sw_attempts s1)) in
        if int (length attempts) \<ge> sw_limit s
        then (\<lparr>rl_allowed = False,
               rl_retry_after_seconds =
                 max (seconds 1) (sw_window s - (current - hd attempts)) div 1000000\<rparr>,
              s1\<lparr>sw_attempts := AList.update key attempts (sw_attempts s1)\<rparr>)
        else (\<lparr>rl_allowed = True, rl_retry_after_seconds = 0\<rparr>,
              s1\<lparr>sw_attempts := AList.update key (attempts @ [current]) (sw_attempts s1)\<rparr>))"

section \<open>The fixed window in the database\<close>

record db_limiter =
  dl_limit :: int
  dl_window_seconds :: int
  dl_checks :: nat

definition db_limiter_new :: "int \<Rightarrow> int \<Rightarrow> db_limiter" where
  "db_limiter_new limit window =
     \<lparr>dl_limit = max 1 limit, dl_window_seconds = max 1 (window div 1000000), dl_checks = 0\<rparr>"

definition INT4_MAX :: int where "INT4_MAX = 2147483647"

text \<open>The upsert: a new window starts when the recorded one is over.\<close>

definition upsert_row :: "int \<Rightarrow> timestamp \<Rightarrow> rate_limit_row \<Rightarrow> rate_limit_row" where
  "upsert_row window_seconds now r =
     (if rl_window_started_at r \<le> now - seconds window_seconds
      then r\<lparr>rl_attempts := 1, rl_window_started_at := now, rl_updated_at := now\<rparr>
      else r\<lparr>rl_attempts := rl_attempts r + 1, rl_updated_at := now\<rparr>)"

definition upsert_attempt :: "int \<Rightarrow> string \<Rightarrow> timestamp \<Rightarrow> db \<Rightarrow> failure + rate_limit_row \<times> db" where
  "upsert_attempt window_seconds key_hash now d =
     (case row_get rl_key_hash key_hash (auth_rate_limits d) of
        None \<Rightarrow>
          if length key_hash \<noteq> 64 then Inl (CheckViolation ''auth_rate_limits_key_hash_check'')
          else let r = \<lparr>rl_key_hash = key_hash, rl_window_started_at = now, rl_attempts = 1, rl_updated_at = now\<rparr>
               in Inr (r, d\<lparr>auth_rate_limits := auth_rate_limits d @ [r]\<rparr>)
      | Some r \<Rightarrow>
          let r' = upsert_row window_seconds now r in
          if rl_attempts r' > INT4_MAX then Inl NumericValueOutOfRange
          else Inr (r', d\<lparr>auth_rate_limits :=
                 rows_update (\<lambda>x. rl_key_hash x = key_hash) (\<lambda>_. r') (auth_rate_limits d)\<rparr>))"

definition maintenance_due :: "db_limiter \<Rightarrow> bool \<times> db_limiter" where
  "maintenance_due l =
     (let l' = l\<lparr>dl_checks := dl_checks l + 1\<rparr> in (dl_checks l' mod 256 = 0, l'))"

definition purge_limits :: "timestamp \<Rightarrow> db \<Rightarrow> db" where
  "purge_limits now d =
     d\<lparr>auth_rate_limits := filter (\<lambda>r. \<not> rl_updated_at r < now - seconds 86400) (auth_rate_limits d)\<rparr>"

definition db_limiter_check ::
  "(string \<Rightarrow> string) \<Rightarrow> string \<Rightarrow> timestamp \<Rightarrow> db_limiter \<times> db \<Rightarrow> (failure + rate_limit) \<times> (db_limiter \<times> db)" where
  "db_limiter_check sha256_hex key now ld =
     (let (l, d) = ld in
      case upsert_attempt (dl_window_seconds l) (sha256_hex key) now d of
        Inl e \<Rightarrow> (Inl e, (l, d))
      | Inr (row, d1) \<Rightarrow>
          let (due, l1) = maintenance_due l;
              d2 = (if due then purge_limits now d1 else d1) in
          if rl_attempts row \<le> dl_limit l
          then (Inr \<lparr>rl_allowed = True, rl_retry_after_seconds = 0\<rparr>, (l1, d2))
          else
            let elapsed = now - rl_window_started_at row in
            (Inr \<lparr>rl_allowed = False,
                  rl_retry_after_seconds = max (seconds 1) (seconds (dl_window_seconds l) - elapsed) div 1000000\<rparr>,
             (l1, d2)))"

section \<open>The sliding window bound\<close>

text \<open>The times at which a sequence of calls was allowed for one key.\<close>

fun sliding_allowed :: "string \<Rightarrow> sliding \<Rightarrow> (string \<times> int) list \<Rightarrow> int list" where
  "sliding_allowed k s [] = []"
| "sliding_allowed k s (c # cs) =
     (let (r, s') = sliding_check (fst c) (snd c) s in
      (if fst c = k \<and> rl_allowed r then [snd c] else []) @ sliding_allowed k s' cs)"

definition in_window :: "int \<Rightarrow> int \<Rightarrow> int list \<Rightarrow> nat" where
  "in_window w t ts = length (filter (\<lambda>x. t - w < x \<and> x \<le> t) ts)"

definition sliding_inv :: "string \<Rightarrow> sliding \<Rightarrow> int list \<Rightarrow> int \<Rightarrow> bool" where
  "sliding_inv k s ts now \<longleftrightarrow>
     distinct (map fst (sw_attempts s)) \<and> sorted ts \<and> (\<forall>t \<in> set ts. t \<le> now) \<and>
     (\<exists>old. ts = old @ deque k (sw_attempts s) \<and> (\<forall>t \<in> set old. t \<le> now - sw_window s)) \<and>
     (\<forall>t. int (in_window (sw_window s) t ts) \<le> sw_limit s)"

lemma deque_update:
  "deque k (AList.update key q al) = (if k = key then q else deque k al)"
  by (simp add: deque_def update_conv')

lemma deque_filter:
  assumes "distinct (map fst al)"
  shows "deque k (filter (\<lambda>kq. P (snd kq)) al) = (if P (deque k al) then deque k al else [])"
  using assms
proof (induction al)
  case Nil
  then show ?case by (simp add: deque_def)
next
  case (Cons x al)
  obtain key q where x: "x = (key, q)" by fastforce
  have "map_of (filter (\<lambda>kq. P (snd kq)) al) key = None" "map_of al key = None"
    using Cons.prems by (auto simp: x map_of_eq_None_iff)
  with Cons show ?case by (auto simp: deque_def x)
qed

lemma sliding_invE:
  assumes "sliding_inv k s ts now"
  obtains old where "distinct (map fst (sw_attempts s))" "sorted ts" "\<forall>t \<in> set ts. t \<le> now"
    "ts = old @ deque k (sw_attempts s)" "\<forall>t \<in> set old. t \<le> now - sw_window s"
    "\<forall>t. int (in_window (sw_window s) t ts) \<le> sw_limit s"
  using assms unfolding sliding_inv_def by blast

lemma sliding_invI:
  "distinct (map fst (sw_attempts s)) \<Longrightarrow> sorted ts \<Longrightarrow> \<forall>t \<in> set ts. t \<le> now \<Longrightarrow>
   ts = old @ deque k (sw_attempts s) \<Longrightarrow> \<forall>t \<in> set old. t \<le> now - sw_window s \<Longrightarrow>
   \<forall>t. int (in_window (sw_window s) t ts) \<le> sw_limit s \<Longrightarrow> sliding_inv k s ts now"
  unfolding sliding_inv_def by blast

lemma sliding_inv_advance: "sliding_inv k s ts l \<Longrightarrow> l \<le> now \<Longrightarrow> sliding_inv k s ts now"
proof -
  assume inv: "sliding_inv k s ts l" and le: "l \<le> now"
  from inv obtain old where old: "distinct (map fst (sw_attempts s))" "sorted ts" "\<forall>t \<in> set ts. t \<le> l"
    "ts = old @ deque k (sw_attempts s)" "\<forall>t \<in> set old. t \<le> l - sw_window s"
    "\<forall>t. int (in_window (sw_window s) t ts) \<le> sw_limit s"
    by (rule sliding_invE)
  from old(3,5) le have "\<forall>t \<in> set ts. t \<le> now" "\<forall>t \<in> set old. t \<le> now - sw_window s" by force+
  with old show ?thesis by (intro sliding_invI [of s ts now old])
qed

lemma sliding_inv_prune:
  assumes "sliding_inv k s ts now"
  shows "sliding_inv k (sliding_prune now s) ts now"
proof -
  from assms obtain old where ts: "ts = old @ deque k (sw_attempts s)" "\<forall>t \<in> set old. t \<le> now - sw_window s"
    "distinct (map fst (sw_attempts s))" "sorted ts" "\<forall>t \<in> set ts. t \<le> now"
    "\<forall>t. int (in_window (sw_window s) t ts) \<le> sw_limit s"
    by (auto simp: sliding_inv_def)
  let ?q = "deque k (sw_attempts s)"
  have q': "deque k (sw_attempts (sliding_prune now s)) =
      (if ?q = [] \<or> last ?q \<le> now - sw_window s then [] else ?q)"
    using deque_filter [OF ts(3), of k "\<lambda>q. \<not> (q = [] \<or> last q \<le> now - sw_window s)"]
    by (simp add: sliding_prune_def Let_def)
  have "\<forall>t \<in> set ?q. t \<le> now - sw_window s" if "?q \<noteq> []" "last ?q \<le> now - sw_window s"
  proof -
    from ts(1,4) have "sorted ?q" by (simp add: sorted_append)
    then have "t \<le> last ?q" if "t \<in> set ?q" for t
      using that by (metis append_butlast_last_id append_is_Nil_conv empty_iff list.set(1) set_ConsD
          sorted_append Un_iff set_append list.set_intros(1) order_refl)
    with that(2) show ?thesis by (meson order_trans)
  qed
  then have "\<exists>old. ts = old @ deque k (sw_attempts (sliding_prune now s)) \<and> (\<forall>t \<in> set old. t \<le> now - sw_window s)"
    unfolding q' using ts(1,2) by (cases "?q = []"; cases "last ?q \<le> now - sw_window s") auto
  moreover have "distinct (map fst (sw_attempts (sliding_prune now s)))"
    using ts(3) by (simp add: sliding_prune_def Let_def distinct_map_filter)
  ultimately show ?thesis
    using ts(4-6) by (simp add: sliding_inv_def sliding_prune_def Let_def)
qed

lemma sorted_dropWhile_split:
  assumes "sorted (q :: int list)"
  shows "\<forall>t \<in> set (takeWhile (\<lambda>t. t \<le> c) q). t \<le> c" and "\<forall>t \<in> set (dropWhile (\<lambda>t. t \<le> c) q). c < t"
proof -
  show "\<forall>t \<in> set (takeWhile (\<lambda>t. t \<le> c) q). t \<le> c" by (auto dest: set_takeWhileD)
  from assms show "\<forall>t \<in> set (dropWhile (\<lambda>t. t \<le> c) q). c < t"
    by (induction q) (auto simp: not_le)
qed

lemma sliding_inv_drop:
  assumes inv: "sliding_inv k s ts now"
  shows "sliding_inv k (s\<lparr>sw_attempts := AList.update key
    (dropWhile (\<lambda>t. t \<le> now - sw_window s) (deque key (sw_attempts s))) (sw_attempts s)\<rparr>) ts now"
proof (cases "key = k")
  case False
  with inv show ?thesis by (auto simp: sliding_inv_def deque_update distinct_update)
next
  case True
  let ?q = "deque k (sw_attempts s)" and ?c = "now - sw_window s"
  from inv obtain old where old: "ts = old @ ?q" "\<forall>t \<in> set old. t \<le> ?c" by (auto simp: sliding_inv_def)
  have "ts = (old @ takeWhile (\<lambda>t. t \<le> ?c) ?q) @ dropWhile (\<lambda>t. t \<le> ?c) ?q" using old(1) by simp
  moreover have "\<forall>t \<in> set (old @ takeWhile (\<lambda>t. t \<le> ?c) ?q). t \<le> ?c" using old(2) by (auto dest: set_takeWhileD)
  ultimately show ?thesis
    using inv True
    by (elim sliding_invE, intro sliding_invI [where old = "old @ takeWhile (\<lambda>t. t \<le> ?c) ?q"])
      (simp_all add: deque_update distinct_update)
qed

lemma sliding_inv_append:
  assumes inv: "sliding_inv k s ts now" and q: "deque k (sw_attempts s) = q"
    and space: "int (length q) < sw_limit s" and w: "0 < sw_window s"
  shows "sliding_inv k (s\<lparr>sw_attempts := AList.update k (q @ [now]) (sw_attempts s)\<rparr>) (ts @ [now]) now"
proof -
  from inv obtain old where old: "ts = old @ q" "\<forall>t \<in> set old. t \<le> now - sw_window s"
    "sorted ts" "\<forall>t \<in> set ts. t \<le> now" "\<forall>t. int (in_window (sw_window s) t ts) \<le> sw_limit s"
    by (auto simp: sliding_inv_def q)
  have "int (in_window (sw_window s) t (ts @ [now])) \<le> sw_limit s" for t
  proof (cases "now \<le> t")
    case False
    with old(5) show ?thesis by (simp add: in_window_def)
  next
    case True
    have "filter (\<lambda>x. t - sw_window s < x \<and> x \<le> t) old = []"
      using old(2) True by (force simp: filter_empty_conv)
    then have "in_window (sw_window s) t (ts @ [now]) \<le> length (q @ [now])"
      by (simp add: in_window_def old(1) le_SucI)
    with space show ?thesis by simp
  qed
  with inv old show ?thesis
    by (auto simp: sliding_inv_def deque_update distinct_update sorted_append)
qed

lemma if3_cases: "p = (if A then x else if B then y else z) \<Longrightarrow> p = x \<or> p = y \<or> \<not> B \<and> p = z"
  by (auto split: if_splits)

lemma sliding_check_inv:
  assumes inv: "sliding_inv k s ts l" and now: "l \<le> now" and w: "0 < sw_window s"
    and run: "sliding_check key now s = (r, s')"
  shows "sliding_inv k s' (ts @ (if key = k \<and> rl_allowed r then [now] else [])) now \<and>
    sw_window s' = sw_window s \<and> sw_limit s' = sw_limit s"
proof -
  define s1 where "s1 = (if int (length (sw_attempts s)) \<ge> sw_max_keys s \<and> key \<notin> fst ` set (sw_attempts s)
    then sliding_prune now s else s)"
  have inv1: "sliding_inv k s1 ts now"
    using sliding_inv_prune [OF sliding_inv_advance [OF inv now]] sliding_inv_advance [OF inv now]
    by (simp add: s1_def)
  have par: "sw_window s1 = sw_window s" "sw_limit s1 = sw_limit s"
    by (simp_all add: s1_def sliding_prune_def Let_def)
  let ?q = "dropWhile (\<lambda>t. t \<le> now - sw_window s) (deque key (sw_attempts s1))"
  let ?full = "int (length (sw_attempts s)) \<ge> sw_max_keys s \<and> key \<notin> fst ` set (sw_attempts s) \<and>
    int (length (sw_attempts s1)) \<ge> sw_max_keys s1"
  have "(r, s') =
    (if ?full then (\<lparr>rl_allowed = False, rl_retry_after_seconds = sw_window s div 1000000\<rparr>, s1)
     else if int (length ?q) \<ge> sw_limit s
     then (\<lparr>rl_allowed = False, rl_retry_after_seconds = max (seconds 1) (sw_window s - (now - hd ?q)) div 1000000\<rparr>,
           s1\<lparr>sw_attempts := AList.update key ?q (sw_attempts s1)\<rparr>)
     else (\<lparr>rl_allowed = True, rl_retry_after_seconds = 0\<rparr>,
           s1\<lparr>sw_attempts := AList.update key (?q @ [now]) (sw_attempts s1)\<rparr>))"
    by (simp only: run [symmetric] sliding_check_def Let_def s1_def)
  then consider "\<not> rl_allowed r" "s' = s1"
    | "\<not> rl_allowed r" "s' = s1\<lparr>sw_attempts := AList.update key ?q (sw_attempts s1)\<rparr>"
    | "rl_allowed r" "int (length ?q) < sw_limit s" "s' = s1\<lparr>sw_attempts := AList.update key (?q @ [now]) (sw_attempts s1)\<rparr>"
    using if3_cases [of "(r, s')" ?full _ "int (length ?q) \<ge> sw_limit s"] by fastforce
  then show ?thesis
  proof cases
    case 1
    with inv1 par show ?thesis by simp
  next
    case 2
    with sliding_inv_drop [OF inv1, of key] par show ?thesis by simp
  next
    case 3
    show ?thesis
    proof (cases "key = k")
      case False
      with inv1 3 par show ?thesis by (auto simp: sliding_inv_def deque_update distinct_update)
    next
      case True
      let ?s2 = "s1\<lparr>sw_attempts := AList.update key ?q (sw_attempts s1)\<rparr>"
      from sliding_inv_drop [OF inv1, of key] have "sliding_inv k ?s2 ts now" by (simp add: par)
      from sliding_inv_append [OF this, of ?q] 3 True w par
      have "sliding_inv k (?s2\<lparr>sw_attempts := AList.update k (?q @ [now]) (sw_attempts ?s2)\<rparr>) (ts @ [now]) now"
        by (simp add: deque_update)
      moreover have "AList.update k (?q @ [now]) (AList.update k ?q (sw_attempts s1)) =
          AList.update k (?q @ [now]) (sw_attempts s1)"
        by (rule update_last)
      ultimately show ?thesis using 3 True par by simp
    qed
  qed
qed

lemma sliding_run_bound:
  assumes "sliding_inv k s ts l" and "sorted (l # map snd calls)" and "0 < sw_window s"
  shows "int (in_window (sw_window s) t (ts @ sliding_allowed k s calls)) \<le> sw_limit s"
  using assms
proof (induction calls arbitrary: s ts l)
  case Nil
  then show ?case by (auto elim: sliding_invE)
next
  case (Cons c calls)
  obtain r s' where run: "sliding_check (fst c) (snd c) s = (r, s')" by fastforce
  from Cons.prems(2) have "l \<le> snd c" by simp
  from sliding_check_inv [OF Cons.prems(1) this Cons.prems(3) run]
  have inv: "sliding_inv k s' (ts @ (if fst c = k \<and> rl_allowed r then [snd c] else [])) (snd c)"
    and par: "sw_window s' = sw_window s" "sw_limit s' = sw_limit s" by auto
  from Cons.IH [OF inv] Cons.prems(2,3) par run show ?case by simp
qed

lemma sliding_new_inv: "sliding_inv k (sliding_new limit window max_keys) [] now"
  by (rule sliding_invI [where old = "[]"]) (simp_all add: sliding_new_def deque_def in_window_def)

text \<open>The sliding limiter keeps its promise: with a clock that does not run backwards, whatever
  sequence of calls for whatever keys, and even when keys are pruned, no window of the configured
  length contains more than the limit of allowed attempts of one key.\<close>

theorem sliding_window_bound:
  assumes "sorted (map snd calls)"
  shows "int (in_window (max (seconds 1) window) t (sliding_allowed k (sliding_new limit window max_keys) calls))
    \<le> max 1 limit"
proof -
  let ?s = "sliding_new limit window max_keys"
  have "sorted ((case calls of [] \<Rightarrow> 0 | c # _ \<Rightarrow> snd c) # map snd calls)"
    using assms by (cases calls) auto
  from sliding_run_bound [OF sliding_new_inv this, of limit window max_keys t k] show ?thesis
    by (simp add: sliding_new_def seconds_def)
qed

theorem sliding_window_bound_witness:
  "int (in_window (seconds 60) 90000000 (sliding_allowed ''a'' (sliding_new 2 (seconds 60) 100)
     [(''a'', 0), (''a'', 10), (''b'', 20), (''a'', 30), (''a'', 61000000)])) \<le> 2"
  using sliding_window_bound [of "[(''a'', 0), (''a'', 10), (''b'', 20), (''a'', 30), (''a'', 61000000)]"
      "seconds 60" 90000000 "''a''" 2 100]
  by (simp add: seconds_def)

text \<open>Nor does it refuse anybody too early: unless the table is full of other live keys, a call is
  allowed exactly when fewer than the limit of the key's attempts were allowed in the last window.\<close>

theorem sliding_check_exact:
  assumes "sliding_inv k s ts now" and "int (length (sw_attempts s)) < sw_max_keys s" and "0 < sw_window s"
  shows "rl_allowed (fst (sliding_check k now s)) \<longleftrightarrow> int (in_window (sw_window s) now ts) < sw_limit s"
proof -
  let ?q = "deque k (sw_attempts s)" and ?c = "now - sw_window s"
  from assms(1) obtain old where old: "sorted ts" "\<forall>t \<in> set ts. t \<le> now" "ts = old @ ?q" "\<forall>t \<in> set old. t \<le> ?c"
    by (rule sliding_invE)
  have "filter (\<lambda>x. ?c < x \<and> x \<le> now) old = []" using old(4) by (force simp: filter_empty_conv)
  moreover have "filter (\<lambda>x. ?c < x \<and> x \<le> now) ?q = dropWhile (\<lambda>t. t \<le> ?c) ?q"
  proof -
    have srt: "sorted ?q" using old(1,3) by (simp add: sorted_append)
    have split_q: "filter (\<lambda>x. ?c < x \<and> x \<le> now) ?q = filter (\<lambda>x. ?c < x \<and> x \<le> now) (takeWhile (\<lambda>t. t \<le> ?c) ?q) @
        filter (\<lambda>x. ?c < x \<and> x \<le> now) (dropWhile (\<lambda>t. t \<le> ?c) ?q)"
      by (metis filter_append takeWhile_dropWhile_id)
    have "filter (\<lambda>x. ?c < x \<and> x \<le> now) (takeWhile (\<lambda>t. t \<le> ?c) ?q) = []"
      using sorted_dropWhile_split(1) [OF srt, of ?c] by (auto simp: filter_empty_conv)
    moreover have "filter (\<lambda>x. ?c < x \<and> x \<le> now) (dropWhile (\<lambda>t. t \<le> ?c) ?q) = dropWhile (\<lambda>t. t \<le> ?c) ?q"
      using sorted_dropWhile_split(2) [OF srt, of ?c] old(2,3)
      by (intro filter_True) (auto dest: set_dropWhileD)
    ultimately show ?thesis using split_q by simp
  qed
  ultimately have "in_window (sw_window s) now ts = length (dropWhile (\<lambda>t. t \<le> ?c) ?q)"
    by (simp add: in_window_def old(3))
  then show ?thesis using assms(2) by (auto simp: sliding_check_def Let_def)
qed

theorem sliding_check_exact_witness:
  "rl_allowed (fst (sliding_check ''a'' 5 (sliding_new 2 (seconds 60) 100)))"
  using sliding_check_exact [OF sliding_new_inv [of "''a''" 2 "seconds 60" 100 5]]
  by (simp add: sliding_new_def seconds_def in_window_def)

section \<open>The fixed window bound\<close>

text \<open>The allowed attempts of a key hash, each with the start of the window it was counted in.\<close>

fun db_allowed ::
  "(string \<Rightarrow> string) \<Rightarrow> string \<Rightarrow> db_limiter \<times> db \<Rightarrow> (string \<times> timestamp) list \<Rightarrow> (timestamp \<times> timestamp) list" where
  "db_allowed sha256_hex h ld [] = []"
| "db_allowed sha256_hex h ld (c # cs) =
     (let (r, ld') = db_limiter_check sha256_hex (fst c) (snd c) ld in
      (case r of
         Inr x \<Rightarrow>
           (if sha256_hex (fst c) = h \<and> rl_allowed x
            then (case row_get rl_key_hash h (auth_rate_limits (snd ld')) of
                    Some row \<Rightarrow> [(snd c, rl_window_started_at row)] | None \<Rightarrow> [])
            else [])
       | Inl _ \<Rightarrow> [])
      @ db_allowed sha256_hex h ld' cs)"

definition counted_in :: "timestamp \<Rightarrow> (timestamp \<times> timestamp) list \<Rightarrow> int" where
  "counted_in ws ts = int (length (filter (\<lambda>p. snd p = ws) ts))"

text \<open>\<open>w\<close> is the window in microseconds.\<close>

definition fixed_inv :: "string \<Rightarrow> int \<Rightarrow> int \<Rightarrow> db \<Rightarrow> (timestamp \<times> timestamp) list \<Rightarrow> timestamp \<Rightarrow> bool" where
  "fixed_inv h w limit d ts now \<longleftrightarrow>
     distinct (map rl_key_hash (auth_rate_limits d)) \<and>
     (\<forall>p \<in> set ts. snd p \<le> fst p \<and> fst p < snd p + w \<and> fst p \<le> now) \<and>
     (\<forall>p \<in> set ts. \<forall>q \<in> set ts. snd p < snd q \<longrightarrow> snd p + w \<le> snd q) \<and>
     (\<forall>s. counted_in s ts \<le> limit) \<and>
     (case row_get rl_key_hash h (auth_rate_limits d) of
        None \<Rightarrow> \<forall>p \<in> set ts. snd p + w \<le> now
      | Some r \<Rightarrow> rl_window_started_at r \<le> rl_updated_at r \<and> rl_updated_at r \<le> now \<and>
          counted_in (rl_window_started_at r) ts \<le> rl_attempts r \<and>
          (\<forall>p \<in> set ts. snd p \<noteq> rl_window_started_at r \<longrightarrow> snd p + w \<le> rl_window_started_at r))"

lemma fixed_inv_advance: "fixed_inv h w limit d ts l \<Longrightarrow> l \<le> now \<Longrightarrow> fixed_inv h w limit d ts now"
  by (auto simp: fixed_inv_def split: option.splits intro: order_trans)

lemma fixed_inv_purge:
  assumes "fixed_inv h w limit d ts now" and "0 < w" and "w \<le> seconds 86400"
  shows "fixed_inv h w limit (purge_limits now d) ts now"
proof (cases "row_get rl_key_hash h (auth_rate_limits d)")
  case None
  with assms(1) show ?thesis
    by (auto simp: fixed_inv_def purge_limits_def row_get_filter distinct_map_filter)
next
  case (Some r)
  show ?thesis
  proof (cases "rl_updated_at r < now - seconds 86400")
    case False
    with Some assms(1) show ?thesis
      by (auto simp: fixed_inv_def purge_limits_def row_get_filter distinct_map_filter)
  next
    case True
    from assms(1) Some have "\<forall>p \<in> set ts. snd p + w \<le> now"
      using True assms(2,3) by (fastforce simp: fixed_inv_def)
    with True Some assms(1) show ?thesis
      by (auto simp: fixed_inv_def purge_limits_def row_get_filter distinct_map_filter)
  qed
qed

lemma counted_append: "counted_in s (ts @ us) = counted_in s ts + counted_in s us"
  by (simp add: counted_in_def)

lemma counted_none: "(\<And>p. p \<in> set ts \<Longrightarrow> snd p \<noteq> s) \<Longrightarrow> counted_in s ts = 0"
  by (auto simp: counted_in_def filter_empty_conv)

lemma counted_Nil [simp]: "counted_in s [] = 0"
  by (simp add: counted_in_def)

lemma counted_single: "counted_in s [p] = (if snd p = s then 1 else 0)"
  by (simp add: counted_in_def)

lemma upsert_attempt_InrD:
  assumes "upsert_attempt ws h' now d = Inr (r', d')" and "distinct (map rl_key_hash (auth_rate_limits d))"
  shows "rl_key_hash r' = h' \<and> rl_updated_at r' = now \<and> distinct (map rl_key_hash (auth_rate_limits d')) \<and>
    (\<forall>h. row_get rl_key_hash h (auth_rate_limits d') = (if h = h' then Some r' else row_get rl_key_hash h (auth_rate_limits d))) \<and>
    (case row_get rl_key_hash h' (auth_rate_limits d) of
       None \<Rightarrow> rl_window_started_at r' = now \<and> rl_attempts r' = 1
     | Some r \<Rightarrow> r' = upsert_row ws now r)"
proof (cases "row_get rl_key_hash h' (auth_rate_limits d)")
  case None
  then have "h' \<notin> rl_key_hash ` set (auth_rate_limits d)" by (simp add: row_get_None)
  with None assms show ?thesis
    by (auto simp: upsert_attempt_def Let_def row_get_append row_get_Cons split: if_splits option.splits)
next
  case (Some r)
  then have key: "rl_key_hash r = h'" by (blast dest: row_get_SomeD)
  from Some assms(1) have r': "r' = upsert_row ws now r"
    and d': "d' = d\<lparr>auth_rate_limits := rows_update (\<lambda>x. rl_key_hash x = h') (\<lambda>_. r') (auth_rate_limits d)\<rparr>"
    by (auto simp: upsert_attempt_def Let_def split: if_splits)
  have kr: "rl_key_hash r' = h'" "rl_updated_at r' = now" using r' key by (auto simp: upsert_row_def)
  have "map rl_key_hash (rows_update (\<lambda>x. rl_key_hash x = h') (\<lambda>_. r') (auth_rate_limits d)) = map rl_key_hash (auth_rate_limits d)"
    using kr by (intro map_rows_update) simp
  moreover have "row_get rl_key_hash h (rows_update (\<lambda>x. rl_key_hash x = h') (\<lambda>_. r') rows) =
      (case row_get rl_key_hash h rows of None \<Rightarrow> None | Some x \<Rightarrow> if h = h' then Some r' else Some x)" for h rows
    using kr by (induction rows) (auto simp: table_simps split: option.splits)
  ultimately show ?thesis
    using Some kr r' d' assms(2) by (auto split: option.splits)
qed

lemma fixed_inv_upsert:
  assumes inv: "fixed_inv h (seconds ws) limit d ts now" and w: "0 < ws" and l: "1 \<le> limit"
    and run: "upsert_attempt ws h' now d = Inr (r', d')"
  shows "fixed_inv h (seconds ws) limit d'
     (ts @ (if h' = h \<and> rl_attempts r' \<le> limit then [(now, rl_window_started_at r')] else [])) now"
proof -
  have dist: "distinct (map rl_key_hash (auth_rate_limits d))" using inv by (simp add: fixed_inv_def)
  have wpos: "0 < seconds ws" using w by (simp add: seconds_def)
  note up = upsert_attempt_InrD [OF run dist]
  show ?thesis
  proof (cases "h' = h")
    case False
    with up inv show ?thesis by (auto simp: fixed_inv_def split: option.splits)
  next
    case True
    have old: "\<forall>p \<in> set ts. snd p \<le> fst p \<and> fst p < snd p + seconds ws \<and> fst p \<le> now"
      "\<forall>p \<in> set ts. \<forall>q \<in> set ts. snd p < snd q \<longrightarrow> snd p + seconds ws \<le> snd q" "\<forall>s. counted_in s ts \<le> limit"
      using inv by (auto simp: fixed_inv_def)
    have got: "row_get rl_key_hash h (auth_rate_limits d') = Some r'" "rl_updated_at r' = now"
      "distinct (map rl_key_hash (auth_rate_limits d'))" using up True by auto
    show ?thesis
    proof (cases "\<forall>p \<in> set ts. snd p + seconds ws \<le> now \<and> rl_window_started_at r' = now \<and> rl_attempts r' = 1")
      case fresh: True
      show ?thesis
      proof (cases "ts = []")
        case True
        obtain "rl_window_started_at r' \<le> now" "now < rl_window_started_at r' + seconds ws" "1 \<le> rl_attempts r'"
        proof (cases "row_get rl_key_hash h (auth_rate_limits d)")
          case None
          with up \<open>h' = h\<close> wpos that show ?thesis by auto
        next
          case (Some r)
          with inv have "rl_window_started_at r \<le> now" "0 \<le> rl_attempts r"
            by (auto simp: fixed_inv_def counted_in_def True)
          with up \<open>h' = h\<close> wpos that Some show ?thesis by (auto simp: upsert_row_def split: if_splits)
        qed
        with True got \<open>h' = h\<close> l show ?thesis
          by (auto simp: fixed_inv_def counted_single counted_none)
      next
        case False
        then obtain p where "p \<in> set ts" by (cases ts) auto
        with fresh have r': "rl_window_started_at r' = now" "rl_attempts r' = 1" by auto
        have c0: "counted_in now ts = 0" using fresh wpos by (intro counted_none) force
        have "snd p \<noteq> now \<and> snd p + seconds ws \<le> now" if "p \<in> set ts" for p using fresh wpos that by force
        with old c0 r' got \<open>h' = h\<close> l wpos show ?thesis
          by (auto simp: fixed_inv_def counted_append counted_single)
      qed
    next
      case False
      then obtain r where r: "row_get rl_key_hash h (auth_rate_limits d) = Some r"
        using inv up True by (cases "row_get rl_key_hash h (auth_rate_limits d)") (auto simp: fixed_inv_def)
      with inv have ri: "rl_window_started_at r \<le> now" "counted_in (rl_window_started_at r) ts \<le> rl_attempts r"
        "\<forall>p \<in> set ts. snd p \<noteq> rl_window_started_at r \<longrightarrow> snd p + seconds ws \<le> rl_window_started_at r"
        by (auto simp: fixed_inv_def)
      have "\<not> rl_window_started_at r \<le> now - seconds ws"
      proof
        assume ex: "rl_window_started_at r \<le> now - seconds ws"
        have "\<forall>p \<in> set ts. snd p + seconds ws \<le> now"
        proof
          fix p assume "p \<in> set ts"
          with ri ex show "snd p + seconds ws \<le> now" by (cases "snd p = rl_window_started_at r") force+
        qed
        with False up True r ex show False by (auto simp: upsert_row_def)
      qed
      with up True r have r': "rl_window_started_at r' = rl_window_started_at r" "rl_attempts r' = rl_attempts r + 1"
        and live: "now < rl_window_started_at r + seconds ws" by (auto simp: upsert_row_def)
      have "counted_in s (ts @ [(now, rl_window_started_at r)]) \<le> limit" if "rl_attempts r + 1 \<le> limit" for s
        using that ri(2) old(3) by (auto simp: counted_append counted_single)
      moreover have "snd p + seconds ws \<le> rl_window_started_at r" if "p \<in> set ts" "snd p < rl_window_started_at r" for p
        using ri(3) that by auto
      moreover have "\<not> rl_window_started_at r < snd p" if "p \<in> set ts" for p
        using ri(3) that wpos by force
      ultimately show ?thesis
        using old got r' ri live True
        by (auto simp: fixed_inv_def counted_append counted_single)
    qed
  qed
qed

lemma db_limiter_check_inv:
  assumes inv: "fixed_inv h (seconds (dl_window_seconds l)) (dl_limit l) d ts t0" and t0: "t0 \<le> now"
    and w: "0 < dl_window_seconds l" "dl_window_seconds l \<le> 86400" and lim: "1 \<le> dl_limit l"
    and run: "db_limiter_check sha256_hex key now (l, d) = (r, (l', d'))"
  shows "fixed_inv h (seconds (dl_window_seconds l)) (dl_limit l) d'
     (ts @ (case r of
         Inr x \<Rightarrow> (if sha256_hex key = h \<and> rl_allowed x
            then (case row_get rl_key_hash h (auth_rate_limits d') of
                    Some row \<Rightarrow> [(now, rl_window_started_at row)] | None \<Rightarrow> [])
            else [])
       | Inl _ \<Rightarrow> [])) now \<and> dl_window_seconds l' = dl_window_seconds l \<and> dl_limit l' = dl_limit l"
proof (cases "upsert_attempt (dl_window_seconds l) (sha256_hex key) now d")
  case (Inl e)
  with run fixed_inv_advance [OF inv t0] show ?thesis by (auto simp: db_limiter_check_def Let_def)
next
  case (Inr x)
  obtain row d1 where x: "x = (row, d1)" by fastforce
  let ?ts = "ts @ (if sha256_hex key = h \<and> rl_attempts row \<le> dl_limit l then [(now, rl_window_started_at row)] else [])"
  from fixed_inv_upsert [OF fixed_inv_advance [OF inv t0] w(1) lim Inr [unfolded x]]
  have inv1: "fixed_inv h (seconds (dl_window_seconds l)) (dl_limit l) d1 ?ts now" .
  have "0 < seconds (dl_window_seconds l)" "seconds (dl_window_seconds l) \<le> seconds 86400"
    using w by (simp_all add: seconds_def)
  from fixed_inv_purge [OF inv1 this] inv1
  have inv2: "fixed_inv h (seconds (dl_window_seconds l)) (dl_limit l) d' ?ts now"
    and d': "d' = d1 \<or> d' = purge_limits now d1"
    and r: "\<exists>y. r = Inr y \<and> rl_allowed y = (rl_attempts row \<le> dl_limit l)"
    and l': "dl_window_seconds l' = dl_window_seconds l" "dl_limit l' = dl_limit l"
    using run Inr x by (auto simp: db_limiter_check_def maintenance_due_def Let_def split: if_splits)
  have dist: "distinct (map rl_key_hash (auth_rate_limits d))" "distinct (map rl_key_hash (auth_rate_limits d1))"
    using inv inv1 by (auto simp: fixed_inv_def)
  from upsert_attempt_InrD [OF Inr [unfolded x] dist(1)]
  have "row_get rl_key_hash (sha256_hex key) (auth_rate_limits d1) = Some row" "rl_updated_at row = now" by auto
  with d' dist(2) have "row_get rl_key_hash (sha256_hex key) (auth_rate_limits d') = Some row"
    by (auto simp: purge_limits_def row_get_filter seconds_def)
  with inv2 r l' show ?thesis by auto
qed

lemma db_run_inv:
  assumes "fixed_inv h (seconds (dl_window_seconds l)) (dl_limit l) d ts t0" and "sorted (t0 # map snd calls)"
    and w: "0 < dl_window_seconds l" "dl_window_seconds l \<le> 86400" "1 \<le> dl_limit l"
  shows "\<exists>d' now. fixed_inv h (seconds (dl_window_seconds l)) (dl_limit l) d' (ts @ db_allowed sha256_hex h (l, d) calls) now"
  using assms
proof (induction calls arbitrary: l d ts t0)
  case Nil
  then show ?case by auto
next
  case (Cons c calls)
  obtain r l' d' where run: "db_limiter_check sha256_hex (fst c) (snd c) (l, d) = (r, (l', d'))"
    by (metis prod.exhaust)
  from Cons.prems(2) have "t0 \<le> snd c" "sorted (snd c # map snd calls)" by auto
  note step = db_limiter_check_inv [OF Cons.prems(1) this(1) Cons.prems(3-5) run]
  let ?new = "case r of
         Inr x \<Rightarrow> (if sha256_hex (fst c) = h \<and> rl_allowed x
            then (case row_get rl_key_hash h (auth_rate_limits d') of
                    Some row \<Rightarrow> [(snd c, rl_window_started_at row)] | None \<Rightarrow> [])
            else [])
       | Inl _ \<Rightarrow> []"
  from Cons.IH [of l' d' "ts @ ?new" "snd c"] step Cons.prems(3-5) \<open>sorted (snd c # map snd calls)\<close>
  have "\<exists>d'' now. fixed_inv h (seconds (dl_window_seconds l)) (dl_limit l) d''
      ((ts @ ?new) @ db_allowed sha256_hex h (l', d') calls) now" by simp
  moreover have "db_allowed sha256_hex h (l, d) (c # calls) = ?new @ db_allowed sha256_hex h (l', d') calls"
    by (simp only: db_allowed.simps run Let_def prod.case snd_conv)
  ultimately show ?case by simp
qed

lemma length_filter_filter: "length (filter P (filter Q xs)) \<le> length (filter P xs)"
  by (induction xs) auto

lemma length_two_classes:
  "(\<And>p. p \<in> set xs \<Longrightarrow> f p = a \<or> f p = b) \<Longrightarrow>
     length xs \<le> length (filter (\<lambda>p. f p = a) xs) + length (filter (\<lambda>p. f p = b) xs)"
  by (induction xs) (simp_all, force)

lemma fixed_inv_window_bound:
  assumes inv: "fixed_inv h w limit d ts now" and w: "0 < w"
  shows "int (length (filter (\<lambda>p. t - w < fst p \<and> fst p \<le> t) ts)) \<le> 2 * limit"
proof (cases "filter (\<lambda>p. t - w < fst p \<and> fst p \<le> t) ts = []")
  case True
  have "0 \<le> counted_in 0 ts" "counted_in 0 ts \<le> limit" using inv by (auto simp: fixed_inv_def counted_in_def)
  with True show ?thesis by simp
next
  case False
  let ?f = "filter (\<lambda>p. t - w < fst p \<and> fst p \<le> t) ts" and ?W = "snd ` set (filter (\<lambda>p. t - w < fst p \<and> fst p \<le> t) ts)"
  define a where "a = Min ?W"
  define b where "b = Max ?W"
  have ne: "finite ?W" "?W \<noteq> {}" using False by (auto simp: filter_empty_conv)
  from Min_in [OF ne] Max_in [OF ne] have ab: "a \<in> ?W" "b \<in> ?W" unfolding a_def b_def by blast+
  have abc: "a \<le> c \<and> c \<le> b" if "c \<in> ?W" for c
    unfolding a_def b_def using ne(1) that by (intro conjI Min_le Max_ge)
  have props: "\<forall>p \<in> set ts. snd p \<le> fst p \<and> fst p < snd p + w"
    "\<forall>p \<in> set ts. \<forall>q \<in> set ts. snd p < snd q \<longrightarrow> snd p + w \<le> snd q" using inv by (auto simp: fixed_inv_def)
  have two: "snd p = a \<or> snd p = b" if p: "p \<in> set ?f" for p
  proof (rule ccontr)
    assume no: "\<not> (snd p = a \<or> snd p = b)"
    from ab obtain pa pb where pa: "pa \<in> set ?f" "snd pa = a" and pb: "pb \<in> set ?f" "snd pb = b" by auto
    have "a \<le> snd p" "snd p \<le> b" using abc [of "snd p"] p by auto
    with no have "a < snd p" "snd p < b" by auto
    then have "a + w \<le> snd p" "snd p + w \<le> b"
      using props(2) pa pb p by (auto simp: dest: bspec)
    moreover have "b \<le> t" "t - w < a + w" using props(1) pa pb by force+
    ultimately show False by simp
  qed
  have "length ?f \<le> length (filter (\<lambda>p. snd p = a) ?f) + length (filter (\<lambda>p. snd p = b) ?f)"
    using two by (intro length_two_classes) blast
  also have "\<dots> \<le> length (filter (\<lambda>p. snd p = a) ts) + length (filter (\<lambda>p. snd p = b) ts)"
    by (intro add_mono length_filter_filter)
  finally have "int (length ?f) \<le> counted_in a ts + counted_in b ts" by (simp add: counted_in_def)
  also have "\<dots> \<le> 2 * limit"
  proof -
    have "\<forall>s. counted_in s ts \<le> limit" using inv by (auto simp: fixed_inv_def)
    then have "counted_in a ts \<le> limit" "counted_in b ts \<le> limit" by blast+
    then show ?thesis by simp
  qed
  finally show ?thesis .
qed

lemma window_count:
  assumes "sorted (map snd calls)" and "window div 1000000 \<le> 86400"
    and "auth_rate_limits d = []"
  shows "(\<forall>s. counted_in s (db_allowed sha256_hex h (db_limiter_new limit window, d) calls) \<le> max 1 limit) \<and>
    int (length (filter (\<lambda>p. t - seconds (max 1 (window div 1000000)) < fst p \<and> fst p \<le> t)
           (db_allowed sha256_hex h (db_limiter_new limit window, d) calls))) \<le> 2 * max 1 limit"
proof -
  let ?l = "db_limiter_new limit window" and ?t0 = "case calls of [] \<Rightarrow> 0 | c # _ \<Rightarrow> snd c"
  have "fixed_inv h (seconds (dl_window_seconds ?l)) (dl_limit ?l) d [] ?t0"
    using assms(3) by (simp add: fixed_inv_def db_limiter_new_def counted_in_def)
  moreover have "sorted (?t0 # map snd calls)" using assms(1) by (cases calls) auto
  moreover have "0 < dl_window_seconds ?l" "dl_window_seconds ?l \<le> 86400" "1 \<le> dl_limit ?l"
    using assms(2) by (simp_all add: db_limiter_new_def)
  ultimately obtain d' now where
    inv: "fixed_inv h (seconds (dl_window_seconds ?l)) (dl_limit ?l) d' (db_allowed sha256_hex h (?l, d) calls) now"
    using db_run_inv [of h ?l d "[]" ?t0 calls sha256_hex] by auto
  then have "\<forall>s. counted_in s (db_allowed sha256_hex h (?l, d) calls) \<le> max 1 limit"
    by (simp add: fixed_inv_def db_limiter_new_def)
  with fixed_inv_window_bound [OF inv, of t] show ?thesis
    by (simp add: db_limiter_new_def seconds_def)
qed

text \<open>The shared limiter: for a window of at most a day (older rows are purged), a clock that does
  not run backwards and any sequence of calls, the calls of one key that are allowed and counted in
  the same window are at most the limit, and no interval of the window's length contains more than
  twice the limit.\<close>

theorem fixed_window_bound:
  assumes "sorted (map snd calls)" and "window div 1000000 \<le> 86400"
    and "auth_rate_limits d = []"
  shows "(\<forall>s. counted_in s (db_allowed sha256_hex h (db_limiter_new limit window, d) calls) \<le> max 1 limit) \<and>
    int (length (filter (\<lambda>p. t - seconds (max 1 (window div 1000000)) < fst p \<and> fst p \<le> t)
           (db_allowed sha256_hex h (db_limiter_new limit window, d) calls))) \<le> 2 * max 1 limit"
  using assms by (rule window_count)

theorem fixed_window_bound_witness:
  "\<forall>s. counted_in s (db_allowed (\<lambda>k. take 64 (k @ replicate 64 CHR ''0'')) ''k''
     (db_limiter_new 5 (seconds 900), empty_db) [(''k'', 1), (''k'', 2)]) \<le> 5"
  using fixed_window_bound [of "[(''k'', 1), (''k'', 2)]" "seconds 900" empty_db
      "\<lambda>k. take 64 (k @ replicate 64 CHR ''0'')" "''k''" 5, THEN conjunct1]
  by (simp add: seconds_def empty_db_def)

end
