(* ===== verification/Ledger.thy ===== *)
theory Ledger
  imports Sca
begin

text \<open>
  Atomic money movement and reconciliation: \<open>bantam/ledger.py\<close>.

  \<open>create_transfer\<close> is \<open>LedgerService.create_transfer\<close> in its three phases, each one atomic
  access to the database: the idempotency read, the transaction \<open>transfer_body\<close> that
  commits or rolls back, and the read after a unique violation. The SCA service a
  \<open>LedgerService\<close> is built with is the argument \<open>authorise\<close>. The ids and clocks a call
  draws are a \<open>transfer_fresh\<close>.
\<close>

type_synonym sca_validator =
  "principal \<Rightarrow> uuid \<Rightarrow> uuid \<Rightarrow> int \<Rightarrow> uuid option \<Rightarrow> string \<Rightarrow> timestamp \<Rightarrow> timestamp \<Rightarrow> db
     \<Rightarrow> failure + db"

record transaction_view =
  tv_transaction_id :: uuid
  tv_idempotency_key :: string
  tv_request_id :: uuid
  tv_source_account_id :: uuid
  tv_destination_account_id :: uuid
  tv_amount_minor :: int
  tv_currency :: string
  tv_description :: string
  tv_transaction_type :: transaction_type
  tv_status :: transaction_status
  tv_failure_reason :: "string option"
  tv_created_at :: timestamp
  tv_posted_at :: "timestamp option"

text \<open>A key that the payload leaves out is \<open>None\<close>.\<close>

definition transaction_payload :: "transaction_row \<Rightarrow> transaction_view" where
  "transaction_payload t =
     \<lparr>tv_transaction_id = tx_transaction_id t, tv_idempotency_key = tx_idempotency_key t,
      tv_request_id = tx_request_id t, tv_source_account_id = tx_source_account_id t,
      tv_destination_account_id = tx_destination_account_id t,
      tv_amount_minor = tx_amount_minor t, tv_currency = tx_currency t,
      tv_description = tx_description t, tv_transaction_type = tx_transaction_type t,
      tv_status = tx_status t, tv_failure_reason = tx_failure_reason t,
      tv_created_at = tx_created_at t, tv_posted_at = tx_posted_at t\<rparr>"

record transfer_fresh =
  fx_transaction_id :: uuid
  fx_debit_entry_id :: uuid
  fx_credit_entry_id :: uuid
  fx_outbox_event_id :: uuid
  fx_audit :: audit_fresh
  fx_now :: timestamp          \<comment> \<open>the clock of the SCA check\<close>
  fx_posted_at :: timestamp    \<comment> \<open>\<open>datetime.now(UTC)\<close> when posting\<close>
  fx_db_now :: timestamp       \<comment> \<open>\<open>now()\<close> of the database transaction\<close>

section \<open>Normalisation and reads\<close>

definition normalise :: "transfer_command \<Rightarrow> failure + transfer_command" where
  "normalise command =
     (let n = command\<lparr>tc_idempotency_key := py_strip (tc_idempotency_key command),
                      tc_currency := py_upper (py_strip (tc_currency command)),
                      tc_description := py_strip (tc_description command),
                      tc_transaction_type :=
                        (case tc_transaction_type command of None \<Rightarrow> Some TRANSFER | Some t \<Rightarrow> Some t)\<rparr> in
      if tc_idempotency_key n = [] \<or> length (tc_idempotency_key n) > 128
      then Inl (validation ''invalid idempotency key'')
      else if tc_amount_minor n \<le> 0 then Inl (validation ''amount_minor must be positive'')
      else if tc_source_account_id n = tc_destination_account_id n
      then Inl (validation ''source and destination must differ'')
      else if tc_currency n \<noteq> ''GBP'' then Inl (validation ''only GBP is supported in V1'')
      else if tc_operator_override n \<and> pr_role (tc_actor n) \<noteq> BANK_ADMIN then Inl err_FORBIDDEN
      else Inr n)"

definition select_by_idempotency :: "uuid \<Rightarrow> string \<Rightarrow> db \<Rightarrow> transaction_row option" where
  "select_by_idempotency user_id key d =
     row_get (\<lambda>t. (tx_initiated_by_user_id t, tx_idempotency_key t)) (user_id, key) (transactions d)"

definition find_by_idempotency :: "uuid \<Rightarrow> string \<Rightarrow> db \<Rightarrow> transaction_view option" where
  "find_by_idempotency user_id key d = map_option transaction_payload (select_by_idempotency user_id key d)"

text \<open>
  The rows \<open>SELECT ... FOR UPDATE\<close> returns for the two accounts, joined with their balances;
  the result is indexed by account id.
\<close>

record locked_account =
  lk_account_id :: uuid
  lk_customer_id :: "uuid option"
  lk_currency :: string
  lk_status :: account_status
  lk_allow_negative :: bool
  lk_balance_minor :: int

definition locked_account :: "account_row \<Rightarrow> balance_row \<Rightarrow> locked_account" where
  "locked_account a b =
     \<lparr>lk_account_id = ba_account_id a, lk_customer_id = ba_customer_id a, lk_currency = ba_currency a,
      lk_status = ba_status a, lk_allow_negative = ba_allow_negative a,
      lk_balance_minor = ab_available_balance_minor b\<rparr>"

definition locked_rows :: "uuid \<Rightarrow> uuid \<Rightarrow> db \<Rightarrow> locked_account list" where
  "locked_rows source_id destination_id d =
     concat (map (\<lambda>a. map (locked_account a)
                        (filter (\<lambda>b. ab_account_id b = ba_account_id a) (account_balances d)))
       (filter (\<lambda>a. ba_account_id a = source_id \<or> ba_account_id a = destination_id) (bank_accounts d)))"

definition lock_accounts :: "uuid \<Rightarrow> uuid \<Rightarrow> db \<Rightarrow> failure + locked_account list" where
  "lock_accounts source_id destination_id d =
     (let rows = locked_rows source_id destination_id d in
      if length rows \<noteq> 2 then Inl err_NOT_FOUND else Inr rows)"

definition account_at :: "uuid \<Rightarrow> locked_account list \<Rightarrow> failure + locked_account" where
  "account_at i rows =
     (case row_get lk_account_id i rows of None \<Rightarrow> Inl KeyError | Some r \<Rightarrow> Inr r)"

section \<open>The guards\<close>

definition authorise_source ::
  "sca_validator \<Rightarrow> transfer_command \<Rightarrow> locked_account \<Rightarrow> transfer_fresh \<Rightarrow> db \<Rightarrow> failure + db" where
  "authorise_source authorise c source fx d =
     (if tc_operator_override c then Inr d
      else case pr_customer_id (tc_actor c) of
        None \<Rightarrow> Inl err_FORBIDDEN
      | Some customer_id \<Rightarrow>
          if lk_customer_id source = None \<or> Some customer_id \<noteq> lk_customer_id source
          then Inl err_FORBIDDEN
          else case row_get cu_customer_id customer_id (customers d) of
            None \<Rightarrow> Inl err_KYC_NOT_VERIFIED
          | Some customer \<Rightarrow>
              if cu_kyc_status customer \<noteq> KYC_VERIFIED then Inl err_KYC_NOT_VERIFIED
              else authorise (tc_actor c) (tc_source_account_id c) (tc_destination_account_id c)
                     (tc_amount_minor c) (tc_sca_challenge_id c) (tc_sca_code c)
                     (fx_now fx) (fx_db_now fx) d)"

definition validate_reversal :: "transfer_command \<Rightarrow> uuid \<Rightarrow> db \<Rightarrow> failure + unit" where
  "validate_reversal c reverses d =
     (case row_get tx_transaction_id reverses (transactions d) of
        None \<Rightarrow> Inl err_NOT_FOUND
      | Some original \<Rightarrow>
          if tx_status original \<noteq> TX_POSTED \<or> tx_transaction_type original = REVERSAL
          then Inl err_CONFLICT
          else if tc_source_account_id c \<noteq> tx_destination_account_id original \<or>
                  tc_destination_account_id c \<noteq> tx_source_account_id original \<or>
                  tc_amount_minor c \<noteq> tx_amount_minor original \<or>
                  tc_currency c \<noteq> tx_currency original
          then Inl err_CONFLICT
          else Inr ())"

definition check_reversal :: "transfer_command \<Rightarrow> db \<Rightarrow> failure + unit" where
  "check_reversal c d =
     (case tc_reverses_transaction_id c of
        None \<Rightarrow> Inr ()
      | Some reverses \<Rightarrow> validate_reversal c reverses d)"

section \<open>The posting\<close>

definition command_type :: "transfer_command \<Rightarrow> transaction_type" where
  "command_type c = (case tc_transaction_type c of None \<Rightarrow> TRANSFER | Some t \<Rightarrow> t)"

definition new_transaction :: "transfer_command \<Rightarrow> transfer_fresh \<Rightarrow> transaction_row" where
  "new_transaction c fx =
     \<lparr>tx_transaction_id = fx_transaction_id fx, tx_idempotency_key = tc_idempotency_key c,
      tx_request_id = tc_request_id c, tx_initiated_by_user_id = pr_user_id (tc_actor c),
      tx_source_account_id = tc_source_account_id c,
      tx_destination_account_id = tc_destination_account_id c,
      tx_amount_minor = tc_amount_minor c, tx_currency = tc_currency c,
      tx_description = tc_description c, tx_transaction_type = command_type c,
      tx_reverses_transaction_id = tc_reverses_transaction_id c, tx_status = TX_POSTED,
      tx_failure_reason = None, tx_created_at = fx_db_now fx, tx_posted_at = Some (fx_posted_at fx)\<rparr>"

definition debit_entry :: "transfer_command \<Rightarrow> transfer_fresh \<Rightarrow> entry_row" where
  "debit_entry c fx =
     \<lparr>le_ledger_entry_id = fx_debit_entry_id fx, le_transaction_id = fx_transaction_id fx,
      le_account_id = tc_source_account_id c, le_amount_minor = - tc_amount_minor c,
      le_currency = tc_currency c, le_direction = DEBIT, le_entry_type = command_type c,
      le_created_at = fx_db_now fx\<rparr>"

definition credit_entry :: "transfer_command \<Rightarrow> transfer_fresh \<Rightarrow> entry_row" where
  "credit_entry c fx =
     \<lparr>le_ledger_entry_id = fx_credit_entry_id fx, le_transaction_id = fx_transaction_id fx,
      le_account_id = tc_destination_account_id c, le_amount_minor = tc_amount_minor c,
      le_currency = tc_currency c, le_direction = CREDIT, le_entry_type = command_type c,
      le_created_at = fx_db_now fx\<rparr>"

definition posted_payload :: "transfer_command \<Rightarrow> transfer_fresh \<Rightarrow> json" where
  "posted_payload c fx = JObj
     [(''transaction_id'', JStr (uuid_str (fx_transaction_id fx))),
      (''source_account_id'', JStr (uuid_str (tc_source_account_id c))),
      (''destination_account_id'', JStr (uuid_str (tc_destination_account_id c))),
      (''amount_minor'', JInt (tc_amount_minor c)),
      (''currency'', JStr (tc_currency c)),
      (''transaction_type'', JStr (transaction_type_str (command_type c))),
      (''initiated_by_user_id'', JStr (uuid_str (pr_user_id (tc_actor c))))]"

definition posted_audit :: "transfer_command \<Rightarrow> transfer_fresh \<Rightarrow> audit_args" where
  "posted_audit c fx =
     \<lparr>aa_actor_type = ''USER'', aa_actor_id = uuid_str (pr_user_id (tc_actor c)),
      aa_action = ''LEDGER_POSTED'', aa_resource_type = ''transaction'',
      aa_resource_id = uuid_str (fx_transaction_id fx), aa_request_id = Some (tc_request_id c),
      aa_correlation_id = Some (tc_request_id c), aa_ip_address = None, aa_user_agent = None,
      aa_metadata = JObj [(''amount_minor'', JInt (tc_amount_minor c)),
                          (''currency'', JStr (tc_currency c)),
                          (''type'', JStr (transaction_type_str (command_type c)))]\<rparr>"

definition post_transfer :: "transfer_command \<Rightarrow> transfer_fresh \<Rightarrow> db \<Rightarrow> failure + db" where
  "post_transfer c fx d =
     andthen (insert_transaction (new_transaction c fx) d) (\<lambda>d.
     andthen (insert_entry (debit_entry c fx) d) (\<lambda>d.
     andthen (insert_entry (credit_entry c fx) d) (\<lambda>d.
     andthen (update_balance (tc_source_account_id c) (- tc_amount_minor c)
                (fx_debit_entry_id fx) (fx_db_now fx) d) (\<lambda>d.
     andthen (update_balance (tc_destination_account_id c) (tc_amount_minor c)
                (fx_credit_entry_id fx) (fx_db_now fx) d) (\<lambda>d.
     andthen (case tc_reverses_transaction_id c of None \<Rightarrow> Inr d | Some r \<Rightarrow> mark_reversed r d) (\<lambda>d.
     andthen (insert_outbox (outbox_pending (fx_outbox_event_id fx) ''transaction''
                (fx_transaction_id fx) ''payment.transfer_posted.v1'' (posted_payload c fx)
                (fx_db_now fx)) d) (\<lambda>d.
     andthen (audit_record (posted_audit c fx) (fx_audit fx) d) (\<lambda>d.
     commit_balanced (fx_transaction_id fx) d))))))))"

definition posted_view :: "transfer_command \<Rightarrow> transfer_fresh \<Rightarrow> transaction_view" where
  "posted_view c fx =
     \<lparr>tv_transaction_id = fx_transaction_id fx, tv_idempotency_key = tc_idempotency_key c,
      tv_request_id = tc_request_id c, tv_source_account_id = tc_source_account_id c,
      tv_destination_account_id = tc_destination_account_id c,
      tv_amount_minor = tc_amount_minor c, tv_currency = tc_currency c,
      tv_description = tc_description c, tv_transaction_type = command_type c,
      tv_status = TX_POSTED, tv_failure_reason = None,
      tv_created_at = fx_posted_at fx, tv_posted_at = Some (fx_posted_at fx)\<rparr>"

section \<open>Transfers and reconciliation\<close>

definition transfer_body ::
  "sca_validator \<Rightarrow> transfer_command \<Rightarrow> transfer_fresh \<Rightarrow> db \<Rightarrow> failure + (transaction_view \<times> bool) \<times> db" where
  "transfer_body authorise c fx d =
     (case select_by_idempotency (pr_user_id (tc_actor c)) (tc_idempotency_key c) d of
        Some existing \<Rightarrow> Inr ((transaction_payload existing, True), d)
      | None \<Rightarrow>
     andthen (lock_accounts (tc_source_account_id c) (tc_destination_account_id c) d) (\<lambda>accounts.
     andthen (account_at (tc_source_account_id c) accounts) (\<lambda>source.
     andthen (account_at (tc_destination_account_id c) accounts) (\<lambda>destination.
       if lk_status source \<noteq> ACCOUNT_ACTIVE \<or> lk_status destination \<noteq> ACCOUNT_ACTIVE
       then Inl err_ACCOUNT_FROZEN
       else if lk_currency source \<noteq> tc_currency c \<or> lk_currency destination \<noteq> tc_currency c
       then Inl err_CURRENCY_MISMATCH
       else
         andthen (authorise_source authorise c source fx d) (\<lambda>d.
           if \<not> lk_allow_negative source \<and> lk_balance_minor source < tc_amount_minor c
           then Inl err_INSUFFICIENT_FUNDS
           else if \<not> balanced [- tc_amount_minor c, tc_amount_minor c]
           then Inl (RuntimeError ''internal ledger invariant failed'')
           else
             andthen (check_reversal c d) (\<lambda>_.
             andthen (post_transfer c fx d) (\<lambda>d.
               Inr ((posted_view c fx, False), d))))))))"

definition create_transfer ::
  "sca_validator \<Rightarrow> transfer_command \<Rightarrow> transfer_fresh \<Rightarrow> db
     \<Rightarrow> (failure + transaction_view \<times> bool) \<times> db" where
  "create_transfer authorise command fx d =
     (case normalise command of
        Inl e \<Rightarrow> (Inl e, d)
      | Inr c \<Rightarrow>
          case find_by_idempotency (pr_user_id (tc_actor c)) (tc_idempotency_key c) d of
            Some existing \<Rightarrow> (Inr (existing, True), d)
          | None \<Rightarrow>
              case in_transaction (transfer_body authorise c fx) d of
                (Inl (UniqueViolation k), d') \<Rightarrow>
                  (case find_by_idempotency (pr_user_id (tc_actor c)) (tc_idempotency_key c) d' of
                     Some existing \<Rightarrow> (Inr (existing, True), d')
                   | None \<Rightarrow> (Inl err_CONFLICT, d'))
              | r \<Rightarrow> r)"

record reconciliation =
  rc_account_id :: uuid
  rc_projected_balance_minor :: int
  rc_authoritative_balance_minor :: int
  rc_matches :: bool

definition account_sum :: "uuid \<Rightarrow> db \<Rightarrow> int" where
  "account_sum acct d = sum_where (\<lambda>e. le_account_id e = acct) le_amount_minor (ledger_entries d)"

text \<open>The cast \<open>::bigint\<close> of a sum outside the range raises.\<close>

definition reconcile :: "db \<Rightarrow> failure + reconciliation list" where
  "reconcile d =
     (if list_ex (\<lambda>b. \<not> is_bigint (account_sum (ab_account_id b) d)) (account_balances d)
      then Inl NumericValueOutOfRange
      else Inr (map (\<lambda>b.
        let projected = ab_current_balance_minor b;
            authoritative = account_sum (ab_account_id b) d in
        \<lparr>rc_account_id = ab_account_id b, rc_projected_balance_minor = projected,
         rc_authoritative_balance_minor = authoritative,
         rc_matches = (projected = authoritative)\<rparr>)
        (sort_key ab_account_id (account_balances d))))"

end
