(* ===== verification/Ledger_Invariants.thy ===== *)
theory Ledger_Invariants
  imports Ledger
begin

text \<open>
  The invariant of the ledger tables and what a posted transfer does to them.

  \<open>ledger_inv\<close> says: the keys are distinct; every balance row is the sum of the account's
  immutable entries, available equals current and both fit a BIGINT; no account without permission
  is negative; every transaction has exactly its debit and its credit entry; a transaction is
  REVERSED exactly when another one reverses it, and it is reversed once.
\<close>

named_theorems ledger_simps \<open>unfolding a ledger operation\<close>

section \<open>The invariant\<close>

definition keys_ok :: "db \<Rightarrow> bool" where
  "keys_ok d \<longleftrightarrow>
     distinct (map ba_account_id (bank_accounts d)) \<and>
     distinct (map ab_account_id (account_balances d)) \<and>
     distinct (map tx_transaction_id (transactions d)) \<and>
     distinct (map le_ledger_entry_id (ledger_entries d)) \<and>
     distinct (map (\<lambda>t. (tx_initiated_by_user_id t, tx_idempotency_key t)) (transactions d))"

definition balance_ok :: "db \<Rightarrow> balance_row \<Rightarrow> bool" where
  "balance_ok d b \<longleftrightarrow>
     ab_current_balance_minor b = account_sum (ab_account_id b) d \<and>
     ab_available_balance_minor b = ab_current_balance_minor b \<and>
     is_bigint (ab_current_balance_minor b) \<and>
     (case row_get ba_account_id (ab_account_id b) (bank_accounts d) of
        None \<Rightarrow> False
      | Some a \<Rightarrow> ba_allow_negative a \<or> 0 \<le> ab_current_balance_minor b)"

lemma balance_ok_alt: "balance_ok d b \<longleftrightarrow>
     ab_current_balance_minor b = account_sum (ab_account_id b) d \<and>
     ab_available_balance_minor b = ab_current_balance_minor b \<and>
     is_bigint (ab_current_balance_minor b) \<and>
     (\<exists>a. row_get ba_account_id (ab_account_id b) (bank_accounts d) = Some a \<and>
       (ba_allow_negative a \<or> 0 \<le> ab_current_balance_minor b))"
  by (auto simp: balance_ok_def split: option.splits)

definition balances_ok :: "db \<Rightarrow> bool" where
  "balances_ok d \<longleftrightarrow> (\<forall>b \<in> set (account_balances d). balance_ok d b)"

definition entries_of :: "uuid \<Rightarrow> db \<Rightarrow> entry_row list" where
  "entries_of tid d = filter (\<lambda>e. le_transaction_id e = tid) (ledger_entries d)"

definition entries_ok :: "db \<Rightarrow> bool" where
  "entries_ok d \<longleftrightarrow>
     (\<forall>e \<in> set (ledger_entries d). known tx_transaction_id (le_transaction_id e) (transactions d) \<and>
        known ab_account_id (le_account_id e) (account_balances d)) \<and>
     (\<forall>t \<in> set (transactions d).
        0 < tx_amount_minor t \<and> tx_source_account_id t \<noteq> tx_destination_account_id t \<and>
        map (\<lambda>e. (le_account_id e, le_amount_minor e)) (entries_of (tx_transaction_id t) d) =
          [(tx_source_account_id t, - tx_amount_minor t), (tx_destination_account_id t, tx_amount_minor t)])"

definition history_ok :: "db \<Rightarrow> bool" where
  "history_ok d \<longleftrightarrow>
     (\<forall>t \<in> set (transactions d).
        (tx_status t = TX_POSTED \<or> tx_status t = TX_REVERSED) \<and>
        (tx_status t = TX_REVERSED \<longleftrightarrow>
           known tx_reverses_transaction_id (Some (tx_transaction_id t)) (transactions d)) \<and>
        (case tx_reverses_transaction_id t of None \<Rightarrow> True | Some r \<Rightarrow> known tx_transaction_id r (transactions d))) \<and>
     distinct (filter (\<lambda>r. r \<noteq> None) (map tx_reverses_transaction_id (transactions d)))"

lemma history_ok_alt:
  "history_ok d \<longleftrightarrow>
     (\<forall>t \<in> set (transactions d).
        (tx_status t = TX_POSTED \<or> tx_status t = TX_REVERSED) \<and>
        (tx_status t = TX_REVERSED \<longleftrightarrow>
           known tx_reverses_transaction_id (Some (tx_transaction_id t)) (transactions d)) \<and>
        (\<forall>r. tx_reverses_transaction_id t = Some r \<longrightarrow> known tx_transaction_id r (transactions d))) \<and>
     distinct (filter (\<lambda>r. r \<noteq> None) (map tx_reverses_transaction_id (transactions d)))"
  by (auto simp: history_ok_def split: option.splits)

definition ledger_inv :: "db \<Rightarrow> bool" where
  "ledger_inv d \<longleftrightarrow> keys_ok d \<and> balances_ok d \<and> entries_ok d \<and> history_ok d"

section \<open>The effect of a posting\<close>

definition move_balance :: "transfer_command \<Rightarrow> transfer_fresh \<Rightarrow> balance_row \<Rightarrow> balance_row" where
  "move_balance c fx b =
     (if ab_account_id b = tc_source_account_id c
      then b\<lparr>ab_current_balance_minor := ab_current_balance_minor b - tc_amount_minor c,
             ab_available_balance_minor := ab_available_balance_minor b - tc_amount_minor c,
             ab_last_ledger_entry_id := Some (fx_debit_entry_id fx), ab_updated_at := fx_db_now fx\<rparr>
      else if ab_account_id b = tc_destination_account_id c
      then b\<lparr>ab_current_balance_minor := ab_current_balance_minor b + tc_amount_minor c,
             ab_available_balance_minor := ab_available_balance_minor b + tc_amount_minor c,
             ab_last_ledger_entry_id := Some (fx_credit_entry_id fx), ab_updated_at := fx_db_now fx\<rparr>
      else b)"

definition mark_row :: "uuid option \<Rightarrow> transaction_row \<Rightarrow> transaction_row" where
  "mark_row r t = (if r = Some (tx_transaction_id t) then t\<lparr>tx_status := TX_REVERSED\<rparr> else t)"

lemma move_balance_id [simp]: "ab_account_id (move_balance c fx b) = ab_account_id b"
  by (simp add: move_balance_def)

lemma mark_row_simps [simp]:
  "tx_transaction_id (mark_row r t) = tx_transaction_id t"
  "tx_idempotency_key (mark_row r t) = tx_idempotency_key t"
  "tx_initiated_by_user_id (mark_row r t) = tx_initiated_by_user_id t"
  "tx_source_account_id (mark_row r t) = tx_source_account_id t"
  "tx_destination_account_id (mark_row r t) = tx_destination_account_id t"
  "tx_amount_minor (mark_row r t) = tx_amount_minor t"
  "tx_reverses_transaction_id (mark_row r t) = tx_reverses_transaction_id t"
  "tx_transaction_type (mark_row r t) = tx_transaction_type t"
  by (simp_all add: mark_row_def)

lemma mark_row_None [simp]: "mark_row None = id"
  by (simp add: fun_eq_iff mark_row_def)

lemma known_map [simp]: "known key k (map f rows) = known (key \<circ> f) k rows"
  by (simp add: known_def)

definition posted_db :: "transfer_command \<Rightarrow> transfer_fresh \<Rightarrow> audit_row \<Rightarrow> db \<Rightarrow> db" where
  "posted_db c fx row d =
     d\<lparr>transactions := map (mark_row (tc_reverses_transaction_id c)) (transactions d @ [new_transaction c fx]),
       ledger_entries := ledger_entries d @ [debit_entry c fx, credit_entry c fx],
       account_balances := map (move_balance c fx) (account_balances d),
       outbox_events := outbox_events d @
         [outbox_pending (fx_outbox_event_id fx) ''transaction'' (fx_transaction_id fx)
            ''payment.transfer_posted.v1'' (posted_payload c fx) (fx_db_now fx)],
       audit_events := audit_events d @ [row]\<rparr>"

lemma posted_db_frame [simp]:
  "bank_accounts (posted_db c fx row d) = bank_accounts d"
  "customers (posted_db c fx row d) = customers d"
  "user_accounts (posted_db c fx row d) = user_accounts d"
  "sca_challenges (posted_db c fx row d) = sca_challenges d"
  by (simp_all add: posted_db_def)

lemma update_balance_distinct:
  assumes "update_balance acct delta entry now d = Inr d'"
    and "distinct (map ab_account_id (account_balances d))"
  shows "d' = d\<lparr>account_balances := rows_update (\<lambda>r. ab_account_id r = acct)
      (\<lambda>b. b\<lparr>ab_current_balance_minor := ab_current_balance_minor b + delta,
             ab_available_balance_minor := ab_available_balance_minor b + delta,
             ab_last_ledger_entry_id := Some entry, ab_updated_at := now\<rparr>) (account_balances d)\<rparr>
    \<and> (\<forall>b \<in> set (account_balances d). ab_account_id b = acct \<longrightarrow>
         write_balance (b\<lparr>ab_current_balance_minor := ab_current_balance_minor b + delta,
             ab_available_balance_minor := ab_available_balance_minor b + delta,
             ab_last_ledger_entry_id := Some entry, ab_updated_at := now\<rparr>) d = None)"
proof -
  have get: "row_get ab_account_id acct (account_balances d) = Some b"
    if "b \<in> set (account_balances d)" "ab_account_id b = acct" for b
    using row_get_in [OF assms(2) that(1)] that(2) by simp
  obtain f where d': "d' = d\<lparr>account_balances := rows_update (\<lambda>r. ab_account_id r = acct) f (account_balances d)\<rparr>"
    and f: "\<forall>b. row_get ab_account_id acct (account_balances d) = Some b \<longrightarrow>
          write_balance (f b) d = None \<and>
          (\<forall>r. f r = b\<lparr>ab_current_balance_minor := ab_current_balance_minor b + delta,
             ab_available_balance_minor := ab_available_balance_minor b + delta,
             ab_last_ledger_entry_id := Some entry, ab_updated_at := now\<rparr>)"
    using update_balance_InrD [OF assms(1)] by blast
  have "rows_update (\<lambda>r. ab_account_id r = acct) f (account_balances d) =
        rows_update (\<lambda>r. ab_account_id r = acct)
      (\<lambda>b. b\<lparr>ab_current_balance_minor := ab_current_balance_minor b + delta,
             ab_available_balance_minor := ab_available_balance_minor b + delta,
             ab_last_ledger_entry_id := Some entry, ab_updated_at := now\<rparr>) (account_balances d)"
    using get f by (auto simp: rows_update_def)
  moreover have "write_balance (b\<lparr>ab_current_balance_minor := ab_current_balance_minor b + delta,
             ab_available_balance_minor := ab_available_balance_minor b + delta,
             ab_last_ledger_entry_id := Some entry, ab_updated_at := now\<rparr>) d = None"
    if "b \<in> set (account_balances d)" "ab_account_id b = acct" for b
    using f [rule_format, OF get [OF that]] by metis
  ultimately show ?thesis using d' by simp
qed

text \<open>
  The statements of a posting one after the other: what each one checked, and the state they leave.
\<close>

lemma post_transfer_InrD:
  assumes post: "post_transfer c fx d = Inr d'"
    and dist: "distinct (map ab_account_id (account_balances d))"
    and neq: "tc_source_account_id c \<noteq> tc_destination_account_id c"
  shows "\<exists>row. d' = posted_db c fx row d \<and> au_action row = ''LEDGER_POSTED''"
    and "\<not> known tx_transaction_id (fx_transaction_id fx) (transactions d)"
    and "\<not> known (\<lambda>t. (tx_initiated_by_user_id t, tx_idempotency_key t))
           (pr_user_id (tc_actor c), tc_idempotency_key c) (transactions d)"
    and "\<not> known le_ledger_entry_id (fx_debit_entry_id fx) (ledger_entries d)"
    and "\<not> known le_ledger_entry_id (fx_credit_entry_id fx) (ledger_entries d)"
    and "fx_debit_entry_id fx \<noteq> fx_credit_entry_id fx"
    and "tc_reverses_transaction_id c \<noteq> None \<Longrightarrow>
         \<not> known tx_reverses_transaction_id (tc_reverses_transaction_id c) (transactions d)"
    and "0 < tc_amount_minor c"
    and "\<forall>b \<in> set (account_balances d).
           ab_account_id b = tc_source_account_id c \<or> ab_account_id b = tc_destination_account_id c \<longrightarrow>
           (\<exists>a. row_get ba_account_id (ab_account_id b) (bank_accounts d) = Some a \<and>
              is_bigint (ab_current_balance_minor (move_balance c fx b)) \<and>
              (ba_allow_negative a \<or> 0 \<le> ab_current_balance_minor (move_balance c fx b)))"
    and "\<not> known ob_outbox_event_id (fx_outbox_event_id fx) (outbox_events d)"
proof -
  obtain d1 d2 d3 d4 d5 d6 d7 d8 where
      s1: "insert_transaction (new_transaction c fx) d = Inr d1"
    and s2: "insert_entry (debit_entry c fx) d1 = Inr d2"
    and s3: "insert_entry (credit_entry c fx) d2 = Inr d3"
    and s4: "update_balance (tc_source_account_id c) (- tc_amount_minor c) (fx_debit_entry_id fx) (fx_db_now fx) d3 = Inr d4"
    and s5: "update_balance (tc_destination_account_id c) (tc_amount_minor c) (fx_credit_entry_id fx) (fx_db_now fx) d4 = Inr d5"
    and s6: "(case tc_reverses_transaction_id c of None \<Rightarrow> Inr d5 | Some r \<Rightarrow> mark_reversed r d5) = Inr d6"
    and s7: "insert_outbox (outbox_pending (fx_outbox_event_id fx) ''transaction''
                (fx_transaction_id fx) ''payment.transfer_posted.v1'' (posted_payload c fx) (fx_db_now fx)) d6 = Inr d7"
    and s8: "audit_record (posted_audit c fx) (fx_audit fx) d7 = Inr d8"
    and s9: "commit_balanced (fx_transaction_id fx) d8 = Inr d'"
    using post unfolding post_transfer_def by (elim andthen_InrE) blast
  note r1 = insert_transaction_InrD [OF s1] and r2 = insert_entry_InrD [OF s2]
    and r3 = insert_entry_InrD [OF s3] and r7 = insert_outbox_InrD [OF s7]
  have d1: "d1 = d\<lparr>transactions := transactions d @ [new_transaction c fx]\<rparr>" using r1 by blast
  have d3: "d3 = d1\<lparr>ledger_entries := ledger_entries d @ [debit_entry c fx, credit_entry c fx]\<rparr>"
    using r2 r3 d1 by simp
  have dist3: "distinct (map ab_account_id (account_balances d3))" using dist d3 d1 by simp
  note r4 = update_balance_distinct [OF s4 dist3]
  have dist4: "distinct (map ab_account_id (account_balances d4))"
    using dist3 conjunct1 [OF r4] by (simp add: map_rows_update)
  note r5 = update_balance_distinct [OF s5 dist4]
  have moved: "account_balances d5 = map (move_balance c fx) (account_balances d)"
    using conjunct1 [OF r5] conjunct1 [OF r4] d3 d1 neq
    by (simp add: rows_update_def move_balance_def comp_def)
  have d5: "d5 = d3\<lparr>account_balances := map (move_balance c fx) (account_balances d)\<rparr>"
    using conjunct1 [OF r5] conjunct1 [OF r4] moved by simp
  have tx6: "d6 = d5\<lparr>transactions := map (mark_row (tc_reverses_transaction_id c)) (transactions d5)\<rparr>"
    using s6 by (auto simp: rows_update_def mark_row_def eq_commute [of "tx_transaction_id _"]
        cong: if_cong split: option.splits dest!: mark_reversed_InrD)
  obtain row where row: "d8 = d7\<lparr>audit_events := audit_events d7 @ [row]\<rparr>" "au_action row = ''LEDGER_POSTED''"
    using audit_record_InrD [OF s8] by (auto simp: posted_audit_def)
  have "d' = posted_db c fx row d"
    using commit_balanced_InrD [OF s9] row(1) r7 tx6 d5 d3 d1 by (simp add: posted_db_def)
  with row(2) show "\<exists>row. d' = posted_db c fx row d \<and> au_action row = ''LEDGER_POSTED''" by blast
  show "\<not> known tx_transaction_id (fx_transaction_id fx) (transactions d)"
    and "\<not> known (\<lambda>t. (tx_initiated_by_user_id t, tx_idempotency_key t))
           (pr_user_id (tc_actor c), tc_idempotency_key c) (transactions d)"
    and "tc_reverses_transaction_id c \<noteq> None \<Longrightarrow>
         \<not> known tx_reverses_transaction_id (tc_reverses_transaction_id c) (transactions d)"
    and "0 < tc_amount_minor c"
    using r1 by (simp_all add: new_transaction_def)
  show "\<not> known le_ledger_entry_id (fx_debit_entry_id fx) (ledger_entries d)"
    and "\<not> known le_ledger_entry_id (fx_credit_entry_id fx) (ledger_entries d)"
    and "fx_debit_entry_id fx \<noteq> fx_credit_entry_id fx"
    using r2 r3 d1 by (auto simp: debit_entry_def credit_entry_def table_simps)
  show "\<not> known ob_outbox_event_id (fx_outbox_event_id fx) (outbox_events d)"
    using r7 tx6 d5 d3 d1 by (simp add: outbox_pending_def)
  show "\<forall>b \<in> set (account_balances d).
           ab_account_id b = tc_source_account_id c \<or> ab_account_id b = tc_destination_account_id c \<longrightarrow>
           (\<exists>a. row_get ba_account_id (ab_account_id b) (bank_accounts d) = Some a \<and>
              is_bigint (ab_current_balance_minor (move_balance c fx b)) \<and>
              (ba_allow_negative a \<or> 0 \<le> ab_current_balance_minor (move_balance c fx b)))"
  proof (intro ballI impI, elim disjE)
    fix b assume b: "b \<in> set (account_balances d)" "ab_account_id b = tc_source_account_id c"
    then show "\<exists>a. row_get ba_account_id (ab_account_id b) (bank_accounts d) = Some a \<and>
              is_bigint (ab_current_balance_minor (move_balance c fx b)) \<and>
              (ba_allow_negative a \<or> 0 \<le> ab_current_balance_minor (move_balance c fx b))"
      using conjunct2 [OF r4, rule_format, of b] d3 d1
      by (auto simp: move_balance_def dest!: write_balance_NoneD)
  next
    fix b assume b: "b \<in> set (account_balances d)" "ab_account_id b = tc_destination_account_id c"
    with neq have "b \<in> set (account_balances d4)"
      using conjunct1 [OF r4] d3 d1 by (auto simp: set_rows_update intro!: image_eqI [of b _ b])
    with b neq show "\<exists>a. row_get ba_account_id (ab_account_id b) (bank_accounts d) = Some a \<and>
              is_bigint (ab_current_balance_minor (move_balance c fx b)) \<and>
              (ba_allow_negative a \<or> 0 \<le> ab_current_balance_minor (move_balance c fx b))"
      using conjunct2 [OF r5, rule_format, of b] conjunct1 [OF r4] d3 d1
      by (auto simp: move_balance_def dest!: write_balance_NoneD)
  qed
qed

section \<open>A posting keeps the invariant\<close>

lemma account_sum_posted:
  "account_sum i (posted_db c fx row d) = account_sum i d
     + (if i = tc_source_account_id c then - tc_amount_minor c else 0)
     + (if i = tc_destination_account_id c then tc_amount_minor c else 0)"
  by (simp add: account_sum_def posted_db_def table_simps debit_entry_def credit_entry_def)

lemma posted_keys_ok:
  assumes "keys_ok d" and "tc_source_account_id c \<noteq> tc_destination_account_id c"
    and "post_transfer c fx d = Inr d'"
  shows "keys_ok d'"
proof -
  from assms(1) have dist: "distinct (map ab_account_id (account_balances d))" by (simp add: keys_ok_def)
  note p = post_transfer_InrD [OF assms(3) dist assms(2)]
  from p(1) obtain row where d': "d' = posted_db c fx row d" by blast
  from assms(1) p(2-6) show ?thesis
    unfolding d' keys_ok_def
    by (simp add: posted_db_def comp_def new_transaction_def debit_entry_def credit_entry_def known_def)
qed

lemma posted_balances_ok:
  assumes "keys_ok d" and "balances_ok d" and "tc_source_account_id c \<noteq> tc_destination_account_id c"
    and "post_transfer c fx d = Inr d'"
  shows "balances_ok d'"
proof -
  from assms(1) have dist: "distinct (map ab_account_id (account_balances d))" by (simp add: keys_ok_def)
  note p = post_transfer_InrD [OF assms(4) dist assms(3)]
  from p(1) obtain row where d': "d' = posted_db c fx row d" by blast
  have acc: "bank_accounts d' = bank_accounts d"
    and bal: "account_balances d' = map (move_balance c fx) (account_balances d)"
    by (simp_all add: d' posted_db_def)
  have "balance_ok d' (move_balance c fx b)" if b: "b \<in> set (account_balances d)" for b
  proof (cases "ab_account_id b = tc_source_account_id c \<or> ab_account_id b = tc_destination_account_id c")
    case True
    with p(9) b have "\<exists>a. row_get ba_account_id (ab_account_id b) (bank_accounts d) = Some a \<and>
              is_bigint (ab_current_balance_minor (move_balance c fx b)) \<and>
              (ba_allow_negative a \<or> 0 \<le> ab_current_balance_minor (move_balance c fx b))" by blast
    with assms(2,3) b True show ?thesis
      by (auto simp: balance_ok_alt balances_ok_def acc account_sum_posted d' move_balance_def)
  next
    case False
    then have "move_balance c fx b = b" by (simp add: move_balance_def)
    with assms(2) b False show ?thesis
      by (auto simp: balance_ok_alt balances_ok_def acc account_sum_posted d')
  qed
  then show ?thesis by (simp add: balances_ok_def bal)
qed

lemma posted_entries_ok:
  assumes "keys_ok d" and "entries_ok d" and "tc_source_account_id c \<noteq> tc_destination_account_id c"
    and "post_transfer c fx d = Inr d'"
    and "known ab_account_id (tc_source_account_id c) (account_balances d)"
    and "known ab_account_id (tc_destination_account_id c) (account_balances d)"
  shows "entries_ok d'"
proof -
  from assms(1) have dist: "distinct (map ab_account_id (account_balances d))" by (simp add: keys_ok_def)
  note p = post_transfer_InrD [OF assms(4) dist assms(3)]
  from p(1) obtain row where d': "d' = posted_db c fx row d" by blast
  have ents: "ledger_entries d' = ledger_entries d @ [debit_entry c fx, credit_entry c fx]"
    and txs: "transactions d' = map (mark_row (tc_reverses_transaction_id c)) (transactions d @ [new_transaction c fx])"
    and bal: "account_balances d' = map (move_balance c fx) (account_balances d)"
    by (simp_all add: d' posted_db_def)
  have none: "filter (\<lambda>e. le_transaction_id e = fx_transaction_id fx) (ledger_entries d) = []"
    using assms(2) p(2) by (auto simp: entries_ok_def filter_empty_conv)
  have old: "tx_transaction_id t \<noteq> fx_transaction_id fx" if "t \<in> set (transactions d)" for t
    using that p(2) by (simp add: known_def) (metis image_eqI)
  have "known tx_transaction_id (le_transaction_id e) (transactions d') \<and>
        known ab_account_id (le_account_id e) (account_balances d')"
    if "e \<in> set (ledger_entries d')" for e
    using that assms(2,5,6) unfolding ents txs bal
    by (auto simp: entries_ok_def comp_def table_simps new_transaction_def debit_entry_def credit_entry_def)
  moreover have "0 < tx_amount_minor t \<and> tx_source_account_id t \<noteq> tx_destination_account_id t \<and>
      map (\<lambda>e. (le_account_id e, le_amount_minor e)) (entries_of (tx_transaction_id t) d') =
        [(tx_source_account_id t, - tx_amount_minor t), (tx_destination_account_id t, tx_amount_minor t)]"
    if t: "t \<in> set (transactions d')" for t
  proof -
    from t consider s where "s \<in> set (transactions d)" "t = mark_row (tc_reverses_transaction_id c) s"
      | "t = mark_row (tc_reverses_transaction_id c) (new_transaction c fx)"
      by (auto simp: txs)
    then show ?thesis
    proof cases
      case 1
      with assms(2) old [of s] show ?thesis
        by (auto simp: entries_ok_def entries_of_def ents debit_entry_def credit_entry_def)
    next
      case 2
      with none p(8) assms(3) show ?thesis
        by (simp add: entries_of_def ents debit_entry_def credit_entry_def new_transaction_def)
    qed
  qed
  ultimately show ?thesis by (simp add: entries_ok_def)
qed

lemma check_reversal_InrD:
  "check_reversal c d = Inr () \<Longrightarrow> tc_reverses_transaction_id c = Some r \<Longrightarrow>
     \<exists>o'. row_get tx_transaction_id r (transactions d) = Some o' \<and> tx_status o' = TX_POSTED \<and>
       tx_transaction_type o' \<noteq> REVERSAL \<and> tc_source_account_id c = tx_destination_account_id o' \<and>
       tc_destination_account_id c = tx_source_account_id o' \<and> tc_amount_minor c = tx_amount_minor o' \<and>
       tc_currency c = tx_currency o'"
  by (auto simp: check_reversal_def validate_reversal_def split: option.splits if_splits)

lemma posted_history_ok:
  assumes "keys_ok d" and "history_ok d" and "tc_source_account_id c \<noteq> tc_destination_account_id c"
    and "post_transfer c fx d = Inr d'" and "check_reversal c d = Inr ()"
  shows "history_ok d'"
proof -
  from assms(1) have dist: "distinct (map ab_account_id (account_balances d))" by (simp add: keys_ok_def)
  note p = post_transfer_InrD [OF assms(4) dist assms(3)]
  from p(1) obtain row where d': "d' = posted_db c fx row d" by blast
  let ?r = "tc_reverses_transaction_id c"
  have txs: "transactions d' = map (mark_row ?r) (transactions d @ [new_transaction c fx])"
    by (simp add: d' posted_db_def)
  have revs: "map tx_reverses_transaction_id (transactions d') =
              map tx_reverses_transaction_id (transactions d) @ [?r]"
    by (simp add: txs comp_def new_transaction_def)
  have kr: "known tx_reverses_transaction_id x (transactions d') \<longleftrightarrow>
            known tx_reverses_transaction_id x (transactions d) \<or> x = ?r" for x
    by (auto simp: known_def revs)
  have ids: "known tx_transaction_id x (transactions d') \<longleftrightarrow>
            known tx_transaction_id x (transactions d) \<or> x = fx_transaction_id fx" for x
    by (auto simp: txs comp_def table_simps new_transaction_def)
  have r_old: "known tx_transaction_id r (transactions d)" if "?r = Some r" for r
    using check_reversal_InrD [OF assms(5) that] row_get_None_known [of tx_transaction_id r "transactions d"]
    by auto
  have fresh: "\<not> known tx_reverses_transaction_id (Some (fx_transaction_id fx)) (transactions d)"
    using assms(2) p(2) by (auto simp: history_ok_alt known_def)
  have "(tx_status t = TX_POSTED \<or> tx_status t = TX_REVERSED) \<and>
      (tx_status t = TX_REVERSED \<longleftrightarrow> known tx_reverses_transaction_id (Some (tx_transaction_id t)) (transactions d')) \<and>
      (\<forall>r. tx_reverses_transaction_id t = Some r \<longrightarrow> known tx_transaction_id r (transactions d'))"
    if t: "t \<in> set (transactions d')" for t
  proof -
    from t consider s where "s \<in> set (transactions d)" "t = mark_row ?r s" | "t = mark_row ?r (new_transaction c fx)"
      by (auto simp: txs)
    then show ?thesis
    proof cases
      case 1
      with assms(2) show ?thesis
        by (auto simp: history_ok_alt kr ids mark_row_def)
    next
      case 2
      then have "?r \<noteq> Some (fx_transaction_id fx)" using r_old p(2) by auto
      with 2 fresh r_old show ?thesis
        by (auto simp: kr ids mark_row_def new_transaction_def)
    qed
  qed
  moreover have "distinct (filter (\<lambda>r. r \<noteq> None) (map tx_reverses_transaction_id (transactions d')))"
    using assms(2) p(7) by (auto simp: history_ok_alt revs known_def)
  ultimately show ?thesis unfolding history_ok_alt by blast
qed

section \<open>The locked accounts\<close>

lemma locked_rows_join:
  "locked_rows s t d =
     concat (map (\<lambda>a. map (locked_account a) (filter (\<lambda>b. ab_account_id b = ba_account_id a) (account_balances d)))
       (filter (\<lambda>a. ba_account_id a = s \<or> ba_account_id a = t) (bank_accounts d)))"
  by (simp add: locked_rows_def)

lemma lk_account_id_locked [simp]: "lk_account_id (locked_account a b) = ba_account_id a"
  by (simp add: locked_account_def)

lemma account_at_InrD:
  assumes "account_at i (locked_rows s t d) = Inr r"
  shows "\<exists>a b. a \<in> set (bank_accounts d) \<and> b \<in> set (account_balances d) \<and> ba_account_id a = i \<and>
           ab_account_id b = i \<and> r = locked_account a b"
proof -
  from assms have "row_get lk_account_id i (locked_rows s t d) = Some r"
    by (simp add: account_at_def split: option.splits)
  from row_get_SomeD [OF this] show ?thesis
    by (auto simp: locked_rows_def; metis)
qed

lemma lock_accounts_InrD: "lock_accounts s t d = Inr rows \<Longrightarrow> rows = locked_rows s t d"
  by (simp add: lock_accounts_def Let_def split: if_splits)

lemma check_reversal_challenges [simp]:
  "check_reversal c (d\<lparr>sca_challenges := cs\<rparr>) = check_reversal c d"
  by (simp add: check_reversal_def validate_reversal_def split: option.splits)

section \<open>What a committed transfer checked\<close>

text \<open>
  The interface between the ledger and strong customer authentication: whatever the service
  checks, it may change only its own table.
\<close>

locale transfer_authoriser =
  fixes authorise :: sca_validator
  assumes authorise_frame:
    "authorise pr s t a ch code now db_now d = Inr d' \<Longrightarrow> \<exists>cs. d' = d\<lparr>sca_challenges := cs\<rparr>"
begin

lemma authorise_source_frame:
  "authorise_source authorise c source fx d = Inr d' \<Longrightarrow> \<exists>cs. d' = d\<lparr>sca_challenges := cs\<rparr>"
  by (auto simp: authorise_source_def dest: authorise_frame intro: exI [of _ "sca_challenges d"]
      split: if_splits option.splits)

lemma transfer_body_InrD:
  assumes "transfer_body authorise c fx d = Inr ((v, replay), d')"
  shows "replay \<and> d' = d \<and> (\<exists>t. select_by_idempotency (pr_user_id (tc_actor c)) (tc_idempotency_key c) d = Some t
             \<and> v = transaction_payload t) \<or>
    \<not> replay \<and> v = posted_view c fx \<and>
    (\<exists>sa sb da db' cs. sa \<in> set (bank_accounts d) \<and> sb \<in> set (account_balances d) \<and>
       ba_account_id sa = tc_source_account_id c \<and> ab_account_id sb = tc_source_account_id c \<and>
       da \<in> set (bank_accounts d) \<and> db' \<in> set (account_balances d) \<and>
       ba_account_id da = tc_destination_account_id c \<and> ab_account_id db' = tc_destination_account_id c \<and>
       ba_status sa = ACCOUNT_ACTIVE \<and> ba_status da = ACCOUNT_ACTIVE \<and>
       ba_currency sa = tc_currency c \<and> ba_currency da = tc_currency c \<and>
       authorise_source authorise c (locked_account sa sb) fx d = Inr (d\<lparr>sca_challenges := cs\<rparr>) \<and>
       (ba_allow_negative sa \<or> tc_amount_minor c \<le> ab_available_balance_minor sb) \<and>
       check_reversal c d = Inr () \<and>
       post_transfer c fx (d\<lparr>sca_challenges := cs\<rparr>) = Inr d')"
proof (cases "select_by_idempotency (pr_user_id (tc_actor c)) (tc_idempotency_key c) d")
  case (Some t)
  with assms show ?thesis by (auto simp: transfer_body_def)
next
  case None
  from assms None obtain rows source destination d1 where
      rows: "lock_accounts (tc_source_account_id c) (tc_destination_account_id c) d = Inr rows"
    and src: "account_at (tc_source_account_id c) rows = Inr source"
    and dst: "account_at (tc_destination_account_id c) rows = Inr destination"
    and act: "lk_status source = ACCOUNT_ACTIVE" "lk_status destination = ACCOUNT_ACTIVE"
    and cur: "lk_currency source = tc_currency c" "lk_currency destination = tc_currency c"
    and auth: "authorise_source authorise c source fx d = Inr d1"
    and funds: "lk_allow_negative source \<or> tc_amount_minor c \<le> lk_balance_minor source"
    and rev: "check_reversal c d1 = Inr ()"
    and post: "post_transfer c fx d1 = Inr d'" and res: "v = posted_view c fx" "\<not> replay"
    by (auto simp: transfer_body_def not_less split: if_splits elim!: andthen_InrE)
  note rows' = lock_accounts_InrD [OF rows]
  from account_at_InrD [OF src [unfolded rows']] obtain sa sb where
    sa: "sa \<in> set (bank_accounts d)" "sb \<in> set (account_balances d)"
      "ba_account_id sa = tc_source_account_id c" "ab_account_id sb = tc_source_account_id c"
      "source = locked_account sa sb" by blast
  from account_at_InrD [OF dst [unfolded rows']] obtain da db' where
    da: "da \<in> set (bank_accounts d)" "db' \<in> set (account_balances d)"
      "ba_account_id da = tc_destination_account_id c" "ab_account_id db' = tc_destination_account_id c"
      "destination = locked_account da db'" by blast
  from authorise_source_frame [OF auth] obtain cs where d1: "d1 = d\<lparr>sca_challenges := cs\<rparr>" by blast
  have rev': "check_reversal c d = Inr ()"
    using rev by (simp add: d1)
  have lk: "ba_status sa = ACCOUNT_ACTIVE" "ba_status da = ACCOUNT_ACTIVE"
    "ba_currency sa = tc_currency c" "ba_currency da = tc_currency c"
    "ba_allow_negative sa \<or> tc_amount_minor c \<le> ab_available_balance_minor sb"
    using act cur funds by (simp_all add: sa(5) da(5) locked_account_def)
  have "authorise_source authorise c (locked_account sa sb) fx d = Inr (d\<lparr>sca_challenges := cs\<rparr>)"
    using auth by (simp add: sa(5) d1)
  moreover have "post_transfer c fx (d\<lparr>sca_challenges := cs\<rparr>) = Inr d'" using post by (simp add: d1)
  ultimately show ?thesis using res sa(1-4) da(1-4) lk rev' by blast
qed

end

text \<open>Changing the challenge table touches no conjunct of the invariant.\<close>

lemma ledger_inv_challenges [simp]:
  "keys_ok (d\<lparr>sca_challenges := cs\<rparr>) = keys_ok d"
  "balances_ok (d\<lparr>sca_challenges := cs\<rparr>) = balances_ok d"
  "entries_ok (d\<lparr>sca_challenges := cs\<rparr>) = entries_ok d"
  "history_ok (d\<lparr>sca_challenges := cs\<rparr>) = history_ok d"
  "ledger_inv (d\<lparr>sca_challenges := cs\<rparr>) = ledger_inv d"
  by (simp_all add: ledger_inv_def keys_ok_def balances_ok_def balance_ok_alt entries_ok_def
      entries_of_def history_ok_alt account_sum_def)

lemma post_transfer_inv:
  assumes "ledger_inv d" and "post_transfer c fx d = Inr d'" and "check_reversal c d = Inr ()"
    and "tc_source_account_id c \<noteq> tc_destination_account_id c"
    and "known ab_account_id (tc_source_account_id c) (account_balances d)"
    and "known ab_account_id (tc_destination_account_id c) (account_balances d)"
  shows "ledger_inv d'"
  using assms posted_keys_ok [of d c fx d'] posted_balances_ok [of d c fx d']
    posted_entries_ok [of d c fx d'] posted_history_ok [of d c fx d']
  by (simp add: ledger_inv_def)

lemma normalise_InrD:
  "normalise command = Inr c \<Longrightarrow> c = command\<lparr>tc_idempotency_key := py_strip (tc_idempotency_key command),
       tc_currency := ''GBP'', tc_description := py_strip (tc_description command),
       tc_transaction_type := Some (command_type command)\<rparr> \<and>
     py_upper (py_strip (tc_currency command)) = ''GBP'' \<and>
     tc_idempotency_key c \<noteq> [] \<and> length (tc_idempotency_key c) \<le> 128 \<and>
     0 < tc_amount_minor command \<and> tc_source_account_id command \<noteq> tc_destination_account_id command \<and>
     (tc_operator_override command \<longrightarrow> pr_role (tc_actor command) = BANK_ADMIN)"
  by (auto simp: normalise_def Let_def command_type_def split: if_splits option.splits)

context transfer_authoriser
begin

lemma create_transfer_cases:
  assumes "create_transfer authorise command fx d = (r, d')"
  shows "(\<exists>e. r = Inl e) \<and> d' = d \<or>
    (\<exists>c t. normalise command = Inr c \<and> r = Inr (transaction_payload t, True) \<and> d' = d \<and>
       select_by_idempotency (pr_user_id (tc_actor c)) (tc_idempotency_key c) d = Some t) \<or>
    (\<exists>c. normalise command = Inr c \<and> r = Inr (posted_view c fx, False) \<and>
       transfer_body authorise c fx d = Inr ((posted_view c fx, False), d'))"
proof (cases "normalise command")
  case (Inl e)
  with assms show ?thesis by (auto simp: create_transfer_def)
next
  case (Inr c)
  show ?thesis
  proof (cases "select_by_idempotency (pr_user_id (tc_actor c)) (tc_idempotency_key c) d")
    case (Some t)
    with assms Inr show ?thesis by (auto simp: create_transfer_def find_by_idempotency_def)
  next
    case None
    show ?thesis
    proof (cases "transfer_body authorise c fx d")
      case (Inl e)
      with assms Inr None \<open>normalise command = Inr c\<close> show ?thesis
        by (auto simp: create_transfer_def find_by_idempotency_def in_transaction_def split: failure.splits)
    next
      case (Inr x)
      obtain v rep d1 where x: "x = ((v, rep), d1)" by (metis prod.exhaust)
      from transfer_body_InrD [OF Inr [unfolded x]] None have "\<not> rep" "v = posted_view c fx" by auto
      with assms Inr None \<open>normalise command = Inr c\<close> x show ?thesis
        by (auto simp: create_transfer_def find_by_idempotency_def in_transaction_def)
    qed
  qed
qed

lemma create_transfer_inv:
  assumes "ledger_inv d"
  shows "ledger_inv (snd (create_transfer authorise command fx d))"
proof -
  obtain r d' where run: "create_transfer authorise command fx d = (r, d')" by (metis prod.exhaust)
  consider "d' = d"
    | c where "normalise command = Inr c" "transfer_body authorise c fx d = Inr ((posted_view c fx, False), d')"
    using create_transfer_cases [OF run] by blast
  then have "ledger_inv d'"
  proof cases
    case 2
    from normalise_InrD [OF 2(1)] have neq: "tc_source_account_id c \<noteq> tc_destination_account_id c" by auto
    from transfer_body_InrD [OF 2(2)] obtain cs where
        "post_transfer c fx (d\<lparr>sca_challenges := cs\<rparr>) = Inr d'" and "check_reversal c d = Inr ()"
      and "known ab_account_id (tc_source_account_id c) (account_balances d)"
      and "known ab_account_id (tc_destination_account_id c) (account_balances d)"
      by (auto intro: knownI)
    with assms neq show ?thesis
      by (intro post_transfer_inv [of "d\<lparr>sca_challenges := cs\<rparr>" c fx d']) simp_all
  qed (use assms in simp)
  with run show ?thesis by simp
qed

end

end
