(* ===== verification/Ledger_Progress.thy ===== *)
theory Ledger_Progress
  imports Ledger_Invariants
begin

text \<open>
  When a transfer goes through, and what it can fail with.

  In a state that satisfies \<open>ledger_inv\<close>, with identifiers that are not in use, the statements
  of a posting cannot violate any constraint or trigger of the schema once the guards of
  \<open>create_transfer\<close> have passed, except that an amount or a new balance may not fit a BIGINT.
  So the checks of the database and the \<open>RuntimeError\<close> of the source are a second line of defence
  that the first one never lets anything reach.
\<close>

definition fresh_ids :: "transfer_fresh \<Rightarrow> db \<Rightarrow> bool" where
  "fresh_ids fx d \<longleftrightarrow>
     \<not> known tx_transaction_id (fx_transaction_id fx) (transactions d) \<and>
     \<not> known le_ledger_entry_id (fx_debit_entry_id fx) (ledger_entries d) \<and>
     \<not> known le_ledger_entry_id (fx_credit_entry_id fx) (ledger_entries d) \<and>
     fx_debit_entry_id fx \<noteq> fx_credit_entry_id fx \<and>
     \<not> known ob_outbox_event_id (fx_outbox_event_id fx) (outbox_events d) \<and>
     \<not> known au_audit_event_id (af_event (fx_audit fx)) (audit_events d)"

definition postable :: "transfer_command \<Rightarrow> db \<Rightarrow> bool" where
  "postable c d \<longleftrightarrow>
     0 < tc_amount_minor c \<and> is_bigint (tc_amount_minor c) \<and>
     tc_source_account_id c \<noteq> tc_destination_account_id c \<and>
     known ua_user_id (pr_user_id (tc_actor c)) (user_accounts d) \<and>
     known ab_account_id (tc_source_account_id c) (account_balances d) \<and>
     known ab_account_id (tc_destination_account_id c) (account_balances d) \<and>
     is_bigint (account_sum (tc_source_account_id c) d - tc_amount_minor c) \<and>
     is_bigint (account_sum (tc_destination_account_id c) d + tc_amount_minor c) \<and>
     (\<forall>a. row_get ba_account_id (tc_source_account_id c) (bank_accounts d) = Some a \<longrightarrow>
        ba_allow_negative a \<or> tc_amount_minor c \<le> account_sum (tc_source_account_id c) d) \<and>
     \<not> known (\<lambda>t. (tx_initiated_by_user_id t, tx_idempotency_key t))
         (pr_user_id (tc_actor c), tc_idempotency_key c) (transactions d)"

lemma update_balance_succeeds:
  assumes "row_get ab_account_id i (account_balances d) = Some b"
    and "ab_available_balance_minor b = ab_current_balance_minor b"
    and "is_bigint (ab_current_balance_minor b + delta)"
    and "row_get ba_account_id i (bank_accounts d) = Some a"
    and "ba_allow_negative a \<or> 0 \<le> ab_current_balance_minor b + delta"
    and "known le_ledger_entry_id entry (ledger_entries d)"
  shows "\<exists>d'. update_balance i delta entry now d = Inr d'"
  using assms row_get_SomeD [OF assms(1)]
  by (auto simp: update_balance_def Let_def write_balance_def reject_negative_customer_balance_def)

lemma balance_of_account:
  assumes "ledger_inv d" and "known ab_account_id i (account_balances d)"
  shows "\<exists>b a. row_get ab_account_id i (account_balances d) = Some b \<and>
           ab_current_balance_minor b = account_sum i d \<and>
           ab_available_balance_minor b = account_sum i d \<and>
           row_get ba_account_id i (bank_accounts d) = Some a \<and>
           (ba_allow_negative a \<or> 0 \<le> account_sum i d)"
proof -
  from assms(2) obtain b where b: "row_get ab_account_id i (account_balances d) = Some b"
    using row_get_None_known [of ab_account_id i "account_balances d"] by auto
  from row_get_SomeD [OF b] assms(1) have "balance_ok d b" and "ab_account_id b = i"
    by (auto simp: ledger_inv_def balances_ok_def)
  with b show ?thesis by (auto simp: balance_ok_alt)
qed

lemma check_reversal_unreversed:
  assumes "history_ok d" and "check_reversal c d = Inr ()" and "tc_reverses_transaction_id c = Some r"
  shows "\<not> known tx_reverses_transaction_id (Some r) (transactions d)"
proof -
  from check_reversal_InrD [OF assms(2,3)] obtain o' where
    o: "row_get tx_transaction_id r (transactions d) = Some o'" "tx_status o' = TX_POSTED" by blast
  from row_get_SomeD [OF o(1)] o(2) assms(1) show ?thesis by (auto simp: history_ok_alt)
qed

lemma mark_reversed_succeeds:
  assumes "distinct (map tx_transaction_id (transactions d))"
    and "row_get tx_transaction_id r (transactions d) = Some o'" and "tx_status o' = TX_POSTED"
  shows "\<exists>d'. mark_reversed r d = Inr d'"
  using assms row_get_in [OF assms(1)] by (auto simp: mark_reversed_def)

lemma assert_balanced_posted:
  assumes "entries_ok d" and "\<not> known tx_transaction_id (fx_transaction_id fx) (transactions d)"
  shows "assert_transaction_balanced (fx_transaction_id fx) (posted_db c fx row d)"
proof -
  have none: "\<forall>e \<in> set (ledger_entries d). le_transaction_id e \<noteq> fx_transaction_id fx"
    using assms by (auto simp: entries_ok_def)
  then have "filter (\<lambda>e. le_transaction_id e = fx_transaction_id fx) (ledger_entries d) = []"
    by (simp add: filter_empty_conv)
  moreover from none have "sum_where (\<lambda>e. le_transaction_id e = fx_transaction_id fx) le_amount_minor (ledger_entries d) = 0"
    by (intro sum_where_none) auto
  ultimately show ?thesis
    by (simp add: assert_transaction_balanced_def posted_db_def table_simps debit_entry_def credit_entry_def)
qed

lemma insert_transaction_succeeds:
  assumes "postable c d" and "fresh_ids fx d" and "ledger_inv d" and "check_reversal c d = Inr ()"
  shows "insert_transaction (new_transaction c fx) d =
           Inr (d\<lparr>transactions := transactions d @ [new_transaction c fx]\<rparr>)"
proof -
  have k: "known ba_account_id i (bank_accounts d)" if "known ab_account_id i (account_balances d)" for i
    using balance_of_account [OF assms(3) that] row_get_None_known [of ba_account_id i "bank_accounts d"] by auto
  have "tc_reverses_transaction_id c = None \<or>
        (\<exists>r. tc_reverses_transaction_id c = Some r \<and> known tx_transaction_id r (transactions d) \<and>
             \<not> known tx_reverses_transaction_id (Some r) (transactions d))"
  proof (cases "tc_reverses_transaction_id c")
    case (Some r)
    from check_reversal_InrD [OF assms(4) Some] row_get_None_known [of tx_transaction_id r "transactions d"]
    have "known tx_transaction_id r (transactions d)" by auto
    with Some check_reversal_unreversed [OF _ assms(4) Some] assms(3) show ?thesis by (simp add: ledger_inv_def)
  qed simp
  with assms(1,2) k show ?thesis
    by (auto simp: insert_transaction_def new_transaction_def postable_def fresh_ids_def)
qed

lemma post_transfer_succeeds:
  assumes inv: "ledger_inv d" and ok: "postable c d" and fresh: "fresh_ids fx d"
    and rev: "check_reversal c d = Inr ()"
  shows "\<exists>d'. post_transfer c fx d = Inr d'"
proof -
  let ?s = "tc_source_account_id c" and ?t = "tc_destination_account_id c" and ?a = "tc_amount_minor c"
  let ?d1 = "d\<lparr>transactions := transactions d @ [new_transaction c fx]\<rparr>"
  let ?d3 = "?d1\<lparr>ledger_entries := ledger_entries d @ [debit_entry c fx, credit_entry c fx]\<rparr>"
  have neq: "?s \<noteq> ?t" and pos: "0 < ?a" using ok by (auto simp: postable_def)
  have dist: "distinct (map ab_account_id (account_balances d))"
    and distt: "distinct (map tx_transaction_id (transactions d))"
    using inv by (auto simp: ledger_inv_def keys_ok_def)
  have ks: "known ab_account_id ?s (account_balances d)" and kt: "known ab_account_id ?t (account_balances d)"
    using ok by (auto simp: postable_def)
  from balance_of_account [OF inv ks] obtain sb sa where sb:
    "row_get ab_account_id ?s (account_balances d) = Some sb" "ab_current_balance_minor sb = account_sum ?s d"
    "ab_available_balance_minor sb = account_sum ?s d" "row_get ba_account_id ?s (bank_accounts d) = Some sa" by blast
  from balance_of_account [OF inv kt] obtain tb ta where tb:
    "row_get ab_account_id ?t (account_balances d) = Some tb" "ab_current_balance_minor tb = account_sum ?t d"
    "ab_available_balance_minor tb = account_sum ?t d" "row_get ba_account_id ?t (bank_accounts d) = Some ta"
    "ba_allow_negative ta \<or> 0 \<le> account_sum ?t d" by blast
  have kba: "known ba_account_id ?s (bank_accounts d)" "known ba_account_id ?t (bank_accounts d)"
    using sb(4) tb(4) row_get_None_known [of ba_account_id] by (metis option.distinct(1))+
  have s1: "insert_transaction (new_transaction c fx) d = Inr ?d1"
    by (rule insert_transaction_succeeds [OF ok fresh inv rev])
  have amt: "is_bigint ?a" "is_bigint (- ?a)" using ok by (auto simp: postable_def is_bigint_def)
  have s2: "insert_entry (debit_entry c fx) ?d1 = Inr (?d1\<lparr>ledger_entries := ledger_entries d @ [debit_entry c fx]\<rparr>)"
    using amt pos fresh kba
    by (simp add: insert_entry_def debit_entry_def fresh_ids_def table_simps new_transaction_def)
  have s3: "insert_entry (credit_entry c fx) (?d1\<lparr>ledger_entries := ledger_entries d @ [debit_entry c fx]\<rparr>) = Inr ?d3"
    using amt pos fresh kba
    by (simp add: insert_entry_def debit_entry_def credit_entry_def fresh_ids_def table_simps new_transaction_def)
  have "ba_allow_negative sa \<or> ?a \<le> account_sum ?s d" "is_bigint (account_sum ?s d - ?a)"
    "is_bigint (account_sum ?t d + ?a)" using ok sb(4) by (auto simp: postable_def)
  with sb obtain d4 where s4: "update_balance ?s (- ?a) (fx_debit_entry_id fx) (fx_db_now fx) ?d3 = Inr d4"
    using update_balance_succeeds [of ?s ?d3 sb "- ?a" sa "fx_debit_entry_id fx" "fx_db_now fx"]
    by (auto simp: table_simps debit_entry_def credit_entry_def)
  from dist have "distinct (map ab_account_id (account_balances ?d3))" by simp
  from conjunct1 [OF update_balance_distinct [OF s4 this]] obtain f where
    d4: "d4 = ?d3\<lparr>account_balances := rows_update (\<lambda>r. ab_account_id r = ?s) f (account_balances d)\<rparr>"
    and f: "\<And>r. ab_account_id (f r) = ab_account_id r" by auto
  have "row_get ab_account_id ?t (account_balances d4) = Some tb"
    using row_get_SomeD [OF tb(1)] tb(1) neq by (simp add: d4 row_get_rows_update f)
  with tb pos \<open>is_bigint (account_sum ?t d + ?a)\<close> obtain d5 where
    s5: "update_balance ?t ?a (fx_credit_entry_id fx) (fx_db_now fx) d4 = Inr d5"
    using update_balance_succeeds [of ?t d4 tb "?a" ta "fx_credit_entry_id fx" "fx_db_now fx"]
    by (auto simp: d4 table_simps debit_entry_def credit_entry_def)
  from update_balance_InrD [OF s5] obtain g where
    d5: "d5 = d4\<lparr>account_balances := g\<rparr>" by blast
  have "\<exists>d6. (case tc_reverses_transaction_id c of None \<Rightarrow> Inr d5 | Some r \<Rightarrow> mark_reversed r d5) = Inr d6"
  proof (cases "tc_reverses_transaction_id c")
    case (Some r)
    from check_reversal_InrD [OF rev Some] obtain o' where
      "row_get tx_transaction_id r (transactions d) = Some o'" "tx_status o' = TX_POSTED" by blast
    moreover have "distinct (map tx_transaction_id (transactions d5))"
      using distt fresh by (simp add: d5 d4 fresh_ids_def known_def new_transaction_def)
    ultimately show ?thesis using Some
      by (auto simp: d5 d4 table_simps intro!: mark_reversed_succeeds [of d5 r o', unfolded d5 d4, simplified])
  qed simp
  then obtain d6 where s6: "(case tc_reverses_transaction_id c of None \<Rightarrow> Inr d5 | Some r \<Rightarrow> mark_reversed r d5) = Inr d6"
    by blast
  then have d6: "outbox_events d6 = outbox_events d" "audit_events d6 = audit_events d"
    by (auto simp: d5 d4 split: option.splits dest!: mark_reversed_InrD)
  let ?ev = "outbox_pending (fx_outbox_event_id fx) ''transaction'' (fx_transaction_id fx)
                ''payment.transfer_posted.v1'' (posted_payload c fx) (fx_db_now fx)"
  have s7: "insert_outbox ?ev d6 = Inr (d6\<lparr>outbox_events := outbox_events d @ [?ev]\<rparr>)"
    using fresh by (simp add: insert_outbox_def outbox_pending_def d6 fresh_ids_def)
  obtain d8 where s8: "audit_record (posted_audit c fx) (fx_audit fx) (d6\<lparr>outbox_events := outbox_events d @ [?ev]\<rparr>) = Inr d8"
    using fresh by (auto simp: audit_record_def posted_audit_def d6 fresh_ids_def Let_def)
  from audit_record_InrD [OF s8] have led8: "ledger_entries d8 = ledger_entries d6" by auto
  have "ledger_entries d6 = ledger_entries ?d3"
    using s6 by (auto simp: d5 d4 split: option.splits dest!: mark_reversed_InrD)
  with led8 have "assert_transaction_balanced (fx_transaction_id fx) d8"
    using assert_balanced_posted [of d fx c undefined] inv fresh
    by (simp add: assert_transaction_balanced_def ledger_inv_def fresh_ids_def posted_db_def)
  then have "commit_balanced (fx_transaction_id fx) d8 = Inr d8" by (simp add: commit_balanced_def)
  with s1 s2 s3 s4 s5 s6 s7 s8 show ?thesis by (simp add: post_transfer_def)
qed

section \<open>The locked rows\<close>

lemma sum_list_filter_disj:
  "(\<And>x. \<not> (P x \<and> Q x)) \<Longrightarrow>
     sum_list (map f (filter (\<lambda>x. P x \<or> Q x) xs)) =
     sum_list (map f (filter P xs)) + (sum_list (map f (filter Q xs)) :: nat)"
  by (induction xs) auto

lemma length_locked_rows:
  assumes "keys_ok d" and "s \<noteq> t"
  shows "length (locked_rows s t d) = 2 \<longleftrightarrow>
    (\<forall>i \<in> {s, t}. known ba_account_id i (bank_accounts d) \<and> known ab_account_id i (account_balances d))"
proof -
  let ?n = "\<lambda>a. length (filter (\<lambda>b. ab_account_id b = ba_account_id a) (account_balances d))"
  let ?m = "\<lambda>i. sum_list (map ?n (filter (\<lambda>a. ba_account_id a = i) (bank_accounts d)))"
  have "length (locked_rows s t d) = ?m s + ?m t"
    using assms(2) unfolding locked_rows_def length_concat map_map comp_def length_map
    by (intro sum_list_filter_disj) auto
  moreover have "?m i = (if known ba_account_id i (bank_accounts d) \<and> known ab_account_id i (account_balances d) then 1 else 0)" for i
    using assms(1) row_get_None_known [of ba_account_id i "bank_accounts d"]
      row_get_None_known [of ab_account_id i "account_balances d"]
    by (auto simp: keys_ok_def filter_key split: option.splits dest: row_get_SomeD)
  ultimately show ?thesis by auto
qed

lemma account_at_locked:
  assumes "keys_ok d" and "i = s \<or> i = t"
    and "row_get ba_account_id i (bank_accounts d) = Some a"
    and "row_get ab_account_id i (account_balances d) = Some b"
  shows "account_at i (locked_rows s t d) = Inr (locked_account a b)"
proof -
  note ga = row_get_SomeD [OF assms(3)] and gb = row_get_SomeD [OF assms(4)]
  have "locked_account a b \<in> set (locked_rows s t d)"
    using ga gb assms(2) by (auto simp: locked_rows_def)
  with ga have "i \<in> lk_account_id ` set (locked_rows s t d)"
    by (intro image_eqI [of _ _ "locked_account a b"]) simp_all
  then obtain r where r: "row_get lk_account_id i (locked_rows s t d) = Some r"
    using row_get_None [of lk_account_id i "locked_rows s t d"] by (meson not_None_eq)
  then have "account_at i (locked_rows s t d) = Inr r" by (simp add: account_at_def)
  moreover from account_at_InrD [OF this] obtain a' b' where
    "a' \<in> set (bank_accounts d)" "ba_account_id a' = i" "b' \<in> set (account_balances d)"
    "ab_account_id b' = i" "r = locked_account a' b'" by blast
  moreover from this have "a' = a" "b' = b"
    using assms(1,3,4) row_get_in [of ba_account_id "bank_accounts d" a']
      row_get_in [of ab_account_id "account_balances d" b'] by (auto simp: keys_ok_def)
  ultimately show ?thesis by simp
qed

lemma lock_accounts_Inr_iff:
  assumes "ledger_inv d" and "s \<noteq> t"
  shows "lock_accounts s t d = Inr rows \<longleftrightarrow> rows = locked_rows s t d \<and>
     known ab_account_id s (account_balances d) \<and> known ab_account_id t (account_balances d)"
proof -
  have "known ba_account_id i (bank_accounts d)" if "known ab_account_id i (account_balances d)" for i
    using balance_of_account [OF assms(1) that] row_get_None_known [of ba_account_id i "bank_accounts d"] by auto
  with length_locked_rows [of d s t] assms show ?thesis
    by (auto simp: lock_accounts_def Let_def ledger_inv_def)
qed

section \<open>Outcomes of a transfer\<close>

context transfer_authoriser
begin

text \<open>In the invariant the body is a chain of guards in front of a posting that cannot fail.\<close>

lemma transfer_body_known:
  assumes inv: "ledger_inv d" and neq: "tc_source_account_id c \<noteq> tc_destination_account_id c"
    and none: "select_by_idempotency (pr_user_id (tc_actor c)) (tc_idempotency_key c) d = None"
    and s: "row_get ba_account_id (tc_source_account_id c) (bank_accounts d) = Some sa"
      "row_get ab_account_id (tc_source_account_id c) (account_balances d) = Some sb"
    and t: "row_get ba_account_id (tc_destination_account_id c) (bank_accounts d) = Some ta"
      "row_get ab_account_id (tc_destination_account_id c) (account_balances d) = Some tb"
  shows "transfer_body authorise c fx d =
    (if ba_status sa \<noteq> ACCOUNT_ACTIVE \<or> ba_status ta \<noteq> ACCOUNT_ACTIVE then Inl err_ACCOUNT_FROZEN
     else if ba_currency sa \<noteq> tc_currency c \<or> ba_currency ta \<noteq> tc_currency c then Inl err_CURRENCY_MISMATCH
     else andthen (authorise_source authorise c (locked_account sa sb) fx d) (\<lambda>d.
       if \<not> ba_allow_negative sa \<and> ab_available_balance_minor sb < tc_amount_minor c
       then Inl err_INSUFFICIENT_FUNDS
       else andthen (check_reversal c d) (\<lambda>_.
            andthen (post_transfer c fx d) (\<lambda>d. Inr ((posted_view c fx, False), d)))))"
proof -
  have keys: "keys_ok d" using inv by (simp add: ledger_inv_def)
  have "lock_accounts (tc_source_account_id c) (tc_destination_account_id c) d =
        Inr (locked_rows (tc_source_account_id c) (tc_destination_account_id c) d)"
    using lock_accounts_Inr_iff [OF inv neq] s(2) t(2) row_get_None_known [of ab_account_id]
    by (metis option.distinct(1))
  moreover note account_at_locked [OF keys disjI1 [OF refl] s] account_at_locked [OF keys disjI2 [OF refl] t]
  ultimately show ?thesis
    by (simp add: transfer_body_def none locked_account_def balanced_pair cong: if_cong)
qed

lemma transfer_body_unknown:
  assumes inv: "ledger_inv d" and neq: "tc_source_account_id c \<noteq> tc_destination_account_id c"
    and none: "select_by_idempotency (pr_user_id (tc_actor c)) (tc_idempotency_key c) d = None"
    and miss: "\<not> known ab_account_id (tc_source_account_id c) (account_balances d) \<or>
               \<not> known ab_account_id (tc_destination_account_id c) (account_balances d)"
  shows "transfer_body authorise c fx d = Inl err_NOT_FOUND"
proof -
  have "lock_accounts (tc_source_account_id c) (tc_destination_account_id c) d = Inl err_NOT_FOUND"
    using lock_accounts_Inr_iff [OF inv neq, of "locked_rows (tc_source_account_id c) (tc_destination_account_id c) d"] miss
    by (simp add: lock_accounts_def Let_def split: if_splits) blast?
  then show ?thesis by (simp add: transfer_body_def none)
qed

lemma postable_challenges [simp]:
  "postable c (d\<lparr>sca_challenges := cs\<rparr>) = postable c d"
  "fresh_ids fx (d\<lparr>sca_challenges := cs\<rparr>) = fresh_ids fx d"
  by (simp_all add: postable_def fresh_ids_def account_sum_def)

end

text \<open>The errors a transfer may answer with; each is a \<open>BantamError\<close> with its own status.\<close>

definition transfer_errors :: "failure list" where
  "transfer_errors =
     [validation ''invalid idempotency key'', validation ''amount_minor must be positive'',
      validation ''source and destination must differ'', validation ''only GBP is supported in V1'',
      err_FORBIDDEN, err_NOT_FOUND, err_ACCOUNT_FROZEN, err_CURRENCY_MISMATCH, err_KYC_NOT_VERIFIED,
      err_INSUFFICIENT_FUNDS, err_CONFLICT, err_SCA_REQUIRED, err_SCA_FAILED]"

definition amounts_fit :: "transfer_command \<Rightarrow> db \<Rightarrow> bool" where
  "amounts_fit c d \<longleftrightarrow> is_bigint (tc_amount_minor c) \<and>
     is_bigint (account_sum (tc_source_account_id c) d - tc_amount_minor c) \<and>
     is_bigint (account_sum (tc_destination_account_id c) d + tc_amount_minor c)"

lemma normalise_Inl_errors: "normalise command = Inl e \<Longrightarrow> e \<in> set transfer_errors"
  by (auto simp: normalise_def transfer_errors_def Let_def split: if_splits)

lemma check_reversal_Inl_errors: "check_reversal c d = Inl e \<Longrightarrow> e \<in> set transfer_errors"
  by (auto simp: check_reversal_def validate_reversal_def transfer_errors_def split: option.splits if_splits)

locale bank_authoriser = transfer_authoriser +
  assumes authorise_error:
    "authorise pr s t a ch code now db_now d = Inl e \<Longrightarrow> e = err_SCA_REQUIRED \<or> e = err_SCA_FAILED"
begin

lemma authorise_source_Inl_errors:
  "authorise_source authorise c source fx d = Inl e \<Longrightarrow> e \<in> set transfer_errors"
  by (auto simp: authorise_source_def transfer_errors_def dest: authorise_error split: option.splits if_splits)

lemma select_none_unknown:
  "select_by_idempotency u k d = None \<Longrightarrow>
     \<not> known (\<lambda>t. (tx_initiated_by_user_id t, tx_idempotency_key t)) (u, k) (transactions d)"
  by (simp add: select_by_idempotency_def row_get_None_known)

lemma guards_postable:
  assumes inv: "ledger_inv d" and none: "select_by_idempotency (pr_user_id (tc_actor c)) (tc_idempotency_key c) d = None"
    and user: "known ua_user_id (pr_user_id (tc_actor c)) (user_accounts d)" and fit: "amounts_fit c d"
    and pos: "0 < tc_amount_minor c" and neq: "tc_source_account_id c \<noteq> tc_destination_account_id c"
    and s: "row_get ba_account_id (tc_source_account_id c) (bank_accounts d) = Some sa"
      "row_get ab_account_id (tc_source_account_id c) (account_balances d) = Some sb"
    and t: "row_get ab_account_id (tc_destination_account_id c) (account_balances d) = Some tb"
    and funds: "ba_allow_negative sa \<or> tc_amount_minor c \<le> ab_available_balance_minor sb"
  shows "postable c d"
proof -
  have k: "known ab_account_id (tc_source_account_id c) (account_balances d)"
    "known ab_account_id (tc_destination_account_id c) (account_balances d)"
    using s(2) t row_get_None_known [of ab_account_id] by (metis option.distinct(1))+
  with balance_of_account [OF inv k(1)] s funds select_none_unknown [OF none] user fit pos neq show ?thesis
    by (auto simp: postable_def amounts_fit_def)
qed

lemma transfer_body_errors:
  assumes inv: "ledger_inv d" and fresh: "fresh_ids fx d"
    and none: "select_by_idempotency (pr_user_id (tc_actor c)) (tc_idempotency_key c) d = None"
    and user: "known ua_user_id (pr_user_id (tc_actor c)) (user_accounts d)" and fit: "amounts_fit c d"
    and pos: "0 < tc_amount_minor c" and neq: "tc_source_account_id c \<noteq> tc_destination_account_id c"
    and err: "transfer_body authorise c fx d = Inl e"
  shows "e \<in> set transfer_errors"
proof (cases "known ab_account_id (tc_source_account_id c) (account_balances d) \<and>
              known ab_account_id (tc_destination_account_id c) (account_balances d)")
  case False
  with transfer_body_unknown [OF inv neq none] err show ?thesis by (auto simp: transfer_errors_def)
next
  case True
  from balance_of_account [OF inv conjunct1 [OF True]] obtain sb sa where
    s: "row_get ba_account_id (tc_source_account_id c) (bank_accounts d) = Some sa"
      "row_get ab_account_id (tc_source_account_id c) (account_balances d) = Some sb" by blast
  from balance_of_account [OF inv conjunct2 [OF True]] obtain tb ta where
    t: "row_get ba_account_id (tc_destination_account_id c) (bank_accounts d) = Some ta"
      "row_get ab_account_id (tc_destination_account_id c) (account_balances d) = Some tb" by blast
  have post: "\<exists>d'. post_transfer c fx (d\<lparr>sca_challenges := cs\<rparr>) = Inr d'"
    if "check_reversal c d = Inr ()" "ba_allow_negative sa \<or> tc_amount_minor c \<le> ab_available_balance_minor sb" for cs
    using guards_postable [OF inv none user fit pos neq s t(2) that(2)] that(1) inv fresh
    by (intro post_transfer_succeeds) simp_all
  show ?thesis
  proof (rule ccontr)
    assume no: "e \<notin> set transfer_errors"
    then have "e \<noteq> err_ACCOUNT_FROZEN" "e \<noteq> err_CURRENCY_MISMATCH" "e \<noteq> err_INSUFFICIENT_FUNDS"
      by (auto simp: transfer_errors_def)
    with err no obtain d1 where auth: "authorise_source authorise c (locked_account sa sb) fx d = Inr d1"
      and funds: "ba_allow_negative sa \<or> tc_amount_minor c \<le> ab_available_balance_minor sb"
      and rest: "andthen (check_reversal c d1) (\<lambda>_. andthen (post_transfer c fx d1)
                   (\<lambda>d. Inr ((posted_view c fx, False), d))) = Inl e"
      by (auto simp: transfer_body_known [OF inv neq none s t] andthen_Inl_iff not_less
          dest: authorise_source_Inl_errors split: if_splits)
    from authorise_source_frame [OF auth] obtain cs where d1: "d1 = d\<lparr>sca_challenges := cs\<rparr>" by blast
    from rest no check_reversal_Inl_errors have "check_reversal c d = Inr ()"
      by (cases "check_reversal c d") (auto simp: d1)
    with post [OF this funds, of cs] rest show False by (auto simp: d1)
  qed
qed

text \<open>
  Every error of a transfer is one of the documented ones: no violation of a constraint, no trigger
  and none of the internal exceptions.
\<close>

lemma create_transfer_errors:
  assumes inv: "ledger_inv d" and fresh: "fresh_ids fx d"
    and user: "known ua_user_id (pr_user_id (tc_actor command)) (user_accounts d)"
    and fit: "amounts_fit command d"
    and err: "fst (create_transfer authorise command fx d) = Inl e"
  shows "e \<in> set transfer_errors"
proof (cases "normalise command")
  case (Inl e')
  with err normalise_Inl_errors show ?thesis by (auto simp: create_transfer_def)
next
  case (Inr c)
  from normalise_InrD [OF this] have c: "tc_actor c = tc_actor command"
    "tc_amount_minor c = tc_amount_minor command" "tc_source_account_id c = tc_source_account_id command"
    "tc_destination_account_id c = tc_destination_account_id command" "0 < tc_amount_minor c"
    "tc_source_account_id c \<noteq> tc_destination_account_id c" by auto
  show ?thesis
  proof (cases "select_by_idempotency (pr_user_id (tc_actor c)) (tc_idempotency_key c) d")
    case (Some t)
    with err Inr show ?thesis by (auto simp: create_transfer_def find_by_idempotency_def)
  next
    case None
    show ?thesis
    proof (cases "transfer_body authorise c fx d")
      case (Inl e')
      have "e' \<in> set transfer_errors"
        by (rule transfer_body_errors [OF inv fresh None _ _ c(5,6) Inl]) (use user fit c in \<open>simp_all add: amounts_fit_def\<close>)
      moreover from this have "e = e'"
        using err Inl Inr None by (auto simp: create_transfer_def find_by_idempotency_def transfer_errors_def
            error_defs split: failure.splits)
      ultimately show ?thesis by simp
    next
      case (Inr x)
      with err None \<open>normalise command = Inr c\<close> show ?thesis
        by (auto simp: create_transfer_def find_by_idempotency_def in_transaction_def split: prod.splits)
    qed
  qed
qed

text \<open>When every guard holds the transfer is posted.\<close>

lemma create_transfer_succeeds:
  assumes inv: "ledger_inv d" and fresh: "fresh_ids fx d" and norm: "normalise command = Inr c"
    and none: "select_by_idempotency (pr_user_id (tc_actor c)) (tc_idempotency_key c) d = None"
    and user: "known ua_user_id (pr_user_id (tc_actor c)) (user_accounts d)" and fit: "amounts_fit c d"
    and s: "row_get ba_account_id (tc_source_account_id c) (bank_accounts d) = Some sa"
      "row_get ab_account_id (tc_source_account_id c) (account_balances d) = Some sb"
    and t: "row_get ba_account_id (tc_destination_account_id c) (bank_accounts d) = Some ta"
      "row_get ab_account_id (tc_destination_account_id c) (account_balances d) = Some tb"
    and active: "ba_status sa = ACCOUNT_ACTIVE" "ba_status ta = ACCOUNT_ACTIVE"
    and gbp: "ba_currency sa = ''GBP''" "ba_currency ta = ''GBP''"
    and auth: "authorise_source authorise c (locked_account sa sb) fx d = Inr d1"
    and funds: "ba_allow_negative sa \<or> tc_amount_minor c \<le> ab_available_balance_minor sb"
    and rev: "check_reversal c d = Inr ()"
  shows "fst (create_transfer authorise command fx d) = Inr (posted_view c fx, False)"
proof -
  from normalise_InrD [OF norm] have pos: "0 < tc_amount_minor c" and cur: "tc_currency c = ''GBP''"
    and neq: "tc_source_account_id c \<noteq> tc_destination_account_id c" by auto
  from authorise_source_frame [OF auth] obtain cs where d1: "d1 = d\<lparr>sca_challenges := cs\<rparr>" by blast
  from guards_postable [OF inv none user fit pos neq s t(2) funds] inv fresh rev
  obtain d2 where "post_transfer c fx d1 = Inr d2"
    using post_transfer_succeeds [of d1 c fx] by (auto simp: d1)
  then have "transfer_body authorise c fx d = Inr ((posted_view c fx, False), d2)"
    using active gbp cur auth funds rev by (simp add: transfer_body_known [OF inv neq none s t] d1 not_less)
  with norm none show ?thesis
    by (simp add: create_transfer_def find_by_idempotency_def)
qed

end

text \<open>The SCA service of the source is such an authoriser.\<close>

interpretation sca: bank_authoriser "sca_validate_and_consume hmac svc" for hmac svc
proof
  fix pr s t a ch code now db_now d d' e
  show "\<exists>cs. d' = d\<lparr>sca_challenges := cs\<rparr>"
    if "sca_validate_and_consume hmac svc pr s t a ch code now db_now d = Inr d'"
    using sca_validate_frame [OF that] by blast
  show "e = err_SCA_REQUIRED \<or> e = err_SCA_FAILED"
    if "sca_validate_and_consume hmac svc pr s t a ch code now db_now d = Inl e"
    using that by (auto simp: sca_validate_and_consume_def consume_challenge_def Let_def split: if_splits option.splits)
qed

end
