(* ===== verification/Demo.thy ===== *)
theory Demo
  imports Ledger_Progress "HOL-Library.Code_Target_Nat"
begin

text \<open>
  A small bank for the witnesses: an administrator, a verified customer, the system account and
  two customer accounts, with no money yet; and the commands that move some.
\<close>

definition demo_admin :: principal where
  "demo_admin = \<lparr>pr_user_id = 1, pr_role = BANK_ADMIN, pr_customer_id = None\<rparr>"

definition demo_alice :: principal where
  "demo_alice = \<lparr>pr_user_id = 2, pr_role = CUSTOMER, pr_customer_id = Some 21\<rparr>"

definition demo_user :: "uuid \<Rightarrow> role \<Rightarrow> uuid option \<Rightarrow> string \<Rightarrow> user_row" where
  "demo_user i r c e = \<lparr>ua_user_id = i, ua_email = e, ua_password_hash = ''hash'', ua_role = r,
     ua_customer_id = c, ua_status = USER_ACTIVE, ua_mfa_enabled = False, ua_created_at = 0, ua_updated_at = 0\<rparr>"

definition demo_account :: "uuid \<Rightarrow> uuid option \<Rightarrow> string \<Rightarrow> account_row" where
  "demo_account i c r = \<lparr>ba_account_id = i, ba_customer_id = c, ba_account_number_hash = r,
     ba_account_reference = r, ba_account_type = (if c = None then SYSTEM else CURRENT),
     ba_currency = ''GBP'', ba_status = ACCOUNT_ACTIVE, ba_allow_negative = (c = None), ba_opened_at = 0\<rparr>"

definition demo_balance :: "uuid \<Rightarrow> balance_row" where
  "demo_balance i = \<lparr>ab_account_id = i, ab_available_balance_minor = 0, ab_current_balance_minor = 0,
     ab_currency = ''GBP'', ab_last_ledger_entry_id = None, ab_updated_at = 0\<rparr>"

definition demo_db :: db where
  "demo_db = empty_db\<lparr>
     customers := [\<lparr>cu_customer_id = 21, cu_legal_name = ''Alice'', cu_date_of_birth = ''1990-01-01'',
       cu_email = ''alice'', cu_phone = None, cu_kyc_status = KYC_VERIFIED, cu_risk_rating = RATING_LOW,
       cu_status = CUSTOMER_ACTIVE, cu_created_at = 0, cu_updated_at = 0\<rparr>],
     user_accounts := [demo_user 1 BANK_ADMIN None ''admin'', demo_user 2 CUSTOMER (Some 21) ''alice''],
     bank_accounts := [demo_account 10 None ''sys'', demo_account 11 (Some 21) ''a1'',
       demo_account 12 (Some 21) ''a2''],
     account_balances := [demo_balance 10, demo_balance 11, demo_balance 12]\<rparr>"

definition demo_fresh :: "uuid \<Rightarrow> timestamp \<Rightarrow> transfer_fresh" where
  "demo_fresh i t = \<lparr>fx_transaction_id = i, fx_debit_entry_id = i + 1, fx_credit_entry_id = i + 2,
     fx_outbox_event_id = i + 3, fx_audit = \<lparr>af_request = 0, af_event = i + 4, af_now = t\<rparr>,
     fx_now = t, fx_posted_at = t, fx_db_now = t\<rparr>"

definition demo_command :: "principal \<Rightarrow> string \<Rightarrow> uuid \<Rightarrow> uuid \<Rightarrow> int \<Rightarrow> transfer_command" where
  "demo_command actor key s t amount = \<lparr>tc_request_id = 7, tc_idempotency_key = key, tc_actor = actor,
     tc_source_account_id = s, tc_destination_account_id = t, tc_amount_minor = amount,
     tc_currency = ''gbp'', tc_description = '''', tc_sca_challenge_id = None, tc_sca_code = '''',
     tc_operator_override = (pr_role actor = BANK_ADMIN), tc_transaction_type = None,
     tc_reverses_transaction_id = None\<rparr>"

definition demo_hmac :: "string \<Rightarrow> string \<Rightarrow> string" where
  "demo_hmac secret message = message"

definition demo_sca :: sca_service where
  "demo_sca = \<lparr>sca_secret = ''secret'', sca_ttl = seconds 300, sca_threshold = 50000, sca_demo_mode = True\<rparr>"

definition demo_deposit :: transfer_command where
  "demo_deposit = demo_command demo_admin ''deposit-1'' 10 11 120000"

definition demo_funded :: db where
  "demo_funded = snd (create_transfer (sca_validate_and_consume demo_hmac demo_sca) demo_deposit (demo_fresh 100 5) demo_db)"

definition demo_payment :: transfer_command where
  "demo_payment = demo_command demo_alice ''pay-1'' 11 12 40000"

definition demo_paid :: db where
  "demo_paid = snd (create_transfer (sca_validate_and_consume demo_hmac demo_sca) demo_payment (demo_fresh 200 6) demo_funded)"

definition demo_reversal :: transfer_command where
  "demo_reversal = (demo_command demo_admin ''rev-1'' 12 11 40000)
     \<lparr>tc_transaction_type := Some REVERSAL, tc_reverses_transaction_id := Some 200\<rparr>"

lemma demo_db_inv: "ledger_inv demo_db"
  by code_simp

lemma demo_funded_inv: "ledger_inv demo_funded"
  unfolding demo_funded_def by (rule sca.create_transfer_inv [OF demo_db_inv])

lemma demo_paid_inv: "ledger_inv demo_paid"
  unfolding demo_paid_def by (rule sca.create_transfer_inv [OF demo_funded_inv])

section \<open>Evaluation of the demo bank\<close>

text \<open>Evaluation goes statement by statement: the rest of a block waits for the statement before.\<close>

lemma andthen_weak: "m = m' \<Longrightarrow> andthen m f = andthen m' f"
  by simp

lemmas demo_eval =
  demo_deposit_def demo_command_def demo_fresh_def demo_db_def demo_admin_def demo_alice_def
  demo_user_def demo_account_def demo_balance_def demo_sca_def demo_reversal_def demo_payment_def
  empty_db_def table_simps is_bigint_def Let_def seconds_def
  post_transfer_def insert_transaction_def new_transaction_def insert_entry_def update_balance_def
  write_balance_def reject_negative_customer_balance_def debit_entry_def credit_entry_def
  insert_outbox_def outbox_pending_def audit_record_def posted_audit_def commit_balanced_def
  assert_transaction_balanced_def mark_reversed_def
  transfer_body_def in_transaction_def lock_accounts_def locked_rows_def locked_account_def
  account_at_def authorise_source_def check_reversal_def validate_reversal_def
  select_by_idempotency_def find_by_idempotency_def balanced_def command_type_def
  sca_validate_and_consume_def sca_required_def

definition demo_deposit_n :: transfer_command where
  "demo_deposit_n = demo_deposit\<lparr>tc_currency := ''GBP'', tc_transaction_type := Some TRANSFER\<rparr>"

definition demo_payment_n :: transfer_command where
  "demo_payment_n = demo_payment\<lparr>tc_currency := ''GBP'', tc_transaction_type := Some TRANSFER\<rparr>"

definition demo_reversal_n :: transfer_command where
  "demo_reversal_n = demo_reversal\<lparr>tc_currency := ''GBP''\<rparr>"

lemma demo_normal:
  "normalise demo_deposit = Inr demo_deposit_n"
  "normalise demo_payment = Inr demo_payment_n"
  "normalise demo_reversal = Inr demo_reversal_n"
  by code_simp+

abbreviation demo_transfer ::
  "transfer_command \<Rightarrow> transfer_fresh \<Rightarrow> db \<Rightarrow> (failure + transaction_view \<times> bool) \<times> db" where
  "demo_transfer \<equiv> create_transfer (sca_validate_and_consume demo_hmac demo_sca)"

lemma demo_deposit_run:
  "\<exists>row. demo_transfer demo_deposit (demo_fresh 100 5) demo_db =
     (Inr (posted_view demo_deposit_n (demo_fresh 100 5), False),
      posted_db demo_deposit_n (demo_fresh 100 5) row demo_db) \<and> au_audit_event_id row = 104"
  by (simp add: demo_normal create_transfer_def, simp add: demo_deposit_n_def demo_eval cong: andthen_weak,
      simp add: posted_db_def demo_eval mark_row_def move_balance_def)

lemma demo_funded_db:
  "\<exists>row. demo_funded = posted_db demo_deposit_n (demo_fresh 100 5) row demo_db \<and>
     au_audit_event_id row = 104"
  using demo_deposit_run by (auto simp: demo_funded_def)

lemma demo_payment_run:
  "\<exists>row. demo_transfer demo_payment (demo_fresh 200 6) demo_funded =
     (Inr (posted_view demo_payment_n (demo_fresh 200 6), False),
      posted_db demo_payment_n (demo_fresh 200 6) row demo_funded) \<and> au_audit_event_id row = 204"
proof -
  obtain row where f: "demo_funded = posted_db demo_deposit_n (demo_fresh 100 5) row demo_db"
    and [simp]: "au_audit_event_id row = 104"
    using demo_funded_db by blast
  show ?thesis unfolding f
    by (simp add: demo_normal create_transfer_def,
        simp add: demo_payment_n_def demo_deposit_n_def demo_eval posted_db_def move_balance_def cong: andthen_weak,
        (simp add: posted_db_def demo_eval mark_row_def move_balance_def)?)
qed

lemma demo_paid_db:
  "\<exists>row row'. demo_paid = posted_db demo_payment_n (demo_fresh 200 6) row
     (posted_db demo_deposit_n (demo_fresh 100 5) row' demo_db) \<and>
     au_audit_event_id row = 204 \<and> au_audit_event_id row' = 104"
proof -
  obtain row row' where "demo_paid = posted_db demo_payment_n (demo_fresh 200 6) row demo_funded"
    and "demo_funded = posted_db demo_deposit_n (demo_fresh 100 5) row' demo_db"
    and "au_audit_event_id row = 204" "au_audit_event_id row' = 104"
    using demo_payment_run demo_funded_db by (auto simp: demo_paid_def)
  then show ?thesis by metis
qed

lemma demo_reversal_run:
  "\<exists>row. demo_transfer demo_reversal (demo_fresh 300 7) demo_paid =
     (Inr (posted_view demo_reversal_n (demo_fresh 300 7), False),
      posted_db demo_reversal_n (demo_fresh 300 7) row demo_paid)"
proof -
  obtain row row' where f: "demo_paid = posted_db demo_payment_n (demo_fresh 200 6) row
     (posted_db demo_deposit_n (demo_fresh 100 5) row' demo_db)"
    and [simp]: "au_audit_event_id row = 204" "au_audit_event_id row' = 104"
    using demo_paid_db by blast
  show ?thesis unfolding f
    by (simp add: demo_normal create_transfer_def,
        simp add: demo_payment_n_def demo_deposit_n_def demo_reversal_n_def demo_eval posted_db_def
          mark_row_def move_balance_def cong: andthen_weak,
        (simp add: posted_db_def demo_eval mark_row_def move_balance_def)?)
qed

lemma demo_paid_balances: "map ab_current_balance_minor (account_balances demo_paid) = [-120000, 80000, 40000]"
proof -
  obtain row row' where f: "demo_paid = posted_db demo_payment_n (demo_fresh 200 6) row
     (posted_db demo_deposit_n (demo_fresh 100 5) row' demo_db)"
    using demo_paid_db by blast
  show ?thesis unfolding f
    by (simp add: posted_db_def demo_eval move_balance_def demo_payment_n_def demo_deposit_n_def)
qed

section \<open>A payment with a challenge\<close>

definition demo_sca_fresh :: sca_fresh where
  "demo_sca_fresh = \<lparr>sf_challenge_id = 500, sf_random = 42, sf_now = 5\<rparr>"

definition demo_challenged :: db where
  "demo_challenged = snd (sca_create demo_hmac demo_sca demo_alice 11 12 60000 demo_sca_fresh demo_funded)"

definition demo_big :: transfer_command where
  "demo_big = (demo_command demo_alice ''big-1'' 11 12 60000)
     \<lparr>tc_sca_challenge_id := Some 500, tc_sca_code := ''000042''\<rparr>"

definition demo_big_n :: transfer_command where
  "demo_big_n = demo_big\<lparr>tc_currency := ''GBP'', tc_transaction_type := Some TRANSFER\<rparr>"

lemma demo_sca_text:
  "normalise demo_big = Inr demo_big_n" "zfill 6 (nat_str 42) = ''000042''"
  "py_isascii ''000042''" "py_isdigit ''000042''"
  by code_simp+

lemma demo_challenged_db:
  "\<exists>row. demo_challenged = (posted_db demo_deposit_n (demo_fresh 100 5) row demo_db)\<lparr>sca_challenges :=
     [\<lparr>sc_challenge_id = 500, sc_user_id = 2, sc_source_account_id = 11, sc_destination_account_id = 12,
       sc_amount_minor = 60000, sc_code_hash = sca_hash demo_hmac demo_sca 500 2 11 12 60000 ''000042'',
       sc_status = CH_PENDING, sc_expires_at = 300000005, sc_consumed_at = None\<rparr>]\<rparr> \<and>
     au_audit_event_id row = 104"
proof -
  obtain row where f: "demo_funded = posted_db demo_deposit_n (demo_fresh 100 5) row demo_db"
    and a: "au_audit_event_id row = 104" using demo_funded_db by blast
  show ?thesis unfolding demo_challenged_def f
    by (rule exI [of _ row])
      (simp add: a sca_create_def demo_sca_fresh_def demo_sca_text insert_challenge_def demo_eval posted_db_def)
qed

lemma demo_challenged_inv: "ledger_inv demo_challenged"
proof -
  obtain cs where "demo_challenged = demo_funded\<lparr>sca_challenges := cs\<rparr>"
    using sca_create_frame [of demo_hmac demo_sca demo_alice 11 12 60000 demo_sca_fresh demo_funded]
    by (metis demo_challenged_def prod.collapse)
  then show ?thesis using demo_funded_inv by (metis ledger_inv_challenges(5))
qed

lemma demo_big_run:
  "\<exists>d'. demo_transfer demo_big (demo_fresh 400 6) demo_challenged =
     (Inr (posted_view demo_big_n (demo_fresh 400 6), False), d')"
proof -
  obtain row where f: "demo_challenged = (posted_db demo_deposit_n (demo_fresh 100 5) row demo_db)\<lparr>sca_challenges :=
     [\<lparr>sc_challenge_id = 500, sc_user_id = 2, sc_source_account_id = 11, sc_destination_account_id = 12,
       sc_amount_minor = 60000, sc_code_hash = sca_hash demo_hmac demo_sca 500 2 11 12 60000 ''000042'',
       sc_status = CH_PENDING, sc_expires_at = 300000005, sc_consumed_at = None\<rparr>]\<rparr>"
    and [simp]: "au_audit_event_id row = 104" using demo_challenged_db by blast
  show ?thesis unfolding f
    by (simp add: demo_sca_text create_transfer_def,
        simp add: demo_big_n_def demo_big_def demo_sca_text consume_challenge_def demo_eval demo_deposit_n_def posted_db_def
          move_balance_def cong: andthen_weak)
qed

end
