(* ===== verification/Ledger_Facts.thy ===== *)
theory Ledger_Facts
  imports Demo
begin

text \<open>
  The theorems about transfers that the component guarantees, stated over
  \<open>create_transfer\<close> with the SCA service of the source, each with an instance on the demo bank.
\<close>

abbreviation bank_transfer ::
  "(string \<Rightarrow> string \<Rightarrow> string) \<Rightarrow> sca_service \<Rightarrow> transfer_command \<Rightarrow> transfer_fresh \<Rightarrow> db
     \<Rightarrow> (failure + transaction_view \<times> bool) \<times> db" where
  "bank_transfer hmac svc \<equiv> create_transfer (sca_validate_and_consume hmac svc)"

section \<open>Shared facts\<close>

text \<open>What a call that posted did, with the guards that let it.\<close>

lemma posted_transfer_facts:
  assumes inv: "ledger_inv d" and run: "bank_transfer hmac svc command fx d = (Inr (v, False), d')"
  obtains c sa sb da cs row where "normalise command = Inr c" "v = posted_view c fx"
    "select_by_idempotency (pr_user_id (tc_actor c)) (tc_idempotency_key c) d = None"
    "sa \<in> set (bank_accounts d)" "sb \<in> set (account_balances d)"
    "ba_account_id sa = tc_source_account_id c" "ab_account_id sb = tc_source_account_id c"
    "da \<in> set (bank_accounts d)" "ba_account_id da = tc_destination_account_id c"
    "known ab_account_id (tc_destination_account_id c) (account_balances d)"
    "ba_status sa = ACCOUNT_ACTIVE" "ba_status da = ACCOUNT_ACTIVE"
    "ba_currency sa = tc_currency c" "ba_currency da = tc_currency c"
    "authorise_source (sca_validate_and_consume hmac svc) c (locked_account sa sb) fx d =
       Inr (d\<lparr>sca_challenges := cs\<rparr>)"
    "ba_allow_negative sa \<or> tc_amount_minor c \<le> ab_available_balance_minor sb"
    "check_reversal c d = Inr ()"
    "post_transfer c fx (d\<lparr>sca_challenges := cs\<rparr>) = Inr d'"
    "d' = posted_db c fx row (d\<lparr>sca_challenges := cs\<rparr>)" "au_action row = ''LEDGER_POSTED''"
proof -
  from sca.create_transfer_cases [OF run] obtain c where c: "normalise command = Inr c"
    "v = posted_view c fx"
    "transfer_body (sca_validate_and_consume hmac svc) c fx d = Inr ((posted_view c fx, False), d')" by auto
  from c(1) run have none: "select_by_idempotency (pr_user_id (tc_actor c)) (tc_idempotency_key c) d = None"
    by (auto simp: create_transfer_def find_by_idempotency_def split: option.splits)
  from sca.transfer_body_InrD [OF c(3)] obtain sa sb da db' cs where body:
    "sa \<in> set (bank_accounts d)" "sb \<in> set (account_balances d)"
    "ba_account_id sa = tc_source_account_id c" "ab_account_id sb = tc_source_account_id c"
    "da \<in> set (bank_accounts d)" "db' \<in> set (account_balances d)"
    "ba_account_id da = tc_destination_account_id c" "ab_account_id db' = tc_destination_account_id c"
    "ba_status sa = ACCOUNT_ACTIVE" "ba_status da = ACCOUNT_ACTIVE"
    "ba_currency sa = tc_currency c" "ba_currency da = tc_currency c"
    "authorise_source (sca_validate_and_consume hmac svc) c (locked_account sa sb) fx d = Inr (d\<lparr>sca_challenges := cs\<rparr>)"
    "ba_allow_negative sa \<or> tc_amount_minor c \<le> ab_available_balance_minor sb"
    "check_reversal c d = Inr ()"
    "post_transfer c fx (d\<lparr>sca_challenges := cs\<rparr>) = Inr d'" by blast
  from normalise_InrD [OF c(1)] have neq: "tc_source_account_id c \<noteq> tc_destination_account_id c" by auto
  have dist: "distinct (map ab_account_id (account_balances (d\<lparr>sca_challenges := cs\<rparr>)))"
    using inv by (simp add: ledger_inv_def keys_ok_def)
  from post_transfer_InrD(1) [OF body(16) dist neq] obtain row where
    "d' = posted_db c fx row (d\<lparr>sca_challenges := cs\<rparr>)" "au_action row = ''LEDGER_POSTED''" by blast
  with that c(1,2) none body show ?thesis by (blast intro: knownI)
qed

lemma balance_is_sum:
  "ledger_inv d \<Longrightarrow> b \<in> set (account_balances d) \<Longrightarrow> ab_current_balance_minor b = account_sum (ab_account_id b) d"
  by (simp add: ledger_inv_def balances_ok_def balance_ok_alt)

section \<open>Sums over the ledger\<close>

lemma sum_list_zero_by_key:
  assumes "distinct ks" and "\<forall>e \<in> set xs. key e \<in> set ks"
  shows "sum_list (map amount xs) = sum_list (map (\<lambda>k. sum_where (\<lambda>e. key e = k) amount xs) ks)"
  using assms(2)
proof (induction xs)
  case Nil
  then show ?case by (simp add: sum_list_triv)
next
  case (Cons e xs)
  have one: "sum_list (map (\<lambda>k. if key e = k then amount e else 0) ks) = amount e"
    using assms(1) Cons.prems by (simp add: sum_list_distinct_conv_sum_set sum.delta)
  from Cons show ?case
    by (simp add: table_simps sum_list_addf one)
qed

lemma sum_of_entries_zero:
  assumes "ledger_inv d"
  shows "sum_list (map le_amount_minor (ledger_entries d)) = 0"
proof -
  have dist: "distinct (map tx_transaction_id (transactions d))"
    using assms by (simp add: ledger_inv_def keys_ok_def)
  have "sum_where (\<lambda>e. le_transaction_id e = tx_transaction_id t) le_amount_minor (ledger_entries d) = 0"
    if "t \<in> set (transactions d)" for t
  proof -
    from that assms have "map (\<lambda>e. (le_account_id e, le_amount_minor e)) (entries_of (tx_transaction_id t) d) =
        [(tx_source_account_id t, - tx_amount_minor t), (tx_destination_account_id t, tx_amount_minor t)]"
      by (simp add: ledger_inv_def entries_ok_def)
    then have "map snd (map (\<lambda>e. (le_account_id e, le_amount_minor e)) (entries_of (tx_transaction_id t) d)) =
        [- tx_amount_minor t, tx_amount_minor t]" by simp
    then show ?thesis by (simp add: sum_where_def entries_of_def comp_def)
  qed
  then have zero: "map (\<lambda>k. sum_where (\<lambda>e. le_transaction_id e = k) le_amount_minor (ledger_entries d))
               (map tx_transaction_id (transactions d)) = map (\<lambda>_. 0) (transactions d)"
    by simp
  have "\<forall>e \<in> set (ledger_entries d). le_transaction_id e \<in> set (map tx_transaction_id (transactions d))"
    using assms by (simp add: ledger_inv_def entries_ok_def known_def)
  from sum_list_zero_by_key [OF dist this, of le_amount_minor] show ?thesis
    unfolding zero by simp
qed

lemma sum_of_balances_zero:
  assumes "ledger_inv d"
  shows "sum_list (map ab_current_balance_minor (account_balances d)) = 0"
proof -
  have dist: "distinct (map ab_account_id (account_balances d))"
    using assms by (simp add: ledger_inv_def keys_ok_def)
  have sums: "map ab_current_balance_minor (account_balances d) =
        map (\<lambda>k. sum_where (\<lambda>e. le_account_id e = k) le_amount_minor (ledger_entries d))
          (map ab_account_id (account_balances d))"
    using balance_is_sum [OF assms] by (simp add: account_sum_def)
  have "\<forall>e \<in> set (ledger_entries d). le_account_id e \<in> set (map ab_account_id (account_balances d))"
    using assms by (simp add: ledger_inv_def entries_ok_def known_def)
  from sum_list_zero_by_key [OF dist this, of le_amount_minor] sum_of_entries_zero [OF assms] show ?thesis
    unfolding sums by simp
qed

section \<open>Runs of transfers\<close>

definition transfer_step ::
  "(string \<Rightarrow> string \<Rightarrow> string) \<Rightarrow> sca_service \<Rightarrow> transfer_command \<times> transfer_fresh \<Rightarrow> db \<Rightarrow> db" where
  "transfer_step hmac svc e d = snd (bank_transfer hmac svc (fst e) (snd e) d)"

text \<open>The history of the transactions, with the status column, the one that may change, left out.\<close>

definition history :: "db \<Rightarrow> transaction_row list" where
  "history d = map (tx_status_update (\<lambda>_. TX_POSTED)) (transactions d)"

lemma history_mark: "map (tx_status_update (\<lambda>_. TX_POSTED)) (map (mark_row r) ts) = map (tx_status_update (\<lambda>_. TX_POSTED)) ts"
  by (simp add: mark_row_def)

lemma bank_transfer_frame:
  assumes "bank_transfer hmac svc command fx d = (r, d')"
  shows "(\<exists>zs. history d' = history d @ zs) \<and> (\<exists>zs. ledger_entries d' = ledger_entries d @ zs) \<and>
    (\<exists>zs. audit_events d' = audit_events d @ zs) \<and> (\<exists>zs. outbox_events d' = outbox_events d @ zs) \<and>
    customers d' = customers d \<and> user_accounts d' = user_accounts d \<and> bank_accounts d' = bank_accounts d"
proof -
  consider "d' = d" | c cs where "post_transfer c fx (d\<lparr>sca_challenges := cs\<rparr>) = Inr d'"
    using sca.create_transfer_cases [OF assms] sca.transfer_body_InrD by blast
  then show ?thesis
  proof cases
    case 2
    then show ?thesis
      by (auto simp: post_transfer_def history_def rows_update_def if_distrib
          elim!: andthen_InrE split: option.splits
          dest!: insert_transaction_InrD insert_entry_InrD update_balance_InrD mark_reversed_InrD
            insert_outbox_InrD audit_record_InrD commit_balanced_InrD)
  qed auto
qed

interpretation ledger: invariant_machine "transfer_step hmac svc" ledger_inv for hmac svc
  by unfold_locales (simp add: transfer_step_def sca.create_transfer_inv)

interpretation ledger_history: append_only_log "transfer_step hmac svc" history for hmac svc
  by unfold_locales (metis transfer_step_def bank_transfer_frame prod.collapse)

interpretation ledger_postings: append_only_log "transfer_step hmac svc" ledger_entries for hmac svc
  by unfold_locales (metis transfer_step_def bank_transfer_frame prod.collapse)

interpretation ledger_audit: append_only_log "transfer_step hmac svc" audit_events for hmac svc
  by unfold_locales (metis transfer_step_def bank_transfer_frame prod.collapse)

lemma row_get_map:
  "(\<And>r. key (f r) = key r) \<Longrightarrow> row_get key k (map f rows) = map_option f (row_get key k rows)"
  by (induction rows) (auto simp: table_simps)

lemma select_in_later_history:
  assumes "select_by_idempotency u k d = Some t" and "history d' = history d @ zs"
  shows "\<exists>s. select_by_idempotency u k d' = Some (t\<lparr>tx_status := s\<rparr>)"
proof -
  let ?key = "\<lambda>t. (tx_initiated_by_user_id t, tx_idempotency_key t)"
  have hist: "row_get ?key (u, k) (history e) = map_option (tx_status_update (\<lambda>_. TX_POSTED)) (select_by_idempotency u k e)" for e
    by (simp add: history_def select_by_idempotency_def row_get_map)
  from hist [of d] hist [of d'] assms
  have "map_option (tx_status_update (\<lambda>_. TX_POSTED)) (select_by_idempotency u k d') =
        Some (t\<lparr>tx_status := TX_POSTED\<rparr>)"
    by (simp add: row_get_append)
  then obtain t' where t': "select_by_idempotency u k d' = Some t'"
    and eq: "t'\<lparr>tx_status := TX_POSTED\<rparr> = t\<lparr>tx_status := TX_POSTED\<rparr>"
    by auto
  from eq have "t' = t\<lparr>tx_status := tx_status t'\<rparr>" by (cases t; cases t') simp
  with t' show ?thesis by metis
qed

end
