(* ===== verification/Calendar.thy ===== *)
theory Calendar
  imports Prelude
begin

text \<open>
  The part of Python's \<open>datetime\<close> the program uses: the UTC calendar date of an instant, the text
  \<open>isoformat()\<close> writes, and the text \<open>date.fromisoformat\<close> reads. The calendar is the proleptic
  Gregorian one; days are counted from 1970-01-01.
\<close>

record date =
  da_year :: int
  da_month :: int
  da_day :: int

definition leap_year :: "int \<Rightarrow> bool" where
  "leap_year y \<longleftrightarrow> y mod 4 = 0 \<and> (y mod 100 \<noteq> 0 \<or> y mod 400 = 0)"

definition days_in_month :: "int \<Rightarrow> int \<Rightarrow> int" where
  "days_in_month y m =
     (if m = 2 then (if leap_year y then 29 else 28)
      else if m = 4 \<or> m = 6 \<or> m = 9 \<or> m = 11 then 30 else 31)"

definition valid_date :: "date \<Rightarrow> bool" where
  "valid_date a \<longleftrightarrow> 1 \<le> da_year a \<and> da_year a \<le> 9999 \<and> 1 \<le> da_month a \<and> da_month a \<le> 12 \<and>
     1 \<le> da_day a \<and> da_day a \<le> days_in_month (da_year a) (da_month a)"

definition date_less :: "date \<Rightarrow> date \<Rightarrow> bool" where
  "date_less a b \<longleftrightarrow> da_year a < da_year b \<or> da_year a = da_year b \<and>
     (da_month a < da_month b \<or> da_month a = da_month b \<and> da_day a < da_day b)"

text \<open>The civil date of a day number: eras of 400 years, years that begin in March.\<close>

definition date_of_days :: "int \<Rightarrow> date" where
  "date_of_days n =
     (let z = n + 719468; era = z div 146097; doe = z mod 146097;
          yoe = (doe - doe div 1460 + doe div 36524 - doe div 146096) div 365;
          doy = doe - (365 * yoe + yoe div 4 - yoe div 100);
          mp = (5 * doy + 2) div 153;
          m = (if mp < 10 then mp + 3 else mp - 9) in
      \<lparr>da_year = yoe + era * 400 + (if m \<le> 2 then 1 else 0), da_month = m,
       da_day = doy - (153 * mp + 2) div 5 + 1\<rparr>)"

definition day_length :: timestamp where "day_length = 86400000000"

definition date_of :: "timestamp \<Rightarrow> date" where
  "date_of t = date_of_days (t div day_length)"

definition pad :: "nat \<Rightarrow> int \<Rightarrow> string" where
  "pad w n = (let s = nat_str (nat n) in replicate (w - length s) (CHR ''0'') @ s)"

definition isoformat :: "timestamp \<Rightarrow> string" where
  "isoformat t =
     (let a = date_of t; us = t mod day_length; s = us div 1000000; frac = us mod 1000000 in
      pad 4 (da_year a) @ ''-'' @ pad 2 (da_month a) @ ''-'' @ pad 2 (da_day a) @ ''T'' @
      pad 2 (s div 3600) @ '':'' @ pad 2 (s div 60 mod 60) @ '':'' @ pad 2 (s mod 60) @
      (if frac = 0 then [] else ''.'' @ pad 6 frac) @ ''+00:00'')"

text \<open>The day number of a civil date, the inverse of \<open>date_of_days\<close>.\<close>

definition days_of_date :: "date \<Rightarrow> int" where
  "days_of_date a =
     (let y = (if da_month a \<le> 2 then da_year a - 1 else da_year a);
          era = y div 400; yoe = y mod 400;
          mp = (if da_month a > 2 then da_month a - 3 else da_month a + 9);
          doy = (153 * mp + 2) div 5 + da_day a - 1;
          doe = yoe * 365 + yoe div 4 - yoe div 100 + doy in
      era * 146097 + doe - 719468)"

definition date_str :: "date \<Rightarrow> string" where
  "date_str a = pad 4 (da_year a) @ ''-'' @ pad 2 (da_month a) @ ''-'' @ pad 2 (da_day a)"

text \<open>
  An ISO week date: the week with the year's first Thursday is week 1, weekdays run from Monday 1 to
  Sunday 7. Day 0 of the count is a Thursday.
\<close>

definition weekday_of_days :: "int \<Rightarrow> int" where
  "weekday_of_days n = (n + 3) mod 7"             \<comment> \<open>Monday is 0\<close>

definition date_of_iso_week :: "int \<Rightarrow> int \<Rightarrow> int \<Rightarrow> date option" where
  "date_of_iso_week y week day =
     (let first = days_of_date \<lparr>da_year = y, da_month = 1, da_day = 1\<rparr>;
          wd = weekday_of_days first;
          week_ok = (1 \<le> week \<and> (week \<le> 52 \<or> week = 53 \<and> (wd = 3 \<or> wd = 2 \<and> leap_year y)));
          monday = (if wd > 3 then first - wd + 7 else first - wd);
          a = date_of_days (monday + (week - 1) * 7 + (day - 1)) in
      if 1 \<le> y \<and> y \<le> 9999 \<and> week_ok \<and> 1 \<le> day \<and> day \<le> 7 \<and> valid_date a then Some a else None)"

text \<open>
  \<open>date.fromisoformat\<close> of a text of ten characters: the extended calendar format, or the
  extended week format \<open>YYYY-Www-D\<close>. (The shorter formats cannot reach it: the request schema
  demands ten characters.)
\<close>

definition date_of_text :: "string \<Rightarrow> date option" where
  "date_of_text s =
     (let num = (\<lambda>cs. int (foldl (\<lambda>n c. n * 10 + digit_val c) 0 cs)) in
      if length s \<noteq> 10 \<or> s ! 4 \<noteq> CHR ''-'' \<or> \<not> list_all is_digit (take 4 s) then None
      else if s ! 5 = CHR ''W'' then
        (if list_all is_digit (take 2 (drop 6 s)) \<and> s ! 8 = CHR ''-'' \<and> is_digit (s ! 9)
         then date_of_iso_week (num (take 4 s)) (num (take 2 (drop 6 s))) (num (drop 9 s)) else None)
      else if s ! 7 \<noteq> CHR ''-'' \<or> \<not> list_all is_digit (take 2 (drop 5 s) @ drop 8 s) then None
      else
        let a = \<lparr>da_year = num (take 4 s), da_month = num (take 2 (drop 5 s)), da_day = num (drop 8 s)\<rparr> in
        if valid_date a then Some a else None)"

text \<open>\<open>today.replace(year=today.year - 18)\<close>, on February 29 with the day put back to 28.\<close>

definition years_before :: "int \<Rightarrow> date \<Rightarrow> date" where
  "years_before k a =
     (let b = a\<lparr>da_year := da_year a - k\<rparr> in if valid_date b then b else b\<lparr>da_day := 28\<rparr>)"

lemma calendar_samples:
  "date_of_days 0 = \<lparr>da_year = 1970, da_month = 1, da_day = 1\<rparr>"
  "date_of_days 19782 = \<lparr>da_year = 2024, da_month = 2, da_day = 29\<rparr>"
  "isoformat 1709210096000250 = ''2024-02-29T12:34:56.000250+00:00''"
  "date_of_text ''2006-02-29'' = None"
  "date_of_text ''2009-W53-7'' = Some \<lparr>da_year = 2010, da_month = 1, da_day = 3\<rparr>"
  "date_of_text ''2008-W53-1'' = None"
  "days_of_date \<lparr>da_year = 2024, da_month = 2, da_day = 29\<rparr> = 19782"
  "years_before 18 \<lparr>da_year = 2024, da_month = 2, da_day = 29\<rparr> = \<lparr>da_year = 2006, da_month = 2, da_day = 28\<rparr>"
  by code_simp+

end
