(* ===== verification/Api_Base.thy ===== *)
theory Api_Base
  imports Mfa Rate_Limit Ledger_Facts Calendar "HOL-Library.List_Lexorder" "HOL-Library.Char_ord"
begin

text \<open>
  What every HTTP handler of \<open>bantam/api.py\<close> shares: the application state, the request, the
  session of the caller, role and scope checks, rate limits, the audit arguments of a request, the
  start of a session and the answer to an error.

  A handler is a procedure over the \<open>server\<close>: the database and the two rate limiters, which
  count their checks in the process. The connections of the pool are in autocommit mode, so every
  statement outside a \<open>connection.transaction()\<close> block is committed by itself: \<open>on_db\<close>
  runs such a procedure on the database and keeps what it did before an exception.

  The third-party functions are the record \<open>libraries\<close>. What a request draws at random or reads
  from a clock is the record \<open>env\<close>: \<open>en_uuid n\<close> is the n-th \<open>uuid4()\<close> of the handler,
  \<open>en_audit n\<close> what its n-th audit record draws. One request reads one instant.
\<close>

section \<open>The application, the request and its randomness\<close>

record settings =
  st_trusted_proxy_cidrs :: "ip_network list"
  st_super_admin_email :: "string option"
  st_secure_cookies :: bool
  st_jwt_ttl :: int
  st_mfa_step_up_ttl :: int

record libraries =
  li_sha256_hex :: "string \<Rightarrow> string"
  li_hmac :: "string \<Rightarrow> string \<Rightarrow> string"
  li_bcrypt_hash :: "string \<Rightarrow> string \<Rightarrow> string"
  li_bcrypt_check :: "string \<Rightarrow> string \<Rightarrow> bool option"
  li_dummy_hash :: string
  li_jwt_encode :: jwt_encoder
  li_jwt_header :: jwt_header_reader
  li_jwt_decode :: jwt_decoder
  li_mfa :: mfa_library

record app =
  ap_settings :: settings
  ap_auth :: auth_service
  ap_claims :: auth_service
  ap_mfa :: mfa_service
  ap_sca :: sca_service
  ap_lib :: libraries

record env =
  en_uuid :: "nat \<Rightarrow> uuid"
  en_audit :: "nat \<Rightarrow> audit_fresh"
  en_now :: timestamp
  en_db_now :: timestamp
  en_salt :: string              \<comment> \<open>\<open>bcrypt.gensalt()\<close>\<close>
  en_csrf :: string              \<comment> \<open>\<open>secrets.token_urlsafe(32)\<close>\<close>
  en_jti :: uuid
  en_transfer :: transfer_fresh
  en_sca :: sca_fresh
  en_mfa :: mfa_fresh
  en_pool_readable :: bool       \<comment> \<open>whether the query of the revocation list gets an answer\<close>

record api_request =
  rq_http :: http_request
  rq_query :: "(string \<times> string) list"
  rq_request_id :: uuid

record server =
  sv_db :: db
  sv_ip_limiter :: db_limiter
  sv_account_limiter :: db_limiter

type_synonym 'a handler = "(server, failure, 'a) proc"

definition on_db :: "(db, failure, 'a) proc \<Rightarrow> 'a handler" where
  "on_db m s = (case m (sv_db s) of (r, d) \<Rightarrow> (r, s\<lparr>sv_db := d\<rparr>))"

definition reading :: "(db \<Rightarrow> failure + 'a) \<Rightarrow> 'a handler" where
  "reading q s = (q (sv_db s), s)"

definition asking :: "(db \<Rightarrow> 'a handler) \<Rightarrow> 'a handler" where
  "asking f s = f (sv_db s) s"

lemma on_db_iff: "on_db m s = (r, s') \<longleftrightarrow> (\<exists>d. m (sv_db s) = (r, d) \<and> s' = s\<lparr>sv_db := d\<rparr>)"
  by (auto simp: on_db_def split: prod.splits)

lemma reading_iff [simp]: "reading q s = (r, s') \<longleftrightarrow> r = q (sv_db s) \<and> s' = s"
  by (auto simp: reading_def)

lemma asking_iff [simp]: "asking f s = rs \<longleftrightarrow> f (sv_db s) s = rs"
  by (simp add: asking_def)

section \<open>The request around a handler\<close>

text \<open>
  The middleware: the request id is the UUID of the header, or a fresh one; every response carries it
  and the security headers.
\<close>

definition incoming_request_id :: "(string \<times> string) list \<Rightarrow> uuid \<Rightarrow> uuid" where
  "incoming_request_id headers fresh =
     (case parse_uuid (lookup_default ''x-request-id'' headers []) of None \<Rightarrow> fresh | Some u \<Rightarrow> u)"

definition response_headers :: "api_request \<Rightarrow> (string \<times> string) list \<Rightarrow> (string \<times> string) list" where
  "response_headers req headers =
     add_security_headers (rq_http req)
       (filter (\<lambda>h. py_lower (fst h) \<noteq> ''x-request-id'') headers @
        [(''X-Request-ID'', uuid_str (rq_request_id req))])"

record error_answer =
  er_status :: int
  er_code :: string
  er_message :: string

definition error_response :: "int \<Rightarrow> string \<Rightarrow> string \<Rightarrow> error_answer" where
  "error_response status code message = \<lparr>er_status = status, er_code = code, er_message = message\<rparr>"

text \<open>The exception handlers: a stable error is reported as it is, anything else as an internal error.\<close>

definition error_answer :: "failure \<Rightarrow> error_answer" where
  "error_answer f =
     (case f of
        BantamFailure e \<Rightarrow> error_response (err_status e) (err_code e) (err_message e)
      | MfaFailure code message status \<Rightarrow> error_response status code message
      | _ \<Rightarrow> error_response 500 ''INTERNAL_ERROR'' ''the request could not be completed'')"

definition request_audit ::
  "app \<Rightarrow> api_request \<Rightarrow> string \<Rightarrow> string \<Rightarrow> string \<Rightarrow> string \<Rightarrow> json \<Rightarrow> audit_args" where
  "request_audit app req actor_id action resource_type resource_id metadata =
     \<lparr>aa_actor_type = ''USER'', aa_actor_id = actor_id, aa_action = action,
      aa_resource_type = resource_type, aa_resource_id = resource_id,
      aa_request_id = Some (rq_request_id req), aa_correlation_id = Some (rq_request_id req),
      aa_ip_address = Some (client_ip (rq_http req) (st_trusted_proxy_cidrs (ap_settings app))),
      aa_user_agent =
        (let ua = take 512 (lookup_default ''user-agent'' (rq_headers (rq_http req)) []) in
         if ua = [] then None else Some ua),
      aa_metadata = metadata\<rparr>"

text \<open>One \<open>audit.record\<close> on an autocommit connection.\<close>

definition audited :: "audit_args \<Rightarrow> audit_fresh \<Rightarrow> unit handler" where
  "audited a fx = on_db (statement (audit_record a fx))"

definition query_limit :: "api_request \<Rightarrow> int \<Rightarrow> int \<Rightarrow> int" where
  "query_limit req fallback maximum =
     (case py_int (lookup_default ''limit'' (rq_query req) []) of
        None \<Rightarrow> fallback
      | Some value \<Rightarrow> if value \<le> 0 then fallback else min value maximum)"

definition require_idempotency_key :: "string option \<Rightarrow> failure + string" where
  "require_idempotency_key raw =
     (case normalise_idempotency_key raw of
        Inr key \<Rightarrow> Inr key
      | Inl problem \<Rightarrow>
          if problem = ''required''
          then Inl (bantam ''IDEMPOTENCY_KEY_REQUIRED'' ''Idempotency-Key header is required'' 400)
          else Inl (bantam ''INVALID_IDEMPOTENCY_KEY''
                      ''Idempotency-Key must be 8-128 URL-safe characters'' 400))"

section \<open>Rate limits\<close>

text \<open>Both limiters are asked before the first refusal is raised.\<close>

definition ip_limit_check :: "app \<Rightarrow> env \<Rightarrow> string \<Rightarrow> rate_limit handler" where
  "ip_limit_check app env key s =
     (case db_limiter_check (li_sha256_hex (ap_lib app)) key (en_db_now env) (sv_ip_limiter s, sv_db s) of
        (r, (l, d)) \<Rightarrow> (r, s\<lparr>sv_ip_limiter := l, sv_db := d\<rparr>))"

definition account_limit_check :: "app \<Rightarrow> env \<Rightarrow> string \<Rightarrow> rate_limit handler" where
  "account_limit_check app env key s =
     (case db_limiter_check (li_sha256_hex (ap_lib app)) key (en_db_now env) (sv_account_limiter s, sv_db s) of
        (r, (l, d)) \<Rightarrow> (r, s\<lparr>sv_account_limiter := l, sv_db := d\<rparr>))"

definition enforce_auth_rate_limit :: "app \<Rightarrow> env \<Rightarrow> api_request \<Rightarrow> string \<Rightarrow> string \<Rightarrow> unit handler" where
  "enforce_auth_rate_limit app env req purpose identifier =
     (let address = client_ip (rq_http req) (st_trusted_proxy_cidrs (ap_settings app)) in
      run_then (ip_limit_check app env (purpose @ '':ip:'' @ address)) (\<lambda>by_ip.
      run_then (account_limit_check app env (purpose @ '':account:'' @ py_casefold identifier)) (\<lambda>by_account.
        case find (\<lambda>r. \<not> rl_allowed r) [by_ip, by_account] of
          None \<Rightarrow> returning ()
        | Some blocked \<Rightarrow>
            raising (bantam ''RATE_LIMITED''
              (''too many attempts; retry after '' @ int_str (rl_retry_after_seconds blocked) @ '' seconds'') 429))))"

section \<open>The caller\<close>

text \<open>The bearer token, or the session cookie, for which the CSRF check is made.\<close>

definition presented_token :: "http_request \<Rightarrow> failure + string" where
  "presented_token rq =
     (let header = lookup_default ''authorization'' (rq_headers rq) [];
          cookie_authenticated = \<not> py_startswith header ''Bearer '';
          raw_token = (if cookie_authenticated then lookup_default SESSION_COOKIE_NAME (rq_cookies rq) []
                       else py_removeprefix header ''Bearer '') in
      if raw_token = [] then Inl (bantam ''UNAUTHENTICATED'' ''authentication is required'' 401)
      else case (if cookie_authenticated then csrf_problem rq else None) of
        Some problem \<Rightarrow> Inl (bantam ''CSRF_FAILED'' problem 403)
      | None \<Rightarrow> Inr raw_token)"

definition current_user :: "principal \<Rightarrow> db \<Rightarrow> bool" where
  "current_user p d \<longleftrightarrow>
     (case row_get ua_user_id (pr_user_id p) (user_accounts d) of
        None \<Rightarrow> False
      | Some u \<Rightarrow> ua_status u = USER_ACTIVE \<and> ua_role u = pr_role p \<and> ua_customer_id u = pr_customer_id p)"

definition authenticated_principal :: "app \<Rightarrow> env \<Rightarrow> api_request \<Rightarrow> db \<Rightarrow> failure + parsed_token" where
  "authenticated_principal app env req d =
     andthen (presented_token (rq_http req)) (\<lambda>raw_token.
       case parse_with_claims (li_jwt_header (ap_lib app)) (li_jwt_decode (ap_lib app)) (ap_auth app)
              (if en_pool_readable env then Pool d else FailingPool) raw_token (en_now env) of
         Inl _ \<Rightarrow> Inl (bantam ''UNAUTHENTICATED'' ''access token is invalid or expired'' 401)
       | Inr token \<Rightarrow>
           if current_user (pt_principal token) d then Inr token
           else Inl (bantam ''UNAUTHENTICATED'' ''session is no longer active'' 401))"

definition require_roles :: "role list \<Rightarrow> app \<Rightarrow> env \<Rightarrow> api_request \<Rightarrow> db \<Rightarrow> failure + parsed_token" where
  "require_roles roles app env req d =
     andthen (authenticated_principal app env req d) (\<lambda>token.
       if pr_role (pt_principal token) \<in> set roles then Inr token
       else Inl (bantam ''FORBIDDEN'' ''this role cannot perform the action'' 403))"

definition CustomerPrincipal :: "role list" where "CustomerPrincipal = [CUSTOMER]"
definition AdminPrincipal :: "role list" where "AdminPrincipal = [BANK_ADMIN]"
definition AspisAdminPrincipal :: "role list" where "AspisAdminPrincipal = [BANK_ADMIN, ASPIS_ADMIN]"
definition AspisPrincipal :: "role list" where "AspisPrincipal = [BANK_ADMIN, ASPIS_ADMIN, ASPIS_AUDITOR]"
definition MfaPrincipal :: "role list" where "MfaPrincipal = [BANK_ADMIN, ASPIS_ADMIN, ASPIS_AUDITOR]"
definition OperatorPrincipal :: "role list" where "OperatorPrincipal = [BANK_ADMIN, RISK_ANALYST]"
definition AuditPrincipal :: "role list" where
  "AuditPrincipal = [BANK_ADMIN, RISK_ANALYST, COMPLIANCE_AUDITOR]"
definition ReconcilePrincipal :: "role list" where "ReconcilePrincipal = [BANK_ADMIN, COMPLIANCE_AUDITOR]"

definition AnyPrincipal :: "role list" where
  "AnyPrincipal = all_roles"                     \<comment> \<open>no role is demanded\<close>

lemmas principal_roles =
  CustomerPrincipal_def AdminPrincipal_def AspisAdminPrincipal_def AspisPrincipal_def MfaPrincipal_def
  OperatorPrincipal_def AuditPrincipal_def ReconcilePrincipal_def AnyPrincipal_def

section \<open>Administrator scopes and step-up\<close>

definition is_super_admin_email :: "settings \<Rightarrow> string \<Rightarrow> bool" where
  "is_super_admin_email st email \<longleftrightarrow>
     (case st_super_admin_email st of
        None \<Rightarrow> False
      | Some super_email \<Rightarrow> super_email \<noteq> [] \<and> py_casefold email = py_casefold super_email)"

text \<open>Scopes are ordered by their characters, as the C collation does.\<close>

definition describe_admin_access :: "settings \<Rightarrow> principal \<Rightarrow> db \<Rightarrow> bool \<times> string list" where
  "describe_admin_access st p d =
     (if pr_role p \<noteq> BANK_ADMIN then (False, [])
      else if (case find (\<lambda>u. ua_user_id u = pr_user_id p \<and> ua_role u = BANK_ADMIN \<and> ua_status u = USER_ACTIVE)
                      (user_accounts d) of
                 None \<Rightarrow> False | Some current \<Rightarrow> is_super_admin_email st (ua_email current))
      then (True, ADMIN_PERMISSION_SCOPES)
      else (False, sort (map ap_scope (filter (\<lambda>r. ap_user_id r = pr_user_id p) (admin_permissions d)))))"

definition scope_words :: "string \<Rightarrow> string" where
  "scope_words scope = map (\<lambda>c. if c = CHR ''_'' then CHR '' '' else c) scope"

definition require_admin_scope :: "app \<Rightarrow> principal \<Rightarrow> string \<Rightarrow> db \<Rightarrow> failure + unit" where
  "require_admin_scope app p scope d =
     (if pr_role p \<noteq> BANK_ADMIN then Inr ()
      else if scope \<notin> set ADMIN_PERMISSION_SCOPES then Inl (RuntimeError (''unknown admin scope: '' @ scope))
      else
        let (is_super_admin, scopes) = describe_admin_access (ap_settings app) p d in
        if is_super_admin \<or> scope \<in> set scopes then Inr ()
        else Inl (bantam ''FORBIDDEN''
               (''this administrator cannot access the '' @ scope_words scope @ '' workspace'') 403))"

definition require_recent_mfa :: "app \<Rightarrow> env \<Rightarrow> parsed_token \<Rightarrow> failure + unit" where
  "require_recent_mfa app env token =
     (case pt_mfa_at token of
        None \<Rightarrow> Inl (bantam ''MFA_STEP_UP_REQUIRED'' ''Sign in with MFA again before performing this action.'' 403)
      | Some mfa_at \<Rightarrow>
          if en_now env - mfa_at > st_mfa_step_up_ttl (ap_settings app)
          then Inl (bantam ''MFA_STEP_UP_REQUIRED'' ''Sign in with MFA again before performing this action.'' 403)
          else Inr ())"

record admin_user_view =
  av_user_id :: uuid
  av_email :: string
  av_role :: role
  av_status :: user_status
  av_mfa_enabled :: bool
  av_permissions :: "string list"
  av_is_super_admin :: bool
  av_created_at :: timestamp

definition admin_user_payload :: "user_row \<Rightarrow> bool \<Rightarrow> string list \<Rightarrow> settings \<Rightarrow> admin_user_view" where
  "admin_user_payload row mfa_enabled permissions st =
     (let is_super_admin = is_super_admin_email st (ua_email row) in
      \<lparr>av_user_id = ua_user_id row, av_email = ua_email row, av_role = ua_role row,
       av_status = ua_status row, av_mfa_enabled = mfa_enabled,
       av_permissions = (if is_super_admin then ADMIN_PERMISSION_SCOPES else permissions),
       av_is_super_admin = is_super_admin, av_created_at = ua_created_at row\<rparr>)"

section \<open>Starting a session\<close>

record session_answer =
  sn_token :: string             \<comment> \<open>the \<open>HttpOnly\<close> cookie\<close>
  sn_csrf_token :: string        \<comment> \<open>the readable cookie and the body\<close>
  sn_max_age :: int
  sn_secure :: bool
  sn_expires_at :: timestamp
  sn_role :: role

definition issue_session ::
  "app \<Rightarrow> env \<Rightarrow> principal \<Rightarrow> string list \<Rightarrow> timestamp option \<Rightarrow> failure + session_answer" where
  "issue_session app env p auth_methods mfa_at =
     andthen (issue (li_jwt_encode (ap_lib app)) (ap_auth app) p auth_methods mfa_at (en_jti env) (en_now env))
       (\<lambda>(token, expires_at).
         Inr \<lparr>sn_token = token, sn_csrf_token = en_csrf env,
              sn_max_age = st_jwt_ttl (ap_settings app) div 1000000,
              sn_secure = st_secure_cookies (ap_settings app),
              sn_expires_at = expires_at, sn_role = pr_role p\<rparr>)"

definition method_text :: "mfa_method \<Rightarrow> string" where
  "method_text m = (case m of PASSKEY \<Rightarrow> ''passkey'' | TOTP \<Rightarrow> ''totp'')"

text \<open>
  The method of a passkey goes into the session as \<open>passkey\<close>, which \<open>AuthService.issue\<close>
  refuses: such a login ends in an internal error after both audit records were written.
\<close>

definition finish_mfa_session :: "app \<Rightarrow> env \<Rightarrow> api_request \<Rightarrow> mfa_completion \<Rightarrow> session_answer handler" where
  "finish_mfa_session app env req completion =
     (let p = \<lparr>pr_user_id = mc_user_id completion, pr_role = mc_role completion,
               pr_customer_id = mc_customer_id completion\<rparr>;
          user_id = uuid_str (pr_user_id p);
          meth = method_text (mc_method completion);
          assurance_method = (if meth = ''totp'' then ''otp'' else meth) in
      run_then
        (if mc_enrolled completion
         then audited (request_audit app req user_id ''MFA_FACTOR_ENROLLED'' ''user_account'' user_id
                (JObj [(''method'', JStr meth)])) (en_audit env 0)
         else returning ()) (\<lambda>_.
      run_then
        (audited (request_audit app req user_id ''LOGIN_SUCCEEDED'' ''user_account'' user_id
           (JObj [(''amr'', JList [JStr ''pwd'', JStr assurance_method])])) (en_audit env 1)) (\<lambda>_.
        reading (\<lambda>_. issue_session app env p [''pwd'', assurance_method] (Some (en_now env))))))"

end
