(* ===== verification/Api_Auth.thy ===== *)
theory Api_Auth
  imports Api_Base
begin

text \<open>
  The handlers of \<open>register_routes\<close> in \<open>bantam/api.py\<close>: registration, login, the second
  factor, logout, the profile and the KYC submission, with the request schemas of
  \<open>bantam/schemas.py\<close> they read.

  A handler gets the session its route demands as \<open>parsed_token\<close>; the checks before it are in
  theory \<open>Api\<close>. The response is a record, or the rows the JSON is made of.
\<close>

section \<open>Input of the routes\<close>

record register_input =
  ri_legal_name :: string
  ri_date_of_birth :: string
  ri_email :: string
  ri_phone :: string
  ri_password :: string

record credentials_input =                     \<comment> \<open>\<open>AspisAuditorRegisterRequest\<close>, \<open>LoginRequest\<close>\<close>
  ci_email :: string
  ci_password :: string

definition valid_register_request :: "register_input \<Rightarrow> bool" where
  "valid_register_request i \<longleftrightarrow>
     length_in 2 120 (ri_legal_name i) \<and> length_in 10 10 (ri_date_of_birth i) \<and>
     length_in 3 254 (ri_email i) \<and> length_in 0 32 (ri_phone i) \<and> length_in 14 128 (ri_password i)"

definition valid_auditor_request :: "credentials_input \<Rightarrow> bool" where
  "valid_auditor_request i \<longleftrightarrow> length_in 3 254 (ci_email i) \<and> length_in 14 128 (ci_password i)"

definition valid_login_request :: "credentials_input \<Rightarrow> bool" where
  "valid_login_request i \<longleftrightarrow> length_in 3 254 (ci_email i) \<and> length_in 1 128 (ci_password i)"

definition valid_setup_request :: "string \<Rightarrow> string \<Rightarrow> bool" where
  "valid_setup_request meth label \<longleftrightarrow> meth \<in> set [''passkey'', ''totp''] \<and> length_in 0 80 label"

definition valid_totp_request :: "string \<Rightarrow> bool" where
  "valid_totp_request code \<longleftrightarrow> is_totp_code code"

definition valid_enrollment_request :: "string \<Rightarrow> string \<Rightarrow> string \<Rightarrow> bool" where
  "valid_enrollment_request password meth label \<longleftrightarrow>
     length_in 1 128 password \<and> meth \<in> set [''passkey'', ''totp''] \<and> length_in 0 80 label"

text \<open>\<open>EMAIL_PATTERN.fullmatch\<close>: one at sign, no white space, a dot inside the domain.\<close>

definition EMAIL_PATTERN :: "string \<Rightarrow> bool" where
  "EMAIL_PATTERN s \<longleftrightarrow>
     \<not> list_ex py_isspace s \<and>
     (case py_split (CHR ''@'') s of
        [local, domain] \<Rightarrow>
          local \<noteq> [] \<and> list_ex (\<lambda>i. domain ! i = CHR ''.'') [1..<length domain - 1]
      | _ \<Rightarrow> False)"

section \<open>Registration\<close>

definition kyc_str :: "kyc_status \<Rightarrow> string" where
  "kyc_str k = (case k of PENDING_KYC \<Rightarrow> ''PENDING_KYC'' | PENDING_REVIEW \<Rightarrow> ''PENDING_REVIEW''
                | KYC_VERIFIED \<Rightarrow> ''KYC_VERIFIED'' | KYC_REJECTED \<Rightarrow> ''KYC_REJECTED'')"

definition new_customer :: "env \<Rightarrow> string \<Rightarrow> date \<Rightarrow> string \<Rightarrow> string \<Rightarrow> customer_row" where
  "new_customer env legal_name date_of_birth email phone =
     \<lparr>cu_customer_id = en_uuid env 0, cu_legal_name = legal_name,
      cu_date_of_birth = date_str date_of_birth, cu_email = email, cu_phone = Some phone,
      cu_kyc_status = PENDING_KYC, cu_risk_rating = RATING_LOW, cu_status = CUSTOMER_ACTIVE,
      cu_created_at = en_db_now env, cu_updated_at = en_db_now env\<rparr>"

definition new_user :: "env \<Rightarrow> uuid \<Rightarrow> string \<Rightarrow> string \<Rightarrow> role \<Rightarrow> uuid option \<Rightarrow> user_row" where
  "new_user env user_id email password_hash r customer_id =
     \<lparr>ua_user_id = user_id, ua_email = email, ua_password_hash = password_hash, ua_role = r,
      ua_customer_id = customer_id, ua_status = USER_ACTIVE, ua_mfa_enabled = False,
      ua_created_at = en_db_now env, ua_updated_at = en_db_now env\<rparr>"

definition register_body ::
  "app \<Rightarrow> env \<Rightarrow> api_request \<Rightarrow> string \<Rightarrow> date \<Rightarrow> string \<Rightarrow> string \<Rightarrow> string \<Rightarrow> db \<Rightarrow> failure + unit \<times> db" where
  "register_body app env req legal_name date_of_birth email phone password_hash d =
     (let customer_id = en_uuid env 0; user_id = en_uuid env 1 in
      andthen (insert_customer (new_customer env legal_name date_of_birth email phone) d) (\<lambda>d.
      andthen (insert_user (new_user env user_id email password_hash CUSTOMER (Some customer_id)) d) (\<lambda>d.
      andthen (insert_outbox (outbox_pending (en_uuid env 2) ''customer'' customer_id ''customer.created.v1''
        (JObj [(''customer_id'', JStr (uuid_str customer_id)), (''kyc_status'', JStr (kyc_str PENDING_KYC))])
        (en_db_now env)) d) (\<lambda>d.
      andthen (audit_record (request_audit app req (uuid_str user_id) ''CUSTOMER_REGISTERED'' ''customer''
        (uuid_str customer_id) (JObj [])) (en_audit env 0) d) (\<lambda>d. Inr ((), d))))))"

definition unless_duplicate :: "unit handler \<Rightarrow> unit handler" where
  "unless_duplicate = handling (\<lambda>e. case e of UniqueViolation _ \<Rightarrow> Some (returning ()) | _ \<Rightarrow> None)"

definition hashed_password :: "app \<Rightarrow> env \<Rightarrow> string \<Rightarrow> string list \<Rightarrow> failure + string" where
  "hashed_password app env password disallowed_values =
     (case hash_password (li_bcrypt_hash (ap_lib app)) (en_salt env) password disallowed_values of
        Inl (ValueError problem) \<Rightarrow> Inl (validation problem)
      | r \<Rightarrow> r)"

definition CUSTOMER_ACCEPTED :: string where
  "CUSTOMER_ACCEPTED = ''If eligible, the synthetic customer profile is ready for sign-in.''"

definition AUDITOR_ACCEPTED :: string where
  "AUDITOR_ACCEPTED = ''If eligible, your Aspis auditor request is awaiting administrator approval.''"

definition register :: "app \<Rightarrow> env \<Rightarrow> api_request \<Rightarrow> register_input \<Rightarrow> string handler" where
  "register app env req input =
     (let legal_name = py_strip (ri_legal_name input); email = py_lower (py_strip (ri_email input));
          phone = py_strip (ri_phone input) in
      run_then (enforce_auth_rate_limit app env req ''register'' email) (\<lambda>_.
        if length legal_name < 2 then raising (validation ''legal_name is required'')
        else if \<not> EMAIL_PATTERN email then raising (validation ''email is invalid'')
        else case date_of_text (ri_date_of_birth input) of
          None \<Rightarrow> raising (validation ''customer must be at least 18 years old'')
        | Some date_of_birth \<Rightarrow>
            if date_less (years_before 18 (date_of (en_now env))) date_of_birth
            then raising (validation ''customer must be at least 18 years old'')
            else
              run_then (reading (\<lambda>_. hashed_password app env (ri_password input) [email, legal_name])) (\<lambda>password_hash.
              run_then (unless_duplicate (on_db (in_transaction
                (register_body app env req legal_name date_of_birth email phone password_hash)))) (\<lambda>_.
              returning CUSTOMER_ACCEPTED))))"

definition insert_auditor_request :: "auditor_request_row \<Rightarrow> db \<Rightarrow> failure + db" where
  "insert_auditor_request r d =
     (if (ar_status r = REQ_PENDING) \<noteq> (ar_decided_by r = None) \<or> (ar_decided_by r = None) \<noteq> (ar_decided_at r = None)
      then Inl (CheckViolation ''aspis_auditor_requests_check'')
      else if known ar_request_id (ar_request_id r) (aspis_auditor_requests d)
      then Inl (UniqueViolation ''aspis_auditor_requests_pkey'')
      else if known ar_user_id (ar_user_id r) (aspis_auditor_requests d)
      then Inl (UniqueViolation ''aspis_auditor_requests_user_id_key'')
      else if \<not> known ua_user_id (ar_user_id r) (user_accounts d)
      then Inl (ForeignKeyViolation ''aspis_auditor_requests_user_id_fkey'')
      else Inr (d\<lparr>aspis_auditor_requests := aspis_auditor_requests d @ [r]\<rparr>))"

definition auditor_body :: "app \<Rightarrow> env \<Rightarrow> api_request \<Rightarrow> string \<Rightarrow> string \<Rightarrow> db \<Rightarrow> failure + unit \<times> db" where
  "auditor_body app env req email password_hash d =
     (let user_id = en_uuid env 0; request_id = en_uuid env 1 in
      andthen (insert_user (new_user env user_id email password_hash PENDING_APPROVAL None) d) (\<lambda>d.
      andthen (insert_auditor_request
        \<lparr>ar_request_id = request_id, ar_user_id = user_id, ar_status = REQ_PENDING, ar_decided_by = None,
         ar_decision_reason = None, ar_requested_at = en_db_now env, ar_decided_at = None\<rparr> d) (\<lambda>d.
      andthen (audit_record (request_audit app req (uuid_str user_id) ''ASPIS_AUDITOR_REQUESTED''
        ''aspis_auditor_request'' (uuid_str request_id)
        (JObj [(''requested_role'', JStr (role_str ASPIS_AUDITOR))])) (en_audit env 0) d) (\<lambda>d. Inr ((), d)))))"

definition register_aspis_auditor :: "app \<Rightarrow> env \<Rightarrow> api_request \<Rightarrow> credentials_input \<Rightarrow> string handler" where
  "register_aspis_auditor app env req input =
     (let email = py_lower (py_strip (ci_email input)) in
      run_then (enforce_auth_rate_limit app env req ''register'' email) (\<lambda>_.
        if \<not> EMAIL_PATTERN email then raising (validation ''email is invalid'')
        else
          run_then (reading (\<lambda>_. hashed_password app env (ci_password input) [email, ''aspis auditor''])) (\<lambda>password_hash.
          run_then (unless_duplicate (on_db (in_transaction (auditor_body app env req email password_hash)))) (\<lambda>_.
          returning AUDITOR_ACCEPTED))))"

section \<open>Login\<close>

datatype login_answer = SessionStarted session_answer | MfaNeeded mfa_challenge

definition challenge_status :: "mfa_challenge \<Rightarrow> string" where
  "challenge_status g = (if mg_enrollment g then ''mfa_enrollment_required'' else ''mfa_required'')"

text \<open>The end of a login whose password was right, for a user who may have a session.\<close>

definition login_user :: "app \<Rightarrow> env \<Rightarrow> api_request \<Rightarrow> user_row \<Rightarrow> login_answer handler" where
  "login_user app env req user =
     (let p = \<lparr>pr_user_id = ua_user_id user, pr_role = ua_role user, pr_customer_id = ua_customer_id user\<rparr>;
          user_id = uuid_str (ua_user_id user) in
      run_then (on_db (begin_login (li_mfa (ap_lib app)) (ap_mfa app) (en_mfa env) user)) (\<lambda>challenge.
        case challenge of
          Some g \<Rightarrow>
            run_then (audited (request_audit app req user_id ''LOGIN_PASSWORD_VERIFIED'' ''user_account'' user_id
              (JObj [(''next_step'', JStr (challenge_status g))])) (en_audit env 0)) (\<lambda>_.
            returning (MfaNeeded g))
        | None \<Rightarrow>
            run_then (audited (request_audit app req user_id ''LOGIN_SUCCEEDED'' ''user_account'' user_id
              (JObj [(''amr'', JList [JStr ''pwd''])])) (en_audit env 0)) (\<lambda>_.
            run_then (reading (\<lambda>_. issue_session app env p [''pwd''] None)) (\<lambda>session.
            returning (SessionStarted session)))))"

definition login :: "app \<Rightarrow> env \<Rightarrow> api_request \<Rightarrow> credentials_input \<Rightarrow> login_answer handler" where
  "login app env req input =
     (let email = py_lower (py_strip (ci_email input)) in
      run_then (enforce_auth_rate_limit app env req ''login'' email) (\<lambda>_.
      asking (\<lambda>d.
        let found = row_get ua_email email (user_accounts d);
            password_hash = password_hash_for_check (li_dummy_hash (ap_lib app)) (map_option ua_password_hash found);
            password_valid = check_password (li_bcrypt_check (ap_lib app)) password_hash (ci_password input);
            rejected =
              run_then (audited (request_audit app req email ''LOGIN_FAILED'' ''user_account'' email
                (JObj [(''reason'', JStr ''invalid_credentials'')])) (en_audit env 0)) (\<lambda>_.
              raising (bantam ''INVALID_CREDENTIALS'' ''email or password is incorrect'' 401)) in
        case found of
          None \<Rightarrow> rejected
        | Some user \<Rightarrow>
            if \<not> (ua_status user = USER_ACTIVE \<and> password_valid) then rejected
            else if ua_role user = PENDING_APPROVAL then
              run_then (audited (request_audit app req (uuid_str (ua_user_id user)) ''LOGIN_BLOCKED_PENDING_APPROVAL''
                ''user_account'' (uuid_str (ua_user_id user)) (JObj [])) (en_audit env 0)) (\<lambda>_.
              raising (bantam ''APPROVAL_PENDING''
                ''Your Aspis auditor request is awaiting administrator approval.'' 403))
            else login_user app env req user)))"

section \<open>The second factor\<close>

definition setup_mfa :: "app \<Rightarrow> env \<Rightarrow> api_request \<Rightarrow> uuid \<Rightarrow> string \<Rightarrow> string \<Rightarrow> mfa_setup handler" where
  "setup_mfa app env req tid meth label =
     run_then (enforce_auth_rate_limit app env req ''mfa-setup'' (uuid_str tid)) (\<lambda>_.
       on_db (prepare_enrollment (li_mfa (ap_lib app)) (ap_mfa app) (en_mfa env) tid meth label))"

definition complete_passkey_mfa ::
  "app \<Rightarrow> env \<Rightarrow> api_request \<Rightarrow> uuid \<Rightarrow> (string \<times> json) list \<Rightarrow> session_answer handler" where
  "complete_passkey_mfa app env req tid credential =
     run_then (enforce_auth_rate_limit app env req ''mfa-passkey'' (uuid_str tid)) (\<lambda>_.
     run_then (on_db (complete_passkey (li_mfa (ap_lib app)) (ap_mfa app) (en_mfa env) tid credential))
       (finish_mfa_session app env req))"

definition complete_totp_mfa :: "app \<Rightarrow> env \<Rightarrow> api_request \<Rightarrow> uuid \<Rightarrow> string \<Rightarrow> session_answer handler" where
  "complete_totp_mfa app env req tid code =
     run_then (enforce_auth_rate_limit app env req ''mfa-totp'' (uuid_str tid)) (\<lambda>_.
     run_then (on_db (complete_totp (li_mfa (ap_lib app)) (en_mfa env) tid code)) (finish_mfa_session app env req))"

definition mfa_state :: "app \<Rightarrow> principal \<Rightarrow> mfa_description handler" where
  "mfa_state app p = reading (\<lambda>d. Inr (describe (ap_mfa app) d (pr_user_id p) (pr_role p)))"

definition begin_mfa_enrollment ::
  "app \<Rightarrow> env \<Rightarrow> api_request \<Rightarrow> parsed_token \<Rightarrow> string \<Rightarrow> string \<Rightarrow> string \<Rightarrow> mfa_setup handler" where
  "begin_mfa_enrollment app env req token password meth label =
     (let user_id = pr_user_id (pt_principal token) in
      asking (\<lambda>d.
        let user = find (\<lambda>u. ua_user_id u = user_id \<and> ua_status u = USER_ACTIVE) (user_accounts d);
            identifier = (case user of None \<Rightarrow> uuid_str user_id | Some u \<Rightarrow> ua_email u);
            password_hash = password_hash_for_check (li_dummy_hash (ap_lib app)) (map_option ua_password_hash user) in
        run_then (enforce_auth_rate_limit app env req ''mfa-enroll'' identifier) (\<lambda>_.
          if \<not> check_password (li_bcrypt_check (ap_lib app)) password_hash password
          then raising (bantam ''INVALID_CREDENTIALS'' ''Password verification failed.'' 401)
          else
            run_then (on_db (begin_authenticated_enrollment (ap_mfa app) (en_mfa env) user_id
              (pt_jti token) (pt_expires_at token))) (\<lambda>tid.
            run_then (on_db (prepare_enrollment (li_mfa (ap_lib app)) (ap_mfa app) (en_mfa env) tid meth label)) (\<lambda>setup.
            run_then (audited (request_audit app req (uuid_str user_id) ''MFA_ENROLLMENT_STARTED'' ''user_account''
              (uuid_str user_id) (JObj [(''method'', JStr meth)])) (en_audit env 0)) (\<lambda>_.
            returning setup))))))"

definition remove_passkey_route ::
  "app \<Rightarrow> env \<Rightarrow> api_request \<Rightarrow> parsed_token \<Rightarrow> uuid \<Rightarrow> unit handler" where
  "remove_passkey_route app env req token credential_id =
     (let p = pt_principal token in
      run_then (reading (\<lambda>_. require_recent_mfa app env token)) (\<lambda>_.
      run_then (on_db (remove_passkey (pr_user_id p) (pr_role p) credential_id (en_db_now env))) (\<lambda>_.
        audited (request_audit app req (uuid_str (pr_user_id p)) ''MFA_FACTOR_REMOVED'' ''webauthn_credential''
          (uuid_str credential_id) (JObj [(''method'', JStr ''passkey'')])) (en_audit env 0))))"

definition remove_totp_route :: "app \<Rightarrow> env \<Rightarrow> api_request \<Rightarrow> parsed_token \<Rightarrow> unit handler" where
  "remove_totp_route app env req token =
     (let p = pt_principal token in
      run_then (reading (\<lambda>_. require_recent_mfa app env token)) (\<lambda>_.
      run_then (on_db (remove_totp (pr_user_id p) (pr_role p) (en_db_now env))) (\<lambda>_.
        audited (request_audit app req (uuid_str (pr_user_id p)) ''MFA_FACTOR_REMOVED'' ''totp_credential''
          (uuid_str (pr_user_id p)) (JObj [(''method'', JStr ''totp'')])) (en_audit env 0))))"

section \<open>The session and the profile\<close>

definition logout :: "app \<Rightarrow> env \<Rightarrow> api_request \<Rightarrow> parsed_token \<Rightarrow> unit handler" where
  "logout app env req token =
     (let user_id = uuid_str (pr_user_id (pt_principal token)) in
      run_then (audited (request_audit app req user_id ''LOGOUT_SUCCEEDED'' ''user_account'' user_id (JObj []))
        (en_audit env 0)) (\<lambda>_.
      on_db (\<lambda>d. statement (revoke_access_token token (en_db_now env)) d)))"

record profile =
  pf_user_id :: uuid
  pf_email :: string
  pf_role :: role
  pf_status :: user_status
  pf_mfa_enabled :: bool
  pf_customer :: "customer_row option"
  pf_is_super_admin :: bool
  pf_admin_permissions :: "string list"

definition me :: "app \<Rightarrow> principal \<Rightarrow> profile handler" where
  "me app p = reading (\<lambda>d.
     case row_get ua_user_id (pr_user_id p) (user_accounts d) of
       None \<Rightarrow> Inl (bantam ''NOT_FOUND'' ''user account was not found'' 404)
     | Some u \<Rightarrow>
         let (is_super_admin, permissions) = describe_admin_access (ap_settings app) p d in
         Inr \<lparr>pf_user_id = ua_user_id u, pf_email = ua_email u, pf_role = ua_role u, pf_status = ua_status u,
              pf_mfa_enabled = has_factor (ua_user_id u) d,
              pf_customer = (case ua_customer_id u of
                               None \<Rightarrow> None | Some c \<Rightarrow> row_get cu_customer_id c (customers d)),
              pf_is_super_admin = is_super_admin, pf_admin_permissions = permissions\<rparr>)"

definition may_submit_kyc :: "customer_row \<Rightarrow> bool" where
  "may_submit_kyc c \<longleftrightarrow> cu_kyc_status c \<in> set [PENDING_KYC, KYC_REJECTED]"

definition set_kyc :: "uuid \<Rightarrow> (customer_row \<Rightarrow> bool) \<Rightarrow> kyc_status \<Rightarrow> timestamp \<Rightarrow> db \<Rightarrow> db" where
  "set_kyc customer_id P kyc db_now d =
     d\<lparr>customers := rows_update (\<lambda>c. cu_customer_id c = customer_id \<and> P c)
         (\<lambda>c. c\<lparr>cu_kyc_status := kyc, cu_updated_at := db_now\<rparr>) (customers d)\<rparr>"

definition update_kyc ::
  "uuid \<Rightarrow> (customer_row \<Rightarrow> bool) \<Rightarrow> kyc_status \<Rightarrow> timestamp \<Rightarrow> string \<Rightarrow> db \<Rightarrow> failure + db" where
  "update_kyc customer_id P kyc db_now message d =
     (if list_ex (\<lambda>c. cu_customer_id c = customer_id \<and> P c) (customers d)
      then Inr (set_kyc customer_id P kyc db_now d)
      else Inl (bantam ''INVALID_KYC_STATE'' message 409))"

text \<open>
  The update commits by itself: if the audit record then fails, the submission stays without its
  audit event.
\<close>

definition submit_kyc :: "app \<Rightarrow> env \<Rightarrow> api_request \<Rightarrow> principal \<Rightarrow> kyc_status handler" where
  "submit_kyc app env req p =
     (case pr_customer_id p of
        None \<Rightarrow> raising err_FORBIDDEN
      | Some customer_id \<Rightarrow>
          run_then (on_db (statement (update_kyc customer_id may_submit_kyc PENDING_REVIEW (en_db_now env)
            ''KYC cannot be submitted in its current state''))) (\<lambda>_.
          run_then (audited (request_audit app req (uuid_str (pr_user_id p)) ''KYC_SUBMITTED'' ''customer''
            (uuid_str customer_id) (JObj [])) (en_audit env 0)) (\<lambda>_.
          returning PENDING_REVIEW)))"

end
