(* ===== verification/Api_Accounts.thy ===== *)
theory Api_Accounts
  imports Api_Auth
begin

text \<open>
  The handlers of \<open>register_account_routes\<close> and \<open>register_transfer_routes\<close> in
  \<open>bantam/api.py\<close>: the customer's accounts, transactions and notifications, the account-status
  claim, SCA challenges and transfers. Every read is restricted to the customer of the session.
\<close>

section \<open>Input of the routes\<close>

record transfer_input =
  ti_source_account_id :: uuid
  ti_destination_account_id :: uuid
  ti_amount_minor :: int
  ti_currency :: string
  ti_description :: string
  ti_sca_challenge_id :: "uuid option"
  ti_sca_code :: string

definition valid_amount :: "int \<Rightarrow> bool" where
  "valid_amount amount_minor \<longleftrightarrow> 0 < amount_minor \<and> amount_minor \<le> 100000000"

definition valid_transfer_request :: "transfer_input \<Rightarrow> bool" where
  "valid_transfer_request i \<longleftrightarrow>
     valid_amount (ti_amount_minor i) \<and> length_in 3 3 (ti_currency i) \<and>
     length_in 0 140 (ti_description i) \<and> length_in 0 6 (ti_sca_code i) \<and> list_all is_digit (ti_sca_code i)"

text \<open>\<open>ORDER BY ... DESC LIMIT\<close>.\<close>

definition newest :: "int \<Rightarrow> ('r \<Rightarrow> timestamp) \<Rightarrow> 'r list \<Rightarrow> 'r list" where
  "newest limit created rows = take (nat limit) (sort_key (\<lambda>r. - created r) rows)"

section \<open>Accounts\<close>

record account_view =
  aw_account_id :: uuid
  aw_customer_id :: "uuid option"
  aw_account_reference :: string
  aw_account_type :: account_type
  aw_currency :: string
  aw_status :: account_status
  aw_balance_minor :: int
  aw_opened_at :: timestamp

definition account_view :: "account_row \<Rightarrow> int \<Rightarrow> account_view" where
  "account_view a balance_minor =
     \<lparr>aw_account_id = ba_account_id a, aw_customer_id = ba_customer_id a,
      aw_account_reference = ba_account_reference a, aw_account_type = ba_account_type a,
      aw_currency = ba_currency a, aw_status = ba_status a, aw_balance_minor = balance_minor,
      aw_opened_at = ba_opened_at a\<rparr>"

text \<open>\<open>bank_accounts JOIN account_balances USING (account_id)\<close>.\<close>

definition accounts_with_balance :: "(account_row \<Rightarrow> bool) \<Rightarrow> db \<Rightarrow> account_view list" where
  "accounts_with_balance P d =
     concat (map (\<lambda>a. case row_get ab_account_id (ba_account_id a) (account_balances d) of
                        None \<Rightarrow> [] | Some b \<Rightarrow> [account_view a (ab_current_balance_minor b)])
       (filter P (bank_accounts d)))"

definition of_customer :: "principal \<Rightarrow> (uuid \<Rightarrow> db \<Rightarrow> failure + 'a) \<Rightarrow> 'a handler" where
  "of_customer p q =
     (case pr_customer_id p of None \<Rightarrow> raising err_FORBIDDEN | Some customer_id \<Rightarrow> reading (q customer_id))"

definition list_accounts :: "principal \<Rightarrow> account_view list handler" where
  "list_accounts p = of_customer p (\<lambda>customer_id d.
     Inr (sort_key aw_opened_at (accounts_with_balance (\<lambda>a. ba_customer_id a = Some customer_id) d)))"

definition account_reference :: "uuid \<Rightarrow> string" where
  "account_reference account_id = ''XB-'' @ py_upper (take 12 (uuid_hex account_id))"

definition new_account :: "app \<Rightarrow> env \<Rightarrow> uuid \<Rightarrow> string \<Rightarrow> account_row" where
  "new_account app env customer_id currency =
     (let account_id = en_uuid env 0; reference = account_reference account_id in
      \<lparr>ba_account_id = account_id, ba_customer_id = Some customer_id,
       ba_account_number_hash = li_sha256_hex (ap_lib app) reference, ba_account_reference = reference,
       ba_account_type = CURRENT, ba_currency = currency, ba_status = ACCOUNT_ACTIVE,
       ba_allow_negative = False, ba_opened_at = en_now env\<rparr>)"

definition open_account_body ::
  "app \<Rightarrow> env \<Rightarrow> api_request \<Rightarrow> principal \<Rightarrow> uuid \<Rightarrow> string \<Rightarrow> db \<Rightarrow> failure + unit \<times> db" where
  "open_account_body app env req p customer_id currency d =
     (let account_id = en_uuid env 0 in
      andthen (insert_account (new_account app env customer_id currency) d) (\<lambda>d.
      andthen (insert_balance
        \<lparr>ab_account_id = account_id, ab_available_balance_minor = 0, ab_current_balance_minor = 0,
         ab_currency = currency, ab_last_ledger_entry_id = None, ab_updated_at = en_db_now env\<rparr> d) (\<lambda>d.
      andthen (insert_outbox (outbox_pending (en_uuid env 1) ''account'' account_id ''account.opened.v1''
        (JObj [(''account_id'', JStr (uuid_str account_id)), (''customer_id'', JStr (uuid_str customer_id)),
               (''currency'', JStr currency)]) (en_db_now env)) d) (\<lambda>d.
      andthen (audit_record (request_audit app req (uuid_str (pr_user_id p)) ''ACCOUNT_OPENED'' ''bank_account''
        (uuid_str account_id) (JObj [])) (en_audit env 0) d) (\<lambda>d. Inr ((), d))))))"

definition open_account ::
  "app \<Rightarrow> env \<Rightarrow> api_request \<Rightarrow> principal \<Rightarrow> string \<Rightarrow> account_view handler" where
  "open_account app env req p currency_input =
     (case pr_customer_id p of
        None \<Rightarrow> raising err_FORBIDDEN
      | Some customer_id \<Rightarrow>
          let stripped = py_upper (py_strip currency_input);
              currency = (if stripped = [] then ''GBP'' else stripped) in
          if currency \<noteq> ''GBP''
          then raising (validation_error ''only GBP is supported in V1'' ''UNSUPPORTED_CURRENCY'')
          else asking (\<lambda>d.
            case row_get cu_customer_id customer_id (customers d) of
              None \<Rightarrow> raising (bantam ''NOT_FOUND'' ''customer profile was not found'' 404)
            | Some customer \<Rightarrow>
                if cu_kyc_status customer \<noteq> KYC_VERIFIED \<or> cu_status customer \<noteq> CUSTOMER_ACTIVE
                then raising (bantam ''KYC_NOT_VERIFIED'' ''an active, KYC-verified customer is required'' 422)
                else
                  run_then (on_db (in_transaction (open_account_body app env req p customer_id currency))) (\<lambda>_.
                  returning (account_view (new_account app env customer_id currency) 0))))"

definition get_account :: "principal \<Rightarrow> uuid \<Rightarrow> account_view handler" where
  "get_account p account_id = of_customer p (\<lambda>customer_id d.
     case accounts_with_balance (\<lambda>a. ba_account_id a = account_id \<and> ba_customer_id a = Some customer_id) d of
       [] \<Rightarrow> Inl (bantam ''NOT_FOUND'' ''account was not found'' 404)
     | account # _ \<Rightarrow> Inr account)"

definition list_account_transactions ::
  "api_request \<Rightarrow> principal \<Rightarrow> uuid \<Rightarrow> transaction_view list handler" where
  "list_account_transactions req p account_id = of_customer p (\<lambda>customer_id d.
     if \<not> list_ex (\<lambda>a. ba_account_id a = account_id \<and> ba_customer_id a = Some customer_id) (bank_accounts d)
     then Inl (bantam ''NOT_FOUND'' ''account was not found'' 404)
     else Inr (map transaction_payload (newest (query_limit req 50 100) tx_created_at
            (filter (\<lambda>t. tx_source_account_id t = account_id \<or> tx_destination_account_id t = account_id)
              (transactions d)))))"

definition list_notifications :: "api_request \<Rightarrow> principal \<Rightarrow> notification_row list handler" where
  "list_notifications req p = of_customer p (\<lambda>customer_id d.
     Inr (newest (query_limit req 50 100) no_created_at
       (filter (\<lambda>n. no_customer_id n = customer_id) (notifications d))))"

section \<open>The account-status claim\<close>

record claim_answer =
  cl_claim_id :: uuid
  cl_subject_id :: string
  cl_has_active_account :: bool
  cl_kyc_status :: string
  cl_valid_until :: timestamp
  cl_proof_jwt :: string

definition account_status_claim :: "app \<Rightarrow> env \<Rightarrow> api_request \<Rightarrow> principal \<Rightarrow> claim_answer handler" where
  "account_status_claim app env req p =
     (case pr_customer_id p of
        None \<Rightarrow> raising err_FORBIDDEN
      | Some customer_id \<Rightarrow> asking (\<lambda>d.
          case row_get cu_customer_id customer_id (customers d) of
            None \<Rightarrow> raising (bantam ''NOT_FOUND'' ''customer profile was not found'' 404)
          | Some customer \<Rightarrow>
              let claim_id = en_uuid env 0;
                  has_active_account = list_ex (\<lambda>a. ba_customer_id a = Some customer_id \<and>
                    ba_status a = ACCOUNT_ACTIVE) (bank_accounts d);
                  kyc = py_lower (py_removeprefix (kyc_str (cu_kyc_status customer)) ''KYC_'');
                  (proof_jwt, valid_until) = issue_account_status (li_jwt_encode (ap_lib app)) (ap_claims app)
                    claim_id customer_id has_active_account kyc (en_now env) in
              run_then (audited (request_audit app req (uuid_str (pr_user_id p)) ''FEDERATION_CLAIM_ISSUED'' ''claim''
                (uuid_str claim_id) (JObj [(''claim_type'', JStr ''bank_account_status'')])) (en_audit env 0)) (\<lambda>_.
              returning \<lparr>cl_claim_id = claim_id, cl_subject_id = ''did:xid:person:'' @ uuid_str customer_id,
                         cl_has_active_account = has_active_account, cl_kyc_status = kyc,
                         cl_valid_until = valid_until, cl_proof_jwt = proof_jwt\<rparr>)))"

section \<open>Transfers\<close>

definition create_sca_challenge ::
  "app \<Rightarrow> env \<Rightarrow> api_request \<Rightarrow> principal \<Rightarrow> uuid \<Rightarrow> uuid \<Rightarrow> int \<Rightarrow> sca_challenge handler" where
  "create_sca_challenge app env req p src dst amount_minor =
     run_then (enforce_auth_rate_limit app env req ''sca-challenge'' (uuid_str (pr_user_id p))) (\<lambda>_.
     run_then (on_db (sca_create (li_hmac (ap_lib app)) (ap_sca app) p src dst amount_minor (en_sca env))) (\<lambda>challenge.
       let (action, resource_id) =
             (if ch_required challenge then (''SCA_CHALLENGE_CREATED'', uuid_str (ch_challenge_id challenge))
              else (''SCA_NOT_REQUIRED'', uuid_str src)) in
       run_then (audited (request_audit app req (uuid_str (pr_user_id p)) action ''sca_challenge'' resource_id
         (JObj [(''source_account_id'', JStr (uuid_str src)), (''destination_account_id'', JStr (uuid_str dst)),
                (''amount_minor'', JInt amount_minor)])) (en_audit env 0)) (\<lambda>_.
       returning challenge)))"

definition transfer_command_of ::
  "api_request \<Rightarrow> principal \<Rightarrow> string \<Rightarrow> transfer_input \<Rightarrow> transfer_command" where
  "transfer_command_of req p idempotency_key i =
     \<lparr>tc_request_id = rq_request_id req, tc_idempotency_key = idempotency_key, tc_actor = p,
      tc_source_account_id = ti_source_account_id i, tc_destination_account_id = ti_destination_account_id i,
      tc_amount_minor = ti_amount_minor i, tc_currency = ti_currency i, tc_description = ti_description i,
      tc_sca_challenge_id = ti_sca_challenge_id i, tc_sca_code = ti_sca_code i,
      tc_operator_override = False, tc_transaction_type = Some TRANSFER, tc_reverses_transaction_id = None\<rparr>"

definition ledger_transfer :: "app \<Rightarrow> env \<Rightarrow> transfer_command \<Rightarrow> (transaction_view \<times> bool) handler" where
  "ledger_transfer app env command =
     on_db (bank_transfer (li_hmac (ap_lib app)) (ap_sca app) command (en_transfer env))"

text \<open>Only a stable error of the ledger is audited as a failed transfer, in a statement of its own.\<close>

definition create_transfer_route ::
  "app \<Rightarrow> env \<Rightarrow> api_request \<Rightarrow> principal \<Rightarrow> transfer_input \<Rightarrow> string option
     \<Rightarrow> (transaction_view \<times> bool) handler" where
  "create_transfer_route app env req p i idempotency_key =
     run_then (reading (\<lambda>_. require_idempotency_key idempotency_key)) (\<lambda>key.
     run_then (if sca_required (ap_sca app) (ti_amount_minor i)
               then enforce_auth_rate_limit app env req ''sca-verify'' (uuid_str (pr_user_id p))
               else returning ()) (\<lambda>_.
       handling (\<lambda>failed. case failed of
           BantamFailure e \<Rightarrow>
             Some (run_then (audited (request_audit app req (uuid_str (pr_user_id p)) ''TRANSFER_FAILED'' ''bank_account''
               (uuid_str (ti_source_account_id i))
               (JObj [(''destination_account_id'', JStr (uuid_str (ti_destination_account_id i))),
                      (''amount_minor'', JInt (ti_amount_minor i)), (''reason'', JStr (err_message e))]))
               (en_audit env 0)) (\<lambda>_. raising failed))
         | _ \<Rightarrow> None)
         (ledger_transfer app env (transfer_command_of req p key i))))"

definition get_transfer :: "principal \<Rightarrow> uuid \<Rightarrow> transaction_view handler" where
  "get_transfer p tid = of_customer p (\<lambda>customer_id d.
     case find (\<lambda>t. tx_transaction_id t = tid \<and>
            (case (row_get ba_account_id (tx_source_account_id t) (bank_accounts d),
                   row_get ba_account_id (tx_destination_account_id t) (bank_accounts d)) of
               (Some source, Some destination) \<Rightarrow>
                 ba_customer_id source = Some customer_id \<or> ba_customer_id destination = Some customer_id
             | _ \<Rightarrow> False)) (transactions d) of
       None \<Rightarrow> Inl (bantam ''NOT_FOUND'' ''transaction was not found'' 404)
     | Some t \<Rightarrow> Inr (transaction_payload t))"

end
