(* ===== verification/Outbox.thy ===== *)
theory Outbox
  imports Store Calendar
begin

text \<open>
  The transactional outbox: \<open>bantam/events.py\<close>.

  Each of \<open>recover_expired_claims\<close>, \<open>claim\<close>, \<open>release\<close> and \<open>mark_published\<close> is one committed
  database transaction. \<open>publish_batch\<close> is one publisher's batch against a broker that answers
  every message; \<open>outbox_step\<close> is any number of publishers, the broker, crashes and the components
  that insert events, interleaved statement by statement.

  The broker (NATS JetStream or Pub/Sub) is a parameter: \<open>Acked\<close> is an acknowledged publish,
  \<open>Rejected\<close> an error with nothing stored, \<open>LostAck\<close> an error after the broker stored the message.
  The log of stored messages is part of the state.
\<close>

section \<open>Events and envelopes\<close>

record outbox_event =
  ev_event_id :: uuid
  ev_aggregate_id :: uuid
  ev_event_type :: string
  ev_event_version :: int
  ev_payload :: json
  ev_created_at :: timestamp

definition event_of_row :: "outbox_row \<Rightarrow> outbox_event" where
  "event_of_row r =
     \<lparr>ev_event_id = ob_outbox_event_id r, ev_aggregate_id = ob_aggregate_id r, ev_event_type = ob_event_type r,
      ev_event_version = ob_event_version r, ev_payload = ob_payload r, ev_created_at = ob_created_at r\<rparr>"

definition envelope :: "outbox_event \<Rightarrow> json" where
  "envelope ev = JObj
     [(''event_id'', JStr (uuid_str (ev_event_id ev))), (''event_type'', JStr (ev_event_type ev)),
      (''event_version'', JInt (ev_event_version ev)), (''occurred_at'', JStr (isoformat (ev_created_at ev))),
      (''producer'', JStr ''bantam-ledger''), (''correlation_id'', JStr (uuid_str (ev_aggregate_id ev))),
      (''causation_id'', JStr []), (''payload'', ev_payload ev)]"

text \<open>What the two backends add to the message: the deduplication header, or the attributes.\<close>

definition nats_headers :: "outbox_event \<Rightarrow> (string \<times> string) list" where
  "nats_headers ev = [(''Nats-Msg-Id'', uuid_str (ev_event_id ev))]"

definition pubsub_attributes :: "outbox_event \<Rightarrow> (string \<times> string) list" where
  "pubsub_attributes ev =
     [(''event_id'', uuid_str (ev_event_id ev)), (''event_type'', ev_event_type ev),
      (''event_version'', int_str (ev_event_version ev))]"

section \<open>The statements\<close>

definition CLAIM_EXPIRY :: int where "CLAIM_EXPIRY = seconds 60"

definition expired_claim :: "timestamp \<Rightarrow> outbox_row \<Rightarrow> bool" where
  "expired_claim now r \<longleftrightarrow> ob_status r = OB_PUBLISHING \<and>
     (case ob_claimed_at r of None \<Rightarrow> False | Some c \<Rightarrow> c < now - CLAIM_EXPIRY)"

definition recover_expired_claims :: "timestamp \<Rightarrow> db \<Rightarrow> db" where
  "recover_expired_claims now d =
     d\<lparr>outbox_events := rows_update (expired_claim now)
         (\<lambda>r. r\<lparr>ob_status := OB_PENDING, ob_claimed_at := None,
                 ob_last_error := Some ''publisher claim expired before acknowledgement''\<rparr>) (outbox_events d)\<rparr>"

text \<open>
  \<open>ORDER BY created_at FOR UPDATE SKIP LOCKED LIMIT 1\<close>: \<open>locked\<close> are the rows other sessions
  hold. Events of one instant come in table order.
\<close>

definition pending_queue :: "uuid list \<Rightarrow> outbox_row list \<Rightarrow> outbox_row list" where
  "pending_queue locked rows =
     sort_key ob_created_at (filter (\<lambda>r. ob_status r = OB_PENDING \<and> ob_outbox_event_id r \<notin> set locked) rows)"

definition claim :: "uuid list \<Rightarrow> timestamp \<Rightarrow> db \<Rightarrow> outbox_event option \<times> db" where
  "claim locked now d =
     (case pending_queue locked (outbox_events d) of
        [] \<Rightarrow> (None, d)
      | r # _ \<Rightarrow>
          (Some (event_of_row r),
           d\<lparr>outbox_events := rows_update (\<lambda>s. ob_outbox_event_id s = ob_outbox_event_id r)
               (\<lambda>s. s\<lparr>ob_status := OB_PUBLISHING, ob_publish_attempts := ob_publish_attempts s + 1,
                       ob_claimed_at := Some now\<rparr>) (outbox_events d)\<rparr>))"

definition release :: "uuid \<Rightarrow> string \<Rightarrow> db \<Rightarrow> db" where
  "release event_id error d =
     d\<lparr>outbox_events := rows_update (\<lambda>r. ob_outbox_event_id r = event_id)
         (\<lambda>r. r\<lparr>ob_status := OB_PENDING, ob_claimed_at := None, ob_last_error := Some (take 2000 error)\<rparr>)
         (outbox_events d)\<rparr>"

definition mark_published :: "uuid \<Rightarrow> timestamp \<Rightarrow> db \<Rightarrow> db" where
  "mark_published event_id now d =
     d\<lparr>outbox_events := rows_update (\<lambda>r. ob_outbox_event_id r = event_id)
         (\<lambda>r. r\<lparr>ob_status := OB_PUBLISHED, ob_published_at := Some now, ob_claimed_at := None,
                 ob_last_error := None\<rparr>) (outbox_events d)\<rparr>"

section \<open>A batch\<close>

datatype broker_answer = Acked | Rejected string | LostAck string

definition stored :: "broker_answer \<Rightarrow> outbox_event \<Rightarrow> outbox_event list" where
  "stored a ev = (case a of Rejected _ \<Rightarrow> [] | _ \<Rightarrow> [ev])"

fun publish_loop ::
  "(outbox_event \<Rightarrow> json \<Rightarrow> broker_answer) \<Rightarrow> timestamp \<Rightarrow> nat \<Rightarrow> nat \<Rightarrow> db \<times> outbox_event list
     \<Rightarrow> (failure + nat) \<times> db \<times> outbox_event list" where
  "publish_loop broker now 0 published w = (Inr published, w)"
| "publish_loop broker now (Suc k) published (d, log) =
     (case claim [] now d of
        (None, d) \<Rightarrow> (Inr published, d, log)
      | (Some ev, d) \<Rightarrow>
          let answer = broker ev (envelope ev); log = log @ stored answer ev in
          (case answer of
             Acked \<Rightarrow> publish_loop broker now k (published + 1) (mark_published (ev_event_id ev) now d, log)
           | Rejected error \<Rightarrow> (Inl (RuntimeError error), release (ev_event_id ev) error d, log)
           | LostAck error \<Rightarrow> (Inl (RuntimeError error), release (ev_event_id ev) error d, log)))"

definition BATCH :: nat where "BATCH = 50"

definition publish_batch ::
  "(outbox_event \<Rightarrow> json \<Rightarrow> broker_answer) \<Rightarrow> timestamp \<Rightarrow> db \<times> outbox_event list
     \<Rightarrow> (failure + nat) \<times> db \<times> outbox_event list" where
  "publish_batch broker now w = publish_loop broker now BATCH 0 (recover_expired_claims now (fst w), snd w)"

text \<open>\<open>run\<close>: batch after batch; a batch that raises is logged and the next one runs.\<close>

fun outbox_run ::
  "((outbox_event \<Rightarrow> json \<Rightarrow> broker_answer) \<times> timestamp) list \<Rightarrow> db \<times> outbox_event list \<Rightarrow> db \<times> outbox_event list" where
  "outbox_run [] w = w"
| "outbox_run ((broker, now) # bs) w = outbox_run bs (snd (publish_batch broker now w))"

section \<open>What a batch with a broker that acknowledges does\<close>

definition publish_row :: "timestamp \<Rightarrow> outbox_row \<Rightarrow> outbox_row" where
  "publish_row now r = r\<lparr>ob_status := OB_PUBLISHED, ob_publish_attempts := ob_publish_attempts r + 1,
     ob_claimed_at := None, ob_last_error := None, ob_published_at := Some now\<rparr>"

definition publish_rows :: "timestamp \<Rightarrow> uuid list \<Rightarrow> outbox_row list \<Rightarrow> outbox_row list" where
  "publish_rows now ids rows = rows_update (\<lambda>r. ob_outbox_event_id r \<in> set ids) (publish_row now) rows"

lemma claim_then_mark:
  "mark_published i now (d\<lparr>outbox_events := rows_update (\<lambda>s. ob_outbox_event_id s = i)
     (\<lambda>s. s\<lparr>ob_status := OB_PUBLISHING, ob_publish_attempts := ob_publish_attempts s + 1, ob_claimed_at := Some now\<rparr>)
     (outbox_events d)\<rparr>) = d\<lparr>outbox_events := publish_rows now [i] (outbox_events d)\<rparr>"
  by (auto simp: mark_published_def publish_rows_def publish_row_def rows_update_def)

lemma set_pending_queue:
  "set (pending_queue locked rows) = {r \<in> set rows. ob_status r = OB_PENDING \<and> ob_outbox_event_id r \<notin> set locked}"
  by (simp add: pending_queue_def)

lemma distinct_pending_queue:
  "distinct (map ob_outbox_event_id rows) \<Longrightarrow> distinct (map ob_outbox_event_id (pending_queue locked rows))"
  by (simp add: pending_queue_def distinct_map inj_on_def)

lemma pending_queue_publish_rows:
  "pending_queue [] (publish_rows now ids rows) =
     filter (\<lambda>r. ob_outbox_event_id r \<notin> set ids) (pending_queue [] rows)"
proof -
  have "filter (\<lambda>r. ob_status r = OB_PENDING) (publish_rows now ids rows) =
      filter (\<lambda>r. ob_outbox_event_id r \<notin> set ids) (filter (\<lambda>r. ob_status r = OB_PENDING) rows)"
    by (induction rows) (auto simp: publish_rows_def publish_row_def table_simps)
  then show ?thesis by (simp add: pending_queue_def filter_sort)
qed

lemma publish_rows_compose:
  "i \<notin> set ids \<Longrightarrow> publish_rows now ids (publish_rows now [i] rows) = publish_rows now (i # ids) rows"
  by (auto simp: publish_rows_def publish_row_def rows_update_def)

lemma map_publish_rows [simp]: "map ob_outbox_event_id (publish_rows now ids rows) = map ob_outbox_event_id rows"
  by (auto simp: publish_rows_def publish_row_def intro: map_rows_update)

lemma publish_loop_acked:
  assumes "distinct (map ob_outbox_event_id (outbox_events d))"
  shows "publish_loop (\<lambda>_ _. Acked) now k n (d, log) =
    (let q = take k (pending_queue [] (outbox_events d)) in
     (Inr (n + length q), d\<lparr>outbox_events := publish_rows now (map ob_outbox_event_id q) (outbox_events d)\<rparr>,
      log @ map event_of_row q))"
  using assms
proof (induction k arbitrary: n d log)
  case 0
  then show ?case by (simp add: publish_rows_def rows_update_none)
next
  case (Suc k)
  show ?case
  proof (cases "pending_queue [] (outbox_events d)")
    case Nil
    then show ?thesis by (simp add: claim_def publish_rows_def rows_update_none)
  next
    case (Cons r rs)
    let ?d = "d\<lparr>outbox_events := publish_rows now [ob_outbox_event_id r] (outbox_events d)\<rparr>"
    from distinct_pending_queue [OF Suc.prems, of "[]"] Cons
    have fresh: "ob_outbox_event_id r \<notin> set (map ob_outbox_event_id rs)" by simp
    then have "filter (\<lambda>s. ob_outbox_event_id s \<noteq> ob_outbox_event_id r) rs = rs"
      by (intro filter_True ballI) (metis image_eqI list.set_map)
    with Cons have rest: "pending_queue [] (outbox_events ?d) = rs"
      by (simp add: pending_queue_publish_rows)
    have "publish_loop (\<lambda>_ _. Acked) now (Suc k) n (d, log) =
        publish_loop (\<lambda>_ _. Acked) now k (n + 1) (?d, log @ [event_of_row r])"
      using Cons by (simp add: claim_def event_of_row_def claim_then_mark stored_def Let_def)
    also have "\<dots> = (let q = take k rs in (Inr (n + 1 + length q),
        d\<lparr>outbox_events := publish_rows now (map ob_outbox_event_id (r # q)) (outbox_events d)\<rparr>,
        log @ event_of_row r # map event_of_row q))"
    proof -
      have "ob_outbox_event_id r \<notin> set (map ob_outbox_event_id (take k rs))"
        using fresh by (auto dest: in_set_takeD)
      then have "publish_rows now (map ob_outbox_event_id (take k rs)) (publish_rows now [ob_outbox_event_id r] (outbox_events d)) =
          publish_rows now (map ob_outbox_event_id (r # take k rs)) (outbox_events d)"
        by (simp add: publish_rows_compose)
      with Suc.IH [of ?d "n + 1" "log @ [event_of_row r]"] Suc.prems rest show ?thesis
        by (simp add: Let_def)
    qed
    finally show ?thesis using Cons by (simp add: Let_def)
  qed
qed

section \<open>Publishers interleaved\<close>

text \<open>
  \<open>ow_inflight\<close> are the events publishers hold between their claim and the end of their publish.
  A crashed publisher just drops its event.
\<close>

record outbox_world =
  ow_db :: db
  ow_inflight :: "outbox_event list"
  ow_log :: "outbox_event list"

inductive outbox_step :: "outbox_world \<Rightarrow> outbox_world \<Rightarrow> bool" where
  insert: "insert_outbox r d = Inr d' \<Longrightarrow> ob_status r = OB_PENDING \<Longrightarrow>
    outbox_step \<lparr>ow_db = d, ow_inflight = evs, ow_log = log\<rparr> \<lparr>ow_db = d', ow_inflight = evs, ow_log = log\<rparr>"
| recover: "outbox_step \<lparr>ow_db = d, ow_inflight = evs, ow_log = log\<rparr>
    \<lparr>ow_db = recover_expired_claims now d, ow_inflight = evs, ow_log = log\<rparr>"
| claim: "claim locked now d = (Some ev, d') \<Longrightarrow>
    outbox_step \<lparr>ow_db = d, ow_inflight = evs, ow_log = log\<rparr> \<lparr>ow_db = d', ow_inflight = ev # evs, ow_log = log\<rparr>"
| deliver: "ev \<in> set evs \<Longrightarrow>
    outbox_step \<lparr>ow_db = d, ow_inflight = evs, ow_log = log\<rparr> \<lparr>ow_db = d, ow_inflight = evs, ow_log = log @ [ev]\<rparr>"
| acknowledge: "ev \<in> set evs \<Longrightarrow> ev \<in> set log \<Longrightarrow>
    outbox_step \<lparr>ow_db = d, ow_inflight = evs, ow_log = log\<rparr>
      \<lparr>ow_db = mark_published (ev_event_id ev) now d, ow_inflight = remove1 ev evs, ow_log = log\<rparr>"
| fail: "ev \<in> set evs \<Longrightarrow>
    outbox_step \<lparr>ow_db = d, ow_inflight = evs, ow_log = log\<rparr>
      \<lparr>ow_db = release (ev_event_id ev) error d, ow_inflight = remove1 ev evs, ow_log = log\<rparr>"
| crash: "ev \<in> set evs \<Longrightarrow>
    outbox_step \<lparr>ow_db = d, ow_inflight = evs, ow_log = log\<rparr> \<lparr>ow_db = d, ow_inflight = remove1 ev evs, ow_log = log\<rparr>"

inductive outbox_steps :: "outbox_world \<Rightarrow> outbox_world \<Rightarrow> bool" where
  outbox_refl: "outbox_steps w w"
| outbox_trans: "outbox_step w w1 \<Longrightarrow> outbox_steps w1 w2 \<Longrightarrow> outbox_steps w w2"

text \<open>
  What is published was stored by the broker, what is stored or in flight is the content of a row, and
  no row goes away.
\<close>

definition same_event :: "outbox_row \<Rightarrow> outbox_row \<Rightarrow> bool" where
  "same_event r s \<longleftrightarrow> event_of_row r = event_of_row s"

definition outbox_ok :: "outbox_world \<Rightarrow> bool" where
  "outbox_ok w \<longleftrightarrow>
     distinct (map ob_outbox_event_id (outbox_events (ow_db w))) \<and>
     set (ow_inflight w) \<union> set (ow_log w) \<subseteq> event_of_row ` set (outbox_events (ow_db w)) \<and>
     (\<forall>r \<in> set (outbox_events (ow_db w)). ob_status r = OB_PUBLISHED \<longrightarrow> event_of_row r \<in> set (ow_log w))"

lemma outbox_update_events:
  "(\<And>r. event_of_row (f r) = event_of_row r) \<Longrightarrow> map event_of_row (rows_update P f rows) = map event_of_row rows"
  by (auto intro: map_rows_update)

lemma ev_event_id_of_row [simp]: "ev_event_id (event_of_row r) = ob_outbox_event_id r"
  by (simp add: event_of_row_def)

lemma map_ids_of_events: "map ob_outbox_event_id rows = map ev_event_id (map event_of_row rows)"
  by simp

text \<open>A statement that only rewrites the bookkeeping columns, and publishes logged events only.\<close>

lemma outbox_ok_update:
  assumes "outbox_ok \<lparr>ow_db = d, ow_inflight = evs, ow_log = log\<rparr>"
    and "outbox_events d' = rows_update P f (outbox_events d)" and "\<And>r. event_of_row (f r) = event_of_row r"
    and "\<And>r. r \<in> set (outbox_events d) \<Longrightarrow> P r \<Longrightarrow> ob_status (f r) = OB_PUBLISHED \<Longrightarrow> event_of_row r \<in> set log"
    and "set evs' \<subseteq> set evs \<union> event_of_row ` set (outbox_events d)"
  shows "outbox_ok \<lparr>ow_db = d', ow_inflight = evs', ow_log = log\<rparr>"
proof -
  from assms(2,3) have events: "map event_of_row (outbox_events d') = map event_of_row (outbox_events d)"
    by (simp add: outbox_update_events)
  then have images: "event_of_row ` set (outbox_events d') = event_of_row ` set (outbox_events d)"
    by (metis list.set_map)
  from assms(1) have "distinct (map ob_outbox_event_id (outbox_events d'))"
    by (simp add: outbox_ok_def map_ids_of_events events del: map_map)
  moreover have "event_of_row r \<in> set log" if "r \<in> set (outbox_events d')" "ob_status r = OB_PUBLISHED" for r
  proof -
    from that(1) assms(2) obtain s where s: "s \<in> set (outbox_events d)" "r = (if P s then f s else s)"
      by (auto simp: set_rows_update)
    with that(2) assms(1,3,4) show ?thesis by (auto simp: outbox_ok_def split: if_splits)
  qed
  ultimately show ?thesis using assms(1,5) by (auto simp: outbox_ok_def images)
qed

lemma event_of_row_updates [simp]:
  "event_of_row (ob_status_update f r) = event_of_row r" "event_of_row (ob_publish_attempts_update g r) = event_of_row r"
  "event_of_row (ob_claimed_at_update h r) = event_of_row r" "event_of_row (ob_last_error_update i r) = event_of_row r"
  "event_of_row (ob_published_at_update j r) = event_of_row r"
  by (simp_all add: event_of_row_def)

lemma claim_SomeD:
  assumes "claim locked now d = (Some ev, d')"
  obtains r where "r \<in> set (outbox_events d)" "ob_status r = OB_PENDING" "ob_outbox_event_id r \<notin> set locked"
    "ev = event_of_row r"
    "\<forall>s \<in> set (outbox_events d). ob_status s = OB_PENDING \<longrightarrow> ob_outbox_event_id s \<notin> set locked \<longrightarrow> ob_created_at r \<le> ob_created_at s"
    "outbox_events d' = rows_update (\<lambda>s. ob_outbox_event_id s = ob_outbox_event_id r)
       (\<lambda>s. s\<lparr>ob_status := OB_PUBLISHING, ob_publish_attempts := ob_publish_attempts s + 1, ob_claimed_at := Some now\<rparr>)
       (outbox_events d)"
proof -
  from assms obtain r rs where q: "pending_queue locked (outbox_events d) = r # rs" and ev: "ev = event_of_row r"
    and d': "d' = d\<lparr>outbox_events := rows_update (\<lambda>s. ob_outbox_event_id s = ob_outbox_event_id r)
       (\<lambda>s. s\<lparr>ob_status := OB_PUBLISHING, ob_publish_attempts := ob_publish_attempts s + 1, ob_claimed_at := Some now\<rparr>)
       (outbox_events d)\<rparr>"
    by (auto simp: claim_def split: list.splits)
  have "r \<in> set (pending_queue locked (outbox_events d))" by (simp add: q)
  then have r: "r \<in> set (outbox_events d)" "ob_status r = OB_PENDING" "ob_outbox_event_id r \<notin> set locked"
    by (auto simp: set_pending_queue)
  have "sorted (map ob_created_at (pending_queue locked (outbox_events d)))" by (simp add: pending_queue_def)
  then have first: "\<forall>s \<in> set (pending_queue locked (outbox_events d)). ob_created_at r \<le> ob_created_at s"
    by (auto simp: q)
  show thesis
  proof (rule that [OF r ev])
    show "\<forall>s \<in> set (outbox_events d). ob_status s = OB_PENDING \<longrightarrow> ob_outbox_event_id s \<notin> set locked \<longrightarrow> ob_created_at r \<le> ob_created_at s"
      using first by (auto simp: set_pending_queue)
  qed (simp add: d')
qed

lemma outbox_step_ok:
  assumes "outbox_step w w'" and "outbox_ok w"
  shows "outbox_ok w'"
  using assms
proof cases
  case (insert r d d' evs log)
  from insert_outbox_InrD [OF insert(3)] insert(1,2,4) assms(2) show ?thesis
    by (auto simp: outbox_ok_def known_def)
next
  case (recover d evs log now)
  have rows: "outbox_events (recover_expired_claims now d) = rows_update (expired_claim now)
      (\<lambda>r. r\<lparr>ob_status := OB_PENDING, ob_claimed_at := None,
        ob_last_error := Some ''publisher claim expired before acknowledgement''\<rparr>) (outbox_events d)"
    by (simp add: recover_expired_claims_def)
  show ?thesis unfolding recover(2)
    by (rule outbox_ok_update [OF assms(2) [unfolded recover(1)] rows]) auto
next
  case (claim locked now d ev d' evs log)
  from claim(3) obtain r where r: "r \<in> set (outbox_events d)" "ev = event_of_row r" and
    d': "outbox_events d' = rows_update (\<lambda>s. ob_outbox_event_id s = ob_outbox_event_id r)
       (\<lambda>s. s\<lparr>ob_status := OB_PUBLISHING, ob_publish_attempts := ob_publish_attempts s + 1, ob_claimed_at := Some now\<rparr>)
       (outbox_events d)"
    by (rule claim_SomeD)
  show ?thesis unfolding claim(2)
    by (rule outbox_ok_update [OF assms(2) [unfolded claim(1)] d']) (use r in auto)
next
  case (deliver ev evs d log)
  with assms(2) show ?thesis by (auto simp: outbox_ok_def)
next
  case (acknowledge ev evs log d now)
  have published: "event_of_row r \<in> set log" if "r \<in> set (outbox_events d)" "ob_outbox_event_id r = ev_event_id ev" for r
  proof -
    from assms(2) acknowledge(1,4) obtain s where s: "s \<in> set (outbox_events d)" "ev = event_of_row s"
      by (auto simp: outbox_ok_def)
    from assms(2) acknowledge(1) have "inj_on ob_outbox_event_id (set (outbox_events d))"
      by (simp add: outbox_ok_def distinct_map)
    with s that have "r = s" by (auto dest: inj_onD)
    with s acknowledge(4) show ?thesis by simp
  qed
  have rows: "outbox_events (mark_published (ev_event_id ev) now d) =
      rows_update (\<lambda>r. ob_outbox_event_id r = ev_event_id ev) (\<lambda>r. r\<lparr>ob_status := OB_PUBLISHED,
        ob_published_at := Some now, ob_claimed_at := None, ob_last_error := None\<rparr>) (outbox_events d)"
    by (simp add: mark_published_def)
  show ?thesis unfolding acknowledge(2)
    by (rule outbox_ok_update [OF assms(2) [unfolded acknowledge(1)] rows])
      (auto simp: published dest: notin_set_remove1)
next
  case (fail ev evs d log error)
  have rows: "outbox_events (release (ev_event_id ev) error d) =
      rows_update (\<lambda>r. ob_outbox_event_id r = ev_event_id ev) (\<lambda>r. r\<lparr>ob_status := OB_PENDING,
        ob_claimed_at := None, ob_last_error := Some (take 2000 error)\<rparr>) (outbox_events d)"
    by (simp add: release_def)
  show ?thesis unfolding fail(2)
    by (rule outbox_ok_update [OF assms(2) [unfolded fail(1)] rows]) (auto dest: notin_set_remove1)
next
  case (crash ev evs d log)
  with assms(2) show ?thesis by (auto simp: outbox_ok_def dest: notin_set_remove1)
qed

text \<open>No step loses an event: the events of the table only grow.\<close>

lemma outbox_step_events:
  "outbox_step w w' \<Longrightarrow> \<exists>es. map event_of_row (outbox_events (ow_db w')) = map event_of_row (outbox_events (ow_db w)) @ es"
  by (erule outbox_step.cases)
    (auto simp: recover_expired_claims_def mark_published_def release_def outbox_update_events
      dest!: insert_outbox_InrD elim!: claim_SomeD)

lemma outbox_steps_ok:
  "outbox_steps w w' \<Longrightarrow> outbox_ok w \<Longrightarrow> outbox_ok w' \<and>
     (\<exists>es. map event_of_row (outbox_events (ow_db w')) = map event_of_row (outbox_events (ow_db w)) @ es)"
proof (induction rule: outbox_steps.induct)
  case (outbox_refl w)
  then show ?case by simp
next
  case (outbox_trans w w1 w2)
  from outbox_step_ok [OF outbox_trans.hyps(1) outbox_trans.prems] outbox_trans.IH
    outbox_step_events [OF outbox_trans.hyps(1)]
  show ?case by auto
qed

section \<open>Draining the queue\<close>

definition settled :: "db \<Rightarrow> bool" where
  "settled d \<longleftrightarrow> list_all (\<lambda>r. ob_status r \<noteq> OB_PUBLISHING) (outbox_events d)"

lemma recover_settled: "settled d \<Longrightarrow> recover_expired_claims now d = d"
  by (auto simp: settled_def recover_expired_claims_def list_all_iff expired_claim_def rows_update_none)

lemma settled_publish_rows: "settled d \<Longrightarrow> settled (d\<lparr>outbox_events := publish_rows now ids (outbox_events d)\<rparr>)"
  by (auto simp: settled_def list_all_iff publish_rows_def publish_row_def set_rows_update)

lemma filter_not_in_take:
  assumes "distinct (map f xs)"
  shows "filter (\<lambda>x. f x \<notin> f ` set (take n xs)) xs = drop n xs"
proof -
  have "set (map f (take n xs)) \<inter> set (map f (drop n xs)) = {}"
    using assms by (metis append_take_drop_id distinct_append map_append)
  then have tail: "\<forall>x \<in> set (drop n xs). f x \<notin> f ` set (take n xs)" by auto
  let ?P = "\<lambda>x. f x \<notin> f ` set (take n xs)"
  have "filter ?P xs = filter ?P (take n xs) @ filter ?P (drop n xs)"
    by (metis append_take_drop_id filter_append)
  also have "filter ?P (take n xs) = []" by (simp add: filter_empty_conv)
  also have "filter ?P (drop n xs) = drop n xs" using tail by simp
  finally show ?thesis by simp
qed

lemma publish_rows_append:
  "set ids \<inter> set js = {} \<Longrightarrow> publish_rows now js (publish_rows now ids rows) = publish_rows now (ids @ js) rows"
  by (auto simp: publish_rows_def publish_row_def rows_update_def)

lemma outbox_run_acked:
  assumes "distinct (map ob_outbox_event_id (outbox_events d))" and "settled d"
  shows "outbox_run (replicate m (\<lambda>_ _. Acked, now)) (d, log) =
    (let q = take (BATCH * m) (pending_queue [] (outbox_events d)) in
     (d\<lparr>outbox_events := publish_rows now (map ob_outbox_event_id q) (outbox_events d)\<rparr>, log @ map event_of_row q))"
  using assms
proof (induction m arbitrary: d log)
  case 0
  then show ?case by (simp add: publish_rows_def rows_update_none)
next
  case (Suc m)
  let ?Q = "pending_queue [] (outbox_events d)"
  let ?ids = "map ob_outbox_event_id"
  let ?d = "d\<lparr>outbox_events := publish_rows now (?ids (take BATCH ?Q)) (outbox_events d)\<rparr>"
  have dist: "distinct (?ids ?Q)" by (rule distinct_pending_queue [OF Suc.prems(1)])
  have rest: "pending_queue [] (outbox_events ?d) = drop BATCH ?Q"
    using filter_not_in_take [OF dist, of BATCH] by (simp add: pending_queue_publish_rows)
  have disjoint: "set (?ids (take BATCH ?Q)) \<inter> set (?ids (take (BATCH * m) (drop BATCH ?Q))) = {}"
    using dist by (metis (no_types, lifting) append_take_drop_id disjoint_iff distinct_append in_set_takeD map_append take_map)
  have split: "take (BATCH * Suc m) ?Q = take BATCH ?Q @ take (BATCH * m) (drop BATCH ?Q)"
    by (simp add: take_add)
  have "outbox_run (replicate (Suc m) (\<lambda>_ _. Acked, now)) (d, log) =
      outbox_run (replicate m (\<lambda>_ _. Acked, now)) (?d, log @ map event_of_row (take BATCH ?Q))"
    using publish_loop_acked [OF Suc.prems(1), of now BATCH 0 log]
    by (simp add: publish_batch_def recover_settled [OF Suc.prems(2)] Let_def)
  also have "\<dots> = (let q = take (BATCH * m) (drop BATCH ?Q) in
      (d\<lparr>outbox_events := publish_rows now (?ids q) (publish_rows now (?ids (take BATCH ?Q)) (outbox_events d))\<rparr>,
       log @ map event_of_row (take BATCH ?Q) @ map event_of_row q))"
    using Suc.IH [of ?d] Suc.prems settled_publish_rows [OF Suc.prems(2)] rest by (simp add: Let_def)
  finally show ?case by (simp only: Let_def split publish_rows_append [OF disjoint] map_append append_assoc)
qed

text \<open>A world with two events, one of them claimed by a publisher that is no more.\<close>

definition demo_event :: "uuid \<Rightarrow> timestamp \<Rightarrow> outbox_row" where
  "demo_event i t = outbox_pending i ''transaction'' 5 ''payment.transfer_posted.v1'' JNull t"

definition demo_outbox :: db where
  "demo_outbox = empty_db\<lparr>outbox_events :=
     [demo_event 1 20, (demo_event 2 10)\<lparr>ob_status := OB_PUBLISHING, ob_claimed_at := Some 0\<rparr>]\<rparr>"

lemmas demo_outbox_defs = demo_outbox_def demo_event_def outbox_pending_def empty_db_def

section \<open>The properties\<close>

text \<open>C19. Publishing is at least once, however many publishers, crashes, lost acknowledgements and inserts
  are interleaved: an event marked PUBLISHED was stored by the broker with its content, and no event that
  was ever inserted disappears or changes its content.\<close>

theorem outbox_at_least_once:
  assumes "outbox_steps w w'" and "outbox_ok w"
  shows "(\<forall>r \<in> set (outbox_events (ow_db w')). ob_status r = OB_PUBLISHED \<longrightarrow> event_of_row r \<in> set (ow_log w')) \<and>
    event_of_row ` set (outbox_events (ow_db w)) \<subseteq> event_of_row ` set (outbox_events (ow_db w')) \<and>
    distinct (map ob_outbox_event_id (outbox_events (ow_db w')))"
proof -
  from outbox_steps_ok [OF assms] obtain es where ok: "outbox_ok w'" and
    "map event_of_row (outbox_events (ow_db w')) = map event_of_row (outbox_events (ow_db w)) @ es" by blast
  then have "event_of_row ` set (outbox_events (ow_db w)) \<subseteq> event_of_row ` set (outbox_events (ow_db w'))"
    by (metis Un_upper1 list.set_map set_append)
  with ok show ?thesis by (simp add: outbox_ok_def)
qed

theorem outbox_at_least_once_witness:
  "\<exists>w' :: outbox_world. (\<exists>r \<in> set (outbox_events (ow_db w')). ob_status r = OB_PUBLISHED) \<and>
     (\<forall>r \<in> set (outbox_events (ow_db w')). ob_status r = OB_PUBLISHED \<longrightarrow> event_of_row r \<in> set (ow_log w'))"
proof -
  let ?ev = "event_of_row (demo_event 1 20)"
  let ?w = "\<lparr>ow_db = demo_outbox, ow_inflight = [], ow_log = []\<rparr>"
  obtain d' where c: "claim [] 30 demo_outbox = (Some ?ev, d')"
    and rows: "1 \<in> ob_outbox_event_id ` set (outbox_events d')"
    by (simp add: claim_def pending_queue_def demo_outbox_defs rows_update_def)
  let ?w' = "\<lparr>ow_db = mark_published 1 40 d', ow_inflight = [], ow_log = [?ev]\<rparr>"
  have "outbox_step ?w \<lparr>ow_db = d', ow_inflight = [?ev], ow_log = []\<rparr>"
    by (rule outbox_step.claim [OF c])
  moreover have "outbox_step \<lparr>ow_db = d', ow_inflight = [?ev], ow_log = []\<rparr> \<lparr>ow_db = d', ow_inflight = [?ev], ow_log = [?ev]\<rparr>"
    using outbox_step.deliver [of ?ev "[?ev]" d' "[]"] by simp
  moreover have "outbox_step \<lparr>ow_db = d', ow_inflight = [?ev], ow_log = [?ev]\<rparr> ?w'"
    using outbox_step.acknowledge [of ?ev "[?ev]" "[?ev]" d' 40] by (simp add: demo_event_def outbox_pending_def)
  ultimately have run: "outbox_steps ?w ?w'" by (blast intro: outbox_steps.intros)
  have "outbox_ok ?w" by (simp add: outbox_ok_def demo_outbox_defs)
  note delivered = outbox_at_least_once [OF run this]
  from rows obtain r where "r \<in> set (outbox_events d')" "ob_outbox_event_id r = 1" by auto
  then have "\<exists>r \<in> set (outbox_events (ow_db ?w')). ob_status r = OB_PUBLISHED"
    by (auto simp: mark_published_def rows_update_def simp del: if_image_distrib intro!: bexI [of _ r])
  with conjunct1 [OF delivered] show ?thesis by (intro exI [of _ ?w'] conjI)
qed

text \<open>C20. The queue drains: once older claims have expired and the broker acknowledges, batches of fifty
  publish every event, each exactly once in the order of creation, and every event ends PUBLISHED.\<close>

theorem outbox_drains:
  assumes "distinct (map ob_outbox_event_id (outbox_events d))"
    and "settled (recover_expired_claims now d)"
    and "length (pending_queue [] (outbox_events (recover_expired_claims now d))) \<le> BATCH * m"
    and "0 < m" and "outbox_run (replicate m (\<lambda>_ _. Acked, now)) (d, log) = (d', log')"
  shows "log' = log @ map event_of_row (pending_queue [] (outbox_events (recover_expired_claims now d))) \<and>
    list_all (\<lambda>r. ob_status r = OB_PUBLISHED) (outbox_events d')"
proof -
  let ?d = "recover_expired_claims now d"
  let ?Q = "pending_queue [] (outbox_events ?d)"
  have ids: "distinct (map ob_outbox_event_id (outbox_events ?d))"
    using assms(1) by (simp add: recover_expired_claims_def map_rows_update)
  from assms(4) obtain k where m: "m = Suc k" by (cases m) auto
  have "publish_batch (\<lambda>_ _. Acked) now (d, log) = publish_batch (\<lambda>_ _. Acked) now (?d, log)"
    by (simp add: publish_batch_def recover_settled [OF assms(2)])
  with outbox_run_acked [OF ids assms(2), of m now log] assms(3,5) m
  have d': "d' = ?d\<lparr>outbox_events := publish_rows now (map ob_outbox_event_id ?Q) (outbox_events ?d)\<rparr>"
    and "log' = log @ map event_of_row ?Q"
    by (simp_all add: Let_def)
  moreover have "ob_status r = OB_PUBLISHED" if "r \<in> set (outbox_events d')" for r
  proof -
    from that d' obtain s where s: "s \<in> set (outbox_events ?d)"
      "r = (if ob_outbox_event_id s \<in> set (map ob_outbox_event_id ?Q) then publish_row now s else s)"
      by (auto simp: publish_rows_def set_rows_update)
    from assms(2) s(1) have "ob_status s = OB_PENDING \<or> ob_status s = OB_PUBLISHED"
      by (cases "ob_status s") (auto simp: settled_def list_all_iff)
    with s show ?thesis by (auto simp: set_pending_queue publish_row_def)
  qed
  ultimately show ?thesis by (simp add: list_all_iff)
qed

theorem outbox_drains_witness:
  "\<exists>d' log'. outbox_run [(\<lambda>_ _. Acked, seconds 100)] (demo_outbox, []) = (d', log') \<and> map ev_event_id log' = [2, 1] \<and>
     list_all (\<lambda>r. ob_status r = OB_PUBLISHED) (outbox_events d')"
proof -
  obtain d' log' where run: "outbox_run [(\<lambda>_ _. Acked, seconds 100)] (demo_outbox, []) = (d', log')"
    by (cases "outbox_run [(\<lambda>_ _. Acked, seconds 100)] (demo_outbox, [])")
  have eval: "distinct (map ob_outbox_event_id (outbox_events demo_outbox))"
    "settled (recover_expired_claims (seconds 100) demo_outbox)"
    "map ob_outbox_event_id (pending_queue [] (outbox_events (recover_expired_claims (seconds 100) demo_outbox))) = [2, 1]"
    by (simp_all add: demo_outbox_defs settled_def recover_expired_claims_def rows_update_def expired_claim_def
        CLAIM_EXPIRY_def seconds_def pending_queue_def)
  from eval(3) have "length (pending_queue [] (outbox_events (recover_expired_claims (seconds 100) demo_outbox))) = 2"
    by (metis length_map length_Cons list.size(3) numeral_2_eq_2)
  with outbox_drains [OF eval(1,2), of 1 "[]" d' log'] run eval(3)
  show ?thesis by (intro exI [of _ d'] exI [of _ log']) (simp add: BATCH_def comp_def)
qed

text \<open>
  It is not exactly once: \<open>release\<close> has no condition on the status, so a publisher whose claim
  expired puts an event back that another one has published meanwhile.
\<close>

lemma late_release_republishes:
  "ob_status r = OB_PUBLISHED \<Longrightarrow> outbox_events d = [r] \<Longrightarrow>
     fst (claim [] later (release (ob_outbox_event_id r) error (d))) = Some (event_of_row r)"
  by (simp add: release_def claim_def pending_queue_def rows_update_def event_of_row_def)

end
