(* ===== verification/Workers.thy ===== *)
theory Workers
  imports Ledger_Facts Outbox Auth
begin

text \<open>
  The event consumers: \<open>bantam/workers.py\<close>.

  A message carries the JSON value that \<open>json.dumps\<close> of the publisher wrote, or is no JSON at all
  (\<open>None\<close>). \<open>create_risk_alert\<close> and \<open>create_notifications\<close> are the two handlers;
  \<open>process_batch\<close> is the pull loop's treatment of one batch: a message whose handler raises is not
  acknowledged (NATS: negatively acknowledged) and will be delivered again.
\<close>

section \<open>Reading a message\<close>

definition get_item :: "json \<Rightarrow> string \<Rightarrow> failure + json" where
  "get_item j k =
     (case j of
        JObj kvs \<Rightarrow> (case map_of kvs k of None \<Rightarrow> Inl KeyError | Some v \<Rightarrow> Inr v)
      | _ \<Rightarrow> Inl TypeError)"

definition to_int :: "json \<Rightarrow> failure + int" where
  "to_int j =
     (case j of
        JInt i \<Rightarrow> Inr i
      | JBool b \<Rightarrow> Inr (if b then 1 else 0)
      | JStr s \<Rightarrow> (case py_int s of None \<Rightarrow> Inl (ValueError ''invalid literal for int()'') | Some i \<Rightarrow> Inr i)
      | _ \<Rightarrow> Inl TypeError)"

definition to_uuid :: "string \<Rightarrow> failure + uuid" where
  "to_uuid s = (case parse_uuid s of None \<Rightarrow> Inl (ValueError ''badly formed hexadecimal UUID string'') | Some u \<Rightarrow> Inr u)"

definition payload_uuid :: "json \<Rightarrow> string \<Rightarrow> failure + uuid" where
  "payload_uuid payload k = andthen (get_item payload k) (\<lambda>v. to_uuid (py_str v))"

definition payload_int :: "json \<Rightarrow> string \<Rightarrow> failure + int" where
  "payload_int payload k = andthen (get_item payload k) to_int"

definition decode_transfer_data :: "json option \<Rightarrow> failure + uuid \<times> json" where
  "decode_transfer_data data =
     (case data of
        None \<Rightarrow> Inl (ValueError ''invalid JSON'')
      | Some message \<Rightarrow>
          andthen (get_item message ''event_id'') (\<lambda>i.
          andthen (case i of JStr s \<Rightarrow> to_uuid s | _ \<Rightarrow> Inl TypeError) (\<lambda>event_id.
          andthen (get_item message ''payload'') (\<lambda>payload. Inr (event_id, payload)))))"

section \<open>Risk alerts\<close>

definition insert_alert :: "alert_row \<Rightarrow> db \<Rightarrow> failure + db" where
  "insert_alert a d =
     (if known ra_risk_alert_id (ra_risk_alert_id a) (risk_alerts d)
      then Inl (UniqueViolation ''risk_alerts_pkey'')
      else if known (\<lambda>r. (ra_transaction_id r, ra_rule_id r)) (ra_transaction_id a, ra_rule_id a) (risk_alerts d)
      then Inl (UniqueViolation ''risk_alerts_transaction_id_rule_id_key'')
      else if \<not> known tx_transaction_id (ra_transaction_id a) (transactions d)
      then Inl (ForeignKeyViolation ''risk_alerts_transaction_id_fkey'')
      else if (case ra_customer_id a of None \<Rightarrow> False | Some c \<Rightarrow> \<not> known cu_customer_id c (customers d))
      then Inl (ForeignKeyViolation ''risk_alerts_customer_id_fkey'')
      else Inr (d\<lparr>risk_alerts := risk_alerts d @ [a]\<rparr>))"

definition alert_exists :: "uuid \<Rightarrow> string \<Rightarrow> db \<Rightarrow> bool" where
  "alert_exists tid rule d \<longleftrightarrow> known (\<lambda>r. (ra_transaction_id r, ra_rule_id r)) (tid, rule) (risk_alerts d)"

definition alert_customer :: "uuid \<Rightarrow> uuid \<Rightarrow> db \<Rightarrow> uuid option" where
  "alert_customer source destination d =
     (case (row_get ba_account_id source (bank_accounts d), row_get ba_account_id destination (bank_accounts d)) of
        (Some a, Some b) \<Rightarrow> (case ba_customer_id a of None \<Rightarrow> ba_customer_id b | Some c \<Rightarrow> Some c)
      | _ \<Rightarrow> None)"

record worker_fresh =
  wf_alert_id :: uuid
  wf_outbox_id :: uuid
  wf_request_id :: uuid
  wf_audit :: audit_fresh
  wf_now :: timestamp

definition HIGH_VALUE :: string where "HIGH_VALUE = ''HIGH_VALUE_TRANSFER''"

definition alert_text :: "int \<Rightarrow> json \<Rightarrow> int \<Rightarrow> string" where
  "alert_text amount_minor currency threshold =
     ''Transfer amount '' @ int_str amount_minor @ '' '' @ py_str currency @
     '' minor units exceeded threshold '' @ int_str threshold"

definition risk_alert_body ::
  "int \<Rightarrow> int \<Rightarrow> json \<Rightarrow> uuid \<Rightarrow> uuid option \<Rightarrow> worker_fresh \<Rightarrow> db \<Rightarrow> failure + unit \<times> db" where
  "risk_alert_body threshold amount_minor payload tid customer_id fx d =
     andthen (get_item payload ''currency'') (\<lambda>currency.
       if alert_exists tid HIGH_VALUE d then Inr ((), d)        \<comment> \<open>ON CONFLICT DO NOTHING\<close>
       else
         andthen (insert_alert
           \<lparr>ra_risk_alert_id = wf_alert_id fx, ra_transaction_id = tid, ra_customer_id = customer_id,
            ra_rule_id = HIGH_VALUE, ra_severity = SEV_HIGH, ra_status = ALERT_OPEN,
            ra_explanation = alert_text amount_minor currency threshold, ra_created_at = wf_now fx,
            ra_reviewed_at = None, ra_reviewed_by = None\<rparr> d) (\<lambda>d.
         andthen (insert_outbox (outbox_pending (wf_outbox_id fx) ''risk_alert'' (wf_alert_id fx)
           ''risk.transaction_flagged.v1''
           (JObj [(''risk_alert_id'', JStr (uuid_str (wf_alert_id fx))), (''transaction_id'', JStr (uuid_str tid)),
                  (''rule_id'', JStr HIGH_VALUE), (''severity'', JStr ''HIGH'')]) (wf_now fx)) d) (\<lambda>d.
         andthen (audit_record
           \<lparr>aa_actor_type = ''SERVICE'', aa_actor_id = ''risk-worker'', aa_action = ''RISK_ALERT_CREATED'',
            aa_resource_type = ''risk_alert'', aa_resource_id = uuid_str (wf_alert_id fx),
            aa_request_id = Some (wf_request_id fx), aa_correlation_id = Some tid, aa_ip_address = None,
            aa_user_agent = None,
            aa_metadata = JObj [(''rule_id'', JStr HIGH_VALUE), (''amount_minor'', JInt amount_minor)]\<rparr>
           (wf_audit fx) d) (\<lambda>d. Inr ((), d)))))"

definition create_risk_alert :: "int \<Rightarrow> json \<Rightarrow> worker_fresh \<Rightarrow> (db, failure, unit) proc" where
  "create_risk_alert threshold payload fx d =
     (case payload_int payload ''amount_minor'' of
        Inl e \<Rightarrow> (Inl e, d)
      | Inr amount_minor \<Rightarrow>
          if amount_minor \<le> threshold then (Inr (), d)
          else
            (case andthen (payload_uuid payload ''transaction_id'') (\<lambda>t.
                  andthen (payload_uuid payload ''source_account_id'') (\<lambda>s.
                  andthen (payload_uuid payload ''destination_account_id'') (\<lambda>x. Inr (t, s, x)))) of
               Inl e \<Rightarrow> (Inl e, d)
             | Inr (tid, source, destination) \<Rightarrow>
                 in_transaction (risk_alert_body threshold amount_minor payload tid
                   (alert_customer source destination d) fx) d))"

section \<open>Notifications\<close>

definition insert_notification :: "notification_row \<Rightarrow> db \<Rightarrow> failure + db" where
  "insert_notification n d =
     (if known (\<lambda>r. (no_customer_id r, no_event_id r, no_account_id r, no_direction r))
           (no_customer_id n, no_event_id n, no_account_id n, no_direction n) (notifications d)
      then Inr d                                               \<comment> \<open>ON CONFLICT DO NOTHING\<close>
      else if known no_notification_id (no_notification_id n) (notifications d)
      then Inl (UniqueViolation ''notifications_pkey'')
      else if \<not> known cu_customer_id (no_customer_id n) (customers d)
      then Inl (ForeignKeyViolation ''notifications_customer_id_fkey'')
      else if (case no_account_id n of None \<Rightarrow> False | Some a \<Rightarrow> \<not> known ba_account_id a (bank_accounts d))
      then Inl (ForeignKeyViolation ''notifications_account_id_fkey'')
      else Inr (d\<lparr>notifications := notifications d @ [n]\<rparr>))"

definition recipients :: "uuid \<Rightarrow> uuid \<Rightarrow> db \<Rightarrow> (uuid \<times> uuid) list" where
  "recipients source destination d =
     concat (map (\<lambda>a. case ba_customer_id a of
                         None \<Rightarrow> []
                       | Some c \<Rightarrow> if ba_account_id a = source \<or> ba_account_id a = destination
                                    then [(ba_account_id a, c)] else [])
       (bank_accounts d))"

definition notification_for ::
  "uuid \<Rightarrow> uuid \<Rightarrow> int \<Rightarrow> string \<Rightarrow> uuid \<Rightarrow> timestamp \<Rightarrow> uuid \<times> uuid \<Rightarrow> notification_row" where
  "notification_for event_id source amount_minor currency i now rc =
     (let sent = (fst rc = source) in
      \<lparr>no_notification_id = i, no_customer_id = snd rc, no_event_id = event_id,
       no_notification_type = ''TRANSFER_POSTED'',
       no_subject = (if sent then ''Transfer sent'' else ''Transfer received''),
       no_body = ''You '' @ (if sent then ''sent'' else ''received'') @ '' '' @
         format_minor amount_minor currency @ '' in a fake-money Bantam transfer.'',
       no_account_id = Some (fst rc), no_direction = Some (if sent then SENT else RECEIVED),
       no_created_at = now, no_read_at = None\<rparr>)"

fun notify_all ::
  "(uuid \<times> uuid \<Rightarrow> notification_row) \<Rightarrow> (uuid \<times> uuid) list \<Rightarrow> (db, failure, unit) proc" where
  "notify_all row [] = returning ()"
| "notify_all row (rc # rcs) = run_then (statement (insert_notification (row rc))) (\<lambda>_. notify_all row rcs)"

text \<open>The new ids are drawn per recipient: \<open>ids\<close> gives the one of an account.\<close>

definition create_notifications ::
  "uuid \<Rightarrow> json \<Rightarrow> (uuid \<Rightarrow> uuid) \<Rightarrow> timestamp \<Rightarrow> (db, failure, unit) proc" where
  "create_notifications event_id payload ids now d =
     (case andthen (payload_uuid payload ''source_account_id'') (\<lambda>s.
           andthen (payload_uuid payload ''destination_account_id'') (\<lambda>x.
           andthen (payload_int payload ''amount_minor'') (\<lambda>m.
           andthen (get_item payload ''currency'') (\<lambda>c. Inr (s, x, m, py_str c))))) of
        Inl e \<Rightarrow> (Inl e, d)
      | Inr (source, destination, amount_minor, currency) \<Rightarrow>
          notify_all (\<lambda>rc. notification_for event_id source amount_minor currency (ids (fst rc)) now rc)
            (recipients source destination d) d)"

section \<open>The pull loop\<close>

record message =
  msg_ack_id :: string
  msg_data :: "json option"

definition risk_handler :: "int \<Rightarrow> worker_fresh \<Rightarrow> message \<Rightarrow> (db, failure, unit) proc" where
  "risk_handler threshold fx m d =
     (case decode_transfer_data (msg_data m) of
        Inl e \<Rightarrow> (Inl e, d)
      | Inr (_, payload) \<Rightarrow> create_risk_alert threshold payload fx d)"

definition notification_handler :: "(uuid \<Rightarrow> uuid) \<Rightarrow> timestamp \<Rightarrow> message \<Rightarrow> (db, failure, unit) proc" where
  "notification_handler ids now m d =
     (case decode_transfer_data (msg_data m) of
        Inl e \<Rightarrow> (Inl e, d)
      | Inr (event_id, payload) \<Rightarrow> create_notifications event_id payload ids now d)"

text \<open>The acknowledged messages of a batch, and the state it leaves.\<close>

fun process_batch ::
  "(message \<Rightarrow> (db, failure, unit) proc) list \<Rightarrow> message list \<Rightarrow> db \<Rightarrow> string list \<times> db" where
  "process_batch (handle # hs) (m # ms) d =
     (case handle m d of
        (Inl e, d') \<Rightarrow> process_batch hs ms d'
      | (Inr _, d') \<Rightarrow> (let (acks, d'') = process_batch hs ms d' in (msg_ack_id m # acks, d'')))"
| "process_batch _ _ d = ([], d)"

section \<open>Alerts: one per transaction, however often delivered\<close>

definition alert_count :: "uuid \<Rightarrow> db \<Rightarrow> nat" where
  "alert_count tid d = length (filter (\<lambda>a. ra_transaction_id a = tid \<and> ra_rule_id a = HIGH_VALUE) (risk_alerts d))"

lemma alert_exists_count: "alert_exists tid HIGH_VALUE d \<longleftrightarrow> alert_count tid d \<noteq> 0"
  by (auto simp: alert_exists_def alert_count_def known_def filter_empty_conv)

lemma insert_alert_InrD:
  "insert_alert a d = Inr d' \<Longrightarrow> d' = d\<lparr>risk_alerts := risk_alerts d @ [a]\<rparr> \<and>
     \<not> alert_exists (ra_transaction_id a) (ra_rule_id a) d"
  by (auto simp: insert_alert_def alert_exists_def split: if_splits)

lemma risk_alert_body_InrD:
  assumes "risk_alert_body threshold amount payload tid c fx d = Inr (u, d')"
  shows "alert_exists tid HIGH_VALUE d \<and> d' = d \<or>
    \<not> alert_exists tid HIGH_VALUE d \<and> (\<exists>a. risk_alerts d' = risk_alerts d @ [a] \<and> ra_transaction_id a = tid \<and>
      ra_rule_id a = HIGH_VALUE \<and> ra_status a = ALERT_OPEN \<and> ra_severity a = SEV_HIGH)"
proof (cases "alert_exists tid HIGH_VALUE d")
  case True
  with assms show ?thesis by (auto simp: risk_alert_body_def andthen_Inr_iff)
next
  case False
  with assms obtain a o' args d1 d2 where ins: "insert_alert a d = Inr d1" and out: "insert_outbox o' d1 = Inr d2"
    and audit: "audit_record args (wf_audit fx) d2 = Inr d'"
    and a: "ra_transaction_id a = tid" "ra_rule_id a = HIGH_VALUE" "ra_status a = ALERT_OPEN" "ra_severity a = SEV_HIGH"
    unfolding risk_alert_body_def by (elim andthen_InrE) (simp, elim andthen_InrE, simp)
  from insert_outbox_InrD [OF out] audit_record_InrD [OF audit] have "risk_alerts d' = risk_alerts d1" by auto
  with insert_alert_InrD [OF ins] a False show ?thesis by auto
qed

text \<open>One delivery of a transfer's event, read or not by the handler's parser.\<close>

lemma risk_delivery:
  assumes "decode_transfer_data (msg_data m) = Inr (i, payload)"
    and "payload_int payload ''amount_minor'' = Inr amount" and "payload_uuid payload ''transaction_id'' = Inr tid"
    and "risk_handler threshold fx m d = (r, d')"
  shows "alert_count tid d' = alert_count tid d \<or> alert_count tid d = 0 \<and> alert_count tid d' = 1" (is ?once)
    and "amount \<le> threshold \<Longrightarrow> d' = d \<and> r = Inr ()"
    and "threshold < amount \<Longrightarrow> r = Inr () \<Longrightarrow> alert_count tid d' \<noteq> 0"
    and "isl r \<Longrightarrow> d' = d"
proof -
  have run: "create_risk_alert threshold payload fx d = (r, d')"
    using assms(1,4) by (simp add: risk_handler_def)
  show "amount \<le> threshold \<Longrightarrow> d' = d \<and> r = Inr ()"
    using run assms(2) by (simp add: create_risk_alert_def)
  have cases: "amount \<le> threshold \<and> d' = d \<or> threshold < amount \<and> (r \<noteq> Inr () \<and> d' = d \<or>
      r = Inr () \<and> (\<exists>c. risk_alert_body threshold amount payload tid c fx d = Inr ((), d')))"
  proof (cases "amount \<le> threshold")
    case True
    with run assms(2) show ?thesis by (simp add: create_risk_alert_def)
  next
    case False
    with run assms(2,3) show ?thesis
      by (auto simp: create_risk_alert_def in_transaction_def andthen_def split: sum.splits)
  qed
  have posted: "alert_count tid d' \<noteq> 0 \<and> (alert_count tid d' = alert_count tid d \<or> alert_count tid d = 0 \<and> alert_count tid d' = 1)"
    if "risk_alert_body threshold amount payload tid c fx d = Inr ((), d')" for c
    using risk_alert_body_InrD [OF that] by (auto simp: alert_exists_count alert_count_def)
  from cases posted show ?once by blast
  show "threshold < amount \<Longrightarrow> r = Inr () \<Longrightarrow> alert_count tid d' \<noteq> 0"
    using cases posted by auto
  show "isl r \<Longrightarrow> d' = d"
    using cases by auto
qed

lemma risk_deliveries:
  assumes "decode_transfer_data (msg_data m) = Inr (i, payload)"
    and "payload_int payload ''amount_minor'' = Inr amount" and "payload_uuid payload ''transaction_id'' = Inr tid"
  shows "process_batch (map (risk_handler threshold) fxs) (replicate (length fxs) m) d = (acks, d') \<Longrightarrow>
    (alert_count tid d' = alert_count tid d \<or> alert_count tid d = 0 \<and> alert_count tid d' = 1) \<and>
    (amount \<le> threshold \<longrightarrow> d' = d \<and> length acks = length fxs) \<and>
    (threshold < amount \<longrightarrow> acks \<noteq> [] \<longrightarrow> alert_count tid d' \<noteq> 0) \<and> (acks = [] \<longrightarrow> d' = d)"
proof (induction fxs arbitrary: d d' acks)
  case Nil
  then show ?case by simp
next
  case (Cons fx fxs)
  obtain r d1 where r: "risk_handler threshold fx m d = (r, d1)" by fastforce
  obtain acks1 d2 where rest: "process_batch (map (risk_handler threshold) fxs) (replicate (length fxs) m) d1 = (acks1, d2)"
    by fastforce
  note one = risk_delivery [OF assms r]
  note IH = Cons.IH [OF rest]
  from Cons.prems r rest have "d' = d2" and "acks = (if isl r then acks1 else msg_ack_id m # acks1)"
    by (auto split: sum.splits)
  then have acks: "acks \<noteq> [] \<longleftrightarrow> \<not> isl r \<or> acks1 \<noteq> []" "length acks = of_bool (\<not> isl r) + length acks1" and "d' = d2"
    by (cases r; simp)+
  have "alert_count tid d' = alert_count tid d \<or> alert_count tid d = 0 \<and> alert_count tid d' = 1"
    unfolding \<open>d' = d2\<close> using one(1) IH by metis
  moreover have "amount \<le> threshold \<longrightarrow> d' = d \<and> length acks = length (fx # fxs)"
    unfolding \<open>d' = d2\<close> acks(2) using one(2) IH by simp
  moreover have "threshold < amount \<longrightarrow> acks \<noteq> [] \<longrightarrow> alert_count tid d' \<noteq> 0"
  proof (intro impI)
    assume a: "threshold < amount" "acks \<noteq> []"
    show "alert_count tid d' \<noteq> 0"
    proof (cases "isl r")
      case True
      with a acks(1) IH \<open>d' = d2\<close> show ?thesis by simp
    next
      case False
      then have "r = Inr ()" by (cases r) simp_all
      from one(3) [OF a(1) this] IH \<open>d' = d2\<close> show ?thesis by metis
    qed
  qed
  moreover have "acks = [] \<longrightarrow> d' = d"
    unfolding \<open>d' = d2\<close> using acks(1) one(4) IH by auto
  ultimately show ?case by blast
qed

section \<open>Notifications: one per account of a customer\<close>

definition notification_key :: "notification_row \<Rightarrow> uuid \<times> uuid \<times> uuid option \<times> notification_direction option" where
  "notification_key n = (no_customer_id n, no_event_id n, no_account_id n, no_direction n)"

lemma insert_notification_InrD:
  assumes "insert_notification n d = Inr d'"
  shows "known notification_key (notification_key n) (notifications d) \<and> d' = d \<or>
    \<not> known notification_key (notification_key n) (notifications d) \<and> d' = d\<lparr>notifications := notifications d @ [n]\<rparr>"
  using assms by (auto simp: insert_notification_def notification_key_def [abs_def] split: if_splits)

lemma insert_notification_known:
  "known notification_key (notification_key n) (notifications d) \<Longrightarrow> insert_notification n d = Inr d"
  by (simp add: insert_notification_def notification_key_def [abs_def])

lemma notify_all_Inr:
  "notify_all row rcs d = (Inr (), d') \<Longrightarrow> distinct (map notification_key (notifications d)) \<Longrightarrow>
     distinct (map notification_key (notifications d')) \<and> (\<exists>ns. d' = d\<lparr>notifications := notifications d @ ns\<rparr>) \<and>
     (\<forall>rc \<in> set rcs. known notification_key (notification_key (row rc)) (notifications d'))"
proof (induction rcs arbitrary: d)
  case Nil
  then show ?case by (auto intro: exI [of _ "[]"])
next
  case (Cons rc rcs)
  from Cons.prems(1) obtain d1 where step: "insert_notification (row rc) d = Inr d1"
    and rest: "notify_all row rcs d1 = (Inr (), d')"
    by (auto simp: run_then_Inr_iff statement_Inr_iff)
  note ins = insert_notification_InrD [OF step]
  with Cons.prems(2) have dist: "distinct (map notification_key (notifications d1))"
    by (auto simp: known_def)
  from ins have first: "known notification_key (notification_key (row rc)) (notifications d1)"
    by (auto simp: table_simps)
  from Cons.IH [OF rest dist] obtain ns where IH: "distinct (map notification_key (notifications d'))"
    "d' = d1\<lparr>notifications := notifications d1 @ ns\<rparr>"
    "\<forall>rc \<in> set rcs. known notification_key (notification_key (row rc)) (notifications d')" by blast
  from IH(2) ins have "\<exists>ns. d' = d\<lparr>notifications := notifications d @ ns\<rparr>" by auto
  with IH first show ?case by (auto simp: table_simps)
qed

lemma notify_all_again:
  "\<forall>rc \<in> set rcs. known notification_key (notification_key (row rc)) (notifications d) \<Longrightarrow>
     notify_all row rcs d = (Inr (), d)"
  by (induction rcs) (auto simp: run_then_def statement_def insert_notification_known returning_def)

section \<open>From the ledger to the consumers\<close>

lemma payload_posted:
  "payload_uuid (posted_payload c fx) ''transaction_id'' = Inr (fx_transaction_id fx)"
  "payload_uuid (posted_payload c fx) ''source_account_id'' = Inr (tc_source_account_id c)"
  "payload_uuid (posted_payload c fx) ''destination_account_id'' = Inr (tc_destination_account_id c)"
  "payload_int (posted_payload c fx) ''amount_minor'' = Inr (tc_amount_minor c)"
  "get_item (posted_payload c fx) ''currency'' = Inr (JStr (tc_currency c))"
  by (simp_all add: payload_uuid_def payload_int_def posted_payload_def get_item_def to_uuid_def to_int_def
      py_str_def parse_uuid_str)

lemma decode_envelope:
  "decode_transfer_data (Some (envelope ev)) = Inr (ev_event_id ev, ev_payload ev)"
  by (simp add: decode_transfer_data_def envelope_def get_item_def to_uuid_def parse_uuid_str)

lemma posted_event:
  assumes "ledger_inv d" and "bank_transfer hmac svc command fx d = (Inr (v, False), d')"
  shows "\<exists>r payload. outbox_events d' = outbox_events d @ [r] \<and> ob_status r = OB_PENDING \<and>
    ob_event_type r = ''payment.transfer_posted.v1'' \<and>
    decode_transfer_data (Some (envelope (event_of_row r))) = Inr (ob_outbox_event_id r, payload) \<and>
    payload_uuid payload ''transaction_id'' = Inr (tv_transaction_id v) \<and>
    payload_uuid payload ''source_account_id'' = Inr (tv_source_account_id v) \<and>
    payload_uuid payload ''destination_account_id'' = Inr (tv_destination_account_id v) \<and>
    payload_int payload ''amount_minor'' = Inr (tv_amount_minor v) \<and>
    get_item payload ''currency'' = Inr (JStr (tv_currency v))"
proof -
  obtain c row cs where v: "v = posted_view c fx" and d': "d' = posted_db c fx row (d\<lparr>sca_challenges := cs\<rparr>)"
    by (rule posted_transfer_facts [OF assms]) (rule that)
  let ?r = "outbox_pending (fx_outbox_event_id fx) ''transaction'' (fx_transaction_id fx)
    ''payment.transfer_posted.v1'' (posted_payload c fx) (fx_db_now fx)"
  have "outbox_events d' = outbox_events d @ [?r]" by (simp add: d' posted_db_def)
  moreover have "decode_transfer_data (Some (envelope (event_of_row ?r))) = Inr (ob_outbox_event_id ?r, posted_payload c fx)"
    by (simp add: decode_envelope event_of_row_def outbox_pending_def)
  ultimately show ?thesis
    by (intro exI [of _ ?r] exI [of _ "posted_payload c fx"])
      (simp add: payload_posted v posted_view_def outbox_pending_def)
qed

text \<open>The consumers read exactly what the ledger posted: a transfer that posts adds one pending outbox
  event, and decoding the envelope the publisher builds from it gives back the event's id and the
  transaction, the accounts, the amount and the currency of the answered transfer.\<close>

theorem posted_event_round_trip:
  assumes "ledger_inv d" and "bank_transfer hmac svc command fx d = (Inr (v, False), d')"
  shows "\<exists>r payload. outbox_events d' = outbox_events d @ [r] \<and> ob_status r = OB_PENDING \<and>
    ob_event_type r = ''payment.transfer_posted.v1'' \<and>
    decode_transfer_data (Some (envelope (event_of_row r))) = Inr (ob_outbox_event_id r, payload) \<and>
    payload_uuid payload ''transaction_id'' = Inr (tv_transaction_id v) \<and>
    payload_uuid payload ''source_account_id'' = Inr (tv_source_account_id v) \<and>
    payload_uuid payload ''destination_account_id'' = Inr (tv_destination_account_id v) \<and>
    payload_int payload ''amount_minor'' = Inr (tv_amount_minor v) \<and>
    get_item payload ''currency'' = Inr (JStr (tv_currency v))"
  by (rule posted_event [OF assms])

theorem posted_event_round_trip_witness:
  "\<exists>r payload. outbox_events demo_paid = outbox_events demo_funded @ [r] \<and>
     decode_transfer_data (Some (envelope (event_of_row r))) = Inr (ob_outbox_event_id r, payload) \<and>
     payload_int payload ''amount_minor'' = Inr 40000"
proof -
  from demo_payment_run have run: "bank_transfer demo_hmac demo_sca demo_payment (demo_fresh 200 6) demo_funded =
      (Inr (posted_view demo_payment_n (demo_fresh 200 6), False), demo_paid)"
    by (auto simp: demo_paid_def)
  from posted_event_round_trip [OF demo_funded_inv run] show ?thesis
    by (auto simp: posted_view_def demo_payment_n_def demo_payment_def demo_command_def)
qed

text \<open>A large transfer is flagged exactly once: however often its event is delivered to the risk worker,
  and whatever deliveries fail, the transaction has one HIGH_VALUE_TRANSFER alert as soon as a delivery is
  acknowledged, none before, and none ever when the amount does not exceed the threshold.\<close>

theorem high_value_alert_exactly_once:
  assumes "ledger_inv d" and "bank_transfer hmac svc command fx d = (Inr (v, False), d')"
    and "outbox_events d' = outbox_events d @ [r]" and "msg_data m = Some (envelope (event_of_row r))"
    and "process_batch (map (risk_handler threshold) fxs) (replicate (length fxs) m) e = (acks, e')"
    and "alert_count (tv_transaction_id v) e = 0"
  shows "alert_count (tv_transaction_id v) e' = (if threshold < tv_amount_minor v \<and> acks \<noteq> [] then 1 else 0) \<and>
    (tv_amount_minor v \<le> threshold \<longrightarrow> length acks = length fxs)"
proof -
  from posted_event [OF assms(1,2)] assms(3) obtain payload where
    "decode_transfer_data (Some (envelope (event_of_row r))) = Inr (ob_outbox_event_id r, payload)"
    "payload_uuid payload ''transaction_id'' = Inr (tv_transaction_id v)"
    "payload_int payload ''amount_minor'' = Inr (tv_amount_minor v)" by auto
  with assms(4) have "decode_transfer_data (msg_data m) = Inr (ob_outbox_event_id r, payload)" by simp
  from risk_deliveries [OF this \<open>payload_int payload _ = _\<close> \<open>payload_uuid payload _ = _\<close> assms(5)] assms(6)
  show ?thesis by (cases "threshold < tv_amount_minor v \<and> acks \<noteq> []") auto
qed

definition demo_delivery :: "uuid \<Rightarrow> worker_fresh" where
  "demo_delivery i = \<lparr>wf_alert_id = i, wf_outbox_id = i + 1, wf_request_id = i + 2,
     wf_audit = \<lparr>af_request = i + 3, af_event = i + 4, af_now = 7\<rparr>, wf_now = 7\<rparr>"

definition demo_transfer_event :: outbox_row where
  "demo_transfer_event = outbox_pending 203 ''transaction'' 200 ''payment.transfer_posted.v1''
     (posted_payload demo_payment_n (demo_fresh 200 6)) 6"

definition demo_message :: message where
  "demo_message = \<lparr>msg_ack_id = ''ack'', msg_data = Some (envelope (event_of_row demo_transfer_event))\<rparr>"

lemma demo_message_payload:
  "decode_transfer_data (msg_data demo_message) = Inr (203, posted_payload demo_payment_n (demo_fresh 200 6))"
  by (simp add: demo_message_def demo_transfer_event_def decode_envelope event_of_row_def outbox_pending_def)

lemma demo_paid_event: "outbox_events demo_paid = outbox_events demo_funded @ [demo_transfer_event]"
proof -
  from demo_payment_run obtain row where "demo_paid = posted_db demo_payment_n (demo_fresh 200 6) row demo_funded"
    by (auto simp: demo_paid_def)
  moreover have "outbox_events (posted_db demo_payment_n (demo_fresh 200 6) row demo_funded) =
      outbox_events demo_funded @ [demo_transfer_event]"
    by (simp add: posted_db_def demo_transfer_event_def demo_fresh_def)
  ultimately show ?thesis by simp
qed

lemma demo_paid_alerts: "risk_alerts demo_paid = []" "known tx_transaction_id 200 (transactions demo_paid)"
proof -
  obtain row row' where f: "demo_paid = posted_db demo_payment_n (demo_fresh 200 6) row
     (posted_db demo_deposit_n (demo_fresh 100 5) row' demo_db)"
    using demo_paid_db by blast
  show "risk_alerts demo_paid = []" "known tx_transaction_id 200 (transactions demo_paid)" unfolding f
    by (simp_all add: posted_db_def demo_db_def empty_db_def table_simps known_map new_transaction_def demo_fresh_def comp_def)
qed

theorem high_value_alert_exactly_once_witness:
  "\<exists>acks e'. process_batch (map (risk_handler 30000) [demo_delivery 600, demo_delivery 700])
     (replicate (length [demo_delivery 600, demo_delivery 700]) demo_message) demo_paid = (acks, e') \<and>
     alert_count 200 e' = (if acks \<noteq> [] then 1 else 0)"
proof -
  from demo_payment_run have run: "bank_transfer demo_hmac demo_sca demo_payment (demo_fresh 200 6) demo_funded =
      (Inr (posted_view demo_payment_n (demo_fresh 200 6), False), demo_paid)"
    by (auto simp: demo_paid_def)
  obtain acks e' where batch: "process_batch (map (risk_handler 30000) [demo_delivery 600, demo_delivery 700])
     (replicate (length [demo_delivery 600, demo_delivery 700]) demo_message) demo_paid = (acks, e')" by fastforce
  have "msg_data demo_message = Some (envelope (event_of_row demo_transfer_event))" by (simp add: demo_message_def)
  from high_value_alert_exactly_once [OF demo_funded_inv run demo_paid_event this batch] batch
  show ?thesis
    by (simp add: posted_view_def demo_fresh_def demo_payment_n_def demo_payment_def demo_command_def
        alert_count_def demo_paid_alerts(1))
qed

text \<open>The customers of a transfer are notified once per account: a delivery that is acknowledged leaves
  exactly one notification of the event for each customer account of the two, SENT for the source and
  RECEIVED for the destination, and a redelivery, also by another worker, changes nothing.\<close>

theorem notified_exactly_once:
  assumes "decode_transfer_data (msg_data m) = Inr (event_id, payload)"
    and "payload_uuid payload ''source_account_id'' = Inr source"
    and "payload_uuid payload ''destination_account_id'' = Inr destination"
    and "notification_handler ids now m d = (Inr (), d')"
    and "distinct (map notification_key (notifications d))"
    and "a \<in> set (bank_accounts d)" and "ba_customer_id a = Some customer"
    and "ba_account_id a = source \<or> ba_account_id a = destination"
  shows "length (filter (\<lambda>n. notification_key n = (customer, event_id, Some (ba_account_id a),
        Some (if ba_account_id a = source then SENT else RECEIVED))) (notifications d')) = 1 \<and>
    notification_handler ids' now' m d' = (Inr (), d')"
proof -
  from assms(1,4) have "create_notifications event_id payload ids now d = (Inr (), d')"
    by (simp add: notification_handler_def)
  then obtain amount currency where amount: "payload_int payload ''amount_minor'' = Inr amount"
    and currency: "get_item payload ''currency'' = Inr currency"
    and run: "notify_all (\<lambda>rc. notification_for event_id source amount (py_str currency) (ids (fst rc)) now rc)
        (recipients source destination d) d = (Inr (), d')"
    using assms(2,3) by (auto simp: create_notifications_def andthen_def split: sum.splits)
  let ?row = "\<lambda>ids now rc. notification_for event_id source amount (py_str currency) (ids (fst rc)) now rc"
  have key: "notification_key (?row ids now rc) =
      (snd rc, event_id, Some (fst rc), Some (if fst rc = source then SENT else RECEIVED))" for ids now rc
    by (simp add: notification_for_def notification_key_def Let_def)
  from notify_all_Inr [OF run assms(5)] obtain ns where dist: "distinct (map notification_key (notifications d'))"
    and d': "d' = d\<lparr>notifications := notifications d @ ns\<rparr>"
    and all: "\<forall>rc \<in> set (recipients source destination d). known notification_key (notification_key (?row ids now rc)) (notifications d')"
    by blast
  have same: "recipients source destination d' = recipients source destination d"
    by (simp add: d' recipients_def)
  have "notify_all (?row ids' now') (recipients source destination d') d' = (Inr (), d')"
    by (rule notify_all_again) (use all in \<open>simp add: same key\<close>)
  with assms(1-3) amount currency have again: "notification_handler ids' now' m d' = (Inr (), d')"
    by (simp add: notification_handler_def create_notifications_def)
  have "(ba_account_id a, customer) \<in> set (recipients source destination d)"
    using assms(6-8) by (auto simp: recipients_def intro!: bexI [of _ a])
  with all have "known notification_key (customer, event_id, Some (ba_account_id a),
      Some (if ba_account_id a = source then SENT else RECEIVED)) (notifications d')"
    by (fastforce simp: key)
  then obtain n where "row_get notification_key (customer, event_id, Some (ba_account_id a),
      Some (if ba_account_id a = source then SENT else RECEIVED)) (notifications d') = Some n"
    by (metis not_None_eq row_get_None_known)
  with filter_key [OF dist] again show ?thesis by simp
qed

theorem notified_exactly_once_witness:
  "\<exists>d'. notification_handler (\<lambda>a. a + 1000) 7 demo_message demo_db = (Inr (), d') \<and>
     length (filter (\<lambda>n. notification_key n = (21, 203, Some 11, Some SENT)) (notifications d')) = 1 \<and>
     notification_handler (\<lambda>a. a + 2000) 8 demo_message d' = (Inr (), d')"
proof -
  have payload: "payload_uuid (posted_payload demo_payment_n (demo_fresh 200 6)) ''source_account_id'' = Inr 11"
    "payload_uuid (posted_payload demo_payment_n (demo_fresh 200 6)) ''destination_account_id'' = Inr 12"
    by (simp_all add: payload_posted demo_payment_n_def demo_payment_def demo_command_def)
  have "recipients 11 12 demo_db = [(11, 21), (12, 21)]"
    by (simp add: recipients_def demo_db_def demo_account_def)
  moreover have "notifications demo_db = []" "known cu_customer_id 21 (customers demo_db)"
    "known ba_account_id 11 (bank_accounts demo_db)" "known ba_account_id 12 (bank_accounts demo_db)"
    by (simp_all add: demo_db_def empty_db_def demo_account_def table_simps)
  ultimately have "\<exists>d'. notification_handler (\<lambda>a. a + 1000) 7 demo_message demo_db = (Inr (), d')"
    by (simp add: notification_handler_def demo_message_payload create_notifications_def payload payload_posted(4,5)
        run_then_def statement_def insert_notification_def notification_for_def Let_def table_simps returning_def)
  then obtain d' where run: "notification_handler (\<lambda>a. a + 1000) 7 demo_message demo_db = (Inr (), d')" by blast
  have "distinct (map notification_key (notifications demo_db))"
    and account: "demo_account 11 (Some 21) ''a1'' \<in> set (bank_accounts demo_db)"
    by (simp_all add: demo_db_def empty_db_def)
  from notified_exactly_once [OF demo_message_payload payload run this, of 21] run
  show ?thesis by (intro exI [of _ d']) (simp add: demo_account_def)
qed

end
