(* ===== verification/Api_Admin.thy ===== *)
theory Api_Admin
  imports Api_Accounts Workers
begin

text \<open>
  The handlers of \<open>register_admin_routes\<close> and \<open>register_operations_routes\<close> in
  \<open>bantam/api.py\<close> that work on the bank: administrators and their scopes, the approval of Aspis
  auditors, customers and KYC decisions, account status, demo deposits, reversals, risk alerts, the
  audit trail and reconciliation. The routes that hand over to the assurance tools (ASVS, workflow
  graph, repository graph, attack laboratory, company financials) are not modelled.
\<close>

text \<open>\<open>require_admin_scope\<close>, the first statement of every administrator route.\<close>

definition scoped :: "app \<Rightarrow> principal \<Rightarrow> string \<Rightarrow> 'a handler \<Rightarrow> 'a handler" where
  "scoped app p scope m = run_then (reading (require_admin_scope app p scope)) (\<lambda>_. m)"

section \<open>Administrators\<close>

record admin_user_input =
  ui_email :: string
  ui_password :: string
  ui_permissions :: "string list"

text \<open>The request schema knows nine of the eleven scopes.\<close>

definition AdminPermissionScope :: "string list" where
  "AdminPermissionScope =
     [''admin_users'', ''customers'', ''transactions'', ''risk'', ''audit'', ''asvs'',
      ''aspis_auditors'', ''reconciliation'', ''workflows'']"

definition valid_admin_user_request :: "admin_user_input \<Rightarrow> bool" where
  "valid_admin_user_request i \<longleftrightarrow>
     length_in 3 254 (ui_email i) \<and> length_in 14 128 (ui_password i) \<and>
     1 \<le> length (ui_permissions i) \<and> length (ui_permissions i) \<le> 9 \<and>
     list_all (\<lambda>s. s \<in> set AdminPermissionScope) (ui_permissions i)"

record users_answer =
  us_users :: "admin_user_view list"
  us_available_permissions :: "string list"

definition permissions_of :: "uuid \<Rightarrow> db \<Rightarrow> string list" where
  "permissions_of user_id d = sort (map ap_scope (filter (\<lambda>r. ap_user_id r = user_id) (admin_permissions d)))"

definition admin_list_users :: "app \<Rightarrow> env \<Rightarrow> api_request \<Rightarrow> principal \<Rightarrow> users_answer handler" where
  "admin_list_users app env req p =
     scoped app p ''admin_users'' (asking (\<lambda>d.
       let rows = newest (query_limit req 100 250) ua_created_at
                    (filter (\<lambda>u. ua_role u = BANK_ADMIN) (user_accounts d)) in
       run_then (audited (request_audit app req (uuid_str (pr_user_id p)) ''ADMIN_VIEWED_USERS''
         ''user_account_collection'' ''bank_admins'' (JObj [])) (en_audit env 0)) (\<lambda>_.
       returning \<lparr>us_users = map (\<lambda>u. admin_user_payload u (has_factor (ua_user_id u) d)
                    (permissions_of (ua_user_id u) d) (ap_settings app)) rows,
                  us_available_permissions = ADMIN_PERMISSION_SCOPES\<rparr>)))"

definition insert_permission :: "permission_row \<Rightarrow> db \<Rightarrow> failure + db" where
  "insert_permission r d =
     (if ap_scope r \<notin> set ADMIN_PERMISSION_SCOPES
      then Inl (CheckViolation ''admin_permissions_scope_check'')
      else if known (\<lambda>x. (ap_user_id x, ap_scope x)) (ap_user_id r, ap_scope r) (admin_permissions d)
      then Inl (UniqueViolation ''admin_permissions_pkey'')
      else if \<not> known ua_user_id (ap_user_id r) (user_accounts d)
      then Inl (ForeignKeyViolation ''admin_permissions_user_id_fkey'')
      else if (case ap_granted_by r of None \<Rightarrow> False | Some g \<Rightarrow> \<not> known ua_user_id g (user_accounts d))
      then Inl (ForeignKeyViolation ''admin_permissions_granted_by_fkey'')
      else Inr (d\<lparr>admin_permissions := admin_permissions d @ [r]\<rparr>))"

fun insert_permissions :: "uuid \<Rightarrow> uuid \<Rightarrow> string list \<Rightarrow> db \<Rightarrow> failure + db" where
  "insert_permissions user_id granted_by [] d = Inr d"
| "insert_permissions user_id granted_by (scope # scopes) d =
     andthen (insert_permission \<lparr>ap_user_id = user_id, ap_scope = scope, ap_granted_by = Some granted_by\<rparr> d)
       (insert_permissions user_id granted_by scopes)"

definition admin_user_body ::
  "app \<Rightarrow> env \<Rightarrow> api_request \<Rightarrow> principal \<Rightarrow> string \<Rightarrow> string \<Rightarrow> string list \<Rightarrow> db \<Rightarrow> failure + unit \<times> db" where
  "admin_user_body app env req p email password_hash permissions d =
     (let user_id = en_uuid env 0 in
      andthen (insert_user (new_user env user_id email password_hash BANK_ADMIN None) d) (\<lambda>d.
      andthen (insert_permissions user_id (pr_user_id p) permissions d) (\<lambda>d.
      andthen (audit_record (request_audit app req (uuid_str (pr_user_id p)) ''ADMIN_USER_CREATED'' ''user_account''
        (uuid_str user_id) (JObj [(''subject_email'', JStr email), (''permissions'', JList (map JStr permissions))]))
        (en_audit env 0) d) (\<lambda>d. Inr ((), d)))))"

definition admin_create_user ::
  "app \<Rightarrow> env \<Rightarrow> api_request \<Rightarrow> parsed_token \<Rightarrow> admin_user_input \<Rightarrow> admin_user_view handler" where
  "admin_create_user app env req token input =
     (let p = pt_principal token; email = py_lower (py_strip (ui_email input));
          requested = remdups (ui_permissions input);
          permissions = filter (\<lambda>s. s \<in> set requested) ADMIN_PERMISSION_SCOPES in
      run_then (reading (\<lambda>_. require_recent_mfa app env token)) (\<lambda>_.
      scoped app p ''admin_users'' (
        if \<not> EMAIL_PATTERN email then raising (validation ''email is invalid'')
        else if length permissions \<noteq> length requested
        then raising (validation ''permissions include an unsupported scope'')
        else if permissions = [] then raising (validation ''at least one permission is required'')
        else
          run_then (reading (\<lambda>_. hashed_password app env (ui_password input) [email, ''bank admin''])) (\<lambda>password_hash.
          run_then (handling (\<lambda>failed. case failed of
              UniqueViolation _ \<Rightarrow> Some (raising (bantam ''EMAIL_EXISTS'' ''email already belongs to an account'' 409))
            | _ \<Rightarrow> None)
            (on_db (in_transaction (admin_user_body app env req p email password_hash permissions)))) (\<lambda>_.
          returning (admin_user_payload (new_user env (en_uuid env 0) email password_hash BANK_ADMIN None)
            False permissions (ap_settings app)))))))"

section \<open>Aspis auditors\<close>

record auditor_request_view =
  qv_request_id :: uuid
  qv_status :: request_status
  qv_requested_at :: timestamp
  qv_decided_at :: "timestamp option"
  qv_decision_reason :: "string option"
  qv_email :: string

definition auditor_request_views :: "db \<Rightarrow> auditor_request_view list" where
  "auditor_request_views d =
     concat (map (\<lambda>r. case row_get ua_user_id (ar_user_id r) (user_accounts d) of
                        None \<Rightarrow> []
                      | Some u \<Rightarrow> [\<lparr>qv_request_id = ar_request_id r, qv_status = ar_status r,
                          qv_requested_at = ar_requested_at r, qv_decided_at = ar_decided_at r,
                          qv_decision_reason = ar_decision_reason r, qv_email = ua_email u\<rparr>])
       (aspis_auditor_requests d))"

definition list_aspis_auditor_requests :: "app \<Rightarrow> api_request \<Rightarrow> principal \<Rightarrow> auditor_request_view list handler" where
  "list_aspis_auditor_requests app req p =
     scoped app p ''aspis_auditors'' (reading (\<lambda>d.
       Inr (take (nat (query_limit req 100 250))
         (sort_key (\<lambda>v. if qv_status v = REQ_PENDING then 0 else 1 :: nat)
           (sort_key qv_requested_at (auditor_request_views d))))))"

datatype auditor_decision = APPROVE | REJECT

definition request_status_str :: "request_status \<Rightarrow> string" where
  "request_status_str s =
     (case s of REQ_PENDING \<Rightarrow> ''PENDING'' | REQ_APPROVED \<Rightarrow> ''APPROVED'' | REQ_REJECTED \<Rightarrow> ''REJECTED'')"

definition decided_status :: "auditor_decision \<Rightarrow> request_status" where
  "decided_status decision = (case decision of APPROVE \<Rightarrow> REQ_APPROVED | REJECT \<Rightarrow> REQ_REJECTED)"

text \<open>The UPDATE of the applicant: only an account that is still pending is changed.\<close>

definition decide_applicant :: "auditor_decision \<Rightarrow> uuid \<Rightarrow> timestamp \<Rightarrow> db \<Rightarrow> failure + db" where
  "decide_applicant decision user_id db_now d =
     (let pending = (\<lambda>u. ua_user_id u = user_id \<and> ua_role u = PENDING_APPROVAL);
          change = (case decision of
                      APPROVE \<Rightarrow> (\<lambda>u. u\<lparr>ua_role := ASPIS_AUDITOR, ua_status := USER_ACTIVE, ua_updated_at := db_now\<rparr>)
                    | REJECT \<Rightarrow> (\<lambda>u. u\<lparr>ua_status := USER_DISABLED, ua_updated_at := db_now\<rparr>)) in
      if \<not> list_ex pending (user_accounts d)
      then Inl (bantam ''INVALID_APPROVAL_STATE'' ''The applicant account is no longer pending.'' 409)
      else Inr (d\<lparr>user_accounts := rows_update pending change (user_accounts d)\<rparr>))"

definition record_decision ::
  "auditor_decision \<Rightarrow> uuid \<Rightarrow> uuid \<Rightarrow> string \<Rightarrow> timestamp \<Rightarrow> db \<Rightarrow> db" where
  "record_decision decision request_id decided_by reason db_now d =
     d\<lparr>aspis_auditor_requests := rows_update (\<lambda>r. ar_request_id r = request_id)
         (\<lambda>r. r\<lparr>ar_status := decided_status decision, ar_decided_by := Some decided_by,
               ar_decision_reason := (if reason = [] then None else Some reason), ar_decided_at := Some db_now\<rparr>)
         (aspis_auditor_requests d)\<rparr>"

definition decision_body ::
  "app \<Rightarrow> env \<Rightarrow> api_request \<Rightarrow> principal \<Rightarrow> uuid \<Rightarrow> auditor_decision \<Rightarrow> string \<Rightarrow> db \<Rightarrow> failure + string \<times> db" where
  "decision_body app env req p request_id decision reason d =
     (case row_get ar_request_id request_id (aspis_auditor_requests d) of
        None \<Rightarrow> Inl (bantam ''NOT_FOUND'' ''Auditor request was not found.'' 404)
      | Some approval \<Rightarrow>
     (case row_get ua_user_id (ar_user_id approval) (user_accounts d) of
        None \<Rightarrow> Inl (bantam ''NOT_FOUND'' ''Auditor request was not found.'' 404)
      | Some applicant \<Rightarrow>
          if ar_status approval \<noteq> REQ_PENDING
          then Inl (bantam ''INVALID_APPROVAL_STATE'' ''This auditor request was already decided.'' 409)
          else
            andthen (decide_applicant decision (ar_user_id approval) (en_db_now env) d) (\<lambda>d.
            andthen (audit_record (request_audit app req (uuid_str (pr_user_id p))
              (''ASPIS_AUDITOR_'' @ request_status_str (decided_status decision)) ''aspis_auditor_request''
              (uuid_str request_id)
              (JObj [(''subject_user_id'', JStr (uuid_str (ar_user_id approval))),
                     (''reason'', if reason = [] then JNull else JStr reason)])) (en_audit env 0)
              (record_decision decision request_id (pr_user_id p) reason (en_db_now env) d)) (\<lambda>d.
            Inr (ua_email applicant, d)))))"

record decision_answer =
  dc_request_id :: uuid
  dc_status :: request_status
  dc_email :: string

definition decide_aspis_auditor_request ::
  "app \<Rightarrow> env \<Rightarrow> api_request \<Rightarrow> parsed_token \<Rightarrow> uuid \<Rightarrow> auditor_decision \<Rightarrow> string \<Rightarrow> decision_answer handler" where
  "decide_aspis_auditor_request app env req token request_id decision reason_input =
     (let p = pt_principal token; reason = py_strip reason_input in
      run_then (reading (\<lambda>_. require_recent_mfa app env token)) (\<lambda>_.
      scoped app p ''aspis_auditors'' (
        if decision = REJECT \<and> reason = []
        then raising (validation ''A reason is required when rejecting an auditor.'')
        else
          run_then (on_db (in_transaction (decision_body app env req p request_id decision reason))) (\<lambda>email.
          returning \<lparr>dc_request_id = request_id, dc_status = decided_status decision, dc_email = email\<rparr>))))"

section \<open>Customers and accounts\<close>

definition admin_list_customers :: "app \<Rightarrow> env \<Rightarrow> api_request \<Rightarrow> principal \<Rightarrow> customer_row list handler" where
  "admin_list_customers app env req p =
     scoped app p ''customers'' (asking (\<lambda>d.
       run_then (audited (request_audit app req (uuid_str (pr_user_id p)) ''ADMIN_VIEWED_CUSTOMERS''
         ''customer_collection'' ''customers'' (JObj [])) (en_audit env 0)) (\<lambda>_.
       returning (newest (query_limit req 100 250) cu_created_at (customers d)))))"

definition kyc_decision :: "string \<Rightarrow> (kyc_status \<times> string) option" where
  "kyc_decision text =
     (let decision = py_upper (py_strip text) in
      if decision \<in> set [''APPROVE'', ''KYC_VERIFIED''] then Some (KYC_VERIFIED, ''customer.kyc_verified.v1'')
      else if decision \<in> set [''REJECT'', ''KYC_REJECTED''] then Some (KYC_REJECTED, ''customer.kyc_rejected.v1'')
      else None)"

definition kyc_body ::
  "app \<Rightarrow> env \<Rightarrow> api_request \<Rightarrow> principal \<Rightarrow> uuid \<Rightarrow> kyc_status \<Rightarrow> string \<Rightarrow> string \<Rightarrow> db \<Rightarrow> failure + unit \<times> db" where
  "kyc_body app env req p customer_id decision event_type reason d =
     andthen (update_kyc customer_id (\<lambda>c. cu_kyc_status c = PENDING_REVIEW) decision (en_db_now env)
       ''customer must be pending KYC review'' d) (\<lambda>d.
     andthen (insert_outbox (outbox_pending (en_uuid env 0) ''customer'' customer_id event_type
       (JObj [(''customer_id'', JStr (uuid_str customer_id)), (''kyc_status'', JStr (kyc_str decision))])
       (en_db_now env)) d) (\<lambda>d.
     andthen (audit_record (request_audit app req (uuid_str (pr_user_id p)) ''KYC_DECIDED'' ''customer''
       (uuid_str customer_id) (JObj [(''decision'', JStr (kyc_str decision)), (''reason'', JStr reason)]))
       (en_audit env 0) d) (\<lambda>d. Inr ((), d))))"

definition admin_decide_kyc ::
  "app \<Rightarrow> env \<Rightarrow> api_request \<Rightarrow> principal \<Rightarrow> uuid \<Rightarrow> string \<Rightarrow> string \<Rightarrow> kyc_status handler" where
  "admin_decide_kyc app env req p customer_id decision reason =
     scoped app p ''customers'' (
       case kyc_decision decision of
         None \<Rightarrow> raising (validation_error ''decision must be APPROVE or REJECT'' ''INVALID_DECISION'')
       | Some (kyc, event_type) \<Rightarrow>
           run_then (on_db (in_transaction (kyc_body app env req p customer_id kyc event_type reason))) (\<lambda>_.
           returning kyc))"

definition parse_account_status :: "string \<Rightarrow> account_status option" where
  "parse_account_status text =
     (let status = py_upper (py_strip text) in
      if status = ''ACTIVE'' then Some ACCOUNT_ACTIVE
      else if status = ''FROZEN'' then Some ACCOUNT_FROZEN else None)"

definition set_account_status :: "uuid \<Rightarrow> account_status \<Rightarrow> db \<Rightarrow> failure + db" where
  "set_account_status account_id status d =
     (let open_current = (\<lambda>a. ba_account_id a = account_id \<and> ba_account_type a = CURRENT \<and>
                            ba_status a \<noteq> ACCOUNT_CLOSED) in
      if list_ex open_current (bank_accounts d)
      then Inr (d\<lparr>bank_accounts := rows_update open_current (ba_status_update (\<lambda>_. status)) (bank_accounts d)\<rparr>)
      else Inl (bantam ''NOT_FOUND'' ''account was not found'' 404))"

definition account_status_body ::
  "app \<Rightarrow> env \<Rightarrow> api_request \<Rightarrow> principal \<Rightarrow> uuid \<Rightarrow> account_status \<Rightarrow> string \<Rightarrow> db \<Rightarrow> failure + unit \<times> db" where
  "account_status_body app env req p account_id status reason d =
     (let frozen = (status = ACCOUNT_FROZEN);
          status_text = (if frozen then ''FROZEN'' else ''ACTIVE'');
          event_type = (if frozen then ''account.frozen.v1'' else ''account.unfrozen.v1'');
          action = (if frozen then ''ACCOUNT_FROZEN'' else ''ACCOUNT_UNFROZEN'') in
      andthen (set_account_status account_id status d) (\<lambda>d.
      andthen (insert_outbox (outbox_pending (en_uuid env 0) ''account'' account_id event_type
        (JObj [(''account_id'', JStr (uuid_str account_id)), (''status'', JStr status_text), (''reason'', JStr reason)])
        (en_db_now env)) d) (\<lambda>d.
      andthen (audit_record (request_audit app req (uuid_str (pr_user_id p)) action ''bank_account''
        (uuid_str account_id) (JObj [(''reason'', JStr reason)])) (en_audit env 0) d) (\<lambda>d. Inr ((), d)))))"

definition operator_set_account_status ::
  "app \<Rightarrow> env \<Rightarrow> api_request \<Rightarrow> principal \<Rightarrow> uuid \<Rightarrow> string \<Rightarrow> string \<Rightarrow> account_status handler" where
  "operator_set_account_status app env req p account_id status_input reason =
     scoped app p ''transactions'' (
       case parse_account_status status_input of
         None \<Rightarrow> raising (validation_error ''status must be ACTIVE or FROZEN'' ''INVALID_STATUS'')
       | Some status \<Rightarrow>
           run_then (on_db (in_transaction (account_status_body app env req p account_id status reason))) (\<lambda>_.
           returning status))"

section \<open>Deposits and reversals\<close>

record deposit_input =
  di_amount_minor :: int
  di_currency :: string
  di_description :: string

definition valid_deposit_request :: "deposit_input \<Rightarrow> bool" where
  "valid_deposit_request i \<longleftrightarrow>
     valid_amount (di_amount_minor i) \<and> length_in 3 3 (di_currency i) \<and> length_in 0 140 (di_description i)"

definition deposit_command ::
  "api_request \<Rightarrow> principal \<Rightarrow> string \<Rightarrow> uuid \<Rightarrow> uuid \<Rightarrow> deposit_input \<Rightarrow> transfer_command" where
  "deposit_command req p idempotency_key system_account account_id i =
     \<lparr>tc_request_id = rq_request_id req, tc_idempotency_key = idempotency_key, tc_actor = p,
      tc_source_account_id = system_account, tc_destination_account_id = account_id,
      tc_amount_minor = di_amount_minor i,
      tc_currency = (if di_currency i = [] then ''GBP'' else di_currency i),
      tc_description = di_description i, tc_sca_challenge_id = None, tc_sca_code = [],
      tc_operator_override = True, tc_transaction_type = Some DEMO_DEPOSIT, tc_reverses_transaction_id = None\<rparr>"

definition admin_demo_deposit ::
  "app \<Rightarrow> env \<Rightarrow> api_request \<Rightarrow> principal \<Rightarrow> uuid \<Rightarrow> deposit_input \<Rightarrow> string option
     \<Rightarrow> (transaction_view \<times> bool) handler" where
  "admin_demo_deposit app env req p account_id i idempotency_key =
     scoped app p ''transactions'' (
       run_then (reading (\<lambda>_. require_idempotency_key idempotency_key)) (\<lambda>key.
       asking (\<lambda>d.
         case find (\<lambda>a. ba_account_type a = SYSTEM \<and> ba_currency a = ''GBP'' \<and> ba_status a = ACCOUNT_ACTIVE)
                (bank_accounts d) of
           None \<Rightarrow> raising (bantam ''SYSTEM_ACCOUNT_MISSING''
                      ''run the seed command to create the demo treasury account'' 409)
         | Some system_account \<Rightarrow>
             ledger_transfer app env (deposit_command req p key (ba_account_id system_account) account_id i))))"

definition reversal_command ::
  "api_request \<Rightarrow> principal \<Rightarrow> string \<Rightarrow> transaction_row \<Rightarrow> string \<Rightarrow> transfer_command" where
  "reversal_command req p idempotency_key original reason =
     \<lparr>tc_request_id = rq_request_id req, tc_idempotency_key = idempotency_key, tc_actor = p,
      tc_source_account_id = tx_destination_account_id original,
      tc_destination_account_id = tx_source_account_id original,
      tc_amount_minor = tx_amount_minor original, tc_currency = tx_currency original,
      tc_description = ''Reversal: '' @ py_strip reason, tc_sca_challenge_id = None, tc_sca_code = [],
      tc_operator_override = True, tc_transaction_type = Some REVERSAL,
      tc_reverses_transaction_id = Some (tx_transaction_id original)\<rparr>"

definition admin_reverse_transaction ::
  "app \<Rightarrow> env \<Rightarrow> api_request \<Rightarrow> principal \<Rightarrow> uuid \<Rightarrow> string \<Rightarrow> string option
     \<Rightarrow> (transaction_view \<times> bool) handler" where
  "admin_reverse_transaction app env req p tid reason idempotency_key =
     scoped app p ''transactions'' (
       run_then (reading (\<lambda>_. require_idempotency_key idempotency_key)) (\<lambda>key.
       asking (\<lambda>d.
         case row_get tx_transaction_id tid (transactions d) of
           None \<Rightarrow> raising (bantam ''NOT_FOUND'' ''transaction was not found'' 404)
         | Some original \<Rightarrow>
             if tx_status original \<noteq> TX_POSTED
             then raising (bantam ''NOT_REVERSIBLE'' ''only posted transactions can be reversed'' 409)
             else ledger_transfer app env (reversal_command req p key original reason))))"

definition min_amount :: "api_request \<Rightarrow> failure + int" where
  "min_amount req =
     (let raw = py_strip (lookup_default ''min_amount_minor'' (rq_query req) []);
          refuse = Inl (bantam ''INVALID_AMOUNT'' ''min_amount_minor must be a non-negative integer'' 400) in
      if raw = [] then Inr 0
      else case py_int raw of None \<Rightarrow> refuse | Some minimum \<Rightarrow> if minimum < 0 then refuse else Inr minimum)"

definition operator_list_transactions :: "app \<Rightarrow> api_request \<Rightarrow> principal \<Rightarrow> transaction_view list handler" where
  "operator_list_transactions app req p =
     scoped app p ''transactions'' (reading (\<lambda>d.
       andthen (min_amount req) (\<lambda>minimum.
       Inr (map transaction_payload (newest (query_limit req 100 250) tx_created_at
         (filter (\<lambda>t. tx_amount_minor t \<ge> minimum) (transactions d)))))))"

section \<open>Risk alerts\<close>

definition parse_alert_status :: "string \<Rightarrow> alert_status option" where
  "parse_alert_status text =
     (let status = py_upper (py_strip text) in
      if status = ''OPEN'' then Some ALERT_OPEN else if status = ''REVIEWED'' then Some ALERT_REVIEWED
      else if status = ''DISMISSED'' then Some ALERT_DISMISSED else None)"

definition list_risk_alerts :: "app \<Rightarrow> api_request \<Rightarrow> principal \<Rightarrow> alert_row list handler" where
  "list_risk_alerts app req p =
     scoped app p ''risk'' (reading (\<lambda>d.
       case parse_alert_status (lookup_default ''status'' (rq_query req) ''OPEN'') of
         None \<Rightarrow> Inl (bantam ''INVALID_STATUS'' ''status must be OPEN, REVIEWED, or DISMISSED'' 400)
       | Some status \<Rightarrow>
           Inr (newest (query_limit req 100 250) ra_created_at (filter (\<lambda>a. ra_status a = status) (risk_alerts d)))))"

definition parse_severity :: "string \<Rightarrow> severity option" where
  "parse_severity text =
     (let s = py_upper (py_strip text) in
      if s = ''LOW'' then Some SEV_LOW else if s = ''MEDIUM'' then Some SEV_MEDIUM
      else if s = ''HIGH'' then Some SEV_HIGH else if s = ''CRITICAL'' then Some SEV_CRITICAL else None)"

definition MANUAL_REVIEW :: string where "MANUAL_REVIEW = ''MANUAL_REVIEW''"

definition manual_alert :: "env \<Rightarrow> uuid \<Rightarrow> uuid option \<Rightarrow> severity \<Rightarrow> string \<Rightarrow> alert_row" where
  "manual_alert env tid customer_id severity explanation =
     \<lparr>ra_risk_alert_id = en_uuid env 0, ra_transaction_id = tid, ra_customer_id = customer_id,
      ra_rule_id = MANUAL_REVIEW, ra_severity = severity, ra_status = ALERT_OPEN,
      ra_explanation = explanation, ra_created_at = en_db_now env, ra_reviewed_at = None, ra_reviewed_by = None\<rparr>"

definition create_manual_risk_alert ::
  "app \<Rightarrow> env \<Rightarrow> api_request \<Rightarrow> principal \<Rightarrow> uuid \<Rightarrow> string \<Rightarrow> string \<Rightarrow> uuid handler" where
  "create_manual_risk_alert app env req p tid severity_input explanation_input =
     scoped app p ''risk'' (
       case parse_severity severity_input of
         None \<Rightarrow> raising (validation_error ''severity must be LOW, MEDIUM, HIGH, or CRITICAL'' ''INVALID_SEVERITY'')
       | Some severity \<Rightarrow>
           let explanation = py_strip explanation_input in
           if explanation = [] then raising (validation ''explanation is required'')
           else asking (\<lambda>d.
             case row_get tx_transaction_id tid (transactions d) of
               None \<Rightarrow> raising (bantam ''NOT_FOUND'' ''transaction was not found'' 404)
             | Some t \<Rightarrow>
                 run_then (handling (\<lambda>failed. case failed of
                     UniqueViolation _ \<Rightarrow> Some (raising
                       (bantam ''ALERT_EXISTS'' ''a manual alert already exists for this transaction'' 409))
                   | _ \<Rightarrow> None)
                   (on_db (statement (insert_alert (manual_alert env tid
                     (alert_customer (tx_source_account_id t) (tx_destination_account_id t) d)
                     severity explanation))))) (\<lambda>_.
                 run_then (audited (request_audit app req (uuid_str (pr_user_id p)) ''RISK_ALERT_CREATED'' ''risk_alert''
                   (uuid_str (en_uuid env 0))
                   (JObj [(''transaction_id'', JStr (uuid_str tid)),
                          (''severity'', JStr (py_upper (py_strip severity_input)))])) (en_audit env 0)) (\<lambda>_.
                 returning (en_uuid env 0)))))"

definition review_alert :: "uuid \<Rightarrow> alert_status \<Rightarrow> uuid \<Rightarrow> timestamp \<Rightarrow> db \<Rightarrow> failure + db" where
  "review_alert alert_id status reviewer db_now d =
     (let open_alert = (\<lambda>a. ra_risk_alert_id a = alert_id \<and> ra_status a = ALERT_OPEN) in
      if list_ex open_alert (risk_alerts d)
      then Inr (d\<lparr>risk_alerts := rows_update open_alert
             (\<lambda>a. a\<lparr>ra_status := status, ra_reviewed_at := Some db_now, ra_reviewed_by := Some reviewer\<rparr>)
             (risk_alerts d)\<rparr>)
      else Inl (bantam ''INVALID_ALERT_STATE'' ''risk alert is not open'' 409))"

definition review_risk_alert ::
  "app \<Rightarrow> env \<Rightarrow> api_request \<Rightarrow> principal \<Rightarrow> uuid \<Rightarrow> string \<Rightarrow> string \<Rightarrow> alert_status handler" where
  "review_risk_alert app env req p alert_id status_input note =
     scoped app p ''risk'' (
       case parse_alert_status status_input of
         Some status \<Rightarrow>
           if status = ALERT_OPEN
           then raising (validation_error ''status must be REVIEWED or DISMISSED'' ''INVALID_STATUS'')
           else
             run_then (on_db (statement (review_alert alert_id status (pr_user_id p) (en_db_now env)))) (\<lambda>_.
             run_then (audited (request_audit app req (uuid_str (pr_user_id p)) ''RISK_ALERT_REVIEWED'' ''risk_alert''
               (uuid_str alert_id)
               (JObj [(''status'', JStr (py_upper (py_strip status_input))), (''note'', JStr note)])) (en_audit env 0)) (\<lambda>_.
             returning status))
       | None \<Rightarrow> raising (validation_error ''status must be REVIEWED or DISMISSED'' ''INVALID_STATUS''))"

section \<open>The audit trail and reconciliation\<close>

definition list_audit_events :: "app \<Rightarrow> api_request \<Rightarrow> principal \<Rightarrow> audit_row list handler" where
  "list_audit_events app req p =
     scoped app p ''audit'' (reading (\<lambda>d. Inr (newest (query_limit req 100 500) au_created_at (audit_events d))))"

record reconciliation_answer =
  rn_pass :: bool
  rn_accounts_checked :: nat
  rn_mismatches :: nat
  rn_results :: "reconciliation list"

definition run_reconciliation :: "app \<Rightarrow> env \<Rightarrow> api_request \<Rightarrow> principal \<Rightarrow> reconciliation_answer handler" where
  "run_reconciliation app env req p =
     scoped app p ''reconciliation'' (
       run_then (reading reconcile) (\<lambda>results.
       let mismatches = length (filter (\<lambda>r. \<not> rc_matches r) results) in
       run_then (audited (request_audit app req (uuid_str (pr_user_id p)) ''RECONCILIATION_COMPLETED'' ''ledger''
         ''all_accounts'' (JObj [(''accounts_checked'', JInt (int (length results))),
                             (''mismatches'', JInt (int mismatches))])) (en_audit env 0)) (\<lambda>_.
       returning \<lparr>rn_pass = (mismatches = 0), rn_accounts_checked = length results,
                  rn_mismatches = mismatches, rn_results = results\<rparr>)))"

end
