(* ===== verification/Api.thy ===== *)
theory Api
  imports Api_Admin
begin

text \<open>
  The router: the banking routes of \<open>bantam/api.py\<close> as one datatype of calls, and \<open>api_step\<close>,
  what the server does with a call. A route first resolves its principal dependency, then the request
  body is checked against its schema, then the handler runs.

  The invariants of these steps are in theory \<open>Api_Invariants\<close>, the steps of the whole bank
  in theory \<open>Bank\<close>.
\<close>

section \<open>Calls and answers\<close>

datatype api_call =
    Register register_input
  | RegisterAuditor credentials_input
  | Login credentials_input
  | SetupMfa uuid string string
  | CompletePasskey uuid "(string \<times> json) list"
  | CompleteTotp uuid string
  | MfaState
  | BeginEnrollment string string string
  | RemovePasskey uuid
  | RemoveTotp
  | Logout
  | Me
  | SubmitKyc
  | ListAccounts
  | OpenAccount string
  | GetAccount uuid
  | ListAccountTransactions uuid
  | ListNotifications
  | AccountStatusClaim
  | CreateScaChallenge uuid uuid int
  | CreateTransfer transfer_input "string option"
  | GetTransfer uuid
  | AdminListUsers
  | AdminCreateUser admin_user_input
  | ListAuditorRequests
  | DecideAuditorRequest uuid auditor_decision string
  | AdminListCustomers
  | AdminDecideKyc uuid string string
  | SetAccountStatus uuid string string
  | DemoDeposit uuid deposit_input "string option"
  | ReverseTransaction uuid string "string option"
  | OperatorListTransactions
  | ListRiskAlerts
  | CreateManualAlert uuid string string
  | ReviewAlert uuid string string
  | ListAuditEvents
  | RunReconciliation

datatype reply =
    Accepted string
  | Session session_answer
  | LoginAnswer login_answer
  | Setup mfa_setup
  | MfaDescription mfa_description
  | Done
  | Profile profile
  | Kyc kyc_status
  | Accounts "account_view list"
  | Account account_view
  | Transactions "transaction_view list"
  | Notifications "notification_row list"
  | Claim claim_answer
  | ScaChallenge sca_challenge
  | Transaction transaction_view
  | Transfer transaction_view bool
  | Users users_answer
  | AdminUser admin_user_view
  | AuditorRequests "auditor_request_view list"
  | Decision decision_answer
  | Customers "customer_row list"
  | AccountStatus account_status
  | Alerts "alert_row list"
  | AlertCreated uuid
  | AlertReviewed alert_status
  | AuditEvents "audit_row list"
  | Reconciliation reconciliation_answer

text \<open>The principal type of each route; \<open>None\<close> for the public ones.\<close>

definition required_roles :: "api_call \<Rightarrow> role list option" where
  "required_roles call =
     (case call of
        Register _ \<Rightarrow> None | RegisterAuditor _ \<Rightarrow> None | Login _ \<Rightarrow> None
      | SetupMfa _ _ _ \<Rightarrow> None | CompletePasskey _ _ \<Rightarrow> None | CompleteTotp _ _ \<Rightarrow> None
      | MfaState \<Rightarrow> Some MfaPrincipal | BeginEnrollment _ _ _ \<Rightarrow> Some MfaPrincipal
      | RemovePasskey _ \<Rightarrow> Some MfaPrincipal | RemoveTotp \<Rightarrow> Some MfaPrincipal
      | Logout \<Rightarrow> Some AnyPrincipal | Me \<Rightarrow> Some AnyPrincipal
      | SubmitKyc \<Rightarrow> Some CustomerPrincipal | ListAccounts \<Rightarrow> Some CustomerPrincipal
      | OpenAccount _ \<Rightarrow> Some CustomerPrincipal | GetAccount _ \<Rightarrow> Some CustomerPrincipal
      | ListAccountTransactions _ \<Rightarrow> Some CustomerPrincipal | ListNotifications \<Rightarrow> Some CustomerPrincipal
      | AccountStatusClaim \<Rightarrow> Some CustomerPrincipal | CreateScaChallenge _ _ _ \<Rightarrow> Some CustomerPrincipal
      | CreateTransfer _ _ \<Rightarrow> Some CustomerPrincipal | GetTransfer _ \<Rightarrow> Some CustomerPrincipal
      | AdminListUsers \<Rightarrow> Some AdminPrincipal | AdminCreateUser _ \<Rightarrow> Some AdminPrincipal
      | ListAuditorRequests \<Rightarrow> Some AspisAdminPrincipal | DecideAuditorRequest _ _ _ \<Rightarrow> Some AspisAdminPrincipal
      | AdminListCustomers \<Rightarrow> Some AdminPrincipal | AdminDecideKyc _ _ _ \<Rightarrow> Some AdminPrincipal
      | SetAccountStatus _ _ _ \<Rightarrow> Some OperatorPrincipal | DemoDeposit _ _ _ \<Rightarrow> Some AdminPrincipal
      | ReverseTransaction _ _ _ \<Rightarrow> Some AdminPrincipal | OperatorListTransactions \<Rightarrow> Some OperatorPrincipal
      | ListRiskAlerts \<Rightarrow> Some OperatorPrincipal | CreateManualAlert _ _ _ \<Rightarrow> Some OperatorPrincipal
      | ReviewAlert _ _ _ \<Rightarrow> Some OperatorPrincipal | ListAuditEvents \<Rightarrow> Some AuditPrincipal
      | RunReconciliation \<Rightarrow> Some ReconcilePrincipal)"

text \<open>The field constraints of the request models.\<close>

definition valid_request :: "api_call \<Rightarrow> bool" where
  "valid_request call =
     (case call of
        Register i \<Rightarrow> valid_register_request i
      | RegisterAuditor i \<Rightarrow> valid_auditor_request i
      | Login i \<Rightarrow> valid_login_request i
      | SetupMfa _ meth label \<Rightarrow> valid_setup_request meth label
      | CompleteTotp _ code \<Rightarrow> valid_totp_request code
      | BeginEnrollment password meth label \<Rightarrow> valid_enrollment_request password meth label
      | CreateScaChallenge _ _ amount_minor \<Rightarrow> valid_amount amount_minor
      | CreateTransfer i _ \<Rightarrow> valid_transfer_request i
      | AdminCreateUser i \<Rightarrow> valid_admin_user_request i
      | DecideAuditorRequest _ _ reason \<Rightarrow> length_in 0 500 reason
      | AdminDecideKyc _ decision reason \<Rightarrow> length_in 1 32 decision \<and> length_in 0 500 reason
      | SetAccountStatus _ status reason \<Rightarrow> length_in 1 32 status \<and> length_in 0 500 reason
      | DemoDeposit _ i _ \<Rightarrow> valid_deposit_request i
      | ReverseTransaction _ reason _ \<Rightarrow> length_in 1 500 reason
      | CreateManualAlert _ severity explanation \<Rightarrow> length_in 1 32 severity \<and> length_in 1 1000 explanation
      | ReviewAlert _ status note \<Rightarrow> length_in 1 32 status \<and> length_in 0 1000 note
      | _ \<Rightarrow> True)"

definition answering :: "('a \<Rightarrow> reply) \<Rightarrow> 'a handler \<Rightarrow> reply handler" where
  "answering f m = run_then m (\<lambda>x. returning (f x))"

text \<open>A public route; for the others the token is not looked at.\<close>

definition public_route :: "app \<Rightarrow> env \<Rightarrow> api_request \<Rightarrow> api_call \<Rightarrow> reply handler" where
  "public_route app env req call =
     (case call of
        Register i \<Rightarrow> answering Accepted (register app env req i)
      | RegisterAuditor i \<Rightarrow> answering Accepted (register_aspis_auditor app env req i)
      | Login i \<Rightarrow> answering LoginAnswer (login app env req i)
      | SetupMfa tid meth label \<Rightarrow> answering Setup (setup_mfa app env req tid meth label)
      | CompletePasskey tid credential \<Rightarrow> answering Session (complete_passkey_mfa app env req tid credential)
      | CompleteTotp tid code \<Rightarrow> answering Session (complete_totp_mfa app env req tid code)
      | _ \<Rightarrow> raising (bantam ''NOT_FOUND'' ''Not Found'' 404))"

definition session_route :: "app \<Rightarrow> env \<Rightarrow> api_request \<Rightarrow> parsed_token \<Rightarrow> api_call \<Rightarrow> reply handler" where
  "session_route app env req token call =
     (let p = pt_principal token in
      case call of
        MfaState \<Rightarrow> answering MfaDescription (mfa_state app p)
      | BeginEnrollment password meth label \<Rightarrow>
          answering Setup (begin_mfa_enrollment app env req token password meth label)
      | RemovePasskey credential_id \<Rightarrow> answering (\<lambda>_. Done) (remove_passkey_route app env req token credential_id)
      | RemoveTotp \<Rightarrow> answering (\<lambda>_. Done) (remove_totp_route app env req token)
      | Logout \<Rightarrow> answering (\<lambda>_. Done) (logout app env req token)
      | Me \<Rightarrow> answering Profile (me app p)
      | SubmitKyc \<Rightarrow> answering Kyc (submit_kyc app env req p)
      | ListAccounts \<Rightarrow> answering Accounts (list_accounts p)
      | OpenAccount currency \<Rightarrow> answering Account (open_account app env req p currency)
      | GetAccount account_id \<Rightarrow> answering Account (get_account p account_id)
      | ListAccountTransactions account_id \<Rightarrow> answering Transactions (list_account_transactions req p account_id)
      | ListNotifications \<Rightarrow> answering Notifications (list_notifications req p)
      | AccountStatusClaim \<Rightarrow> answering Claim (account_status_claim app env req p)
      | CreateScaChallenge src dst amount_minor \<Rightarrow>
          answering ScaChallenge (create_sca_challenge app env req p src dst amount_minor)
      | CreateTransfer i key \<Rightarrow> answering (\<lambda>(v, replayed). Transfer v replayed) (create_transfer_route app env req p i key)
      | GetTransfer tid \<Rightarrow> answering Transaction (get_transfer p tid)
      | AdminListUsers \<Rightarrow> answering Users (admin_list_users app env req p)
      | AdminCreateUser i \<Rightarrow> answering AdminUser (admin_create_user app env req token i)
      | ListAuditorRequests \<Rightarrow> answering AuditorRequests (list_aspis_auditor_requests app req p)
      | DecideAuditorRequest request_id decision reason \<Rightarrow>
          answering Decision (decide_aspis_auditor_request app env req token request_id decision reason)
      | AdminListCustomers \<Rightarrow> answering Customers (admin_list_customers app env req p)
      | AdminDecideKyc customer_id decision reason \<Rightarrow>
          answering Kyc (admin_decide_kyc app env req p customer_id decision reason)
      | SetAccountStatus account_id status reason \<Rightarrow>
          answering AccountStatus (operator_set_account_status app env req p account_id status reason)
      | DemoDeposit account_id i key \<Rightarrow>
          answering (\<lambda>(v, replayed). Transfer v replayed) (admin_demo_deposit app env req p account_id i key)
      | ReverseTransaction tid reason key \<Rightarrow>
          answering (\<lambda>(v, replayed). Transfer v replayed) (admin_reverse_transaction app env req p tid reason key)
      | OperatorListTransactions \<Rightarrow> answering Transactions (operator_list_transactions app req p)
      | ListRiskAlerts \<Rightarrow> answering Alerts (list_risk_alerts app req p)
      | CreateManualAlert tid severity explanation \<Rightarrow>
          answering AlertCreated (create_manual_risk_alert app env req p tid severity explanation)
      | ReviewAlert alert_id status note \<Rightarrow>
          answering AlertReviewed (review_risk_alert app env req p alert_id status note)
      | ListAuditEvents \<Rightarrow> answering AuditEvents (list_audit_events app req p)
      | RunReconciliation \<Rightarrow> answering Reconciliation (run_reconciliation app env req p)
      | _ \<Rightarrow> raising (bantam ''NOT_FOUND'' ''Not Found'' 404))"

definition request_invalid :: failure where
  "request_invalid = bantam ''VALIDATION_FAILED'' ''request validation failed'' 422"

definition api_step :: "app \<Rightarrow> env \<Rightarrow> api_request \<Rightarrow> api_call \<Rightarrow> reply handler" where
  "api_step app env req call =
     (case required_roles call of
        None \<Rightarrow> if valid_request call then public_route app env req call else raising request_invalid
      | Some roles \<Rightarrow>
          run_then (reading (require_roles roles app env req)) (\<lambda>token.
            if valid_request call then session_route app env req token call else raising request_invalid))"

end
