(* ===== verification/Mfa_Properties.thy ===== *)
theory Mfa_Properties
  imports Mfa
begin

text \<open>
  What the second factor guarantees, over every sequence of calls of \<open>bantam/mfa.py\<close>.

  \<open>mfa_step\<close> is one call, with what the caller observes; \<open>mfa_run\<close> is a sequence of them.
  The service, the libraries, the random values and the clocks are arbitrary at each call. Removing a
  factor is called with the role that the database has for the user, which is what
  \<open>authenticated_principal\<close> makes sure of.
\<close>

section \<open>Calls and runs\<close>

datatype mfa_event =
    MfaStarted uuid
  | MfaPrepared uuid
  | MfaAttempted uuid "failure + mfa_completion"
  | MfaRemoved uuid

inductive mfa_step :: "mfa_library \<Rightarrow> mfa_service \<Rightarrow> db \<Rightarrow> mfa_event \<Rightarrow> db \<Rightarrow> bool"
  for lib svc where
  login: "begin_login lib svc fx u d = (r, d') \<Longrightarrow> mfa_step lib svc d (MfaStarted (mx_transaction_id fx)) d'"
| enrol: "begin_authenticated_enrollment svc fx uid jti until d = (r, d') \<Longrightarrow>
    mfa_step lib svc d (MfaStarted (mx_transaction_id fx)) d'"
| prepare: "prepare_enrollment lib svc fx tid meth label d = (r, d') \<Longrightarrow> mfa_step lib svc d (MfaPrepared tid) d'"
| passkey: "complete_passkey lib svc fx tid credential d = (r, d') \<Longrightarrow> mfa_step lib svc d (MfaAttempted tid r) d'"
| totp: "complete_totp lib fx tid code d = (r, d') \<Longrightarrow> mfa_step lib svc d (MfaAttempted tid r) d'"
| drop_passkey: "row_get ua_user_id uid (user_accounts d) = Some u \<Longrightarrow>
    remove_passkey uid (ua_role u) cid now d = (r, d') \<Longrightarrow> mfa_step lib svc d (MfaRemoved uid) d'"
| drop_totp: "row_get ua_user_id uid (user_accounts d) = Some u \<Longrightarrow>
    remove_totp uid (ua_role u) now d = (r, d') \<Longrightarrow> mfa_step lib svc d (MfaRemoved uid) d'"

inductive mfa_run :: "mfa_library \<Rightarrow> mfa_service \<Rightarrow> db \<Rightarrow> mfa_event list \<Rightarrow> db \<Rightarrow> bool"
  for lib svc where
  done_run: "mfa_run lib svc d [] d"
| step_run: "mfa_step lib svc d e d1 \<Longrightarrow> mfa_run lib svc d1 es d' \<Longrightarrow> mfa_run lib svc d (e # es) d'"

inductive_cases mfa_run_NilE: "mfa_run lib svc d [] d'"
inductive_cases mfa_run_ConsE: "mfa_run lib svc d (e # es) d'"

section \<open>What each call does to the ceremonies\<close>

definition mfa_ok :: "db \<Rightarrow> bool" where
  "mfa_ok d \<longleftrightarrow> distinct (map mf_transaction_id (mfa_transactions d)) \<and> list_all mfa_row_ok (mfa_transactions d)"

lemma mfa_ok_update:
  assumes "mfa_ok d" and "\<And>t. mf_transaction_id (f t) = mf_transaction_id t"
    and "\<And>t. t \<in> set (mfa_transactions d) \<Longrightarrow> mf_transaction_id t = tid \<Longrightarrow> mfa_row_ok t \<Longrightarrow> mfa_row_ok (f t)"
  shows "mfa_ok (update_mfa tid f d)"
  using assms by (auto simp: mfa_ok_def update_mfa_def map_rows_update list_all_iff set_rows_update)

lemma row_get_update_mfa:
  "(\<And>t. mf_transaction_id (f t) = mf_transaction_id t) \<Longrightarrow>
     row_get mf_transaction_id k (mfa_transactions (update_mfa tid f d)) =
       map_option (\<lambda>t. if k = tid then f t else t) (row_get mf_transaction_id k (mfa_transactions d))"
  by (auto simp: update_mfa_def row_get_rows_update map_option_case split: option.splits dest: row_get_SomeD)

text \<open>The outcome of a call for one ceremony, and what it must have done to the row.\<close>

definition guessed :: "uuid \<Rightarrow> mfa_event \<Rightarrow> bool" where
  "guessed tid e \<longleftrightarrow> (case e of MfaAttempted i (Inl f) \<Rightarrow> i = tid \<and> verification_failed f | _ \<Rightarrow> False)"

definition completed :: "uuid \<Rightarrow> mfa_event \<Rightarrow> bool" where
  "completed tid e \<longleftrightarrow> (case e of MfaAttempted i (Inr _) \<Rightarrow> i = tid | _ \<Rightarrow> False)"

definition row_step :: "uuid \<Rightarrow> mfa_event \<Rightarrow> mfa_row option \<Rightarrow> mfa_row option \<Rightarrow> bool" where
  "row_step tid e r r' \<longleftrightarrow>
     (guessed tid e \<or> completed tid e \<longrightarrow> (\<exists>t. r = Some t \<and> mf_consumed_at t = None \<and> mf_attempts t < MAX_ATTEMPTS)) \<and>
     (r = None \<longrightarrow> r' = None) \<and>
     (\<forall>t t'. r = Some t \<longrightarrow> r' = Some t' \<longrightarrow>
        mf_attempts t' = mf_attempts t + of_bool (guessed tid e) \<and>
        (mf_consumed_at t' = None \<longleftrightarrow> mf_consumed_at t = None \<and> \<not> completed tid e)) \<and>
     (completed tid e \<or> guessed tid e \<longrightarrow> r' \<noteq> None)"

lemma row_step_same: "\<not> guessed tid e \<Longrightarrow> \<not> completed tid e \<Longrightarrow> row_step tid e r r"
  by (simp add: row_step_def)

lemma quiet_events [simp]:
  "\<not> guessed tid (MfaStarted i)" "\<not> completed tid (MfaStarted i)"
  "\<not> guessed tid (MfaPrepared i)" "\<not> completed tid (MfaPrepared i)"
  "\<not> guessed tid (MfaRemoved i)" "\<not> completed tid (MfaRemoved i)"
  "guessed tid (MfaAttempted i (Inl f)) = (i = tid \<and> verification_failed f)"
  "\<not> completed tid (MfaAttempted i (Inl f))"
  "\<not> guessed tid (MfaAttempted i (Inr c))" "completed tid (MfaAttempted i (Inr c)) = (i = tid)"
  by (simp_all add: guessed_def completed_def)

lemma insert_mfa_effect:
  assumes "insert_mfa svc fx uid purpose challenge jti until d = (r, d')" and "mfa_ok d"
  shows "mfa_ok d' \<and> (\<forall>tid. tid \<noteq> mx_transaction_id fx \<longrightarrow>
      row_step tid (MfaStarted (mx_transaction_id fx)) (row_get mf_transaction_id tid (mfa_transactions d))
        (row_get mf_transaction_id tid (mfa_transactions d'))) \<and>
    (\<exists>ts. d' = d\<lparr>mfa_transactions := ts\<rparr>)"
proof -
  let ?d1 = "delete_stale_mfa uid (mx_db_now fx) d"
  have ok: "mfa_ok ?d1" using assms(2)
    by (auto simp: mfa_ok_def delete_stale_mfa_def list_all_iff distinct_map_filter)
  have kept: "row_step tid (MfaStarted i) (row_get mf_transaction_id tid (mfa_transactions d))
        (row_get mf_transaction_id tid (mfa_transactions ?d1))" for tid i
    using assms(2) by (auto simp: mfa_ok_def delete_stale_mfa_def row_get_filter row_step_def split: option.splits if_splits)
  let ?t = "\<lparr>mf_transaction_id = mx_transaction_id fx, mf_user_id = uid, mf_purpose = purpose,
    mf_challenge = challenge, mf_pending_secret = None, mf_factor_label = None, mf_source_jti = jti,
    mf_source_expires_at = until, mf_attempts = 0, mf_expires_at = mx_now fx + ms_ttl svc, mf_consumed_at = None\<rparr>"
  consider "d' = ?d1" | t where "d' = ?d1\<lparr>mfa_transactions := mfa_transactions ?d1 @ [t]\<rparr>"
      "mf_transaction_id t = mx_transaction_id fx" "mfa_row_ok t" "\<not> known mf_transaction_id (mx_transaction_id fx) (mfa_transactions ?d1)"
  proof (cases "insert_mfa_row ?t ?d1")
    case (Inl e)
    with assms(1) that(1) show thesis
      by (simp add: insert_mfa_def Let_def run_then_def statement_def)
  next
    case (Inr d2)
    with assms(1) have "d' = d2"
      by (simp add: insert_mfa_def Let_def run_then_def statement_def returning_def)
    moreover from Inr have "d2 = ?d1\<lparr>mfa_transactions := mfa_transactions ?d1 @ [?t]\<rparr>" and "(jti = None) = (until = None)"
      and "\<not> known mf_transaction_id (mx_transaction_id fx) (mfa_transactions ?d1)"
      by (simp_all add: insert_mfa_row_def split: if_splits)
    ultimately show thesis using that(2) [of ?t] by (simp add: mfa_row_ok_def MAX_ATTEMPTS_def)
  qed
  then show ?thesis
  proof cases
    case 1
    with ok kept show ?thesis by (auto simp: delete_stale_mfa_def)
  next
    case 2
    from 2 ok have "mfa_ok d'" by (auto simp: mfa_ok_def known_def)
    moreover have "row_get mf_transaction_id tid (mfa_transactions d') = row_get mf_transaction_id tid (mfa_transactions ?d1)"
      if "tid \<noteq> mx_transaction_id fx" for tid
      using 2(1,2) that by (auto simp: table_simps split: option.splits)
    ultimately show ?thesis using kept 2(1) by (auto simp: delete_stale_mfa_def)
  qed
qed

lemma begin_login_effect:
  assumes "begin_login lib svc fx u d = (r, d')"
  shows "d' = d \<or> (\<exists>purpose challenge x. insert_mfa svc fx (ua_user_id u) purpose challenge None None d = (x, d'))"
  using assms
  by (auto simp: begin_login_def new_choice_transaction_def run_then_def Let_def returning_def raising_def
      split: sum.splits if_splits prod.splits)

lemma begin_enrollment_effect:
  assumes "begin_authenticated_enrollment svc fx uid jti until d = (r, d')"
  shows "\<exists>x. insert_mfa svc fx uid ENROLL_CHOICE None (Some jti) (Some until) d = (x, d')"
  using assms
  by (auto simp: begin_authenticated_enrollment_def run_then_def returning_def split: sum.splits prod.splits)

lemma transaction_for_update_InrD:
  "transaction_for_update tid now d = Inr (t, u) \<Longrightarrow>
     row_get mf_transaction_id tid (mfa_transactions d) = Some t \<and> mf_transaction_id t = tid \<and>
     now < mf_expires_at t \<and> mf_consumed_at t = None \<and> mf_attempts t < MAX_ATTEMPTS \<and>
     row_get ua_user_id (mf_user_id t) (user_accounts d) = Some u \<and> ua_status u = USER_ACTIVE"
  by (auto simp: transaction_for_update_def Let_def split: option.splits if_splits dest: row_get_SomeD)

text \<open>Preparing a factor rewrites the purpose, the challenge and the secret of its row, nothing else.\<close>

definition prepares :: "(mfa_row \<Rightarrow> mfa_row) \<Rightarrow> bool" where
  "prepares f \<longleftrightarrow> (\<forall>s. mf_transaction_id (f s) = mf_transaction_id s \<and> mf_user_id (f s) = mf_user_id s \<and>
     mf_attempts (f s) = mf_attempts s \<and> mf_consumed_at (f s) = mf_consumed_at s \<and> mf_purpose (f s) \<noteq> LOGIN \<and>
     mf_source_jti (f s) = mf_source_jti s \<and> mf_source_expires_at (f s) = mf_source_expires_at s)"

lemma prepares_setup:
  "prepares (\<lambda>t. t\<lparr>mf_purpose := ENROLL_PASSKEY, mf_challenge := c, mf_factor_label := l\<rparr>)"
  "prepares (\<lambda>t. t\<lparr>mf_purpose := ENROLL_TOTP, mf_pending_secret := p, mf_factor_label := l\<rparr>)"
  by (simp_all add: prepares_def)

lemma prepare_body_effect:
  assumes "prepare_body lib svc fx tid m label d = Inr (x, d')"
  shows "d' = d \<or> (\<exists>t u f. transaction_for_update tid (mx_db_now fx) d = Inr (t, u) \<and> mf_purpose t = ENROLL_CHOICE \<and>
      d' = update_mfa tid f d \<and> prepares f)"
proof -
  from assms obtain t u where tu: "transaction_for_update tid (mx_db_now fx) d = Inr (t, u)"
    by (auto simp: prepare_body_def andthen_Inr_iff)
  have "d' = d \<or> mf_purpose t = ENROLL_CHOICE \<and> (\<exists>f. d' = update_mfa tid f d \<and> prepares f)"
  proof (cases m)
    case PASSKEY
    with assms tu show ?thesis
      by (simp add: prepare_body_def registration_options_def split: if_splits) (metis prepares_setup(1))
  next
    case TOTP
    with assms tu show ?thesis
      by (simp add: prepare_body_def Let_def split: if_splits) (metis prepares_setup(2))
  qed
  with tu show ?thesis by blast
qed

lemma prepare_effect:
  assumes "prepare_enrollment lib svc fx tid meth label d = (r, d')"
  shows "d' = d \<or> (\<exists>t u f. transaction_for_update tid (mx_db_now fx) d = Inr (t, u) \<and> mf_purpose t = ENROLL_CHOICE \<and>
      d' = update_mfa tid f d \<and> prepares f)"
proof -
  from assms have "d' = d \<or> (\<exists>m l x. prepare_body lib svc fx tid m l d = Inr (x, d'))"
    by (auto simp: prepare_enrollment_def Let_def raise_after_commit_def in_transaction_def
        split: option.splits if_splits sum.splits)
  then show ?thesis by (blast dest: prepare_body_effect)
qed

lemma consume_mfa_InrD:
  assumes "consume_mfa t m now d = Inr (c, d')"
  shows "\<exists>revs u. d' = d\<lparr>mfa_transactions := rows_update (\<lambda>s. mf_transaction_id s = mf_transaction_id t)
             (\<lambda>s. s\<lparr>mf_consumed_at := Some now\<rparr>) (mfa_transactions d),
           user_accounts := rows_update (\<lambda>u. ua_user_id u = mf_user_id t) (ua_mfa_enabled_update (\<lambda>_. True)) (user_accounts d),
           session_revocations := session_revocations d @ revs\<rparr> \<and>
         row_get ua_user_id (mf_user_id t) (user_accounts d) = Some u \<and> ua_status u = USER_ACTIVE \<and>
         mc_user_id c = mf_user_id t \<and> mc_role c = ua_role u \<and> mc_customer_id c = ua_customer_id u \<and>
         mc_method c = m \<and> mc_enrolled c = enrolling (mf_purpose t) \<and>
         (\<forall>j e. mf_source_jti t = Some j \<longrightarrow> mf_source_expires_at t = Some e \<longrightarrow> known sr_jti j (session_revocations d'))"
proof -
  let ?d2 = "(update_mfa (mf_transaction_id t) (\<lambda>s. s\<lparr>mf_consumed_at := Some now\<rparr>) d)
    \<lparr>user_accounts := rows_update (\<lambda>u. ua_user_id u = mf_user_id t) (ua_mfa_enabled_update (\<lambda>_. True)) (user_accounts d)\<rparr>"
  obtain revs where d': "d' = ?d2\<lparr>session_revocations := session_revocations d @ revs\<rparr>"
    and revs: "\<forall>j e. mf_source_jti t = Some j \<longrightarrow> mf_source_expires_at t = Some e \<longrightarrow> known sr_jti j (session_revocations d @ revs)"
    and user: "\<exists>u. row_get ua_user_id (mf_user_id t) (user_accounts ?d2) = Some u \<and> ua_status u = USER_ACTIVE \<and>
      c = \<lparr>mc_user_id = ua_user_id u, mc_customer_id = ua_customer_id u, mc_role = ua_role u, mc_method = m,
           mc_enrolled = enrolling (mf_purpose t)\<rparr>"
  proof (cases "mf_source_jti t = None \<or> mf_source_expires_at t = None")
    case True
    have "(case (mf_source_jti t, mf_source_expires_at t) of (Some j, Some e) \<Rightarrow> F j e | _ \<Rightarrow> ?d2) = ?d2" for F
      using True by (auto split: option.splits)
    with assms True that [of "[]"] show thesis
      by (auto simp: consume_mfa_def Let_def update_mfa_def split: option.splits if_splits)
  next
    case False
    then obtain j e where je: "mf_source_jti t = Some j" "mf_source_expires_at t = Some e" by auto
    show thesis
    proof (cases "known sr_jti j (session_revocations d)")
      case True
      with assms je that [of "[]"] show thesis
        by (auto simp: consume_mfa_def Let_def update_mfa_def split: option.splits if_splits)
    next
      case False
      with assms je that [of "[\<lparr>sr_jti = j, sr_user_id = mf_user_id t, sr_expires_at = e, sr_revoked_at = now\<rparr>]"]
      show thesis
        by (auto simp: consume_mfa_def Let_def update_mfa_def known_def split: option.splits if_splits)
    qed
  qed
  from user obtain u where "row_get ua_user_id (mf_user_id t) (user_accounts d) = Some u" "ua_status u = USER_ACTIVE"
    "mc_user_id c = mf_user_id t" "mc_role c = ua_role u" "mc_customer_id c = ua_customer_id u"
    "mc_method c = m" "mc_enrolled c = enrolling (mf_purpose t)"
    by (auto simp: row_get_rows_update update_mfa_def dest: row_get_SomeD split: if_splits)
  with d' revs show ?thesis by (intro exI [of _ revs] exI [of _ u]) (simp add: update_mfa_def)
qed

text \<open>What a completion did, whichever factor it was given.\<close>

definition attempt_effect :: "uuid \<Rightarrow> db \<Rightarrow> failure + mfa_completion \<Rightarrow> db \<Rightarrow> bool" where
  "attempt_effect tid d r d' \<longleftrightarrow>
     (case r of
        Inl f \<Rightarrow> verification_failed f \<and> d' = count_attempt tid d \<and> (\<exists>now tu. transaction_for_update tid now d = Inr tu)
           \<or> \<not> verification_failed f \<and> d' = d
      | Inr c \<Rightarrow> \<exists>t u cs ts m now. transaction_for_update tid now d = Inr (t, u) \<and>
           consume_mfa t m now (d\<lparr>webauthn_credentials := cs, totp_credentials := ts\<rparr>) = Inr (c, d') \<and>
           (\<forall>x. has_factor x (d\<lparr>webauthn_credentials := cs, totp_credentials := ts\<rparr>) = (has_factor x d \<or> x = mf_user_id t)))"

context factor_check
begin

lemma attempted:
  assumes "raise_after_commit (in_transaction (ceremony tid m db_now) d) = (r, d')" and "mfa_ok d"
  shows "attempt_effect tid d r d'"
proof (cases r)
  case (Inl f)
  with refused [of tid db_now m d f d'] assms(1) show ?thesis by (auto simp: attempt_effect_def)
next
  case (Inr c)
  with completed [of tid db_now m d c d'] assms(1) obtain t u d1 where t: "transaction_for_update tid db_now d = Inr (t, u)"
    and checked: "check t d = Inr (None, d1)" and consumed: "consume_mfa t m db_now d1 = Inr (c, d')" by auto
  from t have "t \<in> set (mfa_transactions d)" by (auto dest!: transaction_for_update_InrD row_get_SomeD)
  with assms(2) have "mfa_row_ok t" by (auto simp: mfa_ok_def list_all_iff)
  from accepts [OF checked this] obtain cs ts where d1: "d1 = d\<lparr>webauthn_credentials := cs, totp_credentials := ts\<rparr>"
    and factors: "\<forall>u. has_factor u d1 = (has_factor u d \<or> u = mf_user_id t)" by blast
  have "\<exists>t u cs ts m now. transaction_for_update tid now d = Inr (t, u) \<and>
      consume_mfa t m now (d\<lparr>webauthn_credentials := cs, totp_credentials := ts\<rparr>) = Inr (c, d') \<and>
      (\<forall>x. has_factor x (d\<lparr>webauthn_credentials := cs, totp_credentials := ts\<rparr>) = (has_factor x d \<or> x = mf_user_id t))"
    using t consumed factors unfolding d1 by blast
  then show ?thesis by (simp add: attempt_effect_def Inr)
qed

end

lemma refusal_effect:
  "code \<noteq> ''MFA_VERIFICATION_FAILED'' \<Longrightarrow> attempt_effect tid d (Inl (MfaFailure code message status)) d"
  by (simp add: attempt_effect_def verification_failed_def)

lemma complete_passkey_effect:
  assumes "complete_passkey lib svc fx tid credential d = (r, d')" and "mfa_ok d"
  shows "attempt_effect tid d r d'"
proof (cases "case map_of credential ''rawId'' of None \<Rightarrow> None | Some j \<Rightarrow> lib_b64url lib (py_str j)")
  case None
  with assms(1) show ?thesis by (auto simp: complete_passkey_def refusal_effect)
next
  case (Some raw)
  obtain x e where out: "raise_after_commit (in_transaction (passkey_body lib svc fx tid credential raw) d) = (x, e)"
    by (cases "raise_after_commit (in_transaction (passkey_body lib svc fx tid credential raw) d)")
  then have effect: "attempt_effect tid d x e"
    unfolding passkey_body_def [abs_def] using assms(2) by (rule passkeys.attempted)
  show ?thesis
  proof (cases "\<exists>k. x = Inl (UniqueViolation k)")
    case True
    then obtain k where k: "x = Inl (UniqueViolation k)" by blast
    with effect have "e = d" by (simp add: attempt_effect_def verification_failed_def)
    with assms(1) Some out k show ?thesis by (auto simp: complete_passkey_def refusal_effect)
  next
    case False
    have "r = x \<and> d' = e"
    proof (cases x)
      case (Inl f)
      with assms(1) Some out False show ?thesis by (cases f) (simp_all add: complete_passkey_def)
    next
      case (Inr c)
      with assms(1) Some out show ?thesis by (simp add: complete_passkey_def)
    qed
    with effect show ?thesis by simp
  qed
qed

lemma complete_totp_effect:
  assumes "complete_totp lib fx tid code d = (r, d')" and "mfa_ok d"
  shows "attempt_effect tid d r d'"
proof (cases "is_totp_code code")
  case False
  with assms(1) show ?thesis by (auto simp: complete_totp_def refusal_effect)
next
  case True
  with assms(1) have "raise_after_commit (in_transaction (totp_body lib fx tid code) d) = (r, d')"
    by (simp add: complete_totp_def)
  then show ?thesis unfolding totp_body_def [abs_def] using assms(2) by (rule codes.attempted)
qed

section \<open>Every call keeps the tables well-formed and moves a ceremony forward\<close>

lemma remove_effect:
  "remove_passkey uid r cid now d = (x, d') \<Longrightarrow> mfa_transactions d' = mfa_transactions d"
  "remove_totp uid r now d = (y, e) \<Longrightarrow> mfa_transactions e = mfa_transactions d"
  by (auto simp: remove_passkey_def remove_passkey_body_def remove_totp_def remove_totp_body_def in_transaction_def
      andthen_def sync_enabled_def split: if_splits sum.splits)

lemma attempt_row_step:
  assumes "attempt_effect i d r d'" and "mfa_ok d"
  shows "mfa_ok d' \<and> row_step tid (MfaAttempted i r) (row_get mf_transaction_id tid (mfa_transactions d))
    (row_get mf_transaction_id tid (mfa_transactions d'))"
proof (cases r)
  case (Inl f)
  show ?thesis
  proof (cases "verification_failed f")
    case False
    with assms Inl show ?thesis by (auto simp: attempt_effect_def intro: row_step_same)
  next
    case True
    with assms(1) Inl obtain now t u where d': "d' = count_attempt i d" and t: "transaction_for_update i now d = Inr (t, u)"
      by (auto simp: attempt_effect_def)
    note t = transaction_for_update_InrD [OF t]
    have unique: "s = t" if "s \<in> set (mfa_transactions d)" "mf_transaction_id s = i" for s
      using assms(2) that t row_get_in [of mf_transaction_id "mfa_transactions d" s] by (auto simp: mfa_ok_def)
    have "mfa_ok d'" unfolding d' count_attempt_def
      by (rule mfa_ok_update [OF assms(2)]) (use t unique in \<open>auto simp: mfa_row_ok_def MAX_ATTEMPTS_def\<close>)
    with d' t True Inl show ?thesis
      by (auto simp: row_step_def count_attempt_def row_get_update_mfa split: if_splits)
  qed
next
  case (Inr c)
  with assms(1) obtain t u cs ts m now where t: "transaction_for_update i now d = Inr (t, u)"
    and consumed: "consume_mfa t m now (d\<lparr>webauthn_credentials := cs, totp_credentials := ts\<rparr>) = Inr (c, d')"
    by (auto simp: attempt_effect_def)
  note t = transaction_for_update_InrD [OF t]
  from consume_mfa_InrD [OF consumed] t
  have rows: "mfa_transactions d' = mfa_transactions (update_mfa i (\<lambda>s. s\<lparr>mf_consumed_at := Some now\<rparr>) d)"
    by (auto simp: update_mfa_def)
  have "mfa_ok (update_mfa i (\<lambda>s. s\<lparr>mf_consumed_at := Some now\<rparr>) d)"
    by (rule mfa_ok_update [OF assms(2)]) (auto simp: mfa_row_ok_def)
  then have "mfa_ok d'" by (simp add: mfa_ok_def rows)
  with t Inr show ?thesis
    by (auto simp: row_step_def rows row_get_update_mfa split: if_splits)
qed

lemma mfa_step_rows:
  assumes "mfa_step lib svc d e d'" and "mfa_ok d" and "e \<noteq> MfaStarted tid"
  shows "mfa_ok d' \<and> row_step tid e (row_get mf_transaction_id tid (mfa_transactions d))
    (row_get mf_transaction_id tid (mfa_transactions d'))"
  using assms(1)
proof cases
  case (login fx u r)
  from begin_login_effect [OF login(2)] assms(2,3) login(1) show ?thesis
    by (auto intro: row_step_same dest!: insert_mfa_effect)
next
  case (enrol fx uid jti until r)
  from begin_enrollment_effect [OF enrol(2)] assms(2,3) enrol(1) show ?thesis
    by (auto dest!: insert_mfa_effect)
next
  case (prepare fx i meth label r)
  from prepare_effect [OF prepare(2)] show ?thesis
  proof (elim disjE exE conjE)
    assume "d' = d"
    with assms(2) prepare(1) show ?thesis by (simp add: row_step_same)
  next
    fix t u f
    assume d': "d' = update_mfa i f d" and f: "prepares f"
    have "mfa_ok d'" unfolding d'
      by (rule mfa_ok_update [OF assms(2)]) (use f in \<open>auto simp: prepares_def mfa_row_ok_def\<close>)
    with f prepare(1) show ?thesis
      by (auto simp: d' row_step_def row_get_update_mfa prepares_def split: if_splits)
  qed
next
  case (passkey fx i credential r)
  with attempt_row_step [OF complete_passkey_effect [OF passkey(2) assms(2)] assms(2)] show ?thesis by simp
next
  case (totp fx i code r)
  with attempt_row_step [OF complete_totp_effect [OF totp(2) assms(2)] assms(2)] show ?thesis by simp
next
  case (drop_passkey uid u cid now r)
  with assms(2) remove_effect show ?thesis by (simp add: mfa_ok_def row_step_same)
next
  case (drop_totp uid u now r)
  with assms(2) remove_effect show ?thesis by (simp add: mfa_ok_def row_step_same)
qed

section \<open>Guesses and completions of one ceremony\<close>

definition guesses :: "uuid \<Rightarrow> mfa_event list \<Rightarrow> nat" where
  "guesses tid es = length (filter (guessed tid) es)"

definition completions :: "uuid \<Rightarrow> mfa_event list \<Rightarrow> nat" where
  "completions tid es = length (filter (completed tid) es)"

lemma ceremony_budget:
  "mfa_run lib svc d es d' \<Longrightarrow> mfa_ok d \<Longrightarrow> MfaStarted tid \<notin> set es \<Longrightarrow>
    (case row_get mf_transaction_id tid (mfa_transactions d) of
       None \<Rightarrow> guesses tid es = 0 \<and> completions tid es = 0
     | Some t \<Rightarrow> int (guesses tid es) + mf_attempts t \<le> MAX_ATTEMPTS \<and>
                completions tid es \<le> (if mf_consumed_at t = None then 1 else 0))"
proof (induction rule: mfa_run.induct)
  case (done_run d)
  then show ?case
    by (auto simp: guesses_def completions_def mfa_ok_def list_all_iff mfa_row_ok_def split: option.splits dest!: row_get_SomeD)
next
  case (step_run d e d1 es d')
  from mfa_step_rows [OF step_run.hyps(1) step_run.prems(1), of tid] step_run.prems(2)
  have ok: "mfa_ok d1" and row: "row_step tid e (row_get mf_transaction_id tid (mfa_transactions d))
      (row_get mf_transaction_id tid (mfa_transactions d1))" by auto
  from step_run.IH [OF ok] step_run.prems(2)
  have IH: "case row_get mf_transaction_id tid (mfa_transactions d1) of
       None \<Rightarrow> guesses tid es = 0 \<and> completions tid es = 0
     | Some t \<Rightarrow> int (guesses tid es) + mf_attempts t \<le> MAX_ATTEMPTS \<and>
                completions tid es \<le> (if mf_consumed_at t = None then 1 else 0)" by simp
  have counts: "guesses tid (e # es) = of_bool (guessed tid e) + guesses tid es"
    "completions tid (e # es) = of_bool (completed tid e) + completions tid es"
    by (simp_all add: guesses_def completions_def)
  have apart: "\<not> (guessed tid e \<and> completed tid e)"
    by (auto simp: guessed_def completed_def split: mfa_event.splits sum.splits)
  show ?case
  proof (cases "row_get mf_transaction_id tid (mfa_transactions d)")
    case None
    with row IH show ?thesis by (auto simp: counts row_step_def)
  next
    case (Some t)
    from Some step_run.prems(1) have "mf_attempts t \<le> MAX_ATTEMPTS"
      by (auto simp: mfa_ok_def list_all_iff mfa_row_ok_def dest!: row_get_SomeD)
    with Some row IH apart show ?thesis
      by (cases "row_get mf_transaction_id tid (mfa_transactions d1)")
        (auto simp: counts row_step_def of_bool_def split: if_splits)
  qed
qed

section \<open>Factors over a run\<close>

definition flags_ok :: "db \<Rightarrow> bool" where
  "flags_ok d \<longleftrightarrow> list_all (\<lambda>u. ua_mfa_enabled u = has_factor (ua_user_id u) d) (user_accounts d)"

lemma has_factor_frame:
  "webauthn_credentials d' = webauthn_credentials d \<Longrightarrow> totp_credentials d' = totp_credentials d \<Longrightarrow>
     has_factor u d' = has_factor u d"
  by (simp add: has_factor_def)

text \<open>A call changes no factor, or completes one user's ceremony, or removes a factor that may go.\<close>

definition factor_step :: "db \<Rightarrow> db \<Rightarrow> bool" where
  "factor_step d d' \<longleftrightarrow>
     (\<forall>u. has_factor u d' = has_factor u d) \<and> user_accounts d' = user_accounts d \<or>
     (\<exists>uid. (\<forall>u. has_factor u d' = (has_factor u d \<or> u = uid)) \<and>
        user_accounts d' = rows_update (\<lambda>u. ua_user_id u = uid) (ua_mfa_enabled_update (\<lambda>_. True)) (user_accounts d)) \<or>
     (\<exists>uid. (\<forall>u. u \<noteq> uid \<longrightarrow> has_factor u d' = has_factor u d) \<and>
        (\<forall>r. row_get ua_user_id uid (user_accounts d) = Some r \<longrightarrow> role_requires_mfa (ua_role r) \<longrightarrow> has_factor uid d') \<and>
        user_accounts d' = rows_update (\<lambda>u. ua_user_id u = uid) (ua_mfa_enabled_update (\<lambda>_. has_factor uid d')) (user_accounts d))"

lemma factor_step_same:
  "webauthn_credentials d' = webauthn_credentials d \<Longrightarrow> totp_credentials d' = totp_credentials d \<Longrightarrow>
     user_accounts d' = user_accounts d \<Longrightarrow> factor_step d d'"
  by (simp add: factor_step_def has_factor_frame [of d' d])

lemma attempt_factor_step:
  assumes "attempt_effect tid d r d'"
  shows "factor_step d d'"
proof (cases r)
  case (Inl f)
  with assms show ?thesis
    by (auto simp: attempt_effect_def count_attempt_def update_mfa_def intro: factor_step_same)
next
  case (Inr c)
  with assms obtain t u cs ts m now where consumed: "consume_mfa t m now (d\<lparr>webauthn_credentials := cs, totp_credentials := ts\<rparr>) = Inr (c, d')"
    and factors: "\<forall>x. has_factor x (d\<lparr>webauthn_credentials := cs, totp_credentials := ts\<rparr>) = (has_factor x d \<or> x = mf_user_id t)"
    by (auto simp: attempt_effect_def)
  from consume_mfa_InrD [OF consumed] have
    "user_accounts d' = rows_update (\<lambda>u. ua_user_id u = mf_user_id t) (ua_mfa_enabled_update (\<lambda>_. True)) (user_accounts d)"
    and "webauthn_credentials d' = cs" "totp_credentials d' = ts" by auto
  moreover from this(2,3) have "has_factor x d' = has_factor x (d\<lparr>webauthn_credentials := cs, totp_credentials := ts\<rparr>)" for x
    by (intro has_factor_frame) simp_all
  ultimately show ?thesis using factors unfolding factor_step_def by blast
qed

lemma guard_last_factor_InrD:
  assumes "guard_last_factor d uid r p q = Inr x" and "role_requires_mfa r"
  shows "(\<exists>c \<in> set (webauthn_credentials d). active_passkey uid c \<and> (p = None \<or> Some (wc_webauthn_credential_id c) \<noteq> p)) \<or>
    (\<exists>c \<in> set (totp_credentials d). active_totp uid c \<and> \<not> q)"
  using assms by (auto simp: guard_last_factor_def Let_def filter_empty_conv split: if_splits)

lemma has_factor_sync [simp]: "has_factor u (sync_enabled uid d) = has_factor u d"
  by (simp add: has_factor_def sync_enabled_def)

lemma remove_passkey_factor_step:
  assumes "row_get ua_user_id uid (user_accounts d) = Some u" and "remove_passkey uid (ua_role u) cid now d = (r, d')"
  shows "factor_step d d'"
proof (cases r)
  case (Inl e)
  with assms(2) have "d' = d" by (auto simp: remove_passkey_def dest: in_transaction_rollback)
  then show ?thesis by (simp add: factor_step_same)
next
  case (Inr x)
  let ?cs = "rows_update (\<lambda>c. wc_webauthn_credential_id c = cid \<and> wc_user_id c = uid) (wc_revoked_at_update (\<lambda>_. Some now)) (webauthn_credentials d)"
  from Inr assms(2) have guarded: "guard_last_factor d uid (ua_role u) (Some cid) False = Inr ()"
    and d': "d' = sync_enabled uid (d\<lparr>webauthn_credentials := ?cs\<rparr>)"
    by (auto simp: remove_passkey_def remove_passkey_body_def andthen_Inr_iff dest!: in_transaction_commit split: if_splits)
  have "has_factor v d' = has_factor v d" if "v \<noteq> uid" for v
    using that unfolding d' has_factor_sync
    by (simp add: has_factor_def) (subst list_ex_rows_update, auto simp: active_passkey_def)
  moreover have "has_factor uid d'" if "role_requires_mfa (ua_role u)"
    using guard_last_factor_InrD [OF guarded that] unfolding d' has_factor_sync
    by (force simp: has_factor_def list_ex_iff set_rows_update active_passkey_def)
  moreover have "user_accounts d' =
      rows_update (\<lambda>u. ua_user_id u = uid) (ua_mfa_enabled_update (\<lambda>_. has_factor uid d')) (user_accounts d)"
    unfolding d' has_factor_sync by (simp add: sync_enabled_def)
  ultimately show ?thesis
    using assms(1) unfolding factor_step_def by (intro disjI2 exI [of _ uid]) auto
qed

lemma remove_totp_factor_step:
  assumes "row_get ua_user_id uid (user_accounts d) = Some u" and "remove_totp uid (ua_role u) now d = (r, d')"
  shows "factor_step d d'"
proof (cases r)
  case (Inl e)
  with assms(2) have "d' = d" by (auto simp: remove_totp_def dest: in_transaction_rollback)
  then show ?thesis by (simp add: factor_step_same)
next
  case (Inr x)
  let ?ts = "rows_update (active_totp uid) (to_revoked_at_update (\<lambda>_. Some now)) (totp_credentials d)"
  from Inr assms(2) have guarded: "guard_last_factor d uid (ua_role u) None True = Inr ()"
    and d': "d' = sync_enabled uid (d\<lparr>totp_credentials := ?ts\<rparr>)"
    by (auto simp: remove_totp_def remove_totp_body_def andthen_Inr_iff dest!: in_transaction_commit split: if_splits)
  have "has_factor v d' = has_factor v d" if "v \<noteq> uid" for v
    using that unfolding d' has_factor_sync
    by (simp add: has_factor_def) (subst list_ex_rows_update, auto simp: active_totp_def)
  moreover have "has_factor uid d'" if "role_requires_mfa (ua_role u)"
    using guard_last_factor_InrD [OF guarded that] unfolding d' has_factor_sync
    by (auto simp: has_factor_def list_ex_iff)
  moreover have "user_accounts d' =
      rows_update (\<lambda>u. ua_user_id u = uid) (ua_mfa_enabled_update (\<lambda>_. has_factor uid d')) (user_accounts d)"
    unfolding d' has_factor_sync by (simp add: sync_enabled_def)
  ultimately show ?thesis
    using assms(1) unfolding factor_step_def by (intro disjI2 exI [of _ uid]) auto
qed

lemma mfa_step_factors:
  assumes "mfa_step lib svc d e d'" and "mfa_ok d"
  shows "factor_step d d'"
  using assms(1)
proof cases
  case (login fx u r)
  from begin_login_effect [OF login(2)] assms(2) show ?thesis
    by (auto dest!: insert_mfa_effect intro: factor_step_same)
next
  case (enrol fx uid jti until r)
  from begin_enrollment_effect [OF enrol(2)] assms(2) show ?thesis
    by (auto dest!: insert_mfa_effect intro: factor_step_same)
next
  case (prepare fx i meth label r)
  from prepare_effect [OF prepare(2)] show ?thesis
    by (auto simp: update_mfa_def intro: factor_step_same)
next
  case (passkey fx i credential r)
  with assms(2) show ?thesis by (blast intro: attempt_factor_step complete_passkey_effect)
next
  case (totp fx i code r)
  with assms(2) show ?thesis by (blast intro: attempt_factor_step complete_totp_effect)
next
  case drop_passkey
  then show ?thesis by (blast intro: remove_passkey_factor_step)
next
  case drop_totp
  then show ?thesis by (blast intro: remove_totp_factor_step)
qed

lemma factor_step_flags: "factor_step d d' \<Longrightarrow> flags_ok d \<Longrightarrow> flags_ok d'"
  by (auto simp: factor_step_def flags_ok_def list_all_iff set_rows_update)

lemma factor_step_user:
  "factor_step d d' \<Longrightarrow> row_get ua_user_id uid (user_accounts d) = Some u \<Longrightarrow>
     \<exists>u'. row_get ua_user_id uid (user_accounts d') = Some u' \<and> ua_role u' = ua_role u"
  by (auto simp: factor_step_def row_get_rows_update)

lemma factor_step_admin:
  "factor_step d d' \<Longrightarrow> row_get ua_user_id uid (user_accounts d) = Some u \<Longrightarrow> role_requires_mfa (ua_role u) \<Longrightarrow>
     has_factor uid d \<Longrightarrow> has_factor uid d'"
  unfolding factor_step_def by (elim disjE exE conjE) (simp, simp, metis)

section \<open>Codes of an authenticator app\<close>





section \<open>A concrete authenticator\<close>

text \<open>A library whose code of a time step is that step in six digits, and an administrator with a factor.\<close>

definition demo_library :: mfa_library where
  "demo_library = \<lparr>lib_b64url = Some, lib_verify_authentication = (\<lambda>_ _ _ _ _ _. None),
     lib_verify_registration = (\<lambda>_ _ _ _. None), lib_registration_options = (\<lambda>_ _ _ _ _ _. JNull),
     lib_authentication_options = (\<lambda>_ _ _. JNull), lib_encrypt = (\<lambda>_ s. s), lib_decrypt = Some,
     lib_totp_at = (\<lambda>_ t. if t = 60 then ''000002'' else if t = 90 then ''000003'' else ''999999''),
     lib_totp_interval = 30, lib_totp_timecode = (\<lambda>t. t div 30), lib_provisioning_uri = (\<lambda>_ _ _. [])\<rparr>"

definition demo_mfa_service :: mfa_service where
  "demo_mfa_service = \<lparr>ms_ttl = 300, ms_rp_id = None, ms_rp_name = ''Bantam'', ms_origins = []\<rparr>"

definition demo_mfa_fresh :: "int \<Rightarrow> mfa_fresh" where
  "demo_mfa_fresh t = \<lparr>mx_transaction_id = 90, mx_credential_row = 91, mx_challenge = ''c'', mx_secret = ''S'',
     mx_nonce = ''n'', mx_now = t, mx_db_now = t, mx_time = t\<rparr>"

definition demo_login :: "uuid \<Rightarrow> mfa_row" where
  "demo_login i = \<lparr>mf_transaction_id = i, mf_user_id = 7, mf_purpose = LOGIN, mf_challenge = None, mf_pending_secret = None,
     mf_factor_label = None, mf_source_jti = None, mf_source_expires_at = None, mf_attempts = 0, mf_expires_at = 1000,
     mf_consumed_at = None\<rparr>"

definition mfa_demo_admin :: user_row where
  "mfa_demo_admin = \<lparr>ua_user_id = 7, ua_email = ''a@b.c'', ua_password_hash = ''h'', ua_role = BANK_ADMIN,
     ua_customer_id = None, ua_status = USER_ACTIVE, ua_mfa_enabled = True, ua_created_at = 0, ua_updated_at = 0\<rparr>"

definition demo_secret :: "int \<Rightarrow> totp_row" where
  "demo_secret step = \<lparr>to_user_id = 7, to_encrypted_secret = ''S'', to_label = ''app'', to_last_used_step = step,
     to_confirmed_at = 0, to_last_used_at = None, to_revoked_at = None\<rparr>"

definition demo_mfa_db :: db where
  "demo_mfa_db = empty_db\<lparr>user_accounts := [mfa_demo_admin], totp_credentials := [demo_secret 1],
     mfa_transactions := [demo_login 50, demo_login 51]\<rparr>"

definition demo_mfa_db1 :: db where
  "demo_mfa_db1 = demo_mfa_db\<lparr>totp_credentials := [demo_secret 2\<lparr>to_last_used_at := Some 60\<rparr>],
     mfa_transactions := [demo_login 50\<lparr>mf_consumed_at := Some 60\<rparr>, demo_login 51]\<rparr>"

definition demo_mfa_db2 :: db where
  "demo_mfa_db2 = demo_mfa_db1\<lparr>totp_credentials := [demo_secret 3\<lparr>to_last_used_at := Some 90\<rparr>],
     mfa_transactions := [demo_login 50\<lparr>mf_consumed_at := Some 60\<rparr>, demo_login 51\<lparr>mf_consumed_at := Some 90\<rparr>]\<rparr>"

definition demo_completion :: mfa_completion where
  "demo_completion = \<lparr>mc_user_id = 7, mc_customer_id = None, mc_role = BANK_ADMIN, mc_method = TOTP, mc_enrolled = False\<rparr>"

lemmas demo_mfa_eval = demo_library_def demo_mfa_fresh_def demo_login_def mfa_demo_admin_def demo_secret_def demo_mfa_db_def
  demo_mfa_db1_def demo_mfa_db2_def demo_completion_def empty_db_def complete_totp_def is_totp_code_def is_digit_def
  ord_def raise_after_commit_def in_transaction_def totp_body_def transaction_for_update_def table_simps Let_def
  complete_checked_def check_totp_def active_totp_def py_isascii_def matching_totp_step_def touch_totp_def is_bigint_def
  consume_mfa_def update_mfa_def enrolling_def MAX_ATTEMPTS_def record_failure_def

lemma demo_first_login:
  "complete_totp demo_library (demo_mfa_fresh 60) 50 ''000002'' demo_mfa_db = (Inr demo_completion, demo_mfa_db1)"
  by (simp add: demo_mfa_eval)

lemma demo_second_login:
  "complete_totp demo_library (demo_mfa_fresh 90) 51 ''000003'' demo_mfa_db1 = (Inr demo_completion, demo_mfa_db2)"
  by (simp add: demo_mfa_eval)

lemma demo_mfa_ok: "mfa_ok demo_mfa_db" "mfa_ok demo_mfa_db1"
  by (simp_all add: mfa_ok_def mfa_row_ok_def demo_mfa_eval)

lemma mfa_demo_run:
  "mfa_run demo_library demo_mfa_service demo_mfa_db
     [MfaAttempted 50 (Inr demo_completion), MfaAttempted 51 (Inr demo_completion)] demo_mfa_db2"
  by (intro step_run [OF mfa_step.totp [OF demo_first_login]] step_run [OF mfa_step.totp [OF demo_second_login]] done_run)

lemma mfa_demo_rows:
  "row_get mf_transaction_id 50 (mfa_transactions demo_mfa_db) = Some (demo_login 50)"
  "row_get mf_transaction_id 51 (mfa_transactions demo_mfa_db1) = Some (demo_login 51)"
  "row_get ua_user_id 7 (user_accounts demo_mfa_db) = Some mfa_demo_admin"
  by (simp_all add: demo_mfa_db_def demo_mfa_db1_def empty_db_def table_simps demo_login_def mfa_demo_admin_def)

section \<open>The properties\<close>

text \<open>C17. A second-factor ceremony can be guessed at most five times in all and completed at most once,
  whatever calls are made in between, in whatever order, for this or any other ceremony: the failed
  verifications of a run plus those already counted never exceed MAX_ATTEMPTS.\<close>

theorem mfa_guess_budget:
  assumes "mfa_run lib svc d es d'" and "mfa_ok d"
    and "row_get mf_transaction_id tid (mfa_transactions d) = Some t"
    and "MfaStarted tid \<notin> set es"
  shows "int (guesses tid es) + mf_attempts t \<le> MAX_ATTEMPTS \<and>
    completions tid es \<le> (if mf_consumed_at t = None then 1 else 0)"
  using ceremony_budget [OF assms(1,2,4)] assms(3) by simp

theorem mfa_guess_budget_witness:
  "int (guesses 50 [MfaAttempted 50 (Inr demo_completion), MfaAttempted 51 (Inr demo_completion)]) \<le> MAX_ATTEMPTS \<and>
   completions 50 [MfaAttempted 50 (Inr demo_completion), MfaAttempted 51 (Inr demo_completion)] \<le> 1"
  using mfa_guess_budget [OF mfa_demo_run demo_mfa_ok(1) mfa_demo_rows(1)] by (simp add: demo_login_def)

text \<open>A call that completes a second factor belongs to an open, unexpired ceremony of an active user and
  answers with that user's identity, role and customer as the database has them; it consumes the
  ceremony, turns the user's MFA flag on, leaves the user a factor, and revokes the session that started
  the enrolment.\<close>

theorem mfa_completion_effects:
  assumes "mfa_step lib svc d (MfaAttempted tid (Inr c)) d'" and "mfa_ok d"
  shows "\<exists>t u now. row_get mf_transaction_id tid (mfa_transactions d) = Some t \<and> now < mf_expires_at t \<and>
    mf_consumed_at t = None \<and> row_get ua_user_id (mf_user_id t) (user_accounts d) = Some u \<and>
    ua_status u = USER_ACTIVE \<and> mc_user_id c = ua_user_id u \<and> mc_role c = ua_role u \<and>
    mc_customer_id c = ua_customer_id u \<and> mc_enrolled c = (mf_purpose t \<noteq> LOGIN) \<and>
    row_get mf_transaction_id tid (mfa_transactions d') = Some (t\<lparr>mf_consumed_at := Some now\<rparr>) \<and>
    row_get ua_user_id (ua_user_id u) (user_accounts d') = Some (u\<lparr>ua_mfa_enabled := True\<rparr>) \<and>
    has_factor (ua_user_id u) d' \<and>
    (\<forall>j. mf_source_jti t = Some j \<longrightarrow> known sr_jti j (session_revocations d'))"
proof -
  from assms(1) have "attempt_effect tid d (Inr c) d'"
    by cases (use assms(2) complete_passkey_effect complete_totp_effect in auto)
  then obtain t u cs ts m now where t: "transaction_for_update tid now d = Inr (t, u)"
    and consumed: "consume_mfa t m now (d\<lparr>webauthn_credentials := cs, totp_credentials := ts\<rparr>) = Inr (c, d')"
    and factors: "\<forall>x. has_factor x (d\<lparr>webauthn_credentials := cs, totp_credentials := ts\<rparr>) = (has_factor x d \<or> x = mf_user_id t)"
    by (auto simp: attempt_effect_def)
  note t = transaction_for_update_InrD [OF t]
  have source: "mf_source_jti t = Some j \<Longrightarrow> \<exists>e. mf_source_expires_at t = Some e" for j
    using t assms(2) by (auto simp: mfa_ok_def list_all_iff mfa_row_ok_def dest!: row_get_SomeD)
  obtain revs where d': "mfa_transactions d' = rows_update (\<lambda>s. mf_transaction_id s = tid)
        (\<lambda>s. s\<lparr>mf_consumed_at := Some now\<rparr>) (mfa_transactions d)"
      "user_accounts d' = rows_update (\<lambda>u. ua_user_id u = mf_user_id t) (ua_mfa_enabled_update (\<lambda>_. True)) (user_accounts d)"
      "webauthn_credentials d' = cs" "totp_credentials d' = ts" "session_revocations d' = revs"
    and c: "mc_user_id c = mf_user_id t" "mc_role c = ua_role u" "mc_customer_id c = ua_customer_id u"
      "mc_enrolled c = enrolling (mf_purpose t)"
      "\<forall>j e. mf_source_jti t = Some j \<longrightarrow> mf_source_expires_at t = Some e \<longrightarrow> known sr_jti j (session_revocations d')"
    using consume_mfa_InrD [OF consumed] t by auto
  from t have uid: "ua_user_id u = mf_user_id t" by (auto dest: row_get_SomeD)
  have "has_factor (mf_user_id t) d'"
    using factors d'(3,4) has_factor_frame [of d' "d\<lparr>webauthn_credentials := cs, totp_credentials := ts\<rparr>"] by simp
  moreover have "row_get mf_transaction_id tid (mfa_transactions d') = Some (t\<lparr>mf_consumed_at := Some now\<rparr>)"
    using t by (simp add: d'(1) row_get_rows_update)
  moreover have "row_get ua_user_id (ua_user_id u) (user_accounts d') = Some (u\<lparr>ua_mfa_enabled := True\<rparr>)"
    using t uid by (simp add: d'(2) row_get_rows_update)
  moreover have "\<forall>j. mf_source_jti t = Some j \<longrightarrow> known sr_jti j (session_revocations d')"
    using source c(5) by blast
  ultimately show ?thesis
    using t c(1-4) uid by (intro exI [of _ t] exI [of _ u] exI [of _ now]) (simp add: enrolling_def)
qed

theorem mfa_completion_effects_witness:
  "\<exists>u. row_get ua_user_id 7 (user_accounts demo_mfa_db1) = Some (u\<lparr>ua_mfa_enabled := True\<rparr>) \<and> has_factor 7 demo_mfa_db1"
  using mfa_completion_effects [OF mfa_step.totp [OF demo_first_login, of demo_mfa_service] demo_mfa_ok(1)]
  by (auto simp: demo_completion_def)



text \<open>An administrator who has a second factor keeps one through every run of calls, whatever is removed
  and in whatever order, and the flag mfa_enabled of every user stays in step with the factors.\<close>

theorem admin_keeps_a_factor:
  assumes "mfa_run lib svc d es d'" and "mfa_ok d"
    and "row_get ua_user_id uid (user_accounts d) = Some u" and "role_requires_mfa (ua_role u)"
    and "has_factor uid d" and "flags_ok d"
  shows "has_factor uid d' \<and> flags_ok d'"
  using assms
proof (induction arbitrary: u rule: mfa_run.induct)
  case (done_run d)
  then show ?case by simp
next
  case (step_run d e d1 es d')
  from mfa_step_factors [OF step_run.hyps(1) step_run.prems(1)] have f: "factor_step d d1" .
  obtain tid where "e \<noteq> MfaStarted tid"
    by (cases e) (metis mfa_event.inject(1) zero_neq_one, auto)
  with mfa_step_rows [OF step_run.hyps(1) step_run.prems(1)] have "mfa_ok d1" by blast
  with factor_step_user [OF f step_run.prems(2)] step_run.prems(3) factor_step_admin [OF f step_run.prems(2-4)]
    factor_step_flags [OF f step_run.prems(5)] step_run.IH
  show ?case by auto
qed

theorem admin_keeps_a_factor_witness:
  "has_factor 7 demo_mfa_db2 \<and> flags_ok demo_mfa_db2"
proof (rule admin_keeps_a_factor [OF mfa_demo_run demo_mfa_ok(1) mfa_demo_rows(3)])
  show "role_requires_mfa (ua_role mfa_demo_admin)"
    by (simp add: role_requires_mfa_def MFA_REQUIRED_ROLES_def mfa_demo_admin_def)
qed (simp_all add: flags_ok_def has_factor_def demo_mfa_eval)

end
