(* ===== verification/Api_Invariants.thy ===== *)
theory Api_Invariants
  imports Api Mfa_Properties
begin

text \<open>
  What no call of the API can break, proved once for every property.

  The locale \<open>api_invariant\<close> is the interface between a property of the database and the handlers:
  its assumptions are one law per kind of statement that the handlers execute, its theorem
  \<open>step_keeps\<close> says that a property with these laws is kept by every call, committed or failed,
  provided the privileges the call exercises are granted. Theory \<open>Bank\<close> interprets it with the
  ledger invariant, the append-only logs, the roles and the KYC states.
\<close>

section \<open>The tables the second factor may touch\<close>

definition mfa_erased :: "db \<Rightarrow> db" where
  "mfa_erased d = d\<lparr>mfa_transactions := [], webauthn_credentials := [], totp_credentials := [],
     session_revocations := [], user_accounts := map (ua_mfa_enabled_update (\<lambda>_. False)) (user_accounts d)\<rparr>"

definition mfa_frame :: "db \<Rightarrow> db \<Rightarrow> bool" where
  "mfa_frame d d' \<longleftrightarrow> mfa_erased d' = mfa_erased d"

lemma mfa_frame_refl [simp]: "mfa_frame d d"
  by (simp add: mfa_frame_def)

lemma mfa_frame_trans: "mfa_frame d d1 \<Longrightarrow> mfa_frame d1 d2 \<Longrightarrow> mfa_frame d d2"
  by (simp add: mfa_frame_def)

lemma erase_flag:
  "map (ua_mfa_enabled_update (\<lambda>_. False)) (rows_update P (ua_mfa_enabled_update (\<lambda>_. b)) us) =
     map (ua_mfa_enabled_update (\<lambda>_. False)) us"
  by (induction us) (simp_all add: table_simps)

lemma mfa_frame_update [simp]:
  "mfa_frame d (d\<lparr>mfa_transactions := ms\<rparr>)" "mfa_frame d (d\<lparr>webauthn_credentials := cs\<rparr>)"
  "mfa_frame d (d\<lparr>totp_credentials := ts\<rparr>)" "mfa_frame d (d\<lparr>session_revocations := rs\<rparr>)"
  "mfa_frame d (update_mfa tid f d)" "mfa_frame d (count_attempt tid d)"
  "mfa_frame d (d\<lparr>user_accounts := rows_update P (ua_mfa_enabled_update (\<lambda>_. b)) (user_accounts d)\<rparr>)"
  by (simp_all add: mfa_frame_def mfa_erased_def update_mfa_def count_attempt_def erase_flag)

lemma mfa_frame_tables:
  assumes "mfa_frame d d'"
  shows "customers d' = customers d" "bank_accounts d' = bank_accounts d" "transactions d' = transactions d"
    "ledger_entries d' = ledger_entries d" "account_balances d' = account_balances d"
    "audit_events d' = audit_events d" "outbox_events d' = outbox_events d" "risk_alerts d' = risk_alerts d"
    "admin_permissions d' = admin_permissions d" "aspis_auditor_requests d' = aspis_auditor_requests d"
    "map (ua_mfa_enabled_update (\<lambda>_. False)) (user_accounts d') = map (ua_mfa_enabled_update (\<lambda>_. False)) (user_accounts d)"
proof -
  have same: "f (mfa_erased d') = f (mfa_erased d)" for f :: "db \<Rightarrow> 'x"
    using assms by (simp add: mfa_frame_def)
  show "customers d' = customers d" using same [of customers] by (simp add: mfa_erased_def)
  show "bank_accounts d' = bank_accounts d" using same [of bank_accounts] by (simp add: mfa_erased_def)
  show "transactions d' = transactions d" using same [of transactions] by (simp add: mfa_erased_def)
  show "ledger_entries d' = ledger_entries d" using same [of ledger_entries] by (simp add: mfa_erased_def)
  show "account_balances d' = account_balances d" using same [of account_balances] by (simp add: mfa_erased_def)
  show "audit_events d' = audit_events d" using same [of audit_events] by (simp add: mfa_erased_def)
  show "outbox_events d' = outbox_events d" using same [of outbox_events] by (simp add: mfa_erased_def)
  show "risk_alerts d' = risk_alerts d" using same [of risk_alerts] by (simp add: mfa_erased_def)
  show "admin_permissions d' = admin_permissions d" using same [of admin_permissions] by (simp add: mfa_erased_def)
  show "aspis_auditor_requests d' = aspis_auditor_requests d"
    using same [of aspis_auditor_requests] by (simp add: mfa_erased_def)
  show "map (ua_mfa_enabled_update (\<lambda>_. False)) (user_accounts d') = map (ua_mfa_enabled_update (\<lambda>_. False)) (user_accounts d)"
    using same [of user_accounts] by (simp add: mfa_erased_def)
qed

text \<open>Each procedure of the second factor stays inside the frame.\<close>

lemma insert_mfa_frame: "insert_mfa svc fx uid purpose challenge jti until d = (r, d') \<Longrightarrow> mfa_frame d d'"
  by (auto simp: insert_mfa_def Let_def run_then_def statement_def insert_mfa_row_def delete_stale_mfa_def returning_def
      split: if_splits)

lemma begin_login_frame: "begin_login lib svc fx u d = (r, d') \<Longrightarrow> mfa_frame d d'"
  using begin_login_effect insert_mfa_frame mfa_frame_refl by metis

lemma begin_authenticated_enrollment_frame:
  "begin_authenticated_enrollment svc fx uid jti until d = (r, d') \<Longrightarrow> mfa_frame d d'"
  using begin_enrollment_effect insert_mfa_frame by metis

lemma prepare_enrollment_frame: "prepare_enrollment lib svc fx tid meth label d = (r, d') \<Longrightarrow> mfa_frame d d'"
  using prepare_effect mfa_frame_refl mfa_frame_update(5) by metis

lemma consume_mfa_frame: "consume_mfa t m now d = Inr (c, d') \<Longrightarrow> mfa_frame d d'"
  using consume_mfa_InrD [of t m now d c d'] by (auto simp: mfa_frame_def mfa_erased_def erase_flag)

lemma check_login_passkey_frame:
  "check_login_passkey lib svc fx credential raw_id t d = Inr (x, d') \<Longrightarrow> mfa_frame d d'"
  by (auto simp: check_login_passkey_def Let_def split: option.splits dest!: record_failure_Inr touch_passkey_Inr)

lemma check_new_passkey_frame: "check_new_passkey lib svc fx credential t d = Inr (x, d') \<Longrightarrow> mfa_frame d d'"
  by (auto simp: check_new_passkey_def Let_def andthen_Inr_iff split: option.splits if_splits
      dest!: record_failure_Inr insert_webauthn_Inr)

lemma check_passkey_frame: "check_passkey lib svc fx credential raw_id t d = Inr (x, d') \<Longrightarrow> mfa_frame d d'"
  by (auto simp: check_passkey_def split: mfa_purpose.splits dest: check_login_passkey_frame check_new_passkey_frame)

lemma check_totp_frame: "check_totp lib fx code t d = Inr (x, d') \<Longrightarrow> mfa_frame d d'"
  by (auto simp: check_totp_def Let_def split: option.splits if_splits
      dest!: record_failure_Inr touch_totp_Inr upsert_totp_Inr)

lemma ceremony_frame:
  assumes "\<And>t x d1. check t d = Inr (x, d1) \<Longrightarrow> mfa_frame d d1"
    and "raise_after_commit (in_transaction (\<lambda>d. andthen (transaction_for_update tid now d)
           (\<lambda>(t, u). complete_checked t m now (check t d))) d) = (r, d')"
  shows "mfa_frame d d'"
proof -
  let ?body = "\<lambda>d. andthen (transaction_for_update tid now d) (\<lambda>(t, u). complete_checked t m now (check t d))"
  obtain y where y: "in_transaction ?body d = (y, d')"
    using assms(2) by (cases "in_transaction ?body d") (simp add: raise_after_commit_def)
  show ?thesis
  proof (cases y)
    case (Inl e)
    with y have "in_transaction ?body d = (Inl e, d')" by (simp only:)
    from conjunct2 [OF in_transaction_rollback [OF this]] show ?thesis by (simp only: mfa_frame_refl)
  next
    case (Inr z)
    with y have "in_transaction ?body d = (Inr z, d')" by (simp only:)
    from in_transaction_commit [OF this] obtain tu :: "mfa_row \<times> user_row" where
      "(case tu of (t, u) \<Rightarrow> complete_checked t m now (check t d)) = Inr (z, d')"
      by (rule andthen_InrE) (rule that)
    then obtain t where "complete_checked t m now (check t d) = Inr (z, d')" by (cases tu) simp
    then obtain fd where fd: "check t d = Inr fd" "(case fd of (failed, d1) \<Rightarrow>
        (case failed of Some f \<Rightarrow> Inr (Inl f, d1)
         | None \<Rightarrow> andthen (consume_mfa t m now d1) (\<lambda>(c, d2). Inr (Inr c, d2)))) = Inr (z, d')"
      unfolding complete_checked_def by (rule andthen_InrE) (rule that)
    obtain failed d1 where "fd = (failed, d1)" by (cases fd)
    with fd have checked: "check t d = Inr (failed, d1)"
      and rest: "(case failed of Some f \<Rightarrow> Inr (Inl f, d1)
        | None \<Rightarrow> andthen (consume_mfa t m now d1) (\<lambda>(c, d2). Inr (Inr c, d2))) = Inr (z, d')" by simp_all
    from assms(1) [OF checked] rest show ?thesis
      by (cases failed) (auto simp: andthen_Inr_iff intro: mfa_frame_trans dest: consume_mfa_frame)
  qed
qed

lemma complete_passkey_frame:
  assumes "complete_passkey lib svc fx tid credential d = (r, d')"
  shows "mfa_frame d d'"
proof (cases "case map_of credential ''rawId'' of None \<Rightarrow> None | Some j \<Rightarrow> lib_b64url lib (py_str j)")
  case None
  with assms show ?thesis by (simp add: complete_passkey_def)
next
  case (Some raw)
  obtain x e where out: "raise_after_commit (in_transaction (passkey_body lib svc fx tid credential raw) d) = (x, e)"
    by (cases "raise_after_commit (in_transaction (passkey_body lib svc fx tid credential raw) d)")
  then have "mfa_frame d e" unfolding passkey_body_def [abs_def]
    by (rule ceremony_frame [of "check_passkey lib svc fx credential raw", rotated]) (rule check_passkey_frame)
  moreover have "d' = e"
  proof (cases x)
    case (Inl f)
    with assms Some out show ?thesis by (cases f) (simp_all add: complete_passkey_def)
  next
    case (Inr c)
    with assms Some out show ?thesis by (simp add: complete_passkey_def)
  qed
  ultimately show ?thesis by simp
qed

lemma complete_totp_frame:
  assumes "complete_totp lib fx tid code d = (r, d')"
  shows "mfa_frame d d'"
proof (cases "is_totp_code code")
  case False
  with assms show ?thesis by (simp add: complete_totp_def)
next
  case True
  with assms have "raise_after_commit (in_transaction (totp_body lib fx tid code) d) = (r, d')"
    by (simp add: complete_totp_def)
  then show ?thesis unfolding totp_body_def [abs_def]
    by (rule ceremony_frame [of "check_totp lib fx code", rotated]) (rule check_totp_frame)
qed

lemma sync_enabled_frame [simp]: "mfa_frame d (sync_enabled uid d)"
  by (simp add: sync_enabled_def)

lemma remove_passkey_frame: "remove_passkey uid r cid now d = (x, d') \<Longrightarrow> mfa_frame d d'"
  by (auto simp: remove_passkey_def in_transaction_def remove_passkey_body_def andthen_Inr_iff
      split: sum.splits if_splits intro: mfa_frame_trans [OF mfa_frame_update(2) sync_enabled_frame])

lemma remove_totp_frame: "remove_totp uid r now d = (x, d') \<Longrightarrow> mfa_frame d d'"
  by (auto simp: remove_totp_def in_transaction_def remove_totp_body_def andthen_Inr_iff
      split: sum.splits if_splits intro: mfa_frame_trans [OF mfa_frame_update(3) sync_enabled_frame])

lemma revoke_access_token_frame: "revoke_access_token token now d = Inr d' \<Longrightarrow> mfa_frame d d'"
  by (auto simp: revoke_access_token_def Let_def split: if_splits)

lemmas mfa_frames =
  begin_login_frame begin_authenticated_enrollment_frame prepare_enrollment_frame complete_passkey_frame
  complete_totp_frame remove_passkey_frame remove_totp_frame

section \<open>The laws of a property and the calls that keep it\<close>

text \<open>The privileges: what only some callers may do to other people's records.\<close>

datatype privilege = CreatesAdmin | DecidesAuditor | DecidesKyc | SetsAccountStatus

definition privilege_of :: "api_call \<Rightarrow> privilege option" where
  "privilege_of call =
     (case call of
        AdminCreateUser _ \<Rightarrow> Some CreatesAdmin | DecideAuditorRequest _ _ _ \<Rightarrow> Some DecidesAuditor
      | AdminDecideKyc _ _ _ \<Rightarrow> Some DecidesKyc | SetAccountStatus _ _ _ \<Rightarrow> Some SetsAccountStatus
      | _ \<Rightarrow> None)"

locale limit_invariant =
  fixes P :: "db \<Rightarrow> bool"
  assumes limits: "P d \<Longrightarrow> P (d\<lparr>auth_rate_limits := ls\<rparr>)"
begin

abbreviation keeps :: "'a handler \<Rightarrow> bool" where
  "keeps m \<equiv> preserves (\<lambda>s. P (sv_db s)) m"

lemma limiter_db: "db_limiter_check sha key now (l, d) = (r, (l', d')) \<Longrightarrow> P d \<Longrightarrow> P d'"
  by (auto simp: db_limiter_check_def Let_def upsert_attempt_def purge_limits_def
      split: option.splits if_splits sum.splits prod.splits intro: limits)

lemma keeps_rate_limit: "keeps (enforce_auth_rate_limit app env req purpose identifier)"
proof -
  have "keeps (ip_limit_check app env key)" "keeps (account_limit_check app env key)" for key
    by (auto simp: preserves_def ip_limit_check_def account_limit_check_def split: prod.splits dest: limiter_db)
  then show ?thesis unfolding enforce_auth_rate_limit_def Let_def by (intro preserve_rules)
qed

end

locale api_invariant = limit_invariant P for P :: "db \<Rightarrow> bool" +
  fixes may :: "privilege \<Rightarrow> bool"
  assumes audit: "audit_record a fx d = Inr d' \<Longrightarrow> P d \<Longrightarrow> P d'"
    and outbox: "insert_outbox ev d = Inr d' \<Longrightarrow> P d \<Longrightarrow> P d'"
    and customer: "insert_customer c d = Inr d' \<Longrightarrow> cu_kyc_status c = PENDING_KYC \<Longrightarrow> P d \<Longrightarrow> P d'"
    and user: "insert_user u d = Inr d' \<Longrightarrow>
      ua_role u = CUSTOMER \<or> ua_role u = PENDING_APPROVAL \<or> ua_role u = BANK_ADMIN \<and> may CreatesAdmin \<Longrightarrow> P d \<Longrightarrow> P d'"
    and requests: "P d \<Longrightarrow> P (d\<lparr>aspis_auditor_requests := qs\<rparr>)"
    and mfa: "mfa_frame d d' \<Longrightarrow> P d \<Longrightarrow> P d'"
    and permissions: "may CreatesAdmin \<Longrightarrow> P d \<Longrightarrow> P (d\<lparr>admin_permissions := ps\<rparr>)"
    and applicant: "decide_applicant dec i now d = Inr d' \<Longrightarrow> may DecidesAuditor \<Longrightarrow> P d \<Longrightarrow> P d'"
    and submission: "P d \<Longrightarrow> P (set_kyc i may_submit_kyc PENDING_REVIEW now d)"
    and decision: "may DecidesKyc \<Longrightarrow> P d \<Longrightarrow> P (set_kyc i (\<lambda>c. cu_kyc_status c = PENDING_REVIEW) k now d)"
    and account: "insert_account acct d = Inr d' \<Longrightarrow> P d \<Longrightarrow> P d'"
    and balance: "insert_balance b d = Inr d' \<Longrightarrow> ab_current_balance_minor b = 0 \<Longrightarrow>
      ab_available_balance_minor b = 0 \<Longrightarrow> P d \<Longrightarrow> P d'"
    and status: "set_account_status i st d = Inr d' \<Longrightarrow> may SetsAccountStatus \<Longrightarrow> P d \<Longrightarrow> P d'"
    and challenges: "P d \<Longrightarrow> P (d\<lparr>sca_challenges := chs\<rparr>)"
    and transfer: "bank_transfer hmac svc command tf d = (r, d') \<Longrightarrow> P d \<Longrightarrow> P d'"
    and alerts: "P d \<Longrightarrow> P (d\<lparr>risk_alerts := alts\<rparr>)"
begin

lemma keeps_on_db: "preserves P m \<Longrightarrow> keeps (on_db m)"
  by (auto simp: preserves_def on_db_def split: prod.splits)

lemma keeps_reading: "keeps (reading q)"
  by (simp add: preserves_def reading_def)

lemma keeps_asking: "(\<And>d. keeps (f d)) \<Longrightarrow> keeps (asking f)"
  by (simp add: preserves_def asking_def)

lemma keeps_audited: "keeps (audited a fx)"
  unfolding audited_def by (intro keeps_on_db preserves_statement) (rule audit)

lemma keeps_answering: "keeps m \<Longrightarrow> keeps (answering f m)"
  unfolding answering_def by (intro preserve_rules)

lemma keeps_scoped: "keeps m \<Longrightarrow> keeps (scoped app p scope m)"
  unfolding scoped_def by (intro preserve_rules keeps_reading)

lemma keeps_of_customer: "keeps (of_customer p q)"
  unfolding of_customer_def by (intro preserve_rules keeps_reading)

lemmas keeps_rules = preserve_rules keeps_on_db keeps_reading keeps_asking keeps_audited keeps_answering
  keeps_scoped keeps_of_customer keeps_rate_limit

lemma keeps_mfa: "(\<And>d r d'. m d = (r, d') \<Longrightarrow> mfa_frame d d') \<Longrightarrow> keeps (on_db m)"
  by (rule keeps_on_db, rule preservesI) (blast intro: mfa)

lemma keeps_session: "keeps (finish_mfa_session app env req c)"
  unfolding finish_mfa_session_def Let_def by (intro keeps_rules)

lemma keeps_unless_duplicate: "keeps m \<Longrightarrow> keeps (unless_duplicate m)"
  unfolding unless_duplicate_def
  by (intro preserve_rules) (auto split: failure.splits intro: preserve_rules)


text \<open>The transactions of the handlers.\<close>

lemma register_body_keeps: "register_body app env req n b e ph h d = Inr (x, d') \<Longrightarrow> P d \<Longrightarrow> P d'"
  unfolding register_body_def Let_def
  by (elim andthen_InrE, drule customer, simp add: new_customer_def, assumption, drule user)
    (auto simp: new_user_def dest: outbox audit)

lemma auditor_body_keeps: "auditor_body app env req e h d = Inr (x, d') \<Longrightarrow> P d \<Longrightarrow> P d'"
  unfolding auditor_body_def Let_def
  by (elim andthen_InrE, drule user)
    (auto simp: new_user_def insert_auditor_request_def split: if_splits dest: audit requests)

lemma open_account_body_keeps: "open_account_body app env req p c cur d = Inr (x, d') \<Longrightarrow> P d \<Longrightarrow> P d'"
  unfolding open_account_body_def Let_def
  by (elim andthen_InrE) (drule account, assumption, drule balance, simp, simp, assumption, auto dest: outbox audit)

lemma insert_permissions_keeps:
  "insert_permissions i g ps d = Inr d' \<Longrightarrow> may CreatesAdmin \<Longrightarrow> P d \<Longrightarrow> P d'"
  by (induction ps arbitrary: d)
    (auto elim!: andthen_InrE simp: insert_permission_def split: if_splits dest: permissions)

lemma admin_user_body_keeps:
  "admin_user_body app env req p e h ps d = Inr (x, d') \<Longrightarrow> may CreatesAdmin \<Longrightarrow> P d \<Longrightarrow> P d'"
  unfolding admin_user_body_def Let_def
  by (elim andthen_InrE, drule user) (auto simp: new_user_def dest: insert_permissions_keeps audit)

lemma decision_body_keeps:
  "decision_body app env req p i dec reason d = Inr (x, d') \<Longrightarrow> may DecidesAuditor \<Longrightarrow> P d \<Longrightarrow> P d'"
  unfolding decision_body_def
  by (auto elim!: andthen_InrE simp: record_decision_def split: option.splits if_splits
      dest!: audit applicant intro: requests)

lemma kyc_body_keeps:
  "kyc_body app env req p i k ev reason d = Inr (x, d') \<Longrightarrow> may DecidesKyc \<Longrightarrow> P d \<Longrightarrow> P d'"
  unfolding kyc_body_def
  by (auto elim!: andthen_InrE simp: update_kyc_def split: if_splits dest: outbox audit decision)

lemma account_status_body_keeps:
  "account_status_body app env req p i st reason d = Inr (x, d') \<Longrightarrow> may SetsAccountStatus \<Longrightarrow> P d \<Longrightarrow> P d'"
  unfolding account_status_body_def Let_def
  by (elim andthen_InrE) (auto dest: status outbox audit)


text \<open>The handlers.\<close>

lemma register_keeps: "keeps (register app env req i)"
  unfolding register_def Let_def
  by (intro keeps_rules keeps_unless_duplicate) (rule register_body_keeps)

lemma register_auditor_keeps: "keeps (register_aspis_auditor app env req i)"
  unfolding register_aspis_auditor_def Let_def
  by (intro keeps_rules keeps_unless_duplicate) (rule auditor_body_keeps)

lemma login_user_keeps: "keeps (login_user app env req u)"
  unfolding login_user_def Let_def
  by (intro preserve_rules keeps_mfa keeps_audited keeps_reading) (rule begin_login_frame)

lemma login_keeps: "keeps (login app env req i)"
  unfolding login_def Let_def by (intro keeps_rules login_user_keeps)

lemma second_factor_keeps:
  "keeps (setup_mfa app env req tid meth label)" "keeps (complete_passkey_mfa app env req tid credential)"
  "keeps (complete_totp_mfa app env req tid code)" "keeps (mfa_state app p)"
  "keeps (begin_mfa_enrollment app env req token password meth label)"
  "keeps (remove_passkey_route app env req token cid)" "keeps (remove_totp_route app env req token)"
  unfolding setup_mfa_def complete_passkey_mfa_def complete_totp_mfa_def mfa_state_def begin_mfa_enrollment_def
    remove_passkey_route_def remove_totp_route_def Let_def
  by (intro preserve_rules keeps_mfa keeps_audited keeps_reading keeps_asking keeps_rate_limit keeps_session;
      erule mfa_frames)+

lemma session_keeps:
  "keeps (logout app env req token)" "keeps (me app p)" "keeps (submit_kyc app env req p)"
proof -
  show "keeps (logout app env req token)" unfolding logout_def Let_def
    by (intro keeps_rules preservesI)
      (auto simp: statement_def split: sum.splits dest: revoke_access_token_frame intro: mfa)
  show "keeps (submit_kyc app env req p)" unfolding submit_kyc_def
    by (intro keeps_rules) (auto simp: update_kyc_def split: if_splits intro: submission)
qed (simp add: me_def keeps_reading)

lemma account_routes_keep:
  "keeps (list_accounts p)" "keeps (open_account app env req p cur)" "keeps (get_account p i)"
  "keeps (list_account_transactions req p i)" "keeps (list_notifications req p)"
  "keeps (account_status_claim app env req p)" "keeps (get_transfer p i)"
proof -
  show "keeps (open_account app env req p cur)" unfolding open_account_def Let_def
    by (intro keeps_rules) (rule open_account_body_keeps)
  show "keeps (account_status_claim app env req p)" unfolding account_status_claim_def Let_def case_prod_beta
    by (intro keeps_rules)
qed (simp_all add: list_accounts_def get_account_def list_account_transactions_def list_notifications_def
    get_transfer_def keeps_of_customer)

lemma ledger_transfer_keeps: "keeps (ledger_transfer app env command)"
  unfolding ledger_transfer_def by (intro keeps_on_db preservesI) (rule transfer)

lemma transfer_routes_keep:
  "keeps (create_sca_challenge app env req p src dst m)" "keeps (create_transfer_route app env req p ti key)"
proof -
  have sca: "preserves P (sca_create hmac svc p src dst m fx)" for hmac svc fx
  proof (rule preservesI)
    fix d r d'
    assume "P d" "sca_create hmac svc p src dst m fx d = (r, d')"
    with sca_create_frame [of hmac svc p src dst m fx d r d'] show "P d'" by (auto intro: challenges)
  qed
  show "keeps (create_sca_challenge app env req p src dst m)" unfolding create_sca_challenge_def Let_def case_prod_beta
    by (intro keeps_rules sca)
  show "keeps (create_transfer_route app env req p ti key)" unfolding create_transfer_route_def
    by (intro keeps_rules ledger_transfer_keeps)
      (auto split: failure.splits intro: preserve_rules keeps_audited)
qed

lemma admin_routes_keep:
  "keeps (admin_list_users app env req p)" "keeps (list_aspis_auditor_requests app req p)"
  "keeps (admin_list_customers app env req p)" "keeps (admin_demo_deposit app env req p i di key)"
  "keeps (admin_reverse_transaction app env req p i reason key)" "keeps (operator_list_transactions app req p)"
  "keeps (list_risk_alerts app req p)" "keeps (list_audit_events app req p)" "keeps (run_reconciliation app env req p)"
  unfolding admin_list_users_def list_aspis_auditor_requests_def admin_list_customers_def admin_demo_deposit_def
    admin_reverse_transaction_def operator_list_transactions_def list_risk_alerts_def list_audit_events_def
    run_reconciliation_def Let_def
  by (intro keeps_rules ledger_transfer_keeps)+

lemma alert_routes_keep:
  "keeps (create_manual_risk_alert app env req p i sev expl)" "keeps (review_risk_alert app env req p i st note)"
proof -
  show "keeps (create_manual_risk_alert app env req p i sev expl)" unfolding create_manual_risk_alert_def Let_def
    by (intro keeps_rules)
      (auto simp: insert_alert_def split: if_splits failure.splits intro: alerts preserve_rules)
  show "keeps (review_risk_alert app env req p i st note)" unfolding review_risk_alert_def Let_def
    by (intro keeps_rules) (auto simp: review_alert_def Let_def split: if_splits intro: alerts)
qed

lemma privileged_routes_keep:
  "may CreatesAdmin \<Longrightarrow> keeps (admin_create_user app env req token ui)"
  "may DecidesAuditor \<Longrightarrow> keeps (decide_aspis_auditor_request app env req token i dec reason)"
  "may DecidesKyc \<Longrightarrow> keeps (admin_decide_kyc app env req p i decision_text reason)"
  "may SetsAccountStatus \<Longrightarrow> keeps (operator_set_account_status app env req p i st reason)"
proof -
  show "may CreatesAdmin \<Longrightarrow> keeps (admin_create_user app env req token ui)"
    unfolding admin_create_user_def Let_def
    by (intro keeps_rules) (auto split: failure.splits intro: preserve_rules admin_user_body_keeps)
  show "may DecidesAuditor \<Longrightarrow> keeps (decide_aspis_auditor_request app env req token i dec reason)"
    unfolding decide_aspis_auditor_request_def Let_def
    by (intro keeps_rules) (rule decision_body_keeps)
  show "may DecidesKyc \<Longrightarrow> keeps (admin_decide_kyc app env req p i decision_text reason)"
    unfolding admin_decide_kyc_def
    by (intro keeps_rules; clarsimp; intro keeps_rules) (rule kyc_body_keeps)
  show "may SetsAccountStatus \<Longrightarrow> keeps (operator_set_account_status app env req p i st reason)"
    unfolding operator_set_account_status_def
    by (intro keeps_rules) (rule account_status_body_keeps)
qed


lemma public_route_keeps: "keeps (public_route app env req call)"
  by (cases call) (simp_all add: public_route_def keeps_answering preserves_raising
      register_keeps register_auditor_keeps login_keeps second_factor_keeps)

lemma session_route_keeps:
  "(\<And>x. privilege_of call = Some x \<Longrightarrow> may x) \<Longrightarrow> keeps (session_route app env req token call)"
  by (cases call) (simp_all add: session_route_def Let_def privilege_of_def keeps_answering preserves_raising
      second_factor_keeps session_keeps account_routes_keep transfer_routes_keep admin_routes_keep
      alert_routes_keep privileged_routes_keep)

theorem step_keeps:
  "(\<And>x. privilege_of call = Some x \<Longrightarrow> may x) \<Longrightarrow> keeps (api_step app env req call)"
  unfolding api_step_def
  by (intro keeps_rules public_route_keeps session_route_keeps)

end

end
