(* ===== verification/Ledger_Properties.thy ===== *)
theory Ledger_Properties
  imports Ledger_Facts
begin

text \<open>
  The properties of money movement: conservation, atomicity, idempotency, authorization, strong
  customer authentication, reversal, and the outcomes of a transfer. The demo bank instantiates
  each of them.
\<close>

section \<open>Conservation and reconciliation\<close>

text \<open>Double entry: the balances of all accounts of a bank in order add up to zero, so no
  transfer creates or destroys money.\<close>

theorem balances_sum_to_zero:
  assumes "ledger_inv d"
  shows "sum_list (map ab_current_balance_minor (account_balances d)) = 0"
  using assms by (rule sum_of_balances_zero)

theorem balances_sum_to_zero_witness:
  "sum_list (map ab_current_balance_minor (account_balances demo_paid)) = 0"
  by (rule balances_sum_to_zero [OF demo_paid_inv])





section \<open>What a transfer does\<close>



text \<open>Whatever a transfer fails with, and whenever it only replays an earlier answer, the
  database is exactly what it was: no challenge spent, no entry, no event, no audit row.\<close>

theorem transfer_atomic:
  "bank_transfer hmac svc command fx d = (r, d') \<Longrightarrow> d' = d \<or> (\<exists>v. r = Inr (v, False))"
  using sca.create_transfer_cases [of hmac svc command fx d r d'] by blast

theorem transfer_atomic_witness:
  "snd (bank_transfer demo_hmac demo_sca demo_payment (demo_fresh 200 6) demo_db) = demo_db"
proof -
  have "fst (bank_transfer demo_hmac demo_sca demo_payment (demo_fresh 200 6) demo_db) = Inl err_INSUFFICIENT_FUNDS"
    by (simp add: demo_normal create_transfer_def, simp add: demo_payment_n_def demo_eval error_defs cong: andthen_weak)
  then show ?thesis
    using transfer_atomic [of demo_hmac demo_sca demo_payment "demo_fresh 200 6" demo_db _
        "snd (bank_transfer demo_hmac demo_sca demo_payment (demo_fresh 200 6) demo_db)"]
    by (metis Inl_Inr_False prod.collapse)
qed

text \<open>C3. Idempotency: once a transfer is posted, any later command of the same user with the same
  key (after stripping) answers with the recorded transaction and changes nothing, however many
  other transfers and reversals ran in between. Only the reported creation time, which the database
  sets, and the status may differ from the first answer.\<close>

theorem transfer_replays:
  assumes inv: "ledger_inv d" and run: "bank_transfer hmac svc command fx d = (Inr (v, False), d1)"
    and later: "d2 = fold (transfer_step hmac svc) es d1"
    and norm: "normalise command2 = Inr c2"
    and same: "pr_user_id (tc_actor command2) = pr_user_id (tc_actor command)"
      "py_strip (tc_idempotency_key command2) = py_strip (tc_idempotency_key command)"
  shows "\<exists>s. bank_transfer hmac svc command2 fx2 d2 =
    (Inr (v\<lparr>tv_created_at := fx_db_now fx, tv_status := s\<rparr>, True), d2)"
proof -
  from posted_transfer_facts [OF inv run] obtain c cs row where c: "normalise command = Inr c" "v = posted_view c fx"
    "select_by_idempotency (pr_user_id (tc_actor c)) (tc_idempotency_key c) d = None"
    "check_reversal c d = Inr ()" "d1 = posted_db c fx row (d\<lparr>sca_challenges := cs\<rparr>)" by metis
  have key: "(pr_user_id (tc_actor c2), tc_idempotency_key c2) = (pr_user_id (tc_actor c), tc_idempotency_key c)"
    using normalise_InrD [OF c(1)] normalise_InrD [OF norm] same by auto
  have "row_get (\<lambda>t. (tx_initiated_by_user_id t, tx_idempotency_key t))
      (pr_user_id (tc_actor c), tc_idempotency_key c) (transactions d1) =
      Some (mark_row (tc_reverses_transaction_id c) (new_transaction c fx))"
    using c(3) by (simp add: c(5) posted_db_def row_get_append row_get_Cons row_get_map select_by_idempotency_def
        new_transaction_def del: map_append)
  then obtain s1 where "select_by_idempotency (pr_user_id (tc_actor c)) (tc_idempotency_key c) d1 =
      Some ((new_transaction c fx)\<lparr>tx_status := s1\<rparr>)"
    by (auto simp: select_by_idempotency_def mark_row_def new_transaction_def split: if_splits)
  moreover obtain zs where "history d2 = history d1 @ zs"
    using ledger_history.run_log later by blast
  ultimately obtain s where "select_by_idempotency (pr_user_id (tc_actor c2)) (tc_idempotency_key c2) d2 =
      Some ((new_transaction c fx)\<lparr>tx_status := s\<rparr>)"
    using select_in_later_history [of "pr_user_id (tc_actor c)" "tc_idempotency_key c" d1 _ d2 zs] key by auto
  then show ?thesis
    by (intro exI [of _ s]) (simp add: create_transfer_def norm find_by_idempotency_def transaction_payload_def
        new_transaction_def c(2) posted_view_def)
qed

theorem transfer_replays_witness:
  "\<exists>v d1 s. bank_transfer demo_hmac demo_sca demo_deposit (demo_fresh 100 5) demo_db = (Inr (v, False), d1) \<and>
     bank_transfer demo_hmac demo_sca demo_deposit (demo_fresh 900 8)
       (fold (transfer_step demo_hmac demo_sca) [(demo_payment, demo_fresh 200 6)] d1) =
     (Inr (v\<lparr>tv_created_at := 5, tv_status := s\<rparr>, True),
      fold (transfer_step demo_hmac demo_sca) [(demo_payment, demo_fresh 200 6)] d1)"
proof -
  obtain v d1 where run: "bank_transfer demo_hmac demo_sca demo_deposit (demo_fresh 100 5) demo_db = (Inr (v, False), d1)"
    using demo_deposit_run by blast
  from transfer_replays [OF demo_db_inv run refl demo_normal(1) refl refl,
      of "demo_fresh 900 8" "[(demo_payment, demo_fresh 200 6)]"] run
  show ?thesis by (auto simp: demo_fresh_def)
qed

lemma sca_challenges_update_eq [simp]:
  "d\<lparr>sca_challenges := xs\<rparr> = d\<lparr>sca_challenges := ys\<rparr> \<longleftrightarrow> xs = ys"
  "d\<lparr>sca_challenges := xs\<rparr> = d \<longleftrightarrow> xs = sca_challenges d"
  "d = d\<lparr>sca_challenges := xs\<rparr> \<longleftrightarrow> xs = sca_challenges d"
  by (auto dest: arg_cong [of _ _ sca_challenges])

section \<open>Authorization and strong customer authentication\<close>

text \<open>C14. A transfer is posted only for the verified owner of an active GBP source account, to an
  active GBP account, or as an operator override by a bank administrator.\<close>

theorem transfer_authorised:
  assumes "ledger_inv d" and "bank_transfer hmac svc command fx d = (Inr (v, False), d')"
  shows "(\<exists>a b. row_get ba_account_id (tv_source_account_id v) (bank_accounts d) = Some a \<and>
      row_get ba_account_id (tv_destination_account_id v) (bank_accounts d) = Some b \<and>
      ba_status a = ACCOUNT_ACTIVE \<and> ba_status b = ACCOUNT_ACTIVE \<and>
      ba_currency a = ''GBP'' \<and> ba_currency b = ''GBP'' \<and>
      (if tc_operator_override command then pr_role (tc_actor command) = BANK_ADMIN
       else \<exists>c row. pr_customer_id (tc_actor command) = Some c \<and> ba_customer_id a = Some c \<and>
              row_get cu_customer_id c (customers d) = Some row \<and> cu_kyc_status row = KYC_VERIFIED))"
proof -
  from posted_transfer_facts [OF assms] obtain c sa sb da cs where c: "normalise command = Inr c" "v = posted_view c fx"
    "sa \<in> set (bank_accounts d)" "da \<in> set (bank_accounts d)"
    "ba_account_id sa = tc_source_account_id c" "ba_account_id da = tc_destination_account_id c"
    "ba_status sa = ACCOUNT_ACTIVE" "ba_status da = ACCOUNT_ACTIVE"
    "ba_currency sa = tc_currency c" "ba_currency da = tc_currency c"
    "authorise_source (sca_validate_and_consume hmac svc) c (locked_account sa sb) fx d = Inr (d\<lparr>sca_challenges := cs\<rparr>)"
    by metis
  have "distinct (map ba_account_id (bank_accounts d))" using assms(1) by (simp add: ledger_inv_def keys_ok_def)
  from row_get_in [OF this c(3)] row_get_in [OF this c(4)] have
    "row_get ba_account_id (tv_source_account_id v) (bank_accounts d) = Some sa"
    "row_get ba_account_id (tv_destination_account_id v) (bank_accounts d) = Some da"
    by (simp_all add: c(2,5,6) posted_view_def)
  moreover have "tc_currency c = ''GBP''" "tc_actor c = tc_actor command"
    "tc_operator_override c = tc_operator_override command"
    "tc_operator_override command \<longrightarrow> pr_role (tc_actor command) = BANK_ADMIN"
    using normalise_InrD [OF c(1)] by auto
  ultimately show ?thesis
    using c(7-11) by (auto simp: authorise_source_def locked_account_def split: if_splits option.splits)
qed

theorem transfer_authorised_witness:
  "\<exists>v d' a c. bank_transfer demo_hmac demo_sca demo_payment (demo_fresh 200 6) demo_funded = (Inr (v, False), d') \<and>
     row_get ba_account_id (tv_source_account_id v) (bank_accounts demo_funded) = Some a \<and>
     ba_customer_id a = Some c \<and> pr_customer_id demo_alice = Some c"
proof -
  obtain v d' where run: "bank_transfer demo_hmac demo_sca demo_payment (demo_fresh 200 6) demo_funded = (Inr (v, False), d')"
    using demo_payment_run by blast
  have "\<not> tc_operator_override demo_payment" "tc_actor demo_payment = demo_alice"
    by (simp_all add: demo_payment_def demo_command_def demo_alice_def)
  with transfer_authorised [OF demo_funded_inv run] run show ?thesis by auto
qed

lemma posted_transfer_spends:
  assumes "ledger_inv d" and "bank_transfer hmac svc command fx d = (Inr (v, False), d')"
    and "\<not> tc_operator_override command" and "sca_required svc (tv_amount_minor v)"
  obtains i ch where "tc_sca_challenge_id command = Some i"
    "row_get sc_challenge_id i (sca_challenges d) = Some ch" "sc_status ch = CH_PENDING" "fx_now fx \<le> sc_expires_at ch"
    "sc_user_id ch = pr_user_id (tc_actor command)" "sc_source_account_id ch = tv_source_account_id v"
    "sc_destination_account_id ch = tv_destination_account_id v" "sc_amount_minor ch = tv_amount_minor v"
    "sc_code_hash ch = sca_hash hmac svc i (pr_user_id (tc_actor command)) (tv_source_account_id v)
       (tv_destination_account_id v) (tv_amount_minor v) (tc_sca_code command)"
    "row_get sc_challenge_id i (sca_challenges d') =
       Some (ch\<lparr>sc_status := CH_CONSUMED, sc_consumed_at := Some (fx_db_now fx)\<rparr>)"
proof -
  from posted_transfer_facts [OF assms(1,2)] obtain c sa sb cs row where c: "normalise command = Inr c" "v = posted_view c fx"
    "authorise_source (sca_validate_and_consume hmac svc) c (locked_account sa sb) fx d = Inr (d\<lparr>sca_challenges := cs\<rparr>)"
    "d' = posted_db c fx row (d\<lparr>sca_challenges := cs\<rparr>)"
    by metis
  have n: "tc_actor c = tc_actor command" "\<not> tc_operator_override c"
    "tc_sca_challenge_id c = tc_sca_challenge_id command" "tc_sca_code c = tc_sca_code command"
    using normalise_InrD [OF c(1)] assms(3) by auto
  have req: "sca_required svc (tc_amount_minor c)" using assms(4) by (simp add: c(2) posted_view_def)
  from c(3) n(2) have "sca_validate_and_consume hmac svc (tc_actor c) (tc_source_account_id c)
      (tc_destination_account_id c) (tc_amount_minor c) (tc_sca_challenge_id c) (tc_sca_code c)
      (fx_now fx) (fx_db_now fx) d = Inr (d\<lparr>sca_challenges := cs\<rparr>)"
    by (simp add: authorise_source_def split: option.splits if_splits)
  from sca_validate_InrD [OF this] req obtain i ch where ch: "tc_sca_challenge_id c = Some i"
    "row_get sc_challenge_id i (sca_challenges d) = Some ch" "sc_status ch = CH_PENDING" "fx_now fx \<le> sc_expires_at ch"
    "sc_user_id ch = pr_user_id (tc_actor c)" "sc_source_account_id ch = tc_source_account_id c"
    "sc_destination_account_id ch = tc_destination_account_id c" "sc_amount_minor ch = tc_amount_minor c"
    "sc_code_hash ch = sca_hash hmac svc i (pr_user_id (tc_actor c)) (tc_source_account_id c)
       (tc_destination_account_id c) (tc_amount_minor c) (tc_sca_code c)"
    "d\<lparr>sca_challenges := cs\<rparr> = d\<lparr>sca_challenges := rows_update (\<lambda>r. sc_challenge_id r = i \<and> sc_status r = CH_PENDING)
             (\<lambda>r. r\<lparr>sc_status := CH_CONSUMED, sc_consumed_at := Some (fx_db_now fx)\<rparr>) (sca_challenges d)\<rparr>"
    by blast
  have cs: "cs = rows_update (\<lambda>r. sc_challenge_id r = i \<and> sc_status r = CH_PENDING)
             (\<lambda>r. r\<lparr>sc_status := CH_CONSUMED, sc_consumed_at := Some (fx_db_now fx)\<rparr>) (sca_challenges d)"
    using ch(10) by (simp only: sca_challenges_update_eq)
  have "row_get sc_challenge_id i (sca_challenges d') =
      Some (ch\<lparr>sc_status := CH_CONSUMED, sc_consumed_at := Some (fx_db_now fx)\<rparr>)"
    using row_get_SomeD [OF ch(2)] ch(2,3) by (simp add: c(4) cs row_get_rows_update)
  with ch(1-9) n show ?thesis
    by (intro that [of i ch]) (simp_all add: c(2) posted_view_def)
qed

text \<open>C15. A customer's transfer of the threshold or more is posted only with a pending, unexpired
  challenge that was created for this user, these accounts and this amount, and whose stored hash is
  the keyed hash of exactly these values and the presented code; posting consumes it.\<close>

theorem transfer_consumes_sca:
  assumes "ledger_inv d" and "bank_transfer hmac svc command fx d = (Inr (v, False), d')"
    and "\<not> tc_operator_override command" and "sca_required svc (tv_amount_minor v)"
  shows "\<exists>i ch. tc_sca_challenge_id command = Some i \<and> row_get sc_challenge_id i (sca_challenges d) = Some ch \<and>
    sc_status ch = CH_PENDING \<and> fx_now fx \<le> sc_expires_at ch \<and>
    sc_user_id ch = pr_user_id (tc_actor command) \<and> sc_amount_minor ch = tv_amount_minor v \<and>
    sc_source_account_id ch = tv_source_account_id v \<and>
    sc_destination_account_id ch = tv_destination_account_id v \<and>
    sc_code_hash ch = hmac (sca_secret svc) (sca_bound_value i (pr_user_id (tc_actor command))
      (tv_source_account_id v) (tv_destination_account_id v) (tv_amount_minor v) (tc_sca_code command)) \<and>
    (\<exists>ch'. row_get sc_challenge_id i (sca_challenges d') = Some ch' \<and> sc_status ch' = CH_CONSUMED)"
proof -
  from posted_transfer_spends [OF assms] obtain i ch where "tc_sca_challenge_id command = Some i"
    "row_get sc_challenge_id i (sca_challenges d) = Some ch" "sc_status ch = CH_PENDING" "fx_now fx \<le> sc_expires_at ch"
    "sc_user_id ch = pr_user_id (tc_actor command)" "sc_source_account_id ch = tv_source_account_id v"
    "sc_destination_account_id ch = tv_destination_account_id v" "sc_amount_minor ch = tv_amount_minor v"
    "sc_code_hash ch = sca_hash hmac svc i (pr_user_id (tc_actor command)) (tv_source_account_id v)
       (tv_destination_account_id v) (tv_amount_minor v) (tc_sca_code command)"
    "row_get sc_challenge_id i (sca_challenges d') =
       Some (ch\<lparr>sc_status := CH_CONSUMED, sc_consumed_at := Some (fx_db_now fx)\<rparr>)" .
  then show ?thesis by (intro exI [of _ i] exI [of _ ch]) (simp add: sca_hash_def)
qed

definition spent :: "uuid \<Rightarrow> db \<Rightarrow> bool" where
  "spent i d \<longleftrightarrow> (\<exists>ch. row_get sc_challenge_id i (sca_challenges d) = Some ch \<and> sc_status ch = CH_CONSUMED)"

lemma spent_step: "spent i d \<Longrightarrow> spent i (transfer_step hmac svc e d)"
proof -
  assume sp: "spent i d"
  obtain r d' where run: "bank_transfer hmac svc (fst e) (snd e) d = (r, d')" by (metis prod.exhaust)
  consider "d' = d" | c sa sb cs where
      "authorise_source (sca_validate_and_consume hmac svc) c (locked_account sa sb) (snd e) d = Inr (d\<lparr>sca_challenges := cs\<rparr>)"
      "post_transfer c (snd e) (d\<lparr>sca_challenges := cs\<rparr>) = Inr d'"
    using sca.create_transfer_cases [OF run] sca.transfer_body_InrD by blast
  then have "spent i d'"
  proof cases
    case 1
    with sp show ?thesis by simp
  next
    case 2
    have keep: "spent i (d\<lparr>sca_challenges := cs\<rparr>)"
      using 2(1) sp unfolding authorise_source_def spent_def
      by (auto split: if_splits option.splits dest!: sca_validate_InrD simp: row_get_rows_update)
    have "sca_challenges d' = sca_challenges (d\<lparr>sca_challenges := cs\<rparr>)"
      using 2(2) by (auto simp: post_transfer_def elim!: andthen_InrE split: option.splits
          dest!: insert_transaction_InrD insert_entry_InrD update_balance_InrD mark_reversed_InrD
            insert_outbox_InrD audit_record_InrD commit_balanced_InrD)
    with keep show ?thesis by (simp add: spent_def)
  qed
  with run show ?thesis by (simp add: transfer_step_def)
qed

interpretation sca_spent: invariant_machine "transfer_step hmac svc" "spent i" for hmac svc i
  by unfold_locales (rule spent_step)

text \<open>A spent challenge buys nothing more: after it paid for a transfer, no later transfer of the
  threshold or more, in any state that transfers lead to, is posted with it.\<close>

theorem sca_challenge_single_use:
  assumes inv: "ledger_inv d" and run: "bank_transfer hmac svc command fx d = (Inr (v, False), d1)"
    and own: "\<not> tc_operator_override command" "sca_required svc (tv_amount_minor v)"
    and later: "d2 = fold (transfer_step hmac svc) es d1"
    and again: "\<not> tc_operator_override retry" "sca_required svc (tc_amount_minor retry)"
      "tc_sca_challenge_id retry = tc_sca_challenge_id command"
  shows "fst (bank_transfer hmac svc retry fx' d2) \<noteq> Inr (v', False)"
proof
  assume post: "fst (bank_transfer hmac svc retry fx' d2) = Inr (v', False)"
  obtain i where i: "tc_sca_challenge_id command = Some i" "spent i d1"
    by (rule posted_transfer_spends [OF inv run own], rule that, assumption) (simp add: spent_def)
  have inv': "ledger_inv d2"
    using ledger.run_inv [of d1 hmac svc es] sca.create_transfer_inv [OF inv, of hmac svc command fx] run later by simp
  obtain d3 where run2: "bank_transfer hmac svc retry fx' d2 = (Inr (v', False), d3)"
    using post by (metis prod.collapse)
  from posted_transfer_facts [OF inv' run2] have "tv_amount_minor v' = tc_amount_minor retry"
    using normalise_InrD by (metis (no_types, lifting) posted_view_def transaction_view.select_convs(6)
        transfer_command.select_convs(6) transfer_command.surjective transfer_command.update_convs(2,7,8,12))
  with again(2) have req: "sca_required svc (tv_amount_minor v')" by simp
  obtain ch where "row_get sc_challenge_id i (sca_challenges d2) = Some ch" "sc_status ch = CH_PENDING"
    using again(3) i(1) by (rule_tac posted_transfer_spends [OF inv' run2 again(1) req]) simp
  moreover have "spent i d2" using sca_spent.run_inv i(2) later by blast
  ultimately show False by (simp add: spent_def)
qed

theorem transfer_consumes_sca_witness:
  "\<exists>v d' ch. bank_transfer demo_hmac demo_sca demo_big (demo_fresh 400 6) demo_challenged = (Inr (v, False), d') \<and>
     row_get sc_challenge_id 500 (sca_challenges d') = Some ch \<and> sc_status ch = CH_CONSUMED"
proof -
  obtain d' where run: "bank_transfer demo_hmac demo_sca demo_big (demo_fresh 400 6) demo_challenged =
      (Inr (posted_view demo_big_n (demo_fresh 400 6), False), d')" using demo_big_run by blast
  have "\<not> tc_operator_override demo_big" "tc_sca_challenge_id demo_big = Some 500"
    "sca_required demo_sca (tv_amount_minor (posted_view demo_big_n (demo_fresh 400 6)))"
    by (simp_all add: demo_big_def demo_big_n_def posted_view_def demo_eval)
  with transfer_consumes_sca [OF demo_challenged_inv run] run show ?thesis by auto
qed

theorem sca_challenge_single_use_witness:
  "\<exists>v d1. bank_transfer demo_hmac demo_sca demo_big (demo_fresh 400 6) demo_challenged = (Inr (v, False), d1) \<and>
     fst (bank_transfer demo_hmac demo_sca (demo_big\<lparr>tc_idempotency_key := ''big-2''\<rparr>) (demo_fresh 410 7) d1) \<noteq>
       Inr (posted_view demo_big_n (demo_fresh 410 7), False)"
proof -
  obtain d1 where run: "bank_transfer demo_hmac demo_sca demo_big (demo_fresh 400 6) demo_challenged =
      (Inr (posted_view demo_big_n (demo_fresh 400 6), False), d1)" using demo_big_run by blast
  have "\<not> tc_operator_override demo_big" "sca_required demo_sca (tc_amount_minor demo_big)"
    "sca_required demo_sca (tv_amount_minor (posted_view demo_big_n (demo_fresh 400 6)))"
    by (simp_all add: demo_big_def demo_big_n_def posted_view_def demo_eval)
  with sca_challenge_single_use [OF demo_challenged_inv run _ _ refl, where es = "[]"
      and retry = "demo_big\<lparr>tc_idempotency_key := ''big-2''\<rparr>"] run
  show ?thesis by auto
qed

text \<open>A challenge the service creates is good for exactly what it was created for: presented in
  time with its code, by the same user for the same transfer, it is accepted (and consumed).\<close>

theorem sca_create_then_validate:
  assumes "sca_create hmac svc pr src dst amount fx d = (Inr ch, d')" and "ch_required ch"
    and "sf_random fx < 1000000" and "now \<le> ch_expires_at ch"
  shows "(\<exists>d''. sca_validate_and_consume hmac svc pr src dst amount (Some (ch_challenge_id ch))
           (zfill 6 (nat_str (sf_random fx))) now db_now d' = Inr d'') \<and>
    ch_demo_code ch = (if sca_demo_mode svc then Some (zfill 6 (nat_str (sf_random fx))) else None)"
proof -
  let ?row = "\<lparr>sc_challenge_id = sf_challenge_id fx, sc_user_id = pr_user_id pr,
      sc_source_account_id = src, sc_destination_account_id = dst, sc_amount_minor = amount,
      sc_code_hash = sca_hash hmac svc (sf_challenge_id fx) (pr_user_id pr) src dst amount (zfill 6 (nat_str (sf_random fx))),
      sc_status = CH_PENDING, sc_expires_at = sf_now fx + sca_ttl svc, sc_consumed_at = None\<rparr>"
  from assms(1,2) have ins: "insert_challenge ?row d = Inr d'" and req: "sca_required svc amount"
    and ch: "ch_challenge_id ch = sf_challenge_id fx" "ch_expires_at ch = sf_now fx + sca_ttl svc"
      "ch_demo_code ch = (if sca_demo_mode svc then Some (zfill 6 (nat_str (sf_random fx))) else None)"
    by (auto simp: sca_create_def Let_def split: option.splits if_splits sum.splits)
  from insert_challenge_InrD [OF ins] have "row_get sc_challenge_id (sf_challenge_id fx) (sca_challenges d') = Some ?row"
    by (auto simp: row_get_append row_get_Cons row_get_None_known split: option.splits)
       (metis option.distinct(1) row_get_None_known)
  moreover from row_get_SomeD [OF this] have "list_ex (\<lambda>c. sc_challenge_id c = sf_challenge_id fx \<and> sc_status c = CH_PENDING) (sca_challenges d')"
    by (auto simp: list_ex_iff intro!: bexI [of _ ?row])
  ultimately have "\<exists>d''. sca_validate_and_consume hmac svc pr src dst amount (Some (ch_challenge_id ch))
           (zfill 6 (nat_str (sf_random fx))) now db_now d' = Inr d''"
    using req ch(1,2) assms(4) sca_code_format [OF assms(3)]
    by (simp add: sca_validate_and_consume_def consume_challenge_def)
  with ch(3) show ?thesis by simp
qed

theorem sca_create_then_validate_witness:
  "\<exists>ch d''. fst (sca_create demo_hmac demo_sca demo_alice 11 12 60000 demo_sca_fresh demo_funded) = Inr ch \<and>
     sca_validate_and_consume demo_hmac demo_sca demo_alice 11 12 60000 (Some (ch_challenge_id ch)) ''000042'' 9 9
       demo_challenged = Inr d''"
proof -
  obtain row where f: "demo_funded = posted_db demo_deposit_n (demo_fresh 100 5) row demo_db"
    using demo_funded_db by blast
  have "\<exists>ch. fst (sca_create demo_hmac demo_sca demo_alice 11 12 60000 demo_sca_fresh demo_funded) = Inr ch \<and>
      ch_required ch \<and> 9 \<le> ch_expires_at ch" unfolding f
    by (simp add: sca_create_def demo_sca_fresh_def demo_sca_text insert_challenge_def demo_eval posted_db_def)
  then obtain ch where ch: "sca_create demo_hmac demo_sca demo_alice 11 12 60000 demo_sca_fresh demo_funded = (Inr ch, demo_challenged)"
    "ch_required ch" "9 \<le> ch_expires_at ch"
    by (metis demo_challenged_def prod.collapse)
  from sca_create_then_validate [OF ch(1,2) _ ch(3), of 9] ch(1) show ?thesis
    by (simp add: demo_sca_fresh_def demo_sca_text)
qed

text \<open>The message under the keyed hash binds every input: two bound messages are equal only
  when the challenge, the user, both accounts, the amount and the code are.\<close>

theorem sca_message_binds:
  "sca_bound_value c u s t a k = sca_bound_value c' u' s' t' a' k' \<longleftrightarrow>
     (c, u, s, t, a, k) = (c', u', s', t', a', k')"
  using sca_bound_value_inj [of c u s t a k c' u' s' t' a' k'] by auto

section \<open>Reversal\<close>

text \<open>A posted reversal undoes its transaction: the original was POSTED and is now REVERSED, the
  reversal mirrors its accounts and amount, and together the entries of the two add up to zero on
  every account.\<close>

theorem reversal_restores:
  assumes inv: "ledger_inv d" and run: "bank_transfer hmac svc command fx d = (Inr (v, False), d')"
    and rev: "tc_reverses_transaction_id command = Some r"
  shows "(\<exists>t. row_get tx_transaction_id r (transactions d) = Some t \<and> tx_status t = TX_POSTED \<and>
       tx_transaction_type t \<noteq> REVERSAL \<and>
       row_get tx_transaction_id r (transactions d') = Some (t\<lparr>tx_status := TX_REVERSED\<rparr>)) \<and>
    sum_where (\<lambda>e. le_account_id e = i \<and> le_transaction_id e \<in> {r, tv_transaction_id v})
           le_amount_minor (ledger_entries d') = 0"
proof -
  from posted_transfer_facts [OF inv run] obtain c cs row where c: "normalise command = Inr c" "v = posted_view c fx"
    "check_reversal c d = Inr ()" "post_transfer c fx (d\<lparr>sca_challenges := cs\<rparr>) = Inr d'"
    "d' = posted_db c fx row (d\<lparr>sca_challenges := cs\<rparr>)" by metis
  from normalise_InrD [OF c(1)] rev have rc: "tc_reverses_transaction_id c = Some r"
    and neq: "tc_source_account_id c \<noteq> tc_destination_account_id c" by auto
  have dist: "distinct (map ab_account_id (account_balances (d\<lparr>sca_challenges := cs\<rparr>)))"
    using inv by (simp add: ledger_inv_def keys_ok_def)
  have new: "\<not> known tx_transaction_id (fx_transaction_id fx) (transactions d)"
    using post_transfer_InrD(2) [OF c(4) dist neq] by simp
  from check_reversal_InrD [OF c(3) rc] obtain t where t: "row_get tx_transaction_id r (transactions d) = Some t"
    "tx_status t = TX_POSTED" "tx_transaction_type t \<noteq> REVERSAL"
    "tc_source_account_id c = tx_destination_account_id t" "tc_destination_account_id c = tx_source_account_id t"
    "tc_amount_minor c = tx_amount_minor t" by blast
  note tin = row_get_SomeD [OF t(1)]
  have "row_get tx_transaction_id r (transactions d') = Some (t\<lparr>tx_status := TX_REVERSED\<rparr>)"
    using t(1) tin by (simp add: c(5) posted_db_def row_get_append row_get_map mark_row_def rc del: map_append)
  with t have marked: "\<exists>t. row_get tx_transaction_id r (transactions d) = Some t \<and> tx_status t = TX_POSTED \<and>
       tx_transaction_type t \<noteq> REVERSAL \<and>
       row_get tx_transaction_id r (transactions d') = Some (t\<lparr>tx_status := TX_REVERSED\<rparr>)" by blast
  have old: "map (\<lambda>e. (le_account_id e, le_amount_minor e)) (entries_of r d) =
      [(tx_source_account_id t, - tx_amount_minor t), (tx_destination_account_id t, tx_amount_minor t)]"
    using inv tin by (auto simp: ledger_inv_def entries_ok_def)
  have none: "\<forall>e \<in> set (ledger_entries d). le_transaction_id e \<noteq> fx_transaction_id fx"
    using inv new by (auto simp: ledger_inv_def entries_ok_def)
  have "r \<noteq> fx_transaction_id fx" using tin new knownI [of t "transactions d" tx_transaction_id r] by auto
  have "sum_where (\<lambda>e. le_account_id e = i \<and> le_transaction_id e \<in> {r, fx_transaction_id fx}) le_amount_minor (ledger_entries d)
      = sum_where (\<lambda>e. le_account_id e = i) le_amount_minor (entries_of r d)"
    using none unfolding entries_of_def by (simp add: sum_where_def filter_filter)
      (rule arg_cong [of _ _ "\<lambda>xs. sum_list (map le_amount_minor xs)"], rule filter_cong [OF refl], auto)
  also have "\<dots> = sum_where (\<lambda>p. fst p = i) snd (map (\<lambda>e. (le_account_id e, le_amount_minor e)) (entries_of r d))"
    by (simp add: sum_where_def filter_map comp_def)
  also have "\<dots> = (if tx_source_account_id t = i then - tx_amount_minor t else 0)
      + (if tx_destination_account_id t = i then tx_amount_minor t else 0)"
    by (simp add: old table_simps)
  finally have "sum_where (\<lambda>e. le_account_id e = i \<and> le_transaction_id e \<in> {r, tv_transaction_id v})
           le_amount_minor (ledger_entries d') = 0"
    by (simp add: c(2,5) posted_view_def posted_db_def table_simps debit_entry_def credit_entry_def t(4-6))
  with marked show ?thesis by (rule conjI)
qed

theorem reversal_restores_witness:
  "\<exists>v d'. bank_transfer demo_hmac demo_sca demo_reversal (demo_fresh 300 7) demo_paid = (Inr (v, False), d') \<and>
     (\<exists>t. row_get tx_transaction_id 200 (transactions d') = Some t \<and> tx_status t = TX_REVERSED) \<and>
     sum_where (\<lambda>e. le_account_id e = 12 \<and> le_transaction_id e \<in> {200, tv_transaction_id v})
       le_amount_minor (ledger_entries d') = 0"
proof -
  obtain v d' where run: "bank_transfer demo_hmac demo_sca demo_reversal (demo_fresh 300 7) demo_paid = (Inr (v, False), d')"
    using demo_reversal_run by blast
  have "tc_reverses_transaction_id demo_reversal = Some 200" by (simp add: demo_reversal_def)
  from reversal_restores [OF demo_paid_inv run this, of 12] run show ?thesis by auto
qed

definition reversed :: "uuid \<Rightarrow> db \<Rightarrow> bool" where
  "reversed r d \<longleftrightarrow> known tx_reverses_transaction_id (Some r) (history d)"

lemma reversed_step: "reversed r d \<Longrightarrow> reversed r (transfer_step hmac svc e d)"
  using bank_transfer_frame [of hmac svc "fst e" "snd e" d] 
  by (metis reversed_def transfer_step_def known_append prod.collapse)

lemma known_history: "known tx_reverses_transaction_id x (history d) = known tx_reverses_transaction_id x (transactions d)"
  by (simp add: history_def comp_def)

interpretation reversed_once: invariant_machine "transfer_step hmac svc" "reversed r" for hmac svc r
  by unfold_locales (rule reversed_step)

text \<open>A transaction is reversed at most once: when a reversal of it has been posted, every later
  command that names it as the transaction to reverse fails or replays, whoever sends it.\<close>

theorem reversed_at_most_once:
  assumes inv: "ledger_inv d" and run: "bank_transfer hmac svc command fx d = (Inr (v, False), d1)"
    and rev: "tc_reverses_transaction_id command = Some r"
    and later: "d2 = fold (transfer_step hmac svc) es d1"
    and again: "tc_reverses_transaction_id retry = Some r"
  shows "fst (bank_transfer hmac svc retry fx' d2) \<noteq> Inr (v', False)"
proof
  assume post: "fst (bank_transfer hmac svc retry fx' d2) = Inr (v', False)"
  from posted_transfer_facts [OF inv run] obtain c cs row where
    "normalise command = Inr c" "d1 = posted_db c fx row (d\<lparr>sca_challenges := cs\<rparr>)" by metis
  with normalise_InrD [of command c] rev have "reversed r d1"
    by (simp add: reversed_def known_history posted_db_def comp_def table_simps new_transaction_def)
  then have rev2: "reversed r d2" using reversed_once.run_inv later by blast
  have inv2: "ledger_inv d2"
    using ledger.run_inv [of d1 hmac svc es] sca.create_transfer_inv [OF inv, of hmac svc command fx] run later by simp
  obtain d3 where run2: "bank_transfer hmac svc retry fx' d2 = (Inr (v', False), d3)" using post by (metis prod.collapse)
  from posted_transfer_facts [OF inv2 run2] obtain c2 where c2: "normalise retry = Inr c2" "check_reversal c2 d2 = Inr ()"
    by metis
  from normalise_InrD [OF c2(1)] again have "tc_reverses_transaction_id c2 = Some r" by auto
  from check_reversal_unreversed [OF _ c2(2) this] inv2 rev2 show False
    by (simp add: ledger_inv_def reversed_def known_history)
qed

theorem reversed_at_most_once_witness:
  "\<exists>v d1. bank_transfer demo_hmac demo_sca demo_reversal (demo_fresh 300 7) demo_paid = (Inr (v, False), d1) \<and>
     fst (bank_transfer demo_hmac demo_sca (demo_reversal\<lparr>tc_idempotency_key := ''rev-2''\<rparr>) (demo_fresh 310 8) d1) \<noteq> Inr (v, False)"
proof -
  obtain v d1 where run: "bank_transfer demo_hmac demo_sca demo_reversal (demo_fresh 300 7) demo_paid = (Inr (v, False), d1)"
    using demo_reversal_run by blast
  have "tc_reverses_transaction_id demo_reversal = Some 200" by (simp add: demo_reversal_def)
  with reversed_at_most_once [OF demo_paid_inv run this refl, where es = "[]"
      and retry = "demo_reversal\<lparr>tc_idempotency_key := ''rev-2''\<rparr>"] run
  show ?thesis by auto
qed

section \<open>Outcomes\<close>

text \<open>Defence in depth: from a bank in order, with identifiers not in use, a known user and
  amounts that fit a BIGINT, a transfer that fails answers with one of the documented errors. No
  constraint, no trigger, no foreign key and no internal exception of the source is ever reached.\<close>

theorem transfer_errors_documented:
  assumes "ledger_inv d" and "fresh_ids fx d"
    and "known ua_user_id (pr_user_id (tc_actor command)) (user_accounts d)" and "amounts_fit command d"
    and "fst (bank_transfer hmac svc command fx d) = Inl e"
  shows "e \<in> set transfer_errors"
  using assms by (rule sca.create_transfer_errors)

theorem transfer_errors_documented_witness:
  "fst (bank_transfer demo_hmac demo_sca demo_payment (demo_fresh 200 6) demo_db) \<in> Inl ` set transfer_errors"
proof -
  have e: "fst (bank_transfer demo_hmac demo_sca demo_payment (demo_fresh 200 6) demo_db) = Inl err_INSUFFICIENT_FUNDS"
    by (simp add: demo_normal create_transfer_def, simp add: demo_payment_n_def demo_eval error_defs cong: andthen_weak)
  have "err_INSUFFICIENT_FUNDS \<in> set transfer_errors"
    by (rule transfer_errors_documented [OF demo_db_inv _ _ _ e])
      (simp_all add: fresh_ids_def amounts_fit_def account_sum_def demo_eval)
  with e show ?thesis by simp
qed

text \<open>C16. The guards are complete: when the command is well formed and its key unused, both accounts
  exist, are active and hold GBP, the funds suffice, the actor is a verified owner (or the operator)
  whose challenge is accepted, and the transaction to reverse, if any, may be reversed, then the
  transfer is posted.\<close>

theorem transfer_goes_through:
  assumes "ledger_inv d" and "fresh_ids fx d" and "normalise command = Inr c"
    and "select_by_idempotency (pr_user_id (tc_actor c)) (tc_idempotency_key c) d = None"
    and "known ua_user_id (pr_user_id (tc_actor c)) (user_accounts d)" and "amounts_fit c d"
    and "row_get ba_account_id (tc_source_account_id c) (bank_accounts d) = Some sa"
    and "row_get ab_account_id (tc_source_account_id c) (account_balances d) = Some sb"
    and "row_get ba_account_id (tc_destination_account_id c) (bank_accounts d) = Some ta"
    and "row_get ab_account_id (tc_destination_account_id c) (account_balances d) = Some tb"
    and "ba_status sa = ACCOUNT_ACTIVE" and "ba_status ta = ACCOUNT_ACTIVE"
    and "ba_currency sa = ''GBP''" and "ba_currency ta = ''GBP''"
    and "authorise_source (sca_validate_and_consume hmac svc) c (locked_account sa sb) fx d = Inr d'"
    and "ba_allow_negative sa \<or> tc_amount_minor c \<le> ab_available_balance_minor sb"
    and "check_reversal c d = Inr ()"
  shows "fst (bank_transfer hmac svc command fx d) = Inr (posted_view c fx, False)"
  using assms by (rule sca.create_transfer_succeeds)

theorem transfer_goes_through_witness:
  "fst (bank_transfer demo_hmac demo_sca demo_deposit (demo_fresh 100 5) demo_db) =
     Inr (posted_view demo_deposit_n (demo_fresh 100 5), False)"
  by (rule transfer_goes_through [OF demo_db_inv _ demo_normal(1), where sa = "demo_account 10 None ''sys''"
        and sb = "demo_balance 10" and ta = "demo_account 11 (Some 21) ''a1''" and tb = "demo_balance 11"
        and d' = demo_db])
    (simp_all add: demo_deposit_n_def fresh_ids_def amounts_fit_def account_sum_def demo_eval)

section \<open>Invariants of every run\<close>

text \<open>The ledger is append-only: whatever transfers run, every entry, every audit row and every
  transaction (apart from its status) that was there stays, unchanged and in its place.\<close>

theorem ledger_append_only:
  "(\<exists>zs. ledger_entries (fold (transfer_step hmac svc) es d) = ledger_entries d @ zs) \<and>
   (\<exists>zs. audit_events (fold (transfer_step hmac svc) es d) = audit_events d @ zs) \<and>
   (\<exists>zs. history (fold (transfer_step hmac svc) es d) = history d @ zs)"
  by (simp add: ledger_postings.run_log ledger_audit.run_log ledger_history.run_log)

text \<open>No customer is ever overdrawn: along every run of transfers from a bank in order, the
  balances of an account without overdraft permission stay non-negative, and every projected balance
  stays the sum of its entries.\<close>

theorem customers_never_overdrawn:
  assumes "ledger_inv d" and "b \<in> set (account_balances (fold (transfer_step hmac svc) es d))"
  shows "\<exists>a. row_get ba_account_id (ab_account_id b) (bank_accounts (fold (transfer_step hmac svc) es d)) = Some a \<and>
    (ba_allow_negative a \<or> 0 \<le> ab_available_balance_minor b \<and> 0 \<le> ab_current_balance_minor b) \<and>
    ab_current_balance_minor b = account_sum (ab_account_id b) (fold (transfer_step hmac svc) es d)"
proof -
  have "ledger_inv (fold (transfer_step hmac svc) es d)" by (rule ledger.run_inv [OF assms(1)])
  with assms(2) show ?thesis by (auto simp: ledger_inv_def balances_ok_def balance_ok_alt)
qed

theorem customers_never_overdrawn_witness:
  "\<forall>b \<in> set (account_balances (fold (transfer_step demo_hmac demo_sca) [(demo_payment, demo_fresh 200 6)] demo_funded)).
     \<exists>a. row_get ba_account_id (ab_account_id b)
       (bank_accounts (fold (transfer_step demo_hmac demo_sca) [(demo_payment, demo_fresh 200 6)] demo_funded)) = Some a"
  using customers_never_overdrawn [OF demo_funded_inv] by blast

end
