(* ===== verification/Bank.thy ===== *)
theory Bank
  imports Api_Invariants Ledger_Properties
begin

text \<open>
  The whole bank as one state machine: the API calls, the deliveries to the risk and notification
  workers and the statements of the outbox publisher, in any order, on one server state.

  The locale \<open>bank_invariant\<close> extends \<open>api_invariant\<close> by the tables only the workers and the
  publisher write; it is interpreted with the ledger invariant, the append-only evidence, the staff
  roles, the verified customers and the account rows.
\<close>

section \<open>Steps of the bank\<close>

datatype bank_event =
    Request env api_request api_call
  | RiskDelivery int worker_fresh message
  | NotificationDelivery "uuid \<Rightarrow> uuid" timestamp message
  | RecoverClaims timestamp
  | ClaimEvent "uuid list" timestamp
  | ReleaseEvent uuid string
  | MarkPublished uuid timestamp

definition on_rows :: "(db \<Rightarrow> db) \<Rightarrow> server \<Rightarrow> server" where
  "on_rows f s = s\<lparr>sv_db := f (sv_db s)\<rparr>"

definition bank_step :: "app \<Rightarrow> bank_event \<Rightarrow> server \<Rightarrow> server" where
  "bank_step app ev s =
     (case ev of
        Request env req call \<Rightarrow> snd (api_step app env req call s)
      | RiskDelivery threshold fx m \<Rightarrow> snd (on_db (risk_handler threshold fx m) s)
      | NotificationDelivery ids now m \<Rightarrow> snd (on_db (notification_handler ids now m) s)
      | RecoverClaims now \<Rightarrow> on_rows (recover_expired_claims now) s
      | ClaimEvent locked now \<Rightarrow> on_rows (\<lambda>d. snd (claim locked now d)) s
      | ReleaseEvent event_id error \<Rightarrow> on_rows (release event_id error) s
      | MarkPublished event_id now \<Rightarrow> on_rows (mark_published event_id now) s)"

text \<open>The privilege an event exercises, if any.\<close>

definition event_privilege :: "bank_event \<Rightarrow> privilege option" where
  "event_privilege ev = (case ev of Request _ _ call \<Rightarrow> privilege_of call | _ \<Rightarrow> None)"

definition granted :: "(privilege \<Rightarrow> bool) \<Rightarrow> bank_event \<Rightarrow> bool" where
  "granted may ev \<longleftrightarrow> (\<forall>x. event_privilege ev = Some x \<longrightarrow> may x)"

locale bank_invariant = api_invariant +
  assumes notices: "P d \<Longrightarrow> P (d\<lparr>notifications := ns\<rparr>)"
    and publishing: "P d \<Longrightarrow> P (d\<lparr>outbox_events := os\<rparr>)"
begin

lemma risk_alert_body_keeps:
  "risk_alert_body threshold amount payload tid c fx d = Inr (x, d') \<Longrightarrow> P d \<Longrightarrow> P d'"
  unfolding risk_alert_body_def
  by (auto elim!: andthen_InrE simp: insert_alert_def split: if_splits dest!: audit outbox intro: alerts)

lemma risk_handler_keeps: "preserves P (risk_handler threshold fx m)"
  by (auto simp: preserves_def risk_handler_def create_risk_alert_def in_transaction_def
      split: sum.splits dest: risk_alert_body_keeps)

lemma notification_handler_keeps: "preserves P (notification_handler ids now m)"
proof -
  have "preserves P (notify_all row rcs)" for row rcs
    by (induction rcs) (auto simp: insert_notification_def split: if_splits intro!: preserve_rules intro: notices)
  then show ?thesis
    by (auto simp: preserves_def notification_handler_def create_notifications_def split: sum.splits)
qed

lemma bank_step_keeps:
  assumes "granted may ev" and "P (sv_db s)"
  shows "P (sv_db (bank_step app ev s))"
proof (cases ev)
  case (Request env req call)
  with assms(1) have "keeps (api_step app env req call)"
    by (intro step_keeps) (simp add: granted_def event_privilege_def)
  with Request assms(2) show ?thesis by (simp add: bank_step_def preserves_def)
next
  case (RiskDelivery threshold fx m)
  with keeps_on_db [OF risk_handler_keeps] assms(2) show ?thesis by (simp add: bank_step_def preserves_def)
next
  case (NotificationDelivery ids now m)
  with keeps_on_db [OF notification_handler_keeps] assms(2) show ?thesis by (simp add: bank_step_def preserves_def)
next
  case (ClaimEvent locked now)
  with assms(2) show ?thesis
    by (auto simp: bank_step_def on_rows_def claim_def split: list.splits intro: publishing)
qed (use assms(2) in \<open>simp_all add: bank_step_def on_rows_def recover_expired_claims_def release_def
       mark_published_def publishing\<close>)

lemma bank_run_keeps:
  "list_all (granted may) evs \<Longrightarrow> P (sv_db s) \<Longrightarrow> P (sv_db (fold (bank_step app) evs s))"
  by (induction evs arbitrary: s) (auto intro: bank_step_keeps)

end

section \<open>The ledger is one such property\<close>

lemma ledger_inv_cong:
  assumes "bank_accounts d' = bank_accounts d" and "account_balances d' = account_balances d"
    and "transactions d' = transactions d" and "ledger_entries d' = ledger_entries d"
  shows "ledger_inv d' = ledger_inv d"
  using assms by (simp add: ledger_inv_def keys_ok_def balances_ok_def balance_ok_alt entries_ok_def
      entries_of_def history_ok_alt account_sum_def)

lemma ledger_inv_other_tables [simp]:
  "ledger_inv (d\<lparr>customers := x1\<rparr>) = ledger_inv d" "ledger_inv (d\<lparr>user_accounts := x2\<rparr>) = ledger_inv d"
  "ledger_inv (d\<lparr>audit_events := x3\<rparr>) = ledger_inv d" "ledger_inv (d\<lparr>outbox_events := x4\<rparr>) = ledger_inv d"
  "ledger_inv (d\<lparr>auth_rate_limits := x5\<rparr>) = ledger_inv d" "ledger_inv (d\<lparr>sca_challenges := x6\<rparr>) = ledger_inv d"
  "ledger_inv (d\<lparr>aspis_auditor_requests := x7\<rparr>) = ledger_inv d" "ledger_inv (d\<lparr>risk_alerts := x8\<rparr>) = ledger_inv d"
  "ledger_inv (d\<lparr>admin_permissions := x9\<rparr>) = ledger_inv d" "ledger_inv (d\<lparr>notifications := x10\<rparr>) = ledger_inv d"
  by (rule ledger_inv_cong; simp)+

lemma ledger_inv_accounts:
  assumes "ledger_inv d" and "map ba_account_id accts = map ba_account_id (bank_accounts d)"
    and "map ba_allow_negative accts = map ba_allow_negative (bank_accounts d)"
  shows "ledger_inv (d\<lparr>bank_accounts := accts\<rparr>)"
proof -
  have "map_option ba_allow_negative (row_get ba_account_id i accts) =
      map_option ba_allow_negative (row_get ba_account_id i (bank_accounts d))" for i
    using assms(2,3)
  proof (induction accts "bank_accounts d" arbitrary: d rule: list_induct2')
    case (4 a as b bs)
    from 4(1) [of "d\<lparr>bank_accounts := bs\<rparr>"] 4(2-4) show ?case
      by (simp add: row_get_Cons flip: 4(2))
  qed auto
  moreover have "(\<exists>a. x = Some a \<and> (ba_allow_negative a \<or> Q)) \<longleftrightarrow>
      (case map_option ba_allow_negative x of None \<Rightarrow> False | Some flag \<Rightarrow> flag \<or> Q)" for x :: "account_row option" and Q
    by (cases x) auto
  ultimately have "(\<exists>a. row_get ba_account_id i accts = Some a \<and> (ba_allow_negative a \<or> Q)) \<longleftrightarrow>
      (\<exists>a. row_get ba_account_id i (bank_accounts d) = Some a \<and> (ba_allow_negative a \<or> Q))" for i Q
    by (simp only:)
  then have "balance_ok (d\<lparr>bank_accounts := accts\<rparr>) b = balance_ok d b" for b
    by (simp add: balance_ok_alt account_sum_def)
  moreover have "entries_ok (d\<lparr>bank_accounts := accts\<rparr>) = entries_ok d" "history_ok (d\<lparr>bank_accounts := accts\<rparr>) = history_ok d"
    by (simp_all add: entries_ok_def entries_of_def history_ok_alt)
  ultimately show ?thesis using assms(1,2) by (simp add: ledger_inv_def keys_ok_def balances_ok_def)
qed

lemma ledger_inv_new_account:
  assumes "ledger_inv d" and "insert_account a d = Inr d'"
  shows "ledger_inv d'"
proof -
  from insert_account_InrD [OF assms(2)] have d': "d' = d\<lparr>bank_accounts := bank_accounts d @ [a]\<rparr>"
    and new: "\<not> known ba_account_id (ba_account_id a) (bank_accounts d)" by auto
  have "balance_ok d' b" if "b \<in> set (account_balances d)" for b
    using assms(1) that unfolding d'
    by (auto simp: ledger_inv_def balances_ok_def balance_ok_alt account_sum_def row_get_append)
  with assms(1) new show ?thesis unfolding d'
    by (auto simp: ledger_inv_def keys_ok_def balances_ok_def known_def entries_ok_def entries_of_def history_ok_alt)
qed

lemma ledger_inv_zero_balance:
  assumes "ledger_inv d" and "insert_balance b d = Inr d'"
    and "ab_current_balance_minor b = 0" and "ab_available_balance_minor b = 0"
  shows "ledger_inv d'"
proof -
  from insert_balance_InrD [OF assms(2)] have d': "d' = d\<lparr>account_balances := account_balances d @ [b]\<rparr>"
    and w: "write_balance b d = None" and new: "\<not> known ab_account_id (ab_account_id b) (account_balances d)" by auto
  have "\<forall>e \<in> set (ledger_entries d). le_account_id e \<noteq> ab_account_id b"
    using assms(1) new by (auto simp: ledger_inv_def entries_ok_def)
  then have "account_sum (ab_account_id b) d = 0" by (simp add: account_sum_def sum_where_none)
  with write_balance_NoneD [OF w] assms(3,4) have "balance_ok d b" by (auto simp: balance_ok_alt)
  then have "\<forall>x \<in> set (account_balances d'). balance_ok d' x"
    using assms(1) unfolding d' by (auto simp: ledger_inv_def balances_ok_def balance_ok_alt account_sum_def)
  with assms(1) new show ?thesis unfolding d'
    by (auto simp: ledger_inv_def keys_ok_def balances_ok_def known_def entries_ok_def entries_of_def
        history_ok_alt table_simps)
qed

lemma ledger_inv_status:
  assumes "set_account_status i st d = Inr d'" and "ledger_inv d"
  shows "ledger_inv d'"
proof -
  have keep: "map f (rows_update Q (ba_status_update g) as) = map f as"
    if "\<And>a. f (ba_status_update g a) = f a" for f :: "account_row \<Rightarrow> 'x" and Q g as
    using that by (induction as) (simp_all add: table_simps)
  show ?thesis using assms
    by (auto simp: set_account_status_def Let_def keep split: if_splits intro!: ledger_inv_accounts)
qed

interpretation bank_ledger: bank_invariant ledger_inv "\<lambda>_. True"
proof
  fix a :: audit_args and fx d d'
  assume "audit_record a fx d = Inr d'" "ledger_inv d"
  then show "ledger_inv d'" by (auto dest!: audit_record_InrD)
next
  fix hmac svc command tf d r d'
  assume "bank_transfer hmac svc command tf d = (r, d')" "ledger_inv d"
  then show "ledger_inv d'" using sca.create_transfer_inv [of d hmac svc command tf] by simp
next
  fix d d'
  assume "mfa_frame d d'" "ledger_inv d"
  with ledger_inv_cong [of d' d] show "ledger_inv d'" by (simp add: mfa_frame_tables)
qed (auto dest!: insert_outbox_InrD insert_customer_InrD insert_user_InrD
    simp: set_kyc_def decide_applicant_def Let_def
    split: if_splits intro: ledger_inv_new_account ledger_inv_zero_balance ledger_inv_status)

section \<open>Evidence, roles, verification and accounts\<close>

text \<open>The evidence of \<open>d0\<close> is still there: entries, history and audit trail were only appended to.\<close>

definition evidence_of :: "db \<Rightarrow> db \<Rightarrow> bool" where
  "evidence_of d0 d \<longleftrightarrow>
     (\<exists>zs. ledger_entries d = ledger_entries d0 @ zs) \<and> (\<exists>zs. history d = history d0 @ zs) \<and>
     (\<exists>zs. audit_events d = audit_events d0 @ zs)"

lemma evidence_same:
  assumes "evidence_of d0 d" and "ledger_entries d' = ledger_entries d" and "transactions d' = transactions d"
    and "audit_events d' = audit_events d"
  shows "evidence_of d0 d'"
  using assms by (simp add: evidence_of_def history_def)

interpretation bank_evidence: bank_invariant "evidence_of d0" "\<lambda>_. True" for d0
proof
  fix a :: audit_args and fx d d'
  assume "audit_record a fx d = Inr d'" "evidence_of d0 d"
  then show "evidence_of d0 d'" by (auto dest!: audit_record_InrD simp: evidence_of_def history_def)
next
  fix hmac svc command tf d r d'
  assume "bank_transfer hmac svc command tf d = (r, d')" "evidence_of d0 d"
  with bank_transfer_frame [of hmac svc command tf d r d'] show "evidence_of d0 d'"
    by (auto simp: evidence_of_def)
next
  fix d d'
  assume "mfa_frame d d'" "evidence_of d0 d"
  with evidence_same [of d0 d d'] show "evidence_of d0 d'" by (simp add: mfa_frame_tables)
qed (auto dest!: insert_outbox_InrD insert_customer_InrD insert_user_InrD [THEN conjunct1] insert_account_InrD insert_balance_InrD
    simp: set_kyc_def decide_applicant_def set_account_status_def Let_def evidence_of_def history_def split: if_splits)

text \<open>Who holds a role beyond that of a customer or an applicant.\<close>

definition staff_of :: "db \<Rightarrow> (uuid \<times> role) set" where
  "staff_of d = {(i, r). (i, r) \<in> set (map (\<lambda>u. (ua_user_id u, ua_role u)) (user_accounts d)) \<and>
     r \<noteq> CUSTOMER \<and> r \<noteq> PENDING_APPROVAL}"

lemma roles_erased:
  "map (\<lambda>u. (ua_user_id u, ua_role u)) us =
     map (\<lambda>u. (ua_user_id u, ua_role u)) (map (ua_mfa_enabled_update (\<lambda>_. False)) us)"
  by (induction us) auto

lemma staff_of_mfa: "mfa_frame d d' \<Longrightarrow> staff_of d' = staff_of d"
  unfolding staff_of_def roles_erased [of "user_accounts d"] roles_erased [of "user_accounts d'"]
  by (simp only: mfa_frame_tables)

lemma staff_of_same: "user_accounts d' = user_accounts d \<Longrightarrow> staff_of d' = staff_of d"
  by (simp add: staff_of_def)

lemma staff_of_other_tables [simp]:
  "staff_of (d\<lparr>bank_accounts := x1\<rparr>) = staff_of d" "staff_of (d\<lparr>account_balances := x2\<rparr>) = staff_of d"
  "staff_of (d\<lparr>outbox_events := x3\<rparr>) = staff_of d" "staff_of (d\<lparr>auth_rate_limits := x4\<rparr>) = staff_of d"
  "staff_of (d\<lparr>sca_challenges := x5\<rparr>) = staff_of d" "staff_of (d\<lparr>aspis_auditor_requests := x6\<rparr>) = staff_of d"
  "staff_of (d\<lparr>risk_alerts := x7\<rparr>) = staff_of d" "staff_of (d\<lparr>admin_permissions := x8\<rparr>) = staff_of d"
  "staff_of (d\<lparr>notifications := x9\<rparr>) = staff_of d" "staff_of (d\<lparr>audit_events := x10\<rparr>) = staff_of d"
  "staff_of (d\<lparr>customers := x11\<rparr>) = staff_of d"
  by (simp_all add: staff_of_def)

lemma staff_of_new_user:
  "staff_of (d\<lparr>user_accounts := user_accounts d @ [u]\<rparr>) =
     staff_of d \<union> (if ua_role u = CUSTOMER \<or> ua_role u = PENDING_APPROVAL then {} else {(ua_user_id u, ua_role u)})"
  by (auto simp: staff_of_def)

definition may_staff :: "(uuid \<times> role) set \<Rightarrow> privilege \<Rightarrow> bool" where
  "may_staff S x \<longleftrightarrow> (x = CreatesAdmin \<longrightarrow> (\<forall>i. (i, BANK_ADMIN) \<in> S)) \<and>
     (x = DecidesAuditor \<longrightarrow> (\<forall>i. (i, ASPIS_AUDITOR) \<in> S))"

lemma staff_of_decision:
  "decide_applicant dec i now d = Inr d' \<Longrightarrow> staff_of d' \<subseteq> staff_of d \<union> {(i, ASPIS_AUDITOR)}"
  by (auto simp: decide_applicant_def Let_def staff_of_def rows_update_def split: if_splits auditor_decision.splits)

interpretation bank_staff: bank_invariant "\<lambda>d. staff_of d \<subseteq> S" "may_staff S" for S
proof
  fix a :: audit_args and fx d d'
  assume "audit_record a fx d = Inr d'" "staff_of d \<subseteq> S"
  then show "staff_of d' \<subseteq> S" by (auto dest!: audit_record_InrD)
next
  fix hmac svc command tf d r d'
  assume "bank_transfer hmac svc command tf d = (r, d')" "staff_of d \<subseteq> S"
  with bank_transfer_frame [of hmac svc command tf d r d'] staff_of_same [of d' d] show "staff_of d' \<subseteq> S" by simp
next
  fix d d'
  assume "mfa_frame d d'" "staff_of d \<subseteq> S"
  then show "staff_of d' \<subseteq> S" by (simp add: staff_of_mfa)
next
  fix u d d'
  assume "insert_user u d = Inr d'" "staff_of d \<subseteq> S"
    and "ua_role u = CUSTOMER \<or> ua_role u = PENDING_APPROVAL \<or> ua_role u = BANK_ADMIN \<and> may_staff S CreatesAdmin"
  then show "staff_of d' \<subseteq> S"
    by (auto dest!: insert_user_InrD [THEN conjunct1] simp: staff_of_new_user may_staff_def)
next
  fix dec i now d d'
  assume "decide_applicant dec i now d = Inr d'" "may_staff S DecidesAuditor" "staff_of d \<subseteq> S"
  then show "staff_of d' \<subseteq> S" using staff_of_decision [of dec i now d d'] by (auto simp: may_staff_def)
qed (auto dest!: insert_outbox_InrD insert_customer_InrD insert_account_InrD insert_balance_InrD
    simp: set_kyc_def set_account_status_def Let_def split: if_splits)

text \<open>The customers whose identity is verified.\<close>

definition verified_of :: "db \<Rightarrow> uuid set" where
  "verified_of d = {i. (i, KYC_VERIFIED) \<in> set (map (\<lambda>c. (cu_customer_id c, cu_kyc_status c)) (customers d))}"

lemma verified_of_same: "customers d' = customers d \<Longrightarrow> verified_of d' = verified_of d"
  by (simp add: verified_of_def)

lemma verified_of_other_tables [simp]:
  "verified_of (d\<lparr>bank_accounts := x1\<rparr>) = verified_of d" "verified_of (d\<lparr>account_balances := x2\<rparr>) = verified_of d"
  "verified_of (d\<lparr>outbox_events := x3\<rparr>) = verified_of d" "verified_of (d\<lparr>auth_rate_limits := x4\<rparr>) = verified_of d"
  "verified_of (d\<lparr>sca_challenges := x5\<rparr>) = verified_of d" "verified_of (d\<lparr>aspis_auditor_requests := x6\<rparr>) = verified_of d"
  "verified_of (d\<lparr>risk_alerts := x7\<rparr>) = verified_of d" "verified_of (d\<lparr>admin_permissions := x8\<rparr>) = verified_of d"
  "verified_of (d\<lparr>notifications := x9\<rparr>) = verified_of d" "verified_of (d\<lparr>audit_events := x10\<rparr>) = verified_of d"
  "verified_of (d\<lparr>user_accounts := x11\<rparr>) = verified_of d"
  by (simp_all add: verified_of_def)

lemma verified_of_new_customer:
  "verified_of (d\<lparr>customers := customers d @ [c]\<rparr>) =
     verified_of d \<union> (if cu_kyc_status c = KYC_VERIFIED then {cu_customer_id c} else {})"
  by (auto simp: verified_of_def)

interpretation bank_verified: bank_invariant "\<lambda>d. verified_of d \<subseteq> V" "\<lambda>x. x \<noteq> DecidesKyc" for V
proof
  fix a :: audit_args and fx d d'
  assume "audit_record a fx d = Inr d'" "verified_of d \<subseteq> V"
  then show "verified_of d' \<subseteq> V" by (auto dest!: audit_record_InrD)
next
  fix hmac svc command tf d r d'
  assume "bank_transfer hmac svc command tf d = (r, d')" "verified_of d \<subseteq> V"
  with bank_transfer_frame [of hmac svc command tf d r d'] verified_of_same [of d' d] show "verified_of d' \<subseteq> V" by simp
next
  fix d d'
  assume "mfa_frame d d'" "verified_of d \<subseteq> V"
  with verified_of_same [of d' d] show "verified_of d' \<subseteq> V" by (simp add: mfa_frame_tables)
next
  fix d i now
  assume "verified_of d \<subseteq> V"
  then show "verified_of (set_kyc i may_submit_kyc PENDING_REVIEW now d) \<subseteq> V"
    by (auto simp: verified_of_def set_kyc_def rows_update_def split: if_splits)
qed (auto dest!: insert_outbox_InrD insert_customer_InrD [THEN conjunct1] insert_user_InrD [THEN conjunct1]
    insert_account_InrD insert_balance_InrD
    simp: decide_applicant_def set_account_status_def Let_def verified_of_new_customer split: if_splits)

text \<open>The account rows that were there, with owner, currency, overdraft permission and status.\<close>

interpretation bank_rows: bank_invariant "\<lambda>d. A \<subseteq> set (bank_accounts d)" "\<lambda>x. x \<noteq> SetsAccountStatus" for A
proof
  fix a :: audit_args and fx d d'
  assume "audit_record a fx d = Inr d'" "A \<subseteq> set (bank_accounts d)"
  then show "A \<subseteq> set (bank_accounts d')" by (auto dest!: audit_record_InrD)
next
  fix hmac svc command tf d r d'
  assume "bank_transfer hmac svc command tf d = (r, d')" "A \<subseteq> set (bank_accounts d)"
  with bank_transfer_frame [of hmac svc command tf d r d'] show "A \<subseteq> set (bank_accounts d')" by simp
next
  fix d d'
  assume "mfa_frame d d'" "A \<subseteq> set (bank_accounts d)"
  then show "A \<subseteq> set (bank_accounts d')" by (simp add: mfa_frame_tables)
qed (auto dest!: insert_outbox_InrD insert_customer_InrD insert_user_InrD [THEN conjunct1] insert_account_InrD insert_balance_InrD
    simp: decide_applicant_def set_kyc_def Let_def split: if_splits)

end
