(* ===== verification/Bank_Properties.thy ===== *)
theory Bank_Properties
  imports Bank
begin

text \<open>
  The properties of the whole bank: what no sequence of requests, deliveries and publisher steps can
  break, and who may do what.
\<close>

section \<open>What a call of a role-protected route proves about its caller\<close>

definition live_session :: "app \<Rightarrow> env \<Rightarrow> api_request \<Rightarrow> role list \<Rightarrow> db \<Rightarrow> parsed_token \<Rightarrow> bool" where
  "live_session app env req roles d token \<longleftrightarrow>
     (\<exists>raw. presented_token (rq_http req) = Inr raw \<and>
        parse_with_claims (li_jwt_header (ap_lib app)) (li_jwt_decode (ap_lib app)) (ap_auth app)
          (Pool d) raw (en_now env) = Inr token) \<and>
     (\<exists>u. row_get ua_user_id (pr_user_id (pt_principal token)) (user_accounts d) = Some u \<and>
        ua_status u = USER_ACTIVE \<and> ua_role u = pr_role (pt_principal token) \<and>
        ua_customer_id u = pr_customer_id (pt_principal token) \<and> ua_role u \<in> set roles)"

definition scope_granted :: "app \<Rightarrow> principal \<Rightarrow> string \<Rightarrow> db \<Rightarrow> bool" where
  "scope_granted app p scope d \<longleftrightarrow>
     (pr_role p = BANK_ADMIN \<longrightarrow>
        (\<exists>u \<in> set (user_accounts d). ua_user_id u = pr_user_id p \<and> is_super_admin_email (ap_settings app) (ua_email u)) \<or>
        (\<exists>g \<in> set (admin_permissions d). ap_user_id g = pr_user_id p \<and> ap_scope g = scope))"

definition recent_mfa :: "app \<Rightarrow> env \<Rightarrow> parsed_token \<Rightarrow> bool" where
  "recent_mfa app env token \<longleftrightarrow>
     (\<exists>t. pt_mfa_at token = Some t \<and> en_now env - t \<le> st_mfa_step_up_ttl (ap_settings app))"

definition privilege_roles :: "privilege \<Rightarrow> role list" where
  "privilege_roles x =
     (case x of CreatesAdmin \<Rightarrow> [BANK_ADMIN] | DecidesAuditor \<Rightarrow> [BANK_ADMIN, ASPIS_ADMIN]
      | DecidesKyc \<Rightarrow> [BANK_ADMIN] | SetsAccountStatus \<Rightarrow> [BANK_ADMIN, RISK_ANALYST])"

definition privilege_scope :: "privilege \<Rightarrow> string" where
  "privilege_scope x =
     (case x of CreatesAdmin \<Rightarrow> ''admin_users'' | DecidesAuditor \<Rightarrow> ''aspis_auditors''
      | DecidesKyc \<Rightarrow> ''customers'' | SetsAccountStatus \<Rightarrow> ''transactions'')"

definition authorised :: "app \<Rightarrow> env \<Rightarrow> api_request \<Rightarrow> privilege \<Rightarrow> db \<Rightarrow> bool" where
  "authorised app env req x d \<longleftrightarrow>
     (\<exists>token. live_session app env req (privilege_roles x) d token \<and>
        scope_granted app (pt_principal token) (privilege_scope x) d \<and>
        (x = CreatesAdmin \<or> x = DecidesAuditor \<longrightarrow> recent_mfa app env token))"

lemma parse_with_readable_pool:
  "parse_with_claims hdr dec svc (if b then Pool d else FailingPool) raw now = Inr token \<Longrightarrow>
     parse_with_claims hdr dec svc (Pool d) raw now = Inr token"
  by (cases b) (auto simp: parse_with_claims_def reject_revoked_token_def Let_def split: option.splits if_splits)

lemma current_userD:
  "current_user p d \<Longrightarrow> \<exists>u. row_get ua_user_id (pr_user_id p) (user_accounts d) = Some u \<and>
     ua_status u = USER_ACTIVE \<and> ua_role u = pr_role p \<and> ua_customer_id u = pr_customer_id p"
  by (auto simp: current_user_def split: option.splits)

lemma require_roles_InrD:
  assumes "require_roles roles app env req d = Inr token"
  shows "live_session app env req roles d token"
proof -
  from assms have auth: "authenticated_principal app env req d = Inr token"
    and role: "pr_role (pt_principal token) \<in> set roles"
    by (auto simp: require_roles_def andthen_Inr_iff split: if_splits)
  from auth obtain raw where raw: "presented_token (rq_http req) = Inr raw"
    and parsed: "parse_with_claims (li_jwt_header (ap_lib app)) (li_jwt_decode (ap_lib app)) (ap_auth app)
      (if en_pool_readable env then Pool d else FailingPool) raw (en_now env) = Inr token"
    and user: "current_user (pt_principal token) d"
    unfolding authenticated_principal_def
    by (elim andthen_InrE) (simp split: sum.splits if_split_asm)
  from raw parse_with_readable_pool [OF parsed] current_userD [OF user] role show ?thesis
    unfolding live_session_def by auto
qed

lemma require_admin_scope_InrD: "require_admin_scope app p scope d = Inr x \<Longrightarrow> scope_granted app p scope d"
  by (auto simp: require_admin_scope_def describe_admin_access_def scope_granted_def find_Some_iff
      split: if_splits option.splits)

lemma require_recent_mfa_InrD: "require_recent_mfa app env token = Inr x \<Longrightarrow> recent_mfa app env token"
  by (auto simp: require_recent_mfa_def recent_mfa_def split: option.splits if_splits)

text \<open>A protected call either stops at the principal dependency, without any effect, or has a live session.\<close>

lemma protected_call:
  assumes "api_step app env req call s = (r, s')" and "required_roles call = Some roles"
  obtains (refused) e where "r = Inl e" "s' = s"
    | (admitted) token where "require_roles roles app env req (sv_db s) = Inr token" "valid_request call"
        "session_route app env req token call s = (r, s')"
  using assms
  by (cases "require_roles roles app env req (sv_db s)"; cases "valid_request call")
    (auto simp: api_step_def run_then_def reading_def)

lemma scoped_cases:
  assumes "scoped app p scope m s = (r, s')"
  obtains (refused) e where "r = Inl e" "s' = s"
    | (admitted) "scope_granted app p scope (sv_db s)" "m s = (r, s')"
  using assms
  by (cases "require_admin_scope app p scope (sv_db s)")
    (auto simp: scoped_def run_then_def reading_def dest: require_admin_scope_InrD)

lemma stepped_up_cases:
  assumes "run_then (reading (\<lambda>_. require_recent_mfa app env token)) (\<lambda>_. m) s = (r, s')"
  obtains (refused) e where "r = Inl e" "s' = s"
    | (admitted) "recent_mfa app env token" "m s = (r, s')"
  using assms
  by (cases "require_recent_mfa app env token")
    (auto simp: run_then_def reading_def dest: require_recent_mfa_InrD)

lemma answering_cases:
  assumes "answering f m s = (r, s')"
  obtains x where "m s = (x, s')" "r = (case x of Inl e \<Rightarrow> Inl e | Inr y \<Rightarrow> Inr (f y))"
  using assms by (cases "m s") (auto simp: answering_def run_then_def returning_def split: sum.splits)

lemma privileged_call:
  assumes "api_step app env req call s = (r, s')" and "privilege_of call = Some x"
  shows "s' = s \<and> isl r \<or> authorised app env req x (sv_db s)"
proof -
  have roles: "required_roles call = Some (privilege_roles x)"
    using assms(2) by (cases call) (auto simp: privilege_of_def required_roles_def privilege_roles_def principal_roles)
  from assms(1) roles show ?thesis
  proof (cases rule: protected_call)
    case (refused e)
    then show ?thesis by simp
  next
    case (admitted token)
    let ?p = "pt_principal token" and ?scope = "privilege_scope x"
    from require_roles_InrD [OF admitted(1)] have live: "live_session app env req (privilege_roles x) (sv_db s) token" .
    have "s' = s \<and> isl r \<or> scope_granted app ?p ?scope (sv_db s) \<and>
        (x = CreatesAdmin \<or> x = DecidesAuditor \<longrightarrow> recent_mfa app env token)"
      using assms(2) admitted(3)
      by (cases call)
        (auto simp: privilege_of_def session_route_def Let_def privilege_scope_def admin_create_user_def
          decide_aspis_auditor_request_def admin_decide_kyc_def operator_set_account_status_def
          elim!: answering_cases stepped_up_cases scoped_cases split: sum.splits)
    with live show ?thesis unfolding authorised_def by blast
  qed
qed

text \<open>What the two decisions on other people's records do when they go through.\<close>

lemma in_transaction_on_db_cases:
  assumes "run_then (on_db (in_transaction body)) (\<lambda>x. returning (f x)) s = (r, s')"
  obtains "s' = s" | x where "body (sv_db s) = Inr (x, sv_db s')"
  using assms by (auto simp: run_then_def on_db_def in_transaction_def returning_def split: sum.splits)

lemma kyc_body_verified:
  assumes "kyc_body app env req p i decision event_type reason d = Inr (x, d')"
  shows "verified_of d' - verified_of d \<subseteq>
    {j. j = i \<and> (j, PENDING_REVIEW) \<in> set (map (\<lambda>c. (cu_customer_id c, cu_kyc_status c)) (customers d))}"
proof -
  from assms have d': "verified_of d' = verified_of (set_kyc i (\<lambda>c. cu_kyc_status c = PENDING_REVIEW) decision (en_db_now env) d)"
    and pending: "list_ex (\<lambda>c. cu_customer_id c = i \<and> cu_kyc_status c = PENDING_REVIEW) (customers d)"
    by (auto simp: kyc_body_def update_kyc_def elim!: andthen_InrE split: if_splits
        dest!: insert_outbox_InrD audit_record_InrD)
  have "verified_of d' \<subseteq> verified_of d \<union> {i}"
    unfolding d' by (auto simp: verified_of_def set_kyc_def rows_update_def split: if_splits)
  moreover from pending have "(i, PENDING_REVIEW) \<in> set (map (\<lambda>c. (cu_customer_id c, cu_kyc_status c)) (customers d))"
    by (auto simp: list_ex_iff)
  ultimately show ?thesis by blast
qed

lemma kyc_call:
  assumes "api_step app env req (AdminDecideKyc i decision reason) s = (r, s')"
  shows "verified_of (sv_db s') - verified_of (sv_db s) \<subseteq>
    {j. j = i \<and> (j, PENDING_REVIEW) \<in> set (map (\<lambda>c. (cu_customer_id c, cu_kyc_status c)) (customers (sv_db s)))}"
proof -
  have roles: "required_roles (AdminDecideKyc i decision reason) = Some AdminPrincipal"
    by (simp add: required_roles_def)
  from assms roles show ?thesis
  proof (cases rule: protected_call)
    case (admitted token)
    then obtain x where "admin_decide_kyc app env req (pt_principal token) i decision reason s = (x, s')"
      by (auto simp: session_route_def Let_def elim!: answering_cases)
    then show ?thesis unfolding admin_decide_kyc_def
    proof (cases rule: scoped_cases)
      case admitted
      then show ?thesis
        by (auto split: option.splits prod.splits elim!: in_transaction_on_db_cases dest!: kyc_body_verified)
    qed simp
  qed simp
qed

lemma account_status_body_rows:
  assumes "account_status_body app env req p i status reason d = Inr (x, d')"
  shows "set (bank_accounts d) - set (bank_accounts d') \<subseteq>
    {a. ba_account_id a = i \<and> ba_account_type a = CURRENT \<and> ba_status a \<noteq> ACCOUNT_CLOSED}"
proof -
  from assms obtain d1 where d1: "set_account_status i status d = Inr d1" and same: "bank_accounts d' = bank_accounts d1"
    by (auto simp: account_status_body_def Let_def elim!: andthen_InrE dest!: insert_outbox_InrD audit_record_InrD)
  from d1 show ?thesis unfolding same
    by (auto simp: set_account_status_def Let_def rows_update_def split: if_splits)
qed

lemma status_call:
  assumes "api_step app env req (SetAccountStatus i status reason) s = (r, s')"
  shows "set (bank_accounts (sv_db s)) - set (bank_accounts (sv_db s')) \<subseteq>
    {a. ba_account_id a = i \<and> ba_account_type a = CURRENT \<and> ba_status a \<noteq> ACCOUNT_CLOSED}"
proof -
  have roles: "required_roles (SetAccountStatus i status reason) = Some OperatorPrincipal"
    by (simp add: required_roles_def)
  from assms roles show ?thesis
  proof (cases rule: protected_call)
    case (admitted token)
    then obtain x where "operator_set_account_status app env req (pt_principal token) i status reason s = (x, s')"
      by (auto simp: session_route_def Let_def elim!: answering_cases)
    then show ?thesis unfolding operator_set_account_status_def
    proof (cases rule: scoped_cases)
      case admitted
      then show ?thesis
        by (auto split: option.splits elim!: in_transaction_on_db_cases dest!: account_status_body_rows)
    qed simp
  qed simp
qed

section \<open>What no run can break\<close>

lemma all_granted: "list_all (granted (\<lambda>_. True)) evs"
  by (simp add: granted_def list_all_iff)

definition demo_libraries :: libraries where
  "demo_libraries = \<lparr>li_sha256_hex = (\<lambda>k. take 64 (k @ replicate 64 CHR ''0'')), li_hmac = demo_hmac,
     li_bcrypt_hash = (\<lambda>salt password. salt @ password), li_bcrypt_check = (\<lambda>h password. Some (h = password)),
     li_dummy_hash = ''dummy'', li_jwt_encode = (\<lambda>_ _ typ. typ), li_jwt_header = (\<lambda>t. Some (''HS256'', t)),
     li_jwt_decode = demo_decode, li_mfa = demo_library\<rparr>"

definition demo_app :: app where
  "demo_app = \<lparr>ap_settings = \<lparr>st_trusted_proxy_cidrs = [], st_super_admin_email = None, st_secure_cookies = True,
       st_jwt_ttl = seconds 900, st_mfa_step_up_ttl = seconds 300\<rparr>,
     ap_auth = demo_auth, ap_claims = demo_auth, ap_mfa = demo_mfa_service, ap_sca = demo_sca, ap_lib = demo_libraries\<rparr>"

definition demo_server :: "db \<Rightarrow> server" where
  "demo_server d = \<lparr>sv_db = d, sv_ip_limiter = db_limiter_new 30 (seconds 900),
     sv_account_limiter = db_limiter_new 10 (seconds 900)\<rparr>"

definition demo_request_env :: env where
  "demo_request_env = \<lparr>en_uuid = (\<lambda>n. 900 + of_nat n), en_audit = (\<lambda>n. \<lparr>af_request = 0, af_event = 950 + of_nat n, af_now = 9\<rparr>),
     en_now = seconds 30, en_db_now = seconds 30, en_salt = ''s'', en_csrf = ''csrf'', en_jti = 980,
     en_transfer = demo_fresh 990 9, en_sca = demo_sca_fresh, en_mfa = demo_mfa_fresh 9, en_pool_readable = True\<rparr>"

definition demo_api_request :: api_request where
  "demo_api_request = \<lparr>rq_http = \<lparr>rq_client_host = Some ''192.0.2.1'', rq_method = ''POST'', rq_scheme = ''https'',
     rq_path = ''/v1'', rq_headers = [(''authorization'', ''Bearer JWT'')], rq_cookies = []\<rparr>, rq_query = [], rq_request_id = 970\<rparr>"

text \<open>C4. Whatever requests, worker deliveries and publisher steps run, in any order and with any
  outcome, from a bank in order: every balance stays the sum of its entries, no account without
  overdraft permission becomes negative, and all balances together stay zero.\<close>

theorem bank_stays_in_order:
  assumes "ledger_inv (sv_db s)" and "d = sv_db (fold (bank_step app) evs s)"
  shows "(\<forall>b \<in> set (account_balances d). \<exists>a. row_get ba_account_id (ab_account_id b) (bank_accounts d) = Some a \<and>
      (ba_allow_negative a \<or> 0 \<le> ab_available_balance_minor b \<and> 0 \<le> ab_current_balance_minor b) \<and>
      ab_current_balance_minor b = account_sum (ab_account_id b) d) \<and>
    sum_list (map ab_current_balance_minor (account_balances d)) = 0"
proof -
  have inv: "ledger_inv d" unfolding assms(2) by (rule bank_ledger.bank_run_keeps [OF all_granted assms(1)])
  then show ?thesis using sum_of_balances_zero [OF inv]
    by (auto simp: ledger_inv_def balances_ok_def balance_ok_alt)
qed

theorem bank_stays_in_order_witness:
  "sum_list (map ab_current_balance_minor (account_balances (sv_db (fold (bank_step demo_app)
     [Request demo_request_env demo_api_request (OpenAccount ''GBP''), RecoverClaims 9,
      RiskDelivery 10 (demo_delivery 800) demo_message] (demo_server demo_paid))))) = 0"
  by (rule bank_stays_in_order [THEN conjunct2, OF _ refl]) (simp add: demo_server_def demo_paid_inv)

text \<open>C6. The evidence is append-only: along every run of the bank, each ledger entry, each audit row
  and each transaction (apart from its status) stays, unchanged and in its place.\<close>

theorem evidence_is_append_only:
  "(\<exists>zs. ledger_entries (sv_db (fold (bank_step app) evs s)) = ledger_entries (sv_db s) @ zs) \<and>
   (\<exists>zs. audit_events (sv_db (fold (bank_step app) evs s)) = audit_events (sv_db s) @ zs) \<and>
   (\<exists>zs. history (sv_db (fold (bank_step app) evs s)) = history (sv_db s) @ zs)"
  using bank_evidence.bank_run_keeps [where ?d0.0 = "sv_db s" and s = s, OF all_granted] by (simp add: evidence_of_def)

section \<open>Who may do what\<close>

text \<open>C9. Without a live session nothing happens: a call of a protected route stops with an error and
  changes nothing, not even a counter, unless the presented token was accepted, is not revoked, and
  belongs to a user who is active and still has the token's role and customer, a role of the route.\<close>

theorem protected_routes_need_a_session:
  "case required_roles call of
     None \<Rightarrow> True
   | Some roles \<Rightarrow> (\<exists>e. api_step app env req call s = (Inl e, s)) \<or>
       (\<exists>token. live_session app env req roles (sv_db s) token)"
proof (cases "required_roles call")
  case (Some roles)
  obtain r s' where run: "api_step app env req call s = (r, s')" by fastforce
  from run Some show ?thesis
    by (cases rule: protected_call) (use run Some in \<open>auto dest: require_roles_InrD\<close>)
qed simp

text \<open>C7. No escalation: a user gains a role beyond customer and applicant only as a new bank
  administrator created, or as an Aspis auditor decided on, by an administrator who is authorised for
  it: a live session of the role, the scope, and a recent second factor.\<close>

theorem staff_roles_are_granted:
  "staff_of (sv_db (bank_step app ev s)) - staff_of (sv_db s) \<subseteq>
     {(i, r). \<exists>env req.
        r = BANK_ADMIN \<and> (\<exists>ui. ev = Request env req (AdminCreateUser ui)) \<and>
          authorised app env req CreatesAdmin (sv_db s) \<or>
        r = ASPIS_AUDITOR \<and> (\<exists>q dec reason. ev = Request env req (DecideAuditorRequest q dec reason)) \<and>
          authorised app env req DecidesAuditor (sv_db s)}" (is "_ \<subseteq> ?ok")
proof (cases "event_privilege ev = Some CreatesAdmin \<or> event_privilege ev = Some DecidesAuditor")
  case False
  then have "granted (may_staff (staff_of (sv_db s))) ev" by (auto simp: granted_def may_staff_def)
  from bank_staff.bank_step_keeps [OF this subset_refl] show ?thesis by blast
next
  case True
  then obtain env req call x where ev: "ev = Request env req call" and x: "privilege_of call = Some x"
    and two: "x = CreatesAdmin \<or> x = DecidesAuditor"
    by (auto simp: event_privilege_def split: bank_event.splits)
  obtain r s' where run: "api_step app env req call s = (r, s')" by fastforce
  then have step: "bank_step app ev s = s'" by (simp add: bank_step_def ev)
  from privileged_call [OF run x] consider "s' = s" | (auth) "authorised app env req x (sv_db s)" by blast
  then show ?thesis
  proof cases
    case 1
    with step show ?thesis by simp
  next
    case auth
    let ?new = "if x = CreatesAdmin then BANK_ADMIN else ASPIS_AUDITOR"
    have "granted (may_staff (staff_of (sv_db s) \<union> UNIV \<times> {?new})) ev"
      using two x by (auto simp: granted_def may_staff_def event_privilege_def ev)
    from bank_staff.bank_step_keeps [OF this] step
    have "staff_of (sv_db s') \<subseteq> staff_of (sv_db s) \<union> UNIV \<times> {?new}" by blast
    moreover have "(i, ?new) \<in> ?ok" for i
      using two x auth ev by (cases call) (auto simp: privilege_of_def)
    ultimately show ?thesis unfolding step by blast
  qed
qed

text \<open>C8. Nobody verifies themselves: a customer becomes KYC-verified only while pending review, by the
  decision of an administrator on that customer who is authorised for it. No registration, KYC
  submission, transfer or worker does it.\<close>

theorem customers_are_verified_by_administrators:
  "verified_of (sv_db (bank_step app ev s)) - verified_of (sv_db s) \<subseteq>
     {i. (\<exists>env req decision reason. ev = Request env req (AdminDecideKyc i decision reason) \<and>
            authorised app env req DecidesKyc (sv_db s)) \<and>
         (i, PENDING_REVIEW) \<in> set (map (\<lambda>c. (cu_customer_id c, cu_kyc_status c)) (customers (sv_db s)))}"
proof (cases "event_privilege ev = Some DecidesKyc")
  case False
  then have "granted (\<lambda>x. x \<noteq> DecidesKyc) ev" by (auto simp: granted_def)
  from bank_verified.bank_step_keeps [OF this subset_refl] show ?thesis by blast
next
  case True
  then obtain env req i decision reason where ev: "ev = Request env req (AdminDecideKyc i decision reason)"
    by (auto simp: event_privilege_def privilege_of_def split: bank_event.splits api_call.splits)
  obtain r s' where run: "api_step app env req (AdminDecideKyc i decision reason) s = (r, s')" by fastforce
  then have step: "bank_step app ev s = s'" by (simp add: bank_step_def ev)
  from privileged_call [OF run, of DecidesKyc]
  consider "s' = s" | (auth) "authorised app env req DecidesKyc (sv_db s)" by (auto simp: privilege_of_def)
  then show ?thesis
  proof cases
    case 1
    with step show ?thesis by simp
  next
    case auth
    from kyc_call [OF run] auth show ?thesis unfolding step unfolding ev by blast
  qed
qed

text \<open>An account row never changes except through the account-status route: owner, currency, type,
  overdraft permission and status of every account stay as they are unless an operator or
  administrator, authorised for it, freezes or unfreezes this open current account.\<close>

theorem accounts_are_frozen_by_operators:
  "set (bank_accounts (sv_db s)) - set (bank_accounts (sv_db (bank_step app ev s))) \<subseteq>
     {a. (\<exists>env req status reason. ev = Request env req (SetAccountStatus (ba_account_id a) status reason) \<and>
            authorised app env req SetsAccountStatus (sv_db s)) \<and>
         ba_account_type a = CURRENT \<and> ba_status a \<noteq> ACCOUNT_CLOSED}"
proof (cases "event_privilege ev = Some SetsAccountStatus")
  case False
  then have "granted (\<lambda>x. x \<noteq> SetsAccountStatus) ev" by (auto simp: granted_def)
  from bank_rows.bank_step_keeps [OF this subset_refl] show ?thesis by blast
next
  case True
  then obtain env req i status reason where ev: "ev = Request env req (SetAccountStatus i status reason)"
    by (auto simp: event_privilege_def privilege_of_def split: bank_event.splits api_call.splits)
  obtain r s' where run: "api_step app env req (SetAccountStatus i status reason) s = (r, s')" by fastforce
  then have step: "bank_step app ev s = s'" by (simp add: bank_step_def ev)
  from privileged_call [OF run, of SetsAccountStatus]
  consider "s' = s" | (auth) "authorised app env req SetsAccountStatus (sv_db s)" by (auto simp: privilege_of_def)
  then show ?thesis
  proof cases
    case 1
    with step show ?thesis by simp
  next
    case auth
    from status_call [OF run] auth show ?thesis unfolding step unfolding ev by blast
  qed
qed

end
