(* ===== verification/Api_Properties.thy ===== *)
theory Api_Properties
  imports Bank_Properties
begin

text \<open>
  The contracts of single handlers of \<open>bantam/api.py\<close>: registration, login, the second factor,
  opening an account, and what a customer gets to see.
\<close>

section \<open>Rate limits touch nothing else\<close>

interpretation counted: limit_invariant "\<lambda>d. \<exists>ls. d = d0\<lparr>auth_rate_limits := ls\<rparr>" for d0
  by unfold_locales auto

lemma enforce_limits:
  assumes "enforce_auth_rate_limit app env req purpose ident s = (r, s')"
  obtains ls where "sv_db s' = (sv_db s)\<lparr>auth_rate_limits := ls\<rparr>"
proof -
  have "sv_db s = (sv_db s)\<lparr>auth_rate_limits := auth_rate_limits (sv_db s)\<rparr>" by simp
  then have "\<exists>ls. sv_db s = (sv_db s)\<lparr>auth_rate_limits := ls\<rparr>" by blast
  with counted.keeps_rate_limit assms have "\<exists>ls. sv_db s' = (sv_db s)\<lparr>auth_rate_limits := ls\<rparr>"
    by (rule preservesD)
  with that show ?thesis by blast
qed

text \<open>Two servers with the same counters and limiters answer a rate-limit check alike.\<close>

definition same_limits :: "server \<Rightarrow> server \<Rightarrow> bool" where
  "same_limits s1 s2 \<longleftrightarrow> auth_rate_limits (sv_db s1) = auth_rate_limits (sv_db s2) \<and>
     sv_ip_limiter s1 = sv_ip_limiter s2 \<and> sv_account_limiter s1 = sv_account_limiter s2"

lemma upsert_attempt_same:
  assumes "auth_rate_limits d1 = auth_rate_limits d2"
  shows "map_sum id (\<lambda>(row, d). (row, auth_rate_limits d)) (upsert_attempt w k now d1) =
    map_sum id (\<lambda>(row, d). (row, auth_rate_limits d)) (upsert_attempt w k now d2)"
  using assms by (simp add: upsert_attempt_def Let_def split: option.splits)

lemma limiter_check_same:
  assumes "auth_rate_limits d1 = auth_rate_limits d2"
  shows "map_prod id (map_prod id auth_rate_limits) (db_limiter_check h key now (l, d1)) =
    map_prod id (map_prod id auth_rate_limits) (db_limiter_check h key now (l, d2))"
  using upsert_attempt_same [OF assms, of "dl_window_seconds l" "h key" now] assms
  by (cases "upsert_attempt (dl_window_seconds l) (h key) now d1";
      cases "upsert_attempt (dl_window_seconds l) (h key) now d2")
    (auto simp: db_limiter_check_def purge_limits_def Let_def split: prod.splits)

lemma ip_check_same:
  assumes "same_limits s1 s2" and "ip_limit_check app env key s1 = (r1, t1)" and "ip_limit_check app env key s2 = (r2, t2)"
  shows "r1 = r2 \<and> same_limits t1 t2"
  using assms limiter_check_same [of "sv_db s1" "sv_db s2" "li_sha256_hex (ap_lib app)" key "en_db_now env" "sv_ip_limiter s1"]
  by (auto simp: ip_limit_check_def same_limits_def split: prod.splits)

lemma account_check_same:
  assumes "same_limits s1 s2" and "account_limit_check app env key s1 = (r1, t1)"
    and "account_limit_check app env key s2 = (r2, t2)"
  shows "r1 = r2 \<and> same_limits t1 t2"
  using assms limiter_check_same [of "sv_db s1" "sv_db s2" "li_sha256_hex (ap_lib app)" key "en_db_now env"
      "sv_account_limiter s1"]
  by (auto simp: account_limit_check_def same_limits_def split: prod.splits)

lemma run_then_same:
  assumes "\<And>r1 r2 t1 t2. m s1 = (r1, t1) \<Longrightarrow> m s2 = (r2, t2) \<Longrightarrow> r1 = r2 \<and> Q t1 t2"
    and "\<And>x t1 t2. Q t1 t2 \<Longrightarrow> fst (f x t1) = fst (f x t2)"
  shows "fst (run_then m f s1) = fst (run_then m f s2)"
  using assms by (cases "m s1"; cases "m s2") (fastforce simp: run_then_def split: sum.splits)

lemma enforce_same:
  assumes "same_limits s1 s2"
  shows "fst (enforce_auth_rate_limit app env req purpose ident s1) =
    fst (enforce_auth_rate_limit app env req purpose ident s2)"
  unfolding enforce_auth_rate_limit_def Let_def
proof (rule run_then_same [where Q = same_limits], erule (1) ip_check_same [OF assms])
  fix by_ip and t1 t2 :: server
  assume same: "same_limits t1 t2"
  show "fst (run_then (account_limit_check app env (purpose @ '':account:'' @ py_casefold ident))
      (\<lambda>by_account. case find (\<lambda>r. \<not> rl_allowed r) [by_ip, by_account] of
          None \<Rightarrow> returning ()
        | Some blocked \<Rightarrow> raising (bantam ''RATE_LIMITED''
            (''too many attempts; retry after '' @ int_str (rl_retry_after_seconds blocked) @ '' seconds'') 429)) t1) =
    fst (run_then (account_limit_check app env (purpose @ '':account:'' @ py_casefold ident))
      (\<lambda>by_account. case find (\<lambda>r. \<not> rl_allowed r) [by_ip, by_account] of
          None \<Rightarrow> returning ()
        | Some blocked \<Rightarrow> raising (bantam ''RATE_LIMITED''
            (''too many attempts; retry after '' @ int_str (rl_retry_after_seconds blocked) @ '' seconds'') 429)) t2)"
  proof (rule run_then_same [where Q = "\<lambda>_ _. True"])
    fix r1 r2 and u1 u2 :: server
    assume "account_limit_check app env (purpose @ '':account:'' @ py_casefold ident) t1 = (r1, u1)"
      "account_limit_check app env (purpose @ '':account:'' @ py_casefold ident) t2 = (r2, u2)"
    with account_check_same [OF same] show "r1 = r2 \<and> True" by blast
  qed (simp add: returning_def raising_def split: option.splits)
qed

section \<open>Registration\<close>

lemma register_body_error:
  assumes "register_body app env req name dob email phone h d = Inl e"
    and "parse_ip (client_ip (rq_http req) (st_trusted_proxy_cidrs (ap_settings app))) \<noteq> None"
  obtains k where "e = UniqueViolation k"
proof -
  have audit: "\<exists>k. e = UniqueViolation k"
    if "audit_record (request_audit app req actor_id action kind rid metadata) fx d = Inl e" for actor_id action kind rid metadata fx d
    using that assms(2) by (auto simp: audit_record_def request_audit_def Let_def split: option.splits if_splits)
  have "\<exists>k. e = UniqueViolation k"
    using assms(1) unfolding register_body_def Let_def
    by (auto simp: andthen_Inl_iff insert_customer_def insert_user_def insert_outbox_def new_user_def new_customer_def known_append
        known_Cons split: if_splits dest: audit)
  with that show ?thesis by blast
qed

text \<open>C12. Registration does not reveal who is registered: whatever customers and users two databases
  hold, the answer is the same, an error included, as long as the rate-limit counters agree. A taken
  e-mail address is answered exactly like a new one.\<close>

theorem registration_is_oblivious:
  assumes "same_limits s1 s2"
    and "parse_ip (client_ip (rq_http req) (st_trusted_proxy_cidrs (ap_settings app))) \<noteq> None"
  shows "fst (register app env req input s1) = fst (register app env req input s2)"
proof -
  have "fst (unless_duplicate (on_db (in_transaction (register_body app env req name dob email phone h))) s) = Inr ()"
    for name dob email phone h s
    by (cases "register_body app env req name dob email phone h (sv_db s)")
      (auto simp: unless_duplicate_def handling_def on_db_def returning_def elim!: register_body_error [OF _ assms(2)])
  then have accepted: "fst (run_then (unless_duplicate (on_db (in_transaction (register_body app env req name dob email phone h))))
      (\<lambda>_. returning CUSTOMER_ACCEPTED) s) = Inr CUSTOMER_ACCEPTED" for name dob email phone h s
    by (metis fst_conv prod.collapse returning_def run_then_Inr)
  show ?thesis
    unfolding register_def Let_def
    by (rule run_then_same [where Q = "\<lambda>_ _. True"])
      (use enforce_same [OF assms(1)] in \<open>auto simp: raising_def run_then_def [of "reading _"] reading_def accepted
          split: option.splits sum.splits, (metis fst_conv)?\<close>)
qed

definition demo_registration :: register_input where
  "demo_registration = \<lparr>ri_legal_name = ''Bob Example'', ri_date_of_birth = ''1990-05-17'',
     ri_email = ''bob@example.com'', ri_phone = '''', ri_password = ''Str0ng!passphrase''\<rparr>"

theorem registration_is_oblivious_witness:
  "fst (register demo_app demo_request_env demo_api_request demo_registration (demo_server demo_db)) =
   fst (register demo_app demo_request_env demo_api_request demo_registration
     (demo_server (demo_db\<lparr>user_accounts := [demo_user 3 CUSTOMER (Some 21) ''bob@example.com'']\<rparr>)))"
proof (rule registration_is_oblivious)
  show "same_limits (demo_server demo_db)
      (demo_server (demo_db\<lparr>user_accounts := [demo_user 3 CUSTOMER (Some 21) ''bob@example.com'']\<rparr>))"
    by (simp add: same_limits_def demo_server_def)
  show "parse_ip (client_ip (rq_http demo_api_request) (st_trusted_proxy_cidrs (ap_settings demo_app))) \<noteq> None"
    by code_simp
qed

section \<open>Password logins\<close>

lemma begin_login_None:
  assumes "begin_login lib svc fx u d = (Inr None, d')"
  shows "d' = d \<and> \<not> role_requires_mfa (ua_role u) \<and> factor_methods svc d (ua_user_id u) = Inr []"
  using assms
  by (auto simp: begin_login_def new_choice_transaction_def run_then_def returning_def raising_def Let_def
      split: sum.splits if_splits prod.splits)

lemma factor_methods_limits: "factor_methods svc (d\<lparr>auth_rate_limits := ls\<rparr>) u = factor_methods svc d u"
  by (simp add: factor_methods_def)

lemma issue_session_role: "issue_session app env p ms t = Inr x \<Longrightarrow> sn_role x = pr_role p"
  by (auto simp: issue_session_def andthen_Inr_iff)

lemma login_user_started:
  assumes "login_user app env req u s = (Inr (SessionStarted session), s')"
  shows "\<not> role_requires_mfa (ua_role u) \<and> factor_methods (ap_mfa app) (sv_db s) (ua_user_id u) = Inr [] \<and>
    sn_role session = ua_role u"
  using assms unfolding login_user_def Let_def
  by (auto simp: run_then_Inr_iff on_db_iff split: option.splits
      dest!: begin_login_None issue_session_role [OF sym])

text \<open>What a user must be for the password alone to start a session.\<close>

definition password_login :: "app \<Rightarrow> credentials_input \<Rightarrow> db \<Rightarrow> user_row \<Rightarrow> bool" where
  "password_login app input d u \<longleftrightarrow>
     row_get ua_email (py_lower (py_strip (ci_email input))) (user_accounts d) = Some u \<and>
     ua_status u = USER_ACTIVE \<and>
     check_password (li_bcrypt_check (ap_lib app))
       (password_hash_for_check (li_dummy_hash (ap_lib app)) (Some (ua_password_hash u))) (ci_password input) \<and>
     ua_role u \<noteq> PENDING_APPROVAL \<and> \<not> role_requires_mfa (ua_role u) \<and>
     factor_methods (ap_mfa app) d (ua_user_id u) = Inr []"

text \<open>A password alone starts a session only for an active user with that e-mail address and that
  password, of a role that needs no second factor and with no second factor enrolled; the session
  has the user's role.\<close>

theorem password_sessions:
  "case login app env req input s of
     (Inr (SessionStarted session), s') \<Rightarrow>
       \<exists>u. password_login app input (sv_db s) u \<and> sn_role session = ua_role u
   | _ \<Rightarrow> True"
proof -
  have "\<exists>u. password_login app input (sv_db s) u \<and> sn_role session = ua_role u"
    if run: "login app env req input s = (Inr (SessionStarted session), s')" for session s'
  proof -
    from run obtain t u where limited:
        "enforce_auth_rate_limit app env req ''login'' (py_lower (py_strip (ci_email input))) s = (Inr (), t)"
      and u: "row_get ua_email (py_lower (py_strip (ci_email input))) (user_accounts (sv_db t)) = Some u"
        "ua_status u = USER_ACTIVE" "ua_role u \<noteq> PENDING_APPROVAL"
        "check_password (li_bcrypt_check (ap_lib app))
          (password_hash_for_check (li_dummy_hash (ap_lib app)) (Some (ua_password_hash u))) (ci_password input)"
      and started: "login_user app env req u t = (Inr (SessionStarted session), s')"
      unfolding login_def Let_def by (auto simp: run_then_Inr_iff split: option.splits if_splits)
    from limited obtain ls where t: "sv_db t = (sv_db s)\<lparr>auth_rate_limits := ls\<rparr>" by (rule enforce_limits)
    from u login_user_started [OF started] show ?thesis
      by (auto simp: password_login_def t factor_methods_limits)
  qed
  then show ?thesis by (auto split: prod.splits sum.splits login_answer.splits)
qed

section \<open>Passkeys\<close>

lemma passkey_completion_method:
  assumes "complete_passkey lib svc fx tid credential d = (Inr c, d')"
  shows "mc_method c = PASSKEY"
  using assms
  by (auto simp: complete_passkey_def raise_after_commit_def in_transaction_def passkey_body_def complete_checked_def
      consume_mfa_def andthen_Inr_iff Let_def split: option.splits sum.splits prod.splits failure.splits if_splits)

text \<open>C13. No login with a passkey ever gets its session: the second factor is completed and its method
  goes into the session under a name of its own, which the token service refuses.\<close>

theorem passkey_logins_get_no_session:
  "isl (fst (complete_passkey_mfa app env req tid credential s))"
proof -
  have "isl (fst (finish_mfa_session app env req c t))" if "mc_method c = PASSKEY" for c t
    using that
    by (auto simp: finish_mfa_session_def Let_def method_text_def run_then_def reading_def issue_session_def issue_def
        valid_auth_methods_def split: sum.splits prod.splits)
  then show ?thesis
    by (auto simp: complete_passkey_mfa_def run_then_def on_db_def split: sum.splits prod.splits
        dest!: passkey_completion_method)
qed

section \<open>Opening an account\<close>

text \<open>The bank after one new account: an empty current account, its zero balance, one event, one audit row.\<close>

definition opened_db :: "app \<Rightarrow> env \<Rightarrow> uuid \<Rightarrow> audit_row \<Rightarrow> db \<Rightarrow> db" where
  "opened_db app env customer_id row d =
     (let a = new_account app env customer_id ''GBP'' in
      d\<lparr>bank_accounts := bank_accounts d @ [a],
        account_balances := account_balances d @
          [\<lparr>ab_account_id = ba_account_id a, ab_available_balance_minor = 0, ab_current_balance_minor = 0,
            ab_currency = ''GBP'', ab_last_ledger_entry_id = None, ab_updated_at = en_db_now env\<rparr>],
        outbox_events := outbox_events d @
          [outbox_pending (en_uuid env 1) ''account'' (ba_account_id a) ''account.opened.v1''
            (JObj [(''account_id'', JStr (uuid_str (ba_account_id a))),
                   (''customer_id'', JStr (uuid_str customer_id)), (''currency'', JStr ''GBP'')]) (en_db_now env)],
        audit_events := audit_events d @ [row]\<rparr>)"

lemma open_account_body_InrD:
  assumes "open_account_body app env req p customer_id ''GBP'' d = Inr (x, d')"
  shows "\<not> known ba_account_id (en_uuid env 0) (bank_accounts d) \<and>
    (\<exists>row. d' = opened_db app env customer_id row d \<and> au_action row = ''ACCOUNT_OPENED'' \<and>
      au_actor_id row = uuid_str (pr_user_id p))"
proof -
  have id: "ba_account_id (new_account app env customer_id ''GBP'') = en_uuid env 0"
    by (simp add: new_account_def Let_def)
  from assms obtain d1 d2 d3 row where
    "insert_account (new_account app env customer_id ''GBP'') d = Inr d1"
    "insert_balance \<lparr>ab_account_id = en_uuid env 0, ab_available_balance_minor = 0, ab_current_balance_minor = 0,
       ab_currency = ''GBP'', ab_last_ledger_entry_id = None, ab_updated_at = en_db_now env\<rparr> d1 = Inr d2"
    "insert_outbox (outbox_pending (en_uuid env 1) ''account'' (en_uuid env 0) ''account.opened.v1''
        (JObj [(''account_id'', JStr (uuid_str (en_uuid env 0))), (''customer_id'', JStr (uuid_str customer_id)),
               (''currency'', JStr ''GBP'')]) (en_db_now env)) d2 = Inr d3"
    "d' = d3\<lparr>audit_events := audit_events d3 @ [row]\<rparr>"
    "au_action row = ''ACCOUNT_OPENED''" "au_actor_id row = uuid_str (pr_user_id p)"
    unfolding open_account_body_def Let_def
    by (elim andthen_InrE) (auto simp: request_audit_def dest!: audit_record_InrD)
  then show ?thesis
    by (auto simp: opened_db_def id Let_def dest!: insert_account_InrD insert_balance_InrD insert_outbox_InrD
        intro!: exI [of _ row])
qed

lemma open_account_InrD:
  assumes "open_account app env req p currency s = (Inr view, s')"
  obtains customer_id customer d' where "pr_customer_id p = Some customer_id"
    "row_get cu_customer_id customer_id (customers (sv_db s)) = Some customer"
    "cu_kyc_status customer = KYC_VERIFIED" "cu_status customer = CUSTOMER_ACTIVE"
    "view = account_view (new_account app env customer_id ''GBP'') 0"
    "open_account_body app env req p customer_id ''GBP'' (sv_db s) = Inr ((), d')" "s' = s\<lparr>sv_db := d'\<rparr>"
  using assms
  by (auto simp: open_account_def Let_def run_then_Inr_iff on_db_iff
      split: option.splits if_splits dest!: in_transaction_commit)

text \<open>C11. Opening an account either fails and changes nothing, or serves a KYC-verified, active customer:
  exactly one new empty current account in GBP with a zero balance, one pending event and one audit
  record, everything else as before.\<close>

theorem account_opening:
  "case open_account app env req p currency s of
     (Inl e, s') \<Rightarrow> s' = s
   | (Inr view, s') \<Rightarrow>
       \<exists>customer_id customer row. pr_customer_id p = Some customer_id \<and>
         row_get cu_customer_id customer_id (customers (sv_db s)) = Some customer \<and>
         cu_kyc_status customer = KYC_VERIFIED \<and> cu_status customer = CUSTOMER_ACTIVE \<and>
         \<not> known ba_account_id (aw_account_id view) (bank_accounts (sv_db s)) \<and>
         view = account_view (new_account app env customer_id ''GBP'') 0 \<and>
         s' = s\<lparr>sv_db := opened_db app env customer_id row (sv_db s)\<rparr> \<and>
         au_action row = ''ACCOUNT_OPENED'' \<and> au_actor_id row = uuid_str (pr_user_id p)"
proof (cases "open_account app env req p currency s")
  case (Pair r s')
  show ?thesis
  proof (cases r)
    case (Inl e)
    with Pair have "s' = s"
      by (auto simp: open_account_def Let_def run_then_def on_db_def in_transaction_def raising_def returning_def asking_def
          split: option.splits if_splits sum.splits)
    with Pair Inl show ?thesis by simp
  next
    case (Inr view)
    with Pair have run: "open_account app env req p currency s = (Inr view, s')" by simp
    show ?thesis unfolding run
      by (rule open_account_InrD [OF run])
        (auto dest!: open_account_body_InrD simp: account_view_def new_account_def Let_def)
  qed
qed

section \<open>What a customer sees\<close>















end
