(* ===== verification/Url.thy ===== *)
theory Url
  imports Net Domain
begin

text \<open>
  The part of the standard library that reads operator input: \<open>urllib.parse.urlsplit\<close> with the
  properties of its result, \<open>urllib.parse.parse_qs\<close>, \<open>base64.b64decode\<close> with
  \<open>validate=True\<close> and \<open>repr\<close> of a string, as \<open>bantam/config.py\<close> and
  \<open>bantam/repository_graph.py\<close> use them. A \<open>ValueError\<close> is an \<open>Inl\<close> with its
  message. Nothing here is mapped to lines of the repository.
\<close>

section \<open>Splitting\<close>

fun py_partition :: "char \<Rightarrow> string \<Rightarrow> string \<times> bool \<times> string" where
  "py_partition sep [] = ([], False, [])"
| "py_partition sep (c # cs) =
     (if c = sep then ([], True, cs)
      else (case py_partition sep cs of (a, found, b) \<Rightarrow> (c # a, found, b)))"

definition py_rpartition :: "char \<Rightarrow> string \<Rightarrow> string \<times> bool \<times> string" where
  "py_rpartition sep s =
     (case py_partition sep (rev s) of
        (b, True, a) \<Rightarrow> (rev a, True, rev b)
      | (_, False, _) \<Rightarrow> ([], False, s))"

definition py_endswith :: "string \<Rightarrow> string \<Rightarrow> bool" where
  "py_endswith s p \<longleftrightarrow> py_startswith (rev s) (rev p)"

definition py_strip_chars :: "(char \<Rightarrow> bool) \<Rightarrow> string \<Rightarrow> string" where
  "py_strip_chars P s = rev (dropWhile P (rev (dropWhile P s)))"

definition py_replace_char :: "char \<Rightarrow> char \<Rightarrow> string \<Rightarrow> string" where
  "py_replace_char a b s = map (\<lambda>c. if c = a then b else c) s"

definition is_alpha :: "char \<Rightarrow> bool" where
  "is_alpha c \<longleftrightarrow> is_lower c \<or> is_upper c"

definition is_control :: "char \<Rightarrow> bool" where
  "is_control c \<longleftrightarrow> ord c < 32 \<or> ord c = 127"

section \<open>Paths\<close>

text \<open>\<open>PurePosixPath(s).parts\<close> of a relative path.\<close>

definition path_parts :: "string \<Rightarrow> string list" where
  "path_parts s = filter (\<lambda>p. p \<noteq> [] \<and> p \<noteq> ''.'') (py_split (CHR ''/'') s)"

definition path_name :: "string \<Rightarrow> string" where
  "path_name path = (case rev (path_parts path) of [] \<Rightarrow> [] | p # _ \<Rightarrow> p)"

text \<open>\<open>suffix\<close>: from the last dot, unless it is the first or the last character of the name.\<close>

definition path_suffix :: "string \<Rightarrow> string" where
  "path_suffix path =
     (case py_rpartition (CHR ''.'') (path_name path) of
        (stem, True, ext) \<Rightarrow> if stem = [] \<or> ext = [] then [] else CHR ''.'' # ext
      | _ \<Rightarrow> [])"

section \<open>URLs\<close>

record url =
  url_scheme :: string
  url_netloc :: string
  url_path :: string
  url_query :: string
  url_fragment :: string

definition hex_digits_dot :: "string \<Rightarrow> bool" where
  "hex_digits_dot s =
     (case py_partition (CHR ''.'') s of
        (digits, True, rest) \<Rightarrow> digits \<noteq> [] \<and> list_all is_hex digits \<and> rest \<noteq> [] \<and>
          CHR 0x0A \<notin> set rest
      | _ \<Rightarrow> False)"

definition bracketed_host_problem :: "string \<Rightarrow> string option" where
  "bracketed_host_problem hostname =
     (if py_startswith hostname ''v'' then
        (if hex_digits_dot (tl hostname) then None else Some ''IPvFuture address is invalid'')
      else case parse_ip hostname of
        None \<Rightarrow> Some (hostname @ '' does not appear to be an IPv4 or IPv6 address'')
      | Some (V4 _) \<Rightarrow> Some ''An IPv4 address cannot be in brackets''
      | Some (V6 _ _) \<Rightarrow> None)"

definition netloc_problem :: "string \<Rightarrow> string option" where
  "netloc_problem netloc =
     (let opened = CHR ''['' \<in> set netloc; closed = CHR '']'' \<in> set netloc in
      if opened \<noteq> closed then Some ''Invalid IPv6 URL''
      else if \<not> opened then None
      else
        let (_, _, hostinfo) = py_rpartition (CHR ''@'') netloc in
        case py_partition (CHR ''['') hostinfo of
          (before, True, bracketed) \<Rightarrow>
            let (hostname, _, port) = py_partition (CHR '']'') bracketed in
            if before \<noteq> [] \<or> port \<noteq> [] \<and> \<not> py_startswith port '':'' then Some ''Invalid IPv6 URL''
            else bracketed_host_problem hostname
        | (_, False, _) \<Rightarrow>
            let (hostname, _, _) = py_partition (CHR '':'') hostinfo in bracketed_host_problem hostname)"

definition scheme_char :: "char \<Rightarrow> bool" where
  "scheme_char c \<longleftrightarrow> is_alnum c \<or> c \<in> set ''+-.''"

definition split_scheme :: "string \<Rightarrow> string \<times> string" where
  "split_scheme u =
     (case py_partition (CHR '':'') u of
        (s, True, rest) \<Rightarrow>
          if s \<noteq> [] \<and> is_alpha (hd s) \<and> list_all scheme_char s then (py_lower s, rest) else ([], u)
      | _ \<Rightarrow> ([], u))"

definition split_netloc :: "string \<Rightarrow> string \<times> string" where
  "split_netloc u =
     (if py_startswith u ''//''
      then (takeWhile (\<lambda>c. c \<notin> set ''/?#'') (drop 2 u), dropWhile (\<lambda>c. c \<notin> set ''/?#'') (drop 2 u))
      else ([], u))"

definition urlsplit :: "string \<Rightarrow> string + url" where
  "urlsplit raw =
     (let clean = filter (\<lambda>c. ord c \<notin> {9, 10, 13}) (dropWhile (\<lambda>c. ord c \<le> 32) raw);
          (scheme, rest) = split_scheme clean;
          (netloc, rest) = split_netloc rest in
      case netloc_problem netloc of
        Some problem \<Rightarrow> Inl problem
      | None \<Rightarrow>
          let (rest, _, fragment) = py_partition (CHR ''#'') rest;
              (path, _, query) = py_partition (CHR ''?'') rest in
          Inr \<lparr>url_scheme = scheme, url_netloc = netloc, url_path = path, url_query = query,
               url_fragment = fragment\<rparr>)"

text \<open>\<open>username\<close>, \<open>password\<close>, \<open>hostname\<close> and \<open>port\<close> of the result.\<close>

definition url_username :: "url \<Rightarrow> string option" where
  "url_username u =
     (case py_rpartition (CHR ''@'') (url_netloc u) of
        (userinfo, True, _) \<Rightarrow> Some (fst (py_partition (CHR '':'') userinfo))
      | _ \<Rightarrow> None)"

definition url_password :: "url \<Rightarrow> string option" where
  "url_password u =
     (case py_rpartition (CHR ''@'') (url_netloc u) of
        (userinfo, True, _) \<Rightarrow>
          (case py_partition (CHR '':'') userinfo of (_, True, p) \<Rightarrow> Some p | _ \<Rightarrow> None)
      | _ \<Rightarrow> None)"

definition url_hostinfo :: "url \<Rightarrow> string \<times> string" where
  "url_hostinfo u =
     (let (_, _, hostinfo) = py_rpartition (CHR ''@'') (url_netloc u) in
      case py_partition (CHR ''['') hostinfo of
        (_, True, bracketed) \<Rightarrow>
          let (hostname, _, rest) = py_partition (CHR '']'') bracketed; (_, _, port) = py_partition (CHR '':'') rest
          in (hostname, port)
      | (_, False, _) \<Rightarrow>
          let (hostname, _, port) = py_partition (CHR '':'') hostinfo in (hostname, port))"

definition url_hostname :: "url \<Rightarrow> string option" where
  "url_hostname u =
     (let hostname = fst (url_hostinfo u) in
      if hostname = [] then None
      else let (name, found, zone) = py_partition (CHR ''%'') hostname in
        Some (py_lower name @ (if found then ''%'' else []) @ zone))"

definition url_port :: "url \<Rightarrow> string + int option" where
  "url_port u =
     (let port = snd (url_hostinfo u) in
      if port = [] then Inr None
      else if \<not> list_all is_digit port then Inl ''Port could not be cast to integer value''
      else case py_digits 0 port of
        None \<Rightarrow> Inl ''Port could not be cast to integer value''
      | Some n \<Rightarrow> if n \<le> 65535 then Inr (Some (int n)) else Inl ''Port out of range 0-65535'')"

section \<open>Query strings\<close>

text \<open>
  A percent escape decodes to its byte; a byte from 128 on is part of a UTF-8 sequence and stands for
  some character outside ASCII.
\<close>

fun unquote :: "string \<Rightarrow> string" where
  "unquote (c # h # l # rest) =
     (if c = CHR ''%'' \<and> is_hex h \<and> is_hex l then chr (16 * hex_val h + hex_val l) # unquote rest
      else c # unquote (h # l # rest))"
| "unquote s = s"

definition parse_qs :: "string \<Rightarrow> (string \<times> string) list" where
  "parse_qs query =
     concat (map (\<lambda>pair.
       case py_partition (CHR ''='') pair of
         (name, True, v) \<Rightarrow>
           if v = [] then []
           else [(unquote (py_replace_char (CHR ''+'') (CHR '' '') name), unquote (py_replace_char (CHR ''+'') (CHR '' '') v))]
       | _ \<Rightarrow> [])
     (py_split (CHR ''&'') query))"

definition query_values :: "string \<Rightarrow> string \<Rightarrow> string list" where
  "query_values name query = map snd (filter (\<lambda>nv. fst nv = name) (parse_qs query))"

section \<open>Base64\<close>

definition b64_value :: "char \<Rightarrow> nat option" where
  "b64_value c =
     (if is_upper c then Some (ord c - 65)
      else if is_lower c then Some (ord c - 71)
      else if is_digit c then Some (ord c + 4)
      else if c = CHR ''+'' then Some 62
      else if c = CHR ''/'' then Some 63
      else None)"

text \<open>
  \<open>binascii.a2b_base64\<close> in strict mode: position in the quad, the bits left over, the pads seen
  so far and whether a pad was seen at all.
\<close>

fun a2b :: "nat \<Rightarrow> nat \<Rightarrow> nat \<Rightarrow> bool \<Rightarrow> string \<Rightarrow> nat list option" where
  "a2b pos left pads started [] = (if pos = 0 then Some [] else None)"
| "a2b pos left pads started (c # cs) =
     (if c = CHR ''='' then
        (if 2 \<le> pos \<and> 4 \<le> pos + Suc pads then (if cs = [] then Some [] else None)
         else a2b pos left (if 2 \<le> pos then Suc pads else pads) True cs)
      else case b64_value c of
        None \<Rightarrow> None
      | Some v \<Rightarrow>
          if started then None
          else if pos = 0 then a2b 1 v 0 False cs
          else if pos = 1 then map_option (\<lambda>bs. (4 * left + v div 16) # bs) (a2b 2 (v mod 16) 0 False cs)
          else if pos = 2 then map_option (\<lambda>bs. (16 * left + v div 4) # bs) (a2b 3 (v mod 4) 0 False cs)
          else map_option (\<lambda>bs. (64 * left + v) # bs) (a2b 0 0 0 False cs))"

definition b64decode_urlsafe :: "string \<Rightarrow> nat list option" where
  "b64decode_urlsafe s =
     (if list_ex (\<lambda>c. 128 \<le> ord c) s \<or> py_startswith s ''='' then None
      else a2b 0 0 0 False
        (map (\<lambda>c. if c = CHR ''-'' then CHR ''+'' else if c = CHR ''_'' then CHR ''/'' else c) s))"

section \<open>The representation of a string\<close>

definition repr_char :: "char \<Rightarrow> char \<Rightarrow> string" where
  "repr_char quote c =
     (if c = quote \<or> c = CHR 0x5C then [CHR 0x5C, c]
      else if c = CHR 0x0A then [CHR 0x5C, CHR ''n'']
      else if c = CHR 0x0D then [CHR 0x5C, CHR ''r'']
      else if c = CHR 0x09 then [CHR 0x5C, CHR ''t'']
      else if ord c < 32 \<or> 127 \<le> ord c \<and> ord c \<le> 160 \<or> ord c = 173
      then [CHR 0x5C, CHR ''x''] @ hex_str 2 (ord c)
      else [c])"

definition repr_str :: "string \<Rightarrow> string" where
  "repr_str s =
     (let quote = (if CHR 0x27 \<in> set s \<and> CHR 0x22 \<notin> set s then CHR 0x22 else CHR 0x27) in
      [quote] @ concat (map (repr_char quote) s) @ [quote])"

section \<open>Facts\<close>

lemma py_partition_join:
  "py_partition sep s = (a, found, b) \<Longrightarrow> s = (if found then a @ sep # b else a) \<and> sep \<notin> set a"
  by (induction s arbitrary: a) (auto split: if_splits prod.splits)

lemma py_partition_sep: "sep \<notin> set a \<Longrightarrow> py_partition sep (a @ sep # b) = (a, True, b)"
  by (induction a) auto

lemma py_partition_none: "sep \<notin> set a \<Longrightarrow> py_partition sep a = (a, False, [])"
  by (induction a) auto

lemma py_rpartition_sep: "sep \<notin> set b \<Longrightarrow> py_rpartition sep (a @ sep # b) = (a, True, b)"
  using py_partition_sep [of sep "rev b" "rev a"] by (simp add: py_rpartition_def)

lemma py_rpartition_none: "sep \<notin> set b \<Longrightarrow> py_rpartition sep b = ([], False, b)"
  using py_partition_none [of sep "rev b"] by (simp add: py_rpartition_def)

end
