(* ===== verification/Config.thy ===== *)
theory Config
  imports Url Api_Auth
begin

text \<open>
  Loading the configuration: \<open>bantam/config.py\<close>. The environment is a function from names to
  values. A startup that is refused is an \<open>Inl\<close>: \<open>Invalid\<close> for a \<open>ValueError\<close> with
  its message, \<open>Overflow\<close> for the \<open>OverflowError\<close> of a duration no \<open>timedelta\<close> holds.

  Durations are in microseconds. The checks of \<open>validate\<close> run in the order of the code; a group
  of plain checks is a list of conditions with their messages.
\<close>

section \<open>Reading the environment\<close>

type_synonym environ = "string \<Rightarrow> string option"

datatype startup_error = Invalid string | Overflow

definition getenv :: "environ \<Rightarrow> string \<Rightarrow> string \<Rightarrow> string" where
  "getenv e name fallback = (case e name of None \<Rightarrow> fallback | Some v \<Rightarrow> v)"

text \<open>\<open>timedelta\<close> holds at most 999999999 days.\<close>

definition timedelta :: "int \<Rightarrow> startup_error + int" where
  "timedelta us = (if us div 86400000000 > 999999999 then Inl Overflow else Inr us)"

definition int_limit_message :: "nat \<Rightarrow> string" where
  "int_limit_message n =
     ''Exceeds the limit (4300 digits) for integer string conversion: value has '' @ nat_str n @
     '' digits; use sys.set_int_max_str_digits() to increase the limit''"

definition duration_unit :: "string \<Rightarrow> int option" where
  "duration_unit u =
     (if u = ''ms'' then Some 1000 else if u = ''s'' then Some 1000000
      else if u = ''m'' then Some 60000000 else if u = ''h'' then Some 3600000000 else None)"

definition parse_duration :: "string \<Rightarrow> int \<Rightarrow> startup_error + int" where
  "parse_duration value fallback =
     (let text = py_strip value; digits = takeWhile is_digit text in
      case (if digits = [] then None else duration_unit (dropWhile is_digit text)) of
        None \<Rightarrow> Inr fallback
      | Some unit \<Rightarrow>
          if length digits > 4300 then Inl (Invalid (int_limit_message (length digits)))
          else case py_digits 0 digits of
            None \<Rightarrow> Inr fallback
          | Some amount \<Rightarrow> timedelta (int amount * unit))"

definition duration :: "environ \<Rightarrow> string \<Rightarrow> string \<Rightarrow> startup_error + int" where
  "duration e name fallback =
     andthen (parse_duration (py_strip (getenv e name fallback)) (seconds (- 1))) (\<lambda>parsed.
       if parsed \<le> 0 then Inl (Invalid (name @ '' must be a positive duration such as 15m''))
       else Inr parsed)"

text \<open>\<open>int\<close> refuses a text of more than 4300 digits.\<close>

definition int_text :: "string \<Rightarrow> int option" where
  "int_text raw = (if length (filter is_digit raw) > 4300 then None else py_int raw)"

definition integer :: "environ \<Rightarrow> string \<Rightarrow> int \<Rightarrow> startup_error + int" where
  "integer e name fallback =
     (case e name of
        None \<Rightarrow> Inr fallback
      | Some raw \<Rightarrow>
          (case int_text raw of
             None \<Rightarrow> Inl (Invalid (name @ '' must be an integer''))
           | Some i \<Rightarrow> Inr i))"

definition boolean :: "environ \<Rightarrow> string \<Rightarrow> bool \<Rightarrow> startup_error + bool" where
  "boolean e name fallback =
     (case e name of
        None \<Rightarrow> Inr fallback
      | Some v \<Rightarrow>
          let normalised = py_lower (py_strip v) in
          if normalised \<in> set [''1'', ''true'', ''yes'', ''on''] then Inr True
          else if normalised \<in> set [''0'', ''false'', ''no'', ''off''] then Inr False
          else Inl (Invalid (name @ '' must be true or false'')))"

definition csv :: "environ \<Rightarrow> string \<Rightarrow> string list" where
  "csv e name = filter (\<lambda>s. s \<noteq> []) (map py_strip (py_split (CHR '','') (getenv e name [])))"

definition optional :: "string option \<Rightarrow> string option" where
  "optional v =
     (let normalised = py_strip (case v of None \<Rightarrow> [] | Some s \<Rightarrow> s) in
      if normalised = [] then None else Some normalised)"

text \<open>\<open>a or b\<close> for two values that may be missing.\<close>

definition py_or :: "string option \<Rightarrow> string option \<Rightarrow> string option" where
  "py_or a b = (case a of Some (c # cs) \<Rightarrow> a | _ \<Rightarrow> b)"

fun networks_of :: "string list \<Rightarrow> startup_error + ip_network list" where
  "networks_of [] = Inr []"
| "networks_of (v # vs) =
     (case parse_network v of
        None \<Rightarrow> Inl (Invalid (''TRUSTED_PROXY_CIDRS contains invalid CIDR '' @ repr_str v))
      | Some n \<Rightarrow> andthen (networks_of vs) (\<lambda>ns. Inr (n # ns)))"

definition proxy_networks :: "environ \<Rightarrow> startup_error + ip_network list" where
  "proxy_networks e = networks_of (csv e ''TRUSTED_PROXY_CIDRS'')"

section \<open>The settings\<close>

record config =
  environment :: string
  http_addr :: string
  database_url :: string
  database_connection_mode :: string
  database_pool_min_size :: int
  database_pool_max_size :: int
  nats_url :: string
  event_bus :: string
  pubsub_project_id :: "string option"
  pubsub_topic :: "string option"
  pubsub_risk_subscription :: "string option"
  pubsub_notification_subscription :: "string option"
  jwt_secret :: string
  cfg_sca_secret :: string
  claims_secret :: string
  mfa_encryption_key :: "string option"
  mfa_transaction_ttl :: int
  mfa_step_up_ttl :: int
  webauthn_rp_id :: "string option"
  webauthn_rp_name :: string
  webauthn_allowed_origins :: "string list"
  jwt_ttl :: int
  cfg_sca_ttl :: int
  sca_threshold_minor :: int
  risk_threshold_minor :: int
  demo_mode :: bool
  outbox_poll_interval :: int
  request_body_limit_bytes :: int
  auth_account_rate_limit_max :: int
  auth_ip_rate_limit_max :: int
  auth_rate_limit_window :: int
  trusted_proxy_cidrs :: "ip_network list"
  allowed_hosts :: "string list"
  allow_demo_seed :: bool
  enable_api_docs :: bool
  run_migrations_on_startup :: bool
  migration_runtime_grantee :: "string option"
  asvs_live_runner_enabled :: bool
  asvs_target_commit :: string
  asvs_ai_generator_enabled :: bool
  aspis_mistral_api_key :: "string option"
  workflow_github_token :: "string option"
  super_admin_email :: "string option"
  aspis_application_source_root :: string
  aspis_terraform_source_root :: string

definition DEVELOPMENT_MFA_KEY :: string where
  "DEVELOPMENT_MFA_KEY = ''AAAAAAAAAAAAAAAAAAAAAAAAAAAAAAAAAAAAAAAAAAA=''"

definition KNOWN_DEVELOPMENT_SECRETS :: "string list" where
  "KNOWN_DEVELOPMENT_SECRETS =
     [''local-development-jwt-secret-change-me'',
      ''local-development-sca-secret-change-me'',
      ''local-compose-jwt-secret-change-before-deploying'',
      ''local-compose-sca-secret-change-before-deploying'',
      ''local-compose-jwt-secret-for-development-only-2026'',
      ''local-compose-sca-secret-for-development-only-2026'',
      ''local-compose-claims-secret-for-development-only-2026'',
      ''replace-with-at-least-32-random-characters'',
      ''replace-with-a-separate-random-secret'',
      ''replace-with-a-third-independent-random-secret'']"

definition production :: "config \<Rightarrow> bool" where
  "production c \<longleftrightarrow> environment c = ''production''"

definition secure_cookies :: "config \<Rightarrow> bool" where
  "secure_cookies c \<longleftrightarrow> environment c \<noteq> ''development''"

section \<open>Validation\<close>

fun demand :: "(bool \<times> string) list \<Rightarrow> startup_error + unit" where
  "demand [] = Inr ()"
| "demand ((bad, message) # rest) = (if bad then Inl (Invalid message) else demand rest)"

definition missing_pubsub :: "config \<Rightarrow> string list" where
  "missing_pubsub c =
     map fst (filter (\<lambda>nv. snd nv = None)
       [(''PUBSUB_NOTIFICATION_SUBSCRIPTION'', pubsub_notification_subscription c),
        (''PUBSUB_PROJECT_ID'', pubsub_project_id c),
        (''PUBSUB_RISK_SUBSCRIPTION'', pubsub_risk_subscription c),
        (''PUBSUB_TOPIC'', pubsub_topic c)])"

definition check_services :: "config \<Rightarrow> startup_error + unit" where
  "check_services c = demand
     [(environment c \<notin> set [''development'', ''test'', ''production''],
       ''APP_ENV must be explicitly set to development, test, or production''),
      (database_url c = [], ''DATABASE_URL is required''),
      (event_bus c \<notin> set [''nats'', ''pubsub''], ''EVENT_BUS must be nats or pubsub''),
      (event_bus c = ''nats'' \<and> nats_url c = [], ''NATS_URL is required when EVENT_BUS=nats''),
      (event_bus c = ''pubsub'' \<and> missing_pubsub c \<noteq> [],
       ''EVENT_BUS=pubsub requires '' @ py_join '', '' (missing_pubsub c)),
      (database_connection_mode c \<notin> set [''direct'', ''cloud_sql_proxy''],
       ''DATABASE_CONNECTION_MODE must be direct or cloud_sql_proxy''),
      (database_pool_min_size c < 0 \<or> database_pool_max_size c = 0 \<or>
       database_pool_min_size c > database_pool_max_size c \<or> database_pool_max_size c > 20,
       ''DATABASE_POOL_MIN_SIZE and DATABASE_POOL_MAX_SIZE must satisfy '' @
       ''0 <= min <= max <= 20 with max greater than zero'')]"

definition check_secret :: "config \<Rightarrow> string \<Rightarrow> string \<Rightarrow> startup_error + unit" where
  "check_secret c name secret = demand
     [(utf8_length secret < 32, name @ '' must contain at least 32 bytes''),
      (environment c \<noteq> ''development'' \<and> secret \<in> set KNOWN_DEVELOPMENT_SECRETS,
       name @ '' uses a public development value''),
      (production c \<and> length (remdups secret) < 8, name @ '' appears to have insufficient entropy'')]"

definition check_secrets :: "config \<Rightarrow> startup_error + unit" where
  "check_secrets c =
     andthen (check_secret c ''JWT_SECRET'' (jwt_secret c)) (\<lambda>_.
     andthen (check_secret c ''SCA_SECRET'' (cfg_sca_secret c)) (\<lambda>_.
     andthen (check_secret c ''CLAIMS_SECRET'' (claims_secret c)) (\<lambda>_.
     demand [(\<not> distinct [jwt_secret c, cfg_sca_secret c, claims_secret c],
       ''JWT_SECRET, SCA_SECRET, and CLAIMS_SECRET must be independent'')])))"

definition check_mfa_key :: "config \<Rightarrow> startup_error + unit" where
  "check_mfa_key c =
     (case mfa_encryption_key c of
        None \<Rightarrow> Inr ()
      | Some key \<Rightarrow>
          (case b64decode_urlsafe key of
             None \<Rightarrow> Inl (Invalid ''MFA_ENCRYPTION_KEY must be a URL-safe Fernet key'')
           | Some decoded \<Rightarrow> demand
               [(length decoded \<noteq> 32, ''MFA_ENCRYPTION_KEY must encode exactly 32 bytes''),
                (environment c \<noteq> ''development'' \<and> key = DEVELOPMENT_MFA_KEY,
                 ''MFA_ENCRYPTION_KEY uses a public development value''),
                (production c \<and> length (remdups decoded) < 8,
                 ''MFA_ENCRYPTION_KEY appears to have insufficient entropy''),
                (key \<in> set [jwt_secret c, cfg_sca_secret c, claims_secret c],
                 ''MFA_ENCRYPTION_KEY must be independent from signing secrets'')]))"

text \<open>The pattern \<open>_RP_ID\<close>: \<open>localhost\<close>, or at least two host labels.\<close>

definition host_label :: "string \<Rightarrow> bool" where
  "host_label s \<longleftrightarrow>
     s \<noteq> [] \<and> length s \<le> 63 \<and> list_all (\<lambda>ch. is_lower ch \<or> is_digit ch \<or> ch = CHR ''-'') s \<and>
     hd s \<noteq> CHR ''-'' \<and> last s \<noteq> CHR ''-''"

definition RP_ID :: "string \<Rightarrow> bool" where
  "RP_ID s \<longleftrightarrow>
     s = ''localhost'' \<or>
     (let labels = py_split (CHR ''.'') s in 2 \<le> length labels \<and> list_all host_label labels)"

definition truthy :: "string option \<Rightarrow> bool" where
  "truthy v \<longleftrightarrow> v \<noteq> None \<and> v \<noteq> Some []"

definition check_origin :: "config \<Rightarrow> string \<Rightarrow> string \<Rightarrow> startup_error + unit" where
  "check_origin c rp_id origin =
     (case urlsplit origin of
        Inl problem \<Rightarrow> Inl (Invalid problem)
      | Inr u \<Rightarrow> demand
          [(truthy (url_username u) \<or> truthy (url_password u) \<or> url_query u \<noteq> [] \<or> url_fragment u \<noteq> [] \<or>
            url_path u \<notin> set [[], ''/''] \<or> url_hostname u \<noteq> Some rp_id \<or>
            url_scheme u \<notin> (if production c then set [''https''] else set [''http'', ''https'']),
            ''WEBAUTHN_ALLOWED_ORIGINS must contain exact origins '' @ ''for WEBAUTHN_RP_ID''),
           (url_scheme u = ''http'' \<and> url_hostname u \<noteq> Some ''localhost'',
            ''WebAuthn permits HTTP only for localhost development'')])"

fun check_origins :: "config \<Rightarrow> string \<Rightarrow> string list \<Rightarrow> startup_error + unit" where
  "check_origins c rp_id [] = Inr ()"
| "check_origins c rp_id (o' # os) = andthen (check_origin c rp_id o') (\<lambda>_. check_origins c rp_id os)"

definition check_webauthn :: "config \<Rightarrow> startup_error + unit" where
  "check_webauthn c =
     andthen (demand [((webauthn_rp_id c \<noteq> None) \<noteq> (webauthn_allowed_origins c \<noteq> []),
       ''WEBAUTHN_RP_ID and WEBAUTHN_ALLOWED_ORIGINS must be set together'')]) (\<lambda>_.
     andthen (case webauthn_rp_id c of
        None \<Rightarrow> Inr ()
      | Some rp_id \<Rightarrow>
          andthen (demand [(length rp_id > 253 \<or> rp_id \<noteq> py_lower rp_id \<or> \<not> RP_ID rp_id,
            ''WEBAUTHN_RP_ID must be a lowercase hostname without a scheme'')]) (\<lambda>_.
          check_origins c rp_id (webauthn_allowed_origins c))) (\<lambda>_.
     demand [(\<not> (1 \<le> length (webauthn_rp_name c) \<and> length (webauthn_rp_name c) \<le> 80),
       ''WEBAUTHN_RP_NAME must contain 1-80 characters'')]))"

definition bad_key :: "string option \<Rightarrow> bool" where
  "bad_key v = (case v of None \<Rightarrow> False
     | Some key \<Rightarrow> utf8_length key > 1024 \<or> list_ex py_isspace key \<or> list_ex is_control key)"

definition bad_root :: "string \<Rightarrow> bool" where
  "bad_root v \<longleftrightarrow> v = [] \<or> \<not> py_startswith v ''/'' \<or> utf8_length v > 1024 \<or> list_ex is_control v"

definition check_features :: "config \<Rightarrow> startup_error + unit" where
  "check_features c = demand
     [(demo_mode c \<and> environment c \<noteq> ''development'', ''DEMO_MODE may be enabled only in APP_ENV=development''),
      (allow_demo_seed c \<and> environment c \<noteq> ''development'',
       ''ALLOW_DEMO_SEED may be enabled only in APP_ENV=development''),
      (asvs_live_runner_enabled c \<and> \<not> (environment c = ''development'' \<and> demo_mode c \<and> allow_demo_seed c),
       ''ASVS_LIVE_RUNNER_ENABLED requires APP_ENV=development, '' @ ''DEMO_MODE=true, and ALLOW_DEMO_SEED=true''),
      (bad_key (aspis_mistral_api_key c), ''ASPIS_MISTRAL_API_KEY must be a bounded key without whitespace''),
      (bad_key (workflow_github_token c), ''WORKFLOW_GITHUB_TOKEN must be a bounded token without whitespace''),
      (case super_admin_email c of None \<Rightarrow> False | Some m \<Rightarrow> length m > 254 \<or> \<not> EMAIL_PATTERN m,
       ''BANTAM_SUPER_ADMIN_EMAIL must be a valid email address''),
      (bad_root (aspis_application_source_root c),
       ''ASPIS_APPLICATION_SOURCE_ROOT must be a bounded absolute path without control characters''),
      (bad_root (aspis_terraform_source_root c),
       ''ASPIS_TERRAFORM_SOURCE_ROOT must be a bounded absolute path without control characters''),
      (\<not> (1 \<le> length (asvs_target_commit c) \<and> length (asvs_target_commit c) \<le> 128) \<or>
       list_ex is_control (asvs_target_commit c),
       ''ASVS_TARGET_COMMIT must contain 1-128 printable characters''),
      (enable_api_docs c \<and> production c, ''API_DOCS_ENABLED cannot be true in production''),
      (run_migrations_on_startup c \<and> production c, ''RUN_MIGRATIONS_ON_STARTUP cannot be true in production''),
      (case migration_runtime_grantee c of None \<Rightarrow> False | Some g \<Rightarrow> CHR 0x00 \<in> set g,
       ''MIGRATION_RUNTIME_GRANTEE cannot contain NUL bytes''),
      (production c \<and> allowed_hosts c = [], ''ALLOWED_HOSTS is required in production''),
      (production c \<and> ''*'' \<in> set (allowed_hosts c), ''ALLOWED_HOSTS cannot contain '' @ repr_str ''*'' @ '' in production'')]"

definition checked_url :: "string \<Rightarrow> startup_error + url" where
  "checked_url raw = (case urlsplit raw of Inl problem \<Rightarrow> Inl (Invalid problem) | Inr u \<Rightarrow> Inr u)"

definition check_production :: "config \<Rightarrow> startup_error + unit" where
  "check_production c =
     (if \<not> production c then Inr ()
      else
        andthen (checked_url (database_url c)) (\<lambda>db.
        let sslmode = query_values ''sslmode'' (url_query db) in
        andthen (demand
          [(url_scheme db \<notin> set [''postgres'', ''postgresql''], ''production DATABASE_URL must use PostgreSQL''),
           (database_connection_mode c = ''direct'' \<and> sslmode \<noteq> [''verify-full''],
            ''production direct DATABASE_URL must use sslmode=verify-full''),
           (database_connection_mode c \<noteq> ''direct'' \<and>
            (url_hostname db \<notin> set (map Some [''localhost'', ''127.0.0.1'', ''::1'']) \<or> sslmode \<noteq> [''disable'']),
            ''production cloud_sql_proxy DATABASE_URL must use a '' @ ''loopback host with sslmode=disable'')]) (\<lambda>_.
        if event_bus c = ''nats''
        then andthen (checked_url (nats_url c)) (\<lambda>n.
          demand [(url_scheme n \<noteq> ''tls'', ''production NATS_URL must use the tls:// scheme'')])
        else Inr ())))"

definition hours :: "int \<Rightarrow> int" where "hours h = seconds (3600 * h)"
definition minutes :: "int \<Rightarrow> int" where "minutes m = seconds (60 * m)"

definition check_limits :: "config \<Rightarrow> startup_error + unit" where
  "check_limits c = demand
     [(jwt_ttl c > hours 1, ''JWT_TTL cannot exceed one hour''),
      (mfa_transaction_ttl c > minutes 10, ''MFA_TRANSACTION_TTL cannot exceed ten minutes''),
      (mfa_step_up_ttl c > minutes 10, ''MFA_STEP_UP_TTL cannot exceed ten minutes''),
      (cfg_sca_ttl c > minutes 10, ''SCA_TTL cannot exceed ten minutes''),
      (sca_threshold_minor c \<le> 0 \<or> risk_threshold_minor c \<le> 0, ''risk and SCA thresholds must be positive''),
      (\<not> (1024 \<le> request_body_limit_bytes c \<and> request_body_limit_bytes c \<le> 10485760),
       ''REQUEST_BODY_LIMIT_BYTES must be between 1024 and 10485760''),
      (auth_account_rate_limit_max c \<le> 0 \<or> auth_ip_rate_limit_max c \<le> 0,
       ''authentication rate limits must be positive''),
      (auth_account_rate_limit_max c > auth_ip_rate_limit_max c,
       ''AUTH_ACCOUNT_RATE_LIMIT_MAX cannot exceed AUTH_IP_RATE_LIMIT_MAX''),
      (auth_rate_limit_window c > hours 1, ''AUTH_RATE_LIMIT_WINDOW cannot exceed one hour'')]"

definition uvicorn_address :: "config \<Rightarrow> startup_error + string \<times> int" where
  "uvicorn_address c =
     (let (host, raw_port) =
        (if py_startswith (http_addr c) '':'' then (''0.0.0.0'', tl (http_addr c))
         else case py_rpartition (CHR '':'') (http_addr c) of
             (h, True, p) \<Rightarrow> (if h = [] then ''0.0.0.0'' else h, p)
           | (_, False, _) \<Rightarrow> (if http_addr c = [] then ''0.0.0.0'' else http_addr c, ''8080'')) in
      case int_text raw_port of
        None \<Rightarrow> Inl (Invalid ''HTTP_ADDR must contain a numeric port'')
      | Some port \<Rightarrow>
          if \<not> (1 \<le> port \<and> port \<le> 65535) then Inl (Invalid ''HTTP_ADDR port must be between 1 and 65535'')
          else Inr (host, port))"

definition validate :: "config \<Rightarrow> startup_error + unit" where
  "validate c =
     andthen (check_services c) (\<lambda>_.
     andthen (check_secrets c) (\<lambda>_.
     andthen (check_mfa_key c) (\<lambda>_.
     andthen (check_webauthn c) (\<lambda>_.
     andthen (check_features c) (\<lambda>_.
     andthen (check_production c) (\<lambda>_.
     andthen (check_limits c) (\<lambda>_.
     andthen (uvicorn_address c) (\<lambda>_. Inr ()))))))))"

section \<open>Settings from the environment\<close>

definition from_env :: "environ \<Rightarrow> startup_error + config" where
  "from_env e =
     (let env = py_lower (py_strip (getenv e ''APP_ENV'' [])); development = (env = ''development'') in
      andthen (integer e ''DATABASE_POOL_MIN_SIZE'' 1) (\<lambda>pool_min.
      andthen (integer e ''DATABASE_POOL_MAX_SIZE'' 8) (\<lambda>pool_max.
      andthen (duration e ''MFA_TRANSACTION_TTL'' ''5m'') (\<lambda>transaction_ttl.
      andthen (duration e ''MFA_STEP_UP_TTL'' ''5m'') (\<lambda>step_up_ttl.
      andthen (duration e ''JWT_TTL'' ''15m'') (\<lambda>session_ttl.
      andthen (duration e ''SCA_TTL'' ''5m'') (\<lambda>challenge_ttl.
      andthen (integer e ''SCA_THRESHOLD_MINOR'' 500000) (\<lambda>sca_threshold.
      andthen (integer e ''RISK_THRESHOLD_MINOR'' 500000) (\<lambda>risk_threshold.
      andthen (boolean e ''DEMO_MODE'' False) (\<lambda>demo.
      andthen (duration e ''OUTBOX_POLL_INTERVAL'' ''1s'') (\<lambda>poll_interval.
      andthen (integer e ''REQUEST_BODY_LIMIT_BYTES'' 1048576) (\<lambda>body_limit.
      andthen (integer e ''AUTH_ACCOUNT_RATE_LIMIT_MAX'' 10) (\<lambda>account_limit.
      andthen (integer e ''AUTH_IP_RATE_LIMIT_MAX'' 50) (\<lambda>ip_limit.
      andthen (duration e ''AUTH_RATE_LIMIT_WINDOW'' ''5m'') (\<lambda>window.
      andthen (proxy_networks e) (\<lambda>proxies.
      andthen (boolean e ''ALLOW_DEMO_SEED'' development) (\<lambda>seed.
      andthen (boolean e ''API_DOCS_ENABLED'' development) (\<lambda>docs.
      andthen (boolean e ''RUN_MIGRATIONS_ON_STARTUP'' development) (\<lambda>migrations.
      andthen (boolean e ''ASVS_LIVE_RUNNER_ENABLED'' False) (\<lambda>live_runner.
      andthen (boolean e ''ASVS_AI_GENERATOR_ENABLED'' False) (\<lambda>generator.
      let c = \<lparr>environment = env,
         http_addr = py_strip (getenv e ''HTTP_ADDR'' '':8080''),
         database_url = py_strip (getenv e ''DATABASE_URL'' []),
         database_connection_mode = py_lower (py_strip (getenv e ''DATABASE_CONNECTION_MODE'' ''direct'')),
         database_pool_min_size = pool_min,
         database_pool_max_size = pool_max,
         nats_url = py_strip (getenv e ''NATS_URL'' ''nats://localhost:4222''),
         event_bus = py_lower (py_strip (getenv e ''EVENT_BUS'' ''nats'')),
         pubsub_project_id = optional (py_or (e ''PUBSUB_PROJECT_ID'')
           (py_or (e ''GOOGLE_CLOUD_PROJECT'') (e ''GCP_PROJECT''))),
         pubsub_topic = optional (e ''PUBSUB_TOPIC''),
         pubsub_risk_subscription = optional (e ''PUBSUB_RISK_SUBSCRIPTION''),
         pubsub_notification_subscription = optional (e ''PUBSUB_NOTIFICATION_SUBSCRIPTION''),
         jwt_secret = getenv e ''JWT_SECRET'' [],
         cfg_sca_secret = getenv e ''SCA_SECRET'' [],
         claims_secret = getenv e ''CLAIMS_SECRET'' [],
         mfa_encryption_key = optional (py_or (e ''MFA_ENCRYPTION_KEY'')
           (if development then Some DEVELOPMENT_MFA_KEY else None)),
         mfa_transaction_ttl = transaction_ttl,
         mfa_step_up_ttl = step_up_ttl,
         webauthn_rp_id = optional (e ''WEBAUTHN_RP_ID''),
         webauthn_rp_name =
           (let name = py_strip (getenv e ''WEBAUTHN_RP_NAME'' ''Bantam'') in if name = [] then ''Bantam'' else name),
         webauthn_allowed_origins = csv e ''WEBAUTHN_ALLOWED_ORIGINS'',
         jwt_ttl = session_ttl,
         cfg_sca_ttl = challenge_ttl,
         sca_threshold_minor = sca_threshold,
         risk_threshold_minor = risk_threshold,
         demo_mode = demo,
         outbox_poll_interval = poll_interval,
         request_body_limit_bytes = body_limit,
         auth_account_rate_limit_max = account_limit,
         auth_ip_rate_limit_max = ip_limit,
         auth_rate_limit_window = window,
         trusted_proxy_cidrs = proxies,
         allowed_hosts = csv e ''ALLOWED_HOSTS'',
         allow_demo_seed = seed,
         enable_api_docs = docs,
         run_migrations_on_startup = migrations,
         migration_runtime_grantee = optional (e ''MIGRATION_RUNTIME_GRANTEE''),
         asvs_live_runner_enabled = live_runner,
         asvs_target_commit =
           (let commit = py_strip (getenv e ''ASVS_TARGET_COMMIT'' ''unversioned'') in
            if commit = [] then ''unversioned'' else commit),
         asvs_ai_generator_enabled = generator,
         aspis_mistral_api_key = optional (e ''ASPIS_MISTRAL_API_KEY''),
         workflow_github_token = optional (e ''WORKFLOW_GITHUB_TOKEN''),
         super_admin_email = optional (Some (py_lower (py_strip
           (case py_or (e ''BANTAM_SUPER_ADMIN_EMAIL'') (py_or (e ''SUPER_ADMIN_EMAIL'') (Some [])) of
              None \<Rightarrow> [] | Some m \<Rightarrow> m)))),
         aspis_application_source_root =
           py_strip (getenv e ''ASPIS_APPLICATION_SOURCE_ROOT'' ''/source-context/application''),
         aspis_terraform_source_root =
           py_strip (getenv e ''ASPIS_TERRAFORM_SOURCE_ROOT'' ''/source-context/terraform'')\<rparr> in
      andthen (validate c) (\<lambda>_. Inr c))))))))))))))))))))))"

end
