(* ===== verification/Startup.thy ===== *)
theory Startup
  imports Config Api_Accounts
begin

text \<open>
  Building the application from its configuration: \<open>create_app\<close> of \<open>bantam/api.py\<close>, and what
  an accepted configuration guarantees about the running bank.
\<close>

section \<open>The application factory\<close>

record started =
  su_app :: app
  su_ip_limiter :: db_limiter
  su_account_limiter :: db_limiter
  su_body_limit :: int
  su_allowed_hosts :: "string list"
  su_docs_url :: "string option"
  su_migrate :: bool
  su_asvs_runner_enabled :: bool
  su_api_port :: int

text \<open>\<open>fernet_key\<close> is what \<open>Fernet\<close> accepts as a key.\<close>

definition create_app :: "(string \<Rightarrow> bool) \<Rightarrow> libraries \<Rightarrow> config \<Rightarrow> startup_error + started" where
  "create_app fernet_key lib c =
     (if \<not> (0 \<le> database_pool_min_size c \<and> database_pool_min_size c \<le> database_pool_max_size c) \<or>
         database_pool_max_size c = 0
      then Inl (Invalid ''database pool sizes must satisfy 0 <= min <= max'')
      else case mfa_encryption_key c of
        None \<Rightarrow> Inl (Invalid ''MFA_ENCRYPTION_KEY is required by the API'')
      | Some key \<Rightarrow>
          if \<not> fernet_key key then Inl (Invalid ''MFA_ENCRYPTION_KEY must be a Fernet key'')
          else andthen (uvicorn_address c) (\<lambda>(_, api_port). Inr
            \<lparr>su_app =
               \<lparr>ap_settings = \<lparr>st_trusted_proxy_cidrs = trusted_proxy_cidrs c,
                  st_super_admin_email = super_admin_email c, st_secure_cookies = secure_cookies c,
                  st_jwt_ttl = jwt_ttl c, st_mfa_step_up_ttl = mfa_step_up_ttl c\<rparr>,
                ap_auth = \<lparr>as_secret = jwt_secret c, as_ttl = jwt_ttl c\<rparr>,
                ap_claims = \<lparr>as_secret = claims_secret c, as_ttl = hours 24\<rparr>,
                ap_mfa = \<lparr>ms_ttl = mfa_transaction_ttl c, ms_rp_id = webauthn_rp_id c,
                  ms_rp_name = webauthn_rp_name c, ms_origins = webauthn_allowed_origins c\<rparr>,
                ap_sca = \<lparr>sca_secret = cfg_sca_secret c, sca_ttl = cfg_sca_ttl c,
                  sca_threshold = sca_threshold_minor c, sca_demo_mode = demo_mode c\<rparr>,
                ap_lib = lib\<rparr>,
             su_ip_limiter = db_limiter_new (auth_ip_rate_limit_max c) (auth_rate_limit_window c),
             su_account_limiter = db_limiter_new (auth_account_rate_limit_max c) (auth_rate_limit_window c),
             su_body_limit = request_body_limit_bytes c,
             su_allowed_hosts = (if allowed_hosts c = [] then [''localhost'', ''127.0.0.1'', ''testserver'']
                                 else allowed_hosts c),
             su_docs_url = (if enable_api_docs c then Some ''/docs'' else None),
             su_migrate = run_migrations_on_startup c,
             su_asvs_runner_enabled = asvs_live_runner_enabled c,
             su_api_port = api_port\<rparr>))"

text \<open>A process starts from its environment.\<close>

definition start :: "(string \<Rightarrow> bool) \<Rightarrow> libraries \<Rightarrow> environ \<Rightarrow> startup_error + started" where
  "start fernet_key lib e = andthen (from_env e) (create_app fernet_key lib)"

section \<open>What passed validation\<close>

lemma demand_Inr: "demand cs = Inr u \<longleftrightarrow> list_all (\<lambda>c. \<not> fst c) cs"
  by (induction cs) (auto split: if_splits)

declare demand.simps [simp del]

lemma from_env_valid: "from_env e = Inr c \<Longrightarrow> validate c = Inr ()"
  unfolding from_env_def Let_def by (elim andthen_InrE) simp

lemma validate_InrD:
  assumes "validate c = Inr u"
  obtains host port where "check_services c = Inr ()" "check_secrets c = Inr ()" "check_mfa_key c = Inr ()"
    "check_webauthn c = Inr ()" "check_features c = Inr ()" "check_production c = Inr ()" "check_limits c = Inr ()"
    "uvicorn_address c = Inr (host, port)"
  using assms by (auto simp: validate_def elim!: andthen_InrE)

lemma checked_limits:
  assumes "check_limits c = Inr ()"
  shows "jwt_ttl c \<le> hours 1" "mfa_step_up_ttl c \<le> minutes 10" "mfa_transaction_ttl c \<le> minutes 10"
    "cfg_sca_ttl c \<le> minutes 10" "0 < sca_threshold_minor c" "auth_rate_limit_window c \<le> hours 1"
    "0 < auth_account_rate_limit_max c" "auth_account_rate_limit_max c \<le> auth_ip_rate_limit_max c"
    "request_body_limit_bytes c \<le> 10485760"
  using assms by (auto simp: check_limits_def demand_Inr not_le not_less)

lemma checked_features:
  assumes "check_features c = Inr ()" and "production c"
  shows "\<not> demo_mode c" "\<not> allow_demo_seed c" "\<not> asvs_live_runner_enabled c" "\<not> enable_api_docs c"
    "\<not> run_migrations_on_startup c" "allowed_hosts c \<noteq> []" "''*'' \<notin> set (allowed_hosts c)"
  using assms by (auto simp: check_features_def demand_Inr production_def)

lemma started_app:
  assumes "create_app fernet_key lib c = Inr w"
  shows "ap_settings (su_app w) = \<lparr>st_trusted_proxy_cidrs = trusted_proxy_cidrs c,
      st_super_admin_email = super_admin_email c, st_secure_cookies = secure_cookies c,
      st_jwt_ttl = jwt_ttl c, st_mfa_step_up_ttl = mfa_step_up_ttl c\<rparr>"
    "ap_auth (su_app w) = \<lparr>as_secret = jwt_secret c, as_ttl = jwt_ttl c\<rparr>"
    "sca_demo_mode (ap_sca (su_app w)) = demo_mode c" "sca_ttl (ap_sca (su_app w)) = cfg_sca_ttl c"
    "su_ip_limiter w = db_limiter_new (auth_ip_rate_limit_max c) (auth_rate_limit_window c)"
    "su_account_limiter w = db_limiter_new (auth_account_rate_limit_max c) (auth_rate_limit_window c)"
    "su_docs_url w = (if enable_api_docs c then Some ''/docs'' else None)"
    "su_allowed_hosts w = (if allowed_hosts c = [] then [''localhost'', ''127.0.0.1'', ''testserver''] else allowed_hosts c)"
  using assms by (auto simp: create_app_def split: if_splits option.splits elim!: andthen_InrE)

end
