(* ===== verification/Migrations.thy ===== *)
theory Migrations
  imports Net "HOL-Library.List_Lexorder" "HOL-Library.Char_ord"
begin

text \<open>
  The migration runner: \<open>apply_migrations\<close> and \<open>grant_runtime_privileges\<close> of
  \<open>bantam/database.py\<close>. PostgreSQL executing a script is the parameter \<open>execute\<close>, from
  the text and the schema to an error or the next schema; that a role is quoted as an identifier is
  \<open>psycopg\<close>'s, the parameter \<open>quoted\<close>. A migration file is its name and its text. The
  first part is one run of the function, the second several replicas that start at the same time, with
  the advisory lock between them.
\<close>

section \<open>One run\<close>

type_synonym migration = "string \<times> string"

text \<open>The schema, the table \<open>schema_migrations\<close> (\<open>None\<close> before it exists) and whether the
  session holds the advisory lock.\<close>

record 's schema_state =
  sm_schema :: 's
  sm_versions :: "string list option"
  sm_locked :: bool

datatype 'e migration_error = NoMigrationFiles | EmptyGrantee | ExecutionFailed 'e

definition applied :: "'s schema_state \<Rightarrow> string list" where
  "applied st = (case sm_versions st of None \<Rightarrow> [] | Some vs \<Rightarrow> vs)"

text \<open>A pending file runs in a transaction of its own, together with its version row.\<close>

definition apply_migration ::
  "(string \<Rightarrow> 's \<Rightarrow> 'e + 's) \<Rightarrow> migration \<Rightarrow> ('s schema_state, 'e migration_error, unit) proc" where
  "apply_migration execute file st =
     (if fst file \<in> set (applied st) then (Inr (), st)
      else case execute (snd file) (sm_schema st) of
        Inl e \<Rightarrow> (Inl (ExecutionFailed e), st)
      | Inr schema \<Rightarrow> (Inr (), st\<lparr>sm_schema := schema, sm_versions := Some (applied st @ [fst file])\<rparr>))"

fun apply_files ::
  "(string \<Rightarrow> 's \<Rightarrow> 'e + 's) \<Rightarrow> migration list \<Rightarrow> ('s schema_state, 'e migration_error, unit) proc" where
  "apply_files execute [] = returning ()"
| "apply_files execute (f # fs) = run_then (apply_migration execute f) (\<lambda>_. apply_files execute fs)"

fun execute_all :: "(string \<Rightarrow> 's \<Rightarrow> 'e + 's) \<Rightarrow> string list \<Rightarrow> ('s schema_state, 'e migration_error, unit) proc" where
  "execute_all execute [] st = (Inr (), st)"
| "execute_all execute (q # qs) st =
     (case execute q (sm_schema st) of
        Inl e \<Rightarrow> (Inl (ExecutionFailed e), st)
      | Inr schema \<Rightarrow> execute_all execute qs (st\<lparr>sm_schema := schema\<rparr>))"

definition grants :: "string \<Rightarrow> string list" where
  "grants grantee =
     [''GRANT USAGE ON SCHEMA public TO '' @ grantee,
      ''GRANT SELECT, INSERT, UPDATE, DELETE ON ALL TABLES '' @ ''IN SCHEMA public TO '' @ grantee,
      ''GRANT USAGE, SELECT, UPDATE ON ALL SEQUENCES IN SCHEMA public TO '' @ grantee,
      ''GRANT EXECUTE ON ALL FUNCTIONS IN SCHEMA public TO '' @ grantee,
      ''ALTER DEFAULT PRIVILEGES IN SCHEMA public '' @ ''GRANT SELECT, INSERT, UPDATE, DELETE ON TABLES TO '' @ grantee,
      ''ALTER DEFAULT PRIVILEGES IN SCHEMA public '' @ ''GRANT USAGE, SELECT, UPDATE ON SEQUENCES TO '' @ grantee,
      ''ALTER DEFAULT PRIVILEGES IN SCHEMA public '' @ ''GRANT EXECUTE ON FUNCTIONS TO '' @ grantee]"

definition grant_runtime_privileges ::
  "(string \<Rightarrow> 's \<Rightarrow> 'e + 's) \<Rightarrow> (string \<Rightarrow> string) \<Rightarrow> string \<Rightarrow> ('s schema_state, 'e migration_error, unit) proc" where
  "grant_runtime_privileges execute quoted runtime_grantee =
     (let grantee = py_strip runtime_grantee in
      if grantee = [] \<or> CHR 0x00 \<in> set grantee then raising EmptyGrantee
      else execute_all execute (grants (quoted grantee)))"

definition sorted_files :: "migration list \<Rightarrow> migration list" where
  "sorted_files files = sort_key fst files"

text \<open>The \<open>finally\<close> releases the lock on every way out.\<close>

definition apply_migrations ::
  "(string \<Rightarrow> 's \<Rightarrow> 'e + 's) \<Rightarrow> (string \<Rightarrow> string) \<Rightarrow> migration list \<Rightarrow> string option
     \<Rightarrow> ('s schema_state, 'e migration_error, unit) proc" where
  "apply_migrations execute quoted files runtime_grantee st =
     (let migration_files = sorted_files files in
      if migration_files = [] then (Inl NoMigrationFiles, st)
      else
        case run_then (apply_files execute migration_files)
               (\<lambda>_. case runtime_grantee of
                  None \<Rightarrow> returning ()
                | Some grantee \<Rightarrow> grant_runtime_privileges execute quoted grantee)
               (st\<lparr>sm_locked := True, sm_versions := Some (applied st)\<rparr>) of
          (r, st') \<Rightarrow> (r, st'\<lparr>sm_locked := False\<rparr>))"

section \<open>What a run does\<close>

text \<open>Scripts one after the other, as far as they succeed.\<close>

fun run_scripts :: "(string \<Rightarrow> 's \<Rightarrow> 'e + 's) \<Rightarrow> string list \<Rightarrow> 's \<Rightarrow> 'e + 's" where
  "run_scripts execute [] s = Inr s"
| "run_scripts execute (q # qs) s = andthen (execute q s) (run_scripts execute qs)"

definition pending :: "string list \<Rightarrow> migration list \<Rightarrow> migration list" where
  "pending vs files = filter (\<lambda>f. fst f \<notin> set vs) files"

lemma pending_simps [simp]:
  "pending vs [] = []"
  "pending vs (f # fs) = (if fst f \<in> set vs then pending vs fs else f # pending vs fs)"
  by (simp_all add: pending_def)

lemma pending_applied: "fst f \<notin> fst ` set fs \<Longrightarrow> pending (vs @ [fst f]) fs = pending vs fs"
  unfolding pending_def by (rule filter_cong) (auto simp: image_iff)

lemma pending_done: "pending (vs @ map fst (pending vs fs)) fs = []"
  by (auto simp: pending_def filter_empty_conv)

lemma run_scripts_append:
  "run_scripts execute (xs @ ys) s = andthen (run_scripts execute xs s) (run_scripts execute ys)"
  by (induction xs arbitrary: s) (auto simp: andthen_def split: sum.splits)

text \<open>From versions and schema \<open>(vs, s)\<close> exactly the first \<open>n\<close> pending files ran, in order.\<close>

definition ran ::
  "(string \<Rightarrow> 's \<Rightarrow> 'e + 's) \<Rightarrow> migration list \<Rightarrow> string list \<Rightarrow> 's \<Rightarrow> nat \<Rightarrow> 's schema_state \<Rightarrow> bool" where
  "ran execute ps vs s n st \<longleftrightarrow>
     n \<le> length ps \<and> applied st = vs @ map fst (take n ps) \<and>
     run_scripts execute (map snd (take n ps)) s = Inr (sm_schema st)"

text \<open>A run that stops after \<open>n\<close> pending files did all of them, or the next one failed.\<close>

definition ended ::
  "(string \<Rightarrow> 's \<Rightarrow> 'e + 's) \<Rightarrow> migration list \<Rightarrow> nat \<Rightarrow> 'e migration_error + unit \<Rightarrow> 's \<Rightarrow> bool" where
  "ended execute ps n r s \<longleftrightarrow>
     (case r of Inr _ \<Rightarrow> n = length ps
      | Inl e \<Rightarrow> n < length ps \<and> (\<exists>x. e = ExecutionFailed x \<and> execute (snd (ps ! n)) s = Inl x))"

lemma ended_Cons: "ended execute (p # ps) (Suc n) r s \<longleftrightarrow> ended execute ps n r s"
  by (simp add: ended_def split: sum.splits)

lemma ran_Cons:
  "execute (snd p) s = Inr s1 \<Longrightarrow>
     ran execute (p # ps) vs s (Suc n) st \<longleftrightarrow> ran execute ps (vs @ [fst p]) s1 n st"
  by (simp add: ran_def)

lemma ran_0: "ran execute ps (applied st) (sm_schema st) 0 st"
  by (simp add: ran_def)

lemma apply_files_effect:
  assumes "distinct (map fst fs)" and "apply_files execute fs st = (r, st')"
  shows "\<exists>n. ran execute (pending (applied st) fs) (applied st) (sm_schema st) n st' \<and>
    ended execute (pending (applied st) fs) n r (sm_schema st')"
  using assms
proof (induction fs arbitrary: st)
  case Nil
  then show ?case using ran_0 [of execute "[]" st] by (auto simp: ended_def)
next
  case (Cons f fs)
  show ?case
  proof (cases "fst f \<in> set (applied st)")
    case True
    then have "apply_files execute fs st = (r, st')" using Cons.prems(2) by (simp add: run_then_def apply_migration_def)
    with Cons.IH [of st] Cons.prems(1) True show ?thesis by simp
  next
    case new: False
    show ?thesis
    proof (cases "execute (snd f) (sm_schema st)")
      case (Inl e)
      then have "r = Inl (ExecutionFailed e)" "st' = st" using Cons.prems(2) new by (simp_all add: run_then_def apply_migration_def)
      with new Inl ran_0 [of execute "pending (applied st) (f # fs)" st] show ?thesis
        by (intro exI [of _ 0]) (simp add: ended_def)
    next
      case (Inr s1)
      let ?st = "st\<lparr>sm_schema := s1, sm_versions := Some (applied st @ [fst f])\<rparr>"
      have a: "applied ?st = applied st @ [fst f]" by (simp add: applied_def)
      have "apply_files execute fs ?st = (r, st')" using Cons.prems(2) new Inr by (simp add: run_then_def apply_migration_def)
      with Cons.IH [of ?st] Cons.prems(1) pending_applied [of f fs "applied st"] obtain n where
        "ran execute (pending (applied st) fs) (applied st @ [fst f]) s1 n st'"
        "ended execute (pending (applied st) fs) n r (sm_schema st')"
        by (auto simp: a)
      then show ?thesis using new Inr by (intro exI [of _ "Suc n"]) (simp add: ran_Cons ended_Cons)
    qed
  qed
qed

lemma apply_files_table: "apply_files execute fs st = (r, st') \<Longrightarrow> sm_versions st \<noteq> None \<Longrightarrow> sm_versions st' \<noteq> None"
proof (induction fs arbitrary: st)
  case (Cons f fs)
  then show ?case by (auto simp: apply_migration_def run_then_def split: if_splits sum.splits prod.splits)
qed auto

lemma sorted_files_distinct: "distinct (map fst files) \<Longrightarrow> distinct (map fst (sorted_files files))"
  by (simp add: sorted_files_def distinct_map inj_on_def)

lemma sorted_files_empty: "sorted_files files = [] \<longleftrightarrow> files = []"
  by (metis sorted_files_def set_sort set_empty)

lemma set_sorted_files [simp]: "set (sorted_files files) = set files"
  by (simp add: sorted_files_def)

lemma run_effect:
  assumes "distinct (map fst files)" and "files \<noteq> []"
    and "apply_migrations execute quoted files None st = (r, st')"
  shows "\<exists>n. ran execute (pending (applied st) (sorted_files files)) (applied st) (sm_schema st) n st' \<and>
    ended execute (pending (applied st) (sorted_files files)) n r (sm_schema st') \<and> \<not> sm_locked st' \<and>
    sm_versions st' \<noteq> None"
proof -
  let ?st = "st\<lparr>sm_locked := True, sm_versions := Some (applied st)\<rparr>"
  from assms(2,3) obtain st1 where 1: "apply_files execute (sorted_files files) ?st = (r, st1)"
    and st': "st' = st1\<lparr>sm_locked := False\<rparr>"
    by (auto simp: apply_migrations_def Let_def sorted_files_empty run_then_def returning_def split: prod.splits sum.splits)
  have a: "applied ?st = applied st" by (simp add: applied_def)
  from apply_files_effect [OF sorted_files_distinct [OF assms(1)] 1] apply_files_table [OF 1] show ?thesis
    unfolding a st' by (simp add: ran_def applied_def)
qed

lemma apply_nothing:
  "pending (applied st) fs = [] \<Longrightarrow> apply_files execute fs st = (Inr (), st)"
  by (induction fs) (auto simp: returning_def run_then_def apply_migration_def split: if_splits)

lemma run_again:
  assumes "files \<noteq> []" and "pending (applied st) (sorted_files files) = []" and "\<not> sm_locked st"
    and "sm_versions st \<noteq> None"
  shows "apply_migrations execute quoted files None st = (Inr (), st)"
proof -
  have "applied (st\<lparr>sm_locked := True, sm_versions := Some (applied st)\<rparr>) = applied st" by (simp add: applied_def)
  with apply_nothing [of "st\<lparr>sm_locked := True, sm_versions := Some (applied st)\<rparr>" "sorted_files files" execute] assms
  show ?thesis
    by (auto simp: apply_migrations_def Let_def sorted_files_empty run_then_def returning_def applied_def)
qed

text \<open>Migrations run at most once, in the order of their names and atomically: a run executes the
  first \<open>n\<close> of the files that have no version row yet, in sorted order, and records exactly those; it
  succeeds if and only if it reached the last one, otherwise the next one failed and left nothing
  behind; the lock is free afterwards, and once a run has succeeded another one changes nothing.\<close>

theorem migrations_run_in_order:
  assumes "distinct (map fst files)" and "files \<noteq> []"
    and "apply_migrations execute quoted files None st = (r, st')"
  shows "(\<exists>n. ran execute (pending (applied st) (sorted_files files)) (applied st) (sm_schema st) n st' \<and>
    ended execute (pending (applied st) (sorted_files files)) n r (sm_schema st')) \<and> \<not> sm_locked st' \<and>
    (r = Inr () \<longrightarrow> apply_migrations execute quoted files None st' = (Inr (), st'))"
proof -
  obtain n where n: "ran execute (pending (applied st) (sorted_files files)) (applied st) (sm_schema st) n st'"
    "ended execute (pending (applied st) (sorted_files files)) n r (sm_schema st')" "\<not> sm_locked st'" "sm_versions st' \<noteq> None"
    using run_effect [OF assms] by blast
  have "pending (applied st') (sorted_files files) = []" if "r = Inr ()"
    using n(1,2) that by (simp add: ran_def ended_def pending_done)
  with run_again [OF assms(2) _ n(3,4)] n show ?thesis by blast
qed

theorem migrations_run_in_order_witness:
  "\<exists>st'. apply_migrations (\<lambda>q n. if q = ''bad'' then Inl () else Inr (n + 1)) id
       [(''2.sql'', ''bad''), (''1.sql'', ''create'')] None \<lparr>sm_schema = 0 :: nat, sm_versions = None, sm_locked = False\<rparr>
       = (Inl (ExecutionFailed ()), st') \<and> \<not> sm_locked st'"
proof -
  let ?e = "\<lambda>q n. if q = ''bad'' then Inl () else Inr (n + 1 :: nat)" and ?f = "[(''2.sql'', ''bad''), (''1.sql'', ''create'')]"
  let ?s = "\<lparr>sm_schema = 0 :: nat, sm_versions = None, sm_locked = False\<rparr>"
  have "fst (apply_migrations ?e id ?f None ?s) = Inl (ExecutionFailed ())" by code_simp
  then obtain st' where r: "apply_migrations ?e id ?f None ?s = (Inl (ExecutionFailed ()), st')" by (metis prod.collapse)
  with migrations_run_in_order [OF _ _ r] show ?thesis by auto
qed

section \<open>Replicas starting at the same time\<close>

text \<open>
  The lock belongs to a session of PostgreSQL: a replica that dies releases it, and its open
  transaction is rolled back. A replica that ended may be started again.
\<close>

datatype replica = Starting | Applying "migration list" | Served | Died

inductive replica_step ::
  "(string \<Rightarrow> 's \<Rightarrow> 'e + 's) \<Rightarrow> migration list \<Rightarrow>
     's schema_state \<times> (nat \<Rightarrow> replica) \<Rightarrow> 's schema_state \<times> (nat \<Rightarrow> replica) \<Rightarrow> bool"
  for execute files
where
  acquire: "p i = Starting \<Longrightarrow> \<not> sm_locked st \<Longrightarrow>
    replica_step execute files (st, p)
      (st\<lparr>sm_locked := True, sm_versions := Some (applied st)\<rparr>, p(i := Applying (sorted_files files)))"
| one: "p i = Applying (f # fs) \<Longrightarrow> apply_migration execute f st = (Inr (), st') \<Longrightarrow>
    replica_step execute files (st, p) (st', p(i := Applying fs))"
| failed: "p i = Applying (f # fs) \<Longrightarrow> apply_migration execute f st = (Inl e, st') \<Longrightarrow>
    replica_step execute files (st, p) (st'\<lparr>sm_locked := False\<rparr>, p(i := Died))"
| finish: "p i = Applying [] \<Longrightarrow>
    replica_step execute files (st, p) (st\<lparr>sm_locked := False\<rparr>, p(i := Served))"
| crash: "p i = Applying fs \<Longrightarrow>
    replica_step execute files (st, p) (st\<lparr>sm_locked := False\<rparr>, p(i := Died))"
| restart: "p i \<in> {Served, Died} \<Longrightarrow>
    replica_step execute files (st, p) (st, p(i := Starting))"

lemma applied_simps [simp]:
  "applied (st\<lparr>sm_locked := b\<rparr>) = applied st" "applied (st\<lparr>sm_versions := Some vs\<rparr>) = vs"
  "applied (st\<lparr>sm_schema := x\<rparr>) = applied st"
  by (simp_all add: applied_def)

lemma pending_take:
  assumes "distinct (map fst fs)" and "vs' = vs @ map fst (take n (pending vs fs))"
  shows "pending vs' fs = drop n (pending vs fs)"
proof -
  let ?P = "pending vs fs"
  have d: "distinct (map fst ?P)" using assms(1) by (simp add: pending_def distinct_map inj_on_def)
  have "pending vs' fs = filter (\<lambda>f. fst f \<notin> fst ` set (take n ?P)) ?P"
    by (auto simp: pending_def assms(2) intro!: filter_cong)
  also have "\<dots> = filter (\<lambda>f. fst f \<notin> fst ` set (take n ?P)) (take n ?P @ drop n ?P)" by simp
  also have "\<dots> = filter (\<lambda>f. fst f \<notin> fst ` set (take n ?P)) (drop n ?P)" by (simp only: filter_append) simp
  also have "\<dots> = drop n ?P"
  proof (rule filter_True, rule ballI)
    fix f assume "f \<in> set (drop n ?P)"
    moreover have "distinct (map fst (take n ?P) @ map fst (drop n ?P))"
      using d by (metis append_take_drop_id map_append)
    ultimately show "fst f \<notin> fst ` set (take n ?P)" by auto
  qed
  finally show ?thesis .
qed

definition covers :: "string list \<Rightarrow> migration list \<Rightarrow> bool" where
  "covers vs fs \<longleftrightarrow> fst ` set fs \<subseteq> set vs"

lemma covers_Nil [simp]: "covers vs []"
  by (simp add: covers_def)

lemma covers_append [simp]: "covers vs (fs @ gs) \<longleftrightarrow> covers vs fs \<and> covers vs gs"
  by (auto simp: covers_def)

lemma covers_Cons [simp]: "covers vs (f # fs) \<longleftrightarrow> fst f \<in> set vs \<and> covers vs fs"
  by (simp add: covers_def)

lemma covers_mono: "covers vs fs \<Longrightarrow> set vs \<subseteq> set vs' \<Longrightarrow> covers vs' fs"
  by (auto simp: covers_def)

lemma covers_sorted: "covers vs (sorted_files files) \<longleftrightarrow> covers vs files"
  by (simp add: covers_def)

text \<open>The state of the migrating cluster, relative to the versions and schema it began with.\<close>

definition migrating ::
  "(string \<Rightarrow> 's \<Rightarrow> 'e + 's) \<Rightarrow> migration list \<Rightarrow> string list \<Rightarrow> 's \<Rightarrow> 's schema_state \<times> (nat \<Rightarrow> replica) \<Rightarrow> bool" where
  "migrating execute files vs s = (\<lambda>(st, p).
     (\<exists>n. ran execute (pending vs (sorted_files files)) vs s n st) \<and>
     (sm_locked st \<longleftrightarrow> (\<exists>i fs. p i = Applying fs)) \<and>
     (\<forall>i j fs gs. p i = Applying fs \<and> p j = Applying gs \<longrightarrow> i = j) \<and>
     (\<forall>i fs. p i = Applying fs \<longrightarrow> (\<exists>done. sorted_files files = done @ fs \<and> covers (applied st) done)) \<and>
     (\<forall>i. p i = Served \<longrightarrow> covers (applied st) files))"

lemma ran_Suc:
  assumes "ran execute ps vs s n st" and "n < length ps" and "execute (snd (ps ! n)) (sm_schema st) = Inr s1"
    and "applied st' = applied st @ [fst (ps ! n)]" and "sm_schema st' = s1"
  shows "ran execute ps vs s (Suc n) st'"
  using assms by (simp add: ran_def take_Suc_conv_app_nth run_scripts_append)

lemma one_migration:
  assumes "distinct (map fst files)" and "ran execute (pending vs (sorted_files files)) vs s n st"
    and "sorted_files files = before @ f # fs" and "covers (applied st) before"
    and "apply_migration execute f st = (Inr (), st')"
  shows "(\<exists>m. ran execute (pending vs (sorted_files files)) vs s m st') \<and> sm_locked st' = sm_locked st \<and>
    set (applied st') = insert (fst f) (set (applied st))"
proof (cases "fst f \<in> set (applied st)")
  case True
  with assms(2,5) show ?thesis by (auto simp: apply_migration_def)
next
  case False
  let ?P = "pending vs (sorted_files files)"
  from False assms(5) obtain s1 where s1: "execute (snd f) (sm_schema st) = Inr s1"
    "st' = st\<lparr>sm_schema := s1, sm_versions := Some (applied st @ [fst f])\<rparr>"
    by (auto simp: apply_migration_def split: sum.splits)
  have "drop n ?P = pending (applied st) (sorted_files files)"
    using pending_take [OF sorted_files_distinct [OF assms(1)]] assms(2) by (simp add: ran_def)
  also have "\<dots> = f # pending (applied st) fs"
    using assms(3,4) False by (auto simp: pending_def filter_empty_conv covers_def)
  finally have d: "drop n ?P = f # pending (applied st) fs" .
  then have f1: "n < length ?P" by (cases "n < length ?P") auto
  with d have f: "n < length ?P" "?P ! n = f" by (simp_all add: Cons_nth_drop_Suc [symmetric])
  have "ran execute ?P vs s (Suc n) st'"
    by (rule ran_Suc [OF assms(2) f(1)]) (simp_all add: f(2) s1)
  then show ?thesis using s1(2) by auto
qed

lemma migratingD:
  assumes "migrating execute files vs s (st, p)"
  shows "\<exists>n. ran execute (pending vs (sorted_files files)) vs s n st"
    "sm_locked st \<longleftrightarrow> (\<exists>i fs. p i = Applying fs)"
    "p i = Applying fs \<Longrightarrow> p j = Applying gs \<Longrightarrow> j = i"
    "p i = Applying fs \<Longrightarrow> \<exists>before. sorted_files files = before @ fs \<and> covers (applied st) before"
    "p i = Served \<Longrightarrow> covers (applied st) files"
  using assms unfolding migrating_def by blast+

text \<open>Leaving the lock, and taking it or going on with it.\<close>

lemma migrating_release:
  assumes "migrating execute files vs s (st, p)" and "p i = Applying fs" and "\<nexists>gs. q = Applying gs"
    and "q = Served \<Longrightarrow> covers (applied st) files"
  shows "migrating execute files vs s (st\<lparr>sm_locked := False\<rparr>, p(i := q))"
proof -
  note m = migratingD [OF assms(1)]
  have "\<nexists>j gs. (p(i := q)) j = Applying gs" using m(3) [OF assms(2)] assms(3) by (auto simp: fun_upd_def)
  with m(1,5) assms(4) show ?thesis by (auto simp: migrating_def ran_def split: if_splits)
qed

lemma migrating_hold:
  assumes "migrating execute files vs s (st, p)" and "\<And>j gs. p j = Applying gs \<Longrightarrow> j = i"
    and "\<exists>n. ran execute (pending vs (sorted_files files)) vs s n st'" and "sm_locked st'"
    and "sorted_files files = before @ fs" and "covers (applied st') before"
    and "set (applied st) \<subseteq> set (applied st')"
  shows "migrating execute files vs s (st', p(i := Applying fs))"
proof -
  have "covers (applied st') files" if "p j = Served" for j
    by (rule covers_mono [OF migratingD(5) [OF assms(1) that] assms(7)])
  with assms(2-6) show ?thesis by (auto simp: migrating_def split: if_splits)
qed

lemma migrating_step:
  assumes "replica_step execute files c c'" and "distinct (map fst files)" and "migrating execute files vs s c"
  shows "migrating execute files vs s c'"
  using assms
proof (induction rule: replica_step.induct)
  case (acquire p i st)
  note m = migratingD [OF acquire(4)]
  from acquire(2) m(2) have "\<And>j gs. p j = Applying gs \<Longrightarrow> j = i" by blast
  with m(1) show ?case by (intro migrating_hold [OF acquire(4), where before = "[]"]) (auto simp: ran_def)
next
  case (one p i f fs st st')
  note m = migratingD [OF one(4)]
  from m(4) [OF one(1)] obtain before where b: "sorted_files files = before @ f # fs" "covers (applied st) before"
    by blast
  from m(1) obtain n where n: "ran execute (pending vs (sorted_files files)) vs s n st" by blast
  have "sm_locked st" using m(2) one(1) by blast
  with one_migration [OF one(3) n b one(2)] have
    r: "\<exists>m. ran execute (pending vs (sorted_files files)) vs s m st'" "sm_locked st'"
      "set (applied st') = insert (fst f) (set (applied st))" by simp_all
  have c: "sorted_files files = (before @ [f]) @ fs" "covers (applied st') (before @ [f])" "set (applied st) \<subseteq> set (applied st')"
    using b(1) covers_mono [OF b(2), of "applied st'"] r(3) by (simp, auto)
  show ?case by (rule migrating_hold [OF one(4) _ r(1,2) c]) (rule m(3) [OF one(1)])
next
  case (failed p i f fs st e st')
  then have "st' = st" by (auto simp: apply_migration_def split: if_splits sum.splits)
  with migrating_release [OF failed(4) failed(1), of Died] show ?case by simp
next
  case (finish p i st)
  from migratingD(4) [OF finish(3,1)] have "covers (applied st) files" by (metis append_Nil2 covers_sorted)
  with migrating_release [OF finish(3,1), of Served] show ?case by simp
next
  case (crash p i fs st)
  with migrating_release [OF crash(3,1), of Died] show ?case by simp
next
  case (restart p i st)
  then have "p i \<noteq> Applying fs" for fs by auto
  with migratingD [OF restart(3)] show ?case unfolding migrating_def prod.case fun_upd_apply
    by (intro conjI allI impI; (metis replica.distinct)?)
qed

text \<open>C23. Replicas that start together never migrate twice: however their steps, failures, crashes
  and restarts interleave, at most one of them holds the lock, the schema is always the one the first
  \<open>n\<close> pending files build, run once each in sorted order with exactly their version rows, and a replica
  that goes on to serve finds every file applied.\<close>

theorem replicas_migrate_once:
  assumes "(replica_step execute files)\<^sup>*\<^sup>* (st, \<lambda>_. Starting) (st', p)"
    and "distinct (map fst files)" and "\<not> sm_locked st"
  shows "(\<exists>n. ran execute (pending (applied st) (sorted_files files)) (applied st) (sm_schema st) n st') \<and>
    (\<forall>i j fs gs. p i = Applying fs \<and> p j = Applying gs \<longrightarrow> i = j) \<and>
    (\<forall>i. p i = Served \<longrightarrow> covers (applied st') files)"
proof -
  have "migrating execute files (applied st) (sm_schema st) (st, \<lambda>_. Starting)"
    using ran_0 assms(3) by (auto simp: migrating_def)
  with assms(1) have "migrating execute files (applied st) (sm_schema st) (st', p)"
    by (induction rule: rtranclp_induct) (auto intro: migrating_step [OF _ assms(2)])
  note m = migratingD [OF this]
  from m(1) show ?thesis using m(3,5) by blast
qed

theorem replicas_migrate_once_witness:
  "\<exists>st' p. (replica_step (\<lambda>_ n. (Inr (n + 1) :: unit + nat)) [(''1.sql'', ''create'')])\<^sup>*\<^sup>*
     (\<lparr>sm_schema = 0, sm_versions = None, sm_locked = False\<rparr>, \<lambda>_. Starting) (st', p) \<and>
     p 0 = Served \<and> covers (applied st') [(''1.sql'', ''create'')]"
proof -
  let ?e = "\<lambda>_ n. (Inr (n + 1) :: unit + nat)" and ?f = "[(''1.sql'', ''create'')]"
  let ?s0 = "\<lparr>sm_schema = 0 :: nat, sm_versions = None, sm_locked = False\<rparr>"
  let ?s1 = "\<lparr>sm_schema = 0 :: nat, sm_versions = Some [], sm_locked = True\<rparr>"
  let ?s2 = "\<lparr>sm_schema = 1 :: nat, sm_versions = Some [''1.sql''], sm_locked = True\<rparr>"
  let ?p = "\<lambda>_ :: nat. Starting"
  have f: "sorted_files ?f = ?f" by (simp add: sorted_files_def)
  have "replica_step ?e ?f (?s0, ?p) (?s1, ?p(0 := Applying ?f))"
    using replica_step.acquire [of ?p 0 ?s0 ?e ?f] by (simp add: f applied_def)
  moreover have "replica_step ?e ?f (?s1, ?p(0 := Applying ?f)) (?s2, ?p(0 := Applying []))"
    using replica_step.one [of "?p(0 := Applying ?f)" 0 "(''1.sql'', ''create'')" "[]" ?e ?s1 ?s2 ?f]
    by (simp add: apply_migration_def applied_def)
  moreover have "replica_step ?e ?f (?s2, ?p(0 := Applying [])) (?s2\<lparr>sm_locked := False\<rparr>, ?p(0 := Served))"
    using replica_step.finish [of "?p(0 := Applying [])" 0 ?e ?f ?s2] by simp
  ultimately have r: "(replica_step ?e ?f)\<^sup>*\<^sup>* (?s0, ?p) (?s2\<lparr>sm_locked := False\<rparr>, ?p(0 := Served))"
    by (meson converse_rtranclp_into_rtranclp r_into_rtranclp)
  from replicas_migrate_once [OF r, THEN conjunct2, THEN conjunct2] have
    "covers (applied (?s2\<lparr>sm_locked := False\<rparr>)) ?f" by simp
  with r show ?thesis by (intro exI conjI) (assumption, auto)
qed

end
