(* ===== verification/Graph_Catalog.thy ===== *)
theory Graph_Catalog
  imports Store "HOL-Library.List_Lexorder" "HOL-Library.Char_ord"
begin

text \<open>
  The data of a workflow catalogue, shared by \<open>bantam/workflow_graph.py\<close> and
  \<open>bantam/repository_graph.py\<close>: nodes, edges, flows, the canonical JSON text whose digest signs
  a catalogue, and the dictionary updates by which a catalogue grows.

  Two characters of the generated texts lie outside the 8-bit characters of the model: the em dash is
  written \<open>EM_DASH\<close> and the ellipsis \<open>ELLIPSIS\<close>.
\<close>

definition EM_DASH :: string where "EM_DASH = [CHR 0x97]"
definition ELLIPSIS :: string where "ELLIPSIS = [CHR 0x85]"

section \<open>Canonical JSON\<close>

text \<open>\<open>json.dumps\<close> with sorted keys, the shortest separators and \<open>ensure_ascii=False\<close>.\<close>

definition json_char :: "char \<Rightarrow> string" where
  "json_char c =
     (if c = CHR 0x22 \<or> c = CHR 0x5C then [CHR 0x5C, c]
      else if c = CHR 0x08 then [CHR 0x5C, CHR ''b'']
      else if c = CHR 0x09 then [CHR 0x5C, CHR ''t'']
      else if c = CHR 0x0A then [CHR 0x5C, CHR ''n'']
      else if c = CHR 0x0C then [CHR 0x5C, CHR ''f'']
      else if c = CHR 0x0D then [CHR 0x5C, CHR ''r'']
      else if ord c < 32 then [CHR 0x5C] @ ''u00'' @ hex_str 2 (ord c)
      else [c])"

definition json_string :: "string \<Rightarrow> string" where
  "json_string s = [CHR 0x22] @ concat (map json_char s) @ [CHR 0x22]"

fun canonical_json :: "json \<Rightarrow> string" where
  "canonical_json JNull = ''null''"
| "canonical_json (JBool b) = (if b then ''true'' else ''false'')"
| "canonical_json (JInt i) = int_str i"
| "canonical_json (JStr s) = json_string s"
| "canonical_json (JList xs) = ''['' @ py_join '','' (map canonical_json xs) @ '']''"
| "canonical_json (JObj kvs) =
     ''{'' @ py_join '','' (map snd (sort_key fst
       (map (\<lambda>kv. (fst kv, json_string (fst kv) @ '':'' @ canonical_json (snd kv))) kvs))) @ ''}''"

definition digest :: "(string \<Rightarrow> string) \<Rightarrow> json \<Rightarrow> string" where
  "digest sha256_hex v = sha256_hex (canonical_json v)"

section \<open>Nodes, edges and flows\<close>

text \<open>\<open>gn_fields\<close> holds the fields of a node that only some kinds have.\<close>

record gnode =
  gn_id :: string
  gn_kind :: string
  gn_label :: string
  gn_roles :: "string list"
  gn_fields :: "(string \<times> json) list"

record gedge =
  ge_source :: string
  ge_target :: string
  ge_type :: string
  ge_flow_ids :: "string list"

record gflow =
  gf_flow_id :: string
  gf_name :: string
  gf_description :: string
  gf_actor_roles :: "string list"
  gf_route :: "(string \<times> string) option"
  gf_node_ids :: "string list"
  gf_documentation_path :: "string option"
  gf_documentation :: "string option"

record catalog =
  cat_nodes :: "gnode list"
  cat_edges :: "gedge list"
  cat_flows :: "gflow list"
  cat_digest :: string

text \<open>The catalogue of another repository adds where it was read from and the files that did not parse.\<close>

record repository_catalog = catalog +
  rc_source :: "json option"
  rc_parse_errors :: "json list"

definition strings :: "string list \<Rightarrow> json" where
  "strings xs = JList (map JStr xs)"

definition or_null :: "string option \<Rightarrow> json" where
  "or_null v = (case v of None \<Rightarrow> JNull | Some s \<Rightarrow> JStr s)"

text \<open>\<open>roles\<close> is a field of route nodes, \<open>flow_ids\<close> of edges that a flow uses.\<close>

definition node_json :: "gnode \<Rightarrow> json" where
  "node_json n = JObj ([(''id'', JStr (gn_id n)), (''kind'', JStr (gn_kind n)), (''label'', JStr (gn_label n))] @
     (if gn_roles n = [] then [] else [(''roles'', strings (gn_roles n))]) @ gn_fields n)"

definition edge_json :: "gedge \<Rightarrow> json" where
  "edge_json e = JObj ([(''source'', JStr (ge_source e)), (''target'', JStr (ge_target e)), (''type'', JStr (ge_type e))] @
     (if ge_flow_ids e = [] then [] else [(''flow_ids'', strings (ge_flow_ids e))]))"

definition flow_json :: "gflow \<Rightarrow> json" where
  "flow_json f = JObj
     [(''flow_id'', JStr (gf_flow_id f)), (''name'', JStr (gf_name f)), (''description'', JStr (gf_description f)),
      (''actor_roles'', strings (gf_actor_roles f)), (''source'', JStr ''generated''),
      (''route'', case gf_route f of None \<Rightarrow> JNull
         | Some (method, path) \<Rightarrow> JObj [(''method'', JStr method), (''path'', JStr path)]),
      (''node_ids'', strings (gf_node_ids f)), (''documentation_path'', or_null (gf_documentation_path f)),
      (''documentation'', or_null (gf_documentation f))]"

text \<open>The dictionary \<open>{node["id"]: node for node in nodes}\<close>: the last node of an id counts.\<close>

definition node_of :: "gnode list \<Rightarrow> string \<Rightarrow> gnode option" where
  "node_of nodes i = row_get gn_id i (rev nodes)"

lemma node_of_None: "node_of nodes i = None \<longleftrightarrow> i \<notin> gn_id ` set nodes"
  by (simp add: node_of_def row_get_None)

lemma node_of_Some: "node_of nodes i = Some n \<Longrightarrow> n \<in> set nodes \<and> gn_id n = i"
  by (auto simp: node_of_def dest: row_get_SomeD)

lemma node_of_distinct:
  "distinct (map gn_id nodes) \<Longrightarrow> n \<in> set nodes \<Longrightarrow> node_of nodes (gn_id n) = Some n"
  unfolding node_of_def by (rule row_get_in) (auto simp: rev_map [symmetric])

text \<open>The pairs of neighbours, \<open>zip(node_ids, node_ids[1:])\<close>.\<close>

definition transitions :: "string list \<Rightarrow> (string \<times> string) list" where
  "transitions ids = zip ids (tl ids)"

lemma transitions_simps [simp]:
  "transitions [] = []" "transitions [x] = []" "transitions (x # y # zs) = (x, y) # transitions (y # zs)"
  by (simp_all add: transitions_def)

lemma transitions_iff: "(a, b) \<in> set (transitions ids) \<longleftrightarrow> (\<exists>i. Suc i < length ids \<and> a = ids ! i \<and> b = ids ! Suc i)"
proof -
  have "length (transitions ids) = length ids - 1" by (simp add: transitions_def)
  then have "i < length (transitions ids) \<longleftrightarrow> Suc i < length ids" for i by auto
  moreover have "Suc i < length ids \<Longrightarrow> transitions ids ! i = (ids ! i, ids ! Suc i)" for i
    by (simp add: transitions_def nth_tl)
  ultimately show ?thesis unfolding in_set_conv_nth by (metis prod.inject)
qed

lemma transitions_ends: "(a, b) \<in> set (transitions ids) \<Longrightarrow> a \<in> set ids \<and> b \<in> set ids"
  by (auto simp: transitions_iff)

section \<open>Text helpers\<close>

text \<open>\<open>node.get(key)\<close> for a field that holds text, and \<open>or\<close> over texts.\<close>

definition text_field :: "gnode \<Rightarrow> string \<Rightarrow> string" where
  "text_field n key = (case map_of (gn_fields n) key of Some (JStr s) \<Rightarrow> s | _ \<Rightarrow> [])"

definition first_text :: "string list \<Rightarrow> string" where
  "first_text xs = (case filter (\<lambda>s. s \<noteq> []) xs of [] \<Rightarrow> [] | s # _ \<Rightarrow> s)"

definition text_list :: "gnode \<Rightarrow> string \<Rightarrow> string list" where
  "text_list n key =
     (case map_of (gn_fields n) key of
        Some (JList xs) \<Rightarrow> map (\<lambda>x. case x of JStr s \<Rightarrow> s | _ \<Rightarrow> []) xs
      | _ \<Rightarrow> [])"

definition unticked :: "string \<Rightarrow> string" where
  "unticked s = map (\<lambda>c. if c = CHR ''`'' then CHR 0x27 else c) s"

text \<open>A numbered line of a code path.\<close>

definition path_line :: "nat \<Rightarrow> gnode \<Rightarrow> string \<Rightarrow> string" where
  "path_line index n evidence =
     nat_str index @ ''. **'' @ gn_kind n @ '' '' @ EM_DASH @ '' '' @ gn_label n @ ''** '' @ EM_DASH @ '' `'' @
     unticked evidence @ ''`''"

definition node_evidence :: "gnode \<Rightarrow> string" where
  "node_evidence n = first_text
     [text_field n ''signature'', text_field n ''condition'',
      (if text_field n ''operation'' = [] then []
       else text_field n ''operation'' @ '' '' @ py_join '', '' (text_list n ''tables'')),
      text_field n ''symbol'', text_field n ''function_symbol'', gn_id n]"

definition newline :: string where "newline = [CHR 0x0A]"

end
