(* ===== verification/Catalog_Builder.thy ===== *)
theory Catalog_Builder
  imports Graph_Catalog Url
begin

text \<open>
  Building the built-in catalogue: \<open>CatalogBuilder\<close> of \<open>bantam/workflow_graph.py\<close>. What
  Python's \<open>ast\<close> module yields for a function is a \<open>fact\<close>: its place, signature, route and
  roles, and the places of its conditions, transactions and calls in the order of the visitor. From
  there on everything is the builder: nodes, edges, resolved calls, event order, flows and the digest.
  \<open>sha256_hex\<close> is a parameter, and \<open>docs\<close> are the Markdown pages of the repository.
\<close>

section \<open>Facts\<close>

record check_site =
  cs_line :: int
  cs_col :: int
  cs_condition :: string
  cs_failure_outcomes :: "string list"

record transaction_site =
  ts_line :: int
  ts_col :: int

text \<open>The callee: a name, an attribute of a name, or of something else; with the dotted text.\<close>

datatype callee = Name string | Attribute "string option" string | OtherCallee

text \<open>The SQL text of the first argument, with the operation and the tables found in it.\<close>

record sql_text =
  sq_statement :: string
  sq_operation :: string
  sq_tables :: "string list"

record call_site =
  cl_line :: int
  cl_col :: int
  cl_callee :: callee
  cl_rendered :: string
  cl_sql :: "sql_text option"

record event =
  ev_node_id :: string
  ev_call :: "string option"

record fact =
  ft_symbol :: string
  ft_module :: string
  ft_class_name :: string
  ft_name :: string
  ft_file :: string
  ft_line :: int
  ft_signature :: string
  ft_imports :: "string \<Rightarrow> string option"
  ft_route :: "(string \<times> string) option"
  ft_roles :: "string list"
  ft_checks :: "check_site list"
  ft_transactions :: "transaction_site list"
  ft_calls :: "call_site list"

definition node_id :: "string \<Rightarrow> string" where
  "node_id symbol = ''function:'' @ symbol"

section \<open>The graph under construction\<close>

record graph =
  gr_nodes :: "gnode list"
  gr_edges :: "gedge list"

definition empty_graph :: graph where
  "empty_graph = \<lparr>gr_nodes = [], gr_edges = []\<rparr>"

text \<open>\<open>self.nodes[id] = node\<close>, and \<open>_edge\<close>, whose empty flow is no flow.\<close>

definition put_node :: "gnode \<Rightarrow> graph \<Rightarrow> graph" where
  "put_node n g = g\<lparr>gr_nodes :=
     (if known gn_id (gn_id n) (gr_nodes g) then rows_update (\<lambda>m. gn_id m = gn_id n) (\<lambda>_. n) (gr_nodes g)
      else gr_nodes g @ [n])\<rparr>"

definition edge_key :: "gedge \<Rightarrow> string list" where
  "edge_key e = [ge_source e, ge_target e, ge_type e]"

definition add_edge :: "string \<Rightarrow> string \<Rightarrow> string \<Rightarrow> string \<Rightarrow> graph \<Rightarrow> graph" where
  "add_edge source target edge_type flow_id g =
     (let key = [source, target, edge_type];
          edges = (if known edge_key key (gr_edges g) then gr_edges g
                   else gr_edges g @ [\<lparr>ge_source = source, ge_target = target, ge_type = edge_type, ge_flow_ids = []\<rparr>]) in
      g\<lparr>gr_edges := rows_update (\<lambda>e. edge_key e = key \<and> flow_id \<noteq> [] \<and> flow_id \<notin> set (ge_flow_ids e))
           (\<lambda>e. e\<lparr>ge_flow_ids := sort (ge_flow_ids e @ [flow_id])\<rparr>) edges\<rparr>)"

section \<open>Text\<close>

text \<open>\<open>str.split()\<close>, the words between white space.\<close>

fun py_words :: "string \<Rightarrow> string \<Rightarrow> string list" where
  "py_words w [] = (if w = [] then [] else [w])"
| "py_words w (c # cs) =
     (if py_isspace c then (if w = [] then py_words [] cs else w # py_words [] cs) else py_words (w @ [c]) cs)"

definition bounded :: "string \<Rightarrow> nat \<Rightarrow> string" where
  "bounded raw limit =
     (let text = py_join '' '' (py_words [] raw) in
      if length text \<le> limit then text else take (limit - 1) text @ ELLIPSIS)"

definition py_capitalize :: "string \<Rightarrow> string" where
  "py_capitalize s = (case s of [] \<Rightarrow> [] | c # cs \<Rightarrow> py_upper [c] @ py_lower cs)"

definition humanize :: "string \<Rightarrow> string" where
  "humanize s = py_capitalize (py_strip (py_replace_char (CHR ''-'') (CHR '' '') (py_replace_char (CHR ''_'') (CHR '' '') s)))"

definition last_part :: "string \<Rightarrow> string" where
  "last_part s = last (py_split (CHR ''.'') s)"

section \<open>Resolving a call\<close>

definition IGNORED_CALL_SUFFIXES :: "string list" where
  "IGNORED_CALL_SUFFIXES =
     [''append'', ''astype'', ''connection'', ''date'', ''decode'', ''encode'', ''execute'', ''extend'', ''fetchall'',
      ''fetchone'', ''format'', ''get'', ''hexdigest'', ''isoformat'', ''items'', ''join'', ''lower'', ''pop'',
      ''removeprefix'', ''replace'', ''set_cookie'', ''split'', ''strip'', ''transaction'', ''upper'', ''values'']"

definition IGNORED_CALLS :: "string list" where
  "IGNORED_CALLS =
     [''bool'', ''bytes'', ''date'', ''dict'', ''enumerate'', ''int'', ''isinstance'', ''len'', ''list'', ''max'', ''min'',
      ''next'', ''range'', ''set'', ''str'', ''sum'', ''tuple'', ''uuid4'']"

definition STATE_SERVICE_CLASSES :: "string \<Rightarrow> string option" where
  "STATE_SERVICE_CLASSES = map_of
     [(''auth'', ''bantam.auth.AuthService''), (''claims'', ''bantam.auth.SignedClaimService''),
      (''database'', ''bantam.database.Database''), (''ledger'', ''bantam.ledger.LedgerService''),
      (''mfa'', ''bantam.mfa.MfaService''), (''sca'', ''bantam.sca.SCAService''), (''asvs'', ''bantam.asvs.AsvsService''),
      (''asvs_ai'', ''bantam.asvs_ai.AsvsAiService''), (''workflow_graph'', ''bantam.workflow_graph.WorkflowGraphService''),
      (''repository_graph'', ''bantam.repository_graph.RepositoryGraphService'')]"

definition SELF_SERVICE_CLASSES :: "string \<Rightarrow> string option" where
  "SELF_SERVICE_CLASSES = map_of
     [(''sca'', ''bantam.sca.SCAService''), (''publisher'', ''bantam.events.EventPublisher''),
      (''pool'', ''psycopg_pool.ConnectionPool'')]"

definition dotted :: "string option \<Rightarrow> string \<Rightarrow> string" where
  "dotted owner name = (case owner of None \<Rightarrow> [] | Some o' \<Rightarrow> o' @ ''.'' @ name)"

text \<open>The candidates in the order in which they are tried; the first that is a function of the program counts.\<close>

definition attribute_candidates :: "fact \<Rightarrow> call_site \<Rightarrow> string option \<Rightarrow> string \<Rightarrow> string list" where
  "attribute_candidates f call owner attr =
     (let parts = py_split (CHR ''.'') (cl_rendered call);
          index = length (takeWhile (\<lambda>p. p \<noteq> ''state'') parts) in
      (case owner of
         None \<Rightarrow> []
       | Some o' \<Rightarrow>
           (if o' = ''self'' \<and> ft_class_name f \<noteq> [] then [ft_module f @ ''.'' @ ft_class_name f @ ''.'' @ attr] else []) @
           [case ft_imports f o' of Some (c # cs) \<Rightarrow> (c # cs) @ ''.'' @ attr | _ \<Rightarrow> []]) @
      (if ''state'' \<in> set parts \<and> index + 2 < length parts
       then [dotted (STATE_SERVICE_CLASSES (parts ! (index + 1))) (parts ! (index + 2))] else []) @
      (if 2 \<le> length parts \<and> hd parts = ''self''
       then [dotted (SELF_SERVICE_CLASSES (parts ! 1)) (last parts)] else []))"

definition resolve_call :: "string list \<Rightarrow> fact \<Rightarrow> call_site \<Rightarrow> string option" where
  "resolve_call symbols f call =
     (let rendered = cl_rendered call in
      if rendered = [] \<or> rendered \<in> set IGNORED_CALLS \<or> last_part rendered \<in> set IGNORED_CALL_SUFFIXES then None
      else case cl_callee call of
        Name n \<Rightarrow>
          (case find (\<lambda>s. s \<in> set symbols)
             ((case ft_imports f n of None \<Rightarrow> [] | Some i \<Rightarrow> [i]) @ [ft_module f @ ''.'' @ n]) of
             Some s \<Rightarrow> Some s
           | None \<Rightarrow> (case filter (\<lambda>s. last_part s = n) symbols of [s] \<Rightarrow> Some s | _ \<Rightarrow> None))
      | Attribute owner attr \<Rightarrow> find (\<lambda>s. s \<in> set symbols) (attribute_candidates f call owner attr)
      | OtherCallee \<Rightarrow> None)"

lemma resolve_call_known: "resolve_call symbols f call = Some t \<Longrightarrow> t \<in> set symbols"
  unfolding resolve_call_def Let_def
  by (auto dest!: find_SomeD dest: filter_oneD split: if_splits callee.splits option.splits list.splits)

section \<open>Extracting the events\<close>

text \<open>How often a key occurred before, for the running number of a node id.\<close>

definition occurrences :: "string \<Rightarrow> string list \<Rightarrow> nat" where
  "occurrences key seen = length (filter (\<lambda>k. k = key) seen)"

text \<open>The first of equal texts stays.\<close>

definition unique_first :: "string list \<Rightarrow> string list" where
  "unique_first xs = rev (remdups (rev xs))"

text \<open>A candidate event with its line, column and rank, by which the events are sorted.\<close>

type_synonym candidate = "int list \<times> event"

record extraction =
  ex_graph :: graph
  ex_seen :: "string list"
  ex_candidates :: "candidate list"

definition fingerprint :: "(string \<Rightarrow> string) \<Rightarrow> string \<Rightarrow> string" where
  "fingerprint sha256_hex text = take 12 (sha256_hex text)"

definition extract_check :: "(string \<Rightarrow> string) \<Rightarrow> fact \<Rightarrow> check_site \<Rightarrow> extraction \<Rightarrow> extraction" where
  "extract_check sha256_hex f c x =
     (let condition = bounded (cs_condition c) 240;
          key = fingerprint sha256_hex condition;
          i = ''check:'' @ ft_symbol f @ '':'' @ key @ '':'' @ nat_str (Suc (occurrences key (ex_seen x)));
          n = \<lparr>gn_id = i, gn_kind = ''check'', gn_label = ''Check '' @ bounded condition 72, gn_roles = [],
            gn_fields = [(''condition'', JStr condition), (''function_symbol'', JStr (ft_symbol f)),
              (''signature'', JStr (ft_signature f)), (''file'', JStr (ft_file f)), (''line'', JInt (cs_line c)),
              (''failure_outcomes'', strings (unique_first (map (\<lambda>t. bounded t 120) (cs_failure_outcomes c))))]\<rparr> in
      \<lparr>ex_graph = add_edge (node_id (ft_symbol f)) i ''checks'' [] (put_node n (ex_graph x)),
       ex_seen = ex_seen x @ [key],
       ex_candidates = ex_candidates x @ [([cs_line c, cs_col c, 2], \<lparr>ev_node_id = i, ev_call = None\<rparr>)]\<rparr>)"

definition extract_transaction :: "fact \<Rightarrow> transaction_site \<Rightarrow> extraction \<Rightarrow> extraction" where
  "extract_transaction f t x =
     (let i = ''transaction:'' @ ft_symbol f @ '':'' @ int_str (ts_line t);
          n = \<lparr>gn_id = i, gn_kind = ''transaction'', gn_label = ''PostgreSQL transaction'', gn_roles = [],
            gn_fields = [(''function_symbol'', JStr (ft_symbol f)), (''file'', JStr (ft_file f)), (''line'', JInt (ts_line t)),
              (''durability'', JStr ''all operations commit or roll back together'')]\<rparr> in
      x\<lparr>ex_graph := add_edge (node_id (ft_symbol f)) i ''contains'' [] (put_node n (ex_graph x)),
        ex_candidates := ex_candidates x @ [([ts_line t, ts_col t, 0], \<lparr>ev_node_id = i, ev_call = None\<rparr>)]\<rparr>)"

definition is_write :: "string \<Rightarrow> bool" where
  "is_write operation \<longleftrightarrow> operation \<in> {''INSERT'', ''UPDATE'', ''DELETE''}"

definition extract_sql :: "(string \<Rightarrow> string) \<Rightarrow> fact \<Rightarrow> call_site \<Rightarrow> sql_text \<Rightarrow> extraction \<Rightarrow> extraction" where
  "extract_sql sha256_hex f call q x =
     (let operation = sq_operation q; key = fingerprint sha256_hex (sq_statement q);
          i = ''sql:'' @ ft_symbol f @ '':'' @ key @ '':'' @ nat_str (Suc (occurrences key (ex_seen x)));
          kind = (if operation = ''SELECT'' \<and> py_contains (py_upper (sq_statement q)) ''FOR UPDATE'' then ''lock''
                  else if is_write operation then ''effect'' else ''query'');
          target = py_join '', '' (take 2 (sq_tables q));
          n = \<lparr>gn_id = i, gn_kind = kind,
            gn_label = py_capitalize operation @ '' '' @ (if target = [] then ''database'' else target), gn_roles = [],
            gn_fields = [(''operation'', JStr operation), (''tables'', strings (sq_tables q)), (''sql'', JStr (sq_statement q)),
              (''durable'', JBool (is_write operation)), (''function_symbol'', JStr (ft_symbol f)),
              (''file'', JStr (ft_file f)), (''line'', JInt (cl_line call))]\<rparr> in
      \<lparr>ex_graph = add_edge (node_id (ft_symbol f)) i (if operation = ''SELECT'' then ''reads'' else ''writes'') []
         (put_node n (ex_graph x)),
       ex_seen = ex_seen x @ [key],
       ex_candidates = ex_candidates x @ [([cl_line call, cl_col call, 3], \<lparr>ev_node_id = i, ev_call = None\<rparr>)]\<rparr>)"

definition extract_call :: "(string \<Rightarrow> string) \<Rightarrow> string list \<Rightarrow> fact \<Rightarrow> call_site \<Rightarrow> extraction \<Rightarrow> extraction" where
  "extract_call sha256_hex symbols f call x =
     (case (if py_endswith (cl_rendered call) ''.execute'' then cl_sql call else None) of
        Some q \<Rightarrow> extract_sql sha256_hex f call q x
      | None \<Rightarrow>
          (case resolve_call symbols f call of
             None \<Rightarrow> x
           | Some target \<Rightarrow>
               if target = ft_symbol f then x
               else x\<lparr>ex_graph := add_edge (node_id (ft_symbol f)) (node_id target) ''calls'' [] (ex_graph x),
                      ex_candidates := ex_candidates x @
                        [([cl_line call, cl_col call, 1], \<lparr>ev_node_id = node_id target, ev_call = Some target\<rparr>)]\<rparr>))"

text \<open>The counters of the conditions and of the SQL texts start afresh for every function.\<close>

definition extract_events :: "(string \<Rightarrow> string) \<Rightarrow> string list \<Rightarrow> fact \<Rightarrow> graph \<Rightarrow> graph \<times> event list" where
  "extract_events sha256_hex symbols f g =
     (let x1 = fold (extract_check sha256_hex f) (ft_checks f) \<lparr>ex_graph = g, ex_seen = [], ex_candidates = []\<rparr>;
          x2 = fold (extract_transaction f) (ft_transactions f) x1;
          x3 = fold (extract_call sha256_hex symbols f) (ft_calls f) (x2\<lparr>ex_seen := []\<rparr>) in
      (ex_graph x3, map snd (sort_key fst (ex_candidates x3))))"

definition function_node :: "fact \<Rightarrow> gnode" where
  "function_node f = \<lparr>gn_id = node_id (ft_symbol f), gn_kind = ''function'', gn_label = humanize (ft_name f), gn_roles = [],
     gn_fields = [(''symbol'', JStr (ft_symbol f)), (''signature'', JStr (ft_signature f)), (''file'', JStr (ft_file f)),
       (''line'', JInt (ft_line f))]\<rparr>"

definition index_functions :: "fact list \<Rightarrow> graph \<Rightarrow> graph" where
  "index_functions facts g = fold (\<lambda>f. put_node (function_node f)) facts g"

type_synonym program = "(fact \<times> event list) list"

fun extract_all :: "(string \<Rightarrow> string) \<Rightarrow> string list \<Rightarrow> fact list \<Rightarrow> graph \<Rightarrow> graph \<times> program" where
  "extract_all sha256_hex symbols [] g = (g, [])"
| "extract_all sha256_hex symbols (f # fs) g =
     (let (g1, evs) = extract_events sha256_hex symbols f g; (g2, rest) = extract_all sha256_hex symbols fs g1 in
      (g2, (f, evs) # rest))"

section \<open>Expanding a function into its code path\<close>

definition program_of :: "string \<Rightarrow> program \<Rightarrow> (fact \<times> event list) option" where
  "program_of symbol p = row_get (\<lambda>fe. ft_symbol (fst fe)) symbol p"

function expand :: "program \<Rightarrow> string \<Rightarrow> nat \<Rightarrow> string list \<Rightarrow> string list \<Rightarrow> string list" where
  "expand p symbol depth stack sequence =
     (if depth > 2 \<or> symbol \<in> set stack then sequence
      else case program_of symbol p of
        None \<Rightarrow> sequence
      | Some (f, evs) \<Rightarrow>
          foldl (\<lambda>s e. case ev_call e of
              None \<Rightarrow> s @ [ev_node_id e]
            | Some target \<Rightarrow> expand p target (Suc depth) (symbol # stack) (s @ [ev_node_id e])) sequence evs)"
  by pat_completeness auto
termination
  by (relation "measure (\<lambda>(p, symbol, depth, stack, sequence). 3 - depth)") auto

declare expand.simps [simp del]

definition dedupe_consecutive :: "string list \<Rightarrow> string list" where
  "dedupe_consecutive values = rev (foldl (\<lambda>r v. if r \<noteq> [] \<and> hd r = v then r else v # r) [] values)"

section \<open>Flows\<close>

definition DOC_BY_HANDLER :: "string \<Rightarrow> string option" where
  "DOC_BY_HANDLER = map_of
     [(''register'', ''registration.md''),
      (''login'', ''login.md''),
      (''logout'', ''logout.md''),
      (''me'', ''view-profile.md''),
      (''submit_kyc'', ''kyc-submit.md''),
      (''list_accounts'', ''list-accounts.md''),
      (''open_account'', ''open-account.md''),
      (''list_account_transactions'', ''account-transactions.md''),
      (''list_notifications'', ''notifications.md''),
      (''account_status_claim'', ''account-status-claim.md''),
      (''create_sca_challenge'', ''sca-challenge.md''),
      (''create_transfer'', ''transfer.md''),
      (''get_transfer'', ''get-transfer.md''),
      (''admin_list_customers'', ''admin-list-customers.md''),
      (''admin_decide_kyc'', ''kyc-decision.md''),
      (''operator_set_account_status'', ''freeze-unfreeze-account.md''),
      (''admin_demo_deposit'', ''demo-deposit.md''),
      (''admin_reverse_transaction'', ''reverse-transaction.md''),
      (''operator_list_transactions'', ''admin-list-transactions.md''),
      (''list_risk_alerts'', ''risk-alerts.md''),
      (''create_manual_risk_alert'', ''risk-alerts.md''),
      (''review_risk_alert'', ''risk-alerts.md''),
      (''list_audit_events'', ''audit-events.md''),
      (''run_reconciliation'', ''reconciliation.md'')]"

definition FLOW_LABELS :: "string \<Rightarrow> string option" where
  "FLOW_LABELS = map_of
     [(''register'', ''Register a customer''),
      (''register_aspis_auditor'', ''Register an Aspis auditor''),
      (''login'', ''Sign in''),
      (''logout'', ''Sign out''),
      (''me'', ''View profile''),
      (''mfa_state'', ''View MFA state''),
      (''begin_mfa_enrollment'', ''Begin MFA enrollment''),
      (''remove_passkey'', ''Remove a passkey''),
      (''remove_totp'', ''Remove TOTP''),
      (''submit_kyc'', ''Submit KYC''),
      (''list_accounts'', ''List accounts''),
      (''open_account'', ''Open an account''),
      (''get_account'', ''View an account''),
      (''list_account_transactions'', ''View account activity''),
      (''list_notifications'', ''View notifications''),
      (''account_status_claim'', ''Issue an account-status claim''),
      (''create_sca_challenge'', ''Create an SCA challenge''),
      (''create_transfer'', ''Send money''),
      (''get_transfer'', ''View a transfer''),
      (''list_aspis_auditor_requests'', ''List Aspis auditor requests''),
      (''decide_aspis_auditor_request'', ''Decide an Aspis auditor request''),
      (''admin_asvs_overview'', ''View ASVS assurance''),
      (''admin_run_asvs'', ''Run ASVS verification''),
      (''admin_generate_asvs_test_plan'', ''Generate an ASVS test plan''),
      (''admin_execute_asvs_test_plan'', ''Execute an ASVS test plan''),
      (''admin_list_users'', ''List admin users''),
      (''admin_create_user'', ''Create an admin user''),
      (''admin_list_customers'', ''List customers''),
      (''admin_decide_kyc'', ''Decide customer KYC''),
      (''operator_set_account_status'', ''Freeze or unfreeze an account''),
      (''admin_demo_deposit'', ''Create a synthetic deposit''),
      (''admin_reverse_transaction'', ''Reverse a transaction''),
      (''operator_list_transactions'', ''List transactions''),
      (''list_risk_alerts'', ''List risk alerts''),
      (''create_manual_risk_alert'', ''Create a risk alert''),
      (''review_risk_alert'', ''Review a risk alert''),
      (''list_audit_events'', ''View audit events''),
      (''run_reconciliation'', ''Run reconciliation''),
      (''health'', ''Check service health'')]"

definition SYSTEM_FLOWS :: "(string \<times> string \<times> string \<times> string) list" where
  "SYSTEM_FLOWS =
     [(''async-outbox-publish'', ''Publish transactional outbox'', ''bantam.events.OutboxPublisher.publish_batch'', ''async-outbox-publish.md''),
      (''async-risk-worker'', ''Generate a risk alert from an event'', ''bantam.workers.create_risk_alert'', ''async-risk-worker.md''),
      (''async-notification-worker'', ''Generate transfer notifications'', ''bantam.workers.create_notifications'', ''async-notification-worker.md'')]"

text \<open>The Markdown pages of the repository by their path.\<close>

definition documentation :: "(string \<Rightarrow> string option) \<Rightarrow> string option \<Rightarrow> string option \<times> string option" where
  "documentation docs doc_name =
     (case doc_name of
        None \<Rightarrow> (None, None)
      | Some name \<Rightarrow>
          let path = ''docs/reference/flows/'' @ name in
          (case docs path of None \<Rightarrow> (None, None) | Some page \<Rightarrow> (Some path, Some page)))"

text \<open>
  The numbered lines of the first sixteen nodes, and the note on the rest. Every id of a code path is
  a node of the graph (lemma \<open>route_flow_ok\<close>), so no line is missing.
\<close>

definition code_path :: "graph \<Rightarrow> string list \<Rightarrow> string list" where
  "code_path g sequence =
     concat (map (\<lambda>(index, i). case node_of (gr_nodes g) i of
         None \<Rightarrow> [] | Some n \<Rightarrow> [path_line index n (node_evidence n)]) (enumerate 1 (take 16 sequence))) @
     (if length sequence > 16
      then [[], ''The explorer contains '' @ nat_str (length sequence - 16) @ '' '' @
        ''additional extracted nodes. Select them in the code lane for '' @ ''their exact evidence.'']
      else [])"

definition generated_documentation ::
  "graph \<Rightarrow> string \<Rightarrow> string list \<Rightarrow> string \<Rightarrow> string \<Rightarrow> fact \<Rightarrow> string list \<Rightarrow> string" where
  "generated_documentation g title roles method path f sequence =
     py_join newline
       ([''# Flow: '' @ title, [],
         ''This reference is generated deterministically from the current Python AST '',
         ''because no authored Markdown page is mapped to this route.'', [],
         ''- **Entry:** `'' @ method @ '' '' @ path @ ''`'',
         ''- **Actor:** `'' @ py_join ''`, `'' roles @ ''`'',
         ''- **Handler:** `'' @ ft_symbol f @ ''`'',
         ''- **Signature:** `'' @ ft_signature f @ ''`'', [],
         ''## Extracted code path'', []] @ code_path g sequence) @ newline"

definition generated_system_documentation :: "graph \<Rightarrow> string \<Rightarrow> fact \<Rightarrow> string list \<Rightarrow> string" where
  "generated_system_documentation g title f sequence =
     py_join newline
       ([''# Flow: '' @ title, [],
         ''This reference is generated deterministically from the current Python AST.'', [],
         ''- **Actor:** `SYSTEM`'',
         ''- **Entry function:** `'' @ ft_symbol f @ ''`'',
         ''- **Signature:** `'' @ ft_signature f @ ''`'', [],
         ''## Extracted code path'', []] @ code_path g sequence) @ newline"

definition sequence_from :: "program \<Rightarrow> string \<Rightarrow> string list \<Rightarrow> string list" where
  "sequence_from p symbol start = dedupe_consecutive (take 160 (expand p symbol 0 [] start))"

definition route_flow ::
  "(string \<Rightarrow> string option) \<Rightarrow> program \<Rightarrow> fact \<Rightarrow> string \<Rightarrow> string \<Rightarrow> graph \<Rightarrow> graph \<times> gflow" where
  "route_flow docs p f method path g =
     (let route_id = ''route:'' @ method @ '':'' @ path; roles = ft_roles f;
          n = \<lparr>gn_id = route_id, gn_kind = ''route'', gn_label = method @ '' '' @ path, gn_roles = roles,
            gn_fields = [(''method'', JStr method), (''path'', JStr path), (''signature'', JStr (ft_signature f)),
              (''function_symbol'', JStr (ft_symbol f)), (''file'', JStr (ft_file f)), (''line'', JInt (ft_line f))]\<rparr>;
          g1 = add_edge route_id (node_id (ft_symbol f)) ''handled_by'' [] (put_node n g);
          sequence = sequence_from p (ft_symbol f) [route_id, node_id (ft_symbol f)];
          title = (case FLOW_LABELS (ft_name f) of Some t \<Rightarrow> t | None \<Rightarrow> humanize (ft_name f));
          (doc_path, page) = documentation docs (DOC_BY_HANDLER (ft_name f)) in
      (g1, \<lparr>gf_flow_id = ''default:'' @ py_lower method @ '':'' @ path, gf_name = title,
            gf_description = ''Deterministically extracted from '' @ ft_symbol f @ ''.'',
            gf_actor_roles = roles, gf_route = Some (method, path), gf_node_ids = sequence,
            gf_documentation_path = doc_path,
            gf_documentation = (case page of None \<Rightarrow> Some (generated_documentation g1 title roles method path f sequence)
              | Some t \<Rightarrow> Some t)\<rparr>))"

fun route_flows :: "(string \<Rightarrow> string option) \<Rightarrow> program \<Rightarrow> fact list \<Rightarrow> graph \<Rightarrow> graph \<times> gflow list" where
  "route_flows docs p [] g = (g, [])"
| "route_flows docs p (f # fs) g =
     (case ft_route f of
        None \<Rightarrow> route_flows docs p fs g
      | Some (method, path) \<Rightarrow>
          let (g1, flow) = route_flow docs p f method path g; (g2, flows) = route_flows docs p fs g1 in (g2, flow # flows))"

definition system_flow :: "(string \<Rightarrow> string option) \<Rightarrow> program \<Rightarrow> graph \<Rightarrow> string \<times> string \<times> string \<times> string \<Rightarrow> gflow list" where
  "system_flow docs p g = (\<lambda>(flow_id, title, symbol, doc_name).
     case program_of symbol p of
       None \<Rightarrow> []
     | Some (f, _) \<Rightarrow>
         let sequence = sequence_from p symbol [node_id symbol]; (doc_path, page) = documentation docs (Some doc_name) in
         [\<lparr>gf_flow_id = ''default:system:'' @ flow_id, gf_name = title,
           gf_description = ''Deterministically extracted from '' @ symbol @ ''.'',
           gf_actor_roles = [''SYSTEM''], gf_route = None, gf_node_ids = sequence,
           gf_documentation_path = doc_path,
           gf_documentation = (case page of None \<Rightarrow> Some (generated_system_documentation g title f sequence)
             | Some t \<Rightarrow> Some t)\<rparr>])"

definition system_flows :: "(string \<Rightarrow> string option) \<Rightarrow> program \<Rightarrow> graph \<Rightarrow> gflow list" where
  "system_flows docs p g = concat (map (system_flow docs p g) SYSTEM_FLOWS)"

section \<open>Database constraints\<close>

text \<open>A trigger as the pattern finds it in the migrations: name, table, function, file and line.\<close>

type_synonym trigger = "string \<times> string \<times> string \<times> string \<times> int"

definition constraint_id :: "string \<Rightarrow> string" where
  "constraint_id name = ''constraint:postgres:'' @ name"

definition put_constraint :: "trigger \<Rightarrow> graph \<Rightarrow> graph" where
  "put_constraint = (\<lambda>(name, table, function', file, line). put_node
     \<lparr>gn_id = constraint_id name, gn_kind = ''constraint'', gn_label = humanize name, gn_roles = [],
      gn_fields = [(''constraint'', JStr name), (''database_function'', JStr function'), (''tables'', strings [table]),
        (''file'', JStr file), (''line'', JInt line)]\<rparr>)"

definition constraint_json :: "graph \<Rightarrow> string \<Rightarrow> json" where
  "constraint_json g name =
     (let function' = (case node_of (gr_nodes g) (constraint_id name) of None \<Rightarrow> [] | Some n \<Rightarrow> text_field n ''database_function'') in
      JObj [(''node_id'', JStr (constraint_id name)), (''name'', JStr name), (''database_function'', JStr function')])"

text \<open>The constraints of an effect, by its tables, sorted by name.\<close>

definition constraints_of :: "trigger list \<Rightarrow> gnode \<Rightarrow> string list" where
  "constraints_of triggers n =
     (if gn_kind n \<noteq> ''effect'' then []
      else concat (map (\<lambda>table. map fst (filter (\<lambda>t. fst (snd t) = table) triggers)) (text_list n ''tables'')))"

definition constrain_node :: "trigger list \<Rightarrow> gnode \<Rightarrow> graph \<Rightarrow> graph" where
  "constrain_node triggers n g =
     (let names = constraints_of triggers n;
          g1 = fold (\<lambda>name. add_edge (gn_id n) (constraint_id name) ''enforced_by'' []) names g in
      if names = [] then g1
      else put_node (n\<lparr>gn_fields := gn_fields n @ [(''constraints'', JList (map (constraint_json g) (sort names)))]\<rparr>) g1)"

definition index_database_constraints :: "trigger list \<Rightarrow> graph \<Rightarrow> graph" where
  "index_database_constraints triggers g =
     (let g1 = fold put_constraint triggers g in fold (constrain_node triggers) (gr_nodes g1) g1)"

section \<open>The catalogue\<close>

definition link_flow :: "gflow \<Rightarrow> graph \<Rightarrow> graph" where
  "link_flow flow g = fold (\<lambda>(a, b). add_edge a b ''next'' (gf_flow_id flow)) (transitions (gf_node_ids flow)) g"

definition catalog_json :: "catalog \<Rightarrow> json" where
  "catalog_json c = JObj
     [(''version'', JInt 1), (''generator'', JStr ''bantam.workflow_graph.CatalogBuilder''),
      (''nodes'', JList (map node_json (cat_nodes c))), (''edges'', JList (map edge_json (cat_edges c))),
      (''default_flows'', JList (map flow_json (cat_flows c)))]"

definition build ::
  "(string \<Rightarrow> string) \<Rightarrow> (string \<Rightarrow> string option) \<Rightarrow> trigger list \<Rightarrow> fact list \<Rightarrow> catalog" where
  "build sha256_hex docs triggers facts =
     (let (g1, p) = extract_all sha256_hex (map ft_symbol facts) facts (index_functions facts empty_graph);
          (g2, routes) = route_flows docs p (sort_key ft_symbol facts) g1;
          flows = routes @ system_flows docs p g2;
          g3 = fold link_flow flows (index_database_constraints triggers g2);
          c = \<lparr>cat_nodes = sort_key gn_id (gr_nodes g3), cat_edges = sort_key edge_key (gr_edges g3),
               cat_flows = sort_key gf_flow_id flows, cat_digest = []\<rparr> in
      c\<lparr>cat_digest := digest sha256_hex (catalog_json c)\<rparr>)"

end
