(* ===== verification/Assurance_Store.thy ===== *)
theory Assurance_Store
  imports Graph_Catalog Net
begin

text \<open>
  The tables of migration 008: repository graphs and workflow definitions, beside the bank's own
  tables, with their column constraints. The graph of a snapshot is the catalogue it holds, its model
  result the JSON of the narrative.
\<close>

section \<open>Rows\<close>

record snapshot_row =
  sh_snapshot_id :: uuid
  sh_repository :: string
  sh_requested_ref :: string
  sh_root_path :: string
  sh_resolved_commit :: string
  sh_language :: string
  sh_source_sha256 :: string
  sh_graph_digest :: string
  sh_graph :: repository_catalog
  sh_model_result :: json
  sh_created_by :: uuid
  sh_created_at :: timestamp

record workflow_row =
  wf_workflow_id :: uuid
  wf_name :: string
  wf_description :: string
  wf_actor_role :: string
  wf_node_ids :: "string list"
  wf_graph_digest :: string
  wf_snapshot_id :: "uuid option"
  wf_created_by :: uuid
  wf_created_at :: timestamp
  wf_updated_at :: timestamp

record assurance_db =
  ad_bank :: db
  ad_snapshots :: "snapshot_row list"
  ad_workflows :: "workflow_row list"

section \<open>Column constraints\<close>

definition is_lower_hex :: "char \<Rightarrow> bool" where
  "is_lower_hex c \<longleftrightarrow> c \<in> set ''0123456789abcdef''"

definition hex_between :: "nat \<Rightarrow> nat \<Rightarrow> string \<Rightarrow> bool" where
  "hex_between lo hi s \<longleftrightarrow> lo \<le> length s \<and> length s \<le> hi \<and> list_all is_lower_hex s"

definition repository_char :: "char \<Rightarrow> bool" where
  "repository_char c \<longleftrightarrow> is_alnum c \<or> c \<in> set ''_.-''"

definition owner_and_name :: "string \<Rightarrow> bool" where
  "owner_and_name s \<longleftrightarrow>
     (case py_split (CHR ''/'') s of
        [owner, name] \<Rightarrow> 1 \<le> length owner \<and> length owner \<le> 100 \<and> list_all repository_char owner \<and>
          1 \<le> length name \<and> length name \<le> 100 \<and> list_all repository_char name
      | _ \<Rightarrow> False)"

definition WORKFLOW_ROLES :: "string list" where
  "WORKFLOW_ROLES = [''PUBLIC'', ''CUSTOMER'', ''BANK_ADMIN'', ''RISK_ANALYST'', ''COMPLIANCE_AUDITOR'',
     ''ASPIS_AUDITOR'', ''ASPIS_ADMIN'', ''SYSTEM'']"

section \<open>INSERT statements\<close>

definition insert_snapshot :: "snapshot_row \<Rightarrow> assurance_db \<Rightarrow> failure + assurance_db" where
  "insert_snapshot r a =
     (if \<not> owner_and_name (sh_repository r)
      then Inl (CheckViolation ''repository_graph_snapshots_repository_check'')
      else if \<not> (1 \<le> length (sh_requested_ref r) \<and> length (sh_requested_ref r) \<le> 180)
      then Inl (CheckViolation ''repository_graph_snapshots_requested_ref_check'')
      else if length (sh_root_path r) > 500
      then Inl (CheckViolation ''repository_graph_snapshots_root_path_check'')
      else if \<not> hex_between 40 64 (sh_resolved_commit r)
      then Inl (CheckViolation ''repository_graph_snapshots_resolved_commit_check'')
      else if sh_language r \<notin> {''python'', ''terraform'', ''mixed''}
      then Inl (CheckViolation ''repository_graph_snapshots_language_check'')
      else if \<not> hex_between 64 64 (sh_source_sha256 r)
      then Inl (CheckViolation ''repository_graph_snapshots_source_sha256_check'')
      else if \<not> hex_between 64 64 (sh_graph_digest r)
      then Inl (CheckViolation ''repository_graph_snapshots_graph_digest_check'')
      else if known sh_snapshot_id (sh_snapshot_id r) (ad_snapshots a)
      then Inl (UniqueViolation ''repository_graph_snapshots_pkey'')
      else if \<not> known ua_user_id (sh_created_by r) (user_accounts (ad_bank a))
      then Inl (ForeignKeyViolation ''repository_graph_snapshots_created_by_fkey'')
      else Inr (a\<lparr>ad_snapshots := ad_snapshots a @ [r]\<rparr>))"

definition insert_workflow :: "workflow_row \<Rightarrow> assurance_db \<Rightarrow> failure + assurance_db" where
  "insert_workflow r a =
     (if \<not> (3 \<le> length (wf_name r) \<and> length (wf_name r) \<le> 100)
      then Inl (CheckViolation ''workflow_definitions_name_check'')
      else if length (wf_description r) > 500
      then Inl (CheckViolation ''workflow_definitions_description_check'')
      else if wf_actor_role r \<notin> set WORKFLOW_ROLES
      then Inl (CheckViolation ''workflow_definitions_actor_role_check'')
      else if \<not> (1 \<le> length (wf_node_ids r) \<and> length (wf_node_ids r) \<le> 160)
      then Inl (CheckViolation ''workflow_definitions_node_ids_check'')
      else if \<not> hex_between 64 64 (wf_graph_digest r)
      then Inl (CheckViolation ''workflow_definitions_graph_digest_check'')
      else if known wf_workflow_id (wf_workflow_id r) (ad_workflows a)
      then Inl (UniqueViolation ''workflow_definitions_pkey'')
      else if (case wf_snapshot_id r of None \<Rightarrow> False | Some s \<Rightarrow> \<not> known sh_snapshot_id s (ad_snapshots a))
      then Inl (ForeignKeyViolation ''workflow_definitions_repository_graph_snapshot_id_fkey'')
      else if \<not> known ua_user_id (wf_created_by r) (user_accounts (ad_bank a))
      then Inl (ForeignKeyViolation ''workflow_definitions_created_by_fkey'')
      else Inr (a\<lparr>ad_workflows := ad_workflows a @ [r]\<rparr>))"

text \<open>A row as its column constraints allow it.\<close>

definition well_typed_workflow :: "workflow_row \<Rightarrow> bool" where
  "well_typed_workflow r \<longleftrightarrow>
     3 \<le> length (wf_name r) \<and> length (wf_name r) \<le> 100 \<and> length (wf_description r) \<le> 500 \<and>
     wf_actor_role r \<in> set WORKFLOW_ROLES \<and> 1 \<le> length (wf_node_ids r) \<and> length (wf_node_ids r) \<le> 160 \<and>
     hex_between 64 64 (wf_graph_digest r)"

definition well_typed_snapshot :: "snapshot_row \<Rightarrow> bool" where
  "well_typed_snapshot r \<longleftrightarrow>
     owner_and_name (sh_repository r) \<and> 1 \<le> length (sh_requested_ref r) \<and> length (sh_requested_ref r) \<le> 180 \<and>
     length (sh_root_path r) \<le> 500 \<and> hex_between 40 64 (sh_resolved_commit r) \<and>
     sh_language r \<in> {''python'', ''terraform'', ''mixed''} \<and> hex_between 64 64 (sh_source_sha256 r) \<and>
     hex_between 64 64 (sh_graph_digest r)"

lemma insert_workflow_InrD:
  "insert_workflow r a = Inr a' \<Longrightarrow> a' = a\<lparr>ad_workflows := ad_workflows a @ [r]\<rparr> \<and> well_typed_workflow r \<and>
     \<not> known wf_workflow_id (wf_workflow_id r) (ad_workflows a)"
  by (auto simp: insert_workflow_def well_typed_workflow_def not_less simp del: length_0_conv split: if_splits)

lemma insert_snapshot_InrD:
  "insert_snapshot r a = Inr a' \<Longrightarrow> a' = a\<lparr>ad_snapshots := ad_snapshots a @ [r]\<rparr> \<and> well_typed_snapshot r \<and>
     \<not> known sh_snapshot_id (sh_snapshot_id r) (ad_snapshots a)"
  by (simp add: insert_snapshot_def well_typed_snapshot_def not_less del: length_0_conv split: if_splits)

text \<open>Which error an insert of a well-typed row can still meet.\<close>

lemma insert_workflow_well_typed:
  "well_typed_workflow r \<Longrightarrow> insert_workflow r a = Inl e \<Longrightarrow>
     (\<exists>c. e = UniqueViolation c) \<or> (\<exists>c. e = ForeignKeyViolation c)"
  by (auto simp: insert_workflow_def well_typed_workflow_def split: if_splits option.splits)

lemma insert_snapshot_well_typed:
  "well_typed_snapshot r \<Longrightarrow> insert_snapshot r a = Inl e \<Longrightarrow>
     (\<exists>c. e = UniqueViolation c) \<or> (\<exists>c. e = ForeignKeyViolation c)"
  by (simp add: insert_snapshot_def well_typed_snapshot_def split: if_splits) blast+

text \<open>Recording an event in the audit trail of the bank's tables.\<close>

definition audit_beside :: "audit_args \<Rightarrow> audit_fresh \<Rightarrow> assurance_db \<Rightarrow> failure + assurance_db" where
  "audit_beside args fx a = andthen (audit_record args fx (ad_bank a)) (\<lambda>d. Inr (a\<lparr>ad_bank := d\<rparr>))"

end
