(* ===== verification/Workflow.thy ===== *)
theory Workflow
  imports Assurance_Store
begin

text \<open>
  The workflow service over the built-in catalogue: \<open>WorkflowGraphService\<close> of
  \<open>bantam/workflow_graph.py\<close>. A definition is what the request model and a row of
  \<open>workflow_definitions\<close> both provide.
\<close>

section \<open>Validation\<close>

record workflow_definition =
  wd_name :: string
  wd_description :: string
  wd_actor_role :: string
  wd_node_ids :: "string list"

record workflow_error =
  we_code :: string
  we_message :: string

record validation =
  va_errors :: "workflow_error list"
  va_normalized :: workflow_definition
  va_graph_digest :: string

definition va_valid :: "validation \<Rightarrow> bool" where
  "va_valid v \<longleftrightarrow> va_errors v = []"

definition normalized :: "workflow_definition \<Rightarrow> workflow_definition" where
  "normalized w = \<lparr>wd_name = py_strip (wd_name w), wd_description = py_strip (wd_description w),
     wd_actor_role = py_upper (py_strip (wd_actor_role w)), wd_node_ids = map py_strip (wd_node_ids w)\<rparr>"

text \<open>One check: its error when the definition fails it.\<close>

definition unless :: "bool \<Rightarrow> string \<Rightarrow> string \<Rightarrow> workflow_error list" where
  "unless good code message = (if good then [] else [\<lparr>we_code = code, we_message = message\<rparr>])"

lemma unless_Nil [simp]: "unless good code message = [] \<longleftrightarrow> good"
  by (simp add: unless_def)

definition name_errors :: "workflow_definition \<Rightarrow> workflow_error list" where
  "name_errors w =
     unless (3 \<le> length (wd_name w) \<and> length (wd_name w) \<le> 100) ''INVALID_NAME'' ''Name must be 3-100 characters.'' @
     unless (length (wd_description w) \<le> 500) ''INVALID_DESCRIPTION'' ''Description must be at most 500 characters.''"

definition unknown_errors :: "gnode list \<Rightarrow> string \<Rightarrow> string list \<Rightarrow> workflow_error list" where
  "unknown_errors nodes text ids =
     concat (map (\<lambda>i. unless False ''UNKNOWN_NODE'' (text @ i)) (sort (remdups (filter (\<lambda>i. node_of nodes i = None) ids))))"

definition transition_errors :: "gnode list \<Rightarrow> (string \<times> string) set \<Rightarrow> string list \<Rightarrow> workflow_error list" where
  "transition_errors nodes allowed ids =
     concat (map (\<lambda>(a, b). unless (node_of nodes a = None \<or> node_of nodes b = None \<or> (a, b) \<in> allowed)
       ''DISCONNECTED_EDGE'' (''No extracted transition exists from '' @ a @ '' to '' @ b @ ''.'')) (transitions ids))"

definition edges_of_types :: "string list \<Rightarrow> gedge list \<Rightarrow> (string \<times> string) set" where
  "edges_of_types types edges = set (map (\<lambda>e. (ge_source e, ge_target e)) (filter (\<lambda>e. ge_type e \<in> set types) edges))"

definition allowed_edges :: "catalog \<Rightarrow> (string \<times> string) set" where
  "allowed_edges c = edges_of_types [''next'', ''calls'', ''handled_by''] (cat_edges c)"

definition start_errors :: "catalog \<Rightarrow> workflow_definition \<Rightarrow> workflow_error list" where
  "start_errors c w =
     (case wd_node_ids w of
        [] \<Rightarrow> []
      | first # _ \<Rightarrow>
          (case node_of (cat_nodes c) first of
             None \<Rightarrow> []
           | Some start \<Rightarrow>
               let system = (wd_actor_role w = ''SYSTEM'') in
               unless (gn_kind start = (if system then ''function'' else ''route'')) ''INVALID_START''
                 (if system then ''A SYSTEM workflow must begin at a function.''
                  else ''A user workflow must begin at an authorized route.'') @
               unless (gn_roles start = [] \<or> wd_actor_role w \<in> set (gn_roles start)) ''ACTOR_FORBIDDEN''
                 (wd_actor_role w @ '' cannot enter '' @ gn_label start @ ''.'')))"

definition validate :: "catalog \<Rightarrow> workflow_definition \<Rightarrow> validation" where
  "validate c definition =
     (let w = normalized definition in
      \<lparr>va_errors =
         name_errors w @
         unless (wd_actor_role w \<in> set WORKFLOW_ROLES) ''INVALID_ACTOR'' ''Actor role is not recognised.'' @
         unless (2 \<le> length (wd_node_ids w) \<and> length (wd_node_ids w) \<le> 160) ''INVALID_LENGTH''
           ''A workflow must contain 2-160 nodes.'' @
         unknown_errors (cat_nodes c) ''Unknown catalogue node: '' (wd_node_ids w) @
         start_errors c w @
         transition_errors (cat_nodes c) (allowed_edges c) (wd_node_ids w),
       va_normalized = w,
       va_graph_digest = cat_digest c\<rparr>)"

section \<open>Documentation\<close>

definition missing_line :: "nat \<Rightarrow> string \<Rightarrow> string" where
  "missing_line index node_id = nat_str index @ ''. **Missing node** '' @ EM_DASH @ '' `'' @ node_id @ ''`''"

definition render_documentation :: "catalog \<Rightarrow> bool \<Rightarrow> workflow_definition \<Rightarrow> string" where
  "render_documentation c valid w =
     (let description = py_strip (wd_description w) in
      py_join newline
        ([''# Workflow: '' @ wd_name w, [],
          ''This document is generated deterministically from a saved path through '',
          ''catalogue `'' @ cat_digest c @ ''`.'', [],
          ''- **Actor:** `'' @ wd_actor_role w @ ''`'',
          ''- **Validation:** '' @
            (if valid then ''PASS '' @ EM_DASH @ '' every adjacent transition exists in the extracted graph''
             else ''FAIL '' @ EM_DASH @ '' this saved path is stale or no longer validates'')] @
         (if description = [] then [] else [[], description]) @
         [[], ''## Selected code path'', []] @
         map (\<lambda>(index, i). case node_of (cat_nodes c) i of
                None \<Rightarrow> missing_line index i
              | Some n \<Rightarrow> path_line index n (node_evidence n))
           (enumerate 1 (wd_node_ids w))) @ newline)"

section \<open>The service\<close>

record workflow_view =
  wv_row :: workflow_row
  wv_valid :: bool
  wv_stale :: bool
  wv_errors :: "workflow_error list"
  wv_documentation :: string

definition definition_of :: "workflow_row \<Rightarrow> workflow_definition" where
  "definition_of r = \<lparr>wd_name = wf_name r, wd_description = wf_description r, wd_actor_role = wf_actor_role r,
     wd_node_ids = wf_node_ids r\<rparr>"

text \<open>A saved workflow, validated again against the catalogue of today.\<close>

definition custom_flow :: "catalog \<Rightarrow> workflow_row \<Rightarrow> workflow_view" where
  "custom_flow c r =
     (let result = validate c (definition_of r); current = (wf_graph_digest r = cat_digest c);
          valid = (va_valid result \<and> current) in
      \<lparr>wv_row = r, wv_valid = valid, wv_stale = (\<not> current), wv_errors = va_errors result,
       wv_documentation = render_documentation c valid (definition_of r)\<rparr>)"

text \<open>\<open>ORDER BY created_at DESC LIMIT 100\<close>; rows of one instant in insertion order.\<close>

definition newest_workflows :: "uuid option \<Rightarrow> assurance_db \<Rightarrow> workflow_row list" where
  "newest_workflows snapshot a =
     take 100 (sort_key (\<lambda>r. - wf_created_at r) (filter (\<lambda>r. wf_snapshot_id r = snapshot) (ad_workflows a)))"

definition overview :: "catalog \<Rightarrow> assurance_db \<Rightarrow> catalog \<times> workflow_view list" where
  "overview c a = (c, map (custom_flow c) (newest_workflows None a))"

record workflow_fresh =
  wx_workflow_id :: uuid
  wx_now :: timestamp
  wx_audit :: audit_fresh

definition workflow_audit :: "audit_args \<Rightarrow> uuid \<Rightarrow> workflow_definition \<Rightarrow> string \<Rightarrow> (string \<times> json) list \<Rightarrow> audit_args" where
  "workflow_audit audit_fields workflow_id w graph_digest extra = audit_fields
     \<lparr>aa_action := ''WORKFLOW_CREATED'', aa_resource_type := ''workflow_definition'',
      aa_resource_id := uuid_str workflow_id,
      aa_metadata := JObj (extra @ [(''name'', JStr (wd_name w)), (''actor_role'', JStr (wd_actor_role w)),
        (''node_count'', JInt (int (length (wd_node_ids w)))), (''graph_digest'', JStr graph_digest)])\<rparr>"

definition invalid_workflow :: "validation \<Rightarrow> failure" where
  "invalid_workflow result = bantam ''INVALID_WORKFLOW'' (py_join ''; '' (map we_message (va_errors result))) 422"

definition new_workflow :: "workflow_fresh \<Rightarrow> workflow_definition \<Rightarrow> string \<Rightarrow> uuid option \<Rightarrow> uuid \<Rightarrow> workflow_row" where
  "new_workflow fx w graph_digest snapshot created_by =
     \<lparr>wf_workflow_id = wx_workflow_id fx, wf_name = wd_name w, wf_description = wd_description w,
      wf_actor_role = wd_actor_role w, wf_node_ids = wd_node_ids w, wf_graph_digest = graph_digest,
      wf_snapshot_id = snapshot, wf_created_by = created_by, wf_created_at = wx_now fx, wf_updated_at = wx_now fx\<rparr>"

definition create ::
  "catalog \<Rightarrow> workflow_definition \<Rightarrow> uuid \<Rightarrow> audit_args \<Rightarrow> workflow_fresh
     \<Rightarrow> (assurance_db, failure, workflow_view) proc" where
  "create c definition created_by audit_fields fx =
     (let result = validate c definition; w = va_normalized result;
          row = new_workflow fx w (cat_digest c) None created_by in
      if \<not> va_valid result then raising (invalid_workflow result)
      else in_transaction (\<lambda>a.
        andthen (insert_workflow row a) (\<lambda>a1.
        andthen (audit_beside (workflow_audit audit_fields (wx_workflow_id fx) w (cat_digest c) []) (wx_audit fx) a1) (\<lambda>a2.
        Inr (\<lparr>wv_row = row, wv_valid = True, wv_stale = False, wv_errors = [],
              wv_documentation = render_documentation c True w\<rparr>, a2)))))"

end
