(* ===== verification/Catalog_Properties.thy ===== *)
theory Catalog_Properties
  imports Catalog_Builder Workflow Demo
begin

text \<open>
  What the catalogue guarantees: every edge and every flow of a built catalogue is between its nodes,
  code paths are bounded, and the generated flows are workflows the service accepts.
\<close>

section \<open>Graphs that hang together\<close>

definition ids :: "graph \<Rightarrow> string set" where
  "ids g = gn_id ` set (gr_nodes g)"








lemma put_node_edges [simp]: "gr_edges (put_node n g) = gr_edges g"
  by (simp add: put_node_def)

lemma add_edge_nodes [simp]: "gr_nodes (add_edge a b t i g) = gr_nodes g"
  by (simp add: add_edge_def Let_def)

lemma ids_add_edge [simp]: "ids (add_edge a b t i g) = ids g"
  by (simp add: ids_def)

lemma ids_put_node [simp]: "ids (put_node n g) = insert (gn_id n) (ids g)"
  by (auto simp: ids_def put_node_def set_rows_update known_def image_iff)






section \<open>Extraction\<close>























section \<open>Code paths\<close>

lemma program_of_in: "program_of s p = Some (f, evs) \<Longrightarrow> (f, evs) \<in> set p \<and> ft_symbol f = s"
  by (auto simp: program_of_def dest: row_get_SomeD)

text \<open>A property that appending an event and expanding a call keep, the expansion of a function keeps.\<close>

lemma expand_induct:
  assumes "Q sequence"
    and "\<And>s f evs e. Q s \<Longrightarrow> (f, evs) \<in> set p \<Longrightarrow> e \<in> set evs \<Longrightarrow> Q (s @ [ev_node_id e])"
  shows "Q (expand p symbol depth stack sequence)"
  using assms
proof (induction p symbol depth stack sequence rule: expand.induct)
  case (1 p symbol depth stack sequence)
  show ?case
  proof (cases "depth > 2 \<or> symbol \<in> set stack \<or> program_of symbol p = None")
    case True
    with 1(2) show ?thesis by (auto simp: expand.simps [of p symbol])
  next
    case False
    then obtain f evs where p: "\<not> (depth > 2 \<or> symbol \<in> set stack)" "program_of symbol p = Some (f, evs)" by auto
    let ?h = "\<lambda>s e. case ev_call e of None \<Rightarrow> s @ [ev_node_id e]
        | Some target \<Rightarrow> expand p target (Suc depth) (symbol # stack) (s @ [ev_node_id e])"
    have "Q (foldl ?h s es)" if "Q s" "set es \<subseteq> set evs" for s es
      using that
    proof (induction es arbitrary: s)
      case (Cons e es)
      have a: "Q (s @ [ev_node_id e])" using 1(3) [OF Cons.prems(1), of f evs e] program_of_in [OF p(2)] Cons.prems(2) by simp
      have "Q (?h s e)"
      proof (cases "ev_call e")
        case (Some target)
        have "Q (expand p target (Suc depth) (symbol # stack) (s @ [ev_node_id e]))"
          by (rule 1(1) [OF p(1) p(2) refl _ Some a 1(3)]) (use Cons.prems(2) in auto)
        with Some show ?thesis by simp
      qed (use a in simp)
      with Cons show ?case by simp
    qed simp
    from this [OF 1(2) order_refl] p show ?thesis by (simp add: expand.simps [of p symbol])
  qed
qed


lemma expand_prefix: "\<exists>rest. expand p symbol depth stack sequence = sequence @ rest"
  by (rule expand_induct [where Q = "\<lambda>s. \<exists>rest. s = sequence @ rest"]) auto

fun path_bound :: "nat \<Rightarrow> nat \<Rightarrow> nat" where
  "path_bound m 0 = 0"
| "path_bound m (Suc k) = m * Suc (path_bound m k)"

lemma expand_length:
  assumes "\<And>f evs. (f, evs) \<in> set p \<Longrightarrow> length evs \<le> m"
  shows "length (expand p symbol depth stack sequence) \<le> length sequence + path_bound m (3 - depth)"
  using assms
proof (induction p symbol depth stack sequence rule: expand.induct)
  case (1 p symbol depth stack sequence)
  show ?case
  proof (cases "depth > 2 \<or> symbol \<in> set stack \<or> program_of symbol p = None")
    case True
    then show ?thesis by (auto simp: expand.simps [of p symbol])
  next
    case False
    then obtain f evs where p: "\<not> (depth > 2 \<or> symbol \<in> set stack)" "program_of symbol p = Some (f, evs)" by auto
    let ?h = "\<lambda>s e. case ev_call e of None \<Rightarrow> s @ [ev_node_id e]
        | Some target \<Rightarrow> expand p target (Suc depth) (symbol # stack) (s @ [ev_node_id e])"
    let ?b = "Suc (path_bound m (3 - Suc depth))"
    have "length (foldl ?h s es) \<le> length s + length es * ?b" if "set es \<subseteq> set evs" for s es
      using that
    proof (induction es arbitrary: s)
      case (Cons e es)
      have "length (?h s e) \<le> length s + ?b"
      proof (cases "ev_call e")
        case (Some target)
        have "length (expand p target (Suc depth) (symbol # stack) (s @ [ev_node_id e])) \<le>
            length (s @ [ev_node_id e]) + path_bound m (3 - Suc depth)"
          by (rule 1(1) [OF p(1) p(2) refl _ Some 1(2)]) (use Cons.prems in auto)
        with Some show ?thesis by simp
      qed simp
      moreover have "length (foldl ?h (?h s e) es) \<le> length (?h s e) + length es * ?b"
        using Cons by simp
      ultimately show ?case by simp
    qed simp
    from this [OF order_refl, of sequence] have
      "length (expand p symbol depth stack sequence) \<le> length sequence + length evs * ?b"
      using p by (simp add: expand.simps [of p symbol])
    also have "length evs * ?b \<le> m * ?b" using 1(2) program_of_in [OF p(2)] by (metis mult_le_mono1)
    also have "m * ?b = path_bound m (3 - depth)"
    proof -
      have "3 - depth = Suc (3 - Suc depth)" using p(1) by arith
      then show ?thesis by simp
    qed
    finally show ?thesis by simp
  qed
qed

section \<open>Flows\<close>












section \<open>The built catalogue\<close>














section \<open>What the service accepts\<close>

lemma unless_empty: "concat (map (\<lambda>x. unless (P x) (f x) (g x)) xs) = [] \<longleftrightarrow> (\<forall>x \<in> set xs. P x)"
  by (induction xs) auto

lemma sort_Nil_iff: "sort xs = [] \<longleftrightarrow> xs = []"
  by (metis set_sort set_empty)

lemma unknown_errors_Nil: "unknown_errors nodes text is = [] \<longleftrightarrow> (\<forall>i \<in> set is. node_of nodes i \<noteq> None)"
  by (simp add: unknown_errors_def unless_empty) blast

lemma transition_errors_Nil:
  "transition_errors nodes allowed is = [] \<longleftrightarrow>
     (\<forall>(a, b) \<in> set (transitions is). node_of nodes a = None \<or> node_of nodes b = None \<or> (a, b) \<in> allowed)"
  by (auto simp: transition_errors_def split_def unless_empty)

text \<open>A workflow is a path through the catalogue from an entry of its actor.\<close>

definition starts_at :: "string \<Rightarrow> gnode \<Rightarrow> bool" where
  "starts_at role n \<longleftrightarrow> gn_kind n = (if role = ''SYSTEM'' then ''function'' else ''route'') \<and>
     (gn_roles n = [] \<or> role \<in> set (gn_roles n))"

definition path_of :: "catalog \<Rightarrow> string \<Rightarrow> string list \<Rightarrow> bool" where
  "path_of c role is \<longleftrightarrow> set is \<subseteq> gn_id ` set (cat_nodes c) \<and> set (transitions is) \<subseteq> allowed_edges c \<and>
     (\<exists>n. node_of (cat_nodes c) (hd is) = Some n \<and> starts_at role n)"

lemma start_errors_Nil:
  "start_errors c w = [] \<longleftrightarrow> (\<forall>i rest n. wd_node_ids w = i # rest \<and> node_of (cat_nodes c) i = Some n \<longrightarrow> starts_at (wd_actor_role w) n)"
  by (auto simp: start_errors_def starts_at_def Let_def split: list.splits option.splits)

lemma validate_iff:
  "va_valid (validate c w) \<longleftrightarrow>
     name_errors (normalized w) = [] \<and> wd_actor_role (normalized w) \<in> set WORKFLOW_ROLES \<and>
     2 \<le> length (wd_node_ids w) \<and> length (wd_node_ids w) \<le> 160 \<and>
     path_of c (wd_actor_role (normalized w)) (wd_node_ids (normalized w))"
proof -
  let ?n = "normalized w" and ?is = "wd_node_ids (normalized w)"
  have len: "length ?is = length (wd_node_ids w)" by (simp add: normalized_def)
  have known: "(\<forall>i \<in> set ?is. node_of (cat_nodes c) i \<noteq> None) \<longleftrightarrow> set ?is \<subseteq> gn_id ` set (cat_nodes c)"
    by (auto simp: node_of_None)
  have "transition_errors (cat_nodes c) (allowed_edges c) ?is = [] \<longleftrightarrow> set (transitions ?is) \<subseteq> allowed_edges c"
    if "\<forall>i \<in> set ?is. node_of (cat_nodes c) i \<noteq> None"
    unfolding transition_errors_Nil using that transitions_ends by fast
  moreover have "start_errors c ?n = [] \<longleftrightarrow> (\<exists>n. node_of (cat_nodes c) (hd ?is) = Some n \<and> starts_at (wd_actor_role ?n) n)"
    if "\<forall>i \<in> set ?is. node_of (cat_nodes c) i \<noteq> None" "2 \<le> length ?is"
    unfolding start_errors_Nil using that by (cases ?is) auto
  ultimately show ?thesis
    unfolding va_valid_def validate_def Let_def path_of_def
    by (simp add: unknown_errors_Nil len flip: known) (auto simp: len)
qed

text \<open>C24. The workflow service accepts exactly the paths of its catalogue: a definition is valid if and
  only if its trimmed name has 3 to 100 characters and its description at most 500, the actor is a
  known role, and its 2 to 160 nodes are nodes of the catalogue, one extracted transition after the
  other, starting at a route open to the actor, or at a function for the system.\<close>

theorem accepted_workflows_are_paths:
  "va_valid (validate c w) \<longleftrightarrow>
     length (py_strip (wd_name w)) \<in> {3..100} \<and> length (py_strip (wd_description w)) \<in> {0..500} \<and>
     py_upper (py_strip (wd_actor_role w)) \<in> set WORKFLOW_ROLES \<and> length (wd_node_ids w) \<in> {2..160} \<and>
     path_of c (py_upper (py_strip (wd_actor_role w))) (map py_strip (wd_node_ids w))"
  by (auto simp: validate_iff name_errors_def normalized_def)


text \<open>A small program: a route that checks a condition and calls a helper with one query.\<close>

definition demo_facts :: "fact list" where
  "demo_facts =
     [\<lparr>ft_symbol = ''bantam.api.login'', ft_module = ''bantam.api'', ft_class_name = [], ft_name = ''login'',
       ft_file = ''bantam/api.py'', ft_line = 10, ft_signature = ''def login(input)'', ft_imports = (\<lambda>_. None),
       ft_route = Some (''POST'', ''/v1/auth/login''), ft_roles = [''PUBLIC''],
       ft_checks = [\<lparr>cs_line = 11, cs_col = 4, cs_condition = ''user is None'', cs_failure_outcomes = []\<rparr>],
       ft_transactions = [],
       ft_calls = [\<lparr>cl_line = 12, cl_col = 4, cl_callee = Name ''lookup'', cl_rendered = ''lookup'', cl_sql = None\<rparr>]\<rparr>,
      \<lparr>ft_symbol = ''bantam.api.lookup'', ft_module = ''bantam.api'', ft_class_name = [], ft_name = ''lookup'',
       ft_file = ''bantam/api.py'', ft_line = 20, ft_signature = ''def lookup(c)'', ft_imports = (\<lambda>_. None),
       ft_route = None, ft_roles = [''PUBLIC''], ft_checks = [], ft_transactions = [],
       ft_calls = [\<lparr>cl_line = 21, cl_col = 4, cl_callee = Attribute (Some ''c'') ''execute'', cl_rendered = ''c.execute'',
         cl_sql = Some \<lparr>sq_statement = ''SELECT 1 FROM users'', sq_operation = ''SELECT'', sq_tables = [''users'']\<rparr>\<rparr>]\<rparr>]"






text \<open>Extracting a code path always ends and stays small: with at most \<open>m\<close> events per function,
  whatever functions call each other, recursion included, the path is its start followed by at most
  \<open>m + m\<^sup>2 + m\<^sup>3\<close> nodes.\<close>

theorem code_paths_end:
  assumes "\<forall>(f, evs) \<in> set p. length evs \<le> m"
  shows "\<exists>rest. expand p symbol 0 [] start = start @ rest \<and> length rest \<le> m + m * m + m * m * m"
proof -
  obtain rest where r: "expand p symbol 0 [] start = start @ rest" using expand_prefix by blast
  have "length (expand p symbol 0 [] start) \<le> length start + path_bound m 3"
    using expand_length [of p m symbol 0 "[]" start] assms by auto
  moreover have "path_bound m 3 = m + m * m + m * m * m" by (simp add: numeral_3_eq_3 algebra_simps)
  ultimately show ?thesis using r by simp
qed

text \<open>A function that calls itself and another that calls it back.\<close>

theorem code_paths_end_witness:
  "\<exists>rest. expand (map (\<lambda>f. (f, [\<lparr>ev_node_id = ''a'', ev_call = Some ''bantam.api.login''\<rparr>,
      \<lparr>ev_node_id = ''b'', ev_call = Some ''bantam.api.lookup''\<rparr>])) demo_facts) ''bantam.api.login'' 0 [] [''start''] = ''start'' # rest \<and>
    length rest \<le> 14"
proof -
  let ?p = "map (\<lambda>f. (f, [\<lparr>ev_node_id = ''a'', ev_call = Some ''bantam.api.login''\<rparr>,
      \<lparr>ev_node_id = ''b'', ev_call = Some ''bantam.api.lookup''\<rparr>])) demo_facts"
  have "\<forall>(f, evs) \<in> set ?p. length evs \<le> 2" by auto
  from code_paths_end [OF this, of "''bantam.api.login''" "[''start'']"] show ?thesis by auto
qed

lemma audit_beside_InrD:
  "audit_beside args fx a = Inr a' \<Longrightarrow> ad_snapshots a' = ad_snapshots a \<and> ad_workflows a' = ad_workflows a \<and>
     (\<exists>row. audit_events (ad_bank a') = audit_events (ad_bank a) @ [row] \<and> au_action row = aa_action args \<and>
        au_resource_id row = aa_resource_id args \<and> au_actor_id row = aa_actor_id args)"
  by (auto simp: audit_beside_def audit_record_def Let_def split: option.splits if_splits elim!: andthen_InrE)

lemma audit_beside_InlD: "audit_beside args fx a = Inl e \<Longrightarrow> e \<noteq> CheckViolation k"
  by (auto simp: audit_beside_def audit_record_def Let_def andthen_Inl_iff split: option.splits if_splits)

lemma valid_is_well_typed:
  "va_valid (validate c w) \<Longrightarrow> hex_between 64 64 (cat_digest c) \<Longrightarrow>
     well_typed_workflow (new_workflow fx (normalized w) (cat_digest c) s created_by)"
  by (auto simp: validate_iff name_errors_def well_typed_workflow_def new_workflow_def normalized_def)

text \<open>Accepted workflows fit their table: over a catalogue signed with a SHA-256 digest, creating a
  workflow either stores exactly one row, well typed, a path of the catalogue, with one audit event
  for it, or changes nothing; and no request is ever refused by a CHECK constraint of the table, so an
  invalid one is answered with its validation errors.\<close>

theorem created_workflows_are_well_typed:
  assumes "hex_between 64 64 (cat_digest c)"
  shows "case create c w created_by audit_fields fx a of
      (Inr v, a') \<Rightarrow> ad_workflows a' = ad_workflows a @ [wv_row v] \<and> well_typed_workflow (wv_row v) \<and>
        path_of c (wf_actor_role (wv_row v)) (wf_node_ids (wv_row v)) \<and>
        (\<exists>row. audit_events (ad_bank a') = audit_events (ad_bank a) @ [row] \<and> au_action row = ''WORKFLOW_CREATED'' \<and>
           au_resource_id row = uuid_str (wf_workflow_id (wv_row v)))
    | (Inl e, a') \<Rightarrow> a' = a \<and> (va_valid (validate c w) \<or> e = invalid_workflow (validate c w)) \<and>
        e \<notin> range CheckViolation"
proof (cases "va_valid (validate c w)")
  case False
  then show ?thesis by (auto simp: create_def Let_def raising_def invalid_workflow_def bantam_def)
next
  case True
  let ?n = "normalized w"
  have n: "va_normalized (validate c w) = ?n" by (simp add: validate_def Let_def)
  let ?row = "new_workflow fx ?n (cat_digest c) None created_by"
  from valid_is_well_typed [OF True assms, of fx None created_by] have wt: "well_typed_workflow ?row" .
  have path: "path_of c (wf_actor_role ?row) (wf_node_ids ?row)"
    using True by (simp add: validate_iff new_workflow_def)
  show ?thesis
  proof (cases "create c w created_by audit_fields fx a")
    case (Pair r a')
    show ?thesis
    proof (cases r)
      case (Inl e)
      with Pair True have "a' = a" and
        "insert_workflow ?row a = Inl e \<or> (\<exists>a1. audit_beside (workflow_audit audit_fields (wx_workflow_id fx) ?n (cat_digest c) []) (wx_audit fx) a1 = Inl e)"
        by (auto simp: create_def Let_def n in_transaction_def andthen_Inl_iff split: sum.splits)
      with insert_workflow_well_typed [OF wt] audit_beside_InlD have "a' = a" "e \<notin> range CheckViolation" by blast+
      with Pair Inl True show ?thesis by simp
    next
      case (Inr v)
      with Pair True obtain a1 where s: "insert_workflow ?row a = Inr a1"
        "audit_beside (workflow_audit audit_fields (wx_workflow_id fx) ?n (cat_digest c) []) (wx_audit fx) a1 = Inr a'" "wv_row v = ?row"
        by (auto simp: create_def Let_def n in_transaction_def split: sum.splits elim!: andthen_InrE)
      from insert_workflow_InrD [OF s(1)] audit_beside_InrD [OF s(2)] wt path Pair Inr s(3) show ?thesis
        by (auto simp: workflow_audit_def new_workflow_def)
    qed
  qed
qed

definition tiny_catalog :: catalog where
  "tiny_catalog =
     \<lparr>cat_nodes = [\<lparr>gn_id = ''function:me'', gn_kind = ''function'', gn_label = ''Me'', gn_roles = [], gn_fields = []\<rparr>,
        \<lparr>gn_id = ''route:GET:/v1/me'', gn_kind = ''route'', gn_label = ''GET /v1/me'', gn_roles = [''CUSTOMER''], gn_fields = []\<rparr>],
      cat_edges = [\<lparr>ge_source = ''route:GET:/v1/me'', ge_target = ''function:me'', ge_type = ''handled_by'', ge_flow_ids = []\<rparr>],
      cat_flows = [], cat_digest = replicate 64 CHR ''a''\<rparr>"

definition tiny_workflow :: workflow_definition where
  "tiny_workflow = \<lparr>wd_name = '' View profile '', wd_description = [], wd_actor_role = ''customer'',
     wd_node_ids = [''route:GET:/v1/me'', ''function:me'']\<rparr>"

definition demo_audit :: audit_args where
  "demo_audit = \<lparr>aa_actor_type = ''USER'', aa_actor_id = ''1'', aa_action = [], aa_resource_type = [], aa_resource_id = [],
     aa_request_id = None, aa_correlation_id = None, aa_ip_address = None, aa_user_agent = None, aa_metadata = JNull\<rparr>"

definition demo_workflow_fresh :: workflow_fresh where
  "demo_workflow_fresh = \<lparr>wx_workflow_id = 700, wx_now = 5, wx_audit = \<lparr>af_request = 701, af_event = 702, af_now = 5\<rparr>\<rparr>"

definition demo_assurance :: assurance_db where
  "demo_assurance = \<lparr>ad_bank = demo_db, ad_snapshots = [], ad_workflows = []\<rparr>"

lemma tiny_created:
  "case create tiny_catalog tiny_workflow (pr_user_id demo_admin) demo_audit demo_workflow_fresh demo_assurance of
     (Inr v, _) \<Rightarrow> wf_name (wv_row v) = ''View profile'' | _ \<Rightarrow> False"
  by code_simp

theorem created_workflows_are_well_typed_witness:
  "\<exists>v a'. create tiny_catalog tiny_workflow (pr_user_id demo_admin) demo_audit demo_workflow_fresh demo_assurance = (Inr v, a') \<and>
     ad_workflows a' = [wv_row v] \<and> well_typed_workflow (wv_row v) \<and> wf_name (wv_row v) = ''View profile''"
proof -
  have h: "hex_between 64 64 (cat_digest tiny_catalog)" by code_simp
  obtain v a' where c: "create tiny_catalog tiny_workflow (pr_user_id demo_admin) demo_audit demo_workflow_fresh demo_assurance = (Inr v, a')"
    "wf_name (wv_row v) = ''View profile''"
    using tiny_created by (auto split: prod.splits sum.splits)
  from created_workflows_are_well_typed [OF h, where w = tiny_workflow and created_by = "pr_user_id demo_admin"
      and audit_fields = demo_audit and fx = demo_workflow_fresh and a = demo_assurance] c
  show ?thesis by (simp add: demo_assurance_def)
qed

end
