(* ===== verification/Attack_Tree.thy ===== *)
theory Attack_Tree
  imports Domain
begin

text \<open>
  The attack tree a language model returns and the check that admits it:
  \<open>attack_tree_structure_is_valid\<close> of \<open>bantam/repository_graph.py\<close>, with its recursive
  \<open>visit\<close>, and the theorem that it accepts exactly the rooted trees of at most six levels.
\<close>

section \<open>The tree\<close>

datatype attack_kind = GOAL | SUBGOAL | ACTION
datatype attack_operator = OP_AND | OP_OR | OP_LEAF

record attack_node =
  an_id :: string
  an_title :: string
  an_description :: string
  an_kind :: attack_kind
  an_operator :: attack_operator
  an_graph_node_ids :: "string list"
  an_flow_ids :: "string list"

text \<open>An edge is its parent and its child.\<close>

type_synonym attack_edge = "string \<times> string"

record attack_tree =
  at_title :: string
  at_root :: string
  at_nodes :: "attack_node list"
  at_edges :: "attack_edge list"
  at_assumptions :: "string list"
  at_limitations :: "string list"

definition MAX_ATTACK_TREE_DEPTH :: nat where
  "MAX_ATTACK_TREE_DEPTH = 6"

section \<open>The check\<close>

text \<open>
  \<open>visiting\<close> are the ancestors on the way down, \<open>visited\<close> the nodes that are done; \<open>None\<close>
  is the refusal. The code visits the children of a node in the order of a Python set; the order here
  is the one of the edges, and the outcome does not depend on it (\<open>visits_all_iff\<close>).
\<close>

function visit :: "(string \<Rightarrow> string list) \<Rightarrow> string \<Rightarrow> nat \<Rightarrow> string list \<Rightarrow> string list \<Rightarrow> string list option"
  and visit_all :: "(string \<Rightarrow> string list) \<Rightarrow> string list \<Rightarrow> nat \<Rightarrow> string list \<Rightarrow> string list \<Rightarrow> string list option"
where
  "visit children n depth visiting visited =
     (if depth > MAX_ATTACK_TREE_DEPTH \<or> n \<in> set visiting then None
      else if n \<in> set visited then Some visited
      else map_option (\<lambda>v. n # v) (visit_all children (children n) (depth + 1) (n # visiting) visited))"
| "visit_all children [] depth visiting visited = Some visited"
| "visit_all children (c # cs) depth visiting visited =
     (case visit children c depth visiting visited of
        None \<Rightarrow> None
      | Some visited' \<Rightarrow> visit_all children cs depth visiting visited')"
  by pat_completeness auto
termination
  by (relation "inv_image (less_than <*lex*> less_than) (\<lambda>x. case x of
      Inl (children, n, depth, visiting, visited) \<Rightarrow> (8 - depth, 0)
    | Inr (children, cs, depth, visiting, visited) \<Rightarrow> (8 - depth, Suc (length cs)))")
    (auto simp: MAX_ATTACK_TREE_DEPTH_def)

declare visit.simps [simp del]

definition children_of :: "attack_edge list \<Rightarrow> string \<Rightarrow> string list" where
  "children_of edges p = map snd (filter (\<lambda>e. fst e = p) edges)"

definition incoming :: "attack_edge list \<Rightarrow> string \<Rightarrow> nat" where
  "incoming edges c = length (filter (\<lambda>e. snd e = c) edges)"

definition attack_tree_structure_is_valid :: "attack_tree \<Rightarrow> bool" where
  "attack_tree_structure_is_valid t =
     (let ids = map an_id (at_nodes t); root = at_root t; edges = at_edges t in
      distinct ids \<and>
      (case find (\<lambda>n. an_id n = root) (at_nodes t) of
         None \<Rightarrow> False
       | Some r \<Rightarrow>
           an_kind r = GOAL \<and>
           \<not> list_ex (\<lambda>n. an_kind n = GOAL \<and> an_id n \<noteq> root) (at_nodes t) \<and>
           distinct edges \<and>
           list_all (\<lambda>(p, c). p \<in> set ids \<and> c \<in> set ids \<and> p \<noteq> c) edges \<and>
           incoming edges root = 0 \<and>
           \<not> list_ex (\<lambda>i. i \<noteq> root \<and> incoming edges i \<noteq> 1) ids \<and>
           list_all (\<lambda>n. let child_count = length (children_of edges (an_id n)) in
              if an_operator n = OP_LEAF then child_count = 0 \<and> an_kind n = ACTION
              else 2 \<le> child_count \<and> an_kind n \<noteq> ACTION) (at_nodes t) \<and>
           (case visit (children_of edges) root 1 [] [] of
              None \<Rightarrow> False
            | Some visited \<Rightarrow> set visited = set ids)))"

section \<open>What the visit finds\<close>

definition steps :: "(string \<Rightarrow> string list) \<Rightarrow> (string \<times> string) set" where
  "steps children = {(p, c). c \<in> set (children p)}"

lemma steps_iff [simp]: "(p, c) \<in> steps children \<longleftrightarrow> c \<in> set (children p)"
  by (simp add: steps_def)

lemma relpow_step: "c \<in> set (children n) \<Longrightarrow> (c, x) \<in> steps children ^^ k \<Longrightarrow> (n, x) \<in> steps children ^^ Suc k"
  by (metis relpow_Suc_I2 steps_iff)

text \<open>A visit that succeeds finds nodes within the depth, and everything below what it found.\<close>

definition found :: "(string \<Rightarrow> string list) \<Rightarrow> string set \<Rightarrow> nat \<Rightarrow> string list \<Rightarrow> string list \<Rightarrow> bool" where
  "found children ns depth visited v \<longleftrightarrow>
     ns \<subseteq> set v \<and> set visited \<subseteq> set v \<and>
     (\<forall>x \<in> set v - set visited. \<exists>n \<in> ns. \<exists>k. depth + k \<le> MAX_ATTACK_TREE_DEPTH \<and> (n, x) \<in> steps children ^^ k) \<and>
     ((\<forall>x \<in> set visited. set (children x) \<subseteq> set visited) \<longrightarrow> (\<forall>x \<in> set v. set (children x) \<subseteq> set v))"

lemma visit_found:
  "visit children n depth visiting visited = Some v \<Longrightarrow> found children {n} depth visited v"
  "visit_all children cs depth visiting visited = Some v \<Longrightarrow> found children (set cs) depth visited v"
proof (induction children n depth visiting visited and children cs depth visiting visited
    arbitrary: v and v rule: visit_visit_all.induct)
  case (1 children n depth visiting visited)
  show ?case
  proof (cases "n \<in> set visited")
    case True
    with 1(2) show ?thesis by (auto simp: visit.simps [of children n] found_def split: if_splits)
  next
    case False
    with 1(2) obtain w where d: "depth \<le> MAX_ATTACK_TREE_DEPTH" "n \<notin> set visiting" and
      w: "visit_all children (children n) (depth + 1) (n # visiting) visited = Some w" "v = n # w"
      by (auto simp: visit.simps [of children n] split: if_splits)
    have f: "found children (set (children n)) (depth + 1) visited w" by (rule 1(1) [OF _ False w(1)]) (use d in auto)
    have "\<exists>k. depth + k \<le> MAX_ATTACK_TREE_DEPTH \<and> (n, x) \<in> steps children ^^ k" if "x \<in> set w - set visited" for x
    proof -
      from f that obtain c k where "c \<in> set (children n)" "depth + 1 + k \<le> MAX_ATTACK_TREE_DEPTH" "(c, x) \<in> steps children ^^ k"
        unfolding found_def by blast
      then show ?thesis using relpow_step by (intro exI [of _ "Suc k"]) auto
    qed
    moreover have "\<exists>k. depth + k \<le> MAX_ATTACK_TREE_DEPTH \<and> (n, n) \<in> steps children ^^ k" using d(1) by (intro exI [of _ 0]) simp
    ultimately show ?thesis using f unfolding found_def w(2) by auto
  qed
next
  case (2 children depth visiting visited)
  then show ?case by (simp add: found_def)
next
  case (3 children c cs depth visiting visited)
  from 3(3) obtain v' where v: "visit children c depth visiting visited = Some v'"
    "visit_all children cs depth visiting v' = Some v" by (auto split: option.splits)
  from 3(1) [OF v(1)] 3(2) [OF v(1) v(2)] show ?case
    unfolding found_def by (simp add: Ball_def) blast
qed

section \<open>Levels\<close>

text \<open>From a root that is nobody's child, with one parent at most for the rest, a node has one level.\<close>

definition unique_parents :: "(string \<Rightarrow> string list) \<Rightarrow> string \<Rightarrow> bool" where
  "unique_parents children root \<longleftrightarrow> (\<forall>p. root \<notin> set (children p)) \<and>
     (\<forall>p q c. c \<in> set (children p) \<and> c \<in> set (children q) \<longrightarrow> p = q)"

lemma level_unique:
  assumes "unique_parents children root"
  shows "(root, x) \<in> steps children ^^ j \<Longrightarrow> (root, x) \<in> steps children ^^ k \<Longrightarrow> j = k"
proof (induction j arbitrary: x k)
  case 0
  then show ?case using assms by (cases k) (auto simp: unique_parents_def elim!: relpow_Suc_E)
next
  case (Suc j)
  then obtain p where p: "(root, p) \<in> steps children ^^ j" "x \<in> set (children p)" by (auto elim!: relpow_Suc_E)
  then have "x \<noteq> root" using assms by (auto simp: unique_parents_def)
  with Suc.prems(2) obtain k' q where q: "k = Suc k'" "(root, q) \<in> steps children ^^ k'" "x \<in> set (children q)"
    by (cases k) (auto elim!: relpow_Suc_E)
  have "p = q" using assms p(2) q(3) by (auto simp: unique_parents_def)
  with Suc.IH [OF p(1)] q show ?case by simp
qed

lemma visit_succeeds:
  assumes "unique_parents children root" and "\<And>x j. (root, x) \<in> steps children ^^ j \<Longrightarrow> j < MAX_ATTACK_TREE_DEPTH"
  shows "1 \<le> depth \<Longrightarrow> (root, n) \<in> steps children ^^ (depth - 1) \<Longrightarrow>
      \<forall>x \<in> set visiting. \<exists>j < depth - 1. (root, x) \<in> steps children ^^ j \<Longrightarrow> visit children n depth visiting visited \<noteq> None"
    "1 \<le> depth \<Longrightarrow> \<forall>c \<in> set cs. (root, c) \<in> steps children ^^ (depth - 1) \<Longrightarrow>
      \<forall>x \<in> set visiting. \<exists>j < depth - 1. (root, x) \<in> steps children ^^ j \<Longrightarrow> visit_all children cs depth visiting visited \<noteq> None"
  using assms
proof (induction children n depth visiting visited and children cs depth visiting visited rule: visit_visit_all.induct)
  case (1 children n depth visiting visited)
  have d: "depth \<le> MAX_ATTACK_TREE_DEPTH" using 1(6) [OF 1(3)] 1(2) by simp
  have n: "n \<notin> set visiting"
  proof
    assume "n \<in> set visiting"
    with 1(4) obtain j where "j < depth - 1" "(root, n) \<in> steps children ^^ j" by auto
    with level_unique [OF 1(5) _ 1(3)] show False by auto
  qed
  show ?case
  proof (cases "n \<in> set visited")
    case False
    have "(root, c) \<in> steps children ^^ (depth + 1 - 1)" if "c \<in> set (children n)" for c
    proof -
      have "(root, c) \<in> steps children ^^ Suc (depth - 1)" using 1(3) that by (meson relpow_Suc_I steps_iff)
      then show ?thesis using 1(2) by simp
    qed
    moreover have "\<exists>j < depth + 1 - 1. (root, x) \<in> steps children ^^ j" if "x \<in> set (n # visiting)" for x
    proof (cases "x = n")
      case True
      with 1(2,3) show ?thesis by (intro exI [of _ "depth - 1"]) simp
    next
      case False
      with that 1(4) obtain j where "j < depth - 1" "(root, x) \<in> steps children ^^ j" by auto
      then show ?thesis by (intro exI [of _ j]) simp
    qed
    ultimately have "visit_all children (children n) (depth + 1) (n # visiting) visited \<noteq> None"
      using 1(1) [OF _ False _ _ _ 1(5,6)] d n by auto
    with d n False show ?thesis by (simp add: visit.simps [of children n])
  qed (use d n in \<open>simp add: visit.simps [of children n]\<close>)
next
  case (2 children depth visiting visited)
  then show ?case by simp
next
  case (3 children c cs depth visiting visited)
  have "visit children c depth visiting visited \<noteq> None" by (rule 3(1)) (use 3 in auto)
  then obtain v where v: "visit children c depth visiting visited = Some v" by auto
  have "visit_all children cs depth visiting v \<noteq> None" by (rule 3(2) [OF v]) (use 3 in auto)
  with v show ?case by simp
qed

lemma reaches_in:
  assumes "\<And>x. x \<in> V \<Longrightarrow> set (children x) \<subseteq> V" and "root \<in> V"
  shows "(root, x) \<in> steps children ^^ k \<Longrightarrow> x \<in> V"
proof (induction k arbitrary: x)
  case (Suc k)
  then obtain p where "(root, p) \<in> steps children ^^ k" "x \<in> set (children p)" by (auto elim!: relpow_Suc_E)
  with Suc.IH assms(1) show ?case by blast
qed (use assms(2) in simp)

text \<open>The visit from the root succeeds with all nodes if and only if all are within the levels.\<close>

lemma visits_all_iff:
  assumes "unique_parents children root" and "\<And>p. set (children p) \<subseteq> ids" and "root \<in> ids"
  shows "(case visit children root 1 [] [] of None \<Rightarrow> False | Some v \<Rightarrow> set v = ids) \<longleftrightarrow>
    (\<forall>i \<in> ids. \<exists>k < MAX_ATTACK_TREE_DEPTH. (root, i) \<in> steps children ^^ k)"
proof
  assume "case visit children root 1 [] [] of None \<Rightarrow> False | Some v \<Rightarrow> set v = ids"
  then obtain v where "visit children root 1 [] [] = Some v" "set v = ids" by (auto split: option.splits)
  then have "found children {root} 1 [] v" using visit_found(1) by blast
  then have "\<forall>i \<in> set v. \<exists>k. 1 + k \<le> MAX_ATTACK_TREE_DEPTH \<and> (root, i) \<in> steps children ^^ k" by (simp add: found_def)
  with \<open>set v = ids\<close> show "\<forall>i \<in> ids. \<exists>k < MAX_ATTACK_TREE_DEPTH. (root, i) \<in> steps children ^^ k"
    by (metis Suc_le_eq plus_1_eq_Suc)
next
  assume levels: "\<forall>i \<in> ids. \<exists>k < MAX_ATTACK_TREE_DEPTH. (root, i) \<in> steps children ^^ k"
  have in_ids: "x \<in> ids" if "(root, x) \<in> steps children ^^ j" for x j
    using reaches_in [of ids children root] assms(2,3) that by blast
  have "j < MAX_ATTACK_TREE_DEPTH" if "(root, x) \<in> steps children ^^ j" for x j
    using levels in_ids [OF that] level_unique [OF assms(1) that] by blast
  then have "visit children root 1 [] [] \<noteq> None" by (intro visit_succeeds(1) [OF assms(1)]) auto
  then obtain v where v: "visit children root 1 [] [] = Some v" by auto
  note f = visit_found(1) [OF v]
  have "set v \<subseteq> ids" using f in_ids by (auto simp: found_def)
  moreover have "ids \<subseteq> set v"
  proof
    fix i assume "i \<in> ids"
    with levels obtain k where "(root, i) \<in> steps children ^^ k" by auto
    with reaches_in [of "set v" children root] f show "i \<in> set v" by (auto simp: found_def)
  qed
  ultimately show "case visit children root 1 [] [] of None \<Rightarrow> False | Some v \<Rightarrow> set v = ids" using v by auto
qed

section \<open>What the check accepts\<close>

text \<open>A rooted tree over its nodes, in terms of the edge relation alone.\<close>

definition rooted_attack_tree :: "attack_tree \<Rightarrow> bool" where
  "rooted_attack_tree t \<longleftrightarrow>
     (let ids = an_id ` set (at_nodes t); E = set (at_edges t); root = at_root t in
      distinct (map an_id (at_nodes t)) \<and> distinct (at_edges t) \<and> root \<in> ids \<and>
      E \<subseteq> {(p, c). p \<in> ids \<and> c \<in> ids \<and> p \<noteq> c} \<and>
      (\<forall>n \<in> set (at_nodes t). an_kind n = GOAL \<longleftrightarrow> an_id n = root) \<and>
      (\<forall>p. (p, root) \<notin> E) \<and> (\<forall>i \<in> ids - {root}. \<exists>!p. (p, i) \<in> E) \<and>
      (\<forall>n \<in> set (at_nodes t). if an_operator n = OP_LEAF then an_kind n = ACTION \<and> E `` {an_id n} = {}
         else an_kind n \<noteq> ACTION \<and> 2 \<le> card (E `` {an_id n})) \<and>
      (\<forall>i \<in> ids. \<exists>k < MAX_ATTACK_TREE_DEPTH. (root, i) \<in> E ^^ k))"

lemma set_children_of: "set (children_of edges p) = set edges `` {p}"
  by (auto simp: children_of_def image_iff)

lemma steps_children_of: "steps (children_of edges) = set edges"
  by (auto simp: steps_def set_children_of)

lemma length_children_of: "distinct edges \<Longrightarrow> length (children_of edges p) = card (set edges `` {p})"
proof -
  assume "distinct edges"
  then have "distinct (children_of edges p)" by (auto simp: children_of_def distinct_map inj_on_def)
  then show ?thesis by (metis distinct_card set_children_of)
qed

lemma incoming_0: "incoming edges c = 0 \<longleftrightarrow> (\<forall>p. (p, c) \<notin> set edges)"
  by (auto simp: incoming_def filter_empty_conv)

lemma incoming_1:
  assumes "distinct edges"
  shows "incoming edges c = 1 \<longleftrightarrow> (\<exists>!p. (p, c) \<in> set edges)"
proof -
  have "incoming edges c = card {e \<in> set edges. snd e = c}"
    using assms by (metis distinct_card distinct_filter incoming_def set_filter)
  also have "{e \<in> set edges. snd e = c} = (\<lambda>p. (p, c)) ` {p. (p, c) \<in> set edges}" by force
  also have "card \<dots> = card {p. (p, c) \<in> set edges}" by (rule card_image) (simp add: inj_on_def)
  finally have "incoming edges c = 1 \<longleftrightarrow> (\<exists>p. {p. (p, c) \<in> set edges} = {p})" by (simp add: card_1_singleton_iff)
  then show ?thesis by (simp add: set_eq_iff) (metis)
qed

lemma node_kind_checks:
  assumes "distinct (map an_id ns)" and "find (\<lambda>n. an_id n = root) ns = Some r"
  shows "an_kind r = GOAL \<and> \<not> list_ex (\<lambda>n. an_kind n = GOAL \<and> an_id n \<noteq> root) ns \<longleftrightarrow>
    (\<forall>n \<in> set ns. an_kind n = GOAL \<longleftrightarrow> an_id n = root)"
proof -
  from assms(2) obtain i where "i < length ns" "r = ns ! i" "an_id r = root" unfolding find_Some_iff by blast
  then have r: "r \<in> set ns" "an_id r = root" by auto
  have "n = r" if "n \<in> set ns" "an_id n = root" for n
    using assms(1) r that by (metis distinct_map inj_onD)
  with r show ?thesis unfolding list_ex_iff by blast
qed

lemma incoming_checks:
  assumes "distinct edges"
  shows "incoming edges root = 0 \<and> \<not> list_ex (\<lambda>i. i \<noteq> root \<and> incoming edges i \<noteq> 1) ids \<longleftrightarrow>
    (\<forall>p. (p, root) \<notin> set edges) \<and> (\<forall>i \<in> set ids - {root}. \<exists>!p. (p, i) \<in> set edges)"
  using incoming_1 [OF assms] unfolding incoming_0 list_ex_iff by blast

lemma leaf_checks:
  assumes "distinct edges"
  shows "list_all (\<lambda>n. let child_count = length (children_of edges (an_id n)) in
      if an_operator n = OP_LEAF then child_count = 0 \<and> an_kind n = ACTION else 2 \<le> child_count \<and> an_kind n \<noteq> ACTION) ns \<longleftrightarrow>
    (\<forall>n \<in> set ns. if an_operator n = OP_LEAF then an_kind n = ACTION \<and> set edges `` {an_id n} = {}
       else an_kind n \<noteq> ACTION \<and> 2 \<le> card (set edges `` {an_id n}))"
proof -
  have "length (children_of edges p) = 0 \<longleftrightarrow> set edges `` {p} = {}" for p
    by (simp flip: set_children_of)
  then show ?thesis unfolding list_all_iff Let_def length_children_of [OF assms] by (simp add: conj_commute cong: if_cong)
qed

lemma checks_iff:
  assumes "find (\<lambda>n. an_id n = at_root t) (at_nodes t) = Some r" and "distinct (map an_id (at_nodes t)) \<and> distinct (at_edges t)"
  shows "attack_tree_structure_is_valid t \<longleftrightarrow>
    (an_kind r = GOAL \<and> \<not> list_ex (\<lambda>n. an_kind n = GOAL \<and> an_id n \<noteq> at_root t) (at_nodes t)) \<and>
    set (at_edges t) \<subseteq> {(p, c). p \<in> an_id ` set (at_nodes t) \<and> c \<in> an_id ` set (at_nodes t) \<and> p \<noteq> c} \<and>
    (\<forall>p. (p, at_root t) \<notin> set (at_edges t)) \<and>
    (\<forall>i \<in> an_id ` set (at_nodes t) - {at_root t}. \<exists>!p. (p, i) \<in> set (at_edges t)) \<and>
    (\<forall>n \<in> set (at_nodes t). if an_operator n = OP_LEAF then an_kind n = ACTION \<and> set (at_edges t) `` {an_id n} = {}
       else an_kind n \<noteq> ACTION \<and> 2 \<le> card (set (at_edges t) `` {an_id n})) \<and>
    (case visit (children_of (at_edges t)) (at_root t) 1 [] [] of None \<Rightarrow> False
      | Some v \<Rightarrow> set v = an_id ` set (at_nodes t))"
proof -
  have d: "distinct (map an_id (at_nodes t))" "distinct (at_edges t)" using assms(2) by auto
  have e: "list_all (\<lambda>(p, c). p \<in> set (map an_id (at_nodes t)) \<and> c \<in> set (map an_id (at_nodes t)) \<and> p \<noteq> c) (at_edges t) \<longleftrightarrow>
      set (at_edges t) \<subseteq> {(p, c). p \<in> an_id ` set (at_nodes t) \<and> c \<in> an_id ` set (at_nodes t) \<and> p \<noteq> c}"
    by (auto simp: list_all_iff)
  show ?thesis
    unfolding attack_tree_structure_is_valid_def Let_def [of "map an_id (at_nodes t)"] Let_def [of "at_root t"] Let_def [of "at_edges t"]
      assms(1) option.case(2) e leaf_checks [OF d(2)]
    using incoming_checks [OF d(2), of "at_root t" "map an_id (at_nodes t)"] d
    by (simp only: set_map simp_thms) (blast)
qed

lemma find_root: "find (\<lambda>n. an_id n = at_root t) (at_nodes t) = None \<longleftrightarrow> at_root t \<notin> an_id ` set (at_nodes t)"
proof -
  have "find (\<lambda>n. an_id n = i) ns = None \<longleftrightarrow> i \<notin> an_id ` set ns" for i ns by (induction ns) auto
  then show ?thesis .
qed

lemma attack_tree_valid_iff:
  "attack_tree_structure_is_valid t \<longleftrightarrow> rooted_attack_tree t"
proof (cases "distinct (map an_id (at_nodes t)) \<and> distinct (at_edges t) \<and> at_root t \<in> an_id ` set (at_nodes t)")
  case False
  then have "\<not> rooted_attack_tree t" unfolding rooted_attack_tree_def Let_def by blast
  moreover have "\<not> attack_tree_structure_is_valid t"
    using False find_root [of t] unfolding attack_tree_structure_is_valid_def Let_def
    by (cases "find (\<lambda>n. an_id n = at_root t) (at_nodes t)") simp_all
  ultimately show ?thesis by simp
next
  case True
  let ?ids = "an_id ` set (at_nodes t)" and ?E = "set (at_edges t)" and ?root = "at_root t"
  let ?ch = "children_of (at_edges t)"
  from True obtain r where r: "find (\<lambda>n. an_id n = ?root) (at_nodes t) = Some r"
    by (cases "find (\<lambda>n. an_id n = ?root) (at_nodes t)") (auto simp: find_None_iff)
  define shape where "shape \<longleftrightarrow> ?E \<subseteq> {(p, c). p \<in> ?ids \<and> c \<in> ?ids \<and> p \<noteq> c} \<and>
      (\<forall>p. (p, ?root) \<notin> ?E) \<and> (\<forall>i \<in> ?ids - {?root}. \<exists>!p. (p, i) \<in> ?E)"
  define kinds where "kinds \<longleftrightarrow> (\<forall>n \<in> set (at_nodes t). an_kind n = GOAL \<longleftrightarrow> an_id n = ?root)"
  define leaves where "leaves \<longleftrightarrow> (\<forall>n \<in> set (at_nodes t). if an_operator n = OP_LEAF then an_kind n = ACTION \<and> ?E `` {an_id n} = {}
         else an_kind n \<noteq> ACTION \<and> 2 \<le> card (?E `` {an_id n}))"
  define levels where "levels \<longleftrightarrow> (\<forall>i \<in> ?ids. \<exists>k < MAX_ATTACK_TREE_DEPTH. (?root, i) \<in> ?E ^^ k)"
  define found where "found \<longleftrightarrow> (case visit ?ch ?root 1 [] [] of None \<Rightarrow> False | Some v \<Rightarrow> set v = ?ids)"
  have spec: "rooted_attack_tree t \<longleftrightarrow> shape \<and> kinds \<and> leaves \<and> levels"
    using True by (auto simp: rooted_attack_tree_def Let_def shape_def kinds_def leaves_def levels_def)
  have "attack_tree_structure_is_valid t \<longleftrightarrow>
      (an_kind r = GOAL \<and> \<not> list_ex (\<lambda>n. an_kind n = GOAL \<and> an_id n \<noteq> ?root) (at_nodes t)) \<and> shape \<and> leaves \<and> found"
    using checks_iff [OF r] True unfolding shape_def leaves_def found_def by (simp only: conj_assoc simp_thms)
  moreover have "levels \<longleftrightarrow> found" if shape
  proof -
    have "p = q" if "(p, c) \<in> ?E" "(q, c) \<in> ?E" for p q c
    proof -
      have "c \<in> ?ids - {?root}" using that \<open>shape\<close> unfolding shape_def by blast
      then have "\<exists>!p. (p, c) \<in> ?E" using \<open>shape\<close> unfolding shape_def by simp
      with that show ?thesis by blast
    qed
    moreover have "(p, ?root) \<notin> ?E" for p using that unfolding shape_def by simp
    ultimately have "unique_parents ?ch ?root" unfolding unique_parents_def set_children_of by blast
    moreover have "set (?ch p) \<subseteq> ?ids" for p using that unfolding shape_def set_children_of by blast
    ultimately show ?thesis
      using visits_all_iff [of ?ch ?root ?ids] True unfolding levels_def found_def steps_children_of by simp
  qed
  ultimately show ?thesis unfolding spec kinds_def using node_kind_checks [OF _ r] True by blast
qed

text \<open>C26. The structure check accepts exactly the rooted attack trees: distinct nodes, one goal that is
  the root, edges between different nodes, no parent for the root and one for every other node,
  actions without children and combinations of at least two, and every node within six levels of the
  root.\<close>

theorem attack_tree_check_exact:
  "attack_tree_structure_is_valid t \<longleftrightarrow> rooted_attack_tree t"
  by (rule attack_tree_valid_iff)

end
