(* ===== verification/Repository_Source.thy ===== *)
theory Repository_Source
  imports Assurance_Store Url Security
begin

text \<open>
  From a request to a pinned snapshot: the source checks and \<open>GitHubRepositoryClient\<close> of
  \<open>bantam/repository_graph.py\<close>. GitHub is a function from the URL that is asked to its answer;
  the state of the client is the list of the URLs it asked. Python's JSON parser and UTF-8 decoder and
  SHA-256 are parameters.
\<close>

section \<open>Limits\<close>

definition GITHUB_API_ROOT :: string where "GITHUB_API_ROOT = ''https://api.github.com''"
definition MAX_TREE_RESPONSE_BYTES :: nat where "MAX_TREE_RESPONSE_BYTES = 4000000"
definition MAX_BLOB_RESPONSE_BYTES :: nat where "MAX_BLOB_RESPONSE_BYTES = 2000000"
definition MAX_SOURCE_FILE_BYTES :: int where "MAX_SOURCE_FILE_BYTES = 750000"
definition MAX_REPOSITORY_BYTES :: nat where "MAX_REPOSITORY_BYTES = 8000000"
definition MAX_CODE_FILES :: nat where "MAX_CODE_FILES = 360"
definition MAX_DOCUMENTATION_FILES :: nat where "MAX_DOCUMENTATION_FILES = 24"

definition EXCLUDED_PARTS :: "string list" where
  "EXCLUDED_PARTS = [''.git'', ''.terraform'', ''.venv'', ''__pycache__'', ''build'', ''dist'', ''htmlcov'',
     ''node_modules'', ''vendor'']"

section \<open>The source of a request\<close>

record repository_source =
  rs_repository :: string
  rs_ref :: string
  rs_root_path :: string
  rs_language :: string

definition err_repository_url :: failure where
  "err_repository_url = bantam ''INVALID_REPOSITORY''
     ''repository must be an owner/name value or an https://github.com URL'' 422"

definition filled :: "string option \<Rightarrow> bool" where
  "filled v \<longleftrightarrow> v \<noteq> None \<and> v \<noteq> Some []"

text \<open>The path of a GitHub URL; a malformed URL is Python's \<open>ValueError\<close>, port 0 is no port.\<close>

definition github_path :: "string \<Rightarrow> failure + string" where
  "github_path raw =
     (case urlsplit raw of
        Inl problem \<Rightarrow> Inl (ValueError problem)
      | Inr u \<Rightarrow>
          if url_scheme u \<noteq> ''https'' \<or> url_hostname u \<noteq> Some ''github.com'' \<or> filled (url_username u) \<or>
             filled (url_password u)
          then Inl err_repository_url
          else (case url_port u of
              Inl problem \<Rightarrow> Inl (ValueError problem)
            | Inr port \<Rightarrow>
                if port \<noteq> None \<and> port \<noteq> Some 0 \<or> url_query u \<noteq> [] \<or> url_fragment u \<noteq> [] then Inl err_repository_url
                else Inr (py_strip_chars (\<lambda>c. c = CHR ''/'') (url_path u))))"

definition safe_repository :: "string \<Rightarrow> failure + string" where
  "safe_repository v =
     (let raw = py_strip v in
      andthen (if py_contains raw ''://'' then github_path raw else Inr raw) (\<lambda>path.
      let name = (if py_endswith path ''.git'' then take (length path - 4) path else path) in
      if \<not> owner_and_name name
      then Inl (bantam ''INVALID_REPOSITORY'' ''repository must contain one valid GitHub owner/name pair'' 422)
      else Inr name))"

definition ref_char :: "char \<Rightarrow> bool" where
  "ref_char c \<longleftrightarrow> is_alnum c \<or> c \<in> set ''._/-''"

definition safe_ref :: "string \<Rightarrow> failure + string" where
  "safe_ref v =
     (let ref = (if py_strip v = [] then ''main'' else py_strip v) in
      if \<not> (length ref \<le> 180 \<and> list_all ref_char ref) \<or> py_startswith ref ''/'' \<or> py_endswith ref ''/'' \<or>
         ''..'' \<in> set (py_split (CHR ''/'') ref) \<or> py_contains ref [CHR ''@'', CHR 0x7B]
      then Inl (bantam ''INVALID_REPOSITORY_REF'' ''repository ref is invalid'' 422)
      else Inr ref)"

definition err_repository_path :: failure where
  "err_repository_path = bantam ''INVALID_REPOSITORY_PATH'' ''repository path is invalid'' 422"

definition safe_root_path :: "string \<Rightarrow> failure + string" where
  "safe_root_path v =
     (let raw = py_strip_chars (\<lambda>c. c = CHR ''/'') (py_strip v); parts = path_parts raw in
      if raw = [] then Inr []
      else if CHR 0x5C \<in> set raw \<or> utf8_length raw > 500 then Inl err_repository_path
      else if ''..'' \<in> set parts \<or> list_ex (\<lambda>p. py_casefold p \<in> set EXCLUDED_PARTS) parts \<or> list_ex is_control raw
      then Inl err_repository_path
      else Inr (if parts = [] then ''.'' else py_join ''/'' parts))"

definition from_mapping :: "string \<Rightarrow> string \<Rightarrow> string \<Rightarrow> string \<Rightarrow> failure + repository_source" where
  "from_mapping repository ref root_path language =
     (let lang = py_lower (py_strip language) in
      if lang \<notin> {''auto'', ''python'', ''terraform''}
      then Inl (bantam ''INVALID_REPOSITORY_LANGUAGE'' ''language must be auto, python, or terraform'' 422)
      else andthen (safe_repository repository) (\<lambda>repo.
        andthen (safe_ref ref) (\<lambda>r.
        andthen (safe_root_path root_path) (\<lambda>root.
        Inr \<lparr>rs_repository = repo, rs_ref = r, rs_root_path = root, rs_language = lang\<rparr>))))"

section \<open>Asking GitHub\<close>

datatype github_answer = Body string | Status int | NoAnswer

record github =
  gh_answer :: "string \<Rightarrow> github_answer"
  gh_loads :: "string \<Rightarrow> json option"
  gh_utf8 :: "nat list \<Rightarrow> string option"
  gh_sha256_hex :: "string \<Rightarrow> string"

type_synonym 'a client = "(string list, failure, 'a) proc"

definition err_response :: "string \<Rightarrow> failure" where
  "err_response message = bantam ''REPOSITORY_RESPONSE_INVALID'' message 502"

definition read_json_response :: "github \<Rightarrow> string \<Rightarrow> nat \<Rightarrow> failure + (string \<times> json) list" where
  "read_json_response gh body limit =
     (if length body > limit
      then Inl (bantam ''REPOSITORY_RESPONSE_TOO_LARGE'' ''GitHub returned a response larger than the safe ingestion limit'' 422)
      else case gh_loads gh body of
        Some (JObj kvs) \<Rightarrow> Inr kvs
      | _ \<Rightarrow> Inl (err_response ''GitHub returned an invalid repository response''))"

definition http_failure :: "int \<Rightarrow> failure" where
  "http_failure status =
     (if 300 \<le> status \<and> status < 400
      then bantam ''REPOSITORY_REDIRECT_REJECTED'' ''GitHub returned a redirect that Bantam refused'' 502
      else if status \<in> {401, 403, 404}
      then bantam ''REPOSITORY_UNAVAILABLE'' ''repository or ref is unavailable to the configured GitHub token'' 404
      else if status = 429
      then bantam ''REPOSITORY_RATE_LIMITED'' ''GitHub repository ingestion is currently rate limited'' 429
      else bantam ''REPOSITORY_PROVIDER_ERROR'' ''GitHub could not provide the requested repository snapshot'' 502)"

definition fetch_json :: "github \<Rightarrow> string \<Rightarrow> nat \<Rightarrow> (string \<times> json) list client" where
  "fetch_json gh url limit asked =
     (if \<not> py_startswith url (GITHUB_API_ROOT @ ''/repos/'')
      then (Inl (RuntimeError ''repository client attempted a non-GitHub endpoint''), asked)
      else ((case gh_answer gh url of
          Body body \<Rightarrow> read_json_response gh body limit
        | Status status \<Rightarrow> Inl (http_failure status)
        | NoAnswer \<Rightarrow> Inl (bantam ''REPOSITORY_PROVIDER_TIMEOUT''
            ''GitHub did not return the repository snapshot in time'' 504)),
        asked @ [url]))"

section \<open>Eligible files\<close>

definition is_terraform :: "string \<Rightarrow> bool" where
  "is_terraform path \<longleftrightarrow> py_endswith (py_casefold path) ''.tf'' \<or> py_endswith (py_casefold path) ''.tf.json''"

definition is_documentation :: "string \<Rightarrow> bool" where
  "is_documentation path \<longleftrightarrow>
     py_endswith (py_casefold path) ''.md'' \<and>
     (py_casefold (path_name path) \<in> {''readme.md'', ''documentation.md''} \<or>
      ''docs'' \<in> set (map py_casefold (path_parts path)))"

definition eligible :: "string \<Rightarrow> string \<Rightarrow> bool \<times> bool" where
  "eligible path language =
     (if list_ex (\<lambda>p. py_casefold p \<in> set EXCLUDED_PARTS) (path_parts path) then (False, False)
      else
        let documentation = is_documentation path;
            python = (py_casefold (path_suffix path) \<in> {''.py'', ''.sql''});
            terraform = is_terraform path in
        if language = ''python'' then (python \<or> documentation, documentation)
        else if language = ''terraform'' then (terraform \<or> documentation, documentation)
        else (python \<or> terraform \<or> documentation, documentation))"

section \<open>Selecting the files\<close>

record blob_entry =
  be_path :: string
  be_sha :: string
  be_size :: int

definition json_text :: "json option \<Rightarrow> string option" where
  "json_text v = (case v of Some (JStr s) \<Rightarrow> Some s | _ \<Rightarrow> None)"

text \<open>A Boolean is an integer for Python.\<close>

definition json_int :: "json \<Rightarrow> int option" where
  "json_int v = (case v of JInt i \<Rightarrow> Some i | JBool b \<Rightarrow> Some (of_bool b) | _ \<Rightarrow> None)"

text \<open>An entry of the tree: \<open>None\<close> when it is passed over.\<close>

definition tree_entry :: "repository_source \<Rightarrow> json \<Rightarrow> failure + (blob_entry \<times> bool) option" where
  "tree_entry source entry =
     (case entry of
        JObj kvs \<Rightarrow>
          (case (map_of kvs ''type'' = Some (JStr ''blob''), json_text (map_of kvs ''path''), json_text (map_of kvs ''sha'')) of
             (True, Some repository_path, Some sha) \<Rightarrow>
               let prefix = (if rs_root_path source = [] then [] else rs_root_path source @ ''/'');
                   relative = drop (length prefix) repository_path;
                   (ok, documentation) = eligible relative (rs_language source);
                   size = (case map_of kvs ''size'' of None \<Rightarrow> Some 0 | Some v \<Rightarrow> json_int v) in
               if \<not> py_startswith repository_path prefix \<or> relative = [] \<or> py_startswith relative ''/'' \<or> \<not> ok
               then Inr None
               else (case size of
                   Some n \<Rightarrow>
                     if n < 0 \<or> n > MAX_SOURCE_FILE_BYTES
                     then Inl (bantam ''REPOSITORY_FILE_TOO_LARGE'' (''repository file exceeds the safe limit: '' @ relative) 422)
                     else Inr (Some (\<lparr>be_path = relative, be_sha = sha, be_size = n\<rparr>, documentation))
                 | None \<Rightarrow> Inl (bantam ''REPOSITORY_FILE_TOO_LARGE'' (''repository file exceeds the safe limit: '' @ relative) 422))
           | _ \<Rightarrow> Inr None)
      | _ \<Rightarrow> Inr None)"

fun tree_entries :: "repository_source \<Rightarrow> json list \<Rightarrow> failure + (blob_entry \<times> bool) list" where
  "tree_entries source [] = Inr []"
| "tree_entries source (e # es) =
     andthen (tree_entry source e) (\<lambda>r. andthen (tree_entries source es) (\<lambda>rs.
       Inr (case r of None \<Rightarrow> rs | Some b \<Rightarrow> b # rs)))"

definition sort_code :: "blob_entry list \<Rightarrow> blob_entry list" where
  "sort_code es = sort_key (\<lambda>e. [be_path e, be_sha e]) (sort_key be_size es)"

definition doc_rank :: "blob_entry \<Rightarrow> nat" where
  "doc_rank e =
     (if py_startswith (be_path e) ''docs/reference/flows/'' then 0
      else if py_casefold (path_name (be_path e)) = ''readme.md'' then 1 else 2)"

definition sort_docs :: "blob_entry list \<Rightarrow> blob_entry list" where
  "sort_docs es = sort_key doc_rank (sort_key be_path es)"

definition select_files :: "(blob_entry \<times> bool) list \<Rightarrow> failure + blob_entry list" where
  "select_files entries =
     (let code = sort_code (map fst (filter (\<lambda>e. \<not> snd e) entries)); docs = sort_docs (map fst (filter snd entries));
          selected = code @ take MAX_DOCUMENTATION_FILES docs in
      if length code > MAX_CODE_FILES
      then Inl (bantam ''REPOSITORY_TOO_MANY_FILES'' (''repository contains more than 360 eligible code files'') 422)
      else if code = []
      then Inl (bantam ''REPOSITORY_SOURCE_EMPTY'' ''repository path contains no eligible Python or Terraform source'' 422)
      else if sum_list (map be_size selected) > int MAX_REPOSITORY_BYTES
      then Inl (bantam ''REPOSITORY_TOO_LARGE'' ''repository source exceeds the safe ingestion byte limit'' 422)
      else Inr selected)"

section \<open>Fetching\<close>

record repository_file =
  rf_path :: string
  rf_sha :: string
  rf_content :: string

record repository_snapshot =
  rp_source :: repository_source
  rp_resolved_commit :: string
  rp_files :: "repository_file list"
  rp_detected_language :: string
  rp_source_sha256 :: string

text \<open>\<open>urllib.parse.quote\<close> with no safe characters beyond the unreserved ones.\<close>

definition quote_char :: "char \<Rightarrow> string" where
  "quote_char c =
     (let byte = (\<lambda>n. CHR ''%'' # py_upper (hex_str 2 n)) in
      if is_alnum c \<or> c \<in> set ''_.-~'' then [c]
      else if ord c < 128 then byte (ord c)
      else byte (192 + ord c div 64) @ byte (128 + ord c mod 64))"

definition url_quote :: "string \<Rightarrow> string" where
  "url_quote s = concat (map quote_char s)"

definition repository_base :: "repository_source \<Rightarrow> string" where
  "repository_base source =
     (let (owner, _, name) = py_partition (CHR ''/'') (rs_repository source) in
      GITHUB_API_ROOT @ ''/repos/'' @ url_quote owner @ ''/'' @ url_quote name)"

definition b64decode_standard :: "string \<Rightarrow> nat list option" where
  "b64decode_standard s =
     (if list_ex (\<lambda>c. 128 \<le> ord c) s \<or> py_startswith s ''='' then None else a2b 0 0 0 False s)"

definition decode_blob :: "github \<Rightarrow> blob_entry \<Rightarrow> (string \<times> json) list \<Rightarrow> failure + nat list \<times> string" where
  "decode_blob gh e blob =
     (case (map_of blob ''sha'' = Some (JStr (be_sha e)), map_of blob ''encoding'' = Some (JStr ''base64''), json_text (map_of blob ''content'')) of
        (True, True, Some text) \<Rightarrow>
          (case b64decode_standard (filter (\<lambda>c. \<not> py_isspace c) text) of
             None \<Rightarrow> Inl (bantam ''REPOSITORY_SOURCE_INVALID'' (''repository source is not valid UTF-8: '' @ be_path e) 422)
           | Some raw \<Rightarrow>
               (case gh_utf8 gh raw of
                  None \<Rightarrow> Inl (bantam ''REPOSITORY_SOURCE_INVALID'' (''repository source is not valid UTF-8: '' @ be_path e) 422)
                | Some content \<Rightarrow> Inr (raw, content)))
      | _ \<Rightarrow> Inl (err_response (''GitHub returned an invalid source blob for '' @ be_path e)))"

fun fetch_files :: "github \<Rightarrow> string \<Rightarrow> nat \<Rightarrow> blob_entry list \<Rightarrow> repository_file list client" where
  "fetch_files gh base read [] = returning []"
| "fetch_files gh base read (e # es) =
     run_then (fetch_json gh (base @ ''/git/blobs/'' @ be_sha e) MAX_BLOB_RESPONSE_BYTES) (\<lambda>blob.
     case decode_blob gh e blob of
       Inl failure \<Rightarrow> raising failure
     | Inr (raw, content) \<Rightarrow>
         if read + length raw > MAX_REPOSITORY_BYTES
         then raising (bantam ''REPOSITORY_TOO_LARGE'' ''repository source exceeds the safe ingestion byte limit'' 422)
         else run_then (fetch_files gh base (read + length raw) es) (\<lambda>files.
           returning (\<lparr>rf_path = be_path e, rf_sha = be_sha e, rf_content = content\<rparr> # files)))"

definition detected_language :: "repository_file list \<Rightarrow> string" where
  "detected_language files =
     (let python = list_ex (\<lambda>f. py_endswith (rf_path f) ''.py'') files;
          terraform = list_ex (\<lambda>f. is_terraform (rf_path f)) files in
      if python \<and> terraform then ''mixed'' else if python then ''python'' else ''terraform'')"

definition manifest :: "repository_file list \<Rightarrow> json" where
  "manifest files = JList (map (\<lambda>f. JObj [(''path'', JStr (rf_path f)), (''sha'', JStr (rf_sha f)),
     (''bytes'', JInt (int (utf8_length (rf_content f))))]) files)"

text \<open>\<open>get\<close> of a value that is no dictionary is an \<open>AttributeError\<close>, which is answered like
  any error that is not a Bantam one.\<close>

definition resolved :: "(string \<times> json) list \<Rightarrow> failure + string \<times> string" where
  "resolved commit =
     (let unresolved = Inl (err_response ''GitHub did not resolve the requested repository ref'') in
      case map_of commit ''commit'' of
        Some (JObj c) \<Rightarrow>
          (case (case map_of c ''tree'' of None \<Rightarrow> Inr [] | Some (JObj t) \<Rightarrow> Inr t | _ \<Rightarrow> Inl (RuntimeError ''AttributeError'')) of
             Inl failure \<Rightarrow> Inl failure
           | Inr t \<Rightarrow>
               (case (json_text (map_of commit ''sha''), json_text (map_of t ''sha'')) of
                  (Some sha, Some tree) \<Rightarrow> if hex_between 40 64 sha \<and> hex_between 40 64 tree then Inr (sha, tree) else unresolved
                | _ \<Rightarrow> unresolved))
      | _ \<Rightarrow> unresolved)"

text \<open>From the listed tree to the snapshot.\<close>

definition snapshot_of :: "github \<Rightarrow> repository_source \<Rightarrow> string \<Rightarrow> (string \<times> json) list \<Rightarrow> repository_snapshot client" where
  "snapshot_of gh source sha tree =
     (if map_of tree ''truncated'' = Some (JBool True)
      then raising (bantam ''REPOSITORY_TREE_TOO_LARGE'' ''repository tree is too large for a complete deterministic snapshot'' 422)
      else case map_of tree ''tree'' of
        Some (JList entries) \<Rightarrow>
          (case andthen (tree_entries source entries) select_files of
             Inl failure \<Rightarrow> raising failure
           | Inr selected \<Rightarrow>
               run_then (fetch_files gh (repository_base source) 0 selected) (\<lambda>files.
               returning \<lparr>rp_source = source, rp_resolved_commit = sha, rp_files = files,
                 rp_detected_language = detected_language files,
                 rp_source_sha256 = digest (gh_sha256_hex gh) (manifest files)\<rparr>))
      | _ \<Rightarrow> raising (err_response ''GitHub returned an invalid repository tree''))"

definition fetch :: "github \<Rightarrow> repository_source \<Rightarrow> repository_snapshot client" where
  "fetch gh source =
     (let base = repository_base source in
      run_then (fetch_json gh (base @ ''/commits/'' @ url_quote (rs_ref source)) MAX_TREE_RESPONSE_BYTES) (\<lambda>commit.
      case resolved commit of
        Inl failure \<Rightarrow> raising failure
      | Inr (sha, tree_sha) \<Rightarrow>
          run_then (fetch_json gh (base @ ''/git/trees/'' @ tree_sha @ ''?recursive=1'') MAX_TREE_RESPONSE_BYTES)
            (snapshot_of gh source sha)))"

section \<open>What is admitted\<close>

lemma select_files_InrD:
  assumes "select_files es = Inr selected"
  shows "length selected \<le> MAX_CODE_FILES + MAX_DOCUMENTATION_FILES \<and> set selected \<subseteq> fst ` set es \<and> selected \<noteq> [] \<and>
    sum_list (map be_size selected) \<le> int MAX_REPOSITORY_BYTES"
  using assms by (auto simp: select_files_def Let_def sort_code_def sort_docs_def split: if_splits dest!: in_set_takeD) (force simp: image_iff)+

definition admitted :: "repository_source \<Rightarrow> blob_entry \<Rightarrow> bool" where
  "admitted source e \<longleftrightarrow> be_path e \<noteq> [] \<and> \<not> py_startswith (be_path e) ''/'' \<and>
     fst (eligible (be_path e) (rs_language source)) \<and> 0 \<le> be_size e \<and> be_size e \<le> MAX_SOURCE_FILE_BYTES"

lemma tree_entry_InrD: "tree_entry source e = Inr (Some (b, d)) \<Longrightarrow> admitted source b"
  by (auto simp: tree_entry_def admitted_def Let_def not_less split: json.splits option.splits bool.splits prod.splits if_splits)

lemma tree_entries_InrD: "tree_entries source es = Inr bs \<Longrightarrow> (b, d) \<in> set bs \<Longrightarrow> admitted source b"
  by (induction es arbitrary: bs) (auto elim!: andthen_InrE split: option.splits dest: tree_entry_InrD)

text \<open>What a client asks begins with a prefix, and how often it asks.\<close>

definition asks :: "string \<Rightarrow> nat \<Rightarrow> 'a client \<Rightarrow> bool" where
  "asks prefix n m \<longleftrightarrow> (\<forall>asked r asked'. m asked = (r, asked') \<longrightarrow>
     (\<exists>new. asked' = asked @ new \<and> length new \<le> n \<and> list_all (\<lambda>u. py_startswith u prefix) new))"

lemma asks_raising: "asks prefix n (raising e)"
  by (auto simp: asks_def)

lemma asks_returning: "asks prefix n (returning x)"
  by (auto simp: asks_def)

lemma py_startswith_append: "py_startswith (p @ s) p"
  by (simp add: py_startswith_def)

lemma asks_fetch_json: "py_startswith url prefix \<Longrightarrow> asks prefix (Suc n) (fetch_json gh url limit)"
  by (auto simp: asks_def fetch_json_def)

lemma asks_then:
  assumes "asks prefix k m" and "\<And>x. asks prefix n (f x)"
  shows "asks prefix (k + n) (run_then m f)"
  unfolding asks_def
proof (intro allI impI)
  fix asked r asked'
  assume "run_then m f asked = (r, asked')"
  then show "\<exists>new. asked' = asked @ new \<and> length new \<le> k + n \<and> list_all (\<lambda>u. py_startswith u prefix) new"
  proof (cases rule: run_then_cases)
    case (raised e)
    with assms(1) obtain new where "asked' = asked @ new" "length new \<le> k" "list_all (\<lambda>u. py_startswith u prefix) new"
      unfolding asks_def by blast
    then show ?thesis by (intro exI [of _ new]) simp
  next
    case (ran x mid)
    from ran(1) assms(1) obtain a where a: "mid = asked @ a" "length a \<le> k" "list_all (\<lambda>u. py_startswith u prefix) a"
      unfolding asks_def by blast
    from ran(2) assms(2) obtain b where "asked' = mid @ b" "length b \<le> n" "list_all (\<lambda>u. py_startswith u prefix) b"
      unfolding asks_def by blast
    with a show ?thesis by (intro exI [of _ "a @ b"]) simp
  qed
qed

lemma asks_fetch_files: "asks (base @ ''/'') (length es) (fetch_files gh base read es)"
proof (induction es arbitrary: read)
  case Nil
  then show ?case by (simp add: asks_returning)
next
  case (Cons e es)
  have "asks (base @ ''/'') (1 + length es) (run_then (fetch_json gh (base @ ''/git/blobs/'' @ be_sha e) MAX_BLOB_RESPONSE_BYTES) (\<lambda>blob.
     case decode_blob gh e blob of
       Inl failure \<Rightarrow> raising failure
     | Inr (raw, content) \<Rightarrow>
         if read + length raw > MAX_REPOSITORY_BYTES
         then raising (bantam ''REPOSITORY_TOO_LARGE'' ''repository source exceeds the safe ingestion byte limit'' 422)
         else run_then (fetch_files gh base (read + length raw) es) (\<lambda>files.
           returning (\<lparr>rf_path = be_path e, rf_sha = be_sha e, rf_content = content\<rparr> # files))))"
  proof (rule asks_then)
    show "asks (base @ ''/'') 1 (fetch_json gh (base @ ''/git/blobs/'' @ be_sha e) MAX_BLOB_RESPONSE_BYTES)"
      using asks_fetch_json [OF py_startswith_append [of "base @ ''/''" "''git/blobs/'' @ be_sha e"], of 0 gh] by simp
    show "asks (base @ ''/'') (length es) (case decode_blob gh e blob of Inl failure \<Rightarrow> raising failure
       | Inr (raw, content) \<Rightarrow>
         if read + length raw > MAX_REPOSITORY_BYTES
         then raising (bantam ''REPOSITORY_TOO_LARGE'' ''repository source exceeds the safe ingestion byte limit'' 422)
         else run_then (fetch_files gh base (read + length raw) es) (\<lambda>files.
           returning (\<lparr>rf_path = be_path e, rf_sha = be_sha e, rf_content = content\<rparr> # files)))" for blob
      using asks_then [OF Cons.IH asks_returning [where n = 0]]
      by (auto simp: asks_raising split: sum.splits)
  qed
  then show ?case by simp
qed

lemma asks_mono: "asks prefix k m \<Longrightarrow> k \<le> n \<Longrightarrow> asks prefix n m"
  unfolding asks_def by (meson order_trans)

lemma asks_fetch: "asks (repository_base source @ ''/'') (2 + (MAX_CODE_FILES + MAX_DOCUMENTATION_FILES)) (fetch gh source)"
proof -
  let ?base = "repository_base source" and ?n = "MAX_CODE_FILES + MAX_DOCUMENTATION_FILES"
  have files: "asks (?base @ ''/'') ?n (run_then (fetch_files gh ?base 0 selected) (\<lambda>files. returning (f files)))"
    if "select_files bs = Inr selected" for bs selected and f :: "repository_file list \<Rightarrow> repository_snapshot"
    by (rule asks_mono [OF asks_then [OF asks_fetch_files asks_returning [where n = 0]]])
      (use select_files_InrD [OF that] in simp)
  have tree: "asks (?base @ ''/'') ?n
      (snapshot_of gh source sha tree)" for tree sha
    using files by (auto simp: snapshot_of_def asks_raising andthen_def split: option.splits json.splits sum.splits)
  have one: "asks (?base @ ''/'') 1 (fetch_json gh (?base @ CHR ''/'' # rest) limit)" for rest limit
    using asks_fetch_json [OF py_startswith_append [of "?base @ ''/''" rest], of 0 gh] by simp
  have second: "asks (?base @ ''/'') (1 + ?n) (case resolved commit of Inl failure \<Rightarrow> raising failure
      | Inr (sha, tree_sha) \<Rightarrow>
          run_then (fetch_json gh (?base @ ''/git/trees/'' @ tree_sha @ ''?recursive=1'') MAX_TREE_RESPONSE_BYTES) (f sha))"
    if "\<And>sha tree. asks (?base @ ''/'') ?n (f sha tree)" for commit and f :: "string \<Rightarrow> (string \<times> json) list \<Rightarrow> repository_snapshot client"
    using asks_then [OF one that] by (auto simp: asks_raising split: sum.splits)
  have "asks (?base @ ''/'') (1 + (1 + ?n)) (fetch gh source)"
    unfolding fetch_def Let_def by (rule asks_then) (use one in simp, rule second, rule tree)
  then show ?thesis by (simp add: numeral_2_eq_2)
qed

lemma fetch_files_InrD:
  "fetch_files gh base read es asked = (Inr files, asked') \<Longrightarrow>
     map rf_path files = map be_path es \<and> map rf_sha files = map be_sha es \<and>
     (\<exists>raws. list_all2 (\<lambda>f raw. gh_utf8 gh raw = Some (rf_content f)) files raws \<and>
        read + sum_list (map length raws) \<le> max read MAX_REPOSITORY_BYTES)"
proof (induction es arbitrary: read asked files)
  case Nil
  then show ?case by (auto intro: exI [of _ "[]"])
next
  case (Cons e es)
  from Cons.prems obtain blob mid0 where m: "(case decode_blob gh e blob of Inl failure \<Rightarrow> raising failure
     | Inr (raw, content) \<Rightarrow>
         if read + length raw > MAX_REPOSITORY_BYTES
         then raising (bantam ''REPOSITORY_TOO_LARGE'' ''repository source exceeds the safe ingestion byte limit'' 422)
         else run_then (fetch_files gh base (read + length raw) es) (\<lambda>files.
           returning (\<lparr>rf_path = be_path e, rf_sha = be_sha e, rf_content = content\<rparr> # files))) mid0 = (Inr files, asked')"
    by (auto simp: run_then_Inr_iff)
  obtain raw content mid rest where
    b: "decode_blob gh e blob = Inr (raw, content)" "read + length raw \<le> MAX_REPOSITORY_BYTES"
      "fetch_files gh base (read + length raw) es mid = (Inr rest, asked')"
      "files = \<lparr>rf_path = be_path e, rf_sha = be_sha e, rf_content = content\<rparr> # rest"
  proof (cases "decode_blob gh e blob")
    case (Inr rc)
    obtain raw content where "rc = (raw, content)" by fastforce
    with m Inr that [of raw content] show thesis by (auto simp: run_then_Inr_iff not_less split: if_splits)
  qed (use m in simp)
  from Cons.IH [OF b(3)] obtain raws where r: "map rf_path rest = map be_path es" "map rf_sha rest = map be_sha es"
    "list_all2 (\<lambda>f raw. gh_utf8 gh raw = Some (rf_content f)) rest raws"
    "read + length raw + sum_list (map length raws) \<le> max (read + length raw) MAX_REPOSITORY_BYTES" by blast
  from b(1) have "gh_utf8 gh raw = Some content"
    by (auto simp: decode_blob_def split: bool.splits option.splits)
  with r b(2,4) show ?case by (intro conjI exI [of _ "raw # raws"]) auto
qed

definition confined :: "repository_source \<Rightarrow> string \<Rightarrow> bool" where
  "confined source path \<longleftrightarrow> path \<noteq> [] \<and> \<not> py_startswith path ''/'' \<and>
     (\<forall>p \<in> set (path_parts path). py_casefold p \<notin> set EXCLUDED_PARTS) \<and> fst (eligible path (rs_language source))"

lemma admitted_confined: "admitted source e \<Longrightarrow> confined source (be_path e)"
  by (auto simp: admitted_def confined_def eligible_def list_ex_iff split: if_splits)

lemma fetch_InrD:
  assumes "fetch gh source asked = (Inr snap, asked')"
  obtains selected bs mid where "rp_source snap = source" "hex_between 40 64 (rp_resolved_commit snap)"
    "select_files bs = Inr selected" "\<And>b d. (b, d) \<in> set bs \<Longrightarrow> admitted source b"
    "fetch_files gh (repository_base source) 0 selected mid = (Inr (rp_files snap), asked')"
    "rp_detected_language snap = detected_language (rp_files snap)"
    "rp_source_sha256 snap = digest (gh_sha256_hex gh) (manifest (rp_files snap))"
proof -
  from assms obtain commit mid1 where 1: "(case resolved commit of Inl failure \<Rightarrow> raising failure
      | Inr (sha, tree_sha) \<Rightarrow>
          run_then (fetch_json gh (repository_base source @ ''/git/trees/'' @ tree_sha @ ''?recursive=1'') MAX_TREE_RESPONSE_BYTES)
            (snapshot_of gh source sha)) mid1 = (Inr snap, asked')"
    unfolding fetch_def Let_def
      run_then_Inr_iff [of "fetch_json gh (repository_base source @ ''/commits/'' @ url_quote (rs_ref source)) _"] by blast
  obtain sha tree_sha where r: "resolved commit = Inr (sha, tree_sha)"
    using 1 by (cases "resolved commit") auto
  from 1 obtain tree mid2 where 2: "snapshot_of gh source sha tree mid2 = (Inr snap, asked')"
    by (auto simp: r run_then_Inr_iff)
  obtain entries where e: "map_of tree ''tree'' = Some (JList entries)"
    using 2 by (cases "map_of tree ''tree''") (auto simp: snapshot_of_def split: json.splits if_splits)
  obtain selected where a: "andthen (tree_entries source entries) select_files = Inr selected"
    using 2 by (cases "andthen (tree_entries source entries) select_files") (auto simp: snapshot_of_def e split: if_splits)
  then obtain bs where s: "tree_entries source entries = Inr bs" "select_files bs = Inr selected" by (auto elim: andthen_InrE)
  obtain files where f: "fetch_files gh (repository_base source) 0 selected mid2 = (Inr files, asked')"
      "snap = \<lparr>rp_source = source, rp_resolved_commit = sha, rp_files = files,
                       rp_detected_language = detected_language files,
                       rp_source_sha256 = digest (gh_sha256_hex gh) (manifest files)\<rparr>"
    using 2 by (auto simp: snapshot_of_def e a run_then_Inr_iff split: if_splits)
  from r have "hex_between 40 64 sha"
    by (auto simp: resolved_def Let_def split: option.splits json.splits sum.splits if_splits)
  with s f tree_entries_InrD [OF s(1)] show thesis by (intro that) auto
qed

text \<open>C27. Reading a repository is confined: whatever GitHub answers, at most 386 requests are made, all
  below the one repository on the fixed host; and a snapshot that is returned is pinned to a commit
  digest and holds at most 384 files and 8 megabytes, none of them from an excluded directory and each
  of an eligible kind.\<close>

theorem repository_reading_is_confined:
  "case fetch gh source [] of (r, asked) \<Rightarrow>
     length asked \<le> 386 \<and> list_all (\<lambda>u. py_startswith u (repository_base source @ ''/'')) asked \<and>
     (case r of Inl _ \<Rightarrow> True
      | Inr snap \<Rightarrow> rp_source snap = source \<and> hex_between 40 64 (rp_resolved_commit snap) \<and>
          rp_files snap \<noteq> [] \<and> length (rp_files snap) \<le> 384 \<and>
          list_all (confined source) (map rf_path (rp_files snap)) \<and>
          (\<exists>raws. list_all2 (\<lambda>f raw. gh_utf8 gh raw = Some (rf_content f)) (rp_files snap) raws \<and>
             sum_list (map length raws) \<le> MAX_REPOSITORY_BYTES))"
proof (cases "fetch gh source []")
  case (Pair r asked)
  from asks_fetch [of source gh] Pair have a: "length asked \<le> 386"
    "list_all (\<lambda>u. py_startswith u (repository_base source @ ''/'')) asked"
    unfolding asks_def by (force simp: MAX_CODE_FILES_def MAX_DOCUMENTATION_FILES_def)+
  show ?thesis
  proof (cases r)
    case (Inl e)
    with Pair a show ?thesis by simp
  next
    case (Inr snap)
    from fetch_InrD [OF Pair [unfolded Inr]] obtain selected bs mid where
      f: "rp_source snap = source" "hex_between 40 64 (rp_resolved_commit snap)"
        "select_files bs = Inr selected" "\<And>b d. (b, d) \<in> set bs \<Longrightarrow> admitted source b"
        "fetch_files gh (repository_base source) 0 selected mid = (Inr (rp_files snap), asked)" by metis
    note s = select_files_InrD [OF f(3)]
    from fetch_files_InrD [OF f(5)] obtain raws where w: "map rf_path (rp_files snap) = map be_path selected"
      "list_all2 (\<lambda>f raw. gh_utf8 gh raw = Some (rf_content f)) (rp_files snap) raws"
      "sum_list (map length raws) \<le> MAX_REPOSITORY_BYTES" by auto
    have "length (rp_files snap) = length selected" using w(1) by (metis length_map)
    moreover have "list_all (confined source) (map be_path selected)"
      using s f(4) admitted_confined by (fastforce simp: list_all_iff)
    ultimately show ?thesis using Pair Inr a f(1,2) s w
      by (auto simp: MAX_CODE_FILES_def MAX_DOCUMENTATION_FILES_def)
  qed
qed

end
