(* ===== verification/Text_Pattern.thy ===== *)
theory Text_Pattern
  imports Url
begin

text \<open>
  What the source uses of Python's \<open>re\<close>: classes of characters, bounded repetitions of one class,
  sequence, alternation, word boundaries and the end of the text. A place in a text is what was read,
  backwards, and what is left; a pattern yields the places where it can end, in the order in which the
  backtracking matcher tries them, so the first one is the match.
\<close>

section \<open>Patterns\<close>

datatype pattern =
    One "char \<Rightarrow> bool"
  | Many bool nat "nat option" "char \<Rightarrow> bool"
  | Then pattern pattern
  | Either pattern pattern
  | WordEdge
  | AtEnd

type_synonym place = "string \<times> string"

definition advance :: "nat \<Rightarrow> place \<Rightarrow> place" where
  "advance k pl = (rev (take k (snd pl)) @ fst pl, drop k (snd pl))"

text \<open>The class \<open>\w\<close>: letters, digits and the underscore, with the letters and numbers of Latin-1.\<close>

definition word_char :: "char \<Rightarrow> bool" where
  "word_char c \<longleftrightarrow> is_alnum c \<or> c = CHR ''_'' \<or> ord c \<in> {170, 178, 179, 181, 185, 186, 188, 189, 190} \<or>
     192 \<le> ord c \<and> ord c \<noteq> 215 \<and> ord c \<noteq> 247"

definition starts_word :: "string \<Rightarrow> bool" where
  "starts_word s = (case s of [] \<Rightarrow> False | c # _ \<Rightarrow> word_char c)"

text \<open>How many characters a repetition may take, fewest first.\<close>

definition repeats :: "nat \<Rightarrow> nat option \<Rightarrow> (char \<Rightarrow> bool) \<Rightarrow> string \<Rightarrow> nat list" where
  "repeats lo hi p t =
     (let n = length (takeWhile p t) in [lo..<Suc (case hi of None \<Rightarrow> n | Some h \<Rightarrow> min n h)])"

fun ends :: "pattern \<Rightarrow> place \<Rightarrow> place list" where
  "ends (One p) pl = (case snd pl of [] \<Rightarrow> [] | c # _ \<Rightarrow> if p c then [advance 1 pl] else [])"
| "ends (Many greedy lo hi p) pl =
     map (\<lambda>k. advance k pl) ((if greedy then rev else id) (repeats lo hi p (snd pl)))"
| "ends (Then r s) pl = concat (map (ends s) (ends r pl))"
| "ends (Either r s) pl = ends r pl @ ends s pl"
| "ends WordEdge pl = (if starts_word (fst pl) \<noteq> starts_word (snd pl) then [pl] else [])"
| "ends AtEnd pl = (if snd pl = [] \<or> snd pl = [CHR 0x0A] then [pl] else [])"

text \<open>\<open>search\<close>: the leftmost start with the first end from there.\<close>

fun search :: "pattern \<Rightarrow> string \<Rightarrow> string \<Rightarrow> (place \<times> place) option" where
  "search r b [] = (case ends r (b, []) of [] \<Rightarrow> None | e # _ \<Rightarrow> Some ((b, []), e))"
| "search r b (c # cs) =
     (case ends r (b, c # cs) of [] \<Rightarrow> search r (c # b) cs | e # _ \<Rightarrow> Some ((b, c # cs), e))"

text \<open>\<open>sub\<close> for a pattern that takes at least one character.\<close>

function substitute :: "pattern \<Rightarrow> string \<Rightarrow> string \<Rightarrow> string \<Rightarrow> string" where
  "substitute r new b [] = []"
| "substitute r new b (c # cs) =
     (case ends r (b, c # cs) of
        (b', t') # _ \<Rightarrow>
          if length t' \<le> length cs then new @ substitute r new b' t' else c # substitute r new (c # b) cs
      | [] \<Rightarrow> c # substitute r new (c # b) cs)"
  by pat_completeness auto
termination
  by (relation "measure (\<lambda>(r, new, b, t). length t)") auto

section \<open>Building patterns\<close>

fun literal :: "string \<Rightarrow> pattern" where
  "literal [] = Many True 0 (Some 0) (\<lambda>_. True)"
| "literal [c] = One (\<lambda>x. x = c)"
| "literal (c # cs) = Then (One (\<lambda>x. x = c)) (literal cs)"

text \<open>Under the flag \<open>(?i)\<close>; the literals of the source are ASCII.\<close>

fun literal_i :: "string \<Rightarrow> pattern" where
  "literal_i [] = Many True 0 (Some 0) (\<lambda>_. True)"
| "literal_i [c] = One (\<lambda>x. py_lower [x] = py_lower [c])"
| "literal_i (c # cs) = Then (One (\<lambda>x. py_lower [x] = py_lower [c])) (literal_i cs)"

definition chain :: "pattern list \<Rightarrow> pattern" where
  "chain rs = foldr Then (butlast rs) (last rs)"

definition any_of :: "pattern list \<Rightarrow> pattern" where
  "any_of rs = foldr Either (butlast rs) (last rs)"

definition one_in :: "string \<Rightarrow> pattern" where
  "one_in cs = One (\<lambda>c. c \<in> set cs)"

section \<open>Lines\<close>

definition line_break :: "char \<Rightarrow> bool" where
  "line_break c \<longleftrightarrow> ord c \<in> {10, 11, 12, 13, 28, 29, 30, 133}"

text \<open>\<open>splitlines\<close>; a carriage return takes the line feed after it along.\<close>

function py_splitlines :: "string \<Rightarrow> string \<Rightarrow> string list" where
  "py_splitlines w [] = (if w = [] then [] else [w])"
| "py_splitlines w (c # cs) =
     (if line_break c
      then w # py_splitlines [] (if c = CHR 0x0D \<and> take 1 cs = [CHR 0x0A] then tl cs else cs)
      else py_splitlines (w @ [c]) cs)"
  by pat_completeness auto
termination
  by (relation "measure (\<lambda>(w, t). length t)") auto

section \<open>Where a pattern ends\<close>

lemma advance_text: "rev (fst (advance k pl)) @ snd (advance k pl) = rev (fst pl) @ snd pl"
  by (simp add: advance_def)

text \<open>A match only moves the place within the text.\<close>

lemma ends_text: "e \<in> set (ends r pl) \<Longrightarrow> rev (fst e) @ snd e = rev (fst pl) @ snd pl"
proof (induction r arbitrary: pl e)
  case (Then r s)
  then show ?case by (fastforce split: if_splits)
qed (auto simp: advance_text advance_def split: list.splits if_splits)

lemma search_text:
  "search r b t = Some (s, e) \<Longrightarrow> rev (fst s) @ snd s = rev b @ t \<and> e \<in> set (ends r s)"
  by (induction b t rule: search.induct) (fastforce split: list.splits)+

lemma search_none: "search r b t = None \<Longrightarrow> k \<le> length t \<Longrightarrow> ends r (rev (take k t) @ b, drop k t) = []"
proof (induction r b t arbitrary: k rule: search.induct)
  case (1 r b)
  then show ?case by (simp split: list.splits)
next
  case (2 r b c cs)
  then show ?case by (cases k) (auto split: list.splits)
qed

end
