(* ===== verification/Source_Context.thy ===== *)
theory Source_Context
  imports Text_Pattern Graph_Catalog Security "HOL-Library.Product_Lexorder"
begin

text \<open>
  What the assurance tools may show to a language model: \<open>bantam/source_context.py\<close>. A source root
  is a tree of directories, as \<open>os.walk\<close> sees it; UTF-8 decoding and SHA-256 of bytes are
  parameters. The second part is the slice of the OpenAPI contract, with the worklist that closes it
  under schema references.
\<close>

section \<open>Limits and lists\<close>

definition MAX_CONTEXT_FILES :: nat where "MAX_CONTEXT_FILES = 12"
definition MAX_CONTEXT_BYTES :: nat where "MAX_CONTEXT_BYTES = 16000"
definition MAX_APPLICATION_BYTES :: nat where "MAX_APPLICATION_BYTES = 10000"
definition MAX_TERRAFORM_BYTES :: nat where "MAX_TERRAFORM_BYTES = 6000"
definition MAX_FILE_EXCERPT_BYTES :: nat where "MAX_FILE_EXCERPT_BYTES = 2600"
definition MAX_CONTEXT_SOURCE_BYTES :: nat where "MAX_CONTEXT_SOURCE_BYTES = 1048576"
definition MAX_OPENAPI_BYTES :: nat where "MAX_OPENAPI_BYTES = 12000"
definition APPLICATION_FILE_LIMIT :: nat where "APPLICATION_FILE_LIMIT = 7"
definition TERRAFORM_FILE_LIMIT :: nat where "TERRAFORM_FILE_LIMIT = 5"

definition HTTP_METHODS :: "string list" where
  "HTTP_METHODS = [''get'', ''post'', ''put'', ''patch'', ''delete'']"

definition OPENAPI_PATHS :: "string list" where
  "OPENAPI_PATHS = [''/v1/auth/login'', ''/v1/auth/logout'', ''/v1/me'', ''/v1/admin/customers'',
     ''/v1/accounts/{account_id}/transactions'', ''/v1/transfers'']"

definition EXCLUDED_COMPONENTS :: "string list" where
  "EXCLUDED_COMPONENTS = [''.git'', ''.terraform'', ''.venv'', ''.pytest_cache'', ''.ruff_cache'', ''__pycache__'',
     ''build'', ''coverage'', ''dist'', ''htmlcov'', ''node_modules'', ''vendor'']"

definition EXCLUDED_NAMES :: "string list" where
  "EXCLUDED_NAMES = [''.env'', ''.env.local'', ''credentials.json'', ''service-account.json'', ''terraform.tfstate'',
     ''terraform.tfstate.backup'']"

definition APPLICATION_ROOT_FILES :: "string list" where
  "APPLICATION_ROOT_FILES = [''Dockerfile'', ''pyproject.toml'', ''README.md'']"

definition APPLICATION_SUFFIXES :: "string list" where
  "APPLICATION_SUFFIXES = [''.json'', ''.md'', ''.py'', ''.sql'', ''.toml'', ''.ts'', ''.tsx'', ''.yaml'', ''.yml'']"

definition SOURCE_KEYWORDS :: "string list" where
  "SOURCE_KEYWORDS = [''authenticated'', ''authorization'', ''csrf'', ''require_roles'', ''@app.'', ''session'',
     ''admin'', ''account'', ''transfer'', ''asvs'']"

definition TERRAFORM_KEYWORDS :: "string list" where
  "TERRAFORM_KEYWORDS = [''google_cloud_run'', ''service_account'', ''secret_manager'', ''ingress'', ''iam'', ''vpc'',
     ''firewall'', ''cloud_sql'', ''database'', ''ssl'']"

section \<open>Removing secrets\<close>

definition greedy :: "nat \<Rightarrow> (char \<Rightarrow> bool) \<Rightarrow> pattern" where
  "greedy n p = Many True n None p"

definition token_char :: "string \<Rightarrow> char \<Rightarrow> bool" where
  "token_char extra c \<longleftrightarrow> is_alnum c \<or> c \<in> set extra"

text \<open>The two groups of the assignment pattern.\<close>

definition SENSITIVE_PREFIX :: pattern where
  "SENSITIVE_PREFIX = chain
     [WordEdge,
      any_of [literal_i ''password'', literal_i ''passwd'', literal_i ''secret'', literal_i ''token'',
        chain [literal_i ''api'', Many True 0 (Some 1) (\<lambda>c. c \<in> set ''_-''), literal_i ''key''],
        chain [literal_i ''client'', Many True 0 (Some 1) (\<lambda>c. c \<in> set ''_-''), literal_i ''secret''],
        chain [literal_i ''private'', Many True 0 (Some 1) (\<lambda>c. c \<in> set ''_-''), literal_i ''key'']],
      WordEdge, Many True 0 (Some 48) (\<lambda>c. c \<notin> set ('':='' @ newline)), one_in ''=:'', greedy 0 py_isspace]"

definition SENSITIVE_VALUE :: pattern where
  "SENSITIVE_VALUE = Then (greedy 1 (\<lambda>c. c \<notin> set newline)) AtEnd"

definition CREDENTIAL_URL :: pattern where
  "CREDENTIAL_URL = chain
     [literal ''://'', greedy 1 (\<lambda>c. c \<notin> set ''/@:'' \<and> \<not> py_isspace c), one_in '':'',
      greedy 1 (\<lambda>c. c \<notin> set ''/@'' \<and> \<not> py_isspace c), one_in ''@'']"

definition BEARER_TOKEN :: pattern where
  "BEARER_TOKEN = chain [WordEdge, literal_i ''Bearer'', greedy 1 py_isspace, greedy 12 (token_char ''._~+/=-'')]"

definition KNOWN_TOKEN :: pattern where
  "KNOWN_TOKEN = chain
     [WordEdge,
      any_of [chain [literal ''github_pat_'', greedy 20 (token_char ''_'')],
        chain [literal ''gh'', one_in ''pousr'', one_in ''_'', greedy 20 (token_char [])],
        chain [literal ''AKIA'', Many True 16 (Some 16) (\<lambda>c. is_digit c \<or> is_upper c)],
        chain [literal ''AIza'', greedy 30 (token_char ''_-'')]],
      WordEdge]"

definition JWT :: pattern where
  "JWT = chain
     [WordEdge, literal ''eyJ'', greedy 8 (token_char ''_-''), one_in ''.'', greedy 8 (token_char ''_-''), one_in ''.'',
      greedy 8 (token_char ''_-''), WordEdge]"

definition PEM :: pattern where
  "PEM = chain
     [literal ''-----BEGIN '', greedy 1 (\<lambda>c. c \<noteq> CHR ''-''), literal ''-----'', Many False 0 None (\<lambda>_. True),
      literal ''-----END '', greedy 1 (\<lambda>c. c \<noteq> CHR ''-''), literal ''-----'']"

text \<open>Where the value of the first sensitive assignment begins.\<close>

definition value_place :: "string \<Rightarrow> place option" where
  "value_place line =
     (case search (Then SENSITIVE_PREFIX SENSITIVE_VALUE) [] line of
        None \<Rightarrow> None
      | Some (start, _) \<Rightarrow> find (\<lambda>e. ends SENSITIVE_VALUE e \<noteq> []) (ends SENSITIVE_PREFIX start))"

definition redact_line :: "string \<Rightarrow> string" where
  "redact_line line0 =
     (let line1 = substitute CREDENTIAL_URL ''://[REDACTED]@'' [] line0;
          line2 = substitute BEARER_TOKEN ''Bearer [REDACTED]'' [] line1;
          line3 = substitute KNOWN_TOKEN ''[REDACTED TOKEN]'' [] line2;
          line4 = substitute JWT ''[REDACTED JWT]'' [] line3 in
      case value_place line4 of
        None \<Rightarrow> line4
      | Some (before, _) \<Rightarrow> rev before @ ''[REDACTED]'')"

definition redact :: "string \<Rightarrow> string" where
  "redact text =
     py_join newline (map redact_line (py_splitlines [] (substitute PEM ''[REDACTED PEM MATERIAL]'' [] text)))"

section \<open>Which files\<close>

text \<open>\<open>Regular None\<close> is a file that cannot be read.\<close>

datatype entry = Regular "nat list option" | Link | Special | Folder "(string \<times> entry) list"

type_synonym relative = "string list"

definition posix :: "relative \<Rightarrow> string" where
  "posix parts = py_join ''/'' parts"

definition excluded :: "relative \<Rightarrow> bool" where
  "excluded parts \<longleftrightarrow> list_ex (\<lambda>p. py_casefold p \<in> set EXCLUDED_COMPONENTS) parts \<or>
     py_casefold (last parts) \<in> set EXCLUDED_NAMES"

definition allowed :: "relative \<Rightarrow> string \<Rightarrow> bool" where
  "allowed parts repository \<longleftrightarrow>
     parts \<noteq> [] \<and> \<not> excluded parts \<and>
     (if repository = ''terraform'' then py_endswith (last parts) ''.tf'' \<or> py_endswith (last parts) ''.tf.json''
      else length parts = 1 \<and> last parts \<in> set APPLICATION_ROOT_FILES \<or>
        hd parts \<in> set [''bantam'', ''migrations'', ''security'', ''web''] \<and>
        py_casefold (path_suffix (posix parts)) \<in> set APPLICATION_SUFFIXES)"

text \<open>The walk does not follow links and passes excluded directories over.\<close>

function walk :: "relative \<Rightarrow> (string \<times> entry) list \<Rightarrow> (relative \<times> nat list option) list" where
  "walk parts [] = []"
| "walk parts ((name, Regular content) # es) = (parts @ [name], content) # walk parts es"
| "walk parts ((name, Folder sub) # es) =
     (if py_casefold name \<in> set EXCLUDED_COMPONENTS then [] else walk (parts @ [name]) sub) @ walk parts es"
| "walk parts ((name, Link) # es) = walk parts es"
| "walk parts ((name, Special) # es) = walk parts es"
  by pat_completeness auto
termination
  by (relation "measure (\<lambda>(parts, es). size_list (size_prod (\<lambda>_. 0) size) es)") auto

definition priority :: "relative \<Rightarrow> string \<Rightarrow> nat" where
  "priority parts repository =
     (let path = posix parts in
      if repository = ''terraform''
      then (case map_of [(''runtime.tf'', 0), (''iam.tf'', 1), (''secrets.tf'', 2), (''network.tf'', 3), (''database.tf'', 4),
               (''migrations.tf'', 5), (''variables.tf'', 6), (''locals.tf'', 7)] (last parts) of Some n \<Rightarrow> n | None \<Rightarrow> 20)
      else (case map_of [(''bantam/api.py'', 0), (''bantam/auth.py'', 1), (''bantam/security.py'', 2), (''bantam/schemas.py'', 3),
               (''bantam/asvs.py'', 4), (''bantam/config.py'', 5), (''bantam/domain.py'', 6)] path of
          Some n \<Rightarrow> n
        | None \<Rightarrow>
            if py_startswith path ''security/aspis/asvs/'' then 7
            else if py_startswith path ''migrations/'' then 8
            else if py_startswith path ''bantam/'' then 10 else 30))"

definition candidate_paths :: "(string \<times> entry) list \<Rightarrow> string \<Rightarrow> (relative \<times> nat list option) list" where
  "candidate_paths root repository =
     sort_key (\<lambda>f. (priority (fst f) repository, posix (fst f)))
       (filter (\<lambda>f. allowed (fst f) repository) (walk [] root))"

section \<open>Excerpts\<close>

definition pad4 :: "nat \<Rightarrow> string" where
  "pad4 n = replicate (4 - length (nat_str n)) (CHR ''0'') @ nat_str n"

definition numbered_line :: "string list \<Rightarrow> nat \<Rightarrow> string" where
  "numbered_line lines i = pad4 (Suc i) @ '': '' @ lines ! i"

definition render_lines :: "string list \<Rightarrow> nat list \<Rightarrow> string" where
  "render_lines lines picked = py_join newline (map (numbered_line lines) picked)"

text \<open>The longest beginning of at most so many bytes of UTF-8.\<close>

fun take_utf8 :: "nat \<Rightarrow> string \<Rightarrow> string" where
  "take_utf8 n [] = []"
| "take_utf8 n (c # cs) =
     (let k = (if ord c < 128 then 1 else 2) in if k \<le> n then c # take_utf8 (n - k) cs else [])"

definition excerpt_marker :: string where
  "excerpt_marker = newline @ ''...[excerpt truncated]''"

definition bounded_text :: "string \<Rightarrow> nat \<Rightarrow> string" where
  "bounded_text v limit =
     (if utf8_length v \<le> limit then v
      else take_utf8 (limit - utf8_length excerpt_marker) v @ excerpt_marker)"

text \<open>Windows around the hits, until the text is long enough.\<close>

definition around :: "nat \<Rightarrow> nat \<Rightarrow> nat list" where
  "around n hit = [hit - 3..<min n (hit + 5)]"

fun pick_lines :: "string list \<Rightarrow> nat \<Rightarrow> nat list \<Rightarrow> nat list \<Rightarrow> nat list" where
  "pick_lines lines limit picked [] = picked"
| "pick_lines lines limit picked (hit # hits) =
     (let more = sort (remdups (picked @ around (length lines) hit)) in
      if limit \<le> utf8_length (render_lines lines more) then more else pick_lines lines limit more hits)"

definition excerpt :: "string \<Rightarrow> string \<Rightarrow> nat \<Rightarrow> string \<times> bool" where
  "excerpt text repository limit =
     (let lines = py_splitlines [] text; numbered = render_lines lines [0..<length lines];
          keywords = (if repository = ''terraform'' then TERRAFORM_KEYWORDS else SOURCE_KEYWORDS);
          found = filter (\<lambda>i. list_ex (\<lambda>k. py_contains (py_casefold (lines ! i)) k) keywords) [0..<length lines];
          hits = (if found = [] then [0] else found) in
      if utf8_length numbered \<le> limit then (numbered, False)
      else (bounded_text (render_lines lines (pick_lines lines limit [] hits)) limit, True))"

section \<open>Collecting\<close>

record source_excerpt =
  se_repository :: string
  se_path :: string
  se_sha256 :: string
  se_source_bytes :: nat
  se_included_bytes :: nat
  se_truncated :: bool
  se_excerpt :: string

record byte_library =
  bl_utf8 :: "nat list \<Rightarrow> string option"
  bl_sha256_bytes :: "nat list \<Rightarrow> string"
  bl_sha256_hex :: "string \<Rightarrow> string"

definition read_source_file ::
  "byte_library \<Rightarrow> relative \<times> nat list option \<Rightarrow> string \<Rightarrow> nat \<Rightarrow> source_excerpt option" where
  "read_source_file lib file repository limit =
     (case snd file of
        None \<Rightarrow> None
      | Some raw \<Rightarrow>
          if length raw > MAX_CONTEXT_SOURCE_BYTES \<or> 0 \<in> set raw then None
          else (case bl_utf8 lib raw of
              None \<Rightarrow> None
            | Some text \<Rightarrow>
                let (shown, truncated) = excerpt (redact text) repository limit in
                Some \<lparr>se_repository = repository, se_path = posix (fst file), se_sha256 = bl_sha256_bytes lib raw,
                  se_source_bytes = length raw, se_included_bytes = utf8_length shown, se_truncated = truncated,
                  se_excerpt = shown\<rparr>))"

text \<open>\<open>room\<close> files and \<open>remaining\<close> bytes are left.\<close>

fun collect_files ::
  "byte_library \<Rightarrow> string \<Rightarrow> nat \<Rightarrow> nat \<Rightarrow> (relative \<times> nat list option) list \<Rightarrow> source_excerpt list" where
  "collect_files lib repository room remaining [] = []"
| "collect_files lib repository room remaining (f # fs) =
     (if room = 0 \<or> remaining < 256 then []
      else case read_source_file lib f repository (min MAX_FILE_EXCERPT_BYTES remaining) of
          None \<Rightarrow> collect_files lib repository room remaining fs
        | Some d \<Rightarrow>
            if se_included_bytes d = 0 then collect_files lib repository room remaining fs
            else d # collect_files lib repository (room - 1) (remaining - se_included_bytes d) fs)"

text \<open>What a configured root turns out to be.\<close>

datatype source_root = Unavailable | NotADirectory | Root "(string \<times> entry) list"

definition normalise_root :: "source_root \<Rightarrow> string \<Rightarrow> string + (string \<times> entry) list" where
  "normalise_root raw label =
     (case raw of
        Unavailable \<Rightarrow> Inl (label @ '' source root is unavailable'')
      | NotADirectory \<Rightarrow> Inl (label @ '' source root is not a directory'')
      | Root es \<Rightarrow> Inr es)"

definition excerpt_json :: "source_excerpt \<Rightarrow> json" where
  "excerpt_json e = JObj
     [(''repository'', JStr (se_repository e)), (''path'', JStr (se_path e)), (''sha256'', JStr (se_sha256 e)),
      (''source_bytes'', JInt (int (se_source_bytes e))), (''included_bytes'', JInt (int (se_included_bytes e))),
      (''truncated'', JBool (se_truncated e)), (''excerpt'', JStr (se_excerpt e))]"

definition context_json :: "source_excerpt list \<Rightarrow> json" where
  "context_json files = JObj
     [(''schema_version'', JStr ''1.0''),
      (''limits'', JObj [(''max_files'', JInt (int MAX_CONTEXT_FILES)), (''max_bytes'', JInt (int MAX_CONTEXT_BYTES)),
         (''max_file_excerpt_bytes'', JInt (int MAX_FILE_EXCERPT_BYTES))]),
      (''included_files'', JInt (int (length files))),
      (''included_bytes'', JInt (int (sum_list (map se_included_bytes files)))),
      (''files'', JList (map excerpt_json files))]"

record source_snapshot =
  ss_document :: json
  ss_sha256 :: string

definition snapshot_json :: "byte_library \<Rightarrow> json \<Rightarrow> source_snapshot" where
  "snapshot_json lib document = \<lparr>ss_document = document, ss_sha256 = digest (bl_sha256_hex lib) document\<rparr>"

definition collect_context ::
  "byte_library \<Rightarrow> source_root \<Rightarrow> source_root \<Rightarrow> string + source_excerpt list" where
  "collect_context lib application_root terraform_root =
     andthen (normalise_root application_root ''application'') (\<lambda>application.
     andthen (normalise_root terraform_root ''terraform'') (\<lambda>terraform. Inr
       (collect_files lib ''application'' APPLICATION_FILE_LIMIT MAX_APPLICATION_BYTES
          (candidate_paths application ''application'') @
        collect_files lib ''terraform'' TERRAFORM_FILE_LIMIT MAX_TERRAFORM_BYTES
          (candidate_paths terraform ''terraform''))))"

definition err_aggregate :: string where
  "err_aggregate = ''source context exceeded its safe aggregate limit''"

definition build_source_context ::
  "byte_library \<Rightarrow> source_root \<Rightarrow> source_root \<Rightarrow> string + source_snapshot" where
  "build_source_context lib application_root terraform_root =
     andthen (collect_context lib application_root terraform_root) (\<lambda>files.
       if set (map se_repository files) \<noteq> {''application'', ''terraform''}
       then Inl ''both application source and Terraform source are required''
       else if length files > MAX_CONTEXT_FILES \<or> sum_list (map se_included_bytes files) > MAX_CONTEXT_BYTES
       then Inl err_aggregate
       else Inr (snapshot_json lib (context_json files)))"

text \<open>\<open>describe_source_roots\<close>: whether a root is ready, and its eligible files.\<close>

definition root_status :: "source_root \<Rightarrow> string \<Rightarrow> bool \<times> nat" where
  "root_status raw repository =
     (case normalise_root raw repository of
        Inl _ \<Rightarrow> (False, 0)
      | Inr es \<Rightarrow> let count = length (candidate_paths es repository) in (count > 0, count))"

definition describe_source_roots :: "source_root \<Rightarrow> source_root \<Rightarrow> (bool \<times> nat) \<times> (bool \<times> nat) \<times> bool" where
  "describe_source_roots application_root terraform_root =
     (let a = root_status application_root ''application''; t = root_status terraform_root ''terraform'' in
      (a, t, fst a \<and> fst t))"

section \<open>The slice of the OpenAPI contract\<close>

definition obj :: "json option \<Rightarrow> (string \<times> json) list" where
  "obj v = (case v of Some (JObj kvs) \<Rightarrow> kvs | _ \<Rightarrow> [])"

definition is_obj :: "json \<Rightarrow> bool" where
  "is_obj v = (case v of JObj _ \<Rightarrow> True | _ \<Rightarrow> False)"

definition reference :: "(string \<times> json) list \<Rightarrow> string list" where
  "reference kvs =
     (case map_of kvs ''$ref'' of
        Some (JStr r) \<Rightarrow>
          if py_startswith r ''#/components/schemas/'' then [py_removeprefix r ''#/components/schemas/''] else []
      | _ \<Rightarrow> [])"

fun schema_references :: "json \<Rightarrow> string list" where
  "schema_references (JObj kvs) = reference kvs @ concat (map (\<lambda>kv. schema_references (snd kv)) kvs)"
| "schema_references (JList xs) = concat (map schema_references xs)"
| "schema_references _ = []"

text \<open>A schema that is a dictionary.\<close>

definition schema_of :: "(string \<times> json) list \<Rightarrow> string \<Rightarrow> (string \<times> json) list option" where
  "schema_of source name = (case map_of source name of Some (JObj kvs) \<Rightarrow> Some kvs | _ \<Rightarrow> None)"

lemma schema_of_Some: "schema_of source name = Some kvs \<longleftrightarrow> map_of source name = Some (JObj kvs)"
  by (auto simp: schema_of_def split: option.splits json.splits)

definition queued :: "(string \<times> json) list \<Rightarrow> (string \<times> json) list \<Rightarrow> string list" where
  "queued kvs schemas = sort (remdups (filter (\<lambda>r. r \<notin> fst ` set schemas) (schema_references (JObj kvs))))"

lemma card_missing:
  assumes "map_of source x = Some v" and "x \<notin> fst ` set schemas"
  shows "card (fst ` set source - insert x (fst ` set schemas)) < card (fst ` set source - fst ` set schemas)"
proof -
  have "x \<in> fst ` set source" using map_of_SomeD [OF assms(1)] by force
  with assms(2) show ?thesis by (intro psubset_card_mono) auto
qed

text \<open>The loop over \<open>pending\<close>: a schema is added once, and what it refers to is queued.\<close>

function close_schemas ::
  "(string \<times> json) list \<Rightarrow> string list \<Rightarrow> (string \<times> json) list \<Rightarrow> (string \<times> json) list" where
  "close_schemas source [] schemas = schemas"
| "close_schemas source (name # pending) schemas =
     (if name \<in> fst ` set schemas then close_schemas source pending schemas
      else case schema_of source name of
          None \<Rightarrow> close_schemas source pending schemas
        | Some kvs \<Rightarrow>
            let schemas' = schemas @ [(name, JObj kvs)] in
            close_schemas source (pending @ queued kvs schemas') schemas')"
  by pat_completeness auto
termination
  by (relation "measures [\<lambda>(source, pending, schemas). card (fst ` set source - fst ` set schemas),
      \<lambda>(source, pending, schemas). length pending]") (simp_all add: card_missing schema_of_Some)

definition OPERATION_KEYS :: "string list" where
  "OPERATION_KEYS = [''operationId'', ''parameters'', ''requestBody'', ''responses'', ''security'', ''summary'']"

definition operations_of :: "(string \<times> json) list \<Rightarrow> (string \<times> json) list" where
  "operations_of path_item =
     map (\<lambda>mo. (fst mo, JObj (filter (\<lambda>kv. fst kv \<in> set OPERATION_KEYS) (obj (Some (snd mo))))))
       (filter (\<lambda>mo. fst mo \<in> set HTTP_METHODS \<and> is_obj (snd mo)) path_item)"

definition openapi_paths :: "(string \<times> json) list \<Rightarrow> (string \<times> json) list" where
  "openapi_paths source_paths =
     concat (map (\<lambda>path. let operations = operations_of (obj (map_of source_paths path)) in
         if operations = [] then [] else [(path, JObj operations)])
       (sort OPENAPI_PATHS))"

definition openapi_info :: "(string \<times> json) list \<Rightarrow> (string \<times> json) list" where
  "openapi_info info =
     concat (map (\<lambda>key. case map_of info key of Some (JStr v) \<Rightarrow> [(key, JStr v)] | _ \<Rightarrow> []) [''title'', ''version''])"

definition openapi_schemas :: "(string \<times> json) list \<Rightarrow> (string \<times> json) list \<Rightarrow> (string \<times> json) list" where
  "openapi_schemas source_schemas paths =
     close_schemas source_schemas (sort (remdups (schema_references (JObj paths)))) []"

definition build_openapi_snapshot :: "byte_library \<Rightarrow> (string \<times> json) list \<Rightarrow> string + source_snapshot" where
  "build_openapi_snapshot lib document =
     (let paths = openapi_paths (obj (map_of document ''paths''));
          schemas = openapi_schemas (obj (map_of (obj (map_of document ''components'')) ''schemas'')) paths;
          snapshot = JObj
            [(''openapi'', case map_of document ''openapi'' of None \<Rightarrow> JNull | Some v \<Rightarrow> v),
             (''info'', JObj (openapi_info (obj (map_of document ''info'')))), (''paths'', JObj paths),
             (''components'', JObj [(''schemas'', JObj schemas)])] in
      if paths = [] then Inl ''the running OpenAPI contract has no ASVS operations''
      else if utf8_length (canonical_json snapshot) > MAX_OPENAPI_BYTES
      then Inl ''the OpenAPI snapshot exceeded its safe size limit''
      else Inr (snapshot_json lib snapshot))"

end
