(* ===== verification/Source_Properties.thy ===== *)
theory Source_Properties
  imports Source_Context
begin

text \<open>
  What reaches a language model from the source roots and the OpenAPI contract: bounds on the
  excerpts, and the closure of the contract slice under schema references.
\<close>

section \<open>Sizes\<close>

lemma utf8_length_simps [simp]:
  "utf8_length [] = 0" "utf8_length (c # cs) = (if ord c < 128 then 1 else 2) + utf8_length cs"
  "utf8_length (a @ b) = utf8_length a + utf8_length b"
  by (simp_all add: utf8_length_def)

lemma take_utf8_bound: "utf8_length (take_utf8 n s) \<le> n"
  by (induction n s rule: take_utf8.induct) (auto simp: Let_def)

lemma excerpt_marker_bytes: "utf8_length excerpt_marker = 23"
  unfolding excerpt_marker_def newline_def by code_simp

lemma bounded_text_bytes: "23 \<le> limit \<Longrightarrow> utf8_length (bounded_text v limit) \<le> limit"
  using take_utf8_bound [of "limit - 23" v] unfolding bounded_text_def excerpt_marker_bytes
  by (simp add: excerpt_marker_bytes) linarith

lemma excerpt_bytes: "23 \<le> limit \<Longrightarrow> utf8_length (fst (excerpt text repository limit)) \<le> limit"
  by (simp add: excerpt_def Let_def bounded_text_bytes)

lemma read_source_file_SomeD:
  assumes "read_source_file lib f repository limit = Some d" and "23 \<le> limit"
  shows "se_included_bytes d \<le> limit" "se_included_bytes d = utf8_length (se_excerpt d)"
    "se_path d = posix (fst f)" "se_repository d = repository"
  using assms excerpt_bytes [of limit]
  by (auto simp: read_source_file_def split_beta split: option.splits if_splits)

lemma collect_files_bounds:
  "length (collect_files lib repository room remaining fs) \<le> room \<and>
   sum_list (map se_included_bytes (collect_files lib repository room remaining fs)) \<le> remaining"
proof (induction lib repository room remaining fs rule: collect_files.induct)
  case (2 lib repository room remaining f fs)
  show ?case
  proof (cases "room = 0 \<or> remaining < 256")
    case False
    then have l: "23 \<le> min MAX_FILE_EXCERPT_BYTES remaining" by (simp add: MAX_FILE_EXCERPT_BYTES_def)
    show ?thesis
    proof (cases "read_source_file lib f repository (min MAX_FILE_EXCERPT_BYTES remaining)")
      case (Some d)
      with read_source_file_SomeD(1) [OF Some l] 2 False show ?thesis by (cases "se_included_bytes d = 0") auto
    qed (use 2 False in simp)
  qed simp
qed simp

text \<open>Each excerpt is small and comes from an allowed file.\<close>

definition sound_excerpt :: "source_excerpt \<Rightarrow> bool" where
  "sound_excerpt d \<longleftrightarrow>
     se_included_bytes d = utf8_length (se_excerpt d) \<and> se_included_bytes d \<le> MAX_FILE_EXCERPT_BYTES \<and>
     (\<exists>parts. se_path d = posix parts \<and> allowed parts (se_repository d))"

lemma collect_files_sound:
  "list_all (\<lambda>f. allowed (fst f) repository) fs \<Longrightarrow>
     list_all sound_excerpt (collect_files lib repository room remaining fs)"
proof (induction lib repository room remaining fs rule: collect_files.induct)
  case (2 lib repository room remaining f fs)
  show ?case
  proof (cases "room = 0 \<or> remaining < 256")
    case False
    then have l: "23 \<le> min MAX_FILE_EXCERPT_BYTES remaining" by (simp add: MAX_FILE_EXCERPT_BYTES_def)
    show ?thesis
    proof (cases "read_source_file lib f repository (min MAX_FILE_EXCERPT_BYTES remaining)")
      case (Some d)
      have "sound_excerpt d"
        using read_source_file_SomeD [OF Some l] 2(4) by (auto simp: sound_excerpt_def)
      with Some 2 False show ?thesis by simp
    qed (use 2 False in simp)
  qed simp
qed simp

lemma candidates_allowed: "list_all (\<lambda>f. allowed (fst f) repository) (candidate_paths root repository)"
  by (simp add: candidate_paths_def list_all_iff)

lemma collect_context_InrD:
  assumes "collect_context lib application_root terraform_root = Inr files"
  shows "length files \<le> MAX_CONTEXT_FILES" "sum_list (map se_included_bytes files) \<le> MAX_CONTEXT_BYTES"
    "list_all sound_excerpt files"
proof -
  from assms obtain application terraform where f: "files =
      collect_files lib ''application'' APPLICATION_FILE_LIMIT MAX_APPLICATION_BYTES (candidate_paths application ''application'') @
      collect_files lib ''terraform'' TERRAFORM_FILE_LIMIT MAX_TERRAFORM_BYTES (candidate_paths terraform ''terraform'')"
    by (auto simp: collect_context_def elim!: andthen_InrE)
  note a = collect_files_bounds [of lib "''application''" APPLICATION_FILE_LIMIT MAX_APPLICATION_BYTES "candidate_paths application ''application''"]
  note t = collect_files_bounds [of lib "''terraform''" TERRAFORM_FILE_LIMIT MAX_TERRAFORM_BYTES "candidate_paths terraform ''terraform''"]
  show "length files \<le> MAX_CONTEXT_FILES" "sum_list (map se_included_bytes files) \<le> MAX_CONTEXT_BYTES"
    using a t by (simp_all add: f MAX_CONTEXT_FILES_def MAX_CONTEXT_BYTES_def APPLICATION_FILE_LIMIT_def
      TERRAFORM_FILE_LIMIT_def MAX_APPLICATION_BYTES_def MAX_TERRAFORM_BYTES_def)
  show "list_all sound_excerpt files"
    unfolding f list_all_append by (intro conjI collect_files_sound candidates_allowed)
qed

text \<open>C28. What a language model is shown of the sources is bounded by construction: the final check of
  \<open>build_source_context\<close> on the aggregate size never fails, and a context that is built has at most 12
  excerpts of together at most 16000 bytes, each of at most 2600 bytes and from a file that is allowed:
  below no excluded directory and of no excluded name.\<close>

theorem model_context_is_bounded:
  "case build_source_context lib application_root terraform_root of
     Inl message \<Rightarrow> message \<noteq> err_aggregate
   | Inr snapshot \<Rightarrow> \<exists>files. snapshot = snapshot_json lib (context_json files) \<and>
       set (map se_repository files) = {''application'', ''terraform''} \<and>
       length files \<le> 12 \<and> sum_list (map (\<lambda>f. utf8_length (se_excerpt f)) files) \<le> 16000 \<and>
       list_all sound_excerpt files"
proof (cases "collect_context lib application_root terraform_root")
  case (Inl message)
  then have "message \<noteq> err_aggregate"
    by (auto simp: collect_context_def normalise_root_def err_aggregate_def andthen_def split: source_root.splits)
  with Inl show ?thesis by (simp add: build_source_context_def)
next
  case (Inr files)
  note c = collect_context_InrD [OF Inr]
  have s: "map (\<lambda>f. utf8_length (se_excerpt f)) files = map se_included_bytes files"
    using c(3) by (simp add: list_all_iff sound_excerpt_def)
  have n: "length files \<le> 12" "sum_list (map se_included_bytes files) \<le> 16000"
    using c by (simp_all add: MAX_CONTEXT_FILES_def MAX_CONTEXT_BYTES_def)
  have r: "build_source_context lib application_root terraform_root =
    (if set (map se_repository files) \<noteq> {''application'', ''terraform''}
     then Inl ''both application source and Terraform source are required''
     else Inr (snapshot_json lib (context_json files)))"
    unfolding build_source_context_def Inr andthen_simps using c by (simp only: not_le [symmetric]) simp
  show ?thesis
  proof (cases "set (map se_repository files) = {''application'', ''terraform''}")
    case True
    then have e: "build_source_context lib application_root terraform_root = Inr (snapshot_json lib (context_json files))"
      unfolding r by (intro if_not_P) blast
    show ?thesis
      unfolding e sum.case
    proof (intro exI conjI)
      show "snapshot_json lib (context_json files) = snapshot_json lib (context_json files)" by (rule refl)
      show "sum_list (map (\<lambda>f. utf8_length (se_excerpt f)) files) \<le> 16000" unfolding s by (rule n(2))
    qed (rule True n(1) c(3))+
  next
    case False
    then show ?thesis unfolding r by (simp add: err_aggregate_def)
  qed
qed

section \<open>The closure of the schema references\<close>

definition refers :: "(string \<times> json) list \<Rightarrow> string \<Rightarrow> string \<Rightarrow> bool" where
  "refers source a b \<longleftrightarrow>
     (\<exists>kvs. map_of source a = Some (JObj kvs) \<and> b \<in> set (schema_references (JObj kvs)))"

definition present :: "(string \<times> json) list \<Rightarrow> string \<Rightarrow> bool" where
  "present source a \<longleftrightarrow> schema_of source a \<noteq> None"

lemma set_queued: "set (queued kvs schemas) = set (schema_references (JObj kvs)) - fst ` set schemas"
  by (auto simp: queued_def simp del: schema_references.simps)

lemma refersI: "schema_of source a = Some kvs \<Longrightarrow> b \<in> set (schema_references (JObj kvs)) \<Longrightarrow> refers source a b"
  unfolding refers_def schema_of_Some by blast

lemma close_schemas_keeps: "set schemas \<subseteq> set (close_schemas source pending schemas)"
  by (induction source pending schemas rule: close_schemas.induct) (auto simp: Let_def split: option.splits)

definition taken :: "(string \<times> json) list \<Rightarrow> (string \<times> json) list \<Rightarrow> bool" where
  "taken source schemas \<longleftrightarrow> (\<forall>(n, v) \<in> set schemas. \<exists>kvs. v = JObj kvs \<and> map_of source n = Some v)"

lemma close_schemas_taken: "taken source schemas \<Longrightarrow> taken source (close_schemas source pending schemas)"
  by (induction source pending schemas rule: close_schemas.induct)
    (auto simp: taken_def Let_def schema_of_Some split: option.splits)

lemma close_schemas_reached:
  "n \<in> fst ` set (close_schemas source pending schemas) \<Longrightarrow>
     n \<in> fst ` set schemas \<or> (\<exists>p \<in> set pending. (refers source)\<^sup>*\<^sup>* p n)"
proof (induction source pending schemas rule: close_schemas.induct)
  case (2 source name pending schemas)
  show ?case
  proof (cases "name \<in> fst ` set schemas \<or> schema_of source name = None")
    case True
    with 2 show ?thesis by (auto split: if_splits)
  next
    case False
    then obtain kvs where k: "name \<notin> fst ` set schemas" "schema_of source name = Some kvs" by auto
    have "n \<in> fst ` set (close_schemas source (pending @ queued kvs (schemas @ [(name, JObj kvs)])) (schemas @ [(name, JObj kvs)]))"
      using 2(4) k by (simp add: Let_def)
    from 2(3) [OF k refl this] show ?thesis
    proof (elim disjE bexE)
      fix p assume "p \<in> set (pending @ queued kvs (schemas @ [(name, JObj kvs)]))" "(refers source)\<^sup>*\<^sup>* p n"
      then show ?thesis
        using refersI [OF k(2)] by (auto simp: set_queued simp del: schema_references.simps
          intro: converse_rtranclp_into_rtranclp)
    qed auto
  qed
qed simp

lemma close_schemas_pending:
  "p \<in> set pending \<Longrightarrow> present source p \<Longrightarrow> p \<in> fst ` set (close_schemas source pending schemas)"
proof (induction source pending schemas rule: close_schemas.induct)
  case (2 source name pending schemas)
  have keeps: "fst ` set ss \<subseteq> fst ` set (close_schemas source ps ss)" for ss ps
    using close_schemas_keeps by (rule image_mono)
  show ?case
  proof (cases "name \<in> fst ` set schemas \<or> schema_of source name = None")
    case True
    with 2 keeps [of schemas pending] show ?thesis by (auto simp: present_def split: if_splits)
  next
    case False
    then obtain kvs where k: "name \<notin> fst ` set schemas" "schema_of source name = Some kvs" by auto
    let ?s = "schemas @ [(name, JObj kvs)]"
    have "p \<in> fst ` set (close_schemas source (pending @ queued kvs ?s) ?s)"
      using 2(3) [OF k refl _ 2(5)] 2(4) keeps [of ?s "pending @ queued kvs ?s"] by auto
    with k show ?thesis by (simp add: Let_def)
  qed
qed simp

text \<open>Every reference of an added schema is added, or is no schema.\<close>

lemma close_schemas_closed:
  "\<lbrakk>\<And>a b. a \<in> fst ` set schemas \<Longrightarrow> refers source a b \<Longrightarrow> present source b \<Longrightarrow> b \<in> fst ` set schemas \<union> set pending;
    a \<in> fst ` set (close_schemas source pending schemas); refers source a b; present source b\<rbrakk>
   \<Longrightarrow> b \<in> fst ` set (close_schemas source pending schemas)"
proof (induction source pending schemas rule: close_schemas.induct)
  case (1 source schemas)
  then show ?case by simp
next
  case (2 source name pending schemas)
  show ?case
  proof (cases "name \<in> fst ` set schemas \<or> schema_of source name = None")
    case True
    have "b \<in> fst ` set schemas \<union> set pending"
      if "a \<in> fst ` set schemas" "refers source a b" "present source b" for a b
      using 2(4) [OF that] True that(3) by (auto simp: present_def)
    with 2 True show ?thesis by (auto split: if_splits)
  next
    case False
    then obtain kvs where k: "name \<notin> fst ` set schemas" "schema_of source name = Some kvs" by auto
    let ?s = "schemas @ [(name, JObj kvs)]"
    have "b \<in> fst ` set ?s \<union> set (pending @ queued kvs ?s)"
      if "a \<in> fst ` set ?s" "refers source a b" "present source b" for a b
    proof (cases "a = name")
      case True
      then have "b \<in> set (schema_references (JObj kvs))" using that(2) k(2) by (auto simp: refers_def schema_of_Some simp del: schema_references.simps)
      then show ?thesis by (auto simp: set_queued simp del: schema_references.simps)
    next
      case False
      with that 2(4) [of a b] show ?thesis by auto
    qed
    moreover have "close_schemas source (name # pending) schemas = close_schemas source (pending @ queued kvs ?s) ?s"
      using k by (simp add: Let_def)
    ultimately show ?thesis using 2(3) [OF k refl] 2(5-7) by metis
  qed
qed

definition needed :: "(string \<times> json) list \<Rightarrow> (string \<times> json) list \<Rightarrow> string \<Rightarrow> bool" where
  "needed source paths n \<longleftrightarrow> (\<exists>root \<in> set (schema_references (JObj paths)). (refers source)\<^sup>*\<^sup>* root n)"

text \<open>The loop that collects the schemas of the OpenAPI slice ends, and the slice is closed exactly:
  it holds a schema if and only if the contract defines it and the selected operations refer to it,
  directly or through other schemas, each with the definition of the contract.\<close>

theorem openapi_slice_is_closed:
  "map_of (openapi_schemas source paths) n = Some v \<longleftrightarrow>
     needed source paths n \<and> map_of source n = Some v \<and> is_obj v"
proof -
  let ?roots = "sort (remdups (schema_references (JObj paths)))" and ?r = "openapi_schemas source paths"
  have t: "taken source ?r" unfolding openapi_schemas_def by (rule close_schemas_taken) (simp add: taken_def)
  have sound: "needed source paths n" if "n \<in> fst ` set ?r" for n
    using close_schemas_reached [of n source ?roots "[]"] that
    by (auto simp: needed_def openapi_schemas_def simp del: schema_references.simps)
  have start: "m \<in> fst ` set ?r" if "m \<in> set (schema_references (JObj paths))" "present source m" for m
    unfolding openapi_schemas_def by (rule close_schemas_pending) (use that in \<open>simp_all del: schema_references.simps\<close>)
  have closed: "b \<in> fst ` set ?r" if "a \<in> fst ` set ?r" "refers source a b" "present source b" for a b
    using close_schemas_closed [of "[]" source ?roots a b] that by (simp add: openapi_schemas_def del: schema_references.simps)
  have complete: "m \<in> fst ` set ?r" if "(refers source)\<^sup>*\<^sup>* root m" "root \<in> set (schema_references (JObj paths))" "present source m" for root m
    using that
  proof (induction rule: rtranclp_induct)
    case (step a b)
    then have "present source a" by (auto simp: refers_def present_def schema_of_Some)
    with step closed show ?case by blast
  qed (use start in blast)
  have def: "v = w" if "(n, v) \<in> set ?r" "map_of source n = Some w" for v w using t that by (fastforce simp: taken_def)
  show ?thesis
  proof
    assume m: "map_of ?r n = Some v"
    from map_of_SomeD [OF m] t obtain kvs where "v = JObj kvs" "map_of source n = Some v" by (auto simp: taken_def)
    moreover from map_of_SomeD [OF m] have "n \<in> fst ` set ?r" by force
    ultimately show "needed source paths n \<and> map_of source n = Some v \<and> is_obj v"
      using sound by (simp add: is_obj_def)
  next
    assume a: "needed source paths n \<and> map_of source n = Some v \<and> is_obj v"
    then obtain kvs where "v = JObj kvs" by (auto simp: is_obj_def split: json.splits)
    with a have "present source n" by (simp add: present_def schema_of_Some)
    with a complete have "n \<in> fst ` set ?r" unfolding needed_def by blast
    then obtain w where w: "map_of ?r n = Some w" by (metis map_of_eq_None_iff not_None_eq)
    with def [OF map_of_SomeD [OF w]] a show "map_of ?r n = Some v" by simp
  qed
qed

end
