(* ===== verification/Narrative_Properties.thy ===== *)
theory Narrative_Properties
  imports Narrative
begin

text \<open>
  What leaves the bank for the language model and what comes back: the projection keeps its limits
  through every round of the reduction, and an explanation is shown only if it cites what was sent
  and its attack tree is a tree.
\<close>

section \<open>The selection\<close>

lemma select_ids_bound: "length selected < MAX_MODEL_NODES \<Longrightarrow> length (select_ids selected is) \<le> MAX_MODEL_NODES"
  by (induction selected "is" rule: select_ids.induct) (auto simp: Let_def)

lemma add_page_bound: "length selected \<le> MAX_MODEL_NODES \<Longrightarrow> length (add_page e selected) \<le> MAX_MODEL_NODES"
  by (simp add: add_page_def)

lemma add_pages_bound: "length selected \<le> MAX_MODEL_NODES \<Longrightarrow> length (fold add_page es selected) \<le> MAX_MODEL_NODES"
  by (induction es arbitrary: selected) (simp_all add: add_page_bound)

lemma selected_ids_bound: "length (selected_ids c) \<le> MAX_MODEL_NODES"
proof -
  have "length (select_ids [] is) \<le> MAX_MODEL_NODES" for "is"
    by (rule select_ids_bound) (simp add: MAX_MODEL_NODES_def)
  then show ?thesis unfolding selected_ids_def Let_def by (auto intro: add_pages_bound)
qed

section \<open>The reduction\<close>

text \<open>What holds of a projection of a catalogue with the ids it still includes.\<close>

definition projected :: "repository_catalog \<Rightarrow> string list \<Rightarrow> projection \<Rightarrow> bool" where
  "projected c selected p \<longleftrightarrow>
     length (pj_nodes p) \<le> MAX_MODEL_NODES \<and> length (pj_edges p) \<le> MAX_MODEL_EDGES \<and>
     map pf_flow_id (pj_flows p) = map gf_flow_id (take MAX_MODEL_FLOWS (cat_flows c)) \<and>
     list_all (within selected) (pj_edges p) \<and>
     list_all (\<lambda>f. set (pf_node_ids f) \<subseteq> set selected) (pj_flows p) \<and>
     pj_included_nodes p = card (set selected) \<and> card (set selected) \<le> MAX_MODEL_NODES \<and>
     pj_included_edges p = length (pj_edges p) \<and> pj_graph_digest p = cat_digest c"

lemma keep_ids_simps [simp]:
  "pf_flow_id (keep_ids selected f) = pf_flow_id f"
  "set (pf_node_ids (keep_ids selected f)) \<subseteq> set selected"
  by (auto simp: keep_ids_def)

lemma list_all_take: "list_all P xs \<Longrightarrow> list_all P (take n xs)"
  by (meson in_set_takeD list_all_iff)

lemma concat_option_length:
  "length (concat (map (\<lambda>i. case f i of None \<Rightarrow> [] | Some n \<Rightarrow> [n]) xs)) \<le> length xs"
  by (induction xs) (auto split: option.split)

lemma first_projection_simps:
  "length (pj_nodes (first_projection c ids)) \<le> length ids"
  "length (pj_edges (first_projection c ids)) \<le> MAX_MODEL_EDGES"
  "map pf_flow_id (pj_flows (first_projection c ids)) = map gf_flow_id (take MAX_MODEL_FLOWS (cat_flows c))"
  "list_all (within ids) (pj_edges (first_projection c ids))"
  "list_all (\<lambda>f. set (pf_node_ids f) \<subseteq> set ids) (pj_flows (first_projection c ids))"
  "pj_included_nodes (first_projection c ids) = card (set ids)"
  "pj_included_edges (first_projection c ids) = length (pj_edges (first_projection c ids))"
  "pj_graph_digest (first_projection c ids) = cat_digest c"
  using concat_option_length [of "node_of (cat_nodes c)" ids]
  by (simp_all add: first_projection_def Let_def model_flow_def list_all_iff) (auto dest: in_set_takeD)

lemma first_projection_projected: "projected c (selected_ids c) (first_projection c (selected_ids c))"
  using card_length [of "selected_ids c"] selected_ids_bound [of c] first_projection_simps [where c = c and ids = "selected_ids c"]
  unfolding projected_def by linarith

lemma drop_last_node_projected:
  assumes "drop_last_node selected p = Inr (selected', p')" and "projected c selected p"
  shows "projected c selected' p'"
proof -
  obtain i where r: "selected' = filter (\<lambda>j. j \<noteq> i) selected"
      "p' = p\<lparr>pj_nodes := butlast (pj_nodes p), pj_edges := filter (within selected') (pj_edges p),
        pj_flows := map (keep_ids selected') (pj_flows p), pj_complete := False,
        pj_included_nodes := card (set selected'), pj_included_edges := length (filter (within selected') (pj_edges p))\<rparr>"
    using assms(1) by (auto simp: drop_last_node_def Let_def split: option.splits if_splits)
  have "card (set selected') \<le> card (set selected)" unfolding r(1) by (auto intro: card_mono)
  moreover have "length (filter (within selected') (pj_edges p)) \<le> length (pj_edges p)" by simp
  moreover have "map pf_flow_id (map (keep_ids selected') (pj_flows p)) = map pf_flow_id (pj_flows p)" by simp
  moreover have "list_all (within selected') (filter (within selected') (pj_edges p))"
    "list_all (\<lambda>f. set (pf_node_ids f) \<subseteq> set selected') (map (keep_ids selected') (pj_flows p))"
    by (simp_all add: list_all_iff)
  moreover have "length (butlast (pj_nodes p)) \<le> length (pj_nodes p)" by simp
  ultimately show ?thesis using assms(2) unfolding projected_def r(2)
    by (simp del: length_filter_le map_map length_butlast)
qed

definition err_context :: failure where
  "err_context = bantam ''REPOSITORY_MODEL_CONTEXT_TOO_LARGE''
     ''repository graph could not be reduced to the model context limit'' 422"

lemma drop_last_node_Inl: "drop_last_node selected p = Inl e \<Longrightarrow> e = KeyError"
  by (auto simp: drop_last_node_def Let_def split: option.splits if_splits)

lemma shrink_result:
  "projected c selected p \<Longrightarrow>
     (case shrink selected p of
        Inl e \<Rightarrow> e = err_context \<or> e = KeyError
      | Inr q \<Rightarrow> \<exists>ids. projected c ids q \<and> projection_bytes q \<le> MAX_MODEL_GRAPH_BYTES)"
proof (induction selected p rule: shrink.induct)
  case (1 selected p)
  consider "projection_bytes p \<le> MAX_MODEL_GRAPH_BYTES"
    | "\<not> projection_bytes p \<le> MAX_MODEL_GRAPH_BYTES" "length (pj_nodes p) \<le> 20"
    | "\<not> projection_bytes p \<le> MAX_MODEL_GRAPH_BYTES" "\<not> length (pj_nodes p) \<le> 20" by blast
  then show ?case
  proof cases
    case 1
    with "1.prems" show ?thesis by (auto simp: shrink.simps [of selected p])
  next
    case 2
    then show ?thesis by (simp add: shrink.simps [of selected p] err_context_def)
  next
    case 3
    show ?thesis
    proof (cases "drop_last_node selected p")
      case (Inl e)
      with 3 drop_last_node_Inl [OF Inl] show ?thesis by (simp add: shrink.simps [of selected p])
    next
      case (Inr sp)
      obtain s' p' where sp: "sp = (s', p')" by fastforce
      from "1.IH" [OF 3 Inr sp [symmetric]] drop_last_node_projected [OF Inr [unfolded sp] "1.prems"] 3 Inr sp
      show ?thesis by (simp add: shrink.simps [of selected p])
    qed
  qed
qed

text \<open>The projection of a repository graph for the language model is reduced in finitely many rounds,
  whatever the catalogue: it ends with a projection of at most 72000 bytes, 120 nodes, 240 edges and
  the first 60 flows, whose edges and flows mention only the ids it counts as included, or with the
  documented error, or with the \<open>KeyError\<close> of an id that redaction changed.\<close>

theorem projection_is_bounded:
  "case redacted_graph_projection c of
     Inl e \<Rightarrow> e = err_context \<or> e = KeyError
   | Inr p \<Rightarrow> \<exists>selected. projected c selected p \<and> projection_bytes p \<le> 72000"
  using shrink_result [OF first_projection_projected [of c]]
  unfolding redacted_graph_projection_def Let_def MAX_MODEL_GRAPH_BYTES_def .

section \<open>The narrative\<close>

definition grounded :: "projection \<Rightarrow> narrative \<Rightarrow> bool" where
  "grounded p n \<longleftrightarrow> valid_narrative n \<and> cites_only_supplied p n \<and> rooted_attack_tree (na_attack_tree n)"

lemma judge_narrative_cases:
  "case mr_explanation (judge_narrative nt p pv reply) of
     None \<Rightarrow> mr_status (judge_narrative nt p pv reply) = FAILED
   | Some n \<Rightarrow> mr_status (judge_narrative nt p pv reply) = READY \<and> grounded p n"
  by (auto simp: judge_narrative_def failed_def parse_narrative_def grounded_def attack_tree_valid_iff
      split: option.splits if_splits)

text \<open>C29. The language model is asked at most once, only on request and with a configured client, and with
  nothing but the prompt and the reduced projection; and a narrative is shown only if it satisfies
  the field constraints, cites only nodes and flows that were sent, and its attack tree is a rooted
  tree of the permitted depth. Every other outcome has no explanation and is not \<open>READY\<close>.\<close>

theorem narratives_are_grounded:
  "case generate_repository_narrative nt client c requested asked of (r, asked') \<Rightarrow>
     (asked' = asked \<or>
      requested \<and> client \<noteq> None \<and>
      (\<exists>p. redacted_graph_projection c = Inr p \<and> asked' = asked @ [model_request (nt_schema nt) p])) \<and>
     (case r of
        Inl e \<Rightarrow> asked' = asked
      | Inr m \<Rightarrow>
          (case mr_explanation m of
             None \<Rightarrow> mr_status m \<noteq> READY
           | Some n \<Rightarrow> mr_status m = READY \<and>
               (\<exists>p. redacted_graph_projection c = Inr p \<and> asked' = asked @ [model_request (nt_schema nt) p] \<and> grounded p n)))"
proof (cases "requested \<and> client \<noteq> None")
  case False
  then show ?thesis by (auto simp: generate_repository_narrative_def split: option.splits)
next
  case True
  then obtain mv where mv: "requested" "client = Some mv" by auto
  show ?thesis
  proof (cases "redacted_graph_projection c")
    case (Inl e)
    with mv show ?thesis by (simp add: generate_repository_narrative_def build_repository_model_request_def)
  next
    case (Inr p)
    let ?request = "model_request (nt_schema nt) p"
    show ?thesis
    proof (cases "mistral_generate mv ?request")
      case e: (Inl e)
      from mv Inr e show ?thesis
        by (simp add: generate_repository_narrative_def build_repository_model_request_def failed_def)
    next
      case o: (Inr reply)
      from mv Inr o judge_narrative_cases [of nt p "provenance_of nt c ?request p" reply] show ?thesis
        by (auto simp: generate_repository_narrative_def build_repository_model_request_def split: option.splits)
    qed
  qed
qed

end
