(* ===== verification/Repository_Service.thy ===== *)
theory Repository_Service
  imports Workflow Catalog_Builder Narrative
begin

text \<open>
  Pinned repository graphs: \<open>_merge_catalogs\<close>, \<open>build_repository_catalog\<close>,
  \<open>RepositoryWorkflowValidator\<close> and \<open>RepositoryGraphService\<close> of
  \<open>bantam/repository_graph.py\<close>. The Python builder for foreign repositories, which parses with
  \<open>ast\<close>, and the Terraform builder are functions from the snapshot to a catalogue. The state
  joins the tables with what was sent to GitHub and to the language model.
\<close>

section \<open>The catalogue of a snapshot\<close>

definition MAX_GRAPH_BYTES :: nat where "MAX_GRAPH_BYTES = 4000000"

definition merge_edge :: "gedge \<Rightarrow> graph \<Rightarrow> graph" where
  "merge_edge e g = fold (add_edge (ge_source e) (ge_target e) (ge_type e)) ([] # ge_flow_ids e) g"

definition merge_into :: "repository_catalog \<Rightarrow> graph \<Rightarrow> graph" where
  "merge_into c g = fold merge_edge (cat_edges c) (fold put_node (cat_nodes c) g)"

definition error_id :: "json \<Rightarrow> string" where
  "error_id e = (case field (Some e) ''id'' of Some (JStr i) \<Rightarrow> i | _ \<Rightarrow> [])"

definition repository_fields :: "repository_catalog \<Rightarrow> (string \<times> json) list" where
  "repository_fields c =
     [(''version'', JInt 1), (''generator'', JStr ''bantam.repository_graph.RepositoryGraphBuilder''),
      (''source'', case rc_source c of None \<Rightarrow> JNull | Some v \<Rightarrow> v),
      (''nodes'', JList (map node_json (cat_nodes c))), (''edges'', JList (map edge_json (cat_edges c))),
      (''default_flows'', JList (map flow_json (cat_flows c))), (''parse_errors'', JList (rc_parse_errors c))]"

definition merge_catalogs :: "(string \<Rightarrow> string) \<Rightarrow> repository_catalog list \<Rightarrow> json \<Rightarrow> repository_catalog" where
  "merge_catalogs sha256_hex catalogs source =
     (let g = fold merge_into catalogs empty_graph;
          c = \<lparr>cat_nodes = sort_key gn_id (gr_nodes g), cat_edges = sort_key edge_key (gr_edges g),
               cat_flows = sort_key gf_flow_id (concat (map cat_flows catalogs)), cat_digest = [],
               rc_source = Some source, rc_parse_errors = sort_key error_id (concat (map rc_parse_errors catalogs))\<rparr> in
      c\<lparr>cat_digest := digest sha256_hex (JObj (repository_fields c))\<rparr>)"

record catalog_builders =
  cb_python :: "repository_snapshot \<Rightarrow> json \<Rightarrow> failure + repository_catalog"
  cb_terraform :: "repository_snapshot \<Rightarrow> json \<Rightarrow> failure + repository_catalog"
  cb_sha256_hex :: "string \<Rightarrow> string"

definition snapshot_source :: "repository_snapshot \<Rightarrow> json" where
  "snapshot_source snap = JObj
     [(''repository'', JStr (rs_repository (rp_source snap))), (''requested_ref'', JStr (rs_ref (rp_source snap))),
      (''root_path'', JStr (rs_root_path (rp_source snap))), (''requested_language'', JStr (rs_language (rp_source snap))),
      (''detected_language'', JStr (rp_detected_language snap)), (''resolved_commit'', JStr (rp_resolved_commit snap)),
      (''source_sha256'', JStr (rp_source_sha256 snap)), (''file_count'', JInt (int (length (rp_files snap))))]"

definition build_when :: "bool \<Rightarrow> (failure + repository_catalog) \<Rightarrow> failure + repository_catalog list" where
  "build_when wanted result = (if wanted then andthen result (\<lambda>c. Inr [c]) else Inr [])"

definition build_repository_catalog :: "catalog_builders \<Rightarrow> repository_snapshot \<Rightarrow> failure + repository_catalog" where
  "build_repository_catalog cb snap =
     (let source = snapshot_source snap; language = rp_detected_language snap in
      andthen (build_when (language \<in> {''python'', ''mixed''}) (cb_python cb snap source)) (\<lambda>python.
      andthen (build_when (language \<in> {''terraform'', ''mixed''}) (cb_terraform cb snap source)) (\<lambda>terraform.
      let c = merge_catalogs (cb_sha256_hex cb) (python @ terraform) source in
      if utf8_length (canonical_json (JObj (repository_fields c @ [(''graph_digest'', JStr (cat_digest c))]))) > MAX_GRAPH_BYTES
      then Inl (bantam ''REPOSITORY_GRAPH_TOO_LARGE'' ''generated graph exceeds the safe persistence limit'' 422)
      else Inr c)))"

section \<open>Validating workflows over a repository graph\<close>

definition REPOSITORY_EDGE_TYPES :: "string list" where
  "REPOSITORY_EDGE_TYPES = [''next'', ''calls'', ''handled_by'', ''depends_on'', ''documented_by'', ''checks'', ''contains'',
     ''reads'', ''writes'', ''enforced_by'']"

text \<open>The roles of the flows that begin at a node.\<close>

definition entry_roles :: "repository_catalog \<Rightarrow> string \<Rightarrow> string list" where
  "entry_roles c i =
     concat (map (\<lambda>f. case gf_node_ids f of [] \<Rightarrow> [] | first # _ \<Rightarrow> if first = i then gf_actor_roles f else []) (cat_flows c))"

definition graph_roles :: "repository_catalog \<Rightarrow> string list" where
  "graph_roles c = concat (map (\<lambda>f. if gf_node_ids f = [] then [] else gf_actor_roles f) (cat_flows c))"

definition entry_errors :: "repository_catalog \<Rightarrow> workflow_definition \<Rightarrow> workflow_error list" where
  "entry_errors c w =
     (case wd_node_ids w of
        [] \<Rightarrow> []
      | first # _ \<Rightarrow> unless (node_of (cat_nodes c) first = None \<or> wd_actor_role w \<in> set (entry_roles c first)) ''INVALID_START''
          ''Workflow must begin at an extracted entry for the selected actor.'')"

definition validate_repository :: "repository_catalog \<Rightarrow> workflow_definition \<Rightarrow> validation" where
  "validate_repository c definition =
     (let w = normalized definition in
      \<lparr>va_errors =
         name_errors w @
         unless (wd_actor_role w \<in> set (graph_roles c)) ''INVALID_ACTOR'' ''Actor role is not available in this repository graph.'' @
         unless (1 \<le> length (wd_node_ids w) \<and> length (wd_node_ids w) \<le> 160) ''INVALID_LENGTH''
           ''A repository workflow must contain 1-160 nodes.'' @
         unknown_errors (cat_nodes c) ''Unknown repository graph node: '' (wd_node_ids w) @
         entry_errors c w @
         transition_errors (cat_nodes c) (edges_of_types REPOSITORY_EDGE_TYPES (cat_edges c)) (wd_node_ids w),
       va_normalized = w,
       va_graph_digest = cat_digest c\<rparr>)"

definition repository_evidence :: "gnode \<Rightarrow> string" where
  "repository_evidence n = first_text [text_field n ''signature'', text_field n ''condition'', text_field n ''address'', gn_id n]"

definition repository_documentation :: "repository_catalog \<Rightarrow> bool \<Rightarrow> workflow_definition \<Rightarrow> string" where
  "repository_documentation c valid w =
     (let description = py_strip (wd_description w) in
      py_join newline
        ([''# Workflow: '' @ wd_name w, [],
          ''Generated deterministically from a saved path through repository graph '',
          ''`'' @ cat_digest c @ ''`.'', [],
          ''- **Actor:** `'' @ wd_actor_role w @ ''`'',
          ''- **Validation:** '' @
            (if valid then ''PASS '' @ EM_DASH @ '' every adjacent transition exists in the pinned graph''
             else ''FAIL '' @ EM_DASH @ '' the saved path is stale or invalid'')] @
         (if description = [] then [] else [description, []]) @
         [[], ''## Selected code path'', []] @
         map (\<lambda>(index, i). case node_of (cat_nodes c) i of
                None \<Rightarrow> nat_str index @ ''. **Missing node** '' @ EM_DASH @ '' `'' @ i @ ''`''
              | Some n \<Rightarrow> path_line index n (repository_evidence n))
           (enumerate 1 (wd_node_ids w))) @ newline)"

definition repository_flow :: "repository_catalog \<Rightarrow> string \<Rightarrow> workflow_row \<Rightarrow> workflow_view" where
  "repository_flow c graph_digest r =
     (let result = validate_repository c (definition_of r); current = (wf_graph_digest r = graph_digest);
          valid = (va_valid result \<and> current) in
      \<lparr>wv_row = r, wv_valid = valid, wv_stale = (\<not> current), wv_errors = va_errors result,
       wv_documentation = repository_documentation c valid (definition_of r)\<rparr>)"

section \<open>Model results as JSON\<close>

definition status_text :: "model_status \<Rightarrow> string" where
  "status_text st = (case st of SKIPPED \<Rightarrow> ''SKIPPED'' | DISABLED \<Rightarrow> ''DISABLED'' | FAILED \<Rightarrow> ''FAILED'' | READY \<Rightarrow> ''READY'')"

definition attack_kind_text :: "attack_kind \<Rightarrow> string" where
  "attack_kind_text k = (case k of GOAL \<Rightarrow> ''GOAL'' | SUBGOAL \<Rightarrow> ''SUBGOAL'' | ACTION \<Rightarrow> ''ACTION'')"

definition attack_operator_text :: "attack_operator \<Rightarrow> string" where
  "attack_operator_text k = (case k of OP_AND \<Rightarrow> ''AND'' | OP_OR \<Rightarrow> ''OR'' | OP_LEAF \<Rightarrow> ''LEAF'')"

definition attack_tree_json :: "attack_tree \<Rightarrow> json" where
  "attack_tree_json t = JObj
     [(''title'', JStr (at_title t)), (''root_attack_node_id'', JStr (at_root t)),
      (''nodes'', JList (map (\<lambda>n. JObj
         [(''attack_node_id'', JStr (an_id n)), (''title'', JStr (an_title n)), (''description'', JStr (an_description n)),
          (''kind'', JStr (attack_kind_text (an_kind n))), (''operator'', JStr (attack_operator_text (an_operator n))),
          (''graph_node_ids'', strings (an_graph_node_ids n)), (''flow_ids'', strings (an_flow_ids n))]) (at_nodes t))),
      (''edges'', JList (map (\<lambda>(p, c). JObj
         [(''parent_attack_node_id'', JStr p), (''child_attack_node_id'', JStr c)]) (at_edges t))),
      (''assumptions'', strings (at_assumptions t)), (''limitations'', strings (at_limitations t))]"

definition narrative_json :: "narrative \<Rightarrow> json" where
  "narrative_json n = JObj
     [(''schema_version'', JStr (na_schema_version n)), (''summary'', JStr (na_summary n)),
      (''architecture'', JList (map (\<lambda>l. JObj [(''name'', JStr (nl_name l)), (''explanation'', JStr (nl_explanation l)),
         (''node_ids'', strings (nl_node_ids l))]) (na_architecture n))),
      (''important_flows'', JList (map (\<lambda>f. JObj [(''flow_id'', JStr (nf_flow_id f)),
         (''explanation'', JStr (nf_explanation f))]) (na_important_flows n))),
      (''reading_order'', strings (na_reading_order n)), (''limitations'', strings (na_limitations n)),
      (''attack_tree'', attack_tree_json (na_attack_tree n))]"

definition provenance_json :: "provenance \<Rightarrow> json" where
  "provenance_json v = JObj
     [(''method'', JStr ''POST''), (''url'', JStr MODEL_ENDPOINT), (''provider'', JStr MODEL_PROVIDER), (''model'', JStr MODEL_ID),
      (''graph_digest'', JStr (pv_graph_digest v)), (''projection_sha256'', JStr (pv_projection_sha256 v)),
      (''request_sha256'', JStr (pv_request_sha256 v)),
      (''projection'', JObj [(''complete'', JBool (pv_complete v)), (''included_nodes'', JInt (int (pv_included_nodes v))),
         (''included_edges'', JInt (int (pv_included_edges v)))]),
      (''disclosure'', JStr (''Only the redacted graph projection described here was sent to Mistral; '' @
         ''raw repository files and GitHub credentials were not sent.''))]"

definition or_null_with :: "('a \<Rightarrow> json) \<Rightarrow> 'a option \<Rightarrow> json" where
  "or_null_with f v = (case v of None \<Rightarrow> JNull | Some x \<Rightarrow> f x)"

definition model_result_json :: "model_result \<Rightarrow> json" where
  "model_result_json m = JObj
     ([(''status'', JStr (status_text (mr_status m))), (''provider'', JStr MODEL_PROVIDER), (''model'', JStr MODEL_ID),
       (''explanation'', or_null_with narrative_json (mr_explanation m)), (''error_code'', or_null (mr_error_code m))] @
      (case mr_output m of None \<Rightarrow> []
       | Some reply \<Rightarrow> [(''provider_request_id'', or_null (mo_request_id reply)),
           (''input_tokens'', or_null_with JInt (mo_input_tokens reply)),
           (''output_tokens'', or_null_with JInt (mo_output_tokens reply))]) @
      [(''provenance'', or_null_with provenance_json (mr_provenance m))])"

section \<open>The service\<close>

record repository_world =
  rw_store :: assurance_db
  rw_asked :: "string list"
  rw_sent :: "json list"

type_synonym 'a service = "(repository_world, failure, 'a) proc"

definition on_store :: "(assurance_db, failure, 'a) proc \<Rightarrow> 'a service" where
  "on_store m w = (case m (rw_store w) of (r, a) \<Rightarrow> (r, w\<lparr>rw_store := a\<rparr>))"

definition on_github :: "(string list, failure, 'a) proc \<Rightarrow> 'a service" where
  "on_github m w = (case m (rw_asked w) of (r, asked) \<Rightarrow> (r, w\<lparr>rw_asked := asked\<rparr>))"

definition on_model :: "(json list, failure, 'a) proc \<Rightarrow> 'a service" where
  "on_model m w = (case m (rw_sent w) of (r, sent) \<Rightarrow> (r, w\<lparr>rw_sent := sent\<rparr>))"

definition outcome :: "failure + 'a \<Rightarrow> 'a service" where
  "outcome r w = (r, w)"

record repository_deps =
  rd_github :: github
  rd_builders :: catalog_builders
  rd_narrator :: narrator
  rd_models_client :: "model_provider option"

record repository_request =
  qr_repository :: string
  qr_ref :: string
  qr_root_path :: string
  qr_language :: string
  qr_send_to_mistral :: bool

definition snapshot_audit :: "audit_args \<Rightarrow> uuid \<Rightarrow> snapshot_row \<Rightarrow> model_result \<Rightarrow> audit_args" where
  "snapshot_audit audit_fields snapshot_id row m = audit_fields
     \<lparr>aa_action := ''REPOSITORY_GRAPH_GENERATED'', aa_resource_type := ''repository_graph_snapshot'',
      aa_resource_id := uuid_str snapshot_id,
      aa_metadata := JObj
        [(''repository'', JStr (sh_repository row)), (''resolved_commit'', JStr (sh_resolved_commit row)),
         (''graph_digest'', JStr (sh_graph_digest row)), (''nodes'', JInt (int (length (cat_nodes (sh_graph row))))),
         (''edges'', JInt (int (length (cat_edges (sh_graph row))))), (''model_status'', JStr (status_text (mr_status m)))]\<rparr>"

definition new_snapshot ::
  "workflow_fresh \<Rightarrow> repository_source \<Rightarrow> repository_snapshot \<Rightarrow> repository_catalog \<Rightarrow> model_result \<Rightarrow> uuid \<Rightarrow> snapshot_row" where
  "new_snapshot fx source snap c m created_by =
     \<lparr>sh_snapshot_id = wx_workflow_id fx, sh_repository = rs_repository source, sh_requested_ref = rs_ref source,
      sh_root_path = rs_root_path source, sh_resolved_commit = rp_resolved_commit snap,
      sh_language = rp_detected_language snap, sh_source_sha256 = rp_source_sha256 snap, sh_graph_digest = cat_digest c,
      sh_graph = c, sh_model_result = model_result_json m, sh_created_by = created_by, sh_created_at = wx_now fx\<rparr>"

text \<open>The row and its audit record are one transaction.\<close>

definition save_snapshot :: "snapshot_row \<Rightarrow> audit_args \<Rightarrow> audit_fresh \<Rightarrow> (assurance_db, failure, unit) proc" where
  "save_snapshot row args fx = in_transaction (\<lambda>a.
     andthen (insert_snapshot row a) (\<lambda>a1. andthen (audit_beside args fx a1) (\<lambda>a2. Inr ((), a2))))"

text \<open>A snapshot as it is returned: its row and its workflows.\<close>

type_synonym snapshot_view = "snapshot_row \<times> workflow_view list"

definition generate ::
  "repository_deps \<Rightarrow> repository_request \<Rightarrow> uuid \<Rightarrow> audit_args \<Rightarrow> workflow_fresh \<Rightarrow> snapshot_view service" where
  "generate deps req created_by audit_fields fx =
     run_then (outcome (from_mapping (qr_repository req) (qr_ref req) (qr_root_path req) (qr_language req))) (\<lambda>source.
     run_then (on_github (fetch (rd_github deps) source)) (\<lambda>snap.
     run_then (outcome (build_repository_catalog (rd_builders deps) snap)) (\<lambda>c.
     run_then (on_model (generate_repository_narrative (rd_narrator deps) (rd_models_client deps) c (qr_send_to_mistral req))) (\<lambda>m.
     let row = new_snapshot fx source snap c m created_by in
     run_then (on_store (save_snapshot row (snapshot_audit audit_fields (wx_workflow_id fx) row m) (wx_audit fx))) (\<lambda>_.
     returning (row, []))))))"

definition snapshot_row_of :: "uuid \<Rightarrow> assurance_db \<Rightarrow> failure + snapshot_row" where
  "snapshot_row_of snapshot_id a =
     (case row_get sh_snapshot_id snapshot_id (ad_snapshots a) of
        None \<Rightarrow> Inl (bantam ''NOT_FOUND'' ''repository graph snapshot was not found'' 404)
      | Some row \<Rightarrow> Inr row)"

definition get_snapshot :: "uuid \<Rightarrow> (assurance_db, failure, snapshot_view) proc" where
  "get_snapshot snapshot_id a =
     (andthen (snapshot_row_of snapshot_id a) (\<lambda>row. Inr
        (row, map (repository_flow (sh_graph row) (sh_graph_digest row)) (newest_workflows (Some snapshot_id) a))), a)"

definition validate_workflow :: "uuid \<Rightarrow> workflow_definition \<Rightarrow> (assurance_db, failure, validation) proc" where
  "validate_workflow snapshot_id definition a =
     (andthen (snapshot_row_of snapshot_id a) (\<lambda>row. Inr (validate_repository (sh_graph row) definition)), a)"

definition create_workflow ::
  "uuid \<Rightarrow> workflow_definition \<Rightarrow> uuid \<Rightarrow> audit_args \<Rightarrow> workflow_fresh \<Rightarrow> (assurance_db, failure, workflow_view) proc" where
  "create_workflow snapshot_id definition created_by audit_fields fx a0 =
     (case snapshot_row_of snapshot_id a0 of
        Inl e \<Rightarrow> (Inl e, a0)
      | Inr graph_row \<Rightarrow>
          let c = sh_graph graph_row; result = validate_repository c definition; w = va_normalized result;
              row = new_workflow fx w (sh_graph_digest graph_row) (Some snapshot_id) created_by in
          if \<not> va_valid result then (Inl (invalid_workflow result), a0)
          else in_transaction (\<lambda>a.
            andthen (insert_workflow row a) (\<lambda>a1.
            andthen (audit_beside (workflow_audit audit_fields (wx_workflow_id fx) w (sh_graph_digest graph_row)
              [(''repository_graph_snapshot_id'', JStr (uuid_str snapshot_id))]) (wx_audit fx) a1) (\<lambda>a2.
            Inr (\<lparr>wv_row = row, wv_valid = True, wv_stale = False, wv_errors = [],
                  wv_documentation = repository_documentation c True w\<rparr>, a2)))) a0)"

section \<open>The offered sources\<close>

record offered_source =
  os_source_id :: string
  os_name :: string
  os_source :: repository_source
  os_send_to_mistral :: bool
  os_private :: bool

definition DEFAULT_REPOSITORY_SOURCES :: "offered_source list" where
  "DEFAULT_REPOSITORY_SOURCES =
     [\<lparr>os_source_id = ''bantam-application'', os_name = ''Bantam application'',
       os_source = \<lparr>rs_repository = ''aam57689/bank'', rs_ref = ''main'', rs_root_path = [], rs_language = ''python''\<rparr>,
       os_send_to_mistral = True, os_private = False\<rparr>,
      \<lparr>os_source_id = ''bantam-terraform'', os_name = ''Bantam Terraform infrastructure'',
       os_source = \<lparr>rs_repository = ''aam57689/Terraform-infra'', rs_ref = ''main'', rs_root_path = ''bank'',
         rs_language = ''terraform''\<rparr>,
       os_send_to_mistral = True, os_private = True\<rparr>]"

record sources_answer =
  sa_default_sources :: "offered_source list"
  sa_github_token_configured :: bool
  sa_mistral_configured :: bool
  sa_recent_snapshots :: "snapshot_row list"
  sa_limits :: "(string \<times> nat) list"

text \<open>\<open>ORDER BY created_at DESC LIMIT 50\<close>, with the columns of the row.\<close>

definition sources :: "bool \<Rightarrow> model_provider option \<Rightarrow> (assurance_db, failure, sources_answer) proc" where
  "sources github_configured models_client a =
     (Inr \<lparr>sa_default_sources = DEFAULT_REPOSITORY_SOURCES, sa_github_token_configured = github_configured,
        sa_mistral_configured = (models_client \<noteq> None),
        sa_recent_snapshots = take 50 (sort_key (\<lambda>r. - sh_created_at r) (ad_snapshots a)),
        sa_limits = [(''max_code_files'', MAX_CODE_FILES), (''max_source_bytes'', MAX_REPOSITORY_BYTES),
          (''max_graph_bytes'', MAX_GRAPH_BYTES), (''model_projection_bytes'', MAX_MODEL_GRAPH_BYTES)]\<rparr>, a)"

end
