(* ===== verification/Api_Assurance.thy ===== *)
theory Api_Assurance
  imports Repository_Service Api_Admin
begin

text \<open>
  The workflow and repository-graph routes of \<open>register_admin_routes\<close> in \<open>bantam/api.py\<close>: the
  principal dependency, the request model, the administrator scope and the service.
\<close>

section \<open>Requests\<close>

datatype assurance_call =
    WorkflowGraph
  | ValidateWorkflow workflow_definition
  | CreateWorkflow workflow_definition
  | ListRepositoryGraphs
  | GenerateRepositoryGraph repository_request
  | GetRepositoryGraph uuid
  | ValidateRepositoryWorkflow uuid workflow_definition
  | CreateRepositoryWorkflow uuid workflow_definition

datatype assurance_reply =
    Overview "catalog \<times> workflow_view list"
  | Validated validation
  | WorkflowCreated workflow_view
  | Sources sources_answer
  | Snapshot snapshot_view

definition valid_definition_request :: "nat \<Rightarrow> workflow_definition \<Rightarrow> bool" where
  "valid_definition_request least w \<longleftrightarrow>
     length_in 3 100 (wd_name w) \<and> length_in 0 500 (wd_description w) \<and> length_in 3 40 (wd_actor_role w) \<and>
     least \<le> length (wd_node_ids w) \<and> length (wd_node_ids w) \<le> 160"

definition valid_graph_request :: "repository_request \<Rightarrow> bool" where
  "valid_graph_request q \<longleftrightarrow>
     length_in 3 220 (qr_repository q) \<and> length_in 1 180 (qr_ref q) \<and> length_in 0 500 (qr_root_path q) \<and>
     qr_language q \<in> {''auto'', ''python'', ''terraform''}"

definition valid_assurance_request :: "assurance_call \<Rightarrow> bool" where
  "valid_assurance_request call =
     (case call of
        ValidateWorkflow w \<Rightarrow> valid_definition_request 2 w
      | CreateWorkflow w \<Rightarrow> valid_definition_request 2 w
      | GenerateRepositoryGraph q \<Rightarrow> valid_graph_request q
      | ValidateRepositoryWorkflow _ w \<Rightarrow> valid_definition_request 1 w
      | CreateRepositoryWorkflow _ w \<Rightarrow> valid_definition_request 1 w
      | _ \<Rightarrow> True)"

section \<open>Handlers\<close>

record assurance_services =
  sv_catalog :: catalog
  sv_repository :: repository_deps
  sv_github_configured :: bool

definition pending_audit :: "app \<Rightarrow> api_request \<Rightarrow> principal \<Rightarrow> string \<Rightarrow> string \<Rightarrow> audit_args" where
  "pending_audit app req p action resource_type =
     request_audit app req (uuid_str (pr_user_id p)) action resource_type ''pending'' (JObj [])"

definition replying :: "('a \<Rightarrow> assurance_reply) \<Rightarrow> 'a service \<Rightarrow> assurance_reply service" where
  "replying f m = run_then m (\<lambda>x. returning (f x))"

definition bank_of :: "repository_world \<Rightarrow> db" where
  "bank_of w = ad_bank (rw_store w)"

definition workflow_handler ::
  "app \<Rightarrow> assurance_services \<Rightarrow> api_request \<Rightarrow> principal \<Rightarrow> workflow_fresh \<Rightarrow> assurance_call \<Rightarrow> assurance_reply service" where
  "workflow_handler app sv req p fx call =
     (case call of
        WorkflowGraph \<Rightarrow> replying Overview (on_store (\<lambda>a. (Inr (overview (sv_catalog sv) a), a)))
      | ValidateWorkflow w \<Rightarrow> replying Validated (returning (validate (sv_catalog sv) w))
      | CreateWorkflow w \<Rightarrow> replying WorkflowCreated (on_store (create (sv_catalog sv) w (pr_user_id p)
          (pending_audit app req p ''WORKFLOW_CREATED'' ''workflow_definition'') fx))
      | ListRepositoryGraphs \<Rightarrow> replying Sources
          (on_store (sources (sv_github_configured sv) (rd_models_client (sv_repository sv))))
      | GenerateRepositoryGraph q \<Rightarrow> replying Snapshot (generate (sv_repository sv) q (pr_user_id p)
          (pending_audit app req p ''REPOSITORY_GRAPH_GENERATED'' ''repository_graph_snapshot'') fx)
      | GetRepositoryGraph i \<Rightarrow> replying Snapshot (on_store (get_snapshot i))
      | ValidateRepositoryWorkflow i w \<Rightarrow> replying Validated (on_store (validate_workflow i w))
      | CreateRepositoryWorkflow i w \<Rightarrow> replying WorkflowCreated (on_store (create_workflow i w (pr_user_id p)
          (pending_audit app req p ''WORKFLOW_CREATED'' ''workflow_definition'') fx)))"

definition assurance_step ::
  "app \<Rightarrow> assurance_services \<Rightarrow> env \<Rightarrow> api_request \<Rightarrow> workflow_fresh \<Rightarrow> assurance_call \<Rightarrow> assurance_reply service" where
  "assurance_step app sv env req fx call w =
     (case require_roles AdminPrincipal app env req (bank_of w) of
        Inl e \<Rightarrow> (Inl e, w)
      | Inr token \<Rightarrow>
          if \<not> valid_assurance_request call
          then (Inl (bantam ''VALIDATION_FAILED'' ''request validation failed'' 422), w)
          else (case require_admin_scope app (pt_principal token) ''workflows'' (bank_of w) of
              Inl e \<Rightarrow> (Inl e, w)
            | Inr _ \<Rightarrow> workflow_handler app sv req (pt_principal token) fx call w))"

end
