(* ===== verification/Assurance_Properties.thy ===== *)
theory Assurance_Properties
  imports Api_Assurance Catalog_Properties
begin

text \<open>
  Sources of repository graphs are well formed before GitHub is asked; the assurance routes need an
  administrator with the scope, and change the bank's tables by their audit record only; a snapshot
  is stored whole or not at all.
\<close>

section \<open>Well-formed sources\<close>










lemma guarded_Inr: "(if a then Inl e else r) = Inr x \<longleftrightarrow> \<not> a \<and> r = Inr x"
  by simp








section \<open>What the services do to the tables\<close>

text \<open>
  The tables after a call that went through: at most one new row, a snapshot or a workflow, and one
  audit record for each; the bank's other tables and every older row stay.
\<close>

definition recorded :: "assurance_db \<Rightarrow> assurance_db \<Rightarrow> bool" where
  "recorded a a' \<longleftrightarrow>
     (\<exists>events snapshots workflows.
        a' = \<lparr>ad_bank = (ad_bank a)\<lparr>audit_events := audit_events (ad_bank a) @ events\<rparr>,
              ad_snapshots = ad_snapshots a @ snapshots, ad_workflows = ad_workflows a @ workflows\<rparr> \<and>
        length events = length snapshots + length workflows \<and> length events \<le> 1)"

lemma recordedI:
  "a' = \<lparr>ad_bank = (ad_bank a)\<lparr>audit_events := audit_events (ad_bank a) @ events\<rparr>,
      ad_snapshots = ad_snapshots a @ snapshots, ad_workflows = ad_workflows a @ workflows\<rparr> \<Longrightarrow>
    length events = length snapshots + length workflows \<Longrightarrow> length events \<le> 1 \<Longrightarrow> recorded a a'"
  unfolding recorded_def by blast

lemma recorded_same [simp]: "recorded a a"
  unfolding recorded_def by (intro exI [of _ "[]"]) simp

lemma audit_beside_frame:
  "audit_beside args fx a = Inr a' \<Longrightarrow>
     \<exists>row. a' = a\<lparr>ad_bank := (ad_bank a)\<lparr>audit_events := audit_events (ad_bank a) @ [row]\<rparr>\<rparr> \<and>
       au_action row = aa_action args \<and> au_resource_id row = aa_resource_id args"
  by (auto simp: audit_beside_def elim!: andthen_InrE dest!: audit_record_InrD)

lemma insert_snapshot_recorded:
  assumes "insert_snapshot r a = Inr a1" and "audit_beside args fx a1 = Inr a2"
  shows "recorded a a2"
proof -
  have a1: "a1 = a\<lparr>ad_snapshots := ad_snapshots a @ [r]\<rparr>" using insert_snapshot_InrD [OF assms(1)] by (rule conjunct1)
  obtain row where "a2 = a1\<lparr>ad_bank := (ad_bank a1)\<lparr>audit_events := audit_events (ad_bank a1) @ [row]\<rparr>\<rparr>"
    using audit_beside_frame [OF assms(2)] by blast
  then show ?thesis by (intro recordedI [of _ _ "[row]" "[r]" "[]"]) (cases a, simp_all add: a1)
qed

lemma insert_workflow_recorded:
  assumes "insert_workflow r a = Inr a1" and "audit_beside args fx a1 = Inr a2"
  shows "recorded a a2"
proof -
  have a1: "a1 = a\<lparr>ad_workflows := ad_workflows a @ [r]\<rparr>" using insert_workflow_InrD [OF assms(1)] by (rule conjunct1)
  obtain row where "a2 = a1\<lparr>ad_bank := (ad_bank a1)\<lparr>audit_events := audit_events (ad_bank a1) @ [row]\<rparr>\<rparr>"
    using audit_beside_frame [OF assms(2)] by blast
  then show ?thesis by (intro recordedI [of _ _ "[row]" "[]" "[r]"]) (cases a, simp_all add: a1)
qed

text \<open>A service call settles when it records what it did or leaves the tables alone; it is quiet when it
  never touches them.\<close>

definition settles :: "'a service \<Rightarrow> bool" where
  "settles m \<longleftrightarrow> (\<forall>w r w'. m w = (r, w') \<longrightarrow>
     (case r of Inl _ \<Rightarrow> rw_store w' = rw_store w | Inr _ \<Rightarrow> recorded (rw_store w) (rw_store w')))"

definition quiet :: "'a service \<Rightarrow> bool" where
  "quiet m \<longleftrightarrow> (\<forall>w. rw_store (snd (m w)) = rw_store w)"

lemma quiet_settles: "quiet m \<Longrightarrow> settles m"
  by (auto simp: quiet_def settles_def split: sum.splits) (metis recorded_same snd_conv)+

lemma settlesD: "settles m \<Longrightarrow> m w = (r, w') \<Longrightarrow>
    case r of Inl _ \<Rightarrow> rw_store w' = rw_store w | Inr _ \<Rightarrow> recorded (rw_store w) (rw_store w')"
  unfolding settles_def by blast

lemma quietD: "quiet m \<Longrightarrow> m w = (r, w') \<Longrightarrow> rw_store w' = rw_store w"
  unfolding quiet_def by (metis snd_conv)

lemma settles_after_quiet:
  assumes "quiet m" and "\<And>x. settles (f x)"
  shows "settles (run_then m f)"
  unfolding settles_def
proof (intro allI impI)
  fix w r w'
  assume "run_then m f w = (r, w')"
  then show "case r of Inl _ \<Rightarrow> rw_store w' = rw_store w | Inr _ \<Rightarrow> recorded (rw_store w) (rw_store w')"
  proof (cases rule: run_then_cases)
    case raised
    then show ?thesis using quietD [OF assms(1)] by fastforce
  next
    case (ran x w1)
    then show ?thesis using quietD [OF assms(1) ran(1)] settlesD [OF assms(2) ran(2)] by (simp split: sum.splits)
  qed
qed

lemma settles_returning: "settles m \<Longrightarrow> settles (run_then m (\<lambda>x. returning (f x)))"
  unfolding settles_def
  by (intro allI impI, erule run_then_cases) (fastforce split: sum.splits)+

lemma quiet_parts [simp]:
  "quiet (returning x)" "quiet (outcome r)" "quiet (on_github g)" "quiet (on_model h)"
  by (auto simp: quiet_def returning_def outcome_def on_github_def on_model_def split: prod.splits)

lemma quiet_on_store: "(\<And>a. snd (m a) = a) \<Longrightarrow> quiet (on_store m)"
  by (auto simp: quiet_def on_store_def split: prod.splits) (metis snd_conv)

lemma settles_on_store:
  "(\<And>a r a'. m a = (r, a') \<Longrightarrow> case r of Inl _ \<Rightarrow> a' = a | Inr _ \<Rightarrow> recorded a a') \<Longrightarrow> settles (on_store m)"
  unfolding settles_def
proof (intro allI impI)
  fix w r w'
  assume m: "\<And>a r a'. m a = (r, a') \<Longrightarrow> case r of Inl _ \<Rightarrow> a' = a | Inr _ \<Rightarrow> recorded a a'" and "on_store m w = (r, w')"
  then obtain a' where "m (rw_store w) = (r, a')" "w' = w\<lparr>rw_store := a'\<rparr>" by (auto simp: on_store_def split: prod.splits)
  with m [OF this(1)] show "case r of Inl _ \<Rightarrow> rw_store w' = rw_store w | Inr _ \<Rightarrow> recorded (rw_store w) (rw_store w')"
    by (cases r) auto
qed

lemma create_settles: "settles (on_store (create c d by_user args fx))"
proof (rule settles_on_store)
  fix a r a'
  assume "create c d by_user args fx a = (r, a')"
  then show "case r of Inl _ \<Rightarrow> a' = a | Inr _ \<Rightarrow> recorded a a'"
    by (cases r) (auto simp: create_def Let_def insert_workflow_recorded elim!: andthen_InrE
        dest!: in_transaction_rollback in_transaction_commit split: if_splits)
qed

lemma create_workflow_settles: "settles (on_store (create_workflow i d by_user args fx))"
proof (rule settles_on_store)
  fix a r a'
  assume "create_workflow i d by_user args fx a = (r, a')"
  then show "case r of Inl _ \<Rightarrow> a' = a | Inr _ \<Rightarrow> recorded a a'"
    by (cases r) (auto simp: create_workflow_def Let_def insert_workflow_recorded elim!: andthen_InrE
        dest!: in_transaction_rollback in_transaction_commit split: if_splits sum.splits)
qed

lemma save_snapshot_settles: "settles (on_store (save_snapshot row args fx))"
proof (rule settles_on_store)
  fix a r a'
  assume "save_snapshot row args fx a = (r, a')"
  then show "case r of Inl _ \<Rightarrow> a' = a | Inr _ \<Rightarrow> recorded a a'"
    by (cases r) (auto simp: save_snapshot_def insert_snapshot_recorded elim!: andthen_InrE
        dest!: in_transaction_rollback in_transaction_commit)
qed

lemma generate_settles: "settles (generate deps req by_user args fx)"
  unfolding generate_def Let_def
  by (intro settles_after_quiet quiet_parts settles_returning save_snapshot_settles)

lemma workflow_handler_settles: "settles (workflow_handler app sv req p fx call)"
  unfolding workflow_handler_def replying_def
  by (cases call; simp only: assurance_call.case; rule settles_returning)
    (rule create_settles create_workflow_settles generate_settles quiet_settles quiet_parts quiet_on_store |
     simp add: sources_def get_snapshot_def validate_workflow_def)+

text \<open>Whom the routes let in.\<close>

definition admits :: "app \<Rightarrow> env \<Rightarrow> api_request \<Rightarrow> string \<Rightarrow> db \<Rightarrow> bool" where
  "admits app env req scope d =
     (case require_roles AdminPrincipal app env req d of
        Inl _ \<Rightarrow> False
      | Inr token \<Rightarrow> require_admin_scope app (pt_principal token) scope d = Inr ())"

text \<open>C31. The workflow and repository-graph routes act for an administrator with the \<open>workflows\<close> scope
  only: without one nothing is read from GitHub, sent to the model or stored. With one, a call that
  fails leaves every table as it was, and a call that succeeds adds at most one row, a workflow or a
  snapshot, with one audit record for it; no customer, account, balance or posting changes.\<close>

theorem assurance_routes_leave_the_bank:
  "case assurance_step app sv env req fx call w of (r, w') \<Rightarrow>
     (admits app env req ''workflows'' (bank_of w) \<or> w' = w \<and> r \<notin> range Inr) \<and>
     (case r of Inl _ \<Rightarrow> rw_store w' = rw_store w | Inr _ \<Rightarrow> recorded (rw_store w) (rw_store w'))"
proof (cases "require_roles AdminPrincipal app env req (bank_of w)")
  case (Inl e)
  then show ?thesis by (auto simp: assurance_step_def)
next
  case (Inr token)
  consider (refused) e where "assurance_step app sv env req fx call w = (Inl e, w)"
    | (handled) "admits app env req ''workflows'' (bank_of w)"
      "assurance_step app sv env req fx call w = workflow_handler app sv req (pt_principal token) fx call w"
    unfolding assurance_step_def admits_def Inr sum.case
    by (cases "valid_assurance_request call"; cases "require_admin_scope app (pt_principal token) ''workflows'' (bank_of w)") auto
  then show ?thesis
  proof cases
    case handled
    obtain r w' where r: "workflow_handler app sv req (pt_principal token) fx call w = (r, w')" by (rule prod.exhaust)
    show ?thesis
      using handled workflow_handler_settles [unfolded settles_def, rule_format, OF r] by (simp add: r)
  qed auto
qed

section \<open>Snapshots\<close>

lemma save_snapshot_InrD:
  assumes "on_store (save_snapshot row args fx) w = (Inr u, w')"
  obtains event where "rw_store w' = (rw_store w)\<lparr>ad_snapshots := ad_snapshots (rw_store w) @ [row],
      ad_bank := (bank_of w)\<lparr>audit_events := audit_events (bank_of w) @ [event]\<rparr>\<rparr>"
    "rw_sent w' = rw_sent w" "au_action event = aa_action args" "au_resource_id event = aa_resource_id args"
    "well_typed_snapshot row" "\<not> known sh_snapshot_id (sh_snapshot_id row) (ad_snapshots (rw_store w))"
proof -
  from assms obtain a1 a2 where s: "insert_snapshot row (rw_store w) = Inr a1" "audit_beside args fx a1 = Inr a2"
    "w' = w\<lparr>rw_store := a2\<rparr>"
    by (auto simp: on_store_def save_snapshot_def dest!: in_transaction_commit elim!: andthen_InrE split: prod.splits)
  obtain event where e: "a2 = a1\<lparr>ad_bank := (ad_bank a1)\<lparr>audit_events := audit_events (ad_bank a1) @ [event]\<rparr>\<rparr>"
    "au_action event = aa_action args" "au_resource_id event = aa_resource_id args"
    using audit_beside_frame [OF s(2)] by blast
  from insert_snapshot_InrD [OF s(1)] s(3) e show ?thesis by (intro that [of event]) (auto simp: bank_of_def)
qed

text \<open>A call that sends the model nothing.\<close>

definition mute :: "'a service \<Rightarrow> bool" where
  "mute m \<longleftrightarrow> (\<forall>w. rw_sent (snd (m w)) = rw_sent w)"

lemma muteD: "mute m \<Longrightarrow> m w = (r, w') \<Longrightarrow> rw_sent w' = rw_sent w"
  unfolding mute_def by (metis snd_conv)

lemma mute_run_then: "mute m \<Longrightarrow> (\<And>x. mute (f x)) \<Longrightarrow> mute (run_then m f)"
  unfolding mute_def by (auto simp: run_then_def split: prod.splits sum.splits) (metis snd_conv)+

lemma mute_parts:
  "mute (returning x)" "mute (outcome r)" "mute (on_github g)" "mute (on_store h)"
  by (auto simp: mute_def returning_def outcome_def on_github_def on_store_def split: prod.splits)

lemma mute_unless_requested: "mute (on_model (generate_repository_narrative nt mc c False))"
  by (simp add: mute_def on_model_def generate_repository_narrative_def)

lemma generate_mute: "\<not> qr_send_to_mistral req \<Longrightarrow> mute (generate deps req by_user args fx)"
  unfolding generate_def Let_def
  by (intro mute_run_then mute_parts) (simp add: mute_unless_requested)

text \<open>A catalogue whose digest is the SHA-256 of its canonical JSON and which fits the column.\<close>

definition pinned :: "catalog_builders \<Rightarrow> repository_catalog \<Rightarrow> bool" where
  "pinned cb c \<longleftrightarrow> cat_digest c = digest (cb_sha256_hex cb) (JObj (repository_fields c)) \<and>
     utf8_length (canonical_json (JObj (repository_fields c @ [(''graph_digest'', JStr (cat_digest c))]))) \<le> MAX_GRAPH_BYTES"

lemma repository_fields_digest: "repository_fields (c\<lparr>cat_digest := x\<rparr>) = repository_fields c"
  by (simp add: repository_fields_def)

lemma merge_catalogs_digest:
  "cat_digest (merge_catalogs h cs source) = digest h (JObj (repository_fields (merge_catalogs h cs source)))"
  unfolding merge_catalogs_def Let_def repository_fields_digest by simp

lemma build_repository_catalog_pinned: "build_repository_catalog cb snap = Inr c \<Longrightarrow> pinned cb c"
  unfolding build_repository_catalog_def Let_def pinned_def
  by (auto simp only: andthen_Inr_iff guarded_Inr not_less sum.inject merge_catalogs_digest)

text \<open>What a call that stored a snapshot went through.\<close>

lemma generate_InrD:
  assumes "generate deps req created_by audit_fields fx w = (Inr p, w')"
  obtains row event where "p = (row, [])" "sh_snapshot_id row = wx_workflow_id fx"
    "rw_store w' = (rw_store w)\<lparr>ad_snapshots := ad_snapshots (rw_store w) @ [row],
       ad_bank := (bank_of w)\<lparr>audit_events := audit_events (bank_of w) @ [event]\<rparr>\<rparr>"
    "au_action event = ''REPOSITORY_GRAPH_GENERATED''" "au_resource_id event = uuid_str (wx_workflow_id fx)"
    "well_typed_snapshot row" "\<not> known sh_snapshot_id (wx_workflow_id fx) (ad_snapshots (rw_store w))"
    "sh_graph_digest row = cat_digest (sh_graph row)" "pinned (rd_builders deps) (sh_graph row)"
    "from_mapping (qr_repository req) (qr_ref req) (qr_root_path req) (qr_language req) \<in>
       {s. \<exists>language. s = Inr \<lparr>rs_repository = sh_repository row, rs_ref = sh_requested_ref row,
          rs_root_path = sh_root_path row, rs_language = language\<rparr>}"
proof -
  let ?source = "from_mapping (qr_repository req) (qr_ref req) (qr_root_path req) (qr_language req)"
  let ?model = "\<lambda>c. generate_repository_narrative (rd_narrator deps) (rd_models_client deps) c (qr_send_to_mistral req)"
  have steps: "quiet (outcome x)" "quiet (on_github y)" "quiet (on_model z)" for x :: "failure + 'x" and y :: "(string list, failure, 'y) proc"
    and z :: "(json list, failure, 'z) proc" by simp_all
  from assms [unfolded generate_def Let_def run_then_Inr_iff]
  obtain source w1 snap w2 c w3 m w4 u w5 where
    s: "outcome ?source w = (Inr source, w1)" and f: "on_github (fetch (rd_github deps) source) w1 = (Inr snap, w2)"
    and b: "outcome (build_repository_catalog (rd_builders deps) snap) w2 = (Inr c, w3)" and m: "on_model (?model c) w3 = (Inr m, w4)"
    and v: "on_store (save_snapshot (new_snapshot fx source snap c m created_by) (snapshot_audit audit_fields (wx_workflow_id fx)
      (new_snapshot fx source snap c m created_by) m) (wx_audit fx)) w4 = (Inr u, w5)"
    and p: "p = (new_snapshot fx source snap c m created_by, [])" "w' = w5"
    unfolding returning_iff sum.inject by blast
  have w4: "rw_store w4 = rw_store w" "bank_of w4 = bank_of w"
    using quietD [OF steps(1) s] quietD [OF steps(2) f] quietD [OF steps(1) b] quietD [OF steps(3) m]
    by (simp_all add: bank_of_def)
  from s b have src: "?source = Inr source" and cat: "build_repository_catalog (rd_builders deps) snap = Inr c"
    by (simp_all add: outcome_def)
  let ?row = "new_snapshot fx source snap c m created_by"
  have row: "sh_snapshot_id ?row = wx_workflow_id fx" "sh_graph_digest ?row = cat_digest c" "sh_graph ?row = c"
    "source = \<lparr>rs_repository = sh_repository ?row, rs_ref = sh_requested_ref ?row, rs_root_path = sh_root_path ?row,
       rs_language = rs_language source\<rparr>"
    "aa_action (snapshot_audit audit_fields (wx_workflow_id fx) ?row m) = ''REPOSITORY_GRAPH_GENERATED''"
    "aa_resource_id (snapshot_audit audit_fields (wx_workflow_id fx) ?row m) = uuid_str (wx_workflow_id fx)"
    by (simp_all add: new_snapshot_def snapshot_audit_def)
  obtain event where e: "rw_store w5 = (rw_store w)\<lparr>ad_snapshots := ad_snapshots (rw_store w) @ [?row],
      ad_bank := (bank_of w)\<lparr>audit_events := audit_events (bank_of w) @ [event]\<rparr>\<rparr>"
    "au_action event = ''REPOSITORY_GRAPH_GENERATED''" "au_resource_id event = uuid_str (wx_workflow_id fx)"
    "well_typed_snapshot ?row" "\<not> known sh_snapshot_id (wx_workflow_id fx) (ad_snapshots (rw_store w))"
    using save_snapshot_InrD [OF v] unfolding w4 row(1,5,6) by blast
  have named: "?source \<in> {s. \<exists>language. s = Inr \<lparr>rs_repository = sh_repository ?row, rs_ref = sh_requested_ref ?row,
      rs_root_path = sh_root_path ?row, rs_language = language\<rparr>}"
    using src row(4) by (metis (mono_tags, lifting) mem_Collect_eq)
  show ?thesis
    using that [of ?row event] p e row build_repository_catalog_pinned [OF cat] named by simp
qed

text \<open>C32. A generated snapshot is stored whole or not at all: either every table is as it was, or exactly
  one row was added, well typed, under the new identifier, with the source the request named and a
  graph pinned by its SHA-256 digest and small enough, together with its audit record. Nothing is
  sent to the model unless the request asked for it.\<close>

theorem snapshots_are_whole:
  "case generate deps req created_by audit_fields fx w of (r, w') \<Rightarrow>
     (qr_send_to_mistral req \<or> rw_sent w' = rw_sent w) \<and>
     (case r of
        Inl _ \<Rightarrow> rw_store w' = rw_store w
      | Inr (row, flows) \<Rightarrow>
          flows = [] \<and> sh_snapshot_id row = wx_workflow_id fx \<and> well_typed_snapshot row \<and>
          \<not> known sh_snapshot_id (wx_workflow_id fx) (ad_snapshots (rw_store w)) \<and>
          sh_graph_digest row = cat_digest (sh_graph row) \<and> pinned (rd_builders deps) (sh_graph row) \<and>
          from_mapping (qr_repository req) (qr_ref req) (qr_root_path req) (qr_language req) \<in>
            {s. \<exists>language. s = Inr \<lparr>rs_repository = sh_repository row, rs_ref = sh_requested_ref row,
               rs_root_path = sh_root_path row, rs_language = language\<rparr>} \<and>
          (\<exists>event. au_action event = ''REPOSITORY_GRAPH_GENERATED'' \<and>
             au_resource_id event = uuid_str (sh_snapshot_id row) \<and>
             rw_store w' = (rw_store w)\<lparr>ad_snapshots := ad_snapshots (rw_store w) @ [row],
               ad_bank := (bank_of w)\<lparr>audit_events := audit_events (bank_of w) @ [event]\<rparr>\<rparr>))"
proof -
  obtain r w' where g: "generate deps req created_by audit_fields fx w = (r, w')" by (rule prod.exhaust)
  have kept: "rw_store w' = rw_store w" if "r = Inl e" for e
    using settlesD [OF generate_settles g] that by simp
  have sent: "qr_send_to_mistral req \<or> rw_sent w' = rw_sent w"
    using generate_mute [THEN muteD, OF _ g] by blast
  show ?thesis
  proof (cases r)
    case (Inl e)
    with kept sent g show ?thesis by simp
  next
    case (Inr p)
    obtain row event where row: "p = (row, [])" "sh_snapshot_id row = wx_workflow_id fx" and rest:
      "rw_store w' = (rw_store w)\<lparr>ad_snapshots := ad_snapshots (rw_store w) @ [row],
         ad_bank := (bank_of w)\<lparr>audit_events := audit_events (bank_of w) @ [event]\<rparr>\<rparr>"
      "au_action event = ''REPOSITORY_GRAPH_GENERATED''" "au_resource_id event = uuid_str (wx_workflow_id fx)"
      "well_typed_snapshot row" "\<not> known sh_snapshot_id (wx_workflow_id fx) (ad_snapshots (rw_store w))"
      "sh_graph_digest row = cat_digest (sh_graph row)" "pinned (rd_builders deps) (sh_graph row)"
      "from_mapping (qr_repository req) (qr_ref req) (qr_root_path req) (qr_language req) \<in>
         {s. \<exists>language. s = Inr \<lparr>rs_repository = sh_repository row, rs_ref = sh_requested_ref row,
            rs_root_path = sh_root_path row, rs_language = language\<rparr>}"
      using generate_InrD [OF g [unfolded Inr]] .
    show ?thesis unfolding g Inr row prod.case sum.case using rest sent by blast
  qed
qed

section \<open>Workflows over a snapshot\<close>

definition trimmed :: "string \<Rightarrow> bool" where
  "trimmed s \<longleftrightarrow> s = [] \<or> \<not> py_isspace (hd s) \<and> \<not> py_isspace (last s)"

lemma py_strip_trimmed: "trimmed s \<Longrightarrow> py_strip s = s"
proof -
  assume "trimmed s"
  then have "dropWhile py_isspace s = s" "dropWhile py_isspace (rev s) = rev s"
    by (cases s, auto simp: trimmed_def) (cases s rule: rev_cases, auto)
  then show ?thesis by (simp add: py_strip_def)
qed

lemma trimmed_py_strip: "trimmed (py_strip s)"
proof -
  let ?t = "dropWhile py_isspace s"
  show ?thesis
  proof (cases "dropWhile py_isspace (rev ?t)")
    case (Cons a r)
    have "rev ?t = takeWhile py_isspace (rev ?t) @ a # r" by (metis Cons takeWhile_dropWhile_id)
    then have "last (a # r) = hd ?t" by (metis last_appendR last_rev list.distinct(1))
    moreover have ne: "?t \<noteq> []" by (metis Cons dropWhile.simps(1) list.distinct(1) rev.simps(1))
    moreover have "\<not> py_isspace (hd ?t)" using hd_dropWhile [OF ne] .
    moreover have "\<not> py_isspace a" using Cons hd_dropWhile [of py_isspace "rev ?t"] by simp
    ultimately show ?thesis unfolding trimmed_def py_strip_def Cons by (metis hd_rev last_rev list.sel(1))
  qed (simp add: trimmed_def py_strip_def)
qed

definition upper_char :: "char \<Rightarrow> char" where
  "upper_char c = (if is_lower c then chr (ord c - 32) else c)"

lemma upper_char_facts: "py_isspace (upper_char c) = py_isspace c" "upper_char (upper_char c) = upper_char c"
proof -
  have "is_upper (upper_char c)" if "is_lower c"
    using that by (auto simp: upper_char_def is_lower_def is_upper_def ord_def chr_def)
  then consider "\<not> is_lower c" | "is_lower c" "is_upper (upper_char c)" by blast
  then have "py_isspace (upper_char c) = py_isspace c \<and> upper_char (upper_char c) = upper_char c"
  proof cases
    case 2
    then show ?thesis by (auto simp: py_isspace_def is_lower_def is_upper_def upper_char_def [of "upper_char c"])
  qed (simp add: upper_char_def)
  then show "py_isspace (upper_char c) = py_isspace c" "upper_char (upper_char c) = upper_char c" by blast+
qed

lemma py_upper_alt: "py_upper s = map upper_char s"
  by (simp add: py_upper_def upper_char_def)

lemma trimmed_py_upper: "trimmed s \<Longrightarrow> trimmed (py_upper s)"
  by (auto simp: trimmed_def py_upper_alt hd_map last_map upper_char_facts)

lemma py_upper_idem: "py_upper (py_upper s) = py_upper s"
  by (simp add: py_upper_alt upper_char_facts)

lemma normalized_idem: "normalized (normalized w) = normalized w"
  by (simp add: normalized_def py_strip_trimmed trimmed_py_strip trimmed_py_upper py_upper_idem comp_def)

lemma validate_repository_normalized: "validate_repository c (normalized w) = validate_repository c w"
  unfolding validate_repository_def Let_def normalized_idem ..

text \<open>A path through the pinned graph from an entry of its actor.\<close>

definition repository_path :: "repository_catalog \<Rightarrow> string \<Rightarrow> string list \<Rightarrow> bool" where
  "repository_path c role is \<longleftrightarrow> is \<noteq> [] \<and> set is \<subseteq> gn_id ` set (cat_nodes c) \<and>
     set (transitions is) \<subseteq> edges_of_types REPOSITORY_EDGE_TYPES (cat_edges c) \<and> role \<in> set (entry_roles c (hd is))"

lemma valid_repository_path:
  assumes "va_valid (validate_repository c w)"
  shows "repository_path c (wd_actor_role (normalized w)) (wd_node_ids (normalized w))"
proof -
  let ?n = "normalized w" and ?is = "wd_node_ids (normalized w)"
  from assms have v: "1 \<le> length ?is" "unknown_errors (cat_nodes c) ''Unknown repository graph node: '' ?is = []"
    "entry_errors c ?n = []" "transition_errors (cat_nodes c) (edges_of_types REPOSITORY_EDGE_TYPES (cat_edges c)) ?is = []"
    unfolding va_valid_def validate_repository_def Let_def validation.select_convs append_is_Nil_conv unless_Nil by blast+
  from v(2) have known: "node_of (cat_nodes c) i \<noteq> None" if "i \<in> set ?is" for i
    using that unfolding unknown_errors_Nil by blast
  then have "set ?is \<subseteq> gn_id ` set (cat_nodes c)" by (meson node_of_None subsetI)
  moreover have "set (transitions ?is) \<subseteq> edges_of_types REPOSITORY_EDGE_TYPES (cat_edges c)"
  proof (rule subrelI)
    fix x y assume "(x, y) \<in> set (transitions ?is)"
    with v(4) known transitions_ends [OF this] show "(x, y) \<in> edges_of_types REPOSITORY_EDGE_TYPES (cat_edges c)"
      unfolding transition_errors_Nil by blast
  qed
  moreover have "?is \<noteq> []" using v(1) by auto
  moreover have "wd_actor_role ?n \<in> set (entry_roles c (hd ?is))"
    using v(3) known [of "hd ?is"] \<open>?is \<noteq> []\<close> unfolding entry_errors_def by (cases ?is) auto
  ultimately show ?thesis unfolding repository_path_def by blast
qed

text \<open>C33. What is saved over a snapshot reads back as it was accepted: a workflow stored for a pinned graph
  is a path of that graph from an entry of its actor, and the view computed from its row when the
  snapshot is read again is the view that was answered, valid, current and free of errors, with the
  same documentation. A refused one leaves the tables as they were.\<close>

theorem snapshot_workflows_read_back:
  "case create_workflow snapshot_id definition created_by audit_fields fx a of
     (Inl _, a') \<Rightarrow> a' = a
   | (Inr v, a') \<Rightarrow> wv_row v \<in> set (ad_workflows a') \<and> wf_snapshot_id (wv_row v) = Some snapshot_id \<and>
       wv_valid v \<and> \<not> wv_stale v \<and> wv_errors v = [] \<and>
       (case snapshot_row_of snapshot_id a' of
          Inl _ \<Rightarrow> False
        | Inr row \<Rightarrow> repository_flow (sh_graph row) (sh_graph_digest row) (wv_row v) = v \<and>
            repository_path (sh_graph row) (wf_actor_role (wv_row v)) (wf_node_ids (wv_row v)))"
proof (cases "create_workflow snapshot_id definition created_by audit_fields fx a")
  case (Pair r a')
  show ?thesis
  proof (cases r)
    case (Inl e)
    with Pair show ?thesis
      by (auto simp: create_workflow_def Let_def dest!: in_transaction_rollback split: if_splits sum.splits)
  next
    case (Inr v)
    with Pair obtain row where row: "snapshot_row_of snapshot_id a = Inr row"
      by (auto simp: create_workflow_def split: sum.splits)
    let ?c = "sh_graph row" and ?w = "normalized definition"
    let ?row = "new_workflow fx ?w (sh_graph_digest row) (Some snapshot_id) created_by"
    have n: "va_normalized (validate_repository ?c definition) = ?w" by (simp add: validate_repository_def Let_def)
    from Pair Inr row obtain a1 args where s: "va_valid (validate_repository ?c definition)" "insert_workflow ?row a = Inr a1"
      "audit_beside args (wx_audit fx) a1 = Inr a'"
      "v = \<lparr>wv_row = ?row, wv_valid = True, wv_stale = False, wv_errors = [], wv_documentation = repository_documentation ?c True ?w\<rparr>"
      by (auto simp: create_workflow_def Let_def n dest!: in_transaction_commit elim!: andthen_InrE split: if_splits)
    have a1: "a1 = a\<lparr>ad_workflows := ad_workflows a @ [?row]\<rparr>" using insert_workflow_InrD [OF s(2)] by (rule conjunct1)
    have a': "ad_workflows a' = ad_workflows a @ [?row]" "ad_snapshots a' = ad_snapshots a"
      using audit_beside_frame [OF s(3)] by (auto simp: a1)
    have w: "definition_of ?row = ?w" by (simp add: definition_of_def new_workflow_def)
    have e: "va_errors (validate_repository ?c ?w) = []" "va_valid (validate_repository ?c ?w)"
      using s(1) by (simp_all add: validate_repository_normalized va_valid_def)
    have "repository_flow ?c (sh_graph_digest row) ?row = v"
      unfolding repository_flow_def Let_def w e s(4) using e by (simp add: new_workflow_def)
    moreover have "repository_path ?c (wf_actor_role ?row) (wf_node_ids ?row)"
      using valid_repository_path [OF s(1)] by (simp add: new_workflow_def)
    moreover have "snapshot_row_of snapshot_id a' = Inr row" using row a'(2) by (simp add: snapshot_row_of_def)
    moreover have "wf_snapshot_id ?row = Some snapshot_id" by (simp add: new_workflow_def)
    ultimately show ?thesis
      unfolding Pair Inr prod.case sum.case s(4) using a'(1) by simp
  qed
qed

end
