(* ===== verification/Ledger_Refinement.thy ===== *)
theory Ledger_Refinement
  imports Ledger_Facts
begin

text \<open>
  What a client may think the ledger is: a book of accounts with one balance each and the requests
  that were posted. \<open>create_transfer\<close>, with its locks, entries, events, audit trail and strong
  authentication, is shown to be an implementation of that book, transfer by transfer and so along
  every run; what holds of every run of the book holds of the bank.
\<close>

section \<open>The book\<close>

record book_account =
  bk_currency :: string
  bk_active :: bool
  bk_overdraft :: bool

record posting =
  po_user :: uuid
  po_key :: string
  po_source :: uuid
  po_destination :: uuid
  po_amount :: int
  po_currency :: string

record book =
  bk_accounts :: "uuid \<rightharpoonup> book_account"
  bk_balance :: "uuid \<rightharpoonup> int"
  bk_requests :: "uuid \<times> string \<rightharpoonup> posting"

definition may_use :: "book \<Rightarrow> string \<Rightarrow> uuid \<Rightarrow> bool" where
  "may_use b currency i =
     (case bk_accounts b i of None \<Rightarrow> False | Some a \<Rightarrow> bk_active a \<and> bk_currency a = currency)"

definition can_pay :: "book \<Rightarrow> uuid \<Rightarrow> int \<Rightarrow> bool" where
  "can_pay b i amount =
     (case (bk_accounts b i, bk_balance b i) of
        (Some a, Some balance) \<Rightarrow> bk_overdraft a \<or> amount \<le> balance
      | _ \<Rightarrow> False)"

definition may_post :: "posting \<Rightarrow> book \<Rightarrow> bool" where
  "may_post p b \<longleftrightarrow>
     po_source p \<noteq> po_destination p \<and> 0 < po_amount p \<and> bk_requests b (po_user p, po_key p) = None \<and>
     may_use b (po_currency p) (po_source p) \<and> may_use b (po_currency p) (po_destination p) \<and>
     can_pay b (po_source p) (po_amount p) \<and> bk_balance b (po_destination p) \<noteq> None"

text \<open>What a posting adds to the balance of an account.\<close>

definition effect :: "posting \<Rightarrow> uuid \<Rightarrow> int" where
  "effect p i = (if i = po_source p then - po_amount p else if i = po_destination p then po_amount p else 0)"

definition enter_posting :: "posting \<Rightarrow> book \<Rightarrow> book" where
  "enter_posting p b =
     b\<lparr>bk_balance := (\<lambda>i. map_option (\<lambda>x. x + effect p i) (bk_balance b i)),
       bk_requests := (bk_requests b)((po_user p, po_key p) \<mapsto> p)\<rparr>"

text \<open>What a client is told: that nothing happened, that an earlier request was found, or that the
  transfer was posted.\<close>

datatype book_answer = Refused | Found posting | Posted posting

inductive book_step :: "book \<Rightarrow> book_answer \<Rightarrow> book \<Rightarrow> bool" where
  refused: "book_step b Refused b"
| found: "bk_requests b (po_user p, po_key p) = Some p \<Longrightarrow> book_step b (Found p) b"
| posted: "may_post p b \<Longrightarrow> book_step b (Posted p) (enter_posting p b)"

inductive_cases book_step_cases: "book_step b x b'"

inductive_simps book_step_simps [simp]:
  "book_step b Refused b'" "book_step b (Found p) b'" "book_step b (Posted p) b'"

section \<open>Runs\<close>

text \<open>
  A system refines another when every step of the one, seen through the abstraction, is a step of the
  other with the same answer. Then so is every run.
\<close>

inductive run_of :: "('b \<Rightarrow> 'l \<Rightarrow> 'b \<Rightarrow> bool) \<Rightarrow> 'b \<Rightarrow> 'l list \<Rightarrow> 'b \<Rightarrow> bool" for step where
  no_steps: "run_of step b [] b"
| more_steps: "step b x b1 \<Longrightarrow> run_of step b1 xs b2 \<Longrightarrow> run_of step b (x # xs) b2"

lemma run_of_invariant:
  assumes "run_of step b xs b'" and "\<And>b x b'. step b x b' \<Longrightarrow> I b \<Longrightarrow> I b'" and "I b"
  shows "I b'"
  using assms(1,3) by (induction rule: run_of.induct) (auto intro: assms(2))

fun run_machine :: "('e \<Rightarrow> 's \<Rightarrow> 'l \<times> 's) \<Rightarrow> 'e list \<Rightarrow> 's \<Rightarrow> 'l list \<times> 's" where
  "run_machine m [] s = ([], s)"
| "run_machine m (e # es) s =
     (case m e s of (x, s1) \<Rightarrow> (case run_machine m es s1 of (xs, s2) \<Rightarrow> (x # xs, s2)))"

locale refinement =
  fixes machine :: "'e \<Rightarrow> 's \<Rightarrow> 'l \<times> 's"
    and inv :: "'s \<Rightarrow> bool"
    and abs :: "'s \<Rightarrow> 'b"
    and step :: "'b \<Rightarrow> 'l \<Rightarrow> 'b \<Rightarrow> bool"
  assumes machine_inv: "inv s \<Longrightarrow> machine e s = (x, s') \<Longrightarrow> inv s'"
    and simulates: "inv s \<Longrightarrow> machine e s = (x, s') \<Longrightarrow> step (abs s) x (abs s')"
begin

lemma run_refines: "inv s \<Longrightarrow> run_machine machine es s = (xs, s') \<Longrightarrow> run_of step (abs s) xs (abs s') \<and> inv s'"
proof (induction es arbitrary: s xs s')
  case Nil
  then show ?case by (simp add: no_steps)
next
  case (Cons e es)
  obtain x s1 where 1: "machine e s = (x, s1)" by fastforce
  obtain ys s2 where 2: "run_machine machine es s1 = (ys, s2)" by fastforce
  from Cons.prems(2) 1 2 have "xs = x # ys" "s2 = s'" by auto
  with Cons.IH [OF machine_inv [OF Cons.prems(1) 1] 2] simulates [OF Cons.prems(1) 1] show ?case
    by (auto intro: more_steps)
qed

end

section \<open>Every run of the book\<close>

definition answered_posting :: "book_answer \<Rightarrow> posting list" where
  "answered_posting x = (case x of Posted p \<Rightarrow> [p] | _ \<Rightarrow> [])"

definition answered_postings :: "book_answer list \<Rightarrow> posting list" where
  "answered_postings xs = concat (map answered_posting xs)"

text \<open>Balances are accounted for by the answers alone.\<close>

lemma book_run_balance:
  "run_of book_step b xs b' \<Longrightarrow>
     bk_balance b' i = map_option (\<lambda>x. x + (\<Sum>p \<leftarrow> answered_postings xs. effect p i)) (bk_balance b i)"
proof (induction rule: run_of.induct)
  case (no_steps b)
  then show ?case by (simp add: answered_postings_def map_option.identity)
next
  case (more_steps b x b1 xs b2)
  from more_steps.hyps(1) have
    "bk_balance b1 i = map_option (\<lambda>y. y + (\<Sum>p \<leftarrow> answered_posting x. effect p i)) (bk_balance b i)"
    by (cases rule: book_step_cases) (auto simp: answered_posting_def enter_posting_def map_option.identity)
  with more_steps.IH show ?case
    by (simp add: answered_postings_def option.map_comp comp_def add.assoc)
qed

text \<open>No account without an overdraft goes below zero, and an account is where it was.\<close>

definition solvent :: "book \<Rightarrow> bool" where
  "solvent b \<longleftrightarrow> (\<forall>i a x. bk_accounts b i = Some a \<and> bk_balance b i = Some x \<longrightarrow> bk_overdraft a \<or> 0 \<le> x)"

lemma solventD: "solvent b \<Longrightarrow> bk_accounts b i = Some a \<Longrightarrow> bk_balance b i = Some x \<Longrightarrow> bk_overdraft a \<or> 0 \<le> x"
  unfolding solvent_def by blast

lemma enter_posting_solvent:
  assumes "solvent b" and "may_post p b"
  shows "solvent (enter_posting p b)"
  unfolding solvent_def
proof (intro allI impI, elim conjE)
  fix i a x
  assume "bk_accounts (enter_posting p b) i = Some a" "bk_balance (enter_posting p b) i = Some x"
  then obtain y where a: "bk_accounts b i = Some a" "bk_balance b i = Some y" and x: "x = y + effect p i"
    by (auto simp: enter_posting_def)
  from solventD [OF assms(1) a] assms(2) a show "bk_overdraft a \<or> 0 \<le> x"
    by (auto simp: x effect_def may_post_def can_pay_def)
qed

lemma book_run_solvent: "run_of book_step b xs b' \<Longrightarrow> solvent b \<Longrightarrow> solvent b'"
  by (erule run_of_invariant [where I = solvent]) (auto elim!: book_step_cases intro: enter_posting_solvent)

text \<open>A request that is in the book stays in it, as it is.\<close>

lemma book_run_requests:
  assumes "run_of book_step b xs b'" and "bk_requests b k = Some p"
  shows "bk_requests b' k = Some p"
  using assms(1) _ assms(2)
  by (rule run_of_invariant) (auto elim!: book_step_cases simp: enter_posting_def may_post_def)

lemma book_run_posted:
  "run_of book_step b xs b' \<Longrightarrow> p \<in> set (answered_postings xs) \<Longrightarrow>
     bk_requests b (po_user p, po_key p) = None \<and> bk_requests b' (po_user p, po_key p) = Some p"
proof (induction rule: run_of.induct)
  case (more_steps b x b1 xs b2)
  from more_steps.prems consider "x = Posted p" | "p \<in> set (answered_postings xs)"
    by (auto simp: answered_postings_def answered_posting_def split: book_answer.splits)
  then show ?case
  proof cases
    case 1
    with more_steps.hyps(1) have "may_post p b" "bk_requests b1 (po_user p, po_key p) = Some p"
      by (auto simp: enter_posting_def)
    with book_run_requests [OF more_steps.hyps(2)] show ?thesis by (simp add: may_post_def)
  next
    case 2
    have "bk_requests b (po_user p, po_key p) = None" if "bk_requests b1 (po_user p, po_key p) = None"
      using more_steps.hyps(1) that by (cases rule: book_step_cases) (auto simp: enter_posting_def split: if_splits)
    with more_steps.IH [OF 2] show ?thesis by blast
  qed
qed (simp add: answered_postings_def)

lemma book_run_distinct:
  "run_of book_step b xs b' \<Longrightarrow> distinct (map (\<lambda>p. (po_user p, po_key p)) (answered_postings xs))"
proof (induction rule: run_of.induct)
  case (more_steps b x b1 xs b2)
  have "(po_user p, po_key p) \<noteq> (po_user q, po_key q)" if "x = Posted p" "q \<in> set (answered_postings xs)" for p q
    using book_run_posted [OF more_steps.hyps(2) that(2)] more_steps.hyps(1) that(1) by (auto simp: enter_posting_def)
  with more_steps.IH show ?case
    by (cases x) (auto simp: answered_postings_def answered_posting_def)
qed (simp add: answered_postings_def)

section \<open>The bank as a book\<close>

definition account_of :: "account_row \<Rightarrow> book_account" where
  "account_of a = \<lparr>bk_currency = ba_currency a, bk_active = (ba_status a = ACCOUNT_ACTIVE), bk_overdraft = ba_allow_negative a\<rparr>"

definition posting_of :: "transaction_row \<Rightarrow> posting" where
  "posting_of t =
     \<lparr>po_user = tx_initiated_by_user_id t, po_key = tx_idempotency_key t, po_source = tx_source_account_id t,
      po_destination = tx_destination_account_id t, po_amount = tx_amount_minor t, po_currency = tx_currency t\<rparr>"

definition book_of :: "db \<Rightarrow> book" where
  "book_of d =
     \<lparr>bk_accounts = (\<lambda>i. map_option account_of (row_get ba_account_id i (bank_accounts d))),
      bk_balance = (\<lambda>i. map_option ab_current_balance_minor (row_get ab_account_id i (account_balances d))),
      bk_requests = (\<lambda>(u, k). map_option posting_of (select_by_idempotency u k d))\<rparr>"

text \<open>The answer of the service, as its caller reads it.\<close>

definition view_posting :: "principal \<Rightarrow> transaction_view \<Rightarrow> posting" where
  "view_posting p v =
     \<lparr>po_user = pr_user_id p, po_key = tv_idempotency_key v, po_source = tv_source_account_id v,
      po_destination = tv_destination_account_id v, po_amount = tv_amount_minor v, po_currency = tv_currency v\<rparr>"

definition read_answer :: "principal \<Rightarrow> failure + transaction_view \<times> bool \<Rightarrow> book_answer" where
  "read_answer p r =
     (case r of
        Inl _ \<Rightarrow> Refused
      | Inr (v, replayed) \<Rightarrow> if replayed then Found (view_posting p v) else Posted (view_posting p v))"

definition bank_machine ::
  "(string \<Rightarrow> string \<Rightarrow> string) \<Rightarrow> sca_service \<Rightarrow> transfer_command \<times> transfer_fresh \<Rightarrow> db \<Rightarrow> book_answer \<times> db" where
  "bank_machine hmac svc e d =
     (case bank_transfer hmac svc (fst e) (snd e) d of (r, d') \<Rightarrow> (read_answer (tc_actor (fst e)) r, d'))"

lemma row_get_Some_iff:
  "distinct (map key rows) \<Longrightarrow> row_get key k rows = Some r \<longleftrightarrow> r \<in> set rows \<and> key r = k"
  using row_get_in row_get_SomeD by metis

lemma book_of_posted:
  assumes "select_by_idempotency (pr_user_id (tc_actor c)) (tc_idempotency_key c) d = None"
  shows "book_of (posted_db c fx row (d\<lparr>sca_challenges := cs\<rparr>)) = enter_posting (posting_of (new_transaction c fx)) (book_of d)"
proof -
  have move: "ab_current_balance_minor (move_balance c fx b) =
      ab_current_balance_minor b + effect (posting_of (new_transaction c fx)) (ab_account_id b)" for b
    by (simp add: move_balance_def effect_def posting_of_def new_transaction_def)
  have mark: "posting_of (mark_row r t) = posting_of t" for r t
    by (simp add: posting_of_def mark_row_def)
  have balances: "map_option ab_current_balance_minor (row_get ab_account_id i (map (move_balance c fx) bs)) =
      map_option (\<lambda>x. x + effect (posting_of (new_transaction c fx)) i) (map_option ab_current_balance_minor (row_get ab_account_id i bs))" for i bs
    by (cases "row_get ab_account_id i bs") (auto simp: row_get_map move dest: row_get_SomeD)
  have requests: "map_option posting_of (row_get (\<lambda>t. (tx_initiated_by_user_id t, tx_idempotency_key t)) k
      (map (mark_row r) (transactions d @ [new_transaction c fx]))) =
      ((\<lambda>(u, k). map_option posting_of (select_by_idempotency u k d))((pr_user_id (tc_actor c), tc_idempotency_key c)
         \<mapsto> posting_of (new_transaction c fx))) k" for k r
    using assms by (cases k) (auto simp: row_get_map row_get_append row_get_Cons select_by_idempotency_def mark comp_def
      new_transaction_def option.map_comp split: option.splits simp del: map_append)
  let ?d = "posted_db c fx row (d\<lparr>sca_challenges := cs\<rparr>)" and ?p = "posting_of (new_transaction c fx)"
  have "bk_requests (book_of ?d) k = ((bk_requests (book_of d))((po_user ?p, po_key ?p) \<mapsto> ?p)) k" for k
  proof -
    have "bk_requests (book_of ?d) k = map_option posting_of (row_get (\<lambda>t. (tx_initiated_by_user_id t, tx_idempotency_key t)) k
        (map (mark_row (tc_reverses_transaction_id c)) (transactions d @ [new_transaction c fx])))"
      by (cases k) (simp add: book_of_def select_by_idempotency_def posted_db_def del: map_append)
    moreover have "(po_user ?p, po_key ?p) = (pr_user_id (tc_actor c), tc_idempotency_key c)"
      by (simp add: posting_of_def new_transaction_def)
    ultimately show ?thesis unfolding requests by (simp add: book_of_def)
  qed
  then have "bk_requests (book_of ?d) = (bk_requests (book_of d))((po_user ?p, po_key ?p) \<mapsto> ?p)" by (rule ext)
  moreover have "bk_balance (book_of ?d) = (\<lambda>i. map_option (\<lambda>x. x + effect ?p i) (bk_balance (book_of d) i))"
    unfolding book_of_def book.select_convs posted_db_def by (simp add: balances)
  moreover have "bk_accounts (book_of ?d) = bk_accounts (book_of d)" by (simp add: book_of_def)
  ultimately show ?thesis by (intro book.equality) (simp_all add: enter_posting_def)
qed

text \<open>What a posting checked is what the book asks for.\<close>

lemma posted_may_post:
  assumes inv: "ledger_inv d" and run: "bank_transfer hmac svc command fx d = (Inr (v, False), d')"
  shows "may_post (view_posting (tc_actor command) v) (book_of d) \<and>
    book_of d' = enter_posting (view_posting (tc_actor command) v) (book_of d)"
proof -
  from posted_transfer_facts [OF inv run] obtain c sa sb da cs row where c: "normalise command = Inr c" "v = posted_view c fx"
    and new: "select_by_idempotency (pr_user_id (tc_actor c)) (tc_idempotency_key c) d = None"
    and rows: "sa \<in> set (bank_accounts d)" "sb \<in> set (account_balances d)"
      "ba_account_id sa = tc_source_account_id c" "ab_account_id sb = tc_source_account_id c"
      "da \<in> set (bank_accounts d)" "ba_account_id da = tc_destination_account_id c"
      "known ab_account_id (tc_destination_account_id c) (account_balances d)"
    and checked: "ba_status sa = ACCOUNT_ACTIVE" "ba_status da = ACCOUNT_ACTIVE"
      "ba_currency sa = tc_currency c" "ba_currency da = tc_currency c"
      "ba_allow_negative sa \<or> tc_amount_minor c \<le> ab_available_balance_minor sb"
    and d': "d' = posted_db c fx row (d\<lparr>sca_challenges := cs\<rparr>)" by metis
  have p: "view_posting (tc_actor command) v = posting_of (new_transaction c fx)"
    using normalise_InrD [OF c(1)] by (simp add: view_posting_def posting_of_def new_transaction_def c(2) posted_view_def)
  have dist: "distinct (map ba_account_id (bank_accounts d))" "distinct (map ab_account_id (account_balances d))"
    using inv by (simp_all add: ledger_inv_def keys_ok_def)
  have get: "row_get ba_account_id (tc_source_account_id c) (bank_accounts d) = Some sa"
    "row_get ba_account_id (tc_destination_account_id c) (bank_accounts d) = Some da"
    "row_get ab_account_id (tc_source_account_id c) (account_balances d) = Some sb"
    using rows by (simp_all add: row_get_Some_iff dist)
  have "row_get ab_account_id (tc_destination_account_id c) (account_balances d) \<noteq> None"
    using rows(7) by (simp add: row_get_None_known)
  moreover have "ab_available_balance_minor sb = ab_current_balance_minor sb"
    using inv rows(2) by (simp add: ledger_inv_def balances_ok_def balance_ok_def)
  ultimately have "may_post (posting_of (new_transaction c fx)) (book_of d)"
    using normalise_InrD [OF c(1)] new checked get
    by (auto simp: may_post_def may_use_def can_pay_def book_of_def posting_of_def new_transaction_def account_of_def)
  with book_of_posted [OF new] show ?thesis unfolding p d' by blast
qed

lemma bank_simulates_book:
  assumes inv: "ledger_inv d" and run: "bank_machine hmac svc e d = (x, d')"
  shows "book_step (book_of d) x (book_of d')"
proof -
  obtain r where r: "bank_transfer hmac svc (fst e) (snd e) d = (r, d')" "x = read_answer (tc_actor (fst e)) r"
    using run by (auto simp: bank_machine_def split: prod.splits)
  from sca.create_transfer_cases [OF r(1)] consider (fails) err where "r = Inl err" "d' = d"
    | (replays) c t where "normalise (fst e) = Inr c" "r = Inr (transaction_payload t, True)" "d' = d"
        "select_by_idempotency (pr_user_id (tc_actor c)) (tc_idempotency_key c) d = Some t"
    | (posts) v where "r = Inr (v, False)" by blast
  then show ?thesis
  proof cases
    case fails
    then show ?thesis by (simp add: r(2) read_answer_def)
  next
    case replays
    have key: "tx_initiated_by_user_id t = pr_user_id (tc_actor (fst e))"
      using row_get_SomeD [OF replays(4) [unfolded select_by_idempotency_def]] normalise_InrD [OF replays(1)] by simp
    then have "view_posting (tc_actor (fst e)) (transaction_payload t) = posting_of t"
      by (simp add: view_posting_def posting_of_def transaction_payload_def)
    moreover have "bk_requests (book_of d) (po_user (posting_of t), po_key (posting_of t)) = Some (posting_of t)"
      using replays(4) row_get_SomeD [OF replays(4) [unfolded select_by_idempotency_def]]
      by (simp add: book_of_def posting_of_def)
    ultimately show ?thesis by (simp add: r(2) read_answer_def replays(2,3))
  next
    case posts
    from posted_may_post [OF inv r(1) [unfolded posts]] show ?thesis by (simp add: r(2) read_answer_def posts)
  qed
qed

interpretation book: refinement "bank_machine hmac svc" ledger_inv book_of book_step for hmac svc
proof unfold_locales
  fix d e x d'
  assume "ledger_inv d" and run: "bank_machine hmac svc e d = (x, d')"
  then show "book_step (book_of d) x (book_of d')" by (rule bank_simulates_book)
  from run have "d' = snd (bank_transfer hmac svc (fst e) (snd e) d)" by (auto simp: bank_machine_def split: prod.splits)
  with \<open>ledger_inv d\<close> show "ledger_inv d'" by (simp add: sca.create_transfer_inv)
qed

lemma book_of_solvent:
  assumes inv: "ledger_inv d"
  shows "solvent (book_of d)"
  unfolding solvent_def
proof (intro allI impI, elim conjE)
  fix i a x
  assume "bk_accounts (book_of d) i = Some a" "bk_balance (book_of d) i = Some x"
  then obtain r b where r: "row_get ba_account_id i (bank_accounts d) = Some r" "a = account_of r"
    and b: "row_get ab_account_id i (account_balances d) = Some b" "x = ab_current_balance_minor b"
    by (auto simp: book_of_def)
  from inv row_get_SomeD [OF b(1)] r(1) have "ba_allow_negative r \<or> 0 \<le> ab_current_balance_minor b"
    by (auto simp: ledger_inv_def balances_ok_def balance_ok_alt)
  then show "bk_overdraft a \<or> 0 \<le> x" by (simp add: r(2) b(2) account_of_def)
qed

text \<open>C5. The transfer service implements the book: along every run of transfers of a bank in order, its
  answers are those of a run of the book from the bank's own accounts, balances and recorded
  requests, every transfer posting only what the book admits. So, whatever fails or is repeated in
  between, each balance is the earlier one plus the postings that were answered as new; each request
  of a user posts at most once; and no account without an overdraft is below zero.\<close>

theorem ledger_refines_book:
  assumes "ledger_inv d" and "run_machine (bank_machine hmac svc) es d = (answers, d')"
  shows "run_of book_step (book_of d) answers (book_of d') \<and>
    (\<forall>i. bk_balance (book_of d') i =
       map_option (\<lambda>x. x + (\<Sum>p \<leftarrow> answered_postings answers. effect p i)) (bk_balance (book_of d) i)) \<and>
    distinct (map (\<lambda>p. (po_user p, po_key p)) (answered_postings answers)) \<and>
    solvent (book_of d')"
proof -
  have run: "run_of book_step (book_of d) answers (book_of d')" using book.run_refines [OF assms] by blast
  show ?thesis
    using run book_run_balance [OF run] book_run_distinct [OF run] book_run_solvent [OF run book_of_solvent [OF assms(1)]] by blast
qed

text \<open>A deposit and a payment from it.\<close>

theorem ledger_refines_book_witness:
  "\<exists>p q. run_machine (bank_machine demo_hmac demo_sca)
      [(demo_deposit, demo_fresh 100 5), (demo_payment, demo_fresh 200 6)] demo_db = ([Posted p, Posted q], demo_paid) \<and>
    (po_amount p, po_amount q) = (120000, 40000) \<and>
    run_of book_step (book_of demo_db) [Posted p, Posted q] (book_of demo_paid) \<and> solvent (book_of demo_paid)"
proof -
  let ?p = "view_posting (tc_actor demo_deposit) (posted_view demo_deposit_n (demo_fresh 100 5))"
  let ?q = "view_posting (tc_actor demo_payment) (posted_view demo_payment_n (demo_fresh 200 6))"
  obtain d1 where 1: "demo_transfer demo_deposit (demo_fresh 100 5) demo_db = (Inr (posted_view demo_deposit_n (demo_fresh 100 5), False), d1)"
    using demo_deposit_run by blast
  then have d1: "d1 = demo_funded" by (simp add: demo_funded_def)
  obtain d2 where 2: "demo_transfer demo_payment (demo_fresh 200 6) demo_funded = (Inr (posted_view demo_payment_n (demo_fresh 200 6), False), d2)"
    using demo_payment_run by blast
  then have d2: "d2 = demo_paid" by (simp add: demo_paid_def)
  have run: "run_machine (bank_machine demo_hmac demo_sca)
      [(demo_deposit, demo_fresh 100 5), (demo_payment, demo_fresh 200 6)] demo_db = ([Posted ?p, Posted ?q], demo_paid)"
    using 1 2 by (simp add: bank_machine_def d1 d2 read_answer_def)
  have "(po_amount ?p, po_amount ?q) = (120000, 40000)"
    by (simp add: view_posting_def posted_view_def demo_deposit_n_def demo_payment_n_def demo_deposit_def demo_payment_def demo_command_def)
  with ledger_refines_book [OF demo_db_inv run] run show ?thesis by blast
qed

end
