(* ===== verification/Financials.thy ===== *)
theory Financials
  imports Complex_Main Store
begin

text \<open>
  The company financial profile of \<open>bantam/financials.py\<close>: its sections with the bounds of their
  fields, the coherence of the whole, the digest, and the named values a model may cite. A Python
  float is a real number here: rounding is not modelled. Decoding a document into the typed sections
  and writing it as canonical JSON text are functions of the record \<open>profile_library\<close>.
\<close>

section \<open>The profile\<close>

record income_statement =
  ic_annual_revenue_gbp :: real
  ic_net_income_gbp :: real
  ic_operating_expenses_gbp :: real

record balance_sheet =
  bs_total_assets_gbp :: real
  bs_customer_deposits_gbp :: real
  bs_shareholder_equity_gbp :: real
  bs_liquid_reserves_gbp :: real

record operating_profile =
  op_active_customers :: int
  op_daily_payment_volume_gbp :: real
  op_average_payment_gbp :: real
  op_employees :: int

record risk_appetite =
  ra_impact_tolerance_gbp :: real
  ra_maximum_credible_single_loss_gbp :: real
  ra_annual_security_budget_gbp :: real
  ra_cost_of_capital_pct :: real

record insurance_programme =
  ip_cyber_cover_gbp :: real
  ip_retention_gbp :: real

record regulatory_context =
  rg_regime :: string
  rg_maximum_penalty_pct_of_revenue :: real
  rg_notification_window_hours :: int

record company_profile =
  cp_schema_version :: string
  cp_legal_entity :: string
  cp_reporting_currency :: string
  cp_fiscal_year :: int
  cp_statement_of_scope :: string
  cp_income :: income_statement
  cp_balance_sheet :: balance_sheet
  cp_operations :: operating_profile
  cp_risk_appetite :: risk_appetite
  cp_insurance :: insurance_programme
  cp_regulatory :: regulatory_context
  cp_notes :: "string list"

section \<open>Bounds of the fields\<close>

definition money :: "real \<Rightarrow> bool" where
  "money x \<longleftrightarrow> 0 \<le> x \<and> x \<le> 1000000000000"

definition valid_income :: "income_statement \<Rightarrow> bool" where
  "valid_income s \<longleftrightarrow> money (ic_annual_revenue_gbp s) \<and>
     -1000000000000 \<le> ic_net_income_gbp s \<and> ic_net_income_gbp s \<le> 1000000000000 \<and> money (ic_operating_expenses_gbp s)"

definition valid_balance_sheet :: "balance_sheet \<Rightarrow> bool" where
  "valid_balance_sheet s \<longleftrightarrow> money (bs_total_assets_gbp s) \<and> money (bs_customer_deposits_gbp s) \<and>
     money (bs_shareholder_equity_gbp s) \<and> money (bs_liquid_reserves_gbp s)"

definition valid_operations :: "operating_profile \<Rightarrow> bool" where
  "valid_operations s \<longleftrightarrow> 0 \<le> op_active_customers s \<and> op_active_customers s \<le> 1000000000 \<and>
     money (op_daily_payment_volume_gbp s) \<and> money (op_average_payment_gbp s) \<and>
     0 \<le> op_employees s \<and> op_employees s \<le> 1000000"

definition valid_appetite :: "risk_appetite \<Rightarrow> bool" where
  "valid_appetite s \<longleftrightarrow> 0 < ra_impact_tolerance_gbp s \<and> ra_impact_tolerance_gbp s \<le> 1000000000000 \<and>
     0 < ra_maximum_credible_single_loss_gbp s \<and> ra_maximum_credible_single_loss_gbp s \<le> 1000000000000 \<and>
     money (ra_annual_security_budget_gbp s) \<and> 0 \<le> ra_cost_of_capital_pct s \<and> ra_cost_of_capital_pct s \<le> 100"

definition valid_insurance :: "insurance_programme \<Rightarrow> bool" where
  "valid_insurance s \<longleftrightarrow> money (ip_cyber_cover_gbp s) \<and> money (ip_retention_gbp s)"

definition valid_regulatory :: "regulatory_context \<Rightarrow> bool" where
  "valid_regulatory s \<longleftrightarrow> length_in 2 200 (rg_regime s) \<and>
     0 \<le> rg_maximum_penalty_pct_of_revenue s \<and> rg_maximum_penalty_pct_of_revenue s \<le> 100 \<and>
     1 \<le> rg_notification_window_hours s \<and> rg_notification_window_hours s \<le> 8760"

definition coherent :: "company_profile \<Rightarrow> bool" where
  "coherent p \<longleftrightarrow>
     \<not> ra_impact_tolerance_gbp (cp_risk_appetite p) > ra_maximum_credible_single_loss_gbp (cp_risk_appetite p) \<and>
     \<not> ip_retention_gbp (cp_insurance p) > ip_cyber_cover_gbp (cp_insurance p) \<and>
     \<not> bs_shareholder_equity_gbp (cp_balance_sheet p) > bs_total_assets_gbp (cp_balance_sheet p) \<and>
     list_all (length_in 4 400) (cp_notes p)"

definition valid_profile :: "company_profile \<Rightarrow> bool" where
  "valid_profile p \<longleftrightarrow>
     cp_schema_version p = ''1.0'' \<and> length_in 2 200 (cp_legal_entity p) \<and> cp_reporting_currency p = ''GBP'' \<and>
     2000 \<le> cp_fiscal_year p \<and> cp_fiscal_year p \<le> 2100 \<and> length_in 20 1000 (cp_statement_of_scope p) \<and>
     valid_income (cp_income p) \<and> valid_balance_sheet (cp_balance_sheet p) \<and> valid_operations (cp_operations p) \<and>
     valid_appetite (cp_risk_appetite p) \<and> valid_insurance (cp_insurance p) \<and> valid_regulatory (cp_regulatory p) \<and>
     length (cp_notes p) \<le> 10 \<and> coherent p"

section \<open>Parsing and citing\<close>

record profile_library =
  pl_decode :: "string \<Rightarrow> company_profile option"
  pl_problem :: "string \<Rightarrow> string"
  pl_canonical_json :: "company_profile \<Rightarrow> string"
  pl_sha256_hex :: "string \<Rightarrow> string"

definition profile_digest :: "profile_library \<Rightarrow> company_profile \<Rightarrow> string" where
  "profile_digest lib p = pl_sha256_hex lib (pl_canonical_json lib p)"

definition parse_profile :: "profile_library \<Rightarrow> string \<Rightarrow> failure + company_profile" where
  "parse_profile lib document =
     (case pl_decode lib document of
        Some p \<Rightarrow> if valid_profile p then Inr p
          else Inl (bantam ''INVALID_FINANCIAL_PROFILE'' (pl_problem lib document) 422)
      | None \<Rightarrow> Inl (bantam ''INVALID_FINANCIAL_PROFILE'' (pl_problem lib document) 422))"

text \<open>The file of the package: \<open>None\<close> when it cannot be read or is no JSON.\<close>

definition load_default_profile :: "profile_library \<Rightarrow> string option \<Rightarrow> failure + company_profile" where
  "load_default_profile lib file =
     (case file of
        None \<Rightarrow> Inl (bantam ''FINANCIAL_PROFILE_UNAVAILABLE''
          ''the default company financial profile could not be read'' 500)
      | Some document \<Rightarrow> parse_profile lib document)"

definition financial_inputs :: "company_profile \<Rightarrow> (string \<times> real) list" where
  "financial_inputs p =
     [(''income.annual_revenue_gbp'', ic_annual_revenue_gbp (cp_income p)),
      (''income.net_income_gbp'', ic_net_income_gbp (cp_income p)),
      (''income.operating_expenses_gbp'', ic_operating_expenses_gbp (cp_income p)),
      (''balance_sheet.total_assets_gbp'', bs_total_assets_gbp (cp_balance_sheet p)),
      (''balance_sheet.customer_deposits_gbp'', bs_customer_deposits_gbp (cp_balance_sheet p)),
      (''balance_sheet.shareholder_equity_gbp'', bs_shareholder_equity_gbp (cp_balance_sheet p)),
      (''balance_sheet.liquid_reserves_gbp'', bs_liquid_reserves_gbp (cp_balance_sheet p)),
      (''operations.active_customers'', of_int (op_active_customers (cp_operations p))),
      (''operations.daily_payment_volume_gbp'', op_daily_payment_volume_gbp (cp_operations p)),
      (''operations.average_payment_gbp'', op_average_payment_gbp (cp_operations p)),
      (''operations.employees'', of_int (op_employees (cp_operations p))),
      (''risk_appetite.impact_tolerance_gbp'', ra_impact_tolerance_gbp (cp_risk_appetite p)),
      (''risk_appetite.maximum_credible_single_loss_gbp'', ra_maximum_credible_single_loss_gbp (cp_risk_appetite p)),
      (''risk_appetite.annual_security_budget_gbp'', ra_annual_security_budget_gbp (cp_risk_appetite p)),
      (''risk_appetite.cost_of_capital_pct'', ra_cost_of_capital_pct (cp_risk_appetite p)),
      (''insurance.cyber_cover_gbp'', ip_cyber_cover_gbp (cp_insurance p)),
      (''insurance.retention_gbp'', ip_retention_gbp (cp_insurance p)),
      (''regulatory.maximum_penalty_pct_of_revenue'', rg_maximum_penalty_pct_of_revenue (cp_regulatory p)),
      (''regulatory.notification_window_hours'', of_int (rg_notification_window_hours (cp_regulatory p)))]"

definition FINANCIAL_INPUT_NAMES :: "string list" where
  "FINANCIAL_INPUT_NAMES =
     [''income.annual_revenue_gbp'', ''income.net_income_gbp'', ''income.operating_expenses_gbp'',
      ''balance_sheet.total_assets_gbp'', ''balance_sheet.customer_deposits_gbp'',
      ''balance_sheet.shareholder_equity_gbp'', ''balance_sheet.liquid_reserves_gbp'',
      ''operations.active_customers'', ''operations.daily_payment_volume_gbp'', ''operations.average_payment_gbp'',
      ''operations.employees'', ''risk_appetite.impact_tolerance_gbp'',
      ''risk_appetite.maximum_credible_single_loss_gbp'', ''risk_appetite.annual_security_budget_gbp'',
      ''risk_appetite.cost_of_capital_pct'', ''insurance.cyber_cover_gbp'', ''insurance.retention_gbp'',
      ''regulatory.maximum_penalty_pct_of_revenue'', ''regulatory.notification_window_hours'']"

lemma financial_inputs_names: "map fst (financial_inputs p) = FINANCIAL_INPUT_NAMES"
  unfolding financial_inputs_def FINANCIAL_INPUT_NAMES_def list.map fst_conv ..

lemma parse_profile_InrD: "parse_profile lib document = Inr p \<Longrightarrow> valid_profile p"
  by (simp add: parse_profile_def split: option.splits if_splits)

end
