(* ===== verification/Attack_Scenario.thy ===== *)
theory Attack_Scenario
  imports Financials Narrative
begin

text \<open>
  The attack scenarios of \<open>bantam/attack_simulation.py\<close>: the software inventory derived from a
  graph, the schemas of a scenario set and a remediation plan with the bounds of their fields, and
  the checks that admit what a language model returned. The texts of the prompts and the decoding of
  answers are functions of the record \<open>lab_library\<close>.
\<close>

definition MIN_SCENARIOS :: int where "MIN_SCENARIOS = 2"
definition MAX_SCENARIOS :: int where "MAX_SCENARIOS = 5"
definition MITRE_TECHNIQUE_URL :: string where "MITRE_TECHNIQUE_URL = ''https://attack.mitre.org/techniques/''"
definition MITRE_MITIGATION_URL :: string where "MITRE_MITIGATION_URL = ''https://attack.mitre.org/mitigations/''"

definition ATTACK_TACTICS :: "string list" where
  "ATTACK_TACTICS = [''Reconnaissance'', ''Resource Development'', ''Initial Access'', ''Execution'', ''Persistence'',
     ''Privilege Escalation'', ''Defense Evasion'', ''Credential Access'', ''Discovery'', ''Lateral Movement'',
     ''Collection'', ''Command and Control'', ''Exfiltration'', ''Impact'']"

section \<open>The software inventory\<close>

record component =
  co_component_id :: string
  co_name :: string
  co_category :: string
  co_detection_rule :: string
  co_detail :: string
  co_evidence_node_ids :: "string list"
  co_evidence_count :: nat

record inventory =
  iv_graph_digest :: string
  iv_components :: "component list"
  iv_busiest_modules :: "(string \<times> nat) list"

definition component :: "string \<Rightarrow> string \<Rightarrow> string \<Rightarrow> string \<Rightarrow> string \<Rightarrow> string list \<Rightarrow> component" where
  "component component_id name category detection_rule detail evidence =
     \<lparr>co_component_id = component_id, co_name = name, co_category = category, co_detection_rule = detection_rule,
      co_detail = detail, co_evidence_node_ids = take 4 (sort evidence), co_evidence_count = length evidence\<rparr>"

definition of_kind :: "string \<Rightarrow> gnode list \<Rightarrow> gnode list" where
  "of_kind kind = filter (\<lambda>n. gn_kind n = kind)"

text \<open>The strings of the field \<open>tables\<close>.\<close>

definition tables_of :: "gnode \<Rightarrow> string list" where
  "tables_of n =
     (case map_of (gn_fields n) ''tables'' of
        Some (JList xs) \<Rightarrow> concat (map (\<lambda>x. case x of JStr s \<Rightarrow> [s] | _ \<Rightarrow> []) xs)
      | _ \<Rightarrow> [])"

definition event_table :: "string \<Rightarrow> bool" where
  "event_table t \<longleftrightarrow> py_contains (py_casefold t) ''outbox'' \<or> py_contains (py_casefold t) ''event''"

definition provider_of :: "gnode \<Rightarrow> string" where
  "provider_of n = hd (py_split (CHR ''_'') (text_field n ''resource_type''))"

definition terraform_nodes :: "gnode list \<Rightarrow> gnode list" where
  "terraform_nodes = filter (\<lambda>n. py_startswith (gn_kind n) ''terraform_'' \<and> text_field n ''resource_type'' \<noteq> [])"

definition component_if :: "bool \<Rightarrow> component \<Rightarrow> component list" where
  "component_if b c = (if b then [c] else [])"

definition http_component :: "gnode list \<Rightarrow> component list" where
  "http_component nodes =
     (let routes = of_kind ''route'' nodes;
          methods = sort (remdups (filter (\<lambda>m. m \<noteq> []) (map (\<lambda>n. text_field n ''method'') routes))) in
      component_if (routes \<noteq> []) (component ''software:http-api'' ''HTTP API surface'' ''application''
        ''routed request handlers extracted from decorated Python functions''
        (nat_str (length routes) @ '' routes across '' @ nat_str (length methods) @ '' methods ('' @ py_join '', '' methods @ '')'')
        (map gn_id routes)))"

definition data_nodes :: "gnode list \<Rightarrow> gnode list" where
  "data_nodes nodes = of_kind ''query'' nodes @ of_kind ''lock'' nodes @ of_kind ''effect'' nodes"

definition database_component :: "gnode list \<Rightarrow> component list" where
  "database_component nodes =
     (let data = data_nodes nodes; constraints = of_kind ''constraint'' nodes;
          tables = remdups (concat (map tables_of data)) in
      component_if (data \<noteq> [] \<or> constraints \<noteq> []) (component ''software:postgresql''
        ''PostgreSQL relational database'' ''datastore''
        ''parameterised SQL operations and database constraints in the graph''
        (nat_str (length data) @ '' operations over '' @ nat_str (length tables) @ '' tables, '' @
         nat_str (length constraints) @ '' database-enforced constraints'')
        (map gn_id (data @ constraints))))"

definition transaction_component :: "gnode list \<Rightarrow> component list" where
  "transaction_component nodes =
     (let transactions = of_kind ''transaction'' nodes in
      component_if (transactions \<noteq> []) (component ''software:transactional-boundary''
        ''Database transaction boundaries'' ''datastore'' ''explicit transaction blocks wrapping durable operations''
        (nat_str (length transactions) @ '' transaction boundaries'') (map gn_id transactions)))"

definition messaging_component :: "gnode list \<Rightarrow> component list" where
  "messaging_component nodes =
     (let messaging = filter (\<lambda>n. list_ex event_table (tables_of n)) (data_nodes nodes) in
      component_if (messaging \<noteq> []) (component ''software:event-publication'' ''Durable event publication'' ''messaging''
        ''durable writes to outbox or event tables'' (nat_str (length messaging) @ '' event-table operations'')
        (map gn_id messaging)))"

definition guard_component :: "gnode list \<Rightarrow> component list" where
  "guard_component nodes =
     (let guards = of_kind ''check'' nodes in
      component_if (guards \<noteq> []) (component ''software:authorization-guards''
        ''In-process authorization and validation guards'' ''security-control''
        ''conditional guards extracted from service and route functions''
        (nat_str (length guards) @ '' guard conditions'') (map gn_id guards)))"

text \<open>The evidence of a provider is sorted and counted, so the order the kinds are visited in does not
  matter.\<close>

definition provider_components :: "gnode list \<Rightarrow> component list" where
  "provider_components nodes =
     (let blocks = terraform_nodes nodes in
      map (\<lambda>provider.
        let evidence = map gn_id (filter (\<lambda>n. provider_of n = provider) blocks) in
        component (''software:terraform-provider-'' @ provider) (''Terraform provider: '' @ provider) ''infrastructure''
          ''resource and data block type prefixes in Terraform sources''
          (nat_str (length evidence) @ '' managed blocks'') evidence)
      (sort (remdups (map provider_of blocks))))"

text \<open>The twelve files with most nodes, ties by name.\<close>

definition busiest_modules :: "gnode list \<Rightarrow> (string \<times> nat) list" where
  "busiest_modules nodes =
     (let files = filter (\<lambda>f. f \<noteq> []) (map (\<lambda>n. text_field n ''file'') nodes);
          counts = map (\<lambda>f. (f, count_list files f)) (sort (remdups files)) in
      take 12 (sort_key (\<lambda>(_, k). - int k) counts))"

definition build_software_inventory :: "'a catalog_scheme \<Rightarrow> inventory" where
  "build_software_inventory c =
     (let nodes = cat_nodes c in
      \<lparr>iv_graph_digest = cat_digest c,
       iv_components = http_component nodes @ database_component nodes @ transaction_component nodes @
         messaging_component nodes @ guard_component nodes @ provider_components nodes,
       iv_busiest_modules = busiest_modules nodes\<rparr>)"

section \<open>Scenarios\<close>

record loss_range =
  lr_minimum_gbp :: real
  lr_most_likely_gbp :: real
  lr_maximum_gbp :: real

text \<open>The link is attached by Bantam, never by the model.\<close>

record mitre_technique =
  mt_technique_id :: string
  mt_name :: string
  mt_tactic :: string
  mt_url :: "string option"

record scenario_node = attack_node +
  sn_mitre_technique_ids :: "string list"
  sn_success_probability :: real
  sn_detection_probability :: real

record scenario_tree =
  st_title :: string
  st_root_attack_node_id :: string
  st_nodes :: "scenario_node list"
  st_edges :: "attack_edge list"
  st_assumptions :: "string list"
  st_limitations :: "string list"

record financial_estimate =
  fe_annual_attempt_frequency :: real
  fe_primary_loss :: loss_range
  fe_secondary_loss :: loss_range
  fe_detected_loss_multiplier :: real
  fe_rationale :: string
  fe_financial_inputs_used :: "string list"

record scenario =
  sc_scenario_id :: string
  sc_name :: string
  sc_business_service :: string
  sc_narrative :: string
  sc_mitre_techniques :: "mitre_technique list"
  sc_attack_tree :: scenario_tree
  sc_financials :: financial_estimate

record scenario_set =
  ss_schema_version :: string
  ss_summary :: string
  ss_scenarios :: "scenario list"
  ss_assumptions :: "string list"
  ss_limitations :: "string list"

datatype effort = DAYS | WEEKS | MONTHS
datatype priority = PRIORITY_IMMEDIATE | PRIORITY_HIGH | PRIORITY_MEDIUM | PRIORITY_LOW

record remediation =
  rm_remediation_id :: string
  rm_title :: string
  rm_description :: string
  rm_mitre_mitigation_ids :: "string list"
  rm_target_attack_node_ids :: "string list"
  rm_graph_node_ids :: "string list"
  rm_software_component_ids :: "string list"
  rm_implementation_effort :: effort
  rm_priority :: priority
  rm_estimated_cost_gbp :: real
  rm_annual_run_cost_gbp :: real
  rm_success_probability_reduction :: real
  rm_detection_probability_uplift :: real
  rm_residual_risk_note :: string
  rm_evidence_rationale :: string
  rm_mitre_mitigation_urls :: "string list"

record remediation_plan =
  rp_schema_version :: string
  rp_summary :: string
  rp_remediations :: "remediation list"
  rp_monitoring :: "string list"
  rp_assumptions :: "string list"
  rp_limitations :: "string list"

section \<open>Bounds of the fields\<close>

definition valid_loss_range :: "loss_range \<Rightarrow> bool" where
  "valid_loss_range l \<longleftrightarrow> money (lr_minimum_gbp l) \<and> money (lr_most_likely_gbp l) \<and> money (lr_maximum_gbp l) \<and>
     lr_minimum_gbp l \<le> lr_most_likely_gbp l \<and> lr_most_likely_gbp l \<le> lr_maximum_gbp l"

definition technique_id :: "string \<Rightarrow> bool" where
  "technique_id s \<longleftrightarrow> py_startswith s ''T'' \<and> list_all is_digit (take 4 (drop 1 s)) \<and>
     (length s = 5 \<or> length s = 9 \<and> s ! 5 = CHR ''.'' \<and> list_all is_digit (drop 6 s))"

definition valid_technique :: "mitre_technique \<Rightarrow> bool" where
  "valid_technique t \<longleftrightarrow> technique_id (mt_technique_id t) \<and> length_in 3 120 (mt_name t) \<and> mt_tactic t \<in> set ATTACK_TACTICS"

text \<open>\<open>^prefix[a-z0-9][a-z0-9._-]*$\<close>.\<close>

definition tagged_id :: "string \<Rightarrow> string \<Rightarrow> bool" where
  "tagged_id prefix s \<longleftrightarrow> py_startswith s prefix \<and>
     (case drop (length prefix) s of [] \<Rightarrow> False
      | c # cs \<Rightarrow> (is_lower c \<or> is_digit c) \<and> list_all (\<lambda>x. is_lower x \<or> is_digit x \<or> x \<in> set ''._-'') cs)"

definition valid_scenario_node :: "scenario_node \<Rightarrow> bool" where
  "valid_scenario_node n \<longleftrightarrow> valid_attack_node (attack_node.truncate n) \<and> length (sn_mitre_technique_ids n) \<le> 4 \<and>
     1 / 1000 \<le> sn_success_probability n \<and> sn_success_probability n \<le> 99 / 100 \<and>
     0 \<le> sn_detection_probability n \<and> sn_detection_probability n \<le> 99 / 100"

text \<open>The tree as the structure check of \<open>repository_graph.py\<close> reads it.\<close>

definition plain_tree :: "scenario_tree \<Rightarrow> attack_tree" where
  "plain_tree t = \<lparr>at_title = st_title t, at_root = st_root_attack_node_id t, at_nodes = map attack_node.truncate (st_nodes t),
     at_edges = st_edges t, at_assumptions = st_assumptions t, at_limitations = st_limitations t\<rparr>"

definition valid_scenario_tree :: "scenario_tree \<Rightarrow> bool" where
  "valid_scenario_tree t \<longleftrightarrow> valid_attack_tree (plain_tree t) \<and> list_all valid_scenario_node (st_nodes t)"

definition valid_estimate :: "financial_estimate \<Rightarrow> bool" where
  "valid_estimate e \<longleftrightarrow> 1 / 100 \<le> fe_annual_attempt_frequency e \<and> fe_annual_attempt_frequency e \<le> 52 \<and>
     valid_loss_range (fe_primary_loss e) \<and> valid_loss_range (fe_secondary_loss e) \<and>
     1 / 20 \<le> fe_detected_loss_multiplier e \<and> fe_detected_loss_multiplier e \<le> 1 \<and>
     length_in 20 800 (fe_rationale e) \<and> 1 \<le> length (fe_financial_inputs_used e) \<and> length (fe_financial_inputs_used e) \<le> 8"

definition valid_scenario :: "scenario \<Rightarrow> bool" where
  "valid_scenario s \<longleftrightarrow> length_in 10 80 (sc_scenario_id s) \<and> tagged_id ''scenario:'' (sc_scenario_id s) \<and>
     length_in 4 140 (sc_name s) \<and> length_in 4 160 (sc_business_service s) \<and> length_in 20 900 (sc_narrative s) \<and>
     1 \<le> length (sc_mitre_techniques s) \<and> length (sc_mitre_techniques s) \<le> 8 \<and>
     list_all valid_technique (sc_mitre_techniques s) \<and> valid_scenario_tree (sc_attack_tree s) \<and>
     valid_estimate (sc_financials s)"

definition valid_scenario_set :: "scenario_set \<Rightarrow> bool" where
  "valid_scenario_set s \<longleftrightarrow> ss_schema_version s = ''1.0'' \<and> length_in 20 1200 (ss_summary s) \<and>
     MIN_SCENARIOS \<le> int (length (ss_scenarios s)) \<and> int (length (ss_scenarios s)) \<le> MAX_SCENARIOS \<and>
     list_all valid_scenario (ss_scenarios s) \<and> length (ss_assumptions s) \<le> 8 \<and> length (ss_limitations s) \<le> 8"

definition mitigation_id :: "string \<Rightarrow> bool" where
  "mitigation_id s \<longleftrightarrow> length s = 5 \<and> py_startswith s ''M'' \<and> list_all is_digit (drop 1 s)"

definition valid_remediation :: "remediation \<Rightarrow> bool" where
  "valid_remediation r \<longleftrightarrow> length_in 6 80 (rm_remediation_id r) \<and> tagged_id ''fix:'' (rm_remediation_id r) \<and>
     length_in 4 140 (rm_title r) \<and> length_in 20 700 (rm_description r) \<and> length (rm_mitre_mitigation_ids r) \<le> 4 \<and>
     1 \<le> length (rm_target_attack_node_ids r) \<and> length (rm_target_attack_node_ids r) \<le> 8 \<and>
     length (rm_graph_node_ids r) \<le> 8 \<and> length (rm_software_component_ids r) \<le> 6 \<and>
     0 < rm_estimated_cost_gbp r \<and> rm_estimated_cost_gbp r \<le> 50000000 \<and>
     0 \<le> rm_annual_run_cost_gbp r \<and> rm_annual_run_cost_gbp r \<le> 50000000 \<and>
     0 \<le> rm_success_probability_reduction r \<and> rm_success_probability_reduction r \<le> 95 / 100 \<and>
     0 \<le> rm_detection_probability_uplift r \<and> rm_detection_probability_uplift r \<le> 95 / 100 \<and>
     length_in 10 400 (rm_residual_risk_note r) \<and> length_in 20 600 (rm_evidence_rationale r) \<and>
     \<not> (rm_success_probability_reduction r = 0 \<and> rm_detection_probability_uplift r = 0) \<and>
     list_all mitigation_id (rm_mitre_mitigation_ids r)"

definition valid_plan :: "remediation_plan \<Rightarrow> bool" where
  "valid_plan p \<longleftrightarrow> rp_schema_version p = ''1.0'' \<and> length_in 20 1200 (rp_summary p) \<and>
     2 \<le> length (rp_remediations p) \<and> length (rp_remediations p) \<le> 10 \<and> list_all valid_remediation (rp_remediations p) \<and>
     length (rp_monitoring p) \<le> 6 \<and> length (rp_assumptions p) \<le> 8 \<and> length (rp_limitations p) \<le> 8"

section \<open>Checking references\<close>

definition first_error :: "string option list \<Rightarrow> string option" where
  "first_error xs = (case filter (\<lambda>x. x \<noteq> None) xs of [] \<Rightarrow> None | x # _ \<Rightarrow> x)"

definition error_unless :: "bool \<Rightarrow> string \<Rightarrow> string option" where
  "error_unless good code = (if good then None else Some code)"

definition supplied_nodes :: "projection \<Rightarrow> string list \<Rightarrow> bool" where
  "supplied_nodes p is \<longleftrightarrow> list_all (\<lambda>i. Some i \<in> set (map rendered_id (pj_nodes p))) is"

definition supplied_flows :: "projection \<Rightarrow> string list \<Rightarrow> bool" where
  "supplied_flows p fs \<longleftrightarrow> list_all (\<lambda>f. f \<in> set (map pf_flow_id (pj_flows p))) fs"

definition node_errors :: "projection \<Rightarrow> string list \<Rightarrow> scenario_node \<Rightarrow> string option list" where
  "node_errors p techniques n =
     [error_unless (supplied_nodes p (an_graph_node_ids n)) ''ATTACK_SCENARIO_REFERENCE_INVALID'',
      error_unless (supplied_flows p (an_flow_ids n)) ''ATTACK_SCENARIO_REFERENCE_INVALID'',
      error_unless (set (sn_mitre_technique_ids n) \<subseteq> set techniques) ''ATTACK_SCENARIO_TECHNIQUE_INVALID'']"

definition scenario_errors :: "projection \<Rightarrow> string list \<Rightarrow> scenario \<Rightarrow> string option list" where
  "scenario_errors p seen s =
     (let tree = sc_attack_tree s in
      [error_unless (sc_scenario_id s \<notin> set seen) ''ATTACK_SCENARIO_DUPLICATE_ID''] @
      concat (map (node_errors p (map mt_technique_id (sc_mitre_techniques s))) (st_nodes tree)) @
      [error_unless (set (fe_financial_inputs_used (sc_financials s)) \<subseteq> set FINANCIAL_INPUT_NAMES)
         ''ATTACK_SCENARIO_FINANCIAL_INPUT_INVALID'',
       error_unless (\<not> lr_maximum_gbp (fe_primary_loss (sc_financials s)) \<le> 0) ''ATTACK_SCENARIO_FINANCIAL_INPUT_INVALID'',
       error_unless (attack_tree_structure_is_valid (plain_tree tree)) ''ATTACK_SCENARIO_TREE_INVALID'',
       error_unless (2 \<le> length (filter (\<lambda>n. an_operator n = OP_LEAF) (st_nodes tree))) ''ATTACK_SCENARIO_TREE_INVALID''])"

text \<open>\<open>seen\<close> are the identifiers of the scenarios before.\<close>

fun scenario_reference_error :: "projection \<Rightarrow> string list \<Rightarrow> scenario list \<Rightarrow> string option" where
  "scenario_reference_error p seen [] = None"
| "scenario_reference_error p seen (s # rest) =
     (case first_error (scenario_errors p seen s) of
        Some code \<Rightarrow> Some code
      | None \<Rightarrow> scenario_reference_error p (sc_scenario_id s # seen) rest)"

definition remediation_errors :: "scenario \<Rightarrow> inventory \<Rightarrow> gnode list \<Rightarrow> string list \<Rightarrow> remediation \<Rightarrow> string option list" where
  "remediation_errors s software evidence seen r =
     (let nodes = st_nodes (sc_attack_tree s); leaves = filter (\<lambda>n. an_operator n = OP_LEAF) nodes in
      [error_unless (rm_remediation_id r \<notin> set seen) ''REMEDIATION_DUPLICATE_ID'',
       error_unless (set (rm_target_attack_node_ids r) \<subseteq> set (map an_id nodes)) ''REMEDIATION_REFERENCE_INVALID'',
       error_unless (set (rm_target_attack_node_ids r) \<inter> set (map an_id leaves) \<noteq> {}) ''REMEDIATION_TARGETS_NO_ACTION'',
       error_unless (set (rm_graph_node_ids r) \<subseteq> set (map gn_id evidence)) ''REMEDIATION_REFERENCE_INVALID'',
       error_unless (set (rm_software_component_ids r) \<subseteq> set (map co_component_id (iv_components software)))
         ''REMEDIATION_SOFTWARE_INVALID''])"

fun remediation_reference_error :: "scenario \<Rightarrow> inventory \<Rightarrow> gnode list \<Rightarrow> string list \<Rightarrow> remediation list \<Rightarrow> string option" where
  "remediation_reference_error s software evidence seen [] = None"
| "remediation_reference_error s software evidence seen (r # rest) =
     (case first_error (remediation_errors s software evidence seen r) of
        Some code \<Rightarrow> Some code
      | None \<Rightarrow> remediation_reference_error s software evidence (rm_remediation_id r # seen) rest)"

section \<open>Links\<close>

definition mitre_technique_url :: "string \<Rightarrow> string" where
  "mitre_technique_url i =
     (case py_partition (CHR ''.'') i of (parent, _, sub) \<Rightarrow>
        if sub \<noteq> [] then MITRE_TECHNIQUE_URL @ parent @ ''/'' @ sub @ ''/'' else MITRE_TECHNIQUE_URL @ parent @ ''/'')"

definition mitre_mitigation_url :: "string \<Rightarrow> string" where
  "mitre_mitigation_url i = MITRE_MITIGATION_URL @ i @ ''/''"

definition decorate_technique :: "mitre_technique \<Rightarrow> mitre_technique" where
  "decorate_technique t = t\<lparr>mt_url := Some (mitre_technique_url (mt_technique_id t))\<rparr>"

definition decorate_scenario :: "scenario \<Rightarrow> scenario" where
  "decorate_scenario s = s\<lparr>sc_mitre_techniques := map decorate_technique (sc_mitre_techniques s)\<rparr>"

definition decorate_scenarios :: "scenario_set \<Rightarrow> scenario_set" where
  "decorate_scenarios s = s\<lparr>ss_scenarios := map decorate_scenario (ss_scenarios s)\<rparr>"

definition link_mitigations :: "remediation \<Rightarrow> remediation" where
  "link_mitigations r = r\<lparr>rm_mitre_mitigation_urls := map mitre_mitigation_url (rm_mitre_mitigation_ids r)\<rparr>"

section \<open>Asking for scenarios\<close>

record ('p, 'a) lab_result =
  lb_status :: model_status
  lb_error_code :: "string option"
  lb_provenance :: "'p option"
  lb_answer :: "'a option"
  lb_output :: "model_output option"

definition model_envelope :: "model_status \<Rightarrow> string option \<Rightarrow> 'p option \<Rightarrow> ('p, 'a) lab_result" where
  "model_envelope status error_code provenance =
     \<lparr>lb_status = status, lb_error_code = error_code, lb_provenance = provenance, lb_answer = None, lb_output = None\<rparr>"

definition answered :: "model_output \<Rightarrow> 'p \<Rightarrow> 'a \<Rightarrow> ('p, 'a) lab_result" where
  "answered out provenance x =
     \<lparr>lb_status = READY, lb_error_code = None, lb_provenance = Some provenance, lb_answer = Some x, lb_output = Some out\<rparr>"

record lab_library =
  ll_sha256_hex :: "string \<Rightarrow> string"
  ll_scenario_request :: "projection \<Rightarrow> company_profile \<Rightarrow> inventory \<Rightarrow> int \<Rightarrow> json"
  ll_decode_scenarios :: "string \<Rightarrow> scenario_set option"
  ll_decode_plan :: "string \<Rightarrow> remediation_plan option"

definition build_scenario_request ::
  "lab_library \<Rightarrow> repository_catalog \<Rightarrow> company_profile \<Rightarrow> inventory \<Rightarrow> int \<Rightarrow> failure + json \<times> projection" where
  "build_scenario_request lib c profile software scenario_count =
     (let count = max MIN_SCENARIOS (min MAX_SCENARIOS scenario_count) in
      andthen (redacted_graph_projection c) (\<lambda>p. Inr (ll_scenario_request lib p profile software count, p)))"

definition scenario_provenance :: "lab_library \<Rightarrow> repository_catalog \<Rightarrow> json \<Rightarrow> projection \<Rightarrow> provenance" where
  "scenario_provenance lib c request p =
     \<lparr>pv_graph_digest = cat_digest c, pv_projection_sha256 = digest (ll_sha256_hex lib) (projection_json p),
      pv_request_sha256 = digest (ll_sha256_hex lib) request, pv_complete = pj_complete p,
      pv_included_nodes = pj_included_nodes p, pv_included_edges = pj_included_edges p\<rparr>"

definition judge_scenarios :: "lab_library \<Rightarrow> projection \<Rightarrow> provenance \<Rightarrow> model_output \<Rightarrow> (provenance, scenario_set) lab_result" where
  "judge_scenarios lib p provenance out =
     (case ll_decode_scenarios lib (mo_content out) of
        None \<Rightarrow> model_envelope FAILED (Some ''ATTACK_SCENARIO_RESPONSE_INVALID'') (Some provenance)
      | Some s \<Rightarrow>
          if \<not> valid_scenario_set s
          then model_envelope FAILED (Some ''ATTACK_SCENARIO_RESPONSE_INVALID'') (Some provenance)
          else (case scenario_reference_error p [] (ss_scenarios s) of
              Some code \<Rightarrow> model_envelope FAILED (Some code) (Some provenance)
            | None \<Rightarrow> answered out provenance (decorate_scenarios s)))"

definition generate_attack_scenarios ::
  "lab_library \<Rightarrow> repository_catalog \<Rightarrow> company_profile \<Rightarrow> inventory \<Rightarrow> model_provider option \<Rightarrow> bool \<Rightarrow> int
     \<Rightarrow> (json list, failure, (provenance, scenario_set) lab_result) proc" where
  "generate_attack_scenarios lib c profile software models_client requested scenario_count asked =
     (if \<not> requested then (Inr (model_envelope SKIPPED None None), asked)
      else case models_client of
        None \<Rightarrow> (Inr (model_envelope DISABLED (Some ''MISTRAL_NOT_CONFIGURED'') None), asked)
      | Some mv \<Rightarrow>
          (case build_scenario_request lib c profile software scenario_count of
             Inl e \<Rightarrow> (Inl e, asked)
           | Inr (request, p) \<Rightarrow>
               (Inr (case mistral_generate mv request of
                  Inl e \<Rightarrow> model_envelope FAILED (Some (mq_code e)) (Some (scenario_provenance lib c request p))
                | Inr out \<Rightarrow> judge_scenarios lib p (scenario_provenance lib c request p) out), asked @ [request])))"

end
