(* ===== verification/Simulation.thy ===== *)
theory Simulation
  imports Attack_Scenario "HOL-Library.AList" "HOL-Library.Stream"
begin

text \<open>
  The seeded Monte Carlo engine of \<open>bantam/attack_simulation.py\<close>. \<open>random.Random(seed)\<close> is
  the stream of the numbers its \<open>random()\<close> returns; a sampler takes numbers from the front and
  gives back the rest. Floats are real numbers, the functions of \<open>math\<close> the real functions. The
  rejection loop of the gamma distribution may run forever on some stream: it is a partial function,
  and whatever uses it has an option as result, \<open>None\<close> when the call does not return (or when it
  divides by zero).
\<close>

definition MIN_ITERATIONS :: int where "MIN_ITERATIONS = 1000"
definition MAX_ITERATIONS :: int where "MAX_ITERATIONS = 50000"
definition DEFAULT_ITERATIONS :: int where "DEFAULT_ITERATIONS = 10000"
definition MAX_ATTEMPTS_PER_YEAR :: nat where "MAX_ATTEMPTS_PER_YEAR = 200"
definition HISTOGRAM_BINS :: nat where "HISTOGRAM_BINS = 24"
definition EXCEEDANCE_POINTS :: nat where "EXCEEDANCE_POINTS = 21"
definition PERT_LAMBDA :: real where "PERT_LAMBDA = 4"

section \<open>Deterministic sampling\<close>

type_synonym draws = "real stream"

definition uniform :: "draws \<Rightarrow> real \<times> draws" where
  "uniform s = (shd s, stl s)"

definition bernoulli :: "real \<Rightarrow> draws \<Rightarrow> bool \<times> draws" where
  "bernoulli probability s = (shd s < probability, stl s)"

definition standard_normal :: "draws \<Rightarrow> real \<times> draws" where
  "standard_normal s =
     (let first = max (shd s) (1 / 10 ^ 12); second = shd (stl s) in
      (sqrt (- 2 * ln first) * cos (2 * pi * second), stl (stl s)))"

partial_function (option) gamma_loop :: "real \<Rightarrow> real \<Rightarrow> draws \<Rightarrow> (real \<times> draws) option" where
  "gamma_loop d c s =
     (let x = fst (standard_normal s); s1 = snd (standard_normal s); base = 1 + c * x in
      if base \<le> 0 then gamma_loop d c s1
      else
        let v = base ^ 3; u = max (shd s1) (1 / 10 ^ 12); s2 = stl s1 in
        if u < 1 - 331 / 10000 * x ^ 4 then Some (d * v, s2)
        else if ln u < 1 / 2 * x\<^sup>2 + d * (1 - v + ln v) then Some (d * v, s2)
        else gamma_loop d c s2)"

function sample_gamma :: "real \<Rightarrow> draws \<Rightarrow> (real \<times> draws) option" where
  "sample_gamma shape s =
     (if shape < 1
      then (case sample_gamma (shape + 1) s of
          None \<Rightarrow> None
        | Some (x, s1) \<Rightarrow>
            if shape = 0 then None
            else Some (x * (max (shd s1) (1 / 10 ^ 12) powr (1 / shape)), stl s1))
      else
        let d = shape - 1 / 3; c = 1 / sqrt (9 * d) in gamma_loop d c s)"
  by pat_completeness auto
termination
  by (relation "measure (\<lambda>(shape, _). nat \<lceil>1 - shape\<rceil>)") (auto simp: nat_less_iff, linarith)

declare sample_gamma.simps [simp del]

definition sample_beta :: "real \<Rightarrow> real \<Rightarrow> draws \<Rightarrow> (real \<times> draws) option" where
  "sample_beta alpha b s =
     (case sample_gamma alpha s of
        None \<Rightarrow> None
      | Some (left, s1) \<Rightarrow>
          (case sample_gamma b s1 of
             None \<Rightarrow> None
           | Some (right, s2) \<Rightarrow>
               Some (let total = left + right in if total > 0 then left / total else 1 / 2, s2)))"

definition pert :: "real \<Rightarrow> real \<Rightarrow> real \<Rightarrow> draws \<Rightarrow> (real \<times> draws) option" where
  "pert minimum most_likely maximum s =
     (if maximum \<le> minimum then Some (minimum, s)
      else
        let mode = min (max most_likely minimum) maximum; span = maximum - minimum;
            alpha = 1 + PERT_LAMBDA * (mode - minimum) / span;
            b = 1 + PERT_LAMBDA * (maximum - mode) / span in
        case sample_beta alpha b s of
          None \<Rightarrow> None
        | Some (x, s1) \<Rightarrow> Some (minimum + x * span, s1))"

definition pert_of :: "loss_range \<Rightarrow> draws \<Rightarrow> (real \<times> draws) option" where
  "pert_of l = pert (lr_minimum_gbp l) (lr_most_likely_gbp l) (lr_maximum_gbp l)"

text \<open>\<open>round\<close> takes halves to the even neighbour.\<close>

definition py_round :: "real \<Rightarrow> int" where
  "py_round x =
     (let n = \<lfloor>x\<rfloor>; rest = x - of_int n in
      if rest < 1 / 2 then n else if rest > 1 / 2 then n + 1 else if even n then n else n + 1)"

function poisson_loop :: "real \<Rightarrow> real \<Rightarrow> nat \<Rightarrow> draws \<Rightarrow> nat \<times> draws" where
  "poisson_loop limit product count s =
     (if count < MAX_ATTEMPTS_PER_YEAR
      then
        let product = product * max (shd s) (1 / 10 ^ 18) in
        if product \<le> limit then (count, stl s) else poisson_loop limit product (count + 1) (stl s)
      else (count, s))"
  by pat_completeness auto
termination
  by (relation "measure (\<lambda>(_, _, count, _). MAX_ATTEMPTS_PER_YEAR - count)") auto

declare poisson_loop.simps [simp del]

definition poisson :: "real \<Rightarrow> draws \<Rightarrow> nat \<times> draws" where
  "poisson rate s =
     (if rate \<le> 0 then (0, s)
      else if rate < 30 then poisson_loop (exp (- rate)) 1 0 s
      else
        case standard_normal s of (x, s1) \<Rightarrow>
          (nat (max 0 (min (int MAX_ATTEMPTS_PER_YEAR) (py_round (rate + sqrt rate * x)))), s1))"

section \<open>The parameters of a run\<close>

definition percentile :: "real list \<Rightarrow> real \<Rightarrow> real" where
  "percentile sorted_values quantile =
     (if sorted_values = [] then 0
      else
        let index = \<lceil>quantile * real (length sorted_values)\<rceil> - 1 in
        sorted_values ! nat (min (max index 0) (int (length sorted_values) - 1)))"

record leaf_parameters =
  pa_success_probability :: real
  pa_detection_probability :: real

type_synonym parameter_dict = "(string \<times> leaf_parameters) list"

text \<open>A Python dict is an association list in insertion order: \<open>AList.update\<close> replaces the value of
  a key in its place or appends it.\<close>

definition base_parameters :: "scenario_node list \<Rightarrow> parameter_dict" where
  "base_parameters nodes =
     fold (\<lambda>n. AList.update (an_id n) \<lparr>pa_success_probability = sn_success_probability n,
       pa_detection_probability = sn_detection_probability n\<rparr>) nodes []"

definition mitigate :: "remediation \<Rightarrow> leaf_parameters \<Rightarrow> leaf_parameters" where
  "mitigate r p =
     \<lparr>pa_success_probability = pa_success_probability p * (1 - rm_success_probability_reduction r),
      pa_detection_probability = 1 - (1 - pa_detection_probability p) * (1 - rm_detection_probability_uplift r)\<rparr>"

definition mitigate_node :: "remediation \<Rightarrow> string \<Rightarrow> parameter_dict \<Rightarrow> parameter_dict" where
  "mitigate_node r i ps = (case map_of ps i of None \<Rightarrow> ps | Some p \<Rightarrow> AList.update i (mitigate r p) ps)"

definition apply_remediation :: "remediation \<Rightarrow> parameter_dict \<Rightarrow> parameter_dict" where
  "apply_remediation r ps = fold (mitigate_node r) (rm_target_attack_node_ids r) ps"

definition effective_parameters :: "scenario \<Rightarrow> remediation list \<Rightarrow> parameter_dict" where
  "effective_parameters s remediations = fold apply_remediation remediations (base_parameters (st_nodes (sc_attack_tree s)))"

definition nodes_by_id :: "scenario \<Rightarrow> (string \<times> scenario_node) list" where
  "nodes_by_id s = fold (\<lambda>n. AList.update (an_id n) n) (st_nodes (sc_attack_tree s)) []"

text \<open>What a run reads: the tree, its parameters, and the figures of the profile.\<close>

record run_setup =
  su_nodes :: "(string \<times> scenario_node) list"
  su_children :: "string \<Rightarrow> string list"
  su_parameters :: parameter_dict
  su_root :: string
  su_estimate :: financial_estimate
  su_cap :: real
  su_retention :: real
  su_cover :: real

definition setup_of :: "scenario \<Rightarrow> company_profile \<Rightarrow> remediation list \<Rightarrow> run_setup" where
  "setup_of s profile remediations =
     \<lparr>su_nodes = nodes_by_id s, su_children = children_of (st_edges (sc_attack_tree s)),
      su_parameters = effective_parameters s remediations, su_root = st_root_attack_node_id (sc_attack_tree s),
      su_estimate = sc_financials s,
      su_cap = ra_maximum_credible_single_loss_gbp (cp_risk_appetite profile),
      su_retention = ip_retention_gbp (cp_insurance profile), su_cover = ip_cyber_cover_gbp (cp_insurance profile)\<rparr>"

text \<open>\<open>parameters\<close> and \<open>nodes\<close> have the same keys (\<open>parameters_keys\<close>), so the default is never
  used.\<close>

definition success_of :: "run_setup \<Rightarrow> string \<Rightarrow> real" where
  "success_of u i = (case map_of (su_parameters u) i of None \<Rightarrow> 0 | Some p \<Rightarrow> pa_success_probability p)"

definition detection_of :: "run_setup \<Rightarrow> string \<Rightarrow> real" where
  "detection_of u i = (case map_of (su_parameters u) i of None \<Rightarrow> 0 | Some p \<Rightarrow> pa_detection_probability p)"

section \<open>One attempt\<close>

type_synonym counter = "string \<Rightarrow> nat"

definition count_one :: "string \<Rightarrow> counter \<Rightarrow> counter" where
  "count_one i k = k(i := k i + 1)"

text \<open>
  The result of an attempt, the leaves that satisfied the node, the numbers left and the leaves
  attempted so far. \<open>attempt_each\<close> is the loop of an AND node, \<open>attempt_first\<close> of an OR node.
\<close>

type_synonym attempt_result = "(bool \<times> string list) \<times> draws \<times> counter"

function attempt :: "run_setup \<Rightarrow> string \<Rightarrow> nat \<Rightarrow> draws \<Rightarrow> counter \<Rightarrow> attempt_result"
  and attempt_each :: "run_setup \<Rightarrow> string list \<Rightarrow> nat \<Rightarrow> string list \<Rightarrow> draws \<Rightarrow> counter \<Rightarrow> attempt_result"
  and attempt_first :: "run_setup \<Rightarrow> string list \<Rightarrow> nat \<Rightarrow> draws \<Rightarrow> counter \<Rightarrow> attempt_result"
where
  "attempt u i depth s k =
     (case map_of (su_nodes u) i of
        None \<Rightarrow> ((False, []), s, k)
      | Some n \<Rightarrow>
          if depth > MAX_ATTACK_TREE_DEPTH then ((False, []), s, k)
          else if an_operator n = OP_LEAF
          then (case bernoulli (success_of u i) s of (hit, s1) \<Rightarrow>
            (if hit then (True, [i]) else (False, []), s1, count_one i k))
          else if an_operator n = OP_AND then attempt_each u (su_children u i) (depth + 1) [] s k
          else attempt_first u (su_children u i) (depth + 1) s k)"
| "attempt_each u [] depth satisfied s k = ((satisfied \<noteq> [], satisfied), s, k)"
| "attempt_each u (c # cs) depth satisfied s k =
     (case attempt u c depth s k of ((succeeded, path), s1, k1) \<Rightarrow>
        if \<not> succeeded then ((False, []), s1, k1)
        else attempt_each u cs depth (satisfied @ path) s1 k1)"
| "attempt_first u [] depth s k = ((False, []), s, k)"
| "attempt_first u (c # cs) depth s k =
     (case attempt u c depth s k of ((succeeded, path), s1, k1) \<Rightarrow>
        if succeeded then ((True, path), s1, k1) else attempt_first u cs depth s1 k1)"
  by pat_completeness auto
termination
  by (relation "inv_image (less_than <*lex*> less_than) (\<lambda>x. case x of
      Inl (u, i, depth, s, k) \<Rightarrow> (8 - depth, 0)
    | Inr (Inl (u, cs, depth, satisfied, s, k)) \<Rightarrow> (8 - depth, Suc (length cs))
    | Inr (Inr (u, cs, depth, s, k)) \<Rightarrow> (8 - depth, Suc (length cs)))")
    (auto simp: MAX_ATTACK_TREE_DEPTH_def)

declare attempt.simps [simp del]

section \<open>One year\<close>

record tally =
  ta_attempted :: counter
  ta_critical :: counter
  ta_losses :: "real list"
  ta_gross_total :: real
  ta_recovery_total :: real
  ta_events :: nat
  ta_detected_events :: nat
  ta_capped_events :: nat
  ta_loss_years :: nat

definition empty_tally :: tally where
  "empty_tally = \<lparr>ta_attempted = (\<lambda>_. 0), ta_critical = (\<lambda>_. 0), ta_losses = [], ta_gross_total = 0,
     ta_recovery_total = 0, ta_events = 0, ta_detected_events = 0, ta_capped_events = 0, ta_loss_years = 0\<rparr>"

text \<open>\<open>any\<close> stops at the first leaf that is detected.\<close>

fun any_detected :: "run_setup \<Rightarrow> string list \<Rightarrow> draws \<Rightarrow> bool \<times> draws" where
  "any_detected u [] s = (False, s)"
| "any_detected u (i # rest) s =
     (case bernoulli (detection_of u i) s of (hit, s1) \<Rightarrow> if hit then (True, s1) else any_detected u rest s1)"

definition recovery_of :: "run_setup \<Rightarrow> real \<Rightarrow> real" where
  "recovery_of u gross = max 0 (min (gross - su_retention u) (su_cover u))"

text \<open>A successful attempt: its loss is added to the year's.\<close>

definition book_event :: "run_setup \<Rightarrow> string list \<Rightarrow> bool \<Rightarrow> real \<Rightarrow> tally \<Rightarrow> real \<times> tally" where
  "book_event u path detected sampled t =
     (let gross = (if detected then sampled * fe_detected_loss_multiplier (su_estimate u) else sampled);
          capped = (gross > su_cap u);
          gross = (if capped then su_cap u else gross);
          recovery = recovery_of u gross in
      (gross - recovery,
       t\<lparr>ta_critical := fold count_one path (ta_critical t),
         ta_gross_total := ta_gross_total t + gross, ta_recovery_total := ta_recovery_total t + recovery,
         ta_detected_events := ta_detected_events t + (if detected then 1 else 0),
         ta_capped_events := ta_capped_events t + (if capped then 1 else 0)\<rparr>))"

fun run_attempts :: "run_setup \<Rightarrow> nat \<Rightarrow> real \<Rightarrow> nat \<Rightarrow> draws \<Rightarrow> tally \<Rightarrow> (real \<times> nat \<times> draws \<times> tally) option" where
  "run_attempts u 0 annual_loss year_events s t = Some (annual_loss, year_events, s, t)"
| "run_attempts u (Suc n) annual_loss year_events s t =
     (case attempt u (su_root u) 0 s (ta_attempted t) of ((succeeded, path), s1, k) \<Rightarrow>
        let t = t\<lparr>ta_attempted := k\<rparr> in
        if \<not> succeeded then run_attempts u n annual_loss year_events s1 t
        else
          (case pert_of (fe_primary_loss (su_estimate u)) s1 of
             None \<Rightarrow> None
           | Some (primary, s2) \<Rightarrow>
               (case pert_of (fe_secondary_loss (su_estimate u)) s2 of
                  None \<Rightarrow> None
                | Some (secondary, s3) \<Rightarrow>
                    (case any_detected u path s3 of (detected, s4) \<Rightarrow>
                       case book_event u path detected (primary + secondary) t of (loss, t) \<Rightarrow>
                         run_attempts u n (annual_loss + loss) (year_events + 1) s4 t))))"

definition run_year :: "run_setup \<Rightarrow> draws \<times> tally \<Rightarrow> (draws \<times> tally) option" where
  "run_year u st =
     (case st of (s, t) \<Rightarrow>
        case poisson (fe_annual_attempt_frequency (su_estimate u)) s of (attempts, s1) \<Rightarrow>
          case run_attempts u attempts 0 0 s1 t of
            None \<Rightarrow> None
          | Some (annual_loss, year_events, s2, t) \<Rightarrow>
              Some (s2, t\<lparr>ta_events := ta_events t + year_events,
                ta_loss_years := ta_loss_years t + (if year_events \<noteq> 0 then 1 else 0),
                ta_losses := ta_losses t @ [annual_loss]\<rparr>))"

fun run_years :: "run_setup \<Rightarrow> nat \<Rightarrow> draws \<times> tally \<Rightarrow> (draws \<times> tally) option" where
  "run_years u 0 st = Some st"
| "run_years u (Suc n) st = (case run_year u st of None \<Rightarrow> None | Some st1 \<Rightarrow> run_years u n st1)"

section \<open>The figures of a run\<close>

definition bisect_right :: "real list \<Rightarrow> real \<Rightarrow> nat" where
  "bisect_right xs x = length (takeWhile (\<lambda>y. y \<le> x) xs)"

definition mean_of :: "real list \<Rightarrow> real" where
  "mean_of xs = sum_list xs / real (length xs)"

definition variance_of :: "real list \<Rightarrow> real" where
  "variance_of xs = sum_list (map (\<lambda>x. (x - mean_of xs)\<^sup>2) xs) / real (length xs)"

record annual_loss =
  al_mean_gbp :: real
  al_standard_deviation_gbp :: real
  al_median_gbp :: real
  al_p90_gbp :: real
  al_p95_gbp :: real
  al_p99_gbp :: real
  al_maximum_gbp :: real

record contribution =
  ct_attack_node_id :: string
  ct_title :: string
  ct_attempts :: nat
  ct_successful_events :: nat
  ct_share_of_successful_events :: real
  ct_effective_success_probability :: real
  ct_effective_detection_probability :: real
  ct_graph_node_ids :: "string list"
  ct_mitre_technique_ids :: "string list"

record histogram =
  hi_bin_width_gbp :: real
  hi_ceiling_gbp :: real
  hi_overflow_count :: nat
  hi_bins :: "(real \<times> real \<times> nat) list"

record simulation =
  si_scenario_id :: string
  si_iterations :: int
  si_seed :: int
  si_annual_loss :: annual_loss
  si_gross_mean_annual_loss_gbp :: real
  si_insurance_recovery_mean_gbp :: real
  si_expected_events_per_year :: real
  si_probability_of_loss_year :: real
  si_exceedance_probability :: real
  si_impact_tolerance_gbp :: real
  si_maximum_credible_single_loss_gbp :: real
  si_detected_event_share :: real
  si_capped_event_share :: real
  si_mean_as_pct_of_revenue :: "real option"
  si_p95_as_pct_of_equity :: "real option"
  si_attack_path_contributions :: "contribution list"
  si_histogram :: histogram
  si_loss_exceedance_curve :: "(real \<times> real) list"
  si_applied_remediation_ids :: "string list"
  si_effective_parameters :: parameter_dict

definition share :: "nat \<Rightarrow> nat \<Rightarrow> real" where
  "share part events = (if events = 0 then 0 else real part / real events)"

definition contribution_of :: "run_setup \<Rightarrow> tally \<Rightarrow> string \<times> scenario_node \<Rightarrow> contribution" where
  "contribution_of u t e =
     (case e of (i, n) \<Rightarrow>
        \<lparr>ct_attack_node_id = i, ct_title = an_title n, ct_attempts = ta_attempted t i, ct_successful_events = ta_critical t i,
         ct_share_of_successful_events = share (ta_critical t i) (ta_events t),
         ct_effective_success_probability = success_of u i, ct_effective_detection_probability = detection_of u i,
         ct_graph_node_ids = an_graph_node_ids n, ct_mitre_technique_ids = sn_mitre_technique_ids n\<rparr>)"

text \<open>Sorted by falling share, then by identifier.\<close>

definition contributions :: "run_setup \<Rightarrow> tally \<Rightarrow> contribution list" where
  "contributions u t =
     sort_key (\<lambda>r. - ct_share_of_successful_events r) (sort_key ct_attack_node_id
       (map (contribution_of u t) (filter (\<lambda>(_, n). an_operator n = OP_LEAF) (su_nodes u))))"

text \<open>\<open>int\<close> of a float drops the fraction.\<close>

definition py_int_of :: "real \<Rightarrow> int" where
  "py_int_of x = (if x < 0 then \<lceil>x\<rceil> else \<lfloor>x\<rfloor>)"

definition bin_index :: "real \<Rightarrow> real \<Rightarrow> int" where
  "bin_index width value = min (int HISTOGRAM_BINS - 1) (py_int_of (value / width))"

text \<open>A negative index counts from the end.\<close>

definition count_at :: "int \<Rightarrow> nat list \<Rightarrow> nat list" where
  "count_at index counts =
     (let j = nat (if index < 0 then index + int (length counts) else index) in counts[j := counts ! j + 1])"

fun fill_bins :: "real \<Rightarrow> real \<Rightarrow> real list \<Rightarrow> nat \<Rightarrow> nat list \<Rightarrow> nat \<times> nat list" where
  "fill_bins upper width [] overflow counts = (overflow, counts)"
| "fill_bins upper width (value # rest) overflow counts =
     (if value > upper then fill_bins upper width rest (overflow + 1) counts
      else fill_bins upper width rest overflow (count_at (bin_index width value) counts))"

definition histogram :: "real list \<Rightarrow> real \<Rightarrow> histogram" where
  "histogram losses ceil =
     (let upper = max ceil 1; width = upper / real HISTOGRAM_BINS in
      case fill_bins upper width losses 0 (replicate HISTOGRAM_BINS 0) of (overflow, counts) \<Rightarrow>
        \<lparr>hi_bin_width_gbp = width, hi_ceiling_gbp = upper, hi_overflow_count = overflow,
         hi_bins = map (\<lambda>(index, count). (real index * width, real (index + 1) * width, count)) (enumerate 0 counts)\<rparr>)"

definition exceedance_curve :: "real list \<Rightarrow> real \<Rightarrow> (real \<times> real) list" where
  "exceedance_curve losses ceil =
     (let upper = max ceil 1; total = length losses in
      map (\<lambda>step. let threshold = upper * real step / real (EXCEEDANCE_POINTS - 1) in
        (threshold, real (total - bisect_right losses threshold) / real total)) [0..<EXCEEDANCE_POINTS])"

definition percent_of :: "real \<Rightarrow> real \<Rightarrow> real option" where
  "percent_of x whole = (if whole = 0 then None else Some (x / whole * 100))"

definition report ::
  "scenario \<Rightarrow> company_profile \<Rightarrow> int \<Rightarrow> int \<Rightarrow> remediation list \<Rightarrow> run_setup \<Rightarrow> tally \<Rightarrow> simulation" where
  "report s profile iterations seed applied u t =
     (let losses = sort (ta_losses t); n = real_of_int iterations;
          p95 = percentile losses (95 / 100); p99 = percentile losses (99 / 100);
          tolerance = ra_impact_tolerance_gbp (cp_risk_appetite profile) in
      \<lparr>si_scenario_id = sc_scenario_id s, si_iterations = iterations, si_seed = seed,
       si_annual_loss = \<lparr>al_mean_gbp = mean_of losses, al_standard_deviation_gbp = sqrt (variance_of losses),
         al_median_gbp = percentile losses (1 / 2), al_p90_gbp = percentile losses (90 / 100), al_p95_gbp = p95,
         al_p99_gbp = p99, al_maximum_gbp = last losses\<rparr>,
       si_gross_mean_annual_loss_gbp = ta_gross_total t / n,
       si_insurance_recovery_mean_gbp = ta_recovery_total t / n,
       si_expected_events_per_year = real (ta_events t) / n,
       si_probability_of_loss_year = real (ta_loss_years t) / n,
       si_exceedance_probability = real (length losses - bisect_right losses tolerance) / n,
       si_impact_tolerance_gbp = tolerance, si_maximum_credible_single_loss_gbp = su_cap u,
       si_detected_event_share = share (ta_detected_events t) (ta_events t),
       si_capped_event_share = share (ta_capped_events t) (ta_events t),
       si_mean_as_pct_of_revenue = percent_of (mean_of losses) (ic_annual_revenue_gbp (cp_income profile)),
       si_p95_as_pct_of_equity = percent_of p95 (bs_shareholder_equity_gbp (cp_balance_sheet profile)),
       si_attack_path_contributions = contributions u t,
       si_histogram = histogram losses (max p99 tolerance),
       si_loss_exceedance_curve = exceedance_curve losses (max p99 tolerance),
       si_applied_remediation_ids = map rm_remediation_id applied,
       si_effective_parameters = su_parameters u\<rparr>)"

text \<open>\<open>uniforms seed\<close> are the numbers of \<open>random.Random(seed)\<close>.\<close>

definition simulate_scenario ::
  "(int \<Rightarrow> draws) \<Rightarrow> scenario \<Rightarrow> company_profile \<Rightarrow> int \<Rightarrow> int \<Rightarrow> remediation list \<Rightarrow> (failure + simulation) option" where
  "simulate_scenario uniforms s profile iterations seed remediations =
     (if \<not> (MIN_ITERATIONS \<le> iterations \<and> iterations \<le> MAX_ITERATIONS)
      then Some (Inl (bantam ''INVALID_SIMULATION'' ''iterations must be between 1,000 and 50,000'' 422))
      else if \<not> (0 \<le> seed \<and> seed < 2 ^ 32)
      then Some (Inl (bantam ''INVALID_SIMULATION'' ''seed must be a 32-bit unsigned integer'' 422))
      else
        let u = setup_of s profile remediations in
        case run_years u (nat iterations) (uniforms seed, empty_tally) of
          None \<Rightarrow> None
        | Some (_, t) \<Rightarrow> Some (Inr (report s profile iterations seed remediations u t)))"

record economics =
  ec_implementation_cost_gbp :: real
  ec_annual_run_cost_gbp :: real
  ec_first_year_cost_gbp :: real
  ec_annual_loss_reduction_gbp :: real
  ec_net_annual_benefit_gbp :: real
  ec_payback_years :: "real option"
  ec_exceedance_change :: real

definition programme_economics :: "simulation \<Rightarrow> simulation \<Rightarrow> remediation list \<Rightarrow> economics" where
  "programme_economics baseline residual remediations =
     (let build_cost = sum_list (map rm_estimated_cost_gbp remediations);
          run_cost = sum_list (map rm_annual_run_cost_gbp remediations);
          reduction = al_mean_gbp (si_annual_loss baseline) - al_mean_gbp (si_annual_loss residual);
          net_annual_benefit = reduction - run_cost in
      \<lparr>ec_implementation_cost_gbp = build_cost, ec_annual_run_cost_gbp = run_cost,
       ec_first_year_cost_gbp = build_cost + run_cost, ec_annual_loss_reduction_gbp = reduction,
       ec_net_annual_benefit_gbp = net_annual_benefit,
       ec_payback_years = (if net_annual_benefit > 0 then Some (build_cost / net_annual_benefit) else None),
       ec_exceedance_change = si_exceedance_probability residual - si_exceedance_probability baseline\<rparr>)"

end
