(* ===== verification/Simulation_Facts.thy ===== *)
theory Simulation_Facts
  imports Simulation
begin

text \<open>
  What the samplers return, when they return, and what a tally of simulated years holds.
\<close>

section \<open>Ranges of the samplers\<close>

lemma gamma_loop_pos:
  assumes "gamma_loop d c s = Some y" and "0 < d"
  shows "0 < fst y"
proof -
  have "0 < d \<longrightarrow> 0 < fst y"
  proof (rule gamma_loop.raw_induct [where P = "\<lambda>d c s y. 0 < d \<longrightarrow> 0 < fst y", OF _ assms(1)])
    fix loop :: "real \<Rightarrow> real \<Rightarrow> draws \<Rightarrow> (real \<times> draws) option" and d c s y
    assume ih: "\<And>d c s y. loop d c s = Some y \<Longrightarrow> 0 < d \<longrightarrow> 0 < fst y"
      and body: "(let x = fst (standard_normal s); s1 = snd (standard_normal s); base = 1 + c * x in
        if base \<le> 0 then loop d c s1
        else
          let v = base ^ 3; u = max (shd s1) (1 / 10 ^ 12); s2 = stl s1 in
          if u < 1 - 331 / 10000 * x ^ 4 then Some (d * v, s2)
          else if ln u < 1 / 2 * x\<^sup>2 + d * (1 - v + ln v) then Some (d * v, s2)
          else loop d c s2) = Some y"
    show "0 < d \<longrightarrow> 0 < fst y"
      using body ih by (auto simp: Let_def not_le split: if_splits)
  qed
  with assms(2) show ?thesis by simp
qed

lemma sample_gamma_pos:
  assumes "sample_gamma shape s = Some (x, s')" and "1 \<le> shape"
  shows "0 < x"
  using gamma_loop_pos [of "shape - 1 / 3" _ s "(x, s')"] assms by (auto simp: sample_gamma.simps [of shape] Let_def)

lemma sample_beta_range:
  assumes "sample_beta a b s = Some (x, s')" and "1 \<le> a" and "1 \<le> b"
  shows "0 \<le> x \<and> x \<le> 1"
proof -
  from assms(1) obtain l s1 r where g: "sample_gamma a s = Some (l, s1)" "sample_gamma b s1 = Some (r, s')"
    and x: "x = (if l + r > 0 then l / (l + r) else 1 / 2)"
    by (auto simp: sample_beta_def Let_def split: option.splits prod.splits)
  from sample_gamma_pos [OF g(1) assms(2)] sample_gamma_pos [OF g(2) assms(3)] show ?thesis unfolding x by simp
qed

lemma pert_shapes:
  assumes "\<not> maximum \<le> minimum"
  shows "1 \<le> 1 + PERT_LAMBDA * (min (max most_likely minimum) maximum - minimum) / (maximum - minimum)"
    "1 \<le> 1 + PERT_LAMBDA * (maximum - min (max most_likely minimum) maximum) / (maximum - minimum)"
  using assms by (simp_all add: PERT_LAMBDA_def)

lemma pert_range:
  assumes "pert minimum most_likely maximum s = Some (x, s')" and "minimum \<le> maximum"
  shows "minimum \<le> x \<and> x \<le> maximum"
proof (cases "maximum \<le> minimum")
  case True
  with assms show ?thesis by (simp add: pert_def)
next
  case False
  with assms(1) obtain y where y: "x = minimum + y * (maximum - minimum)"
    and b: "sample_beta (1 + PERT_LAMBDA * (min (max most_likely minimum) maximum - minimum) / (maximum - minimum))
      (1 + PERT_LAMBDA * (maximum - min (max most_likely minimum) maximum) / (maximum - minimum)) s = Some (y, s')"
    by (auto simp: pert_def Let_def split: option.splits)
  have "0 \<le> y" "y \<le> 1" using sample_beta_range [OF b pert_shapes [OF False]] by auto
  then have "0 \<le> y * (maximum - minimum)" "y * (maximum - minimum) \<le> 1 * (maximum - minimum)"
    using False by (auto intro!: mult_right_mono mult_nonneg_nonneg)
  then show ?thesis by (simp add: y)
qed

lemma pert_of_nonneg:
  assumes "pert_of l s = Some (x, s')" and "valid_loss_range l"
  shows "0 \<le> x"
  using pert_range [OF assms(1) [unfolded pert_of_def]] assms(2) by (auto simp: valid_loss_range_def money_def)

lemma poisson_loop_max: "count \<le> MAX_ATTEMPTS_PER_YEAR \<Longrightarrow> fst (poisson_loop limit p count s) \<le> MAX_ATTEMPTS_PER_YEAR"
  by (induction limit p count s rule: poisson_loop.induct)
    (subst poisson_loop.simps, auto simp: Let_def)

lemma poisson_max: "fst (poisson rate s) \<le> MAX_ATTEMPTS_PER_YEAR"
  by (auto simp: poisson_def poisson_loop_max nat_le_iff split: prod.splits)

section \<open>Streams that let the rejection loop end\<close>

text \<open>
  Infinitely often six consecutive numbers lie between 1/2 and 3/5. The numbers of a fair generator
  do so with probability 1.
\<close>

definition calm :: "draws \<Rightarrow> nat \<Rightarrow> bool" where
  "calm s m \<longleftrightarrow> (\<forall>k < 6. 1 / 2 \<le> s !! (m + k) \<and> s !! (m + k) \<le> 3 / 5)"

definition lively :: "draws \<Rightarrow> bool" where
  "lively s \<longleftrightarrow> (\<forall>n. \<exists>m \<ge> n. calm s m)"

lemma lively_sdrop: "lively s \<Longrightarrow> lively (sdrop j s)"
  unfolding lively_def calm_def
proof (intro allI)
  fix n
  assume "\<forall>n. \<exists>m \<ge> n. \<forall>k < 6. 1 / 2 \<le> s !! (m + k) \<and> s !! (m + k) \<le> 3 / 5"
  then obtain m where m: "n + j \<le> m" "\<forall>k < 6. 1 / 2 \<le> s !! (m + k) \<and> s !! (m + k) \<le> 3 / 5" by blast
  then show "\<exists>m \<ge> n. \<forall>k < 6. 1 / 2 \<le> sdrop j s !! (m + k) \<and> sdrop j s !! (m + k) \<le> 3 / 5"
    by (intro exI [of _ "m - j"]) (auto simp: sdrop_snth algebra_simps)
qed

lemma lively_stl: "lively s \<Longrightarrow> lively (stl s)"
  using lively_sdrop [of s 1] by simp

lemma calm_accepts:
  assumes "1 / 2 \<le> a" "a \<le> 3 / 5" and "1 / 2 \<le> u" "u \<le> 3 / 5" and "2 / 3 \<le> d"
    and x: "x = sqrt (- 2 * ln (max a (1 / 10 ^ 12))) * cos y"
  shows "0 < 1 + 1 / sqrt (9 * d) * x" "max u (1 / 10 ^ 12) < 1 - 331 / 10000 * x ^ 4"
proof -
  have "ln (1 / a) \<le> 1 / a - 1" using assms(1) by (intro ln_le_minus_one) simp
  moreover have "1 / a \<le> 2" using assms(1) by (simp add: divide_le_eq)
  moreover have "ln (1 / a) = - ln a" using assms(1) by (simp add: ln_div)
  moreover have "ln a \<le> 0" using assms(1,2) by simp
  ultimately have l: "- 2 * ln a \<le> 2" "0 \<le> - 2 * ln a" by linarith+
  have m: "max a (1 / 10 ^ 12) = a" using assms(1) by simp
  have c2: "(cos y)\<^sup>2 \<le> 1" by (simp add: abs_square_le_1)
  have "x\<^sup>2 = (- 2 * ln a) * (cos y)\<^sup>2" using l(2) unfolding x m by (simp add: power_mult_distrib)
  also have "\<dots> \<le> (2) * 1" using l c2 by (intro mult_mono) auto
  finally have x2: "x\<^sup>2 \<le> 2" by simp
  have "x ^ 4 = x\<^sup>2 * x\<^sup>2" by (simp add: power2_eq_square power4_eq_xxxx)
  also have "\<dots> \<le> (2) * (2)" using x2 by (intro mult_mono) auto
  finally show "max u (1 / 10 ^ 12) < 1 - 331 / 10000 * x ^ 4" using assms(3,4) by simp
  have "(1 / sqrt (9 * d) * x)\<^sup>2 = x\<^sup>2 / (9 * d)" using assms(5) by (simp add: power_mult_distrib power_divide)
  also have "\<dots> \<le> (2) / 6" using x2 assms(5) by (intro frac_le) auto
  also have "\<dots> < 1" by simp
  finally have "\<bar>1 / sqrt (9 * d) * x\<bar> < 1" by (simp only: abs_square_less_1)
  then show "0 < 1 + 1 / sqrt (9 * d) * x" by linarith
qed

lemma gamma_loop_step:
  "\<exists>k \<in> {2, 3}. gamma_loop d c s = gamma_loop d c (sdrop k s) \<or> (\<exists>x. gamma_loop d c s = Some (x, sdrop k s))"
proof -
  have s: "snd (standard_normal s) = sdrop 2 s" "stl (snd (standard_normal s)) = sdrop 3 s"
    by (simp_all add: standard_normal_def Let_def eval_nat_numeral)
  show ?thesis
    by (subst (1 3) gamma_loop.simps) (auto simp: Let_def s)
qed

lemma gamma_loop_calm:
  assumes "calm s m" and "2 / 3 \<le> d" and "m \<le> j" "j \<le> m + 3"
  shows "\<exists>x. gamma_loop d (1 / sqrt (9 * d)) (sdrop j s) = Some (x, sdrop (j + 3) s)"
proof -
  have w: "1 / 2 \<le> s !! i \<and> s !! i \<le> 3 / 5" if "m \<le> i" "i < m + 6" for i
    using assms(1) that unfolding calm_def by (metis add_less_cancel_left le_add_diff_inverse)
  let ?x = "fst (standard_normal (sdrop j s))"
  have x: "?x = sqrt (- 2 * ln (max (s !! j) (1 / 10 ^ 12))) * cos (2 * pi * s !! Suc j)"
    by (simp add: standard_normal_def Let_def sdrop_simps)
  have r: "snd (standard_normal (sdrop j s)) = sdrop (j + 2) s" by (simp add: standard_normal_def Let_def sdrop_simps)
  have a: "1 / 2 \<le> s !! j" "s !! j \<le> 3 / 5" "1 / 2 \<le> s !! (j + 2)" "s !! (j + 2) \<le> 3 / 5"
    using w [of j] w [of "j + 2"] assms(3,4) by auto
  have accept: "\<not> 1 + 1 / sqrt (9 * d) * ?x \<le> 0"
      "max (shd (sdrop (j + 2) s)) (1 / 10 ^ 12) < 1 - 331 / 10000 * ?x ^ 4"
    using calm_accepts [OF a assms(2) x] unfolding not_le sdrop_simps .
  have "gamma_loop d (1 / sqrt (9 * d)) (sdrop j s) =
      Some (d * (1 + 1 / sqrt (9 * d) * ?x) ^ 3, stl (sdrop (j + 2) s))"
    unfolding gamma_loop.simps [of d "1 / sqrt (9 * d)" "sdrop j s"] Let_def r if_not_P [OF accept(1)] if_P [OF accept(2)] ..
  then show ?thesis by (simp add: sdrop_simps numeral_3_eq_3)
qed

lemma gamma_loop_returns:
  assumes "lively s" and "2 / 3 \<le> d"
  shows "\<exists>x k. gamma_loop d (1 / sqrt (9 * d)) s = Some (x, sdrop k s)"
proof -
  obtain m where m: "calm s m" using assms(1) unfolding lively_def by blast
  have "\<exists>x k. gamma_loop d (1 / sqrt (9 * d)) (sdrop j s) = Some (x, sdrop k s)" if "j \<le> m + 3" for j
    using that
  proof (induction "m - j" arbitrary: j rule: less_induct)
    case less
    show ?case
    proof (cases "m \<le> j")
      case True
      with gamma_loop_calm [OF m assms(2) True less.prems] show ?thesis by blast
    next
      case False
      let ?g = "gamma_loop d (1 / sqrt (9 * d))"
      obtain k where k: "k \<in> {2, 3}" and r: "?g (sdrop j s) = ?g (sdrop k (sdrop j s)) \<or>
          (\<exists>x. ?g (sdrop j s) = Some (x, sdrop k (sdrop j s)))"
        using gamma_loop_step [of d "1 / sqrt (9 * d)" "sdrop j s"] by (elim bexE)
      have "m - (j + k) < m - j" "j + k \<le> m + 3" using k False by auto
      from less.hyps [OF this] have "\<exists>x n. ?g (sdrop k (sdrop j s)) = Some (x, sdrop n s)" by (simp only: sdrop_add)
      with r show ?thesis by (metis sdrop_add)
    qed
  qed
  from this [of 0] show ?thesis by simp
qed

text \<open>A sampler that returns on every lively stream and leaves a lively one.\<close>

definition returns :: "(draws \<Rightarrow> ('x \<times> draws) option) \<Rightarrow> bool" where
  "returns m \<longleftrightarrow> (\<forall>s. lively s \<longrightarrow> (\<exists>x s'. m s = Some (x, s') \<and> lively s'))"

lemma returnsD: "returns m \<Longrightarrow> lively s \<Longrightarrow> \<exists>x s'. m s = Some (x, s') \<and> lively s'"
  unfolding returns_def by blast

lemma sample_gamma_returns: "1 \<le> shape \<Longrightarrow> returns (sample_gamma shape)"
proof -
  assume shape: "1 \<le> shape"
  then have "sample_gamma shape s = gamma_loop (shape - 1 / 3) (1 / sqrt (9 * (shape - 1 / 3))) s" for s
    by (simp add: sample_gamma.simps [of shape] Let_def)
  moreover have "\<exists>x s'. gamma_loop (shape - 1 / 3) (1 / sqrt (9 * (shape - 1 / 3))) s = Some (x, s') \<and> lively s'"
    if "lively s" for s
    using gamma_loop_returns [OF that, of "shape - 1 / 3"] shape lively_sdrop [OF that] by auto
  ultimately show ?thesis unfolding returns_def by simp
qed

lemma sample_beta_returns: "1 \<le> a \<Longrightarrow> 1 \<le> b \<Longrightarrow> returns (sample_beta a b)"
  using returnsD [OF sample_gamma_returns [of a]] returnsD [OF sample_gamma_returns [of b]]
  unfolding returns_def sample_beta_def by fastforce

lemma pert_returns: "returns (pert minimum most_likely maximum)"
proof (cases "maximum \<le> minimum")
  case True
  then show ?thesis by (auto simp: returns_def pert_def)
next
  case False
  from returnsD [OF sample_beta_returns [OF pert_shapes [OF False, of most_likely]]] False show ?thesis
    unfolding returns_def pert_def Let_def by fastforce
qed

lemma pert_of_returns: "returns (pert_of l)"
  unfolding pert_of_def by (rule pert_returns)

text \<open>The samplers that always return drop numbers only.\<close>

lemma poisson_loop_lively: "lively s \<Longrightarrow> lively (snd (poisson_loop limit p count s))"
  by (induction limit p count s rule: poisson_loop.induct)
    (subst poisson_loop.simps, auto simp: Let_def lively_stl)

lemma poisson_lively: "lively s \<Longrightarrow> lively (snd (poisson rate s))"
  by (auto simp: poisson_def poisson_loop_lively standard_normal_def Let_def lively_stl split: prod.splits)

lemma any_detected_lively: "lively s \<Longrightarrow> lively (snd (any_detected u path s))"
  by (induction path arbitrary: s) (auto simp: bernoulli_def lively_stl)

lemma attempt_lively:
  "lively s \<Longrightarrow> lively (fst (snd (attempt u i depth s k)))"
  "lively s \<Longrightarrow> lively (fst (snd (attempt_each u cs depth satisfied s k)))"
  "lively s \<Longrightarrow> lively (fst (snd (attempt_first u cs depth s k)))"
proof (induction u i depth s k and u cs depth satisfied s k and u cs depth s k rule: attempt_attempt_each_attempt_first.induct)
  case (1 u i depth s k)
  then show ?case
    by (subst attempt.simps) (auto simp: bernoulli_def lively_stl split: option.splits)
qed (auto split: prod.splits)

section \<open>What satisfies a node\<close>

inductive achieves :: "run_setup \<Rightarrow> string \<Rightarrow> string list \<Rightarrow> bool" for u where
  leaf: "map_of (su_nodes u) i = Some n \<Longrightarrow> an_operator n = OP_LEAF \<Longrightarrow> achieves u i [i]"
| every_child: "map_of (su_nodes u) i = Some n \<Longrightarrow> an_operator n = OP_AND \<Longrightarrow> su_children u i \<noteq> [] \<Longrightarrow>
    list_all2 (achieves u) (su_children u i) paths \<Longrightarrow> achieves u i (concat paths)"
| some_child: "map_of (su_nodes u) i = Some n \<Longrightarrow> an_operator n = OP_OR \<Longrightarrow> c \<in> set (su_children u i) \<Longrightarrow>
    achieves u c path \<Longrightarrow> achieves u i path"

lemma achieves_nonempty: "achieves u i path \<Longrightarrow> path \<noteq> []"
proof (induction rule: achieves.induct)
  case (every_child i n paths)
  then show ?case by (cases "su_children u i"; cases paths) auto
qed simp_all

lemma attempt_achieves:
  "attempt u i depth s k = ((True, path), s', k') \<Longrightarrow> achieves u i path"
  "attempt_each u cs depth satisfied s k = ((True, path), s', k') \<Longrightarrow>
     \<exists>paths. list_all2 (achieves u) cs paths \<and> path = satisfied @ concat paths \<and> path \<noteq> []"
  "attempt_first u cs depth s k = ((True, path), s', k') \<Longrightarrow> \<exists>c \<in> set cs. achieves u c path"
proof (induction u i depth s k and u cs depth satisfied s k and u cs depth s k arbitrary: path s' k' and path s' k' and path s' k'
    rule: attempt_attempt_each_attempt_first.induct)
  case (1 u i depth s k)
  from 1(3) obtain n where n: "map_of (su_nodes u) i = Some n" "\<not> depth > MAX_ATTACK_TREE_DEPTH"
    by (auto simp: attempt.simps [of u i] split: option.splits if_splits)
  consider "an_operator n = OP_LEAF" | "an_operator n = OP_AND" | "an_operator n = OP_OR" by (cases "an_operator n") auto
  then show ?case
  proof cases
    case 1
    with n "1.prems" show ?thesis
      by (auto simp: attempt.simps [of u i] intro: achieves.leaf split: prod.splits if_splits)
  next
    case 2
    with n "1.prems" have "attempt_each u (su_children u i) (depth + 1) [] s k = ((True, path), s', k')"
      by (simp add: attempt.simps [of u i])
    with "1.IH"(1) [OF n(1) n(2)] 2 obtain paths where "list_all2 (achieves u) (su_children u i) paths" "path = concat paths" "path \<noteq> []"
      by force
    with n(1) 2 show ?thesis by (auto intro: achieves.every_child)
  next
    case 3
    with n "1.prems" have "attempt_first u (su_children u i) (depth + 1) s k = ((True, path), s', k')"
      by (simp add: attempt.simps [of u i])
    with "1.IH"(2) [OF n(1) n(2)] 3 obtain c where "c \<in> set (su_children u i)" "achieves u c path"
      by force
    with n(1) 3 show ?thesis by (auto intro: achieves.some_child)
  qed
next
  case (3 u c cs depth satisfied s k)
  from "3.prems" obtain p s1 k1 where a: "attempt u c depth s k = ((True, p), s1, k1)"
    "attempt_each u cs depth (satisfied @ p) s1 k1 = ((True, path), s', k')"
    by (auto split: prod.splits if_splits)
  from "3.IH"(1) [OF a(1)] have "achieves u c p" .
  moreover from "3.IH"(2) a obtain ps where "list_all2 (achieves u) cs ps" "path = (satisfied @ p) @ concat ps" "path \<noteq> []"
    by fastforce
  ultimately show ?case by (intro exI [of _ "p # ps"]) auto
next
  case (5 u c cs depth s k)
  then show ?case by (auto split: prod.splits if_splits)
qed auto

end
