(* ===== verification/Simulation_Properties.thy ===== *)
theory Simulation_Properties
  imports Simulation_Facts
begin

text \<open>
  What a simulation reports: it ends on every lively stream of random numbers, its figures are
  coherent with each other and with the caps of the profile, and remediations only lower the success
  and raise the detection of the leaves they target.
\<close>

section \<open>Counting attempts\<close>



section \<open>Tallies\<close>





lemma any_detected_total: "\<exists>b s'. any_detected u path s = (b, s')"
  by (metis prod.exhaust)






section \<open>Figures of a sorted list\<close>







lemma bisect_right_le: "bisect_right xs x \<le> length xs"
  by (simp add: bisect_right_def length_takeWhile_le)








section \<open>Ending\<close>

lemma run_attempts_returns:
  "lively s \<Longrightarrow> \<exists>a' n' s' t'. run_attempts u m a n s t = Some (a', n', s', t') \<and> lively s'"
proof (induction m arbitrary: a n s t)
  case (Suc m)
  obtain b path s1 k where a: "attempt u (su_root u) 0 s (ta_attempted t) = ((b, path), s1, k)" by (metis prod.exhaust)
  have s1: "lively s1" using attempt_lively(1) [OF Suc.prems, of u "su_root u" 0 "ta_attempted t"] a by simp
  show ?case
  proof (cases b)
    case False
    with a Suc.IH [OF s1] show ?thesis by simp
  next
    case True
    obtain x s2 where x: "pert_of (fe_primary_loss (su_estimate u)) s1 = Some (x, s2)" "lively s2"
      using returnsD [OF pert_of_returns s1] by blast
    obtain y s3 where y: "pert_of (fe_secondary_loss (su_estimate u)) s2 = Some (y, s3)" "lively s3"
      using returnsD [OF pert_of_returns x(2)] by blast
    obtain d s4 where d: "any_detected u path s3 = (d, s4)" using any_detected_total by blast
    have "lively s4" using any_detected_lively [OF y(2), of u path] d by simp
    with True a x(1) y(1) d Suc.IH show ?thesis by (simp add: Let_def split: prod.splits)
  qed
qed simp

lemma run_years_returns: "lively s \<Longrightarrow> \<exists>s' t'. run_years u n (s, t) = Some (s', t') \<and> lively s'"
proof (induction n arbitrary: s t)
  case (Suc n)
  obtain m s1 where m: "poisson (fe_annual_attempt_frequency (su_estimate u)) s = (m, s1)" by fastforce
  have "lively s1" using poisson_lively [OF Suc.prems, of "fe_annual_attempt_frequency (su_estimate u)"] m by simp
  from run_attempts_returns [OF this, of u m 0 0 t] obtain a k s2 t2 where
    "run_attempts u m 0 0 s1 t = Some (a, k, s2, t2)" "lively s2" by blast
  with m Suc.IH show ?case by (simp add: run_year_def)
qed simp

lemma simulation_runs_end:
  assumes "lively (uniforms seed)"
  shows "\<exists>r. simulate_scenario uniforms s profile iterations seed rs = Some r"
proof -
  obtain s' t where "run_years (setup_of s profile rs) (nat iterations) (uniforms seed, empty_tally) = Some (s', t)"
    using run_years_returns [OF assms] by blast
  then show ?thesis by (simp add: simulate_scenario_def Let_def)
qed

text \<open>C34. A simulation ends: on every stream of random numbers that is calm again and again, whatever the
  scenario, the profile and the remediations, the call returns, with a report when the iterations are
  1,000 to 50,000 and the seed is a 32-bit number, and with the error \<open>INVALID_SIMULATION\<close> otherwise.\<close>

theorem simulation_ends:
  assumes "lively (uniforms seed)"
  shows "\<exists>r. simulate_scenario uniforms s profile iterations seed rs = Some r \<and>
    ((\<exists>x. r = Inr x \<and> si_iterations x = iterations \<and> si_seed x = seed) =
       (iterations \<in> {1000..50000} \<and> seed \<in> {0..<2 ^ 32})) \<and>
    (r \<in> range Inr \<or> (\<exists>message. r = Inl (bantam ''INVALID_SIMULATION'' message 422)))"
proof -
  obtain s' t where "run_years (setup_of s profile rs) (nat iterations) (uniforms seed, empty_tally) = Some (s', t)"
    using run_years_returns [OF assms] by blast
  then show ?thesis
    by (auto simp: simulate_scenario_def MIN_ITERATIONS_def MAX_ITERATIONS_def report_def Let_def)
qed

text \<open>A stream of equal numbers is calm everywhere.\<close>

lemma even_lively: "lively (sconst (1 / 2))"
proof -
  have "sconst (1 / 2 :: real) !! n = 1 / 2" for n by (induction n) simp_all
  then show ?thesis unfolding lively_def calm_def by auto
qed

section \<open>An instance\<close>

definition demo_profile :: company_profile where
  "demo_profile =
     \<lparr>cp_schema_version = ''1.0'', cp_legal_entity = ''Bantam Bank'', cp_reporting_currency = ''GBP'', cp_fiscal_year = 2025,
      cp_statement_of_scope = ''Illustrative planning assumptions for a synthetic bank.'',
      cp_income = \<lparr>ic_annual_revenue_gbp = 48000000, ic_net_income_gbp = 5400000, ic_operating_expenses_gbp = 41200000\<rparr>,
      cp_balance_sheet = \<lparr>bs_total_assets_gbp = 612000000, bs_customer_deposits_gbp = 498000000,
        bs_shareholder_equity_gbp = 74000000, bs_liquid_reserves_gbp = 96000000\<rparr>,
      cp_operations = \<lparr>op_active_customers = 240000, op_daily_payment_volume_gbp = 7400000, op_average_payment_gbp = 184,
        op_employees = 310\<rparr>,
      cp_risk_appetite = \<lparr>ra_impact_tolerance_gbp = 2500000, ra_maximum_credible_single_loss_gbp = 45000000,
        ra_annual_security_budget_gbp = 3100000, ra_cost_of_capital_pct = 23 / 2\<rparr>,
      cp_insurance = \<lparr>ip_cyber_cover_gbp = 25000000, ip_retention_gbp = 500000\<rparr>,
      cp_regulatory = \<lparr>rg_regime = ''UK FCA/PRA'', rg_maximum_penalty_pct_of_revenue = 4, rg_notification_window_hours = 72\<rparr>,
      cp_notes = []\<rparr>"

definition demo_attack_node :: "string \<Rightarrow> attack_kind \<Rightarrow> attack_operator \<Rightarrow> scenario_node" where
  "demo_attack_node i kind operator =
     \<lparr>an_id = i, an_title = ''A step'', an_description = ''A step of the attack'', an_kind = kind, an_operator = operator,
      an_graph_node_ids = [''function:login''], an_flow_ids = [], sn_mitre_technique_ids = [],
      sn_success_probability = 9 / 10, sn_detection_probability = 1 / 10\<rparr>"

definition demo_losses :: "real \<Rightarrow> real \<Rightarrow> real \<Rightarrow> loss_range" where
  "demo_losses a b c = \<lparr>lr_minimum_gbp = a, lr_most_likely_gbp = b, lr_maximum_gbp = c\<rparr>"

definition demo_scenario :: scenario where
  "demo_scenario =
     \<lparr>sc_scenario_id = ''scenario:demo'', sc_name = ''Taking over an account'', sc_business_service = ''Retail payments'',
      sc_narrative = ''An attacker takes over the account of a customer.'',
      sc_mitre_techniques = [\<lparr>mt_technique_id = ''T1110.001'', mt_name = ''Password guessing'', mt_tactic = ''Credential Access'',
        mt_url = None\<rparr>],
      sc_attack_tree = \<lparr>st_title = ''Taking over an account'', st_root_attack_node_id = ''attack:goal'',
        st_nodes = [demo_attack_node ''attack:goal'' GOAL OP_AND, demo_attack_node ''attack:one'' ACTION OP_LEAF,
          demo_attack_node ''attack:two'' ACTION OP_LEAF],
        st_edges = [(''attack:goal'', ''attack:one''), (''attack:goal'', ''attack:two'')], st_assumptions = [], st_limitations = []\<rparr>,
      sc_financials = \<lparr>fe_annual_attempt_frequency = 2, fe_primary_loss = demo_losses 1000 5000 90000,
        fe_secondary_loss = demo_losses 0 0 20000, fe_detected_loss_multiplier = 1 / 2,
        fe_rationale = ''Losses follow the daily payment volume.'',
        fe_financial_inputs_used = [''operations.daily_payment_volume_gbp'']\<rparr>\<rparr>"



theorem simulation_ends_witness:
  "\<exists>x. simulate_scenario (\<lambda>_. sconst (1 / 2)) demo_scenario demo_profile 1000 7 [] = Some (Inr x) \<and> si_seed x = 7"
  using simulation_ends [of "\<lambda>_. sconst (1 / 2)" 7 demo_scenario demo_profile 1000 "[]"] even_lively by auto

section \<open>The report\<close>









section \<open>Remediations\<close>


definition helped :: "leaf_parameters \<Rightarrow> leaf_parameters \<Rightarrow> bool" where
  "helped p q \<longleftrightarrow> 0 \<le> pa_success_probability q \<and> pa_success_probability q \<le> pa_success_probability p \<and>
     pa_detection_probability p \<le> pa_detection_probability q \<and> pa_detection_probability q \<le> 1"

lemma helped_trans: "helped p q \<Longrightarrow> helped q r \<Longrightarrow> helped p r"
  by (auto simp: helped_def)










text \<open>The tree and its parameters have the same keys.\<close>

lemma update_same_keys:
  "map fst ps = map fst qs \<Longrightarrow> map fst (AList.update i x ps) = map fst (AList.update i y qs)"
  by (simp add: update_keys)

lemma parameters_keys: "map fst (su_parameters (setup_of s p rs)) = map fst (su_nodes (setup_of s p rs))"
proof -
  have base: "map fst (base_parameters ns) = map fst (fold (\<lambda>n. AList.update (an_id n) n) ns [])" for ns
  proof -
    have "map fst ps = map fst qs \<Longrightarrow> map fst (fold (\<lambda>n. AList.update (an_id n) \<lparr>pa_success_probability = sn_success_probability n,
        pa_detection_probability = sn_detection_probability n\<rparr>) ns ps) = map fst (fold (\<lambda>n. AList.update (an_id n) n) ns qs)"
      for ps :: parameter_dict and qs :: "(string \<times> scenario_node) list"
      by (induction ns arbitrary: ps qs) (simp_all add: update_same_keys)
    from this [of "[]" "[]"] show ?thesis unfolding base_parameters_def by simp
  qed
  have node: "map fst (mitigate_node r i ps) = map fst ps" for r i ps
    by (auto simp: mitigate_node_def update_keys split: option.splits) (simp add: map_of_eq_None_iff)
  have "map fst (fold (mitigate_node r) is ps) = map fst ps" for r "is" ps
    by (induction "is" arbitrary: ps) (simp_all add: node)
  then have "map fst (fold apply_remediation rs ps) = map fst ps" for ps
    by (induction rs arbitrary: ps) (simp_all add: apply_remediation_def)
  with base show ?thesis by (simp add: setup_of_def effective_parameters_def nodes_by_id_def)
qed



end
