(* ===== verification/Lab_Store.thy ===== *)
theory Lab_Store
  imports Simulation Assurance_Store
begin

text \<open>
  The tables of migration 010 beside those of the workflow and repository graphs: financial profiles,
  scenario sets, simulations and remediation plans, with their constraints. A JSON column holds the
  value that is stored in it.
\<close>

section \<open>Rows\<close>

record profile_row =
  fp_profile_id :: uuid
  fp_version :: int
  fp_profile :: company_profile
  fp_profile_digest :: string
  fp_change_note :: string
  fp_created_by :: uuid
  fp_created_at :: timestamp

record scenario_set_row =
  as_scenario_set_id :: uuid
  as_graph_source :: string
  as_snapshot_id :: "uuid option"
  as_graph_digest :: string
  as_profile_version :: int
  as_profile_digest :: string
  as_profile :: company_profile
  as_software_inventory :: inventory
  as_model_result :: "(provenance, scenario_set) lab_result"
  as_created_by :: uuid
  as_created_at :: timestamp

record simulation_outcome =
  so_baseline :: simulation
  so_residual :: "simulation option"
  so_economics :: "economics option"

record simulation_row =
  ar_simulation_id :: uuid
  ar_scenario_set_id :: uuid
  ar_scenario_id :: string
  ar_iterations :: int
  ar_seed :: int
  ar_remediation_plan_id :: "uuid option"
  ar_applied_remediation_ids :: "string list"
  ar_result :: simulation_outcome
  ar_created_by :: uuid
  ar_created_at :: timestamp

record plan_provenance =
  vp_scenario_id :: string
  vp_simulation_seed :: int
  vp_simulation_iterations :: int
  vp_request_sha256 :: string

record plan_row =
  mp_remediation_plan_id :: uuid
  mp_simulation_id :: uuid
  mp_scenario_set_id :: uuid
  mp_scenario_id :: string
  mp_model_result :: "(plan_provenance, remediation_plan) lab_result"
  mp_created_by :: uuid
  mp_created_at :: timestamp

record lab_db =
  ld_assurance :: assurance_db
  ld_profiles :: "profile_row list"
  ld_scenario_sets :: "scenario_set_row list"
  ld_simulations :: "simulation_row list"
  ld_plans :: "plan_row list"

definition known_user :: "uuid \<Rightarrow> lab_db \<Rightarrow> bool" where
  "known_user i a \<longleftrightarrow> known ua_user_id i (user_accounts (ad_bank (ld_assurance a)))"

section \<open>INSERT statements\<close>

definition insert_profile :: "profile_row \<Rightarrow> lab_db \<Rightarrow> failure + lab_db" where
  "insert_profile r a =
     (if fp_version r > 2147483647 then Inl NumericValueOutOfRange
      else if \<not> fp_version r > 0 then Inl (CheckViolation ''company_financial_profiles_version_check'')
      else if \<not> hex_between 64 64 (fp_profile_digest r) then Inl (CheckViolation ''company_financial_profiles_profile_digest_check'')
      else if length (fp_change_note r) > 500 then Inl (CheckViolation ''company_financial_profiles_change_note_check'')
      else if known fp_profile_id (fp_profile_id r) (ld_profiles a) then Inl (UniqueViolation ''company_financial_profiles_pkey'')
      else if known fp_version (fp_version r) (ld_profiles a) then Inl (UniqueViolation ''company_financial_profiles_version_key'')
      else if \<not> known_user (fp_created_by r) a then Inl (ForeignKeyViolation ''company_financial_profiles_created_by_fkey'')
      else Inr (a\<lparr>ld_profiles := ld_profiles a @ [r]\<rparr>))"

definition insert_scenario_set :: "scenario_set_row \<Rightarrow> lab_db \<Rightarrow> failure + lab_db" where
  "insert_scenario_set r a =
     (if as_graph_source r \<notin> {''BUILTIN'', ''REPOSITORY_SNAPSHOT''}
      then Inl (CheckViolation ''attack_scenario_sets_graph_source_check'')
      else if \<not> hex_between 64 64 (as_graph_digest r) then Inl (CheckViolation ''attack_scenario_sets_graph_digest_check'')
      else if as_profile_version r > 2147483647 then Inl NumericValueOutOfRange
      else if \<not> as_profile_version r \<ge> 0 then Inl (CheckViolation ''attack_scenario_sets_financial_profile_version_check'')
      else if \<not> hex_between 64 64 (as_profile_digest r)
      then Inl (CheckViolation ''attack_scenario_sets_financial_profile_digest_check'')
      else if (as_graph_source r = ''REPOSITORY_SNAPSHOT'') \<noteq> (as_snapshot_id r \<noteq> None)
      then Inl (CheckViolation ''attack_scenario_sets_snapshot_matches_source'')
      else if known as_scenario_set_id (as_scenario_set_id r) (ld_scenario_sets a)
      then Inl (UniqueViolation ''attack_scenario_sets_pkey'')
      else if (case as_snapshot_id r of None \<Rightarrow> False
               | Some s \<Rightarrow> \<not> known sh_snapshot_id s (ad_snapshots (ld_assurance a)))
      then Inl (ForeignKeyViolation ''attack_scenario_sets_repository_graph_snapshot_id_fkey'')
      else if \<not> known_user (as_created_by r) a then Inl (ForeignKeyViolation ''attack_scenario_sets_created_by_fkey'')
      else Inr (a\<lparr>ld_scenario_sets := ld_scenario_sets a @ [r]\<rparr>))"

definition insert_simulation :: "simulation_row \<Rightarrow> lab_db \<Rightarrow> failure + lab_db" where
  "insert_simulation r a =
     (if \<not> length_in 1 120 (ar_scenario_id r) then Inl (CheckViolation ''attack_simulations_scenario_id_check'')
      else if \<not> (1000 \<le> ar_iterations r \<and> ar_iterations r \<le> 50000) then Inl (CheckViolation ''attack_simulations_iterations_check'')
      else if \<not> (0 \<le> ar_seed r \<and> ar_seed r \<le> 4294967295) then Inl (CheckViolation ''attack_simulations_seed_check'')
      else if known ar_simulation_id (ar_simulation_id r) (ld_simulations a) then Inl (UniqueViolation ''attack_simulations_pkey'')
      else if \<not> known as_scenario_set_id (ar_scenario_set_id r) (ld_scenario_sets a)
      then Inl (ForeignKeyViolation ''attack_simulations_scenario_set_id_fkey'')
      else if (case ar_remediation_plan_id r of None \<Rightarrow> False | Some i \<Rightarrow> \<not> known mp_remediation_plan_id i (ld_plans a))
      then Inl (ForeignKeyViolation ''attack_simulations_remediation_plan_fkey'')
      else if \<not> known_user (ar_created_by r) a then Inl (ForeignKeyViolation ''attack_simulations_created_by_fkey'')
      else Inr (a\<lparr>ld_simulations := ld_simulations a @ [r]\<rparr>))"

definition insert_plan :: "plan_row \<Rightarrow> lab_db \<Rightarrow> failure + lab_db" where
  "insert_plan r a =
     (if \<not> length_in 1 120 (mp_scenario_id r) then Inl (CheckViolation ''attack_remediation_plans_scenario_id_check'')
      else if known mp_remediation_plan_id (mp_remediation_plan_id r) (ld_plans a)
      then Inl (UniqueViolation ''attack_remediation_plans_pkey'')
      else if \<not> known ar_simulation_id (mp_simulation_id r) (ld_simulations a)
      then Inl (ForeignKeyViolation ''attack_remediation_plans_simulation_id_fkey'')
      else if \<not> known as_scenario_set_id (mp_scenario_set_id r) (ld_scenario_sets a)
      then Inl (ForeignKeyViolation ''attack_remediation_plans_scenario_set_id_fkey'')
      else if \<not> known_user (mp_created_by r) a then Inl (ForeignKeyViolation ''attack_remediation_plans_created_by_fkey'')
      else Inr (a\<lparr>ld_plans := ld_plans a @ [r]\<rparr>))"

text \<open>The audit record of a change, in the same transaction.\<close>

definition audit_lab :: "audit_args \<Rightarrow> audit_fresh \<Rightarrow> lab_db \<Rightarrow> failure + lab_db" where
  "audit_lab args fx a = andthen (audit_beside args fx (ld_assurance a)) (\<lambda>s. Inr (a\<lparr>ld_assurance := s\<rparr>))"

section \<open>What an INSERT that succeeded did\<close>

lemma insert_profile_InrD:
  "insert_profile r a = Inr a' \<Longrightarrow> a' = a\<lparr>ld_profiles := ld_profiles a @ [r]\<rparr> \<and>
     0 < fp_version r \<and> \<not> known fp_version (fp_version r) (ld_profiles a)"
  by (auto simp: insert_profile_def split: if_splits)

lemma insert_scenario_set_InrD:
  "insert_scenario_set r a = Inr a' \<Longrightarrow> a' = a\<lparr>ld_scenario_sets := ld_scenario_sets a @ [r]\<rparr> \<and>
     (case as_snapshot_id r of None \<Rightarrow> as_graph_source r = ''BUILTIN''
      | Some s \<Rightarrow> as_graph_source r = ''REPOSITORY_SNAPSHOT'' \<and> known sh_snapshot_id s (ad_snapshots (ld_assurance a)))"
  by (cases "as_snapshot_id r") (simp_all add: insert_scenario_set_def split: if_splits, blast?)

lemma insert_simulation_InrD:
  "insert_simulation r a = Inr a' \<Longrightarrow> a' = a\<lparr>ld_simulations := ld_simulations a @ [r]\<rparr> \<and>
     known as_scenario_set_id (ar_scenario_set_id r) (ld_scenario_sets a)"
  by (simp add: insert_simulation_def split: if_splits)

lemma insert_plan_InrD:
  "insert_plan r a = Inr a' \<Longrightarrow> a' = a\<lparr>ld_plans := ld_plans a @ [r]\<rparr> \<and>
     known ar_simulation_id (mp_simulation_id r) (ld_simulations a)"
  by (simp add: insert_plan_def split: if_splits)

lemma audit_lab_InrD:
  "audit_lab args fx a = Inr a' \<Longrightarrow>
     \<exists>row. a' = a\<lparr>ld_assurance := (ld_assurance a)\<lparr>ad_bank := (ad_bank (ld_assurance a))
         \<lparr>audit_events := audit_events (ad_bank (ld_assurance a)) @ [row]\<rparr>\<rparr>\<rparr> \<and>
       au_action row = aa_action args \<and> au_resource_id row = aa_resource_id args"
  by (auto simp: audit_lab_def audit_beside_def elim!: andthen_InrE dest!: audit_record_InrD)

end
