(* ===== verification/Attack_Lab.thy ===== *)
theory Attack_Lab
  imports Lab_Store
begin

text \<open>
  \<open>CompanyFinancialsService\<close> of \<open>bantam/financials.py\<close> and
  \<open>AttackSimulationService\<close> of \<open>bantam/attack_simulation.py\<close> over the tables of
  theory \<open>Lab_Store\<close>. A call of the simulation is an option, \<open>None\<close> when it does not return.
\<close>

section \<open>Company financials\<close>

record current_profile =
  cf_profile_id :: "uuid option"
  cf_version :: int
  cf_source :: string
  cf_profile :: company_profile
  cf_profile_digest :: string
  cf_change_note :: string
  cf_created_by :: "uuid option"
  cf_created_at :: "timestamp option"
  cf_financial_inputs :: "(string \<times> real) list"

definition reviewed :: "profile_row \<Rightarrow> current_profile" where
  "reviewed r =
     \<lparr>cf_profile_id = Some (fp_profile_id r), cf_version = fp_version r, cf_source = ''REVIEWED_VERSION'',
      cf_profile = fp_profile r, cf_profile_digest = fp_profile_digest r, cf_change_note = fp_change_note r,
      cf_created_by = Some (fp_created_by r), cf_created_at = Some (fp_created_at r),
      cf_financial_inputs = financial_inputs (fp_profile r)\<rparr>"

text \<open>\<open>ORDER BY version DESC\<close>.\<close>

definition newest_profiles :: "lab_db \<Rightarrow> profile_row list" where
  "newest_profiles a = sort_key (\<lambda>r. - fp_version r) (ld_profiles a)"

definition current_financials :: "profile_library \<Rightarrow> company_profile \<Rightarrow> lab_db \<Rightarrow> current_profile" where
  "current_financials lib default_profile a =
     (case newest_profiles a of
        [] \<Rightarrow> \<lparr>cf_profile_id = None, cf_version = 0, cf_source = ''REPOSITORY_DEFAULT'', cf_profile = default_profile,
          cf_profile_digest = profile_digest lib default_profile,
          cf_change_note = ''Shipped default assumptions; no reviewed version saved yet.'',
          cf_created_by = None, cf_created_at = None, cf_financial_inputs = financial_inputs default_profile\<rparr>
      | r # _ \<Rightarrow> reviewed r)"

record financials_overview =
  fo_current :: current_profile
  fo_history :: "profile_row list"
  fo_repository_default :: company_profile
  fo_input_names :: "string list"

definition financials_overview :: "profile_library \<Rightarrow> company_profile \<Rightarrow> lab_db \<Rightarrow> financials_overview" where
  "financials_overview lib default_profile a =
     \<lparr>fo_current = current_financials lib default_profile a, fo_history = take 25 (newest_profiles a),
      fo_repository_default = default_profile, fo_input_names = FINANCIAL_INPUT_NAMES\<rparr>"

record lab_fresh =
  lx_id :: uuid
  lx_now :: timestamp
  lx_audit :: audit_fresh

definition next_version :: "lab_db \<Rightarrow> int" where
  "next_version a = fold max (map fp_version (ld_profiles a)) 0 + 1"

text \<open>The JSON of a float in the metadata of an audit record is a parameter.\<close>

definition profile_audit :: "(real \<Rightarrow> json) \<Rightarrow> audit_args \<Rightarrow> profile_row \<Rightarrow> audit_args" where
  "profile_audit number audit_fields r = audit_fields
     \<lparr>aa_action := ''COMPANY_FINANCIALS_UPDATED'', aa_resource_type := ''company_financial_profile'',
      aa_resource_id := uuid_str (fp_profile_id r),
      aa_metadata := JObj [(''version'', JInt (fp_version r)), (''profile_digest'', JStr (fp_profile_digest r)),
        (''fiscal_year'', JInt (cp_fiscal_year (fp_profile r))),
        (''impact_tolerance_gbp'', number (ra_impact_tolerance_gbp (cp_risk_appetite (fp_profile r))))]\<rparr>"

text \<open>The version is read and written by one statement, inside the transaction.\<close>

definition update_financials ::
  "profile_library \<Rightarrow> (real \<Rightarrow> json) \<Rightarrow> string \<Rightarrow> string \<Rightarrow> uuid \<Rightarrow> audit_args \<Rightarrow> lab_fresh
     \<Rightarrow> (lab_db, failure, current_profile) proc" where
  "update_financials lib number document change_note created_by audit_fields fx a0 =
     (case parse_profile lib document of
        Inl e \<Rightarrow> (Inl e, a0)
      | Inr profile \<Rightarrow>
          in_transaction (\<lambda>a.
            let row = \<lparr>fp_profile_id = lx_id fx, fp_version = next_version a, fp_profile = profile,
                  fp_profile_digest = profile_digest lib profile, fp_change_note = take 500 (py_strip change_note),
                  fp_created_by = created_by, fp_created_at = lx_now fx\<rparr> in
            andthen (insert_profile row a) (\<lambda>a1.
            andthen (audit_lab (profile_audit number audit_fields row) (lx_audit fx) a1) (\<lambda>a2.
            Inr (reviewed row, a2)))) a0)"

section \<open>The attack laboratory\<close>

record lab_deps =
  dp_builtin_catalog :: repository_catalog
  dp_profile_library :: profile_library
  dp_default_profile :: company_profile
  dp_models_client :: "model_provider option"
  dp_library :: lab_library
  dp_remediation_request :: "scenario \<Rightarrow> simulation \<Rightarrow> company_profile \<Rightarrow> inventory \<Rightarrow> gnode list \<Rightarrow> json"
  dp_uniforms :: "int \<Rightarrow> draws"
  dp_number :: "real \<Rightarrow> json"

definition set_row :: "uuid \<Rightarrow> lab_db \<Rightarrow> failure + scenario_set_row" where
  "set_row scenario_set_id a =
     (case row_get as_scenario_set_id scenario_set_id (ld_scenario_sets a) of
        None \<Rightarrow> Inl (bantam ''NOT_FOUND'' ''attack scenario set was not found'' 404)
      | Some r \<Rightarrow> Inr r)"

definition catalog_for :: "lab_deps \<Rightarrow> string \<Rightarrow> uuid option \<Rightarrow> lab_db \<Rightarrow> failure + repository_catalog \<times> uuid option" where
  "catalog_for deps graph_source snapshot_id a =
     (if graph_source = ''BUILTIN'' then Inr (dp_builtin_catalog deps, None)
      else case snapshot_id of
        None \<Rightarrow> Inl (bantam ''INVALID_GRAPH_SOURCE'' ''a repository snapshot id is required for a snapshot graph source'' 422)
      | Some i \<Rightarrow>
          (case row_get sh_snapshot_id i (ad_snapshots (ld_assurance a)) of
             None \<Rightarrow> Inl (bantam ''NOT_FOUND'' ''repository graph snapshot was not found'' 404)
           | Some r \<Rightarrow> Inr (sh_graph r, Some i)))"

definition scenario_in :: "scenario_set_row \<Rightarrow> string \<Rightarrow> failure + scenario" where
  "scenario_in row scenario_id =
     (case lb_answer (as_model_result row) of
        None \<Rightarrow> Inl (bantam ''ATTACK_SCENARIOS_UNAVAILABLE'' ''this set has no validated attack scenarios to simulate'' 409)
      | Some s \<Rightarrow>
          (case find (\<lambda>x. sc_scenario_id x = scenario_id) (ss_scenarios s) of
             None \<Rightarrow> Inl (bantam ''NOT_FOUND'' ''attack scenario was not found in this set'' 404)
           | Some x \<Rightarrow> Inr x))"

text \<open>\<open>ORDER BY created_at DESC LIMIT n\<close>; rows of one instant in insertion order.\<close>

definition newest_by :: "('r \<Rightarrow> timestamp) \<Rightarrow> nat \<Rightarrow> 'r list \<Rightarrow> 'r list" where
  "newest_by created_at n rows = take n (sort_key (\<lambda>r. - created_at r) rows)"

record lab_overview =
  lo_mistral_configured :: bool
  lo_graph_digest :: string
  lo_graph_sizes :: "nat \<times> nat \<times> nat"
  lo_software_inventory :: inventory
  lo_financials :: current_profile
  lo_repository_snapshots :: "snapshot_row list"
  lo_scenario_sets :: "(scenario_set_row \<times> nat) list"

definition lab_overview :: "lab_deps \<Rightarrow> lab_db \<Rightarrow> lab_overview" where
  "lab_overview deps a =
     (let c = dp_builtin_catalog deps in
      \<lparr>lo_mistral_configured = (dp_models_client deps \<noteq> None), lo_graph_digest = cat_digest c,
       lo_graph_sizes = (length (cat_nodes c), length (cat_edges c), length (cat_flows c)),
       lo_software_inventory = build_software_inventory c,
       lo_financials = current_financials (dp_profile_library deps) (dp_default_profile deps) a,
       lo_repository_snapshots = newest_by sh_created_at 25 (ad_snapshots (ld_assurance a)),
       lo_scenario_sets = map (\<lambda>s. (s, length (filter (\<lambda>r. ar_scenario_set_id r = as_scenario_set_id s) (ld_simulations a))))
         (newest_by as_created_at 25 (ld_scenario_sets a))\<rparr>)"

type_synonym set_view = "scenario_set_row \<times> simulation_row list \<times> plan_row list"

definition get_scenario_set :: "uuid \<Rightarrow> lab_db \<Rightarrow> failure + set_view" where
  "get_scenario_set scenario_set_id a =
     andthen (set_row scenario_set_id a) (\<lambda>row. Inr
       (row, newest_by ar_created_at 50 (filter (\<lambda>r. ar_scenario_set_id r = scenario_set_id) (ld_simulations a)),
        newest_by mp_created_at 50 (filter (\<lambda>r. mp_scenario_set_id r = scenario_set_id) (ld_plans a))))"

record lab_world =
  lw_store :: lab_db
  lw_sent :: "json list"

record scenario_request =
  qs_graph_source :: string
  qs_snapshot_id :: "uuid option"
  qs_scenario_count :: int
  qs_send_to_mistral :: bool

definition scenario_audit :: "audit_args \<Rightarrow> scenario_set_row \<Rightarrow> audit_args" where
  "scenario_audit audit_fields r = audit_fields
     \<lparr>aa_action := ''ATTACK_SCENARIOS_GENERATED'', aa_resource_type := ''attack_scenario_set'',
      aa_resource_id := uuid_str (as_scenario_set_id r),
      aa_metadata := JObj [(''graph_source'', JStr (as_graph_source r)), (''graph_digest'', JStr (as_graph_digest r)),
        (''financial_profile_version'', JInt (as_profile_version r)),
        (''model_status'', JStr (case lb_status (as_model_result r) of SKIPPED \<Rightarrow> ''SKIPPED'' | DISABLED \<Rightarrow> ''DISABLED''
           | FAILED \<Rightarrow> ''FAILED'' | READY \<Rightarrow> ''READY'')),
        (''model_error_code'', case lb_error_code (as_model_result r) of None \<Rightarrow> JNull | Some c \<Rightarrow> JStr c)]\<rparr>"

definition new_scenario_set ::
  "lab_fresh \<Rightarrow> string \<Rightarrow> uuid option \<Rightarrow> repository_catalog \<Rightarrow> current_profile \<Rightarrow> inventory \<Rightarrow> (provenance, scenario_set) lab_result
     \<Rightarrow> uuid \<Rightarrow> scenario_set_row" where
  "new_scenario_set fx graph_source snapshot c current software m created_by =
     \<lparr>as_scenario_set_id = lx_id fx, as_graph_source = graph_source, as_snapshot_id = snapshot,
      as_graph_digest = cat_digest c, as_profile_version = cf_version current, as_profile_digest = cf_profile_digest current,
      as_profile = cf_profile current, as_software_inventory = software, as_model_result = m,
      as_created_by = created_by, as_created_at = lx_now fx\<rparr>"

definition save_row ::
  "('r \<Rightarrow> lab_db \<Rightarrow> failure + lab_db) \<Rightarrow> 'r \<Rightarrow> audit_args \<Rightarrow> audit_fresh \<Rightarrow> (lab_db, failure, unit) proc" where
  "save_row insert_row r args fx = in_transaction (\<lambda>a.
     andthen (insert_row r a) (\<lambda>a1. andthen (audit_lab args fx a1) (\<lambda>a2. Inr ((), a2))))"

definition generate_scenarios ::
  "lab_deps \<Rightarrow> scenario_request \<Rightarrow> uuid \<Rightarrow> audit_args \<Rightarrow> lab_fresh \<Rightarrow> (lab_world, failure, set_view) proc" where
  "generate_scenarios deps req created_by audit_fields fx w =
     (let graph_source = py_upper (qs_graph_source req); a = lw_store w in
      if graph_source \<notin> {''BUILTIN'', ''REPOSITORY_SNAPSHOT''}
      then (Inl (bantam ''INVALID_GRAPH_SOURCE'' ''graph source is not recognised'' 422), w)
      else case catalog_for deps graph_source (qs_snapshot_id req) a of
        Inl e \<Rightarrow> (Inl e, w)
      | Inr (c, snapshot) \<Rightarrow>
          let current = current_financials (dp_profile_library deps) (dp_default_profile deps) a;
              software = build_software_inventory c in
          case generate_attack_scenarios (dp_library deps) c (cf_profile current) software (dp_models_client deps)
              (qs_send_to_mistral req) (qs_scenario_count req) (lw_sent w) of
            (Inl e, sent) \<Rightarrow> (Inl e, w\<lparr>lw_sent := sent\<rparr>)
          | (Inr m, sent) \<Rightarrow>
              let row = new_scenario_set fx graph_source snapshot c current software m created_by in
              case save_row insert_scenario_set row (scenario_audit audit_fields row) (lx_audit fx) a of
                (Inl e, a1) \<Rightarrow> (Inl e, w\<lparr>lw_sent := sent, lw_store := a1\<rparr>)
              | (Inr _, a1) \<Rightarrow> (Inr (row, [], []), w\<lparr>lw_sent := sent, lw_store := a1\<rparr>))"

section \<open>Simulations\<close>

record simulation_request =
  qm_scenario_id :: string
  qm_iterations :: int
  qm_seed :: int
  qm_remediation_plan_id :: "uuid option"
  qm_remediation_ids :: "string list"

definition remediations_by_id :: "remediation list \<Rightarrow> (string \<times> remediation) list" where
  "remediations_by_id rs = fold (\<lambda>r. AList.update (rm_remediation_id r) r) rs []"

definition selected_remediations :: "uuid \<Rightarrow> uuid \<Rightarrow> string \<Rightarrow> string list \<Rightarrow> lab_db \<Rightarrow> failure + remediation list" where
  "selected_remediations plan_id scenario_set_id scenario_id remediation_ids a =
     (case row_get mp_remediation_plan_id plan_id (ld_plans a) of
        None \<Rightarrow> Inl (bantam ''NOT_FOUND'' ''remediation plan was not found'' 404)
      | Some r \<Rightarrow>
          if mp_scenario_set_id r \<noteq> scenario_set_id \<or> mp_scenario_id r \<noteq> scenario_id
          then Inl (bantam ''INVALID_REMEDIATION_PLAN'' ''that remediation plan belongs to a different scenario'' 422)
          else case lb_answer (mp_model_result r) of
            None \<Rightarrow> Inl (bantam ''INVALID_REMEDIATION_PLAN'' ''that remediation plan has no validated remediations'' 409)
          | Some plan \<Rightarrow>
              let available = remediations_by_id (rp_remediations plan);
                  chosen = (if remediation_ids \<noteq> [] then remediation_ids else map fst available);
                  unknown = sort (remdups (filter (\<lambda>i. i \<notin> set (map fst available)) chosen)) in
              if unknown \<noteq> []
              then Inl (bantam ''INVALID_REMEDIATION_PLAN'' (''unknown remediation ids: '' @ py_join '', '' unknown) 422)
              else Inr (map (\<lambda>i. the (map_of available i)) chosen))"

definition chosen_remediations :: "uuid \<Rightarrow> simulation_request \<Rightarrow> lab_db \<Rightarrow> failure + remediation list" where
  "chosen_remediations scenario_set_id req a =
     (case qm_remediation_plan_id req of
        None \<Rightarrow> Inr []
      | Some plan_id \<Rightarrow> selected_remediations plan_id scenario_set_id (qm_scenario_id req) (qm_remediation_ids req) a)"

definition simulation_audit :: "(real \<Rightarrow> json) \<Rightarrow> audit_args \<Rightarrow> simulation_row \<Rightarrow> audit_args" where
  "simulation_audit number audit_fields r = audit_fields
     \<lparr>aa_action := ''ATTACK_SIMULATION_RUN'', aa_resource_type := ''attack_simulation'',
      aa_resource_id := uuid_str (ar_simulation_id r),
      aa_metadata := JObj [(''scenario_set_id'', JStr (uuid_str (ar_scenario_set_id r))), (''scenario_id'', JStr (ar_scenario_id r)),
        (''iterations'', JInt (ar_iterations r)), (''seed'', JInt (ar_seed r)),
        (''applied_remediation_ids'', strings (ar_applied_remediation_ids r)),
        (''mean_annual_loss_gbp'', number (al_mean_gbp (si_annual_loss (so_baseline (ar_result r)))))]\<rparr>"

text \<open>The run without remediations and, when some are selected, the run with them.\<close>

definition simulate_both ::
  "(int \<Rightarrow> draws) \<Rightarrow> scenario \<Rightarrow> company_profile \<Rightarrow> int \<Rightarrow> int \<Rightarrow> remediation list \<Rightarrow> (failure + simulation_outcome) option" where
  "simulate_both uniforms s profile iterations seed selected =
     (case simulate_scenario uniforms s profile iterations seed [] of
        None \<Rightarrow> None
      | Some (Inl e) \<Rightarrow> Some (Inl e)
      | Some (Inr baseline) \<Rightarrow>
          if selected = [] then Some (Inr \<lparr>so_baseline = baseline, so_residual = None, so_economics = None\<rparr>)
          else case simulate_scenario uniforms s profile iterations seed selected of
            None \<Rightarrow> None
          | Some (Inl e) \<Rightarrow> Some (Inl e)
          | Some (Inr residual) \<Rightarrow>
              Some (Inr \<lparr>so_baseline = baseline, so_residual = Some residual,
                so_economics = Some (programme_economics baseline residual selected)\<rparr>))"

definition simulate ::
  "lab_deps \<Rightarrow> uuid \<Rightarrow> simulation_request \<Rightarrow> uuid \<Rightarrow> audit_args \<Rightarrow> lab_fresh \<Rightarrow> lab_db \<Rightarrow> ((failure + simulation_row) \<times> lab_db) option" where
  "simulate deps scenario_set_id req created_by audit_fields fx a =
     (case andthen (set_row scenario_set_id a) (\<lambda>row.
           andthen (scenario_in row (qm_scenario_id req)) (\<lambda>s.
           andthen (chosen_remediations scenario_set_id req a) (\<lambda>selected. Inr (row, s, selected)))) of
        Inl e \<Rightarrow> Some (Inl e, a)
      | Inr (row, s, selected) \<Rightarrow>
          (case simulate_both (dp_uniforms deps) s (as_profile row) (qm_iterations req) (qm_seed req) selected of
             None \<Rightarrow> None
           | Some (Inl e) \<Rightarrow> Some (Inl e, a)
           | Some (Inr result) \<Rightarrow>
               let r = \<lparr>ar_simulation_id = lx_id fx, ar_scenario_set_id = scenario_set_id, ar_scenario_id = qm_scenario_id req,
                     ar_iterations = qm_iterations req, ar_seed = qm_seed req,
                     ar_remediation_plan_id = qm_remediation_plan_id req,
                     ar_applied_remediation_ids = map rm_remediation_id selected, ar_result = result,
                     ar_created_by = created_by, ar_created_at = lx_now fx\<rparr> in
               case save_row insert_simulation r (simulation_audit (dp_number deps) audit_fields r) (lx_audit fx) a of
                 (Inl e, a1) \<Rightarrow> Some (Inl e, a1)
               | (Inr _, a1) \<Rightarrow> Some (Inr r, a1)))"

section \<open>Remediations\<close>

definition EVIDENCE_FIELDS :: "string list" where
  "EVIDENCE_FIELDS = [''id'', ''kind'', ''label'', ''file'', ''signature'', ''condition'', ''operation'', ''tables'']"

definition graph_evidence :: "scenario \<Rightarrow> 'a catalog_scheme \<Rightarrow> gnode list" where
  "graph_evidence s c =
     (let cited = concat (map an_graph_node_ids (st_nodes (sc_attack_tree s))) in
      map (\<lambda>n. n\<lparr>gn_roles := [], gn_fields := filter (\<lambda>(k, _). k \<in> set EVIDENCE_FIELDS) (gn_fields n)\<rparr>)
        (filter (\<lambda>n. gn_id n \<in> set cited) (cat_nodes c)))"

definition judge_plan ::
  "lab_library \<Rightarrow> scenario \<Rightarrow> inventory \<Rightarrow> gnode list \<Rightarrow> plan_provenance \<Rightarrow> model_output
     \<Rightarrow> (plan_provenance, remediation_plan) lab_result" where
  "judge_plan lib s software evidence provenance out =
     (case ll_decode_plan lib (mo_content out) of
        None \<Rightarrow> model_envelope FAILED (Some ''REMEDIATION_RESPONSE_INVALID'') (Some provenance)
      | Some plan \<Rightarrow>
          if \<not> valid_plan plan then model_envelope FAILED (Some ''REMEDIATION_RESPONSE_INVALID'') (Some provenance)
          else (case remediation_reference_error s software evidence [] (rp_remediations plan) of
              Some code \<Rightarrow> model_envelope FAILED (Some code) (Some provenance)
            | None \<Rightarrow> answered out provenance (plan\<lparr>rp_remediations := map link_mitigations (rp_remediations plan)\<rparr>)))"

definition generate_remediations ::
  "lab_deps \<Rightarrow> scenario \<Rightarrow> simulation \<Rightarrow> company_profile \<Rightarrow> inventory \<Rightarrow> gnode list \<Rightarrow> json list
     \<Rightarrow> (plan_provenance, remediation_plan) lab_result \<times> json list" where
  "generate_remediations deps s simulation profile software evidence asked =
     (case dp_models_client deps of
        None \<Rightarrow> (model_envelope DISABLED (Some ''MISTRAL_NOT_CONFIGURED'') None, asked)
      | Some mv \<Rightarrow>
          let request = dp_remediation_request deps s simulation profile software evidence;
              provenance = \<lparr>vp_scenario_id = sc_scenario_id s, vp_simulation_seed = si_seed simulation,
                vp_simulation_iterations = si_iterations simulation,
                vp_request_sha256 = digest (ll_sha256_hex (dp_library deps)) request\<rparr> in
          (case mistral_generate mv request of
             Inl e \<Rightarrow> model_envelope FAILED (Some (mq_code e)) (Some provenance)
           | Inr out \<Rightarrow> judge_plan (dp_library deps) s software evidence provenance out, asked @ [request]))"

definition simulation_of_set :: "uuid \<Rightarrow> uuid \<Rightarrow> lab_db \<Rightarrow> failure + simulation_row" where
  "simulation_of_set scenario_set_id simulation_id a =
     (case row_get ar_simulation_id simulation_id (ld_simulations a) of
        None \<Rightarrow> Inl (bantam ''NOT_FOUND'' ''simulation was not found in this set'' 404)
      | Some r \<Rightarrow>
          if ar_scenario_set_id r \<noteq> scenario_set_id
          then Inl (bantam ''NOT_FOUND'' ''simulation was not found in this set'' 404) else Inr r)"

definition plan_audit :: "audit_args \<Rightarrow> plan_row \<Rightarrow> audit_args" where
  "plan_audit audit_fields r = audit_fields
     \<lparr>aa_action := ''ATTACK_REMEDIATIONS_GENERATED'', aa_resource_type := ''attack_remediation_plan'',
      aa_resource_id := uuid_str (mp_remediation_plan_id r),
      aa_metadata := JObj [(''scenario_set_id'', JStr (uuid_str (mp_scenario_set_id r))),
        (''simulation_id'', JStr (uuid_str (mp_simulation_id r))), (''scenario_id'', JStr (mp_scenario_id r)),
        (''model_status'', JStr (case lb_status (mp_model_result r) of SKIPPED \<Rightarrow> ''SKIPPED'' | DISABLED \<Rightarrow> ''DISABLED''
           | FAILED \<Rightarrow> ''FAILED'' | READY \<Rightarrow> ''READY'')),
        (''model_error_code'', case lb_error_code (mp_model_result r) of None \<Rightarrow> JNull | Some c \<Rightarrow> JStr c)]\<rparr>"

definition remediate ::
  "lab_deps \<Rightarrow> uuid \<Rightarrow> uuid \<Rightarrow> uuid \<Rightarrow> audit_args \<Rightarrow> lab_fresh \<Rightarrow> (lab_world, failure, plan_row) proc" where
  "remediate deps scenario_set_id simulation_id created_by audit_fields fx w =
     (let a = lw_store w in
      case andthen (set_row scenario_set_id a) (\<lambda>row.
           andthen (simulation_of_set scenario_set_id simulation_id a) (\<lambda>sim.
           andthen (scenario_in row (ar_scenario_id sim)) (\<lambda>s.
           andthen (catalog_for deps (as_graph_source row) (as_snapshot_id row) a) (\<lambda>(c, _). Inr (row, sim, s, c))))) of
        Inl e \<Rightarrow> (Inl e, w)
      | Inr (row, sim, s, c) \<Rightarrow>
          (case generate_remediations deps s (so_baseline (ar_result sim)) (as_profile row) (as_software_inventory row)
              (graph_evidence s c) (lw_sent w) of
             (m, sent) \<Rightarrow>
               let r = \<lparr>mp_remediation_plan_id = lx_id fx, mp_simulation_id = simulation_id,
                     mp_scenario_set_id = scenario_set_id, mp_scenario_id = ar_scenario_id sim, mp_model_result = m,
                     mp_created_by = created_by, mp_created_at = lx_now fx\<rparr> in
               case save_row insert_plan r (plan_audit audit_fields r) (lx_audit fx) a of
                 (Inl e, a1) \<Rightarrow> (Inl e, w\<lparr>lw_sent := sent, lw_store := a1\<rparr>)
               | (Inr _, a1) \<Rightarrow> (Inr r, w\<lparr>lw_sent := sent, lw_store := a1\<rparr>)))"

end
