(* ===== verification/Scenario_Properties.thy ===== *)
theory Scenario_Properties
  imports Attack_Lab
begin

text \<open>
  What the laboratory shows of a model's answer: scenarios and remediations that passed every check
  against the data that was sent, with links Bantam built itself.
\<close>

section \<open>Lists of checks\<close>



section \<open>Scenarios\<close>

text \<open>A scenario that cites only what was sent, with a well-formed tree of at least two leaves.\<close>

definition grounded_scenario :: "projection \<Rightarrow> scenario \<Rightarrow> bool" where
  "grounded_scenario p s \<longleftrightarrow>
     list_all (\<lambda>n. supplied_nodes p (an_graph_node_ids n) \<and> supplied_flows p (an_flow_ids n) \<and>
       set (sn_mitre_technique_ids n) \<subseteq> set (map mt_technique_id (sc_mitre_techniques s))) (st_nodes (sc_attack_tree s)) \<and>
     set (fe_financial_inputs_used (sc_financials s)) \<subseteq> set FINANCIAL_INPUT_NAMES \<and>
     0 < lr_maximum_gbp (fe_primary_loss (sc_financials s)) \<and>
     attack_tree_structure_is_valid (plain_tree (sc_attack_tree s)) \<and>
     2 \<le> length (filter (\<lambda>n. an_operator n = OP_LEAF) (st_nodes (sc_attack_tree s)))"



lemma grounded_decorated [simp]: "grounded_scenario p (decorate_scenario s) = grounded_scenario p s"
  by (simp add: grounded_scenario_def decorate_scenario_def decorate_technique_def comp_def)

lemma valid_decorated [simp]: "valid_scenario (decorate_scenario s) = valid_scenario s"
proof -
  have "valid_technique (decorate_technique t) = valid_technique t" for t
    unfolding valid_technique_def decorate_technique_def by simp
  then show ?thesis unfolding valid_scenario_def decorate_scenario_def by (simp add: list.pred_map comp_def)
qed



section \<open>Remediations\<close>

definition grounded_remediation :: "scenario \<Rightarrow> inventory \<Rightarrow> gnode list \<Rightarrow> remediation \<Rightarrow> bool" where
  "grounded_remediation s software evidence r \<longleftrightarrow>
     set (rm_target_attack_node_ids r) \<subseteq> set (map an_id (st_nodes (sc_attack_tree s))) \<and>
     list_ex (\<lambda>n. an_operator n = OP_LEAF \<and> an_id n \<in> set (rm_target_attack_node_ids r)) (st_nodes (sc_attack_tree s)) \<and>
     set (rm_graph_node_ids r) \<subseteq> set (map gn_id evidence) \<and>
     set (rm_software_component_ids r) \<subseteq> set (map co_component_id (iv_components software))"



lemma linked_mitigations [simp]:
  "grounded_remediation s software evidence (link_mitigations r) = grounded_remediation s software evidence r"
  "valid_remediation (link_mitigations r) = valid_remediation r"
  "rm_remediation_id (link_mitigations r) = rm_remediation_id r"
  unfolding grounded_remediation_def valid_remediation_def link_mitigations_def by simp_all

section \<open>Answers\<close>

lemma envelope_answer [simp]:
  "lb_answer (model_envelope status code v) = None" "lb_status (model_envelope status code v) = status"
  by (simp_all add: model_envelope_def)

lemma answered_answer [simp]: "lb_answer (answered out v x) = Some x" "lb_status (answered out v x) = READY"
  by (simp_all add: answered_def)




end
