(* ===== verification/Api_Lab.thy ===== *)
theory Api_Lab
  imports Attack_Lab Api_Admin
begin

text \<open>
  The financials and attack-scenario routes of \<open>register_admin_routes\<close> in \<open>bantam/api.py\<close>:
  the principal dependency, the request model, the administrator scope and the service; and runs of
  calls.
\<close>

section \<open>Requests\<close>

datatype lab_call =
    CompanyFinancials
  | UpdateFinancials string string
  | ListScenarios
  | GenerateScenarios scenario_request
  | GetScenarios uuid
  | RunSimulation uuid simulation_request
  | GenerateRemediations uuid uuid

datatype lab_reply =
    FinancialsOverview financials_overview
  | FinancialsUpdated current_profile
  | LabOverview lab_overview
  | ScenarioSet set_view
  | SimulationRun simulation_row
  | RemediationPlan plan_row

definition lab_roles :: "lab_call \<Rightarrow> role list" where
  "lab_roles call = (case call of UpdateFinancials _ _ \<Rightarrow> AdminPrincipal | _ \<Rightarrow> OperatorPrincipal)"

definition lab_scope :: "lab_call \<Rightarrow> string" where
  "lab_scope call =
     (case call of CompanyFinancials \<Rightarrow> ''company_financials'' | UpdateFinancials _ _ \<Rightarrow> ''company_financials'' | _ \<Rightarrow> ''attack_lab'')"

definition valid_scenario_request :: "scenario_request \<Rightarrow> bool" where
  "valid_scenario_request q \<longleftrightarrow>
     qs_graph_source q \<in> {''BUILTIN'', ''REPOSITORY_SNAPSHOT''} \<and> 2 \<le> qs_scenario_count q \<and> qs_scenario_count q \<le> 5"

definition valid_simulation_request :: "simulation_request \<Rightarrow> bool" where
  "valid_simulation_request q \<longleftrightarrow>
     length_in 1 120 (qm_scenario_id q) \<and> 1000 \<le> qm_iterations q \<and> qm_iterations q \<le> 50000 \<and>
     0 \<le> qm_seed q \<and> qm_seed q \<le> 4294967295 \<and> length (qm_remediation_ids q) \<le> 10"

definition valid_financials_request :: "string \<Rightarrow> bool" where
  "valid_financials_request change_note \<longleftrightarrow> length_in 0 500 change_note"

definition valid_lab_request :: "lab_call \<Rightarrow> bool" where
  "valid_lab_request call =
     (case call of
        UpdateFinancials _ note \<Rightarrow> valid_financials_request note
      | GenerateScenarios q \<Rightarrow> valid_scenario_request q
      | RunSimulation _ q \<Rightarrow> valid_simulation_request q
      | _ \<Rightarrow> True)"

section \<open>Handlers\<close>

definition lab_audit :: "app \<Rightarrow> api_request \<Rightarrow> principal \<Rightarrow> string \<Rightarrow> string \<Rightarrow> audit_args" where
  "lab_audit app req p action resource_type =
     request_audit app req (uuid_str (pr_user_id p)) action resource_type ''pending'' (JObj [])"

type_synonym lab_answer = "(failure + lab_reply) \<times> lab_world"

definition reading_store :: "lab_world \<Rightarrow> failure + lab_reply \<Rightarrow> lab_answer option" where
  "reading_store w r = Some (r, w)"

definition on_lab :: "lab_world \<Rightarrow> ('a \<Rightarrow> lab_reply) \<Rightarrow> (failure + 'a) \<times> lab_db \<Rightarrow> lab_answer" where
  "on_lab w f x = (case x of (r, a) \<Rightarrow> (map_sum id f r, w\<lparr>lw_store := a\<rparr>))"

definition lab_handler ::
  "app \<Rightarrow> lab_deps \<Rightarrow> api_request \<Rightarrow> principal \<Rightarrow> lab_fresh \<Rightarrow> lab_call \<Rightarrow> lab_world \<Rightarrow> lab_answer option" where
  "lab_handler app deps req p fx call w =
     (let a = lw_store w; me = pr_user_id p in
      case call of
        CompanyFinancials \<Rightarrow> reading_store w (Inr (FinancialsOverview
          (financials_overview (dp_profile_library deps) (dp_default_profile deps) a)))
      | UpdateFinancials document note \<Rightarrow> Some (on_lab w FinancialsUpdated
          (update_financials (dp_profile_library deps) (dp_number deps) document note me
            (lab_audit app req p ''COMPANY_FINANCIALS_UPDATED'' ''company_financial_profile'') fx a))
      | ListScenarios \<Rightarrow> reading_store w (Inr (LabOverview (lab_overview deps a)))
      | GenerateScenarios q \<Rightarrow> Some (map_prod (map_sum id ScenarioSet) id (generate_scenarios deps q me
            (lab_audit app req p ''ATTACK_SCENARIOS_GENERATED'' ''attack_scenario_set'') fx w))
      | GetScenarios i \<Rightarrow> reading_store w (map_sum id ScenarioSet (get_scenario_set i a))
      | RunSimulation i q \<Rightarrow> map_option (on_lab w SimulationRun) (simulate deps i q me
            (lab_audit app req p ''ATTACK_SIMULATION_RUN'' ''attack_simulation'') fx a)
      | GenerateRemediations i j \<Rightarrow> Some (map_prod (map_sum id RemediationPlan) id (remediate deps i j me
            (lab_audit app req p ''ATTACK_REMEDIATIONS_GENERATED'' ''attack_remediation_plan'') fx w)))"

definition lab_bank :: "lab_world \<Rightarrow> db" where
  "lab_bank w = ad_bank (ld_assurance (lw_store w))"

definition lab_step ::
  "app \<Rightarrow> lab_deps \<Rightarrow> env \<Rightarrow> api_request \<Rightarrow> lab_fresh \<Rightarrow> lab_call \<Rightarrow> lab_world \<Rightarrow> lab_answer option" where
  "lab_step app deps env req fx call w =
     (case require_roles (lab_roles call) app env req (lab_bank w) of
        Inl e \<Rightarrow> Some (Inl e, w)
      | Inr token \<Rightarrow>
          if \<not> valid_lab_request call
          then Some (Inl (bantam ''VALIDATION_FAILED'' ''request validation failed'' 422), w)
          else (case require_admin_scope app (pt_principal token) (lab_scope call) (lab_bank w) of
              Inl e \<Rightarrow> Some (Inl e, w)
            | Inr _ \<Rightarrow> lab_handler app deps req (pt_principal token) fx call w))"

text \<open>Calls one after the other, each with its own clock, request and fresh values; \<open>None\<close> when one
  of them does not return.\<close>

fun lab_run :: "app \<Rightarrow> lab_deps \<Rightarrow> (env \<times> api_request \<times> lab_fresh \<times> lab_call) list \<Rightarrow> lab_world \<Rightarrow> lab_world option" where
  "lab_run app deps [] w = Some w"
| "lab_run app deps ((env, req, fx, call) # rest) w =
     (case lab_step app deps env req fx call w of
        None \<Rightarrow> None
      | Some (_, w1) \<Rightarrow> lab_run app deps rest w1)"

end
