(* ===== verification/Lab_Properties.thy ===== *)
theory Lab_Properties
  imports Api_Lab Simulation_Properties Bank_Properties
begin

text \<open>
  The attack laboratory over time: what its calls add to the tables, and the invariant that every
  stored simulation can be computed again from what is stored beside it.
\<close>

section \<open>Growing tables\<close>

text \<open>The bank changes by its audit trail, the tables of the laboratory by new rows.\<close>

definition extends :: "lab_db \<Rightarrow> lab_db \<Rightarrow> bool" where
  "extends a a' \<longleftrightarrow>
     (\<exists>events profiles sets simulations plans.
        a' = \<lparr>ld_assurance = (ld_assurance a)\<lparr>ad_bank := (ad_bank (ld_assurance a))
               \<lparr>audit_events := audit_events (ad_bank (ld_assurance a)) @ events\<rparr>\<rparr>,
             ld_profiles = ld_profiles a @ profiles, ld_scenario_sets = ld_scenario_sets a @ sets,
             ld_simulations = ld_simulations a @ simulations, ld_plans = ld_plans a @ plans\<rparr> \<and>
        length events = length profiles + length sets + length simulations + length plans \<and> length events \<le> 1)"

lemma extendsI:
  "a' = \<lparr>ld_assurance = (ld_assurance a)\<lparr>ad_bank := (ad_bank (ld_assurance a))
       \<lparr>audit_events := audit_events (ad_bank (ld_assurance a)) @ events\<rparr>\<rparr>,
     ld_profiles = ld_profiles a @ profiles, ld_scenario_sets = ld_scenario_sets a @ sets,
     ld_simulations = ld_simulations a @ simulations, ld_plans = ld_plans a @ plans\<rparr> \<Longrightarrow>
   length events = length profiles + length sets + length simulations + length plans \<Longrightarrow> length events \<le> 1 \<Longrightarrow> extends a a'"
  unfolding extends_def by blast

lemma lab_extends_refl [simp]: "extends a a"
  by (rule extendsI [of _ _ "[]" "[]" "[]" "[]" "[]"]) auto

lemma extends_tables:
  assumes "extends a a'"
  obtains profiles sets simulations plans where "ld_profiles a' = ld_profiles a @ profiles"
    "ld_scenario_sets a' = ld_scenario_sets a @ sets" "ld_simulations a' = ld_simulations a @ simulations"
    "ld_plans a' = ld_plans a @ plans" "ad_snapshots (ld_assurance a') = ad_snapshots (ld_assurance a)"
  using assms unfolding extends_def by auto

definition with_event :: "audit_row \<Rightarrow> lab_db \<Rightarrow> lab_db" where
  "with_event event a = a\<lparr>ld_assurance := (ld_assurance a)\<lparr>ad_bank := (ad_bank (ld_assurance a))
     \<lparr>audit_events := audit_events (ad_bank (ld_assurance a)) @ [event]\<rparr>\<rparr>\<rparr>"

lemma with_event_tables [simp]:
  "ld_profiles (with_event event a) = ld_profiles a" "ld_scenario_sets (with_event event a) = ld_scenario_sets a"
  "ld_simulations (with_event event a) = ld_simulations a" "ld_plans (with_event event a) = ld_plans a"
  by (simp_all add: with_event_def)

lemma audit_lab_event: "audit_lab args fx a = Inr a' \<Longrightarrow> \<exists>event. a' = with_event event a"
  using audit_lab_InrD unfolding with_event_def by blast

text \<open>A save that committed added its row and one audit record; one that failed changed nothing.\<close>

lemma save_row_cases:
  assumes "save_row insert_row r args fx a = (x, a')"
  obtains (failed) e where "x = Inl e" "a' = a"
    | (saved) a1 event where "x = Inr ()" "insert_row r a = Inr a1"
      "a' = with_event event a1"
proof (cases x)
  case (Inl e)
  with assms show ?thesis by (auto simp: save_row_def dest: in_transaction_rollback intro: failed)
next
  case (Inr u)
  with assms obtain a1 where "insert_row r a = Inr a1" "audit_lab args fx a1 = Inr a'"
    by (auto simp: save_row_def dest!: in_transaction_commit elim!: andthen_InrE)
  with Inr audit_lab_event saved show ?thesis by (cases u) blast
qed

section \<open>What a stored row stands for\<close>

text \<open>A scenario set names the profile version its figures come from; version 0 is the shipped default.\<close>

definition set_ok :: "lab_deps \<Rightarrow> lab_db \<Rightarrow> scenario_set_row \<Rightarrow> bool" where
  "set_ok deps a r \<longleftrightarrow>
     (if as_profile_version r = 0 then as_profile r = dp_default_profile deps
      else \<exists>p \<in> set (ld_profiles a). fp_version p = as_profile_version r \<and> fp_profile p = as_profile r \<and>
        fp_profile_digest p = as_profile_digest r)"

text \<open>A simulation is what its set, its scenario, its iterations, its seed and the remediations it names
  give when it is run again.\<close>

definition applied_ok :: "lab_db \<Rightarrow> simulation_row \<Rightarrow> remediation list \<Rightarrow> bool" where
  "applied_ok a r selected \<longleftrightarrow> map rm_remediation_id selected = ar_applied_remediation_ids r \<and>
     (case ar_remediation_plan_id r of
        None \<Rightarrow> selected = []
      | Some i \<Rightarrow> \<exists>pr plan. row_get mp_remediation_plan_id i (ld_plans a) = Some pr \<and>
          mp_scenario_set_id pr = ar_scenario_set_id r \<and> mp_scenario_id pr = ar_scenario_id r \<and>
          lb_answer (mp_model_result pr) = Some plan \<and> set selected \<subseteq> set (rp_remediations plan))"

definition simulation_ok :: "lab_deps \<Rightarrow> lab_db \<Rightarrow> simulation_row \<Rightarrow> bool" where
  "simulation_ok deps a r \<longleftrightarrow>
     (\<exists>row s selected. set_row (ar_scenario_set_id r) a = Inr row \<and> scenario_in row (ar_scenario_id r) = Inr s \<and>
        applied_ok a r selected \<and>
        simulate_both (dp_uniforms deps) s (as_profile row) (ar_iterations r) (ar_seed r) selected = Some (Inr (ar_result r)))"

definition plan_ok :: "lab_db \<Rightarrow> plan_row \<Rightarrow> bool" where
  "plan_ok a r \<longleftrightarrow>
     (\<exists>sim. simulation_of_set (mp_scenario_set_id r) (mp_simulation_id r) a = Inr sim \<and> ar_scenario_id sim = mp_scenario_id r)"

definition versions_ok :: "lab_db \<Rightarrow> bool" where
  "versions_ok a \<longleftrightarrow> map fp_version (ld_profiles a) = map (\<lambda>i. int i + 1) [0..<length (ld_profiles a)]"

definition lab_inv :: "lab_deps \<Rightarrow> lab_db \<Rightarrow> bool" where
  "lab_inv deps a \<longleftrightarrow> versions_ok a \<and> (\<forall>r \<in> set (ld_scenario_sets a). set_ok deps a r) \<and>
     (\<forall>r \<in> set (ld_simulations a). simulation_ok deps a r) \<and> (\<forall>r \<in> set (ld_plans a). plan_ok a r)"

lemma row_get_appended: "row_get key k rows = Some r \<Longrightarrow> row_get key k (rows @ later) = Some r"
  by (simp add: row_get_append)

lemma set_row_extends: "extends a a' \<Longrightarrow> set_row i a = Inr r \<Longrightarrow> set_row i a' = Inr r"
  by (erule extends_tables) (auto simp: set_row_def row_get_appended split: option.splits)

lemma ok_extends:
  assumes "extends a a'"
  shows "set_ok deps a r1 \<Longrightarrow> set_ok deps a' r1" "simulation_ok deps a r2 \<Longrightarrow> simulation_ok deps a' r2"
    "plan_ok a r3 \<Longrightarrow> plan_ok a' r3"
proof -
  obtain profiles sets simulations plans where x: "ld_profiles a' = ld_profiles a @ profiles"
    "ld_scenario_sets a' = ld_scenario_sets a @ sets" "ld_simulations a' = ld_simulations a @ simulations"
    "ld_plans a' = ld_plans a @ plans"
    using extends_tables [OF assms] by metis
  show "set_ok deps a r1 \<Longrightarrow> set_ok deps a' r1" by (auto simp: set_ok_def x split: if_splits)
  have "applied_ok a r sel \<Longrightarrow> applied_ok a' r sel" for r sel
    by (auto simp: applied_ok_def x row_get_appended split: option.splits)
  then show "simulation_ok deps a r2 \<Longrightarrow> simulation_ok deps a' r2"
    unfolding simulation_ok_def using set_row_extends [OF assms] by blast
  show "plan_ok a r3 \<Longrightarrow> plan_ok a' r3"
    by (auto simp: plan_ok_def simulation_of_set_def x row_get_appended split: option.splits if_splits)
qed

section \<open>What the calls keep\<close>

lemma lab_inv_grows:
  assumes "lab_inv deps a" and "extends a a'" and "versions_ok a'"
    and "\<And>r. r \<in> set (ld_scenario_sets a') - set (ld_scenario_sets a) \<Longrightarrow> set_ok deps a' r"
    and "\<And>r. r \<in> set (ld_simulations a') - set (ld_simulations a) \<Longrightarrow> simulation_ok deps a' r"
    and "\<And>r. r \<in> set (ld_plans a') - set (ld_plans a) \<Longrightarrow> plan_ok a' r"
  shows "lab_inv deps a'"
proof -
  from assms(1) have "versions_ok a" "\<And>r. r \<in> set (ld_scenario_sets a) \<Longrightarrow> set_ok deps a r"
    "\<And>r. r \<in> set (ld_simulations a) \<Longrightarrow> simulation_ok deps a r" "\<And>r. r \<in> set (ld_plans a) \<Longrightarrow> plan_ok a r"
    unfolding lab_inv_def by blast+
  with ok_extends [OF assms(2)] assms(3-6) show ?thesis unfolding lab_inv_def by blast
qed

text \<open>A call that failed changed nothing, one that succeeded extended the tables, and either kept the
  invariant.\<close>

definition grown :: "lab_deps \<Rightarrow> lab_db \<Rightarrow> failure + 'a \<Rightarrow> lab_db \<Rightarrow> bool" where
  "grown deps a x a' \<longleftrightarrow> (if isl x then a' = a else extends a a') \<and> (lab_inv deps a \<longrightarrow> lab_inv deps a')"

lemma grown_refl [simp]: "grown deps a x a"
  by (simp add: grown_def)

lemma grown_map [simp]: "grown deps a (map_sum f g x) a' = grown deps a x a'"
  by (cases x) (auto simp: grown_def)

lemma saved_grows:
  assumes "save_row insert_row r args fx a = (y, a')" and "isl x = isl y"
    and "\<And>a1 event. insert_row r a = Inr a1 \<Longrightarrow> a' = with_event event a1 \<Longrightarrow>
      extends a a' \<and> (lab_inv deps a \<longrightarrow> lab_inv deps a')"
  shows "grown deps a x a'"
proof (cases rule: save_row_cases [OF assms(1)])
  case (1 e)
  with assms(2) show ?thesis by (simp add: grown_def)
next
  case (2 a1 event)
  with assms(2) assms(3) [OF 2(2,3)] show ?thesis by (simp add: grown_def)
qed

lemma next_version_ok:
  assumes "versions_ok a"
  shows "next_version a = int (length (ld_profiles a)) + 1"
proof -
  have "fold max (map (\<lambda>i. int i + 1) [0..<n]) 0 = int n" for n
    by (induction n) (simp_all add: max_def)
  with assms show ?thesis unfolding next_version_def versions_ok_def by simp
qed

lemma update_financials_grows:
  assumes "update_financials lib number document note user audit_fields fx a = (x, a')"
  shows "grown deps a x a'"
proof (cases x)
  case (Inl e)
  with assms have "a' = a" by (auto simp: update_financials_def Let_def dest: in_transaction_rollback split: sum.splits)
  with Inl show ?thesis by (simp add: grown_def)
next
  case (Inr c)
  with assms obtain profile where "parse_profile lib document = Inr profile"
    by (auto simp: update_financials_def split: sum.splits)
  define r where "r = \<lparr>fp_profile_id = lx_id fx, fp_version = next_version a, fp_profile = profile,
    fp_profile_digest = profile_digest lib profile, fp_change_note = take 500 (py_strip note),
    fp_created_by = user, fp_created_at = lx_now fx\<rparr>"
  have "andthen (insert_profile r a) (\<lambda>a1.
      andthen (audit_lab (profile_audit number audit_fields r) (lx_audit fx) a1) (\<lambda>a2. Inr (reviewed r, a2))) = Inr (c, a')"
    using assms \<open>parse_profile lib document = Inr profile\<close> Inr
    unfolding update_financials_def r_def by (auto simp: Let_def dest!: in_transaction_commit)
  then obtain a1 where p: "insert_profile r a = Inr a1" "fp_version r = next_version a"
    and "audit_lab (profile_audit number audit_fields r) (lx_audit fx) a1 = Inr a'"
    by (auto simp: r_def elim!: andthen_InrE)
  then obtain event where a': "a' = with_event event a1"
    using audit_lab_event by blast
  have a1: "a1 = a\<lparr>ld_profiles := ld_profiles a @ [r]\<rparr>" using insert_profile_InrD [OF p(1)] by (rule conjunct1)
  have e: "extends a a'"
    by (rule extendsI [of _ _ "[event]" "[r]" "[]" "[]" "[]"]) (cases a, simp_all add: a' a1 with_event_def)
  have "lab_inv deps a'" if "lab_inv deps a"
  proof (rule lab_inv_grows [OF that e])
    have "versions_ok a" using that by (simp add: lab_inv_def)
    then show "versions_ok a'" using next_version_ok [of a] p(2) by (simp add: versions_ok_def a' a1)
  qed (simp_all add: a' a1)
  with Inr e show ?thesis by (simp add: grown_def)
qed

lemma current_financials_ok:
  assumes "versions_ok a" and "as_profile_version r = cf_version c" "as_profile r = cf_profile c" "as_profile_digest r = cf_profile_digest c"
    and c: "c = current_financials lib (dp_default_profile deps) a"
  shows "set_ok deps a r"
proof (cases "newest_profiles a")
  case Nil
  with assms show ?thesis by (simp add: set_ok_def current_financials_def)
next
  case (Cons p ps)
  then have "p \<in> set (ld_profiles a)" unfolding newest_profiles_def by (metis list.set_intros(1) set_sort)
  moreover from this have "fp_version p \<in> set (map (\<lambda>i. int i + 1) [0..<length (ld_profiles a)])"
    using assms(1) unfolding versions_ok_def by (metis image_eqI set_map)
  then have "fp_version p \<noteq> 0" by auto
  ultimately show ?thesis using Cons assms(2-5) by (auto simp: set_ok_def current_financials_def reviewed_def)
qed

lemma generate_scenarios_grows:
  assumes "generate_scenarios deps req user audit_fields fx w = (x, w')"
  shows "grown deps (lw_store w) x (lw_store w')"
proof -
  let ?a = "lw_store w" and ?current = "current_financials (dp_profile_library deps) (dp_default_profile deps) (lw_store w)"
  consider (same) "lw_store w' = lw_store w" "x \<notin> range Inr"
    | (run) r args y where "save_row insert_scenario_set r args (lx_audit fx) ?a = (y, lw_store w')" "isl x = isl y"
      "as_profile_version r = cf_version ?current" "as_profile r = cf_profile ?current" "as_profile_digest r = cf_profile_digest ?current"
    using assms
    by (auto simp: generate_scenarios_def Let_def new_scenario_set_def split: if_splits sum.splits prod.splits) blast+
  then show ?thesis
  proof cases
    case same
    then show ?thesis by (cases x) (auto simp: grown_def)
  next
    case run
    show ?thesis
    proof (rule saved_grows [OF run(1,2)])
      fix a1 event assume 2: "insert_scenario_set r ?a = Inr a1" "lw_store w' = with_event event a1"
      have a1: "a1 = ?a\<lparr>ld_scenario_sets := ld_scenario_sets ?a @ [r]\<rparr>" using insert_scenario_set_InrD [OF 2(1)] by (rule conjunct1)
      have e: "extends ?a (lw_store w')"
        by (rule extendsI [of _ _ "[event]" "[]" "[r]" "[]" "[]"]) (cases "lw_store w", simp_all add: 2(2) a1 with_event_def)
      have "lab_inv deps (lw_store w')" if inv: "lab_inv deps ?a"
      proof (rule lab_inv_grows [OF inv e])
        have v: "versions_ok ?a" using inv by (simp add: lab_inv_def)
        then show "versions_ok (lw_store w')" by (simp add: versions_ok_def 2(2) a1)
        fix q assume "q \<in> set (ld_scenario_sets (lw_store w')) - set (ld_scenario_sets ?a)"
        then have "q = r" by (auto simp: 2(2) a1)
        with current_financials_ok [OF v run(3-5)] ok_extends(1) [OF e] show "set_ok deps (lw_store w') q" by blast
      qed (simp_all add: 2(2) a1)
      with e show "extends ?a (lw_store w') \<and> (lab_inv deps ?a \<longrightarrow> lab_inv deps (lw_store w'))" by blast
    qed
  qed
qed

lemma set_update: "set (AList.update k v ps) \<subseteq> insert (k, v) (set ps)"
  by (induction ps) auto

lemma remediations_by_id_sound: "e \<in> set (remediations_by_id rs) \<Longrightarrow> snd e \<in> set rs \<and> rm_remediation_id (snd e) = fst e"
proof -
  have "e \<in> set (fold (\<lambda>r. AList.update (rm_remediation_id r) r) rs ps) \<Longrightarrow>
      \<forall>e \<in> set ps. snd e \<in> set known \<and> rm_remediation_id (snd e) = fst e \<Longrightarrow>
      snd e \<in> set known \<union> set rs \<and> rm_remediation_id (snd e) = fst e" for ps known
  proof (induction rs arbitrary: ps known)
    case (Cons r rs)
    have "\<forall>e \<in> set (AList.update (rm_remediation_id r) r ps). snd e \<in> set (r # known) \<and> rm_remediation_id (snd e) = fst e"
      using Cons.prems(2) set_update [of "rm_remediation_id r" r ps] by auto
    from Cons.IH [OF Cons.prems(1) [unfolded fold_simps] this] show ?case by auto
  qed auto
  from this [of "[]" "[]"] show "e \<in> set (remediations_by_id rs) \<Longrightarrow> ?thesis" by (simp add: remediations_by_id_def)
qed

lemma selected_remediations_ok:
  assumes "selected_remediations plan_id set_id scenario_id chosen a = Inr selected"
  obtains pr plan where "row_get mp_remediation_plan_id plan_id (ld_plans a) = Some pr" "mp_scenario_set_id pr = set_id"
    "mp_scenario_id pr = scenario_id" "lb_answer (mp_model_result pr) = Some plan" "set selected \<subseteq> set (rp_remediations plan)"
proof -
  from assms obtain pr plan where r: "row_get mp_remediation_plan_id plan_id (ld_plans a) = Some pr" "mp_scenario_set_id pr = set_id"
    "mp_scenario_id pr = scenario_id" "lb_answer (mp_model_result pr) = Some plan"
    by (auto simp: selected_remediations_def Let_def split: option.splits if_splits)
  let ?available = "remediations_by_id (rp_remediations plan)"
  let ?ids = "if chosen \<noteq> [] then chosen else map fst ?available"
  have sel: "sort (remdups (filter (\<lambda>i. i \<notin> set (map fst ?available)) ?ids)) = []"
    "selected = map (\<lambda>i. the (map_of ?available i)) ?ids"
    using assms r unfolding selected_remediations_def Let_def by (simp_all split: if_split_asm)
  from sel(1) have "set (sort (remdups (filter (\<lambda>i. i \<notin> set (map fst ?available)) ?ids))) = {}" by simp
  then have ids: "set ?ids \<subseteq> set (map fst ?available)" unfolding set_sort set_remdups set_filter by blast
  have "the (map_of ?available i) \<in> set (rp_remediations plan)" if "i \<in> set (map fst ?available)" for i
  proof -
    from that obtain x where "map_of ?available i = Some x" by (metis list.set_map map_of_eq_None_iff not_None_eq)
    with remediations_by_id_sound [OF map_of_SomeD [OF this]] show ?thesis by simp
  qed
  with ids have "set selected \<subseteq> set (rp_remediations plan)" unfolding sel(2) set_map by blast
  with r that show ?thesis by blast
qed

lemma simulate_grows:
  assumes "simulate deps i req user audit_fields fx a = Some (x, a')"
  shows "grown deps a x a'"
proof (cases "andthen (set_row i a) (\<lambda>row. andthen (scenario_in row (qm_scenario_id req)) (\<lambda>s.
      andthen (chosen_remediations i req a) (\<lambda>selected. Inr (row, s, selected))))")
  case (Inl e)
  with assms show ?thesis by (simp add: simulate_def)
next
  case (Inr found)
  obtain row s selected where found: "found = (row, s, selected)" by (metis prod.exhaust)
  from Inr found have at: "set_row i a = Inr row" "scenario_in row (qm_scenario_id req) = Inr s" "chosen_remediations i req a = Inr selected"
    by (auto elim!: andthen_InrE)
  let ?both = "simulate_both (dp_uniforms deps) s (as_profile row) (qm_iterations req) (qm_seed req) selected"
  show ?thesis
  proof (cases "\<exists>result. ?both = Some (Inr result)")
    case False
    with assms Inr found have "x \<notin> range Inr \<and> a' = a" unfolding simulate_def
      by (auto split: option.splits sum.splits)
    then show ?thesis by simp
  next
    case True
    then obtain result where both: "?both = Some (Inr result)" by blast
    define r where "r = \<lparr>ar_simulation_id = lx_id fx, ar_scenario_set_id = i, ar_scenario_id = qm_scenario_id req,
      ar_iterations = qm_iterations req, ar_seed = qm_seed req, ar_remediation_plan_id = qm_remediation_plan_id req,
      ar_applied_remediation_ids = map rm_remediation_id selected, ar_result = result, ar_created_by = user,
      ar_created_at = lx_now fx\<rparr>"
    from assms Inr found both obtain y where
      y: "save_row insert_simulation r (simulation_audit (dp_number deps) audit_fields r) (lx_audit fx) a = (y, a')" "isl x = isl y"
      unfolding simulate_def r_def by (auto simp: Let_def split: prod.splits sum.splits)
    show ?thesis
    proof (rule saved_grows [OF y])
      fix a1 event assume 2: "insert_simulation r a = Inr a1" "a' = with_event event a1"
      have a1: "a1 = a\<lparr>ld_simulations := ld_simulations a @ [r]\<rparr>" using insert_simulation_InrD [OF 2(1)] by (rule conjunct1)
      have e: "extends a a'"
        by (rule extendsI [of _ _ "[event]" "[]" "[]" "[r]" "[]"]) (cases a, simp_all add: 2(2) a1 with_event_def)
      have "applied_ok a r selected"
        using at(3) unfolding applied_ok_def chosen_remediations_def
        by (auto simp: r_def split: option.splits elim!: selected_remediations_ok)
      with at both have "simulation_ok deps a r" unfolding simulation_ok_def by (auto simp: r_def)
      with ok_extends(2) [OF e] have new: "simulation_ok deps a' r" by blast
      have "lab_inv deps a'" if inv: "lab_inv deps a"
      proof (rule lab_inv_grows [OF inv e])
        show "versions_ok a'" using inv by (simp add: versions_ok_def lab_inv_def 2(2) a1)
        show "simulation_ok deps a' q" if "q \<in> set (ld_simulations a') - set (ld_simulations a)" for q
          using that new by (auto simp: 2(2) a1)
      qed (simp_all add: 2(2) a1)
      with e show "extends a a' \<and> (lab_inv deps a \<longrightarrow> lab_inv deps a')" by blast
    qed
  qed
qed

lemma remediate_grows:
  assumes "remediate deps i j user audit_fields fx w = (x, w')"
  shows "grown deps (lw_store w) x (lw_store w')"
proof (cases "andthen (set_row i (lw_store w)) (\<lambda>row. andthen (simulation_of_set i j (lw_store w)) (\<lambda>sim.
      andthen (scenario_in row (ar_scenario_id sim)) (\<lambda>s.
      andthen (catalog_for deps (as_graph_source row) (as_snapshot_id row) (lw_store w)) (\<lambda>(c, _). Inr (row, sim, s, c)))))")
  case (Inl e)
  with assms show ?thesis by (simp add: remediate_def Let_def)
next
  case (Inr found)
  let ?a = "lw_store w"
  obtain row sim s c where found: "found = (row, sim, s, c)" by (metis prod.exhaust)
  from Inr found have at: "simulation_of_set i j ?a = Inr sim" by (auto elim!: andthen_InrE split: prod.splits)
  obtain m sent where m: "generate_remediations deps s (so_baseline (ar_result sim)) (as_profile row) (as_software_inventory row)
      (graph_evidence s c) (lw_sent w) = (m, sent)" by fastforce
  define r where "r = \<lparr>mp_remediation_plan_id = lx_id fx, mp_simulation_id = j, mp_scenario_set_id = i,
    mp_scenario_id = ar_scenario_id sim, mp_model_result = m, mp_created_by = user, mp_created_at = lx_now fx\<rparr>"
  from assms Inr found m obtain y where
    y: "save_row insert_plan r (plan_audit audit_fields r) (lx_audit fx) ?a = (y, lw_store w')" "isl x = isl y"
    unfolding remediate_def r_def by (auto simp: Let_def split: prod.splits sum.splits)
  show ?thesis
  proof (rule saved_grows [OF y])
    fix a1 event assume 2: "insert_plan r ?a = Inr a1" "lw_store w' = with_event event a1"
    have a1: "a1 = ?a\<lparr>ld_plans := ld_plans ?a @ [r]\<rparr>" using insert_plan_InrD [OF 2(1)] by (rule conjunct1)
    have e: "extends ?a (lw_store w')"
      by (rule extendsI [of _ _ "[event]" "[]" "[]" "[]" "[r]"]) (cases "lw_store w", simp_all add: 2(2) a1 with_event_def)
    have "plan_ok ?a r" using at unfolding plan_ok_def by (auto simp: r_def)
    with ok_extends(3) [OF e] have new: "plan_ok (lw_store w') r" by blast
    have "lab_inv deps (lw_store w')" if inv: "lab_inv deps ?a"
    proof (rule lab_inv_grows [OF inv e])
      show "versions_ok (lw_store w')" using inv by (simp add: versions_ok_def lab_inv_def 2(2) a1)
      show "plan_ok (lw_store w') q" if "q \<in> set (ld_plans (lw_store w')) - set (ld_plans ?a)" for q
        using that new by (auto simp: 2(2) a1)
    qed (simp_all add: 2(2) a1)
    with e show "extends ?a (lw_store w') \<and> (lab_inv deps ?a \<longrightarrow> lab_inv deps (lw_store w'))" by blast
  qed
qed

section \<open>Calls and runs\<close>

lemma lab_handler_grows:
  assumes "lab_handler app deps req p fx call w = Some (x, w')"
  shows "grown deps (lw_store w) x (lw_store w')"
proof (cases call)
  case (UpdateFinancials document change)
  with assms show ?thesis
    using update_financials_grows by (fastforce simp: lab_handler_def Let_def on_lab_def split: prod.splits)
next
  case (GenerateScenarios q)
  with assms show ?thesis using generate_scenarios_grows by (fastforce simp: lab_handler_def Let_def map_prod_def split: prod.splits)
next
  case (RunSimulation i q)
  with assms show ?thesis
    using simulate_grows by (fastforce simp: lab_handler_def Let_def on_lab_def split: prod.splits)
next
  case (GenerateRemediations i j)
  with assms show ?thesis using remediate_grows by (fastforce simp: lab_handler_def Let_def map_prod_def split: prod.splits)
qed (use assms in \<open>auto simp: lab_handler_def reading_store_def Let_def\<close>)

lemma lab_step_grows:
  assumes "lab_step app deps env req fx call w = Some (x, w')"
  shows "grown deps (lw_store w) x (lw_store w')"
  using assms lab_handler_grows by (auto simp: lab_step_def split: sum.splits if_splits)

text \<open>How many rows the laboratory has; each has its audit record.\<close>

definition lab_rows :: "lab_db \<Rightarrow> nat" where
  "lab_rows a = length (ld_profiles a) + length (ld_scenario_sets a) + length (ld_simulations a) + length (ld_plans a)"

definition rows_audited :: "lab_db \<Rightarrow> lab_db \<Rightarrow> bool" where
  "rows_audited a a' \<longleftrightarrow> (\<exists>events. ld_assurance a' = (ld_assurance a)\<lparr>ad_bank := (ad_bank (ld_assurance a))
      \<lparr>audit_events := audit_events (ad_bank (ld_assurance a)) @ events\<rparr>\<rparr> \<and> lab_rows a' = lab_rows a + length events)"

lemma extends_audited: "extends a a' \<Longrightarrow> rows_audited a a'"
  unfolding extends_def rows_audited_def lab_rows_def by (elim exE, rule exI, auto)

lemma audited_refl [simp]: "rows_audited a a"
  unfolding rows_audited_def by (rule exI [of _ "[]"]) simp

lemma audited_trans: "rows_audited a b \<Longrightarrow> rows_audited b c \<Longrightarrow> rows_audited a c"
  unfolding rows_audited_def by (elim exE, rename_tac xs ys, rule_tac x = "xs @ ys" in exI) simp

lemma grown_audited: "grown deps a x a' \<Longrightarrow> rows_audited a a'"
  by (auto simp: grown_def extends_audited split: if_splits)

lemma lab_run_keeps:
  "lab_run app deps calls w = Some w' \<Longrightarrow>
     rows_audited (lw_store w) (lw_store w') \<and> (lab_inv deps (lw_store w) \<longrightarrow> lab_inv deps (lw_store w'))"
proof (induction app deps calls w rule: lab_run.induct)
  case (2 app deps env req fx call rest w)
  from "2.prems" obtain x w1 where s: "lab_step app deps env req fx call w = Some (x, w1)" "lab_run app deps rest w1 = Some w'"
    by (auto split: option.splits)
  from lab_step_grows [OF s(1)] "2.IH" [OF s(1) refl s(2)] show ?case
    using grown_audited audited_trans unfolding grown_def by blast
qed simp

lemma simulate_both_returns:
  assumes "lively (uniforms seed)"
  shows "\<exists>r. simulate_both uniforms s profile iterations seed selected = Some r"
proof -
  note ends = simulation_runs_end [of uniforms seed s profile iterations, OF assms]
  show ?thesis using ends [of "[]"] ends [of selected] by (auto simp: simulate_both_def split: sum.splits)
qed

lemma lab_step_returns:
  assumes "\<And>seed. lively (dp_uniforms deps seed)"
  shows "\<exists>x w'. lab_step app deps env req fx call w = Some (x, w')"
proof -
  have runs: "(simulate_both (dp_uniforms deps) s p n (qm_seed q) selected = None) = False" for s p n q selected
    using simulate_both_returns [of "dp_uniforms deps" "qm_seed q" s p n selected, OF assms] by force
  have "(simulate deps i q user audit_fields fx a = None) = False" for i q user audit_fields a
    by (simp add: runs simulate_def Let_def split: sum.splits prod.splits option.splits)
  then have "(lab_handler app deps req p fx call w = None) = False" for p
    by (cases call) (simp_all add: lab_handler_def reading_store_def Let_def)
  then have "lab_step app deps env req fx call w \<noteq> None" by (simp add: lab_step_def split: sum.splits)
  then show ?thesis by fastforce
qed

lemma lab_run_returns:
  assumes "\<And>seed. lively (dp_uniforms deps seed)"
  shows "\<exists>w'. lab_run app deps calls w = Some w'"
proof (induction calls arbitrary: w)
  case (Cons c calls)
  obtain env req fx call where c: "c = (env, req, fx, call)" by (metis prod.exhaust)
  obtain x w1 where "lab_step app deps env req fx call w = Some (x, w1)" using lab_step_returns [OF assms] by blast
  with Cons.IH c show ?case by simp
qed simp

text \<open>C37. Whatever calls of the financials and attack-laboratory routes run, by whomever and in any order,
  each of them returns, and in the tables they leave every simulation can be run again: its scenario
  set and scenario are there, the remediations it names are those of a validated plan for that very
  scenario, and running its seed and iterations on them gives the stored result, baseline, residual
  and economics, digit for digit. Every scenario set carries the profile of the version it names,
  the versions of the profile count up from 1, and the bank has changed by one audit record for
  every row.\<close>

theorem simulations_are_reproducible:
  assumes "\<And>seed. lively (dp_uniforms deps seed)"
    and "ld_profiles a = []" and "ld_scenario_sets a = []" and "ld_simulations a = []" and "ld_plans a = []"
  shows "\<exists>w. lab_run app deps calls \<lparr>lw_store = a, lw_sent = []\<rparr> = Some w \<and>
    (\<forall>r \<in> set (ld_simulations (lw_store w)). \<exists>row s selected.
       set_row (ar_scenario_set_id r) (lw_store w) = Inr row \<and> scenario_in row (ar_scenario_id r) = Inr s \<and>
       applied_ok (lw_store w) r selected \<and>
       simulate_both (dp_uniforms deps) s (as_profile row) (ar_iterations r) (ar_seed r) selected = Some (Inr (ar_result r))) \<and>
    (\<forall>r \<in> set (ld_scenario_sets (lw_store w)). set_ok deps (lw_store w) r) \<and>
    map fp_version (ld_profiles (lw_store w)) = map (\<lambda>i. int i + 1) [0..<length (ld_profiles (lw_store w))] \<and>
    rows_audited a (lw_store w)"
proof -
  obtain w where w: "lab_run app deps calls \<lparr>lw_store = a, lw_sent = []\<rparr> = Some w" using lab_run_returns [OF assms(1)] by blast
  have "lab_inv deps a" using assms(2-5) by (simp add: lab_inv_def versions_ok_def)
  with lab_run_keeps [OF w] have "lab_inv deps (lw_store w)" "rows_audited a (lw_store w)" by simp_all
  with w show ?thesis unfolding lab_inv_def simulation_ok_def versions_ok_def by blast
qed

text \<open>A bank without laboratory rows, and a laboratory whose numbers are all one half.\<close>

definition empty_lab :: "db \<Rightarrow> lab_db" where
  "empty_lab d = \<lparr>ld_assurance = \<lparr>ad_bank = d, ad_snapshots = [], ad_workflows = []\<rparr>, ld_profiles = [], ld_scenario_sets = [],
     ld_simulations = [], ld_plans = []\<rparr>"

definition demo_lab :: "lab_deps" where
  "demo_lab = \<lparr>dp_builtin_catalog = \<lparr>cat_nodes = [], cat_edges = [], cat_flows = [], cat_digest = replicate 64 CHR ''a'', rc_source = None, rc_parse_errors = []\<rparr>,
      dp_profile_library = \<lparr>pl_decode = (\<lambda>_. Some demo_profile), pl_problem = (\<lambda>x. x),
       pl_canonical_json = cp_legal_entity, pl_sha256_hex = (\<lambda>_. replicate 64 CHR ''a'')\<rparr>,
     dp_default_profile = demo_profile, dp_models_client = None,
     dp_library = \<lparr>ll_sha256_hex = (\<lambda>_. replicate 64 CHR ''a''), ll_scenario_request = (\<lambda>_ _ _ _. JNull),
       ll_decode_scenarios = (\<lambda>_. None), ll_decode_plan = (\<lambda>_. None)\<rparr>,
     dp_remediation_request = (\<lambda>_ _ _ _ _. JNull), dp_uniforms = (\<lambda>_. sconst (1 / 2)), dp_number = (\<lambda>_. JNull)\<rparr>"

definition demo_lab_fresh :: lab_fresh where
  "demo_lab_fresh = \<lparr>lx_id = 901, lx_now = 9, lx_audit = \<lparr>af_request = 0, af_event = 950, af_now = 9\<rparr>\<rparr>"

theorem simulations_are_reproducible_witness:
  "\<exists>w. lab_run demo_app demo_lab
       [(demo_request_env, demo_api_request, demo_lab_fresh, UpdateFinancials ''profile'' ''first version''),
        (demo_request_env, demo_api_request, demo_lab_fresh, CompanyFinancials)]
       \<lparr>lw_store = empty_lab demo_db, lw_sent = []\<rparr> = Some w \<and> rows_audited (empty_lab demo_db) (lw_store w)"
proof -
  have "lively (dp_uniforms demo_lab seed)" for seed using even_lively by (simp add: demo_lab_def)
  from simulations_are_reproducible [of demo_lab, OF this, of "empty_lab demo_db" demo_app
      "[(demo_request_env, demo_api_request, demo_lab_fresh, UpdateFinancials ''profile'' ''first version''),
        (demo_request_env, demo_api_request, demo_lab_fresh, CompanyFinancials)]"]
  show ?thesis unfolding empty_lab_def by fastforce
qed

end
