(* ===== verification/Evidence.thy ===== *)
theory Evidence
  imports Complex_Main Narrative
begin

text \<open>
  \<open>security/aspis/core/evidence.py\<close>: the record of one control result, its strict reading from an
  untrusted JSON object and its rendering. A \<open>ValueError\<close> is its message. How a JSON number is read
  as a float and written is a pair of parameters, \<open>read_number\<close> and \<open>number\<close>.
\<close>

definition VALID_STATUSES :: "string list" where
  "VALID_STATUSES = [''pass'', ''fail'', ''inconclusive'', ''error'']"

definition VALID_SEVERITIES :: "string list" where
  "VALID_SEVERITIES = [''info'', ''low'', ''medium'', ''high'', ''critical'']"

definition RECORD_FIELDS :: "string list" where
  "RECORD_FIELDS = [''control_id'', ''title'', ''framework'', ''framework_ids'', ''target'', ''status'', ''severity'',
     ''confidence'', ''source_evidence'', ''execution_evidence'', ''counter_evidence'', ''remediation'', ''limitations'',
     ''target_commit'', ''generated_by'', ''validated_by'']"

definition MAX_STRING_LENGTH :: nat where "MAX_STRING_LENGTH = 4096"
definition MAX_LIST_ITEMS :: nat where "MAX_LIST_ITEMS = 100"

section \<open>Fields\<close>

definition non_empty_string :: "json \<Rightarrow> string \<Rightarrow> string + string" where
  "non_empty_string v field_name =
     (case v of
        JStr s \<Rightarrow>
          if py_strip s = [] then Inl (field_name @ '' must be a non-empty string'')
          else if length (py_strip s) > MAX_STRING_LENGTH
          then Inl (field_name @ '' exceeds '' @ nat_str MAX_STRING_LENGTH @ '' characters'')
          else Inr (py_strip s)
      | _ \<Rightarrow> Inl (field_name @ '' must be a non-empty string''))"

definition optional_string :: "json \<Rightarrow> string \<Rightarrow> string + string" where
  "optional_string v field_name =
     (case v of
        JStr s \<Rightarrow>
          if length (py_strip s) > MAX_STRING_LENGTH
          then Inl (field_name @ '' exceeds '' @ nat_str MAX_STRING_LENGTH @ '' characters'')
          else Inr (py_strip s)
      | _ \<Rightarrow> Inl (field_name @ '' must be a string''))"

fun all_strings :: "json list \<Rightarrow> string list option" where
  "all_strings [] = Some []"
| "all_strings (JStr s # vs) = map_option ((#) s) (all_strings vs)"
| "all_strings (_ # vs) = None"

definition string_list :: "json \<Rightarrow> string \<Rightarrow> bool \<Rightarrow> string + string list" where
  "string_list v field_name required =
     (case (case v of JList vs \<Rightarrow> all_strings vs | _ \<Rightarrow> None) of
        None \<Rightarrow> Inl (field_name @ '' must be a list of strings'')
      | Some items \<Rightarrow>
          let normalized = filter (\<lambda>s. s \<noteq> []) (map py_strip items) in
          if length items > MAX_LIST_ITEMS then Inl (field_name @ '' exceeds '' @ nat_str MAX_LIST_ITEMS @ '' items'')
          else if list_ex (\<lambda>s. length s > MAX_STRING_LENGTH) normalized
          then Inl (field_name @ '' contains an oversized value'')
          else if \<not> distinct normalized then Inl (field_name @ '' must not contain duplicate values'')
          else if required \<and> normalized = [] then Inl (field_name @ '' must contain at least one value'')
          else Inr normalized)"

definition aspis_id :: "string \<Rightarrow> bool" where
  "aspis_id s \<longleftrightarrow> py_startswith s ''ASPIS-'' \<and> drop 6 s \<noteq> [] \<and>
     list_all (\<lambda>c. is_upper c \<or> is_digit c \<or> c = CHR ''-'') (drop 6 s)"

section \<open>Records\<close>

record evidence =
  er_control_id :: string
  er_title :: string
  er_framework :: string
  er_framework_ids :: "string list"
  er_target :: string
  er_status :: string
  er_severity :: string
  er_confidence :: real
  er_source_evidence :: "string list"
  er_execution_evidence :: "string list"
  er_counter_evidence :: "string list"
  er_remediation :: string
  er_limitations :: "string list"
  er_target_commit :: string
  er_generated_by :: string
  er_validated_by :: string

definition require :: "bool \<Rightarrow> string \<Rightarrow> string + unit" where
  "require b message = (if b then Inr () else Inl message)"

definition item :: "(string \<times> json) list \<Rightarrow> string \<Rightarrow> json" where
  "item kvs key = (case map_of kvs key of None \<Rightarrow> JNull | Some v \<Rightarrow> v)"

definition confidence_of :: "(json \<Rightarrow> real option) \<Rightarrow> json \<Rightarrow> string + real" where
  "confidence_of read_number v =
     (case read_number v of
        None \<Rightarrow> Inl ''confidence must be a number between 0 and 1''
      | Some x \<Rightarrow> if 0 \<le> x \<and> x \<le> 1 then Inr x else Inl ''confidence must be between 0 and 1'')"

definition read_fields :: "(json \<Rightarrow> real option) \<Rightarrow> (string \<times> json) list \<Rightarrow> string + evidence" where
  "read_fields read_number kvs =
     andthen (non_empty_string (item kvs ''control_id'') ''control_id'') (\<lambda>control_id.
     andthen (require (aspis_id control_id) ''control_id must use the ASPIS-* namespace'') (\<lambda>_.
     andthen (map_sum id py_lower (non_empty_string (item kvs ''status'') ''status'')) (\<lambda>status.
     andthen (require (status \<in> set VALID_STATUSES) (''unsupported evidence status: '' @ status)) (\<lambda>_.
     andthen (map_sum id py_lower (non_empty_string (item kvs ''severity'') ''severity'')) (\<lambda>severity.
     andthen (require (severity \<in> set VALID_SEVERITIES) (''unsupported evidence severity: '' @ severity)) (\<lambda>_.
     andthen (confidence_of read_number (item kvs ''confidence'')) (\<lambda>confidence.
     andthen (string_list (item kvs ''execution_evidence'') ''execution_evidence'' (status = ''pass'')) (\<lambda>execution.
     andthen (string_list (item kvs ''counter_evidence'') ''counter_evidence'' (status = ''fail'')) (\<lambda>counter.
     andthen (string_list (item kvs ''limitations'') ''limitations'' (status \<in> {''inconclusive'', ''error''})) (\<lambda>limitations.
     andthen (non_empty_string (item kvs ''title'') ''title'') (\<lambda>title.
     andthen (non_empty_string (item kvs ''framework'') ''framework'') (\<lambda>framework.
     andthen (string_list (item kvs ''framework_ids'') ''framework_ids'' True) (\<lambda>framework_ids.
     andthen (non_empty_string (item kvs ''target'') ''target'') (\<lambda>target.
     andthen (string_list (item kvs ''source_evidence'') ''source_evidence'' True) (\<lambda>source.
     andthen (optional_string (item kvs ''remediation'') ''remediation'') (\<lambda>remediation.
     andthen (non_empty_string (item kvs ''target_commit'') ''target_commit'') (\<lambda>target_commit.
     andthen (non_empty_string (item kvs ''generated_by'') ''generated_by'') (\<lambda>generated_by.
     andthen (non_empty_string (item kvs ''validated_by'') ''validated_by'') (\<lambda>validated_by.
     Inr \<lparr>er_control_id = control_id, er_title = title, er_framework = framework, er_framework_ids = framework_ids,
       er_target = target, er_status = status, er_severity = severity, er_confidence = confidence,
       er_source_evidence = source, er_execution_evidence = execution, er_counter_evidence = counter,
       er_remediation = remediation, er_limitations = limitations, er_target_commit = target_commit,
       er_generated_by = generated_by, er_validated_by = validated_by\<rparr>)))))))))))))))))))"

text \<open>The keys of a Python dict are distinct.\<close>

definition evidence_from :: "(json \<Rightarrow> real option) \<Rightarrow> json \<Rightarrow> string + evidence" where
  "evidence_from read_number v =
     (case v of
        JObj kvs \<Rightarrow>
          let unknown = filter (\<lambda>k. k \<notin> set RECORD_FIELDS) (map fst kvs);
              missing = filter (\<lambda>k. k \<notin> set (map fst kvs)) RECORD_FIELDS in
          if unknown \<noteq> [] then Inl (''unknown evidence fields: '' @ py_join '', '' (sort unknown))
          else if missing \<noteq> [] then Inl (''missing evidence fields: '' @ py_join '', '' (sort missing))
          else read_fields read_number kvs
      | _ \<Rightarrow> Inl ''evidence record must be an object'')"

definition evidence_fields :: "(real \<Rightarrow> json) \<Rightarrow> evidence \<Rightarrow> (string \<times> json) list" where
  "evidence_fields number r =
     [(''control_id'', JStr (er_control_id r)), (''title'', JStr (er_title r)), (''framework'', JStr (er_framework r)),
      (''framework_ids'', strings (er_framework_ids r)), (''target'', JStr (er_target r)), (''status'', JStr (er_status r)),
      (''severity'', JStr (er_severity r)), (''confidence'', number (er_confidence r)),
      (''source_evidence'', strings (er_source_evidence r)), (''execution_evidence'', strings (er_execution_evidence r)),
      (''counter_evidence'', strings (er_counter_evidence r)), (''remediation'', JStr (er_remediation r)),
      (''limitations'', strings (er_limitations r)), (''target_commit'', JStr (er_target_commit r)),
      (''generated_by'', JStr (er_generated_by r)), (''validated_by'', JStr (er_validated_by r))]"

definition evidence_json :: "(real \<Rightarrow> json) \<Rightarrow> evidence \<Rightarrow> json" where
  "evidence_json number r = JObj (evidence_fields number r)"

section \<open>What a record that was read satisfies\<close>

definition stripped :: "string \<Rightarrow> bool" where
  "stripped s \<longleftrightarrow> py_strip s = s"

definition text_field_ok :: "string \<Rightarrow> bool" where
  "text_field_ok s \<longleftrightarrow> stripped s \<and> s \<noteq> [] \<and> length s \<le> MAX_STRING_LENGTH"

definition list_field_ok :: "bool \<Rightarrow> string list \<Rightarrow> bool" where
  "list_field_ok required xs \<longleftrightarrow> list_all text_field_ok xs \<and> distinct xs \<and> length xs \<le> MAX_LIST_ITEMS \<and>
     (required \<longrightarrow> xs \<noteq> [])"

definition sound_evidence :: "evidence \<Rightarrow> bool" where
  "sound_evidence r \<longleftrightarrow>
     text_field_ok (er_control_id r) \<and> aspis_id (er_control_id r) \<and>
     er_status r \<in> set VALID_STATUSES \<and> er_severity r \<in> set VALID_SEVERITIES \<and>
     0 \<le> er_confidence r \<and> er_confidence r \<le> 1 \<and>
     list_field_ok (er_status r = ''pass'') (er_execution_evidence r) \<and>
     list_field_ok (er_status r = ''fail'') (er_counter_evidence r) \<and>
     list_field_ok (er_status r \<in> {''inconclusive'', ''error''}) (er_limitations r) \<and>
     text_field_ok (er_title r) \<and> text_field_ok (er_framework r) \<and> list_field_ok True (er_framework_ids r) \<and>
     text_field_ok (er_target r) \<and> list_field_ok True (er_source_evidence r) \<and>
     stripped (er_remediation r) \<and> length (er_remediation r) \<le> MAX_STRING_LENGTH \<and>
     text_field_ok (er_target_commit r) \<and> text_field_ok (er_generated_by r) \<and> text_field_ok (er_validated_by r)"

lemma dropWhile_idem: "dropWhile P (dropWhile P xs) = dropWhile P xs"
  by (induction xs) auto

lemma py_strip_idem [simp]: "py_strip (py_strip s) = py_strip s"
proof -
  have ends: "dropWhile P (rev (dropWhile P (rev (dropWhile P xs)))) = rev (dropWhile P (rev (dropWhile P xs)))" for P and xs :: string
  proof (cases "dropWhile P xs")
    case (Cons x ys)
    then have x: "\<not> P x" by (metis dropWhile_eq_Cons_conv)
    have "dropWhile P (rev ys @ [x]) = dropWhile P (rev ys) @ [x] \<or> dropWhile P (rev ys @ [x]) = [x]"
      using x by (induction "rev ys") (auto simp: dropWhile_append)
    with Cons x show ?thesis by (auto simp: dropWhile_append)
  next
    case Nil
    then show ?thesis unfolding Nil by simp
  qed
  show ?thesis unfolding py_strip_def ends rev_rev_ident dropWhile_idem ..
qed

lemma non_empty_string_Inr: "non_empty_string v name = Inr s \<Longrightarrow> text_field_ok s"
  by (auto simp: non_empty_string_def text_field_ok_def stripped_def split: json.splits if_splits)

lemma optional_string_Inr: "optional_string v name = Inr s \<Longrightarrow> stripped s \<and> length s \<le> MAX_STRING_LENGTH"
  by (auto simp: optional_string_def stripped_def split: json.splits if_splits)

lemma string_list_Inr: "string_list v name required = Inr xs \<Longrightarrow> list_field_ok required xs"
  by (auto simp: string_list_def Let_def list_field_ok_def text_field_ok_def stripped_def list_all_iff list_ex_iff not_less
      split: option.splits if_splits intro: le_trans [OF length_filter_le])

lemma non_empty_string_JStr: "text_field_ok s \<Longrightarrow> non_empty_string (JStr s) name = Inr s"
  by (simp add: non_empty_string_def text_field_ok_def stripped_def)

lemma optional_string_JStr: "stripped s \<Longrightarrow> length s \<le> MAX_STRING_LENGTH \<Longrightarrow> optional_string (JStr s) name = Inr s"
  by (simp add: optional_string_def stripped_def)

lemma all_strings_map [simp]: "all_strings (map JStr xs) = Some xs"
  by (induction xs) auto

lemma string_list_strings: "list_field_ok required xs \<Longrightarrow> string_list (strings xs) name required = Inr xs"
proof -
  assume ok: "list_field_ok required xs"
  then have "map py_strip xs = xs" "filter (\<lambda>s. s \<noteq> []) xs = xs"
    by (auto simp: list_field_ok_def text_field_ok_def stripped_def list_all_iff intro: map_idI filter_True)
  with ok show ?thesis
    by (auto simp: string_list_def strings_def Let_def list_field_ok_def text_field_ok_def list_all_iff list_ex_iff not_less)
qed

lemma require_Inr [simp]: "require b m = Inr u \<longleftrightarrow> b"
  by (simp add: require_def)

lemma require_True: "b \<Longrightarrow> require b m = Inr ()"
  by (simp add: require_def)

text \<open>What was read is sound, and a sound record reads back from its rendering.\<close>

lemma read_fields_sound:
  assumes "read_fields read_number kvs = Inr r"
  shows "sound_evidence r"
proof -
  have lower: "\<exists>s. x = py_lower s" if "map_sum id py_lower (non_empty_string v name) = Inr x" for x v name
    using that by (cases "non_empty_string v name") auto
  have conf: "0 \<le> x \<and> x \<le> 1" if "confidence_of read_number v = Inr x" for x v
    using that by (auto simp: confidence_of_def split: option.splits if_splits)
  from assms show ?thesis
    unfolding read_fields_def andthen_Inr_iff require_Inr sum.inject sound_evidence_def
    by (elim exE conjE, hypsubst) (simp add: non_empty_string_Inr optional_string_Inr string_list_Inr conf)
qed

lemma evidence_from_sound: "evidence_from read_number v = Inr r \<Longrightarrow> sound_evidence r"
  unfolding evidence_from_def by (cases v) (simp_all add: Let_def read_fields_sound split: if_split_asm)

lemma evidence_keys: "map fst (evidence_fields number r) = RECORD_FIELDS"
  unfolding evidence_fields_def RECORD_FIELDS_def list.map fst_conv ..

lemma evidence_items:
  "item (evidence_fields number r) ''control_id'' = JStr (er_control_id r)"
  "item (evidence_fields number r) ''title'' = JStr (er_title r)"
  "item (evidence_fields number r) ''framework'' = JStr (er_framework r)"
  "item (evidence_fields number r) ''framework_ids'' = strings (er_framework_ids r)"
  "item (evidence_fields number r) ''target'' = JStr (er_target r)"
  "item (evidence_fields number r) ''status'' = JStr (er_status r)"
  "item (evidence_fields number r) ''severity'' = JStr (er_severity r)"
  "item (evidence_fields number r) ''confidence'' = number (er_confidence r)"
  "item (evidence_fields number r) ''source_evidence'' = strings (er_source_evidence r)"
  "item (evidence_fields number r) ''execution_evidence'' = strings (er_execution_evidence r)"
  "item (evidence_fields number r) ''counter_evidence'' = strings (er_counter_evidence r)"
  "item (evidence_fields number r) ''remediation'' = JStr (er_remediation r)"
  "item (evidence_fields number r) ''limitations'' = strings (er_limitations r)"
  "item (evidence_fields number r) ''target_commit'' = JStr (er_target_commit r)"
  "item (evidence_fields number r) ''generated_by'' = JStr (er_generated_by r)"
  "item (evidence_fields number r) ''validated_by'' = JStr (er_validated_by r)"
  by (simp_all add: item_def evidence_fields_def)

text \<open>The fixed words are lower case and have no space around them.\<close>

lemma valid_words: "s \<in> set VALID_STATUSES \<union> set VALID_SEVERITIES \<Longrightarrow> text_field_ok s \<and> py_lower s = s"
proof -
  have "list_all (\<lambda>s. text_field_ok s \<and> py_lower s = s) (VALID_STATUSES @ VALID_SEVERITIES)" by code_simp
  then show "s \<in> set VALID_STATUSES \<union> set VALID_SEVERITIES \<Longrightarrow> ?thesis" by (simp only: list_all_iff set_append)
qed

lemma evidence_reads_back:
  assumes "sound_evidence r" and "read_number (number (er_confidence r)) = Some (er_confidence r)"
  shows "evidence_from read_number (evidence_json number r) = Inr r"
proof -
  note ok = assms(1) [unfolded sound_evidence_def]
  have words: "text_field_ok (er_status r)" "py_lower (er_status r) = er_status r"
    "text_field_ok (er_severity r)" "py_lower (er_severity r) = er_severity r"
    using valid_words ok by blast+
  have "read_fields read_number (evidence_fields number r) = Inr r"
    unfolding read_fields_def evidence_items
    using ok words assms(2)
    by (simp only: non_empty_string_JStr optional_string_JStr string_list_strings map_sum.simps require_True andthen_simps id_apply
        confidence_of_def option.case if_True simp_thms) simp
  then show ?thesis
    unfolding evidence_from_def evidence_json_def json.case Let_def evidence_keys by simp
qed

end
