(* ===== verification/Asvs.thy ===== *)
theory Asvs
  imports Evidence "HOL-Library.AList"
begin

text \<open>
  The live runner of \<open>bantam/asvs.py\<close>: the reviewed control catalogue, the loopback transport, the
  synthetic browser session and the five probes, each with its evidence record. The HTTP opener acts on
  the tables of the bank, since the probes call the running API; it and the decoding of JSON and of
  cookies are parameters.
\<close>

definition MAX_HTTP_RESPONSE_BYTES :: nat where "MAX_HTTP_RESPONSE_BYTES = 65536"
definition RUN_COOLDOWN_SECONDS :: int where "RUN_COOLDOWN_SECONDS = 30"
definition GENERATOR :: string where "GENERATOR = ''bantam-asvs-live-runner/1.0''"
definition VALIDATOR :: string where "VALIDATOR = ''deterministic-live-http-assertion/1.0''"

definition EXPECTED_CONTROL_IDS :: "string list" where
  "EXPECTED_CONTROL_IDS = [''ASPIS-ASVS-AC-001'', ''ASPIS-ASVS-AC-002'', ''ASPIS-ASVS-AC-003'', ''ASPIS-ASVS-AC-004'',
     ''ASPIS-ASVS-AC-005'']"

definition ALICE_ACCOUNT_ID :: uuid where "ALICE_ACCOUNT_ID = 0x30000000000000000000000000000002"
definition BOB_ACCOUNT_ID :: uuid where "BOB_ACCOUNT_ID = 0x30000000000000000000000000000003"
definition DEMO_PASSWORD :: string where "DEMO_PASSWORD = ''BantamDemo123!''"

section \<open>The control catalogue\<close>

record control_definition =
  cd_control_id :: string
  cd_title :: string
  cd_framework_ids :: "string list"
  cd_severity :: string
  cd_remediation :: string

definition control_json :: "control_definition \<Rightarrow> json" where
  "control_json c = JObj [(''control_id'', JStr (cd_control_id c)), (''title'', JStr (cd_title c)),
     (''framework_ids'', strings (cd_framework_ids c)), (''severity'', JStr (cd_severity c)),
     (''remediation'', JStr (cd_remediation c))]"

text \<open>\<open>str(value.get(key, ''))\<close> of a catalogue entry; its texts are JSON strings.\<close>

definition text_at :: "(string \<times> json) list \<Rightarrow> string \<Rightarrow> string" where
  "text_at kvs key = (case map_of kvs key of Some (JStr s) \<Rightarrow> s | _ \<Rightarrow> [])"

definition parse_control :: "string list \<Rightarrow> json \<Rightarrow> string + control_definition" where
  "parse_control identifiers v =
     (case v of
        JObj kvs \<Rightarrow>
          (case (json_text (map_of kvs ''control_id''), case map_of kvs ''framework_ids'' of Some (JList ids) \<Rightarrow> all_strings ids | _ \<Rightarrow> None) of
             (Some control_id, Some framework_ids) \<Rightarrow>
               if \<not> py_startswith control_id ''ASPIS-ASVS-'' \<or> control_id \<in> set identifiers \<or> framework_ids = []
               then Inl ''ASVS catalog contains an invalid control mapping''
               else Inr \<lparr>cd_control_id = control_id, cd_title = py_strip (text_at kvs ''title''), cd_framework_ids = framework_ids,
                 cd_severity = py_lower (py_strip (text_at kvs ''severity'')), cd_remediation = py_strip (text_at kvs ''remediation'')\<rparr>
           | _ \<Rightarrow> Inl ''ASVS catalog contains an invalid control mapping'')
      | _ \<Rightarrow> Inl ''ASVS catalog controls must be objects'')"

fun parse_controls :: "string list \<Rightarrow> json list \<Rightarrow> string + control_definition list" where
  "parse_controls identifiers [] = Inr []"
| "parse_controls identifiers (v # vs) =
     andthen (parse_control identifiers v) (\<lambda>c.
     andthen (parse_controls (cd_control_id c # identifiers) vs) (\<lambda>cs. Inr (c # cs)))"

definition complete_control :: "control_definition \<Rightarrow> bool" where
  "complete_control c \<longleftrightarrow> cd_title c \<noteq> [] \<and> cd_remediation c \<noteq> [] \<and> cd_severity c \<in> set VALID_SEVERITIES \<and>
     list_all (\<lambda>i. py_strip i \<noteq> []) (cd_framework_ids c)"

definition load_catalog :: "json \<Rightarrow> string + string \<times> control_definition list" where
  "load_catalog document =
     (if \<not> (case document of JObj kvs \<Rightarrow> map_of kvs ''schema_version'' = Some (JStr ''1.0'') | _ \<Rightarrow> False)
      then Inl ''unsupported ASVS control catalog''
      else case json_text (field (Some document) ''catalog_version'') of
        None \<Rightarrow> Inl ''ASVS catalog version is missing''
      | Some version \<Rightarrow>
          if py_strip version = [] then Inl ''ASVS catalog version is missing''
          else (case field (Some document) ''controls'' of
              Some (JList controls) \<Rightarrow>
                if \<not> (1 \<le> length controls \<and> length controls \<le> 25)
                then Inl ''ASVS catalog must contain between 1 and 25 controls''
                else andthen (parse_controls [] controls) (\<lambda>parsed.
                  if \<not> list_all complete_control parsed
                  then Inl (''ASVS catalog controls require valid titles, severity, mappings, '' @ ''and remediation'')
                  else if set (map cd_control_id parsed) \<noteq> set EXPECTED_CONTROL_IDS
                  then Inl ''ASVS catalog and reviewed live-runner assertions are out of sync''
                  else Inr (version, parsed))
            | _ \<Rightarrow> Inl ''ASVS catalog must contain between 1 and 25 controls''))"

text \<open>The packaged \<open>bantam-control-catalog.json\<close>, without the test names, which are not read.\<close>

definition catalog_entry :: "string \<Rightarrow> string \<Rightarrow> string list \<Rightarrow> string \<Rightarrow> string \<Rightarrow> json" where
  "catalog_entry control_id title framework_ids severity remediation = JObj
     [(''control_id'', JStr control_id), (''title'', JStr title), (''framework_ids'', strings framework_ids),
      (''severity'', JStr severity), (''remediation'', JStr remediation)]"

definition CATALOG_DOCUMENT :: json where
  "CATALOG_DOCUMENT = JObj
     [(''schema_version'', JStr ''1.0''), (''catalog'', JStr ''OWASP Application Security Verification Standard''),
      (''catalog_version'', JStr ''5.0.0''),
      (''controls'', JList
        [catalog_entry ''ASPIS-ASVS-AC-001'' ''Protected API rejects anonymous requests'' [''v5.0.0-8.2.1'', ''v5.0.0-7.2.1''] ''high''
           ''Require a server-validated session before protected route logic runs.'',
         catalog_entry ''ASPIS-ASVS-AC-002'' ''Customer cannot invoke bank-administrator functions'' [''v5.0.0-8.2.1'', ''v5.0.0-8.3.1'']
           ''critical'' ''Enforce role authorization at the API service layer on every administrator route.'',
         catalog_entry ''ASPIS-ASVS-AC-003'' (''Customer cannot read another customer'' @ [CHR 0x27] @ ''s account history'')
           [''v5.0.0-8.2.2''] ''critical'' ''Bind account reads to the authenticated customer in the database query.'',
         catalog_entry ''ASPIS-ASVS-AC-004'' ''Customer cannot transfer from an unowned account'' [''v5.0.0-8.2.2'', ''v5.0.0-8.3.1'']
           ''critical'' ''Check source-account ownership in the trusted transfer service before posting ledger entries.'',
         catalog_entry ''ASPIS-ASVS-AC-005'' ''Logout prevents replay of the terminated session'' [''v5.0.0-7.4.1''] ''high''
           ''Revoke the session token identifier on logout and enforce the revocation list on later requests.''])]"

definition CATALOG_VERSION :: string where
  "CATALOG_VERSION = (case load_catalog CATALOG_DOCUMENT of Inr (version, _) \<Rightarrow> version | Inl _ \<Rightarrow> [])"

definition CONTROLS :: "control_definition list" where
  "CONTROLS = (case load_catalog CATALOG_DOCUMENT of Inr (_, controls) \<Rightarrow> controls | Inl _ \<Rightarrow> [])"

definition control_by_id :: "string \<Rightarrow> control_definition" where
  "control_by_id control_id = the (find (\<lambda>c. cd_control_id c = control_id) CONTROLS)"

text \<open>The module imports: the packaged catalogue is accepted.\<close>

lemma catalog_loads: "load_catalog CATALOG_DOCUMENT = Inr (CATALOG_VERSION, CONTROLS)"
  by code_simp

lemma catalog_ids: "map cd_control_id CONTROLS = EXPECTED_CONTROL_IDS"
  by code_simp

section \<open>The transport\<close>

record browser_session =
  bs_cookie_header :: string
  bs_csrf_token :: string

record exchange =
  ex_method :: string
  ex_path :: string
  ex_status :: int
  ex_payload :: "(string \<times> json) list"
  ex_set_cookie_headers :: "string list"
  ex_duration_ms :: int

definition error_code :: "exchange \<Rightarrow> string option" where
  "error_code x = json_text (field (map_of (ex_payload x) ''error'') ''code'')"

record probe =
  pb_method :: string
  pb_path :: string
  pb_session :: "browser_session option"
  pb_body :: "json option"
  pb_headers :: "(string \<times> string) list"

record http_call =
  hc_method :: string
  hc_url :: string
  hc_headers :: "(string \<times> string) list"
  hc_data :: "string option"

text \<open>Status, body, \<open>Set-Cookie\<close> headers and the time it took in milliseconds; or no answer.\<close>

datatype loop_answer = LoopAnswer int string "string list" int | LoopNothing

type_synonym opener = "http_call \<Rightarrow> db \<Rightarrow> loop_answer \<times> db"
type_synonym transport = "probe \<Rightarrow> (db, string, exchange) proc"

text \<open>\<open>json.dumps\<close> with the keys in their order and \<open>ensure_ascii\<close>.\<close>

definition ascii_char :: "char \<Rightarrow> string" where
  "ascii_char c = (if ord c \<ge> 128 then [CHR 0x5C] @ ''u00'' @ hex_str 2 (ord c) else json_char c)"

definition ascii_string :: "string \<Rightarrow> string" where
  "ascii_string s = [CHR 0x22] @ concat (map ascii_char s) @ [CHR 0x22]"

fun dump_json :: "string \<Rightarrow> string \<Rightarrow> json \<Rightarrow> string" where
  "dump_json separator colon JNull = ''null''"
| "dump_json separator colon (JBool b) = (if b then ''true'' else ''false'')"
| "dump_json separator colon (JInt i) = int_str i"
| "dump_json separator colon (JStr s) = ascii_string s"
| "dump_json separator colon (JList xs) = ''['' @ py_join separator (map (dump_json separator colon) xs) @ '']''"
| "dump_json separator colon (JObj kvs) =
     ''{'' @ py_join separator (map (\<lambda>kv. ascii_string (fst kv) @ colon @ dump_json separator colon (snd kv)) kvs) @ ''}''"

definition compact_json :: "json \<Rightarrow> string" where "compact_json = dump_json '','' '':''"
definition spaced_json :: "json \<Rightarrow> string" where "spaced_json = dump_json '', '' '': ''"

definition read_payload :: "(string \<Rightarrow> json option) \<Rightarrow> string \<Rightarrow> string + (string \<times> json) list" where
  "read_payload loads raw =
     (if length raw > MAX_HTTP_RESPONSE_BYTES then Inl ''probe response exceeded the safe evidence limit''
      else if raw = [] then Inr []
      else case loads raw of
        None \<Rightarrow> Inl ''probe response was not a valid JSON object''
      | Some (JObj kvs) \<Rightarrow> Inr kvs
      | Some _ \<Rightarrow> Inl ''probe response was not a JSON object'')"

definition probe_headers :: "uuid \<Rightarrow> probe \<Rightarrow> (string \<times> string) list" where
  "probe_headers request_id p =
     (let hs = fold (\<lambda>(k, v). AList.update k v) (pb_headers p)
          [(''Accept'', ''application/json''), (''X-Request-ID'', uuid_str request_id)];
          hs = (case pb_session p of None \<Rightarrow> hs
            | Some s \<Rightarrow>
                let hs = AList.update ''Cookie'' (bs_cookie_header s) hs in
                if py_upper (pb_method p) \<notin> {''GET'', ''HEAD'', ''OPTIONS''}
                then AList.update ''X-CSRF-Token'' (bs_csrf_token s) hs else hs) in
      (case pb_body p of None \<Rightarrow> hs | Some _ \<Rightarrow> AList.update ''Content-Type'' ''application/json'' hs))"

text \<open>\<open>request_id\<close> draws the identifier of a probe's request. A \<open>ProbeUnavailable\<close> is its message.\<close>

definition loopback_call :: "(string \<Rightarrow> json option) \<Rightarrow> opener \<Rightarrow> int \<Rightarrow> (probe \<Rightarrow> uuid) \<Rightarrow> transport" where
  "loopback_call loads open_url port request_id p d =
     (if \<not> py_startswith (pb_path p) ''/'' \<or> py_contains (pb_path p) ''://''
      then (Inl ''probe path must be a local absolute path'', d)
      else case open_url \<lparr>hc_method = py_upper (pb_method p), hc_url = ''http://127.0.0.1:'' @ int_str port @ pb_path p,
          hc_headers = probe_headers (request_id p) p, hc_data = map_option compact_json (pb_body p)\<rparr> d of
        (LoopNothing, d1) \<Rightarrow> (Inl ''the live Bantam API probe was unavailable'', d1)
      | (LoopAnswer status raw cookies elapsed, d1) \<Rightarrow>
          (andthen (read_payload loads raw) (\<lambda>payload.
             Inr \<lparr>ex_method = py_upper (pb_method p), ex_path = pb_path p, ex_status = status, ex_payload = payload,
               ex_set_cookie_headers = cookies, ex_duration_ms = max 0 elapsed\<rparr>), d1))"

text \<open>\<open>cookies\<close> are the names and values \<open>SimpleCookie\<close> collects from the headers.\<close>

definition browser_session_of :: "(string list \<Rightarrow> (string \<times> string) list) \<Rightarrow> exchange \<Rightarrow> string + browser_session" where
  "browser_session_of cookies x =
     (if ex_status x \<noteq> 200 then Inl ''synthetic customer authentication was rejected''
      else if ''access_token'' \<in> set (map fst (ex_payload x)) then Inl ''login unexpectedly returned a browser bearer token''
      else case json_text (map_of (ex_payload x) ''csrf_token'') of
        None \<Rightarrow> Inl ''login did not issue a CSRF token''
      | Some csrf \<Rightarrow>
          if csrf = [] then Inl ''login did not issue a CSRF token''
          else if list_ex (\<lambda>v. length v > 4096) (ex_set_cookie_headers x) then Inl ''login cookie exceeded the safe probe limit''
          else
            let header = py_join ''; '' (map (\<lambda>(name, v). name @ ''='' @ v) (cookies (ex_set_cookie_headers x))) in
            if header = [] then Inl ''login did not issue a session cookie''
            else Inr \<lparr>bs_cookie_header = header, bs_csrf_token = csrf\<rparr>)"

section \<open>Evidence of a probe\<close>

definition observed :: "exchange \<Rightarrow> string" where
  "observed x = ex_method x @ '' '' @ ex_path x @ '' returned HTTP '' @ int_str (ex_status x) @
     '' with error code '' @ (case error_code x of None \<Rightarrow> ''none'' | Some c \<Rightarrow> if c = [] then ''none'' else c) @
     '' in '' @ int_str (ex_duration_ms x) @ '' ms''"

definition blank_record :: "string \<Rightarrow> string \<Rightarrow> string \<Rightarrow> string \<Rightarrow> evidence" where
  "blank_record target_commit control_id meth path =
     (let c = control_by_id control_id in
      \<lparr>er_control_id = cd_control_id c, er_title = cd_title c, er_framework = ''OWASP ASVS '' @ CATALOG_VERSION,
       er_framework_ids = cd_framework_ids c, er_target = ''Bantam live API'', er_status = ''error'', er_severity = cd_severity c,
       er_confidence = 0,
       er_source_evidence = [''Live loopback HTTP probe: '' @ meth @ '' '' @ path, ''security/aspis/asvs/bantam-control-catalog.json''],
       er_execution_evidence = [], er_counter_evidence = [], er_remediation = cd_remediation c,
       er_limitations = [''The live HTTP probe could not complete safely.''], er_target_commit = target_commit,
       er_generated_by = GENERATOR, er_validated_by = VALIDATOR\<rparr>)"

text \<open>What a probe asserts: the control, the request and the answer it expects.\<close>

type_synonym assertion = "string \<times> string \<times> string \<times> int \<times> string"

definition evidence_record :: "string \<Rightarrow> assertion \<Rightarrow> string + exchange \<Rightarrow> evidence" where
  "evidence_record target_commit a outcome =
     (case a of (control_id, meth, path, expected_status, expected_code) \<Rightarrow>
        let blank = blank_record target_commit control_id meth path in
        case outcome of
          Inl _ \<Rightarrow> blank
        | Inr x \<Rightarrow>
            if ex_status x = expected_status \<and> error_code x = Some expected_code
            then blank\<lparr>er_status := ''pass'', er_confidence := 1, er_execution_evidence := [observed x], er_limitations := []\<rparr>
            else blank\<lparr>er_status := ''fail'', er_confidence := 1, er_counter_evidence :=
                [''Expected HTTP '' @ int_str expected_status @ '' with error code '' @ expected_code @ ''; '' @ observed x],
              er_limitations := []\<rparr>)"

section \<open>The five probes\<close>

definition OTHER_HISTORY :: string where
  "OTHER_HISTORY = ''/v1/accounts/'' @ uuid_str BOB_ACCOUNT_ID @ ''/transactions''"

definition ANONYMOUS :: assertion where "ANONYMOUS = (''ASPIS-ASVS-AC-001'', ''GET'', ''/v1/me'', 401, ''UNAUTHENTICATED'')"
definition ADMIN_ROUTE :: assertion where "ADMIN_ROUTE = (''ASPIS-ASVS-AC-002'', ''GET'', ''/v1/admin/customers'', 403, ''FORBIDDEN'')"
definition HISTORY :: assertion where "HISTORY = (''ASPIS-ASVS-AC-003'', ''GET'', OTHER_HISTORY, 404, ''NOT_FOUND'')"
definition TRANSFER :: assertion where "TRANSFER = (''ASPIS-ASVS-AC-004'', ''POST'', ''/v1/transfers'', 403, ''FORBIDDEN'')"
definition REPLAY :: assertion where "REPLAY = (''ASPIS-ASVS-AC-005'', ''GET'', ''/v1/me'', 401, ''UNAUTHENTICATED'')"

definition plain_probe :: "string \<Rightarrow> string \<Rightarrow> browser_session option \<Rightarrow> probe" where
  "plain_probe meth path session = \<lparr>pb_method = meth, pb_path = path, pb_session = session, pb_body = None, pb_headers = []\<rparr>"

definition login_probe :: probe where
  "login_probe = (plain_probe ''POST'' ''/v1/auth/login'' None)
     \<lparr>pb_body := Some (JObj [(''email'', JStr ''alice@bantam.local''), (''password'', JStr DEMO_PASSWORD)])\<rparr>"

definition transfer_probe :: "uuid \<Rightarrow> browser_session \<Rightarrow> probe" where
  "transfer_probe key session = (plain_probe ''POST'' ''/v1/transfers'' (Some session))
     \<lparr>pb_headers := [(''Idempotency-Key'', ''asvs-'' @ uuid_str key)],
      pb_body := Some (JObj [(''source_account_id'', JStr (uuid_str BOB_ACCOUNT_ID)),
        (''destination_account_id'', JStr (uuid_str ALICE_ACCOUNT_ID)), (''amount_minor'', JInt 100), (''currency'', JStr ''GBP''),
        (''description'', JStr ''ASVS authorization verification'')])\<rparr>"

definition run_probes ::
  "transport \<Rightarrow> string \<Rightarrow> (string list \<Rightarrow> (string \<times> string) list) \<Rightarrow> uuid \<Rightarrow> db \<Rightarrow> evidence list \<times> db" where
  "run_probes call target_commit cookies key d =
     (let rec = evidence_record target_commit in
      case call (plain_probe ''GET'' ''/v1/me'' None) d of (anonymous, d1) \<Rightarrow>
      case call login_probe d1 of (login, d2) \<Rightarrow>
      case andthen login (browser_session_of cookies) of
        Inl e \<Rightarrow> (rec ANONYMOUS anonymous # map (\<lambda>a. rec a (Inl e)) [ADMIN_ROUTE, HISTORY, TRANSFER, REPLAY], d2)
      | Inr session \<Rightarrow>
          case call (plain_probe ''GET'' ''/v1/admin/customers'' (Some session)) d2 of (admin, d3) \<Rightarrow>
          case call (plain_probe ''GET'' OTHER_HISTORY (Some session)) d3 of (other_history, d4) \<Rightarrow>
          case call (transfer_probe key session) d4 of (transfer, d5) \<Rightarrow>
          case call (plain_probe ''POST'' ''/v1/auth/logout'' (Some session)) d5 of (logout, d6) \<Rightarrow>
          case (if (case logout of Inl _ \<Rightarrow> True | Inr x \<Rightarrow> ex_status x \<noteq> 200)
                then (Inl ''the synthetic session could not be terminated'', d6)
                else call (plain_probe ''GET'' ''/v1/me'' (Some session)) d6) of (replay, d7) \<Rightarrow>
            ([rec ANONYMOUS anonymous, rec ADMIN_ROUTE admin, rec HISTORY other_history, rec TRANSFER transfer, rec REPLAY replay], d7))"

definition run_status :: "evidence list \<Rightarrow> string" where
  "run_status records =
     (let statuses = map er_status records in
      if ''error'' \<in> set statuses then ''ERROR''
      else if ''fail'' \<in> set statuses then ''FAIL''
      else if ''inconclusive'' \<in> set statuses then ''INCONCLUSIVE''
      else ''PASS'')"

definition count_status :: "string \<Rightarrow> evidence list \<Rightarrow> nat" where
  "count_status status records = length (filter (\<lambda>r. er_status r = status) records)"

end
