(* ===== verification/Test_Plan.thy ===== *)
theory Test_Plan
  imports Asvs Text_Pattern
begin

text \<open>
  The plans of \<open>bantam/asvs_ai.py\<close>: the reviewed scenarios, the fields of a candidate plan, the tiny
  Rego subset with its canonical module, \<open>validate_generated_plan\<close> and the compiled test module.
  Pydantic reading a document into the fields of a plan, with the white space around every string
  removed, and whether Python parses the compiled module, are parameters. A back quote in a text given
  to \<open>dq\<close> stands for a double quote.
\<close>

definition dq :: "string \<Rightarrow> string" where
  "dq s = map (\<lambda>c. if c = CHR 0x60 then CHR 0x22 else c) s"

definition MAX_GENERATED_TESTS :: nat where "MAX_GENERATED_TESTS = 10"
definition MAX_REGO_MODULE_BYTES :: nat where "MAX_REGO_MODULE_BYTES = 8000"
definition REGO_PACKAGE :: string where "REGO_PACKAGE = ''aspis.asvs.generated''"

section \<open>Scenarios\<close>

record scenario_definition =
  sn_scenario_id :: string
  sn_control_id :: string
  sn_method :: string
  sn_path :: string
  sn_auth_context :: string
  sn_expected_status :: nat
  sn_expected_error_code :: string
  sn_description :: string

definition prompt_mapping :: "scenario_definition \<Rightarrow> json" where
  "prompt_mapping s = JObj
     [(''scenario_id'', JStr (sn_scenario_id s)), (''control_id'', JStr (sn_control_id s)), (''method'', JStr (sn_method s)),
      (''path'', JStr (sn_path s)), (''auth_context'', JStr (sn_auth_context s)),
      (''expected_status'', JInt (int (sn_expected_status s))), (''expected_error_code'', JStr (sn_expected_error_code s)),
      (''description'', JStr (sn_description s))]"

definition SCENARIOS :: "scenario_definition list" where
  "SCENARIOS =
     [\<lparr>sn_scenario_id = ''anonymous-protected-route'', sn_control_id = ''ASPIS-ASVS-AC-001'', sn_method = ''GET'',
       sn_path = ''/v1/me'', sn_auth_context = ''anonymous'', sn_expected_status = 401,
       sn_expected_error_code = ''UNAUTHENTICATED'', sn_description = ''Call a protected profile route without a session.''\<rparr>,
      \<lparr>sn_scenario_id = ''customer-admin-route-denied'', sn_control_id = ''ASPIS-ASVS-AC-002'', sn_method = ''GET'',
       sn_path = ''/v1/admin/customers'', sn_auth_context = ''synthetic_customer'', sn_expected_status = 403,
       sn_expected_error_code = ''FORBIDDEN'', sn_description = ''Use a customer session to call a bank-admin route.''\<rparr>,
      \<lparr>sn_scenario_id = ''other-account-history-denied'', sn_control_id = ''ASPIS-ASVS-AC-003'', sn_method = ''GET'',
       sn_path = ''/v1/accounts/{bob_account_id}/transactions'', sn_auth_context = ''synthetic_customer'', sn_expected_status = 404,
       sn_expected_error_code = ''NOT_FOUND'',
       sn_description = ''Use Alice'' @ [CHR 0x27] @ ''s session to request Bob'' @ [CHR 0x27] @ ''s account history.''\<rparr>,
      \<lparr>sn_scenario_id = ''unowned-transfer-denied'', sn_control_id = ''ASPIS-ASVS-AC-004'', sn_method = ''POST'',
       sn_path = ''/v1/transfers'', sn_auth_context = ''synthetic_customer'', sn_expected_status = 403,
       sn_expected_error_code = ''FORBIDDEN'', sn_description = ''Attempt a transfer whose source account belongs to Bob.''\<rparr>,
      \<lparr>sn_scenario_id = ''logged-out-session-replay-denied'', sn_control_id = ''ASPIS-ASVS-AC-005'', sn_method = ''GET'',
       sn_path = ''/v1/me'', sn_auth_context = ''terminated_synthetic_customer'', sn_expected_status = 401,
       sn_expected_error_code = ''UNAUTHENTICATED'',
       sn_description = ''Log out Alice, then replay the terminated cookie session.''\<rparr>]"

definition scenario_of :: "string \<Rightarrow> scenario_definition option" where
  "scenario_of scenario_id = find (\<lambda>s. sn_scenario_id s = scenario_id) SCENARIOS"

text \<open>\<open>SCENARIOS[id]\<close>, looked up only after the id was found to be a scenario.\<close>

definition scenario_at :: "string \<Rightarrow> scenario_definition" where
  "scenario_at scenario_id = the (scenario_of scenario_id)"

section \<open>Candidate plans\<close>

record generated_test =
  gt_control_id :: string
  gt_scenario_id :: string
  gt_name :: string
  gt_objective :: string
  gt_grounding :: string
  gt_source_refs :: "string list"
  gt_terraform_refs :: "string list"

record generated_plan =
  gp_schema_version :: string
  gp_catalog_version :: string
  gp_summary :: string
  gp_rego_module :: string
  gp_tests :: "generated_test list"

definition printable_char :: "char \<Rightarrow> bool" where
  "printable_char c \<longleftrightarrow> 32 \<le> ord c \<and> ord c \<le> 126"

definition printable :: "string \<Rightarrow> bool" where
  "printable s \<longleftrightarrow> list_all printable_char s"

definition reference_ok :: "string \<Rightarrow> bool" where
  "reference_ok r \<longleftrightarrow> printable r \<and> r \<noteq> [] \<and> \<not> py_startswith r ''/'' \<and> CHR 0x5C \<notin> set r \<and> ''..'' \<notin> set (py_split (CHR ''/'') r)"

definition references :: "string list \<Rightarrow> bool" where
  "references rs \<longleftrightarrow> distinct rs \<and> list_all reference_ok rs"

definition rego_text_ok :: "string \<Rightarrow> bool" where
  "rego_text_ok s \<longleftrightarrow> utf8_length s \<le> MAX_REGO_MODULE_BYTES \<and> list_all (\<lambda>c. c = CHR 0x0A \<or> printable_char c) s"

definition valid_test :: "generated_test \<Rightarrow> bool" where
  "valid_test t \<longleftrightarrow>
     length_in 1 64 (gt_control_id t) \<and> length_in 1 64 (gt_scenario_id t) \<and>
     length_in 8 120 (gt_name t) \<and> printable (gt_name t) \<and>
     length_in 12 360 (gt_objective t) \<and> printable (gt_objective t) \<and>
     length_in 12 500 (gt_grounding t) \<and> printable (gt_grounding t) \<and>
     1 \<le> length (gt_source_refs t) \<and> length (gt_source_refs t) \<le> 3 \<and> references (gt_source_refs t) \<and>
     length (gt_terraform_refs t) \<le> 3 \<and> references (gt_terraform_refs t)"

definition valid_candidate :: "generated_plan \<Rightarrow> bool" where
  "valid_candidate p \<longleftrightarrow>
     length_in 12 500 (gp_summary p) \<and> printable (gp_summary p) \<and>
     length_in 1 MAX_REGO_MODULE_BYTES (gp_rego_module p) \<and> rego_text_ok (gp_rego_module p) \<and>
     1 \<le> length (gp_tests p) \<and> length (gp_tests p) \<le> MAX_GENERATED_TESTS \<and> list_all valid_test (gp_tests p)"

record plan_library =
  tl_decode :: "string \<Rightarrow> generated_plan option"
  tl_parses :: "string \<Rightarrow> bool"

text \<open>What stops a candidate: it is outside the reviewed language, the captured context has no file
  manifest, or the compiled module does not parse.\<close>

datatype plan_problem = Rejected string | NoManifest | NotPython

definition parse_plan :: "plan_library \<Rightarrow> string \<Rightarrow> plan_problem + generated_plan" where
  "parse_plan lib raw =
     (case tl_decode lib raw of
        None \<Rightarrow> Inl (Rejected ''model output did not match the test-plan schema'')
      | Some p \<Rightarrow>
          if valid_candidate p then Inr (p\<lparr>gp_rego_module := py_strip (gp_rego_module p)\<rparr>)
          else Inl (Rejected ''model output did not match the test-plan schema''))"

section \<open>Rego\<close>

definition rego_rule_name :: "string \<Rightarrow> string" where
  "rego_rule_name control_id = map (\<lambda>c. if c = CHR ''-'' then CHR ''_'' else c) (py_lower control_id) @ ''_pass''"

definition RESULTS :: string where "RESULTS = dq ''input.results[`''"
definition STATUS_IS :: string where "STATUS_IS = dq ''`].status == ''"
definition ERROR_IS :: string where "ERROR_IS = dq ''`].error_code == `''"

text \<open>The statements of a rule, without their indentation.\<close>

type_synonym rego_rule = "string \<times> string \<times> nat \<times> string"

definition rule_of :: "generated_test \<Rightarrow> rego_rule" where
  "rule_of t = (let s = scenario_at (gt_scenario_id t) in
     (rego_rule_name (gt_control_id t), sn_scenario_id s, sn_expected_status s, sn_expected_error_code s))"

definition head_line :: "rego_rule \<Rightarrow> string" where
  "head_line r = fst r @ '' if {''"

definition status_line :: "rego_rule \<Rightarrow> string" where
  "status_line r = RESULTS @ fst (snd r) @ STATUS_IS @ nat_str (fst (snd (snd r)))"

definition error_line :: "rego_rule \<Rightarrow> string" where
  "error_line r = RESULTS @ fst (snd r) @ ERROR_IS @ snd (snd (snd r)) @ [CHR 0x22]"

definition HEADER_LINES :: "string list" where
  "HEADER_LINES = [''package '' @ REGO_PACKAGE, ''import rego.v1'']"

definition canonical_lines :: "rego_rule \<Rightarrow> string list" where
  "canonical_lines r = [[], head_line r, ''    '' @ status_line r, ''    '' @ error_line r, ''}'']"

definition canonical_rego_module :: "generated_test list \<Rightarrow> string" where
  "canonical_rego_module tests =
     py_join newline ([''package '' @ REGO_PACKAGE, [], ''import rego.v1''] @ concat (map (canonical_lines \<circ> rule_of) tests)) @ newline"

text \<open>The three regular expressions, each with what its groups capture.\<close>

definition head_name :: "string \<Rightarrow> string option" where
  "head_name line =
     (let name = takeWhile (\<lambda>c. is_lower c \<or> is_digit c \<or> c = CHR ''_'') line in
      if name \<noteq> [] \<and> is_lower (hd name) \<and> drop (length name) line = '' if {'' then Some name else None)"

definition after :: "string \<Rightarrow> string \<Rightarrow> string option" where
  "after prefix s = (if py_startswith s prefix then Some (drop (length prefix) s) else None)"

definition result_term :: "string \<Rightarrow> string \<Rightarrow> (string \<times> string) option" where
  "result_term infix_text line =
     (case after RESULTS line of None \<Rightarrow> None
      | Some rest \<Rightarrow>
          let name = takeWhile (\<lambda>c. is_lower c \<or> is_digit c \<or> c = CHR ''-'') rest in
          if name = [] then None else map_option (Pair name) (after infix_text (drop (length name) rest)))"

definition status_term :: "string \<Rightarrow> (string \<times> nat) option" where
  "status_term line =
     (case result_term STATUS_IS line of
        Some (name, [a, b, c]) \<Rightarrow>
          if 49 \<le> ord a \<and> ord a \<le> 53 \<and> is_digit b \<and> is_digit c
          then Some (name, digit_val a * 100 + digit_val b * 10 + digit_val c) else None
      | _ \<Rightarrow> None)"

definition error_term :: "string \<Rightarrow> (string \<times> string) option" where
  "error_term line =
     (case result_term ERROR_IS line of
        None \<Rightarrow> None
      | Some (name, rest) \<Rightarrow>
          let code = takeWhile (\<lambda>c. is_upper c \<or> is_digit c \<or> c = CHR ''_'') rest in
          if code \<noteq> [] \<and> is_upper (hd code) \<and> drop (length code) rest = [CHR 0x22] then Some (name, code) else None)"

definition read_rule :: "string \<Rightarrow> string \<Rightarrow> string \<Rightarrow> string \<Rightarrow> rego_rule option" where
  "read_rule head status_text error_text close =
     (case (head_name head, status_term status_text, error_term error_text) of
        (Some rule_name, Some (i, status), Some (j, code)) \<Rightarrow>
          if close = ''}'' \<and> i = j then Some (rule_name, i, status, code) else None
      | _ \<Rightarrow> None)"

text \<open>The loop over groups of four lines; their number is a multiple of four.\<close>

fun read_rules :: "string list \<Rightarrow> rego_rule list \<Rightarrow> plan_problem + rego_rule list" where
  "read_rules (head # status_text # error_text # close # rest) observed_rules =
     (case read_rule head status_text error_text close of
        None \<Rightarrow> Inl (Rejected ''model output Rego contained unsupported policy syntax'')
      | Some r \<Rightarrow>
          if fst r \<in> set (map fst observed_rules) then Inl (Rejected ''model output Rego contained duplicate rules'')
          else read_rules rest (observed_rules @ [r]))"
| "read_rules _ observed_rules = Inr observed_rules"

definition expected_rules :: "generated_test list \<Rightarrow> rego_rule list" where
  "expected_rules tests = fold (\<lambda>t. AList.update (fst (rule_of t)) (snd (rule_of t))) tests []"

definition significant_lines :: "string \<Rightarrow> string list" where
  "significant_lines rego = filter (\<lambda>l. l \<noteq> []) (map py_strip (py_splitlines [] rego))"

definition validate_rego_module :: "string \<Rightarrow> generated_test list \<Rightarrow> plan_problem + string" where
  "validate_rego_module rego tests =
     (let ls = significant_lines rego in
      if take 2 ls \<noteq> HEADER_LINES then Inl (Rejected ''model output Rego used an unsupported package or import'')
      else if length (drop 2 ls) \<noteq> length tests * 4
      then Inl (Rejected ''model output Rego contained unsupported policy statements'')
      else andthen (read_rules (drop 2 ls) []) (\<lambda>observed_rules.
        if set observed_rules \<noteq> set (expected_rules tests)
        then Inl (Rejected ''model output Rego changed a reviewed scenario or expected outcome'')
        else Inr (canonical_rego_module tests)))"

definition compile_rego :: "generated_plan \<Rightarrow> string" where
  "compile_rego p = canonical_rego_module (gp_tests p)"

section \<open>Validation\<close>

definition context_paths :: "json \<Rightarrow> string \<Rightarrow> plan_problem + string list" where
  "context_paths source_context repository =
     (case field (Some source_context) ''files'' of
        Some (JList files) \<Rightarrow> Inr (concat (map (\<lambda>f.
          case (field (Some f) ''repository'', field (Some f) ''path'') of
            (Some (JStr r), Some (JStr path)) \<Rightarrow> if r = repository then [path] else []
          | _ \<Rightarrow> []) files))
      | _ \<Rightarrow> Inl NoManifest)"

fun check_tests :: "string list \<Rightarrow> string list \<Rightarrow> generated_test list \<Rightarrow> plan_problem + unit" where
  "check_tests application terraform [] = Inr ()"
| "check_tests application terraform (t # ts) =
     (if \<not> (case scenario_of (gt_scenario_id t) of None \<Rightarrow> False | Some s \<Rightarrow> sn_control_id s = gt_control_id t)
      then Inl (Rejected ''model output selected a scenario outside its control'')
      else if \<not> set (gt_source_refs t) \<subseteq> set application
      then Inl (Rejected ''model output cited application source outside the captured snapshot'')
      else if \<not> set (gt_terraform_refs t) \<subseteq> set terraform
      then Inl (Rejected ''model output cited Terraform outside the captured snapshot'')
      else check_tests application terraform ts)"

definition control_order :: "string \<Rightarrow> nat" where
  "control_order control_id = length (takeWhile (\<lambda>c. cd_control_id c \<noteq> control_id) CONTROLS)"

definition ordered_tests :: "generated_test list \<Rightarrow> generated_test list" where
  "ordered_tests tests = sort_key (\<lambda>t. control_order (gt_control_id t)) tests"

definition check_plan :: "json \<Rightarrow> generated_plan \<Rightarrow> plan_problem + generated_plan" where
  "check_plan source_context p =
     (let tests = gp_tests p; observed_controls = remdups (map gt_control_id tests) in
      if gp_schema_version p \<noteq> ''1.0'' \<or> gp_catalog_version p \<noteq> CATALOG_VERSION
      then Inl (Rejected ''model output referenced an unsupported schema or catalog'')
      else if length tests \<noteq> length CONTROLS
      then Inl (Rejected ''model output must cover every reviewed control exactly once'')
      else if set observed_controls \<noteq> set (map cd_control_id CONTROLS) \<or> length observed_controls \<noteq> length tests
      then Inl (Rejected ''model output contained missing or duplicate controls'')
      else if length (remdups (map gt_scenario_id tests)) \<noteq> length tests
      then Inl (Rejected ''model output contained duplicate scenarios'')
      else
        andthen (context_paths source_context ''application'') (\<lambda>application.
        andthen (context_paths source_context ''terraform'') (\<lambda>terraform.
        andthen (check_tests application terraform tests) (\<lambda>_.
          if terraform \<noteq> [] \<and> list_all (\<lambda>t. gt_terraform_refs t = []) tests
          then Inl (Rejected ''model output did not cite the supplied Terraform context'')
          else andthen (validate_rego_module (gp_rego_module p) (ordered_tests tests)) (\<lambda>canonical.
            Inr (p\<lparr>gp_tests := ordered_tests tests, gp_rego_module := canonical\<rparr>))))))"

definition validate_generated_plan :: "plan_library \<Rightarrow> string \<Rightarrow> json \<Rightarrow> plan_problem + generated_plan" where
  "validate_generated_plan lib raw source_context = andthen (parse_plan lib raw) (check_plan source_context)"

section \<open>The plan as it is stored\<close>

definition test_json :: "generated_test \<Rightarrow> json" where
  "test_json t = JObj
     [(''control_id'', JStr (gt_control_id t)), (''scenario_id'', JStr (gt_scenario_id t)), (''name'', JStr (gt_name t)),
      (''objective'', JStr (gt_objective t)), (''grounding'', JStr (gt_grounding t)),
      (''source_refs'', strings (gt_source_refs t)), (''terraform_refs'', strings (gt_terraform_refs t))]"

definition plan_json :: "generated_plan \<Rightarrow> json" where
  "plan_json p = JObj
     [(''schema_version'', JStr (gp_schema_version p)), (''catalog_version'', JStr (gp_catalog_version p)),
      (''summary'', JStr (gp_summary p)), (''rego_module'', JStr (gp_rego_module p)),
      (''tests'', JList (map test_json (gp_tests p)))]"

section \<open>The compiled tests\<close>

definition docstring_of :: "generated_test \<Rightarrow> string" where
  "docstring_of t = ascii_string (gt_name t @ '': '' @ gt_objective t @ '' Grounding: '' @ gt_grounding t @ '' Sources: '' @
     py_join '', '' (gt_source_refs t @ gt_terraform_refs t))"

definition code_line :: string where "code_line = dq ''    assert payload[`error`][`code`] == ''"
definition login_line :: string where "login_line = dq ''    alice = login(`alice@bantam.local`)''"

definition compiled_test :: "generated_test \<Rightarrow> plan_problem + string list" where
  "compiled_test t =
     (let doc = ''    '' @ docstring_of t in
      if gt_scenario_id t = ''anonymous-protected-route''
      then Inr [''def test_ai_candidate_anonymous_protected_route() -> None:'', doc,
        dq ''    status, payload = call(`GET`, `/v1/me`)'', ''    assert status == 401'', code_line @ dq ''`UNAUTHENTICATED`'']
      else if gt_scenario_id t = ''customer-admin-route-denied''
      then Inr [''def test_ai_candidate_customer_admin_route_denied() -> None:'', doc, login_line,
        dq ''    status, payload = call(`GET`, `/v1/admin/customers`, session=alice)'', ''    assert status == 403'',
        code_line @ dq ''`FORBIDDEN`'']
      else if gt_scenario_id t = ''other-account-history-denied''
      then Inr [''def test_ai_candidate_other_account_history_denied() -> None:'', doc, login_line,
        ''    status, payload = call('', dq ''        `GET`, f`/v1/accounts/{BOB_ACCOUNT_ID}/transactions`, session=alice'', ''    )'',
        ''    assert status == 404'', code_line @ dq ''`NOT_FOUND`'']
      else if gt_scenario_id t = ''unowned-transfer-denied''
      then Inr [''def test_ai_candidate_unowned_transfer_denied() -> None:'', doc, login_line,
        ''    status, payload = call('', dq ''        `POST`,'', dq ''        `/v1/transfers`,'', ''        session=alice,'',
        dq ''        headers={`Idempotency-Key`: f`asvs-ai-{uuid4()}`},'', ''        body={'',
        dq ''            `source_account_id`: str(BOB_ACCOUNT_ID),'', dq ''            `destination_account_id`: str(ALICE_ACCOUNT_ID),'',
        dq ''            `amount_minor`: 100,'', dq ''            `currency`: `GBP`,'',
        dq ''            `description`: `AI-planned authorization regression`,'', ''        },'', ''    )'',
        ''    assert status == 403'', code_line @ dq ''`FORBIDDEN`'']
      else if gt_scenario_id t = ''logged-out-session-replay-denied''
      then Inr [''def test_ai_candidate_logged_out_session_replay_denied() -> None:'', doc, login_line,
        dq ''    status, payload = call(`POST`, `/v1/auth/logout`, session=alice)'', ''    assert status == 200'',
        dq ''    assert payload[`status`] == `logged_out`'', dq ''    status, payload = call(`GET`, `/v1/me`, session=alice)'',
        ''    assert status == 401'', code_line @ dq ''`UNAUTHENTICATED`'']
      else Inl (Rejected ''model output referenced an unknown scenario''))"

fun compiled_tests :: "generated_test list \<Rightarrow> plan_problem + string list" where
  "compiled_tests [] = Inr []"
| "compiled_tests (t # ts) =
     andthen (compiled_test t) (\<lambda>ls. andthen (compiled_tests ts) (\<lambda>rest. Inr ([[], []] @ ls @ rest)))"

definition MODULE_HEADER :: "string list" where
  "MODULE_HEADER =
     [ascii_string (''Source-grounded ASVS tests compiled by Bantam'' @ [CHR 0x27] @ ''s reviewed scenario mapper.''), [],
      ''from uuid import uuid4'', [], ''from bantam.seed import ALICE_ACCOUNT_ID, BOB_ACCOUNT_ID'',
      ''from tests.integration.test_authorization import call, login'', [],
      ''# Display artifact only. Approval is executed by the deterministic runner.'']"

definition compile_pytest :: "plan_library \<Rightarrow> generated_plan \<Rightarrow> plan_problem + string" where
  "compile_pytest lib p =
     andthen (compiled_tests (gp_tests p)) (\<lambda>ls.
       let source = py_join newline (MODULE_HEADER @ ls) @ newline in
       if tl_parses lib source then Inr source else Inl NotPython)"

end
