(* ===== verification/Plan_Facts.thy ===== *)
theory Plan_Facts
  imports Test_Plan "HOL-Library.Multiset"
begin

text \<open>
  The Rego rules of a reviewed plan and the reader of rules are inverse to each other, and every
  accepted plan has the same canonical module.
\<close>

section \<open>Reading a rule\<close>

definition rule_lines :: "rego_rule \<Rightarrow> string list" where
  "rule_lines r = [head_line r, status_line r, error_line r, ''}'']"

lemma takeWhile_drop: "takeWhile P xs @ drop (length (takeWhile P xs)) xs = xs"
  by (induction xs) auto

lemma head_name_SomeD: "head_name line = Some name \<Longrightarrow> line = name @ '' if {''"
  by (auto simp: head_name_def Let_def split: if_splits) (metis takeWhile_drop)

lemma after_SomeD: "after prefix s = Some rest \<Longrightarrow> s = prefix @ rest"
  by (auto simp: after_def py_startswith_def split: if_splits) (metis append_take_drop_id)

lemma result_term_SomeD: "result_term t line = Some (name, rest) \<Longrightarrow> line = RESULTS @ name @ t @ rest"
  by (auto simp: result_term_def Let_def split: option.splits if_splits dest!: after_SomeD) (metis takeWhile_drop)

lemma digit_digit_val: "is_digit c \<Longrightarrow> digit (digit_val c) = c \<and> digit_val c < 10"
proof -
  assume "is_digit c"
  then have "48 \<le> ord c" "ord c < 58" and c: "c = char_of (ord c)" by (auto simp: is_digit_def ord_def)
  moreover have "list_all (\<lambda>n. digit (n - 48) = char_of n) [48..<58]" by code_simp
  then have "\<forall>n. 48 \<le> n \<and> n < 58 \<longrightarrow> digit (n - 48) = (char_of n :: char)" by (auto simp only: list_all_iff set_upt atLeastLessThan_iff)
  ultimately have "digit (ord c - 48) = c" by metis
  with \<open>48 \<le> ord c\<close> \<open>ord c < 58\<close> show ?thesis unfolding digit_val_def by linarith
qed

lemma nat_str_three: "0 < a \<Longrightarrow> a < 10 \<Longrightarrow> b < 10 \<Longrightarrow> c < 10 \<Longrightarrow>
    nat_str (a * 100 + b * 10 + c) = [digit a, digit b, digit c]"
proof -
  assume d: "0 < a" "a < 10" "b < 10" "c < 10"
  have "a * 100 + b * 10 + c = c + (b + a * 10) * 10" "a * 100 + b * 10 + c = (c + b * 10) + a * 100" by simp_all
  with d have "(a * 100 + b * 10 + c) div 100 = a" "(a * 100 + b * 10 + c) div 10 mod 10 = b"
    "(a * 100 + b * 10 + c) mod 10 = c" by (simp_all only: div_mult_self1 mod_mult_self1) simp_all
  moreover have "nat_str (a * 100 + b * 10 + c) = [digit ((a * 100 + b * 10 + c) div 100),
      digit ((a * 100 + b * 10 + c) div 10 mod 10), digit ((a * 100 + b * 10 + c) mod 10)]"
    using d by (intro nat_str_large) linarith+
  ultimately show ?thesis by simp
qed

lemma status_term_SomeD:
  assumes "status_term line = Some (name, n)"
  shows "line = RESULTS @ name @ STATUS_IS @ nat_str n"
proof -
  from assms obtain a b c where r: "result_term STATUS_IS line = Some (name, [a, b, c])" "49 \<le> ord a" "ord a \<le> 53"
    "is_digit b" "is_digit c" "n = digit_val a * 100 + digit_val b * 10 + digit_val c"
    unfolding status_term_def by (auto split: option.splits list.splits if_splits)
  have "is_digit a" "0 < digit_val a" using r(2,3) by (auto simp: is_digit_def digit_val_def)
  with r(4-6) have "nat_str n = [a, b, c]" by (simp add: nat_str_three digit_digit_val)
  with result_term_SomeD [OF r(1)] show ?thesis by simp
qed

lemma error_term_SomeD: "error_term line = Some (name, code) \<Longrightarrow> line = RESULTS @ name @ ERROR_IS @ code @ [CHR 0x22]"
  by (auto simp: error_term_def Let_def split: option.splits if_splits dest!: result_term_SomeD) (metis takeWhile_drop)

lemma read_rule_SomeD:
  assumes "read_rule head status_text error_text close = Some r"
  shows "[head, status_text, error_text, close] = rule_lines r"
proof -
  from assms obtain name i status code where
    h: "head_name head = Some name" "status_term status_text = Some (i, status)" "error_term error_text = Some (i, code)"
      "close = ''}''" "r = (name, i, status, code)"
    unfolding read_rule_def by (auto split: option.splits prod.splits if_splits)
  show ?thesis
    using head_name_SomeD [OF h(1)] status_term_SomeD [OF h(2)] error_term_SomeD [OF h(3)] h(4,5)
    unfolding rule_lines_def head_line_def status_line_def error_line_def by simp
qed

section \<open>The reviewed rules\<close>

definition reviewed_rule :: "scenario_definition \<Rightarrow> rego_rule" where
  "reviewed_rule s = (rego_rule_name (sn_control_id s), sn_scenario_id s, sn_expected_status s, sn_expected_error_code s)"

definition reads_back :: "rego_rule \<Rightarrow> bool" where
  "reads_back r \<longleftrightarrow> (case rule_lines r of [h, s, e, c] \<Rightarrow> read_rule h s e c = Some r | _ \<Rightarrow> False)"

lemma reviewed_rules_read_back: "list_all (\<lambda>s. reads_back (reviewed_rule s)) SCENARIOS"
  by code_simp

lemma scenario_names_distinct: "distinct (map (rego_rule_name \<circ> sn_control_id) SCENARIOS)" "distinct (map sn_scenario_id SCENARIOS)"
  "map sn_control_id SCENARIOS = EXPECTED_CONTROL_IDS"
  by code_simp+

text \<open>Tests over reviewed scenarios, one for a control.\<close>

definition within_control :: "generated_test \<Rightarrow> bool" where
  "within_control t \<longleftrightarrow> (case scenario_of (gt_scenario_id t) of None \<Rightarrow> False | Some s \<Rightarrow> sn_control_id s = gt_control_id t)"

definition reviewed_tests :: "generated_test list \<Rightarrow> bool" where
  "reviewed_tests tests \<longleftrightarrow> list_all within_control tests \<and> distinct (map gt_control_id tests)"

lemma within_controlE:
  assumes "within_control t"
  obtains s where "s \<in> set SCENARIOS" "scenario_at (gt_scenario_id t) = s" "sn_scenario_id s = gt_scenario_id t"
    "sn_control_id s = gt_control_id t" "rule_of t = reviewed_rule s"
proof -
  from assms obtain s where s: "scenario_of (gt_scenario_id t) = Some s" "sn_control_id s = gt_control_id t"
    unfolding within_control_def by (auto split: option.splits)
  then have "s \<in> set SCENARIOS" "sn_scenario_id s = gt_scenario_id t" unfolding scenario_of_def find_Some_iff by auto
  with s that show ?thesis by (simp add: scenario_at_def rule_of_def reviewed_rule_def Let_def)
qed

lemma rule_of_reads_back: "within_control t \<Longrightarrow> reads_back (rule_of t)"
  using reviewed_rules_read_back unfolding list_all_iff by (metis within_controlE)

lemma inj_on_map: "distinct (map f xs) \<Longrightarrow> x \<in> set xs \<Longrightarrow> y \<in> set xs \<Longrightarrow> f x = f y \<Longrightarrow> x = y"
  by (metis distinct_map inj_onD)

lemma rule_names_distinct:
  assumes "reviewed_tests tests"
  shows "distinct (map (fst \<circ> rule_of) tests)"
proof -
  have "t = u" if tu: "t \<in> set tests" "u \<in> set tests" "fst (rule_of t) = fst (rule_of u)" for t u
  proof -
    obtain s where s: "s \<in> set SCENARIOS" "sn_control_id s = gt_control_id t" "rule_of t = reviewed_rule s"
      using assms tu(1) unfolding reviewed_tests_def list_all_iff by (metis within_controlE)
    obtain r where r: "r \<in> set SCENARIOS" "sn_control_id r = gt_control_id u" "rule_of u = reviewed_rule r"
      using assms tu(2) unfolding reviewed_tests_def list_all_iff by (metis within_controlE)
    have "s = r" using tu(3) s r by (intro inj_on_map [OF scenario_names_distinct(1)]) (auto simp: reviewed_rule_def)
    then show "t = u" using s(2) r(2) tu assms unfolding reviewed_tests_def by (metis inj_on_map)
  qed
  then show ?thesis using assms unfolding reviewed_tests_def by (auto simp: distinct_map inj_on_def)
qed

lemma expected_rules_map:
  assumes "distinct (map (fst \<circ> rule_of) tests)"
  shows "expected_rules tests = map rule_of tests"
proof -
  have new: "k \<notin> fst ` set al \<Longrightarrow> AList.update k v al = al @ [(k, v)]" for k v and al :: "rego_rule list"
    by (induction al) auto
  have "distinct (map fst al @ map (fst \<circ> rule_of) ts) \<Longrightarrow>
      fold (\<lambda>t. AList.update (fst (rule_of t)) (snd (rule_of t))) ts al = al @ map rule_of ts" for al ts
    by (induction ts arbitrary: al) (auto simp: new)
  from this [of "[]"] assms show ?thesis unfolding expected_rules_def by simp
qed

section \<open>Reading the module\<close>

lemma read_rules_InrD:
  "read_rules ls obs = Inr rs \<Longrightarrow> length ls = k * 4 \<Longrightarrow>
     \<exists>new. rs = obs @ new \<and> length new = k \<and> ls = concat (map rule_lines new) \<and> (distinct (map fst obs) \<longrightarrow> distinct (map fst rs))"
proof (induction ls obs arbitrary: k rule: read_rules.induct)
  case (1 h s e c rest obs)
  then obtain r where r: "read_rule h s e c = Some r" "fst r \<notin> set (map fst obs)" "read_rules rest (obs @ [r]) = Inr rs"
    by (auto split: option.splits if_splits)
  from 1(3) have "length rest = (k - 1) * 4" "0 < k" by simp_all
  with 1(1) [OF r(1,2,3)] obtain new where new: "rs = (obs @ [r]) @ new" "length new = k - 1"
    "rest = concat (map rule_lines new)" "distinct (map fst (obs @ [r])) \<longrightarrow> distinct (map fst rs)" by blast
  have "h # s # e # c # rest = concat (map rule_lines (r # new))"
    using read_rule_SomeD [OF r(1)] new(3) by simp
  with new r(2) \<open>0 < k\<close> show ?case by (intro exI [of _ "r # new"]) auto
qed (auto, presburger+)

lemma read_rules_complete:
  "list_all reads_back new \<Longrightarrow> distinct (map fst (obs @ new)) \<Longrightarrow>
     read_rules (concat (map rule_lines new)) obs = Inr (obs @ new)"
proof (induction new arbitrary: obs)
  case (Cons r new)
  then have "read_rule (head_line r) (status_line r) (error_line r) ''}'' = Some r" by (simp add: reads_back_def rule_lines_def)
  moreover have "read_rules (concat (map rule_lines new)) (obs @ [r]) = Inr ((obs @ [r]) @ new)" using Cons by (intro Cons.IH) auto
  moreover have "concat (map rule_lines (r # new)) =
      head_line r # status_line r # error_line r # ''}'' # concat (map rule_lines new)" by (simp add: rule_lines_def)
  ultimately show ?case using Cons.prems(2) by simp
qed simp

lemma length_rule_lines: "length (concat (map rule_lines rs)) = length rs * 4"
  by (induction rs) (auto simp: rule_lines_def)

lemma reorder:
  "mset (map f xs) = mset ys \<Longrightarrow> \<exists>zs. mset zs = mset xs \<and> map f zs = ys"
proof (induction ys arbitrary: xs)
  case (Cons y ys)
  then have "y \<in> set (map f xs)" by (metis list.set_intros(1) set_mset_mset)
  then obtain x where x: "x \<in> set xs" "f x = y" by auto
  then have "mset (map f (remove1 x xs)) = mset ys" using Cons.prems by (simp add: image_mset_Diff)
  then obtain zs where "mset zs = mset (remove1 x xs)" "map f zs = ys" using Cons.IH by blast
  with x show ?case by (intro exI [of _ "x # zs"]) simp
qed simp

text \<open>The module says exactly the rules of the tests, in some order.\<close>

definition states_rules :: "string \<Rightarrow> generated_test list \<Rightarrow> bool" where
  "states_rules rego tests \<longleftrightarrow>
     (\<exists>ts. mset ts = mset tests \<and> significant_lines rego = HEADER_LINES @ concat (map (rule_lines \<circ> rule_of) ts))"

lemma validate_rego_module_iff:
  assumes ok: "reviewed_tests tests"
  shows "validate_rego_module rego tests = Inr m \<longleftrightarrow> states_rules rego tests \<and> m = canonical_rego_module tests"
proof -
  let ?ls = "significant_lines rego"
  have names: "distinct (map (fst \<circ> rule_of) tests)" by (rule rule_names_distinct [OF ok])
  have two: "length HEADER_LINES = 2" by (simp add: HEADER_LINES_def)
  have "\<exists>ts. mset ts = mset tests \<and> ?ls = HEADER_LINES @ concat (map (rule_lines \<circ> rule_of) ts)"
    if v: "validate_rego_module rego tests = Inr m"
  proof -
    from v obtain rs where r: "take 2 ?ls = HEADER_LINES" "length (drop 2 ?ls) = length tests * 4"
      "read_rules (drop 2 ?ls) [] = Inr rs" "set rs = set (map rule_of tests)"
      unfolding validate_rego_module_def Let_def andthen_Inr_iff expected_rules_map [OF names]
      by (auto simp: andthen_Inr_iff split: if_split_asm)
    from read_rules_InrD [OF r(3,2)] have rs: "drop 2 ?ls = concat (map rule_lines rs)" "distinct (map fst rs)" by auto
    have "distinct rs" "distinct (map rule_of tests)"
      using rs(2) names by (simp_all add: distinct_map inj_on_def)
    then have "mset (map rule_of tests) = mset rs" using r(4) by (metis set_eq_iff_mset_eq_distinct)
    then obtain ts where "mset ts = mset tests" "map rule_of ts = rs" using reorder by blast
    moreover have "?ls = HEADER_LINES @ concat (map rule_lines rs)" using r(1) rs(1) by (metis append_take_drop_id)
    ultimately show ?thesis by (intro exI [of _ ts]) (simp add: map_map [symmetric] del: map_map)
  qed
  moreover have "validate_rego_module rego tests = Inr (canonical_rego_module tests)"
    if "mset ts = mset tests" "?ls = HEADER_LINES @ concat (map (rule_lines \<circ> rule_of) ts)" for ts
  proof -
    have len: "length ts = length tests" and set: "set ts = set tests" using that(1) by (metis size_mset, metis set_mset_mset)
    have "distinct (map (fst \<circ> rule_of) ts)"
      using that(1) names by (metis mset_map mset_eq_imp_distinct_iff)
    then have "read_rules (concat (map rule_lines (map rule_of ts))) [] = Inr ([] @ map rule_of ts)"
      using ok set rule_of_reads_back unfolding reviewed_tests_def
      by (intro read_rules_complete) (auto simp: list_all_iff comp_def)
    then show ?thesis
      unfolding validate_rego_module_def Let_def expected_rules_map [OF names] that(2)
      using two len set length_rule_lines [of "map rule_of ts"] by (simp add: comp_def)
  qed
  moreover have "m = canonical_rego_module tests" if "validate_rego_module rego tests = Inr m"
    using that unfolding validate_rego_module_def by (auto simp: Let_def andthen_Inr_iff split: if_split_asm)
  ultimately show ?thesis unfolding states_rules_def by blast
qed

section \<open>Accepted plans\<close>

text \<open>The one canonical module.\<close>

definition CANONICAL_REGO :: string where
  "CANONICAL_REGO = py_join newline ([''package '' @ REGO_PACKAGE, [], ''import rego.v1''] @
     concat (map (canonical_lines \<circ> reviewed_rule) SCENARIOS)) @ newline"

lemma canonical_rego_reads:
  "significant_lines (py_strip CANONICAL_REGO) = HEADER_LINES @ concat (map (rule_lines \<circ> reviewed_rule) SCENARIOS)"
  by code_simp

lemma canonical_rego_fits: "length_in 1 MAX_REGO_MODULE_BYTES (py_strip CANONICAL_REGO)" "rego_text_ok (py_strip CANONICAL_REGO)"
  by code_simp+

definition cited_in :: "string list \<Rightarrow> string list \<Rightarrow> generated_test \<Rightarrow> bool" where
  "cited_in application terraform t \<longleftrightarrow>
     set (gt_source_refs t) \<subseteq> set application \<and> set (gt_terraform_refs t) \<subseteq> set terraform"

definition grounded_in :: "json \<Rightarrow> generated_test list \<Rightarrow> bool" where
  "grounded_in source_context tests \<longleftrightarrow>
     (case (context_paths source_context ''application'', context_paths source_context ''terraform'') of
        (Inr application, Inr terraform) \<Rightarrow>
          list_all (cited_in application terraform) tests \<and>
          (terraform \<noteq> [] \<longrightarrow> list_ex (\<lambda>t. gt_terraform_refs t \<noteq> []) tests)
      | _ \<Rightarrow> False)"

text \<open>A plan as it is stored: the reviewed controls in their order, each with its scenario, grounded
  in the captured sources, with the canonical module.\<close>

definition accepted_plan :: "json \<Rightarrow> generated_plan \<Rightarrow> bool" where
  "accepted_plan source_context p \<longleftrightarrow>
     gp_schema_version p = ''1.0'' \<and> gp_catalog_version p = CATALOG_VERSION \<and>
     length_in 12 500 (gp_summary p) \<and> printable (gp_summary p) \<and>
     list_all valid_test (gp_tests p) \<and> list_all within_control (gp_tests p) \<and>
     map gt_control_id (gp_tests p) = EXPECTED_CONTROL_IDS \<and> grounded_in source_context (gp_tests p) \<and>
     gp_rego_module p = CANONICAL_REGO"

lemma control_ids: "distinct EXPECTED_CONTROL_IDS" "length CONTROLS = 5" "length EXPECTED_CONTROL_IDS = 5"
  "map control_order EXPECTED_CONTROL_IDS = [0..<5]"
  by code_simp+

lemma map_eq_on: "map f xs = map f ys \<Longrightarrow> distinct (map f ys) \<Longrightarrow> set xs \<subseteq> set ys \<Longrightarrow> xs = ys"
  by (rule map_inj_on [where f = f]) (auto simp: distinct_map Un_absorb1)

lemma ordered_controls:
  assumes "distinct (map gt_control_id tests)" and "set (map gt_control_id tests) = set EXPECTED_CONTROL_IDS"
  shows "map gt_control_id (ordered_tests tests) = EXPECTED_CONTROL_IDS"
proof -
  let ?os = "map gt_control_id (ordered_tests tests)"
  have perm: "set ?os = set EXPECTED_CONTROL_IDS" "distinct ?os"
    using assms unfolding ordered_tests_def by (simp_all add: distinct_map)
  have inj: "inj_on control_order (set EXPECTED_CONTROL_IDS)"
    using control_ids(4) by (metis distinct_map distinct_upt)
  have "distinct (map control_order ?os)" using perm inj by (simp add: distinct_map del: map_map)
  moreover have "sorted (map control_order ?os)" unfolding ordered_tests_def by (simp add: comp_def)
  moreover have "set (map control_order ?os) = set (map control_order EXPECTED_CONTROL_IDS)" using perm by (metis set_map)
  moreover have "sorted (map control_order EXPECTED_CONTROL_IDS)" "distinct (map control_order EXPECTED_CONTROL_IDS)"
    unfolding control_ids by simp_all
  ultimately have "map control_order ?os = map control_order EXPECTED_CONTROL_IDS" by (metis sorted_distinct_set_unique)
  then show ?thesis using perm inj by (metis map_inj_on Un_absorb)
qed

lemma rules_of_controls:
  assumes "list_all within_control tests" and "map gt_control_id tests = EXPECTED_CONTROL_IDS"
  shows "map rule_of tests = map reviewed_rule SCENARIOS"
proof -
  let ?s = "\<lambda>t. scenario_at (gt_scenario_id t)"
  have t: "?s t \<in> set SCENARIOS" "sn_control_id (?s t) = gt_control_id t" "rule_of t = reviewed_rule (?s t)"
    if "t \<in> set tests" for t
    using assms(1) that within_controlE [of t] by (auto simp: list_all_iff)
  have "map sn_control_id (map ?s tests) = map sn_control_id SCENARIOS"
    using assms(2) t(2) unfolding scenario_names_distinct(3) by (metis (no_types, lifting) map_map map_eq_conv comp_apply)
  then have "map ?s tests = SCENARIOS"
    using t(1) control_ids(1) scenario_names_distinct(3) by (intro map_eq_on [where f = sn_control_id]) auto
  then show ?thesis using t(3) by (metis (no_types, lifting) map_map map_eq_conv comp_apply)
qed

lemma canonical_of_controls:
  assumes "list_all within_control tests" and "map gt_control_id tests = EXPECTED_CONTROL_IDS"
  shows "canonical_rego_module tests = CANONICAL_REGO"
  unfolding canonical_rego_module_def CANONICAL_REGO_def map_map [symmetric] rules_of_controls [OF assms] ..

lemma check_tests_iff:
  "check_tests application terraform tests = Inr u \<longleftrightarrow>
     list_all within_control tests \<and> list_all (cited_in application terraform) tests"
  by (induction tests) (auto simp: within_control_def cited_in_def split: option.splits)

lemma distinct_length_remdups: "length (remdups xs) = length xs \<longleftrightarrow> distinct xs"
  by (metis length_remdups_card_conv card_distinct distinct_card)

text \<open>What the checks of \<open>validate_generated_plan\<close> let through.\<close>

lemma check_plan_InrD:
  assumes "check_plan source_context p = Inr q"
    and "length_in 12 500 (gp_summary p)" "printable (gp_summary p)" "list_all valid_test (gp_tests p)"
  shows "accepted_plan source_context q"
proof -
  have n: "set (map cd_control_id CONTROLS) = set EXPECTED_CONTROL_IDS" by (simp only: catalog_ids)
  from assms(1) obtain application terraform canonical where c:
    "gp_schema_version p = ''1.0''" "gp_catalog_version p = CATALOG_VERSION"
    "set (map gt_control_id (gp_tests p)) = set EXPECTED_CONTROL_IDS" "distinct (map gt_control_id (gp_tests p))"
    "context_paths source_context ''application'' = Inr application" "context_paths source_context ''terraform'' = Inr terraform"
    "check_tests application terraform (gp_tests p) = Inr ()"
    "\<not> (terraform \<noteq> [] \<and> list_all (\<lambda>t. gt_terraform_refs t = []) (gp_tests p))"
    "validate_rego_module (gp_rego_module p) (ordered_tests (gp_tests p)) = Inr canonical"
    "q = p\<lparr>gp_tests := ordered_tests (gp_tests p), gp_rego_module := canonical\<rparr>"
    unfolding check_plan_def Let_def n set_remdups length_map distinct_length_remdups [of "map f xs" for f xs, unfolded length_map]
    by (auto simp: andthen_Inr_iff simp del: set_map split: if_split_asm)
  have set: "set (ordered_tests (gp_tests p)) = set (gp_tests p)" by (simp add: ordered_tests_def)
  have ok: "list_all within_control (ordered_tests (gp_tests p))" "list_all (cited_in application terraform) (gp_tests p)"
    using c(7) unfolding check_tests_iff list_all_iff set by blast+
  have ids: "map gt_control_id (ordered_tests (gp_tests p)) = EXPECTED_CONTROL_IDS" by (rule ordered_controls [OF c(4,3)])
  have "reviewed_tests (ordered_tests (gp_tests p))" unfolding reviewed_tests_def ids using ok(1) control_ids(1) by blast
  then have "canonical = CANONICAL_REGO"
    using c(9) unfolding validate_rego_module_iff [OF \<open>reviewed_tests _\<close>] canonical_of_controls [OF ok(1) ids] by blast
  moreover have "grounded_in source_context (ordered_tests (gp_tests p))"
    unfolding grounded_in_def c(5,6) using ok(2) c(8) set by (auto simp: list_all_iff list_ex_iff)
  ultimately show ?thesis
    using assms(2-4) ok(1) ids set c(1,2) unfolding accepted_plan_def c(10) by (simp add: list_all_iff)
qed

lemma validated_plan_accepted:
  assumes "validate_generated_plan lib raw source_context = Inr p"
  shows "accepted_plan source_context p"
proof -
  from assms obtain r where "valid_candidate r" "check_plan source_context (r\<lparr>gp_rego_module := py_strip (gp_rego_module r)\<rparr>) = Inr p"
    unfolding validate_generated_plan_def andthen_Inr_iff parse_plan_def by (auto split: option.splits if_splits)
  then show ?thesis by (intro check_plan_InrD) (auto simp: valid_candidate_def)
qed

text \<open>An accepted plan that reads back, its module stripped like every string, is accepted again.\<close>

lemma accepted_plan_again:
  assumes ok: "accepted_plan source_context p"
    and decode: "tl_decode lib raw = Some (p\<lparr>gp_rego_module := py_strip (gp_rego_module p)\<rparr>)"
  shows "validate_generated_plan lib raw source_context = Inr p"
proof -
  let ?q = "p\<lparr>gp_rego_module := py_strip CANONICAL_REGO\<rparr>" and ?ids = "map gt_control_id (gp_tests p)"
  note a = ok [unfolded accepted_plan_def]
  then have rego: "gp_rego_module p = CANONICAL_REGO" and ids: "?ids = EXPECTED_CONTROL_IDS"
    and within: "list_all within_control (gp_tests p)" and grounded: "grounded_in source_context (gp_tests p)" by blast+
  have five: "length (gp_tests p) = 5" using ids control_ids(3) by (metis length_map)
  have "valid_candidate ?q" using a five canonical_rego_fits unfolding valid_candidate_def by (simp add: MAX_GENERATED_TESTS_def)
  then have parsed: "parse_plan lib raw = Inr ?q" unfolding parse_plan_def decode rego by simp
  have order: "ordered_tests (gp_tests p) = gp_tests p"
  proof -
    have "sorted (map control_order ?ids)" unfolding ids control_ids by simp
    then show ?thesis unfolding ordered_tests_def by (intro sort_key_id_if_sorted) (simp add: comp_def)
  qed
  have dist: "distinct ?ids" unfolding ids by (rule control_ids(1))
  have scenarios: "distinct (map gt_scenario_id (gp_tests p))"
  proof -
    have "gt_control_id t = gt_control_id u" if "t \<in> set (gp_tests p)" "u \<in> set (gp_tests p)" "gt_scenario_id t = gt_scenario_id u" for t u
    proof -
      have "within_control t" "within_control u" using within that(1,2) by (simp_all add: list_all_iff)
      with that(3) show ?thesis by (simp add: within_control_def split: option.split_asm)
    qed
    with dist show ?thesis unfolding distinct_map inj_on_def by blast
  qed
  obtain application terraform where g: "context_paths source_context ''application'' = Inr application"
    "context_paths source_context ''terraform'' = Inr terraform" "list_all (cited_in application terraform) (gp_tests p)"
    "\<not> (terraform \<noteq> [] \<and> list_all (\<lambda>t. gt_terraform_refs t = []) (gp_tests p))"
    using grounded unfolding grounded_in_def by (auto simp: list_all_iff list_ex_iff split: sum.splits)
  have "reviewed_tests (gp_tests p)" unfolding reviewed_tests_def using within dist by blast
  moreover have "states_rules (py_strip CANONICAL_REGO) (gp_tests p)"
    unfolding states_rules_def canonical_rego_reads
    using rules_of_controls [OF within ids] by (intro exI [of _ "gp_tests p"]) (simp flip: map_map)
  ultimately have module: "validate_rego_module (py_strip CANONICAL_REGO) (gp_tests p) = Inr CANONICAL_REGO"
    using canonical_of_controls [OF within ids] by (simp add: validate_rego_module_iff)
  have "check_plan source_context ?q = Inr p"
  proof -
    have "length (remdups ?ids) = 5" "length (remdups (map gt_scenario_id (gp_tests p))) = 5" "set ?ids = set (map cd_control_id CONTROLS)"
      using dist scenarios five ids catalog_ids control_ids(3) by (simp_all add: distinct_remdups_id)
    moreover have "check_tests application terraform (gp_tests p) = Inr ()" using within g(3) by (simp add: check_tests_iff)
    moreover have "p\<lparr>gp_rego_module := CANONICAL_REGO\<rparr> = p" using rego by (cases p) simp
    ultimately show ?thesis
      using a g five control_ids(2) order module unfolding check_plan_def Let_def by (auto simp del: set_map)
  qed
  with parsed show ?thesis unfolding validate_generated_plan_def by simp
qed

end
