(* ===== verification/Plan_Properties.thy ===== *)
theory Plan_Properties
  imports Plan_Facts
begin

text \<open>
  What holds of a plan a language model proposed: its Rego module is accepted for exactly the reviewed
  rules, and a plan that was accepted is accepted again when it is read back for approval.
\<close>

section \<open>A plan\<close>

definition sample_test :: "string \<times> string \<Rightarrow> generated_test" where
  "sample_test ids = \<lparr>gt_control_id = fst ids, gt_scenario_id = snd ids, gt_name = ''a denied request'',
     gt_objective = ''the request is denied'', gt_grounding = ''the route checks its caller'',
     gt_source_refs = [''src/api.py''], gt_terraform_refs = (if fst ids = ''ASPIS-ASVS-AC-001'' then [''main.tf''] else [])\<rparr>"

definition sample_tests :: "generated_test list" where
  "sample_tests = map sample_test (zip EXPECTED_CONTROL_IDS (map sn_scenario_id SCENARIOS))"

definition sample_context :: json where
  "sample_context = JObj [(''files'', JList
     [JObj [(''repository'', JStr ''application''), (''path'', JStr ''src/api.py'')],
      JObj [(''repository'', JStr ''terraform''), (''path'', JStr ''main.tf'')]])]"

definition sample_plan :: generated_plan where
  "sample_plan = \<lparr>gp_schema_version = ''1.0'', gp_catalog_version = CATALOG_VERSION, gp_summary = ''one test for a control'',
     gp_rego_module = CANONICAL_REGO, gp_tests = sample_tests\<rparr>"

definition sample_library :: plan_library where
  "sample_library = \<lparr>tl_decode = (\<lambda>_. Some (sample_plan\<lparr>gp_rego_module := py_strip (gp_rego_module sample_plan)\<rparr>)),
     tl_parses = (\<lambda>_. True)\<rparr>"

lemma sample_tests_within: "list_all within_control sample_tests" "map gt_control_id sample_tests = EXPECTED_CONTROL_IDS"
  "list_all valid_test sample_tests" "grounded_in sample_context sample_tests"
  by code_simp+

lemma sample_tests_reviewed: "reviewed_tests sample_tests"
  unfolding reviewed_tests_def sample_tests_within(2) using sample_tests_within(1) control_ids(1) by blast

lemma sample_plan_accepted: "accepted_plan sample_context sample_plan"
proof -
  have "length_in 12 500 ''one test for a control'' \<and> printable ''one test for a control''" by code_simp
  with sample_tests_within show ?thesis unfolding accepted_plan_def sample_plan_def by simp
qed

lemma sample_decode: "tl_decode sample_library text = Some (sample_plan\<lparr>gp_rego_module := py_strip (gp_rego_module sample_plan)\<rparr>)"
  by (simp add: sample_library_def)

section \<open>Properties\<close>

text \<open>C39. For tests over reviewed scenarios, one for a control, a Rego module is accepted exactly when
  its significant lines are the package, the import and the four lines of each test's rule, in some
  order of the rules; nothing else passes, and what is stored is the canonical module.\<close>

theorem rego_validation_is_exact:
  assumes "reviewed_tests tests"
  shows "validate_rego_module rego tests = Inr m \<longleftrightarrow> states_rules rego tests \<and> m = canonical_rego_module tests"
  by (rule validate_rego_module_iff [OF assms])

theorem rego_validation_is_exact_witness:
  "validate_rego_module (py_strip CANONICAL_REGO) sample_tests = Inr (canonical_rego_module sample_tests) \<and>
   \<not> states_rules ''package main'' sample_tests"
proof -
  have "states_rules (py_strip CANONICAL_REGO) sample_tests"
    unfolding states_rules_def canonical_rego_reads
    using rules_of_controls [OF sample_tests_within(1,2)] by (intro exI [of _ sample_tests]) (simp flip: map_map)
  moreover have "significant_lines ''package main'' = [''package main'']" by code_simp
  then have "validate_rego_module ''package main'' sample_tests \<noteq> Inr (canonical_rego_module sample_tests)"
    unfolding validate_rego_module_def by (simp add: HEADER_LINES_def)
  ultimately show ?thesis using rego_validation_is_exact [OF sample_tests_reviewed] by blast
qed

text \<open>C40. A plan that validation accepted covers the five reviewed controls in their order, each by its
  scenario, cites only captured files and carries the canonical module. When it is read back from the
  database, the white space around its strings removed by the decoder, validation returns the very
  same plan, so the integrity check of an approval compares equal values.\<close>

theorem accepted_plans_validate_again:
  assumes "validate_generated_plan lib raw source_context = Inr p"
    and "tl_decode lib stored = Some (p\<lparr>gp_rego_module := py_strip (gp_rego_module p)\<rparr>)"
  shows "validate_generated_plan lib stored source_context = Inr p \<and> compile_rego p = gp_rego_module p \<and>
    map gt_control_id (gp_tests p) = EXPECTED_CONTROL_IDS \<and> list_all within_control (gp_tests p) \<and>
    grounded_in source_context (gp_tests p)"
proof -
  have a: "accepted_plan source_context p" by (rule validated_plan_accepted [OF assms(1)])
  then have "canonical_rego_module (gp_tests p) = gp_rego_module p"
    unfolding accepted_plan_def using canonical_of_controls by metis
  then show ?thesis
    using a accepted_plan_again [OF a assms(2)] unfolding accepted_plan_def compile_rego_def by blast
qed

theorem accepted_plans_validate_again_witness:
  "validate_generated_plan sample_library ''stored'' sample_context = Inr sample_plan"
proof -
  have "validate_generated_plan sample_library ''answer'' sample_context = Inr sample_plan"
    by (rule accepted_plan_again [OF sample_plan_accepted sample_decode])
  from accepted_plans_validate_again [OF this sample_decode] show ?thesis by blast
qed

end
