(* ===== verification/Asvs_Store.thy ===== *)
theory Asvs_Store
  imports Test_Plan Assurance_Store Calendar
begin

text \<open>
  The tables of migrations 004 and 005 beside the bank: the runs of the live assessment, append-only by
  a trigger, and the generations of test plans. A JSON column holds the value stored in it; the size
  of a JSON value as PostgreSQL prints it is a parameter.
\<close>

section \<open>Rows\<close>

record run_summary =
  vr_run_id :: uuid
  vr_initiated_by :: uuid
  vr_status :: string
  vr_catalog_version :: string
  vr_target_commit :: string
  vr_controls_total :: nat
  vr_controls_passed :: nat
  vr_controls_failed :: nat
  vr_controls_inconclusive :: nat
  vr_controls_error :: nat
  vr_evidence_sha256 :: string
  vr_duration_ms :: int
  vr_started_at :: timestamp
  vr_completed_at :: timestamp

record run_row = run_summary +
  vr_evidence :: json

datatype generation_status = GEN_PENDING | GEN_READY | GEN_EXECUTING | GEN_EXECUTED | GEN_FAILED

record generation_row =
  vg_generation_id :: uuid
  vg_initiated_by :: uuid
  vg_session_jti :: uuid
  vg_status :: generation_status
  vg_provider :: string
  vg_model :: string
  vg_catalog_version :: string
  vg_target_commit :: string
  vg_prompt_sha256 :: string
  vg_provenance :: json
  vg_plan_sha256 :: "string option"
  vg_plan :: "generated_plan option"
  vg_compiled_pytest :: "string option"
  vg_provider_request_id :: "string option"
  vg_input_tokens :: "int option"
  vg_output_tokens :: "int option"
  vg_error_code :: "string option"
  vg_asvs_run_id :: "uuid option"
  vg_created_at :: timestamp
  vg_approved_at :: "timestamp option"
  vg_executed_at :: "timestamp option"

record asvs_db =
  av_bank :: db
  av_runs :: "run_row list"
  av_generations :: "generation_row list"

section \<open>Statements on the runs\<close>

definition RUN_STATUSES :: "string list" where
  "RUN_STATUSES = [''PASS'', ''FAIL'', ''INCONCLUSIVE'', ''ERROR'']"

definition insert_run :: "run_row \<Rightarrow> asvs_db \<Rightarrow> failure + asvs_db" where
  "insert_run r a =
     (if vr_duration_ms r > 2147483647 then Inl NumericValueOutOfRange
      else if vr_status r \<notin> set RUN_STATUSES then Inl (CheckViolation ''asvs_runs_status_check'')
      else if \<not> length_in 1 32 (vr_catalog_version r) then Inl (CheckViolation ''asvs_runs_catalog_version_check'')
      else if \<not> length_in 1 128 (vr_target_commit r) then Inl (CheckViolation ''asvs_runs_target_commit_check'')
      else if \<not> (1 \<le> vr_controls_total r \<and> vr_controls_total r \<le> 25) then Inl (CheckViolation ''asvs_runs_controls_total_check'')
      else if \<not> (case vr_evidence r of JList xs \<Rightarrow> 1 \<le> length xs \<and> length xs \<le> 25 | _ \<Rightarrow> False)
      then Inl (CheckViolation ''asvs_runs_evidence_check'')
      else if \<not> hex_between 64 64 (vr_evidence_sha256 r) then Inl (CheckViolation ''asvs_runs_evidence_sha256_check'')
      else if \<not> vr_duration_ms r \<ge> 0 then Inl (CheckViolation ''asvs_runs_duration_ms_check'')
      else if \<not> vr_completed_at r \<ge> vr_started_at r then Inl (CheckViolation ''asvs_runs_check'')
      else if vr_controls_total r \<noteq> vr_controls_passed r + vr_controls_failed r + vr_controls_inconclusive r + vr_controls_error r
      then Inl (CheckViolation ''asvs_runs_check1'')
      else if known vr_run_id (vr_run_id r) (av_runs a) then Inl (UniqueViolation ''asvs_runs_pkey'')
      else if \<not> known ua_user_id (vr_initiated_by r) (user_accounts (av_bank a))
      then Inl (ForeignKeyViolation ''asvs_runs_initiated_by_fkey'')
      else Inr (a\<lparr>av_runs := av_runs a @ [r]\<rparr>))"

text \<open>\<open>ORDER BY completed_at DESC, run_id DESC\<close>.\<close>

definition newest_runs :: "asvs_db \<Rightarrow> run_row list" where
  "newest_runs a = sort_key (\<lambda>r. - vr_completed_at r) (sort_key (\<lambda>r. - uint (vr_run_id r)) (av_runs a))"

section \<open>Statements on the generations\<close>

definition in_integer :: "int option \<Rightarrow> bool" where
  "in_integer n = (case n of None \<Rightarrow> True | Some i \<Rightarrow> - 2147483648 \<le> i \<and> i \<le> 2147483647)"

definition unsigned :: "int option \<Rightarrow> bool" where
  "unsigned n = (case n of None \<Rightarrow> True | Some i \<Rightarrow> 0 \<le> i)"

definition short_option :: "nat \<Rightarrow> string option \<Rightarrow> bool" where
  "short_option n s = (case s of None \<Rightarrow> True | Some t \<Rightarrow> length t \<le> n)"

text \<open>The types and checks of a row, for an INSERT and for an UPDATE.\<close>

definition check_generation :: "(json \<Rightarrow> nat) \<Rightarrow> generation_row \<Rightarrow> failure + unit" where
  "check_generation json_bytes r =
     (if \<not> in_integer (vg_input_tokens r) \<or> \<not> in_integer (vg_output_tokens r) then Inl NumericValueOutOfRange
      else if length (vg_prompt_sha256 r) > 64 \<or> \<not> short_option 64 (vg_plan_sha256 r)
      then Inl (DataError ''value too long for type character(64)'')
      else if \<not> unsigned (vg_input_tokens r) then Inl (CheckViolation ''asvs_ai_generations_input_tokens_check'')
      else if \<not> unsigned (vg_output_tokens r) then Inl (CheckViolation ''asvs_ai_generations_output_tokens_check'')
      else if vg_status r \<notin> {GEN_PENDING, GEN_FAILED} \<and>
          (vg_plan r = None \<or> vg_plan_sha256 r = None \<or> vg_compiled_pytest r = None)
      then Inl (CheckViolation ''asvs_ai_generations_check'')
      else if \<not> short_option 50000 (vg_compiled_pytest r) then Inl (CheckViolation ''asvs_ai_generations_compiled_pytest_check'')
      else if json_bytes (vg_provenance r) > 262144 then Inl (CheckViolation ''asvs_ai_generations_provenance_check'')
      else Inr ())"

definition insert_generation :: "(json \<Rightarrow> nat) \<Rightarrow> generation_row \<Rightarrow> asvs_db \<Rightarrow> failure + asvs_db" where
  "insert_generation json_bytes r a =
     andthen (check_generation json_bytes r) (\<lambda>_.
       if known vg_generation_id (vg_generation_id r) (av_generations a)
       then Inl (UniqueViolation ''asvs_ai_generations_pkey'')
       else if \<not> known ua_user_id (vg_initiated_by r) (user_accounts (av_bank a))
       then Inl (ForeignKeyViolation ''asvs_ai_generations_initiated_by_fkey'')
       else Inr (a\<lparr>av_generations := av_generations a @ [r]\<rparr>))"

text \<open>\<open>UPDATE ... WHERE generation_id = i AND status = s RETURNING ...\<close>: the row after the change, or
  nothing when no row fits.\<close>

definition update_generation ::
  "(json \<Rightarrow> nat) \<Rightarrow> uuid \<Rightarrow> generation_status \<Rightarrow> (generation_row \<Rightarrow> generation_row) \<Rightarrow> asvs_db
     \<Rightarrow> failure + generation_row option \<times> asvs_db" where
  "update_generation json_bytes i s f a =
     (let fits = (\<lambda>r. vg_generation_id r = i \<and> vg_status r = s) in
      case find fits (av_generations a) of
        None \<Rightarrow> Inr (None, a)
      | Some r \<Rightarrow>
          andthen (check_generation json_bytes (f r)) (\<lambda>_.
            if (case vg_asvs_run_id (f r) of None \<Rightarrow> False | Some j \<Rightarrow> \<not> known vr_run_id j (av_runs a))
            then Inl (ForeignKeyViolation ''asvs_ai_generations_asvs_run_id_fkey'')
            else Inr (Some (f r), a\<lparr>av_generations := rows_update fits f (av_generations a)\<rparr>)))"

section \<open>The audit trail\<close>

definition audit_asvs :: "audit_args \<Rightarrow> audit_fresh \<Rightarrow> asvs_db \<Rightarrow> failure + asvs_db" where
  "audit_asvs args fx a = andthen (audit_record args fx (av_bank a)) (\<lambda>d. Inr (a\<lparr>av_bank := d\<rparr>))"

text \<open>Metadata that were there, with new ones over them.\<close>

definition merged_metadata :: "json \<Rightarrow> (string \<times> json) list \<Rightarrow> json" where
  "merged_metadata existing kvs = JObj (fold (\<lambda>kv. AList.update (fst kv) (snd kv)) kvs (obj (Some existing)))"

section \<open>What a statement that succeeded did\<close>

lemma insert_run_InrD:
  "insert_run r a = Inr a' \<Longrightarrow> a' = a\<lparr>av_runs := av_runs a @ [r]\<rparr> \<and> \<not> known vr_run_id (vr_run_id r) (av_runs a)"
  by (simp add: insert_run_def split: if_splits)

lemma insert_generation_InrD:
  "insert_generation json_bytes r a = Inr a' \<Longrightarrow>
     a' = a\<lparr>av_generations := av_generations a @ [r]\<rparr> \<and> \<not> known vg_generation_id (vg_generation_id r) (av_generations a)"
  by (auto simp: insert_generation_def andthen_Inr_iff split: if_splits)

lemma update_generation_InrD:
  assumes "update_generation json_bytes i s f a = Inr (x, a')"
  obtains "x = None" "a' = a" "\<And>r. r \<in> set (av_generations a) \<Longrightarrow> vg_generation_id r = i \<Longrightarrow> vg_status r \<noteq> s"
    | r where "r \<in> set (av_generations a)" "vg_generation_id r = i" "vg_status r = s" "x = Some (f r)"
        "a' = a\<lparr>av_generations := rows_update (\<lambda>r. vg_generation_id r = i \<and> vg_status r = s) f (av_generations a)\<rparr>"
        "\<And>j. vg_asvs_run_id (f r) = Some j \<Longrightarrow> known vr_run_id j (av_runs a)"
proof (cases "find (\<lambda>r. vg_generation_id r = i \<and> vg_status r = s) (av_generations a)")
  case None
  with assms that(1) show thesis by (auto simp: update_generation_def find_None_iff)
next
  case (Some r)
  then have "r \<in> set (av_generations a)" "vg_generation_id r = i" "vg_status r = s" by (auto simp: find_Some_iff)
  moreover have "x = Some (f r)" "\<forall>j. vg_asvs_run_id (f r) = Some j \<longrightarrow> known vr_run_id j (av_runs a)"
    "a' = a\<lparr>av_generations := rows_update (\<lambda>r. vg_generation_id r = i \<and> vg_status r = s) f (av_generations a)\<rparr>"
    using Some assms by (auto simp: update_generation_def andthen_Inr_iff split: if_splits option.splits)
  ultimately show thesis by (intro that(2)) blast+
qed

lemma audit_asvs_InrD:
  "audit_asvs args fx a = Inr a' \<Longrightarrow>
     \<exists>row. a' = a\<lparr>av_bank := (av_bank a)\<lparr>audit_events := audit_events (av_bank a) @ [row]\<rparr>\<rparr> \<and>
       au_action row = aa_action args \<and> au_resource_id row = aa_resource_id args"
  by (auto simp: audit_asvs_def elim!: andthen_InrE dest!: audit_record_InrD)

end
