(* ===== verification/Asvs_Service.thy ===== *)
theory Asvs_Service
  imports Plan_Prompt Asvs_Store
begin

text \<open>
  \<open>AsvsService\<close> of \<open>bantam/asvs.py\<close> and \<open>AsvsAiService\<close> of \<open>bantam/asvs_ai.py\<close>. A database transaction is
  one function, so that a call is a sequence of them; the advisory lock of the live runner is a flag
  of the world, the lock of the quota is held by the transaction that takes it.
\<close>

section \<open>The live assessment\<close>

record asvs_deps =
  vd_runner_enabled :: bool
  vd_target_commit :: string
  vd_port :: int
  vd_loads :: "string \<Rightarrow> json option"
  vd_open :: opener
  vd_cookies :: "string list \<Rightarrow> (string \<times> string) list"
  vd_number :: "real \<Rightarrow> json"
  vd_read_number :: "json \<Rightarrow> real option"
  vd_sha256_hex :: "string \<Rightarrow> string"

record run_fresh =
  rx_run_id :: uuid
  rx_key :: uuid
  rx_request_id :: "probe \<Rightarrow> uuid"
  rx_now :: timestamp
  rx_started_at :: timestamp
  rx_completed_at :: timestamp
  rx_duration_ms :: int
  rx_audit :: audit_fresh

record asvs_world =
  aw_store :: asvs_db
  aw_locked :: bool
  aw_sent :: "json list"

type_synonym run_view = "run_summary \<times> json option"

definition serialize_run :: "bool \<Rightarrow> run_row \<Rightarrow> run_view" where
  "serialize_run include_evidence r = (run_summary.truncate r, if include_evidence then Some (vr_evidence r) else None)"

record asvs_overview =
  vo_catalog_version :: string
  vo_controls :: "json list"
  vo_runner_enabled :: bool
  vo_cooldown_seconds :: int
  vo_accepted_exceptions :: nat
  vo_latest_run :: "run_view option"
  vo_history :: "run_view list"

definition asvs_overview :: "asvs_deps \<Rightarrow> nat \<Rightarrow> asvs_db \<Rightarrow> asvs_overview" where
  "asvs_overview deps limit a =
     (let history = take (max 1 (min limit 25)) (newest_runs a) in
      \<lparr>vo_catalog_version = CATALOG_VERSION, vo_controls = map control_json CONTROLS, vo_runner_enabled = vd_runner_enabled deps,
       vo_cooldown_seconds = RUN_COOLDOWN_SECONDS, vo_accepted_exceptions = 0,
       vo_latest_run = (case history of [] \<Rightarrow> None | r # _ \<Rightarrow> Some (serialize_run True r)),
       vo_history = map (serialize_run False) history\<rparr>)"

definition err_runner_disabled :: failure where
  "err_runner_disabled = bantam ''ASVS_RUNNER_DISABLED'' ''live ASVS probes are disabled in this environment'' 409"

definition err_run_in_progress :: failure where
  "err_run_in_progress = bantam ''ASVS_RUN_IN_PROGRESS'' ''another ASVS verification run is already in progress'' 409"

definition err_run_cooldown :: failure where
  "err_run_cooldown = bantam ''ASVS_RUN_COOLDOWN'' (''wait at least '' @ int_str RUN_COOLDOWN_SECONDS @ '' seconds between live runs'') 429"

text \<open>\<open>ORDER BY completed_at DESC LIMIT 1\<close>.\<close>

definition cooling_down :: "timestamp \<Rightarrow> asvs_db \<Rightarrow> bool" where
  "cooling_down now a = (case newest_runs a of [] \<Rightarrow> False | r # _ \<Rightarrow> now - vr_completed_at r < seconds RUN_COOLDOWN_SECONDS)"

definition live_run :: "asvs_deps \<Rightarrow> run_fresh \<Rightarrow> db \<Rightarrow> evidence list \<times> db" where
  "live_run deps fx d =
     run_probes (loopback_call (vd_loads deps) (vd_open deps) (vd_port deps) (rx_request_id fx))
       (vd_target_commit deps) (vd_cookies deps) (rx_key fx) d"

text \<open>Every record is read again from its rendering before it is stored.\<close>

fun revalidated :: "asvs_deps \<Rightarrow> evidence list \<Rightarrow> string + json list" where
  "revalidated deps [] = Inr []"
| "revalidated deps (r # rs) =
     andthen (evidence_from (vd_read_number deps) (evidence_json (vd_number deps) r)) (\<lambda>r'.
     andthen (revalidated deps rs) (\<lambda>vs. Inr (evidence_json (vd_number deps) r' # vs)))"

definition evidence_bundle :: "asvs_deps \<Rightarrow> json list \<Rightarrow> json" where
  "evidence_bundle deps records = JObj
     [(''schema_version'', JStr ''1.0''), (''catalog_version'', JStr CATALOG_VERSION),
      (''target_commit'', JStr (vd_target_commit deps)), (''records'', JList records)]"

definition new_run :: "asvs_deps \<Rightarrow> uuid \<Rightarrow> run_fresh \<Rightarrow> evidence list \<Rightarrow> json list \<Rightarrow> run_row" where
  "new_run deps initiated_by fx records evidence_values =
     \<lparr>vr_run_id = rx_run_id fx, vr_initiated_by = initiated_by, vr_status = run_status records,
      vr_catalog_version = CATALOG_VERSION, vr_target_commit = vd_target_commit deps, vr_controls_total = length records,
      vr_controls_passed = count_status ''pass'' records, vr_controls_failed = count_status ''fail'' records,
      vr_controls_inconclusive = count_status ''inconclusive'' records, vr_controls_error = count_status ''error'' records,
      vr_evidence_sha256 = digest (vd_sha256_hex deps) (evidence_bundle deps evidence_values),
      vr_duration_ms = max 0 (rx_duration_ms fx), vr_started_at = rx_started_at fx, vr_completed_at = rx_completed_at fx,
      vr_evidence = JList evidence_values\<rparr>"

definition run_audit :: "audit_args \<Rightarrow> run_row \<Rightarrow> audit_args" where
  "run_audit args r = args
     \<lparr>aa_resource_id := uuid_str (vr_run_id r),
      aa_metadata := merged_metadata (aa_metadata args)
        [(''status'', JStr (vr_status r)), (''controls_total'', JInt (int (vr_controls_total r))),
         (''controls_passed'', JInt (int (vr_controls_passed r))), (''controls_failed'', JInt (int (vr_controls_failed r))),
         (''controls_inconclusive'', JInt (int (vr_controls_inconclusive r))), (''controls_error'', JInt (int (vr_controls_error r))),
         (''evidence_sha256'', JStr (vr_evidence_sha256 r)), (''target_commit'', JStr (vr_target_commit r))]\<rparr>"

text \<open>The row and its audit record are one transaction.\<close>

definition save_run :: "run_row \<Rightarrow> audit_args \<Rightarrow> audit_fresh \<Rightarrow> (asvs_db, failure, unit) proc" where
  "save_run r args fx = in_transaction (\<lambda>a.
     andthen (insert_run r a) (\<lambda>a1. andthen (audit_asvs (run_audit args r) fx a1) (\<lambda>a2. Inr ((), a2))))"

definition record_run :: "asvs_deps \<Rightarrow> uuid \<Rightarrow> audit_args \<Rightarrow> run_fresh \<Rightarrow> evidence list \<Rightarrow> (asvs_db, failure, run_row) proc" where
  "record_run deps initiated_by args fx records a =
     (case revalidated deps records of
        Inl message \<Rightarrow> (Inl (ValueError message), a)
      | Inr values \<Rightarrow>
          let r = new_run deps initiated_by fx records values in
          run_then (save_run r args (rx_audit fx)) (\<lambda>_. returning r) a)"

text \<open>What stops a run before its first probe. The lock is taken before the cooldown is looked at and
  given back in every case.\<close>

definition run_refusal :: "asvs_deps \<Rightarrow> bool \<Rightarrow> timestamp \<Rightarrow> asvs_db \<Rightarrow> failure option" where
  "run_refusal deps locked now a =
     (if \<not> vd_runner_enabled deps then Some err_runner_disabled
      else if locked then Some err_run_in_progress
      else if cooling_down now a then Some err_run_cooldown
      else None)"

definition execute :: "asvs_deps \<Rightarrow> uuid \<Rightarrow> audit_args \<Rightarrow> run_fresh \<Rightarrow> (asvs_world, failure, run_row) proc" where
  "execute deps initiated_by args fx w =
     (case run_refusal deps (aw_locked w) (rx_now fx) (aw_store w) of
        Some e \<Rightarrow> (Inl e, w)
      | None \<Rightarrow>
          (case live_run deps fx (av_bank (aw_store w)) of (records, d) \<Rightarrow>
           case record_run deps initiated_by args fx records ((aw_store w)\<lparr>av_bank := d\<rparr>) of (r, a) \<Rightarrow>
             (r, w\<lparr>aw_store := a, aw_locked := False\<rparr>)))"

section \<open>Generated plans\<close>

record ai_deps =
  vi_feature_enabled :: bool
  vi_client :: "model_provider option"
  vi_target_commit :: string
  vi_application_root :: source_root
  vi_terraform_root :: source_root
  vi_bytes :: byte_library
  vi_library :: plan_library
  vi_number :: "real \<Rightarrow> json"
  vi_json_bytes :: "json \<Rightarrow> nat"

definition ai_sha256 :: "ai_deps \<Rightarrow> string \<Rightarrow> string" where
  "ai_sha256 deps = bl_sha256_hex (vi_bytes deps)"

definition SESSION_GENERATION_LIMIT :: nat where "SESSION_GENERATION_LIMIT = 5"
definition ACCOUNT_DAILY_GENERATION_LIMIT :: nat where "ACCOUNT_DAILY_GENERATION_LIMIT = 5"
definition DAILY_GENERATION_LIMIT :: nat where "DAILY_GENERATION_LIMIT = 25"
definition MODEL_TIMEOUT_SECONDS :: nat where "MODEL_TIMEOUT_SECONDS = 45"

definition source_status :: "ai_deps \<Rightarrow> (bool \<times> nat) \<times> (bool \<times> nat) \<times> bool" where
  "source_status deps = describe_source_roots (vi_application_root deps) (vi_terraform_root deps)"

definition sources_ready :: "ai_deps \<Rightarrow> bool" where
  "sources_ready deps = snd (snd (source_status deps))"

definition ai_enabled :: "ai_deps \<Rightarrow> bool" where
  "ai_enabled deps \<longleftrightarrow> vi_feature_enabled deps \<and> vi_client deps \<noteq> None \<and> sources_ready deps"

text \<open>\<open>date_trunc('day', now() AT TIME ZONE 'UTC')\<close>.\<close>

definition day_start :: "timestamp \<Rightarrow> timestamp" where
  "day_start now = now div day_length * day_length"

definition count_rows :: "(generation_row \<Rightarrow> bool) \<Rightarrow> asvs_db \<Rightarrow> nat" where
  "count_rows P a = length (filter P (av_generations a))"

definition quota :: "timestamp \<Rightarrow> uuid \<Rightarrow> uuid \<Rightarrow> asvs_db \<Rightarrow> nat \<times> nat \<times> nat" where
  "quota now initiated_by session_jti a =
     (count_rows (\<lambda>r. vg_session_jti r = session_jti) a,
      count_rows (\<lambda>r. vg_initiated_by r = initiated_by \<and> vg_created_at r \<ge> day_start now) a,
      count_rows (\<lambda>r. vg_created_at r \<ge> day_start now) a)"

type_synonym generation_view = "generation_row \<times> string option"

definition serialize_generation :: "ai_deps \<Rightarrow> generation_row \<Rightarrow> generation_view" where
  "serialize_generation deps r = (r, map_option (\<lambda>p. ai_sha256 deps (gp_rego_module p)) (vg_plan r))"

record ai_overview =
  io_enabled :: bool
  io_feature_enabled :: bool
  io_disabled_reason :: "string option"
  io_source_status :: "(bool \<times> nat) \<times> (bool \<times> nat) \<times> bool"
  io_limits :: "(string \<times> int) list"
  io_usage :: "(string \<times> nat) list"
  io_latest_generation :: "generation_view option"

definition disabled_reason :: "ai_deps \<Rightarrow> string option" where
  "disabled_reason deps =
     (case source_status deps of (application, terraform, _) \<Rightarrow>
        if \<not> vi_feature_enabled deps then Some ''AI test-plan generation is disabled in this environment.''
        else if vi_client deps = None
        then Some (''Configure ASPIS_MISTRAL_API_KEY for this environment, then '' @ ''restart the API.'')
        else if \<not> fst application then Some ''The running application source mount is unavailable.''
        else if \<not> fst terraform
        then Some (''The Terraform-infra/bank checkout is unavailable. Rebuild the '' @
          ''Codespace with the requested read permission or clone it beside bank.'')
        else None)"

text \<open>\<open>ORDER BY created_at DESC, generation_id DESC LIMIT 1\<close> of a session.\<close>

definition latest_generation :: "uuid \<Rightarrow> uuid \<Rightarrow> asvs_db \<Rightarrow> generation_row option" where
  "latest_generation initiated_by session_jti a =
     (case sort_key (\<lambda>r. - vg_created_at r) (sort_key (\<lambda>r. - uint (vg_generation_id r))
         (filter (\<lambda>r. vg_initiated_by r = initiated_by \<and> vg_session_jti r = session_jti) (av_generations a))) of
        [] \<Rightarrow> None | r # _ \<Rightarrow> Some r)"

definition ai_overview :: "ai_deps \<Rightarrow> timestamp \<Rightarrow> uuid \<Rightarrow> uuid \<Rightarrow> asvs_db \<Rightarrow> ai_overview" where
  "ai_overview deps now initiated_by session_jti a =
     (case quota now initiated_by session_jti a of (session_used, account_daily_used, daily_used) \<Rightarrow>
        \<lparr>io_enabled = ai_enabled deps, io_feature_enabled = vi_feature_enabled deps, io_disabled_reason = disabled_reason deps,
         io_source_status = source_status deps,
         io_limits = [(''per_session'', int SESSION_GENERATION_LIMIT), (''per_account_per_day'', int ACCOUNT_DAILY_GENERATION_LIMIT),
           (''per_day'', int DAILY_GENERATION_LIMIT), (''max_tests'', int MAX_GENERATED_TESTS),
           (''max_output_tokens'', MAX_PROVIDER_OUTPUT_TOKENS), (''max_input_bytes'', int MAX_PROVIDER_INPUT_BYTES),
           (''max_source_files'', int MAX_CONTEXT_FILES), (''max_source_bytes'', int MAX_CONTEXT_BYTES),
           (''timeout_seconds'', int MODEL_TIMEOUT_SECONDS), (''automatic_retries'', 0)],
         io_usage = [(''session'', session_used), (''account_daily'', account_daily_used), (''daily'', daily_used),
           (''session_remaining'', SESSION_GENERATION_LIMIT - session_used),
           (''account_daily_remaining'', ACCOUNT_DAILY_GENERATION_LIMIT - account_daily_used),
           (''daily_remaining'', DAILY_GENERATION_LIMIT - daily_used)],
         io_latest_generation = map_option (serialize_generation deps) (latest_generation initiated_by session_jti a)\<rparr>)"

definition require_enabled :: "ai_deps \<Rightarrow> failure + model_provider" where
  "require_enabled deps =
     (if \<not> vi_feature_enabled deps
      then Inl (bantam ''ASVS_AI_DISABLED'' ''AI test-plan generation is disabled in this environment'' 409)
      else case vi_client deps of
        None \<Rightarrow> Inl (bantam ''ASVS_AI_NOT_CONFIGURED'' ''Mistral is not configured for this environment'' 409)
      | Some client \<Rightarrow>
          if \<not> sources_ready deps
          then Inl (bantam ''ASVS_AI_SOURCE_CONTEXT_MISSING''
            ''both application and Terraform source must be mounted before generation'' 409)
          else Inr client)"

section \<open>Reserving a generation\<close>

record prepared =
  pq_request :: json
  pq_prompt_sha256 :: string
  pq_provenance :: json
  pq_source_context :: json

definition prepare :: "ai_deps \<Rightarrow> (string \<times> json) list \<Rightarrow> failure + prepared" where
  "prepare deps openapi_document =
     (map_sum (\<lambda>message. bantam ''ASVS_AI_SOURCE_CONTEXT_INVALID'' message 409) id
       (andthen (build_source_context (vi_bytes deps) (vi_application_root deps) (vi_terraform_root deps)) (\<lambda>source.
        andthen (build_openapi_snapshot (vi_bytes deps) openapi_document) (\<lambda>openapi.
        andthen (build_plan_schema (ss_document source)) (\<lambda>response_schema.
        andthen (build_prompt (ss_document source) (ss_document openapi) response_schema) (\<lambda>prompt.
          let request = build_model_request (vi_number deps) prompt response_schema in
          Inr \<lparr>pq_request = request, pq_prompt_sha256 = ai_sha256 deps prompt,
            pq_provenance = build_request_provenance (ai_sha256 deps) request source openapi, pq_source_context = ss_document source\<rparr>))))))"

record step_fresh =
  sx_now :: timestamp
  sx_audit :: audit_fresh

definition pending_generation :: "ai_deps \<Rightarrow> uuid \<Rightarrow> timestamp \<Rightarrow> uuid \<Rightarrow> uuid \<Rightarrow> prepared \<Rightarrow> generation_row" where
  "pending_generation deps generation_id now initiated_by session_jti pq =
     \<lparr>vg_generation_id = generation_id, vg_initiated_by = initiated_by, vg_session_jti = session_jti,
      vg_status = GEN_PENDING, vg_provider = MODEL_PROVIDER, vg_model = MODEL_ID, vg_catalog_version = CATALOG_VERSION,
      vg_target_commit = vi_target_commit deps, vg_prompt_sha256 = pq_prompt_sha256 pq, vg_provenance = pq_provenance pq,
      vg_plan_sha256 = None, vg_plan = None, vg_compiled_pytest = None, vg_provider_request_id = None,
      vg_input_tokens = None, vg_output_tokens = None, vg_error_code = None, vg_asvs_run_id = None,
      vg_created_at = now, vg_approved_at = None, vg_executed_at = None\<rparr>"

definition err_session_limit :: failure where
  "err_session_limit = bantam ''ASVS_AI_SESSION_LIMIT''
     (''this session has used its '' @ nat_str SESSION_GENERATION_LIMIT @ '' AI generations'') 429"

definition err_account_limit :: failure where
  "err_account_limit = bantam ''ASVS_AI_ACCOUNT_DAILY_LIMIT''
     (''this account has used its '' @ nat_str ACCOUNT_DAILY_GENERATION_LIMIT @ '' AI generations today'') 429"

definition err_daily_limit :: failure where
  "err_daily_limit = bantam ''ASVS_AI_DAILY_LIMIT''
     (''the Bantam demo has used its '' @ nat_str DAILY_GENERATION_LIMIT @ '' AI generations for today'') 429"

text \<open>One transaction under the advisory lock of the quota.\<close>

definition reserve :: "ai_deps \<Rightarrow> uuid \<Rightarrow> timestamp \<Rightarrow> uuid \<Rightarrow> uuid \<Rightarrow> prepared \<Rightarrow> (asvs_db, failure, unit) proc" where
  "reserve deps generation_id now initiated_by session_jti pq = in_transaction (\<lambda>a.
     case quota now initiated_by session_jti a of (session_used, account_daily_used, daily_used) \<Rightarrow>
       if session_used \<ge> SESSION_GENERATION_LIMIT then Inl err_session_limit
       else if account_daily_used \<ge> ACCOUNT_DAILY_GENERATION_LIMIT then Inl err_account_limit
       else if daily_used \<ge> DAILY_GENERATION_LIMIT then Inl err_daily_limit
       else andthen (insert_generation (vi_json_bytes deps)
           (pending_generation deps generation_id now initiated_by session_jti pq) a) (\<lambda>a1. Inr ((), a1)))"

section \<open>Judging the answer\<close>

definition generation_audit :: "audit_args \<Rightarrow> uuid \<Rightarrow> string \<Rightarrow> (string \<times> json) list \<Rightarrow> audit_args" where
  "generation_audit args generation_id action metadata = args
     \<lparr>aa_action := action, aa_resource_type := ''asvs_ai_test_plan'', aa_resource_id := uuid_str generation_id,
      aa_metadata := merged_metadata (aa_metadata args) metadata\<rparr>"

definition fail_generation ::
  "ai_deps \<Rightarrow> uuid \<Rightarrow> audit_args \<Rightarrow> string \<Rightarrow> audit_fresh \<Rightarrow> (asvs_db, failure, unit) proc" where
  "fail_generation deps generation_id args code fx = in_transaction (\<lambda>a.
     andthen (update_generation (vi_json_bytes deps) generation_id GEN_PENDING
         (\<lambda>r. r\<lparr>vg_status := GEN_FAILED, vg_error_code := Some code\<rparr>) a) (\<lambda>(_, a1).
     andthen (audit_asvs (generation_audit args generation_id ''ASVS_AI_TEST_PLAN_FAILED''
         [(''provider'', JStr MODEL_PROVIDER), (''model'', JStr MODEL_ID), (''error_code'', JStr code)]) fx a1) (\<lambda>a2.
     Inr ((), a2))))"

record candidate =
  ca_output :: model_output
  ca_plan :: generated_plan
  ca_compiled_pytest :: string
  ca_plan_sha256 :: string
  ca_rego_sha256 :: string

definition err_plan_rejected :: failure where
  "err_plan_rejected = bantam ''ASVS_AI_PLAN_REJECTED'' ''the model response was outside the reviewed test-plan schema'' 502"

definition err_plan_unavailable :: failure where
  "err_plan_unavailable = bantam ''ASVS_AI_PROVIDER_UNAVAILABLE'' ''Mistral could not generate a test plan'' 502"

text \<open>The error code to store and the error to raise, or the candidate.\<close>

definition make_candidate :: "ai_deps \<Rightarrow> json \<Rightarrow> model_request_error + model_output \<Rightarrow> (string \<times> failure) + candidate" where
  "make_candidate deps source_context answer =
     (let lib = vi_library deps in
      case answer of
        Inl e \<Rightarrow> Inl (mq_code e, bantam (mq_code e) (mq_message e) (mq_status e))
      | Inr reply \<Rightarrow>
          (case andthen (validate_generated_plan lib (mo_content reply) source_context) (\<lambda>p.
               andthen (compile_pytest lib p) (\<lambda>source. Inr (p, source))) of
             Inl (Rejected _) \<Rightarrow> Inl (''ASVS_AI_PLAN_REJECTED'', err_plan_rejected)
           | Inl _ \<Rightarrow> Inl (''ASVS_AI_PROVIDER_UNAVAILABLE'', err_plan_unavailable)
           | Inr (p, source) \<Rightarrow> Inr \<lparr>ca_output = reply, ca_plan = p, ca_compiled_pytest = source,
               ca_plan_sha256 = digest (ai_sha256 deps) (plan_json p),
               ca_rego_sha256 = ai_sha256 deps (compile_rego p)\<rparr>))"

definition ready_row :: "candidate \<Rightarrow> generation_row \<Rightarrow> generation_row" where
  "ready_row c r = r
     \<lparr>vg_status := GEN_READY, vg_plan := Some (ca_plan c), vg_compiled_pytest := Some (ca_compiled_pytest c),
      vg_plan_sha256 := Some (ca_plan_sha256 c), vg_provider_request_id := mo_request_id (ca_output c),
      vg_input_tokens := mo_input_tokens (ca_output c), vg_output_tokens := mo_output_tokens (ca_output c), vg_error_code := None\<rparr>"

definition token_json :: "int option \<Rightarrow> json" where
  "token_json n = (case n of None \<Rightarrow> JNull | Some i \<Rightarrow> JInt i)"

definition text_of :: "json \<Rightarrow> string \<Rightarrow> json" where
  "text_of v key = (case field (Some v) key of None \<Rightarrow> JNull | Some x \<Rightarrow> x)"

definition finish_generation ::
  "ai_deps \<Rightarrow> uuid \<Rightarrow> audit_args \<Rightarrow> prepared \<Rightarrow> candidate \<Rightarrow> audit_fresh \<Rightarrow> (asvs_db, failure, generation_row) proc" where
  "finish_generation deps generation_id args pq c fx = in_transaction (\<lambda>a.
     andthen (update_generation (vi_json_bytes deps) generation_id GEN_PENDING (ready_row c) a) (\<lambda>(row, a1).
       case row of
         None \<Rightarrow> Inl (bantam ''ASVS_AI_GENERATION_CONFLICT'' ''the reserved generation could not be finalized'' 409)
       | Some r \<Rightarrow>
           andthen (audit_asvs (generation_audit args generation_id ''ASVS_AI_TEST_PLAN_GENERATED''
             [(''provider'', JStr MODEL_PROVIDER), (''model'', JStr MODEL_ID), (''catalog_version'', JStr CATALOG_VERSION),
              (''prompt_sha256'', JStr (pq_prompt_sha256 pq)), (''source_sha256'', text_of (pq_provenance pq) ''source_sha256''),
              (''openapi_sha256'', text_of (pq_provenance pq) ''openapi_sha256''),
              (''request_sha256'', text_of (pq_provenance pq) ''request_sha256''), (''plan_sha256'', JStr (ca_plan_sha256 c)),
              (''rego_sha256'', JStr (ca_rego_sha256 c)), (''tests'', JInt (int (length (gp_tests (ca_plan c))))),
              (''input_tokens'', token_json (mo_input_tokens (ca_output c))),
              (''output_tokens'', token_json (mo_output_tokens (ca_output c)))]) fx a1) (\<lambda>a2.
           Inr (r, a2))))"

text \<open>What follows the answer of the model.\<close>

definition conclude ::
  "ai_deps \<Rightarrow> uuid \<Rightarrow> audit_args \<Rightarrow> prepared \<Rightarrow> model_request_error + model_output \<Rightarrow> audit_fresh
     \<Rightarrow> (asvs_db, failure, generation_row) proc" where
  "conclude deps generation_id args pq answer fx =
     (case make_candidate deps (pq_source_context pq) answer of
        Inl (code, e) \<Rightarrow> run_then (fail_generation deps generation_id args code fx) (\<lambda>_. raising e)
      | Inr c \<Rightarrow> finish_generation deps generation_id args pq c fx)"

record generate_fresh =
  gx_generation_id :: uuid
  gx_now :: timestamp
  gx_audit :: audit_fresh

definition generate_plan ::
  "ai_deps \<Rightarrow> uuid \<Rightarrow> uuid \<Rightarrow> audit_args \<Rightarrow> (string \<times> json) list \<Rightarrow> generate_fresh
     \<Rightarrow> (asvs_world, failure, generation_view) proc" where
  "generate_plan deps initiated_by session_jti args openapi_document fx w =
     (case require_enabled deps of
        Inl e \<Rightarrow> (Inl e, w)
      | Inr client \<Rightarrow>
          (case prepare deps openapi_document of
             Inl e \<Rightarrow> (Inl e, w)
           | Inr pq \<Rightarrow>
               (case reserve deps (gx_generation_id fx) (gx_now fx) initiated_by session_jti pq (aw_store w) of
                  (Inl e, a) \<Rightarrow> (Inl e, w\<lparr>aw_store := a\<rparr>)
                | (Inr _, a) \<Rightarrow>
                    (case conclude deps (gx_generation_id fx) args pq (plan_client client (pq_request pq)) (gx_audit fx) a of
                       (r, a1) \<Rightarrow> (map_sum id (serialize_generation deps) r,
                         w\<lparr>aw_store := a1, aw_sent := aw_sent w @ [pq_request pq]\<rparr>)))))"

section \<open>Approving a plan\<close>

definition err_plan_integrity :: failure where
  "err_plan_integrity = bantam ''ASVS_AI_PLAN_INTEGRITY'' ''the stored test plan failed integrity validation'' 500"

definition plan_text :: "generated_plan option \<Rightarrow> string" where
  "plan_text p = (case p of None \<Rightarrow> ''null'' | Some q \<Rightarrow> spaced_json (plan_json q))"

definition approval_problem :: "plan_problem \<Rightarrow> failure" where
  "approval_problem problem =
     (case problem of
        Rejected _ \<Rightarrow> err_plan_integrity
      | NoManifest \<Rightarrow> ValueError ''source context is missing its file manifest''
      | NotPython \<Rightarrow> RuntimeError ''SyntaxError'')"

text \<open>The stored plan, validated again and compared with what was stored beside it.\<close>

definition stored_candidate :: "ai_deps \<Rightarrow> generation_row \<Rightarrow> plan_problem + generated_plan \<times> string" where
  "stored_candidate deps row =
     (let lib = vi_library deps in
      andthen (validated_provenance (ai_sha256 deps) (vg_provenance row) (vg_prompt_sha256 row)) (\<lambda>provenance.
      andthen (validate_generated_plan lib (plan_text (vg_plan row)) (text_of provenance ''source_context'')) (\<lambda>p.
      andthen (compile_pytest lib p) (\<lambda>source. Inr (p, source)))))"

definition approved_plan :: "ai_deps \<Rightarrow> generation_row \<Rightarrow> failure + generated_plan" where
  "approved_plan deps row =
     (case stored_candidate deps row of
        Inl problem \<Rightarrow> Inl (approval_problem problem)
      | Inr (p, source) \<Rightarrow>
          if Some (digest (ai_sha256 deps) (plan_json p)) \<noteq> vg_plan_sha256 row \<or>
             Some source \<noteq> vg_compiled_pytest row \<or> compile_rego p \<noteq> gp_rego_module p
          then Inl err_plan_integrity else Inr p)"

definition approve ::
  "ai_deps \<Rightarrow> uuid \<Rightarrow> uuid \<Rightarrow> uuid \<Rightarrow> timestamp \<Rightarrow> (asvs_db, failure, generation_row \<times> generated_plan) proc" where
  "approve deps generation_id initiated_by session_jti now = in_transaction (\<lambda>a.
     case find (\<lambda>r. vg_generation_id r = generation_id \<and> vg_initiated_by r = initiated_by \<and> vg_session_jti r = session_jti)
         (av_generations a) of
       None \<Rightarrow> Inl (bantam ''ASVS_AI_PLAN_NOT_FOUND'' ''the generated test plan was not found in this session'' 404)
     | Some row \<Rightarrow>
         if vg_status row \<noteq> GEN_READY
         then Inl (bantam ''ASVS_AI_PLAN_NOT_READY'' ''the generated test plan is not awaiting approval'' 409)
         else andthen (approved_plan deps row) (\<lambda>p.
           andthen (update_generation (vi_json_bytes deps) generation_id GEN_READY
               (\<lambda>r. r\<lparr>vg_status := GEN_EXECUTING, vg_approved_at := Some now, vg_error_code := None\<rparr>) a) (\<lambda>(_, a1).
           Inr ((row, p), a1))))"

definition restore_ready :: "ai_deps \<Rightarrow> uuid \<Rightarrow> string \<Rightarrow> (asvs_db, failure, unit) proc" where
  "restore_ready deps generation_id code = statement (\<lambda>a.
     map_sum id snd (update_generation (vi_json_bytes deps) generation_id GEN_EXECUTING
       (\<lambda>r. r\<lparr>vg_status := GEN_READY, vg_approved_at := None, vg_error_code := Some code\<rparr>) a))"

definition complete_execution ::
  "ai_deps \<Rightarrow> uuid \<Rightarrow> audit_args \<Rightarrow> string option \<Rightarrow> run_row \<Rightarrow> step_fresh \<Rightarrow> (asvs_db, failure, generation_row) proc" where
  "complete_execution deps generation_id args plan_sha256 run fx = in_transaction (\<lambda>a.
     andthen (update_generation (vi_json_bytes deps) generation_id GEN_EXECUTING
         (\<lambda>r. r\<lparr>vg_status := GEN_EXECUTED, vg_asvs_run_id := Some (vr_run_id run), vg_executed_at := Some (sx_now fx),
            vg_error_code := None\<rparr>) a) (\<lambda>(row, a1).
       case row of
         None \<Rightarrow> Inl (bantam ''ASVS_AI_EXECUTION_CONFLICT'' ''the generated test execution could not be finalized'' 409)
       | Some r \<Rightarrow>
           andthen (audit_asvs (generation_audit args generation_id ''ASVS_AI_TEST_PLAN_EXECUTED''
             [(''plan_sha256'', case plan_sha256 of None \<Rightarrow> JNull | Some s \<Rightarrow> JStr s),
              (''asvs_run_id'', JStr (uuid_str (vr_run_id run))), (''status'', JStr (vr_status run))]) (sx_audit fx) a1) (\<lambda>a2.
           Inr (r, a2))))"

definition execution_audit :: "ai_deps \<Rightarrow> audit_args \<Rightarrow> uuid \<Rightarrow> generation_row \<Rightarrow> generated_plan \<Rightarrow> audit_args" where
  "execution_audit deps args generation_id row p = args
     \<lparr>aa_metadata := JObj
        [(''generation_id'', JStr (uuid_str generation_id)),
         (''plan_sha256'', case vg_plan_sha256 row of None \<Rightarrow> JNull | Some s \<Rightarrow> JStr s),
         (''rego_sha256'', JStr (ai_sha256 deps (gp_rego_module p))),
         (''execution_boundary'', JStr ''deterministic-reviewed-scenarios'')]\<rparr>"

text \<open>The error code that is stored when the runner failed, and the error that is raised.\<close>

definition execution_error :: "failure \<Rightarrow> string \<times> failure" where
  "execution_error e =
     (case e of
        BantamFailure b \<Rightarrow> (err_code b, e)
      | _ \<Rightarrow> (''ASVS_AI_EXECUTION_FAILED'',
          bantam ''ASVS_AI_EXECUTION_FAILED'' ''the deterministic ASVS runner did not complete'' 500))"

definition on_asvs :: "(asvs_db, failure, 'a) proc \<Rightarrow> (asvs_world, failure, 'a) proc" where
  "on_asvs m w = (case m (aw_store w) of (r, a) \<Rightarrow> (r, w\<lparr>aw_store := a\<rparr>))"

record approve_fresh =
  px_now :: timestamp
  px_run :: run_fresh
  px_last :: step_fresh

definition approve_and_execute ::
  "ai_deps \<Rightarrow> asvs_deps \<Rightarrow> uuid \<Rightarrow> uuid \<Rightarrow> uuid \<Rightarrow> audit_args \<Rightarrow> approve_fresh
     \<Rightarrow> (asvs_world, failure, generation_view \<times> run_view) proc" where
  "approve_and_execute deps runner generation_id initiated_by session_jti args fx =
     (if \<not> vi_feature_enabled deps
      then raising (bantam ''ASVS_AI_DISABLED'' ''AI test-plan execution is disabled in this environment'' 409)
      else
        run_then (on_asvs (approve deps generation_id initiated_by session_jti (px_now fx))) (\<lambda>(row, p).
        run_then
          (handling (\<lambda>e. case execution_error e of (code, e') \<Rightarrow>
               Some (run_then (on_asvs (restore_ready deps generation_id code)) (\<lambda>_. raising e')))
             (execute runner initiated_by (execution_audit deps args generation_id row p) (px_run fx))) (\<lambda>run.
        run_then (on_asvs (complete_execution deps generation_id args (vg_plan_sha256 row) run (px_last fx))) (\<lambda>completed.
        returning (serialize_generation deps completed, serialize_run True run)))))"

end
