(* ===== verification/Asvs_Steps.thy ===== *)
theory Asvs_Steps
  imports Asvs_Service
begin

text \<open>
  The two ASVS services as a state machine: several calls are in flight, each between two of its
  transactions, while the bank goes on. Every call of theory \<open>Asvs_Service\<close> is a sequence of these steps.
\<close>

section \<open>Calls in flight\<close>

datatype flight =
    Generating uuid audit_args prepared
  | Approved uuid audit_args generation_row generated_plan uuid
  | Running uuid audit_args "(uuid \<times> audit_args \<times> generation_row) option"
  | Failing uuid string
  | Ran uuid audit_args generation_row run_row

record asvs_machine =
  am_store :: asvs_db
  am_locked :: bool
  am_flights :: "flight list"

text \<open>
  \<open>AskPlan\<close> reserves a generation, \<open>Answer\<close> concludes it; \<open>ApprovePlan\<close> is the first transaction of an
  approval, \<open>BeginRun\<close> takes the lock for it and \<open>AskRun\<close> for a run of its own; \<open>EndRun\<close> is given what the
  loopback interface answers; \<open>Lose\<close> is a process that stops, \<open>BankMoves\<close> any change of the bank's tables.
\<close>

datatype asvs_event =
    AskPlan "(string \<times> json) list" uuid timestamp uuid uuid audit_args
  | Answer nat "model_request_error + model_output" audit_fresh
  | ApprovePlan uuid uuid uuid timestamp audit_args
  | AskRun uuid audit_args timestamp
  | BeginRun nat timestamp
  | EndRun nat transport run_fresh
  | RestorePlan nat
  | CompletePlan nat step_fresh
  | Lose nat
  | BankMoves db

definition flight_at :: "nat \<Rightarrow> asvs_machine \<Rightarrow> flight option" where
  "flight_at i m = (if i < length (am_flights m) then Some (am_flights m ! i) else None)"

definition land :: "nat \<Rightarrow> asvs_machine \<Rightarrow> asvs_machine" where
  "land i m = m\<lparr>am_flights := take i (am_flights m) @ drop (Suc i) (am_flights m)\<rparr>"

definition launch :: "flight \<Rightarrow> asvs_machine \<Rightarrow> asvs_machine" where
  "launch f m = m\<lparr>am_flights := am_flights m @ [f]\<rparr>"

definition storing :: "asvs_db \<Rightarrow> asvs_machine \<Rightarrow> asvs_machine" where
  "storing a m = m\<lparr>am_store := a\<rparr>"

definition locking :: "bool \<Rightarrow> asvs_machine \<Rightarrow> asvs_machine" where
  "locking b m = m\<lparr>am_locked := b\<rparr>"

section \<open>Steps\<close>

definition ask_plan ::
  "ai_deps \<Rightarrow> (string \<times> json) list \<Rightarrow> uuid \<Rightarrow> timestamp \<Rightarrow> uuid \<Rightarrow> uuid \<Rightarrow> audit_args \<Rightarrow> asvs_machine \<Rightarrow> asvs_machine" where
  "ask_plan deps document generation_id now initiated_by session_jti args m =
     (case andthen (require_enabled deps) (\<lambda>_. prepare deps document) of
        Inl _ \<Rightarrow> m
      | Inr pq \<Rightarrow>
          (case reserve deps generation_id now initiated_by session_jti pq (am_store m) of
             (Inl _, a) \<Rightarrow> storing a m
           | (Inr _, a) \<Rightarrow> launch (Generating generation_id args pq) (storing a m)))"

definition begin_run :: "asvs_deps \<Rightarrow> timestamp \<Rightarrow> uuid \<Rightarrow> audit_args \<Rightarrow> (uuid \<times> audit_args \<times> generation_row) option
     \<Rightarrow> asvs_machine \<Rightarrow> asvs_machine" where
  "begin_run runner now initiated_by args approval m =
     (case run_refusal runner (am_locked m) now (am_store m) of
        None \<Rightarrow> launch (Running initiated_by args approval) (locking True m)
      | Some e \<Rightarrow> (case approval of None \<Rightarrow> m | Some (i, _) \<Rightarrow> launch (Failing i (fst (execution_error e))) m))"

definition end_run :: "asvs_deps \<Rightarrow> transport \<Rightarrow> run_fresh \<Rightarrow> uuid \<Rightarrow> audit_args \<Rightarrow> (uuid \<times> audit_args \<times> generation_row) option
     \<Rightarrow> asvs_machine \<Rightarrow> asvs_machine" where
  "end_run runner call fx initiated_by args approval m =
     (case run_probes call (vd_target_commit runner) (vd_cookies runner) (rx_key fx) (av_bank (am_store m)) of (records, d) \<Rightarrow>
      case record_run runner initiated_by args fx records ((am_store m)\<lparr>av_bank := d\<rparr>) of (r, a) \<Rightarrow>
        let m' = locking False (storing a m) in
        (case approval of
           None \<Rightarrow> m'
         | Some (i, args', row) \<Rightarrow>
             (case r of Inl e \<Rightarrow> launch (Failing i (fst (execution_error e))) m'
              | Inr run \<Rightarrow> launch (Ran i args' row run) m')))"

definition asvs_apply :: "ai_deps \<Rightarrow> asvs_deps \<Rightarrow> asvs_event \<Rightarrow> asvs_machine \<Rightarrow> asvs_machine" where
  "asvs_apply deps runner e m =
     (case e of
        AskPlan document generation_id now initiated_by session_jti args \<Rightarrow>
          ask_plan deps document generation_id now initiated_by session_jti args m
      | Answer i answer fx \<Rightarrow>
          (case flight_at i m of
             Some (Generating generation_id args pq) \<Rightarrow>
               land i (storing (snd (conclude deps generation_id args pq answer fx (am_store m))) m)
           | _ \<Rightarrow> m)
      | ApprovePlan generation_id initiated_by session_jti now args \<Rightarrow>
          if \<not> vi_feature_enabled deps then m
          else (case approve deps generation_id initiated_by session_jti now (am_store m) of
              (Inl _, a) \<Rightarrow> storing a m
            | (Inr (row, p), a) \<Rightarrow> launch (Approved generation_id args row p initiated_by) (storing a m))
      | AskRun initiated_by args now \<Rightarrow> begin_run runner now initiated_by args None m
      | BeginRun i now \<Rightarrow>
          (case flight_at i m of
             Some (Approved generation_id args row p initiated_by) \<Rightarrow>
               begin_run runner now initiated_by (execution_audit deps args generation_id row p)
                 (Some (generation_id, args, row)) (land i m)
           | _ \<Rightarrow> m)
      | EndRun i call fx \<Rightarrow>
          (case flight_at i m of
             Some (Running initiated_by args approval) \<Rightarrow> end_run runner call fx initiated_by args approval (land i m)
           | _ \<Rightarrow> m)
      | RestorePlan i \<Rightarrow>
          (case flight_at i m of
             Some (Failing generation_id code) \<Rightarrow> land i (storing (snd (restore_ready deps generation_id code (am_store m))) m)
           | _ \<Rightarrow> m)
      | CompletePlan i fx \<Rightarrow>
          (case flight_at i m of
             Some (Ran generation_id args row run) \<Rightarrow>
               land i (storing (snd (complete_execution deps generation_id args (vg_plan_sha256 row) run fx (am_store m))) m)
           | _ \<Rightarrow> m)
      | Lose i \<Rightarrow>
          (case flight_at i m of
             None \<Rightarrow> m
           | Some (Running _ _ _) \<Rightarrow> land i (locking False m)
           | Some _ \<Rightarrow> land i m)
      | BankMoves d \<Rightarrow> storing ((am_store m)\<lparr>av_bank := d\<rparr>) m)"

section \<open>The calls are sequences of steps\<close>

definition idle :: "asvs_world \<Rightarrow> asvs_machine" where
  "idle w = \<lparr>am_store = aw_store w, am_locked = aw_locked w, am_flights = []\<rparr>"

lemma machine_simps [simp]:
  "am_store (land i m) = am_store m" "am_locked (land i m) = am_locked m"
  "am_flights (land i m) = take i (am_flights m) @ drop (Suc i) (am_flights m)"
  "am_store (launch f m) = am_store m" "am_locked (launch f m) = am_locked m" "am_flights (launch f m) = am_flights m @ [f]"
  "am_store (storing a m) = a" "am_locked (storing a m) = am_locked m" "am_flights (storing a m) = am_flights m"
  "am_store (locking b m) = am_store m" "am_locked (locking b m) = b" "am_flights (locking b m) = am_flights m"
  "am_store (idle w) = aw_store w" "am_locked (idle w) = aw_locked w" "am_flights (idle w) = []"
  by (simp_all add: land_def launch_def storing_def locking_def idle_def)

lemma machine_eqI:
  "am_store m = am_store n \<Longrightarrow> am_locked m = am_locked n \<Longrightarrow> am_flights m = am_flights n \<Longrightarrow> (m :: asvs_machine) = n"
  by simp

lemma flight_at_only: "am_flights m = [f] \<Longrightarrow> flight_at 0 m = Some f"
  by (simp add: flight_at_def)

lemma land_launch [simp]: "am_flights m = [] \<Longrightarrow> land 0 (launch f m) = m"
  by (intro machine_eqI) simp_all

text \<open>The answer of the model arrives while nothing else happens.\<close>

lemma generate_plan_steps:
  assumes "generate_plan deps initiated_by session_jti args document fx w = (r, w')"
  obtains es where "fold (asvs_apply deps runner) es (idle w) = idle w'"
proof -
  let ?ask = "AskPlan document (gx_generation_id fx) (gx_now fx) initiated_by session_jti args"
  show thesis
  proof (cases "andthen (require_enabled deps) (\<lambda>_. prepare deps document)")
    case (Inl e)
    then have "w' = w" using assms by (auto simp: generate_plan_def andthen_Inl_iff split: sum.splits)
    then show thesis by (intro that [of "[]"]) simp
  next
    case (Inr pq)
    then obtain client where c: "require_enabled deps = Inr client" "prepare deps document = Inr pq" by (auto simp: andthen_Inr_iff)
    obtain q a where q: "reserve deps (gx_generation_id fx) (gx_now fx) initiated_by session_jti pq (aw_store w) = (q, a)"
      by (metis surj_pair)
    show thesis
    proof (cases q)
      case (Inl e)
      then have "idle w' = storing a (idle w)" using assms c q by (auto simp: generate_plan_def intro!: machine_eqI)
      with Inl Inr q show thesis by (intro that [of "[?ask]"]) (simp add: asvs_apply_def ask_plan_def)
    next
      case q': (Inr u)
      let ?answer = "plan_client client (pq_request pq)" and ?m = "launch (Generating (gx_generation_id fx) args pq) (storing a (idle w))"
      have "flight_at 0 ?m = Some (Generating (gx_generation_id fx) args pq)" by (simp add: flight_at_only)
      moreover have "idle w' = land 0 (storing (snd (conclude deps (gx_generation_id fx) args pq ?answer (gx_audit fx) a)) ?m)"
        using assms c q q' by (auto simp: generate_plan_def split: prod.splits intro!: machine_eqI)
      ultimately show thesis using Inr q q'
        by (intro that [of "[?ask, Answer 0 ?answer (gx_audit fx)]"]) (simp add: asvs_apply_def ask_plan_def)
    qed
  qed
qed

lemma execute_steps:
  assumes "execute runner initiated_by args fx w = (r, w')"
  obtains es where "fold (asvs_apply deps runner) es (idle w) = idle w'"
proof (cases "run_refusal runner (aw_locked w) (rx_now fx) (aw_store w)")
  case (Some e)
  with assms have "w' = w" by (simp add: execute_def)
  then show thesis by (intro that [of "[]"]) simp
next
  case None
  let ?m = "launch (Running initiated_by args None) (locking True (idle w))"
    and ?call = "loopback_call (vd_loads runner) (vd_open runner) (vd_port runner) (rx_request_id fx)"
  have "flight_at 0 ?m = Some (Running initiated_by args None)" by (simp add: flight_at_only)
  moreover have "end_run runner ?call fx initiated_by args None (land 0 ?m) = idle w'"
    using assms None by (auto simp: execute_def end_run_def live_run_def split: prod.splits intro!: machine_eqI)
  ultimately show thesis using None
    by (intro that [of "[AskRun initiated_by args (rx_now fx), EndRun 0 ?call fx]"]) (simp add: asvs_apply_def begin_run_def)
qed

definition after_run :: "uuid \<Rightarrow> audit_args \<Rightarrow> generation_row \<Rightarrow> failure + run_row \<Rightarrow> flight" where
  "after_run generation_id args row r =
     (case r of Inl e \<Rightarrow> Failing generation_id (fst (execution_error e)) | Inr run \<Rightarrow> Ran generation_id args row run)"

lemma approved_run_steps:
  assumes "execute runner initiated_by (execution_audit deps args generation_id row p) fx w = (r, w')"
  obtains es where "fold (asvs_apply deps runner) es (launch (Approved generation_id args row p initiated_by) (idle w)) =
    launch (after_run generation_id args row r) (idle w')"
proof (cases "run_refusal runner (aw_locked w) (rx_now fx) (aw_store w)")
  case (Some e)
  let ?m = "launch (Approved generation_id args row p initiated_by) (idle w)"
  have "flight_at 0 ?m = Some (Approved generation_id args row p initiated_by)" by (simp add: flight_at_only)
  moreover have "r = Inl e" "w' = w" using assms Some by (simp_all add: execute_def)
  ultimately show thesis using Some
    by (intro that [of "[BeginRun 0 (rx_now fx)]"]) (simp add: asvs_apply_def begin_run_def after_run_def)
next
  case None
  let ?m = "launch (Approved generation_id args row p initiated_by) (idle w)" and ?args = "execution_audit deps args generation_id row p"
    and ?call = "loopback_call (vd_loads runner) (vd_open runner) (vd_port runner) (rx_request_id fx)"
  let ?n = "launch (Running initiated_by ?args (Some (generation_id, args, row))) (locking True (idle w))"
  have "flight_at 0 ?m = Some (Approved generation_id args row p initiated_by)"
    "flight_at 0 ?n = Some (Running initiated_by ?args (Some (generation_id, args, row)))" by (simp_all add: flight_at_only)
  moreover have "end_run runner ?call fx initiated_by ?args (Some (generation_id, args, row)) (land 0 ?n) =
      launch (after_run generation_id args row r) (idle w')"
    using assms None by (auto simp: execute_def end_run_def live_run_def after_run_def Let_def split: prod.splits sum.splits intro!: machine_eqI)
  ultimately show thesis using None
    by (intro that [of "[BeginRun 0 (rx_now fx), EndRun 0 ?call fx]"]) (simp add: asvs_apply_def begin_run_def)
qed

lemma approve_and_execute_steps:
  assumes call: "approve_and_execute deps runner generation_id initiated_by session_jti args fx w = (r, w')"
  obtains es where "fold (asvs_apply deps runner) es (idle w) = idle w'"
proof -
  let ?ask = "ApprovePlan generation_id initiated_by session_jti (px_now fx) args"
  obtain x a where x: "approve deps generation_id initiated_by session_jti (px_now fx) (aw_store w) = (x, a)" by (metis surj_pair)
  let ?w = "w\<lparr>aw_store := a\<rparr>"
  have idle: "storing a (idle w) = idle ?w" by (intro machine_eqI) simp_all
  show thesis
  proof (cases "vi_feature_enabled deps")
    case False
    with call have "w' = w" by (simp add: approve_and_execute_def)
    then show thesis by (intro that [of "[]"]) simp
  next
    case on: True
    show thesis
    proof (cases x)
      case (Inl e)
      then have "w' = ?w" using call x on by (simp add: approve_and_execute_def on_asvs_def run_then_def)
      with Inl x on idle show thesis by (intro that [of "[?ask]"]) (simp add: asvs_apply_def)
    next
      case (Inr rp)
      then obtain row p where rp: "x = Inr (row, p)" by (metis surj_pair)
      obtain q w2 where q: "execute runner initiated_by (execution_audit deps args generation_id row p) (px_run fx) ?w = (q, w2)"
        by (metis surj_pair)
      obtain es where es: "fold (asvs_apply deps runner) es (launch (Approved generation_id args row p initiated_by) (idle ?w)) =
          launch (after_run generation_id args row q) (idle w2)"
        by (rule approved_run_steps [OF q])
      have ask: "asvs_apply deps runner ?ask (idle w) = launch (Approved generation_id args row p initiated_by) (idle ?w)"
        using x rp on idle by (simp add: asvs_apply_def)
      show thesis
      proof (cases q)
        case (Inl e)
        let ?m = "launch (Failing generation_id (fst (execution_error e))) (idle w2)"
        have "flight_at 0 ?m = Some (Failing generation_id (fst (execution_error e)))" by (simp add: flight_at_only)
        moreover have "land 0 (storing (snd (restore_ready deps generation_id (fst (execution_error e)) (aw_store w2))) ?m) = idle w'"
          using call x rp on q Inl
          by (auto simp: approve_and_execute_def on_asvs_def run_then_def handling_def raising_def split: prod.splits sum.splits
              intro!: machine_eqI)
        ultimately show thesis using ask es Inl
          by (intro that [of "[?ask] @ es @ [RestorePlan 0]"]) (simp add: asvs_apply_def after_run_def)
      next
        case (Inr run)
        let ?m = "launch (Ran generation_id args row run) (idle w2)"
        have "flight_at 0 ?m = Some (Ran generation_id args row run)" by (simp add: flight_at_only)
        moreover have "land 0 (storing (snd (complete_execution deps generation_id args (vg_plan_sha256 row) run (px_last fx)
            (aw_store w2))) ?m) = idle w'"
          using call x rp on q Inr
          by (auto simp: approve_and_execute_def on_asvs_def run_then_def handling_def returning_def split: prod.splits sum.splits
              intro!: machine_eqI)
        ultimately show thesis using ask es Inr
          by (intro that [of "[?ask] @ es @ [CompletePlan 0 (px_last fx)]"]) (simp add: asvs_apply_def after_run_def)
      qed
    qed
  qed
qed

end
