(* ===== verification/Asvs_Facts.thy ===== *)
theory Asvs_Facts
  imports Asvs_Steps Plan_Facts
begin

text \<open>
  What the steps of the ASVS services do to their tables: the rows of the generations keep who asked,
  when and from which sources, and only a reservation adds one; the runs are appended to.
\<close>

section \<open>Rows keep their keys\<close>

definition generation_key :: "generation_row \<Rightarrow> uuid \<times> uuid \<times> uuid \<times> timestamp \<times> json \<times> string" where
  "generation_key r = (vg_generation_id r, vg_initiated_by r, vg_session_jti r, vg_created_at r, vg_provenance r, vg_prompt_sha256 r)"

definition keys :: "asvs_db \<Rightarrow> (uuid \<times> uuid \<times> uuid \<times> timestamp \<times> json \<times> string) list" where
  "keys a = map generation_key (av_generations a)"

lemma keys_bank [simp]: "keys (a\<lparr>av_bank := d\<rparr>) = keys a" "keys (a\<lparr>av_runs := rs\<rparr>) = keys a"
  by (simp_all add: keys_def)

lemma keys_audit: "audit_asvs args fx a = Inr a' \<Longrightarrow> keys a' = keys a \<and> av_runs a' = av_runs a \<and> av_generations a' = av_generations a"
  by (auto dest!: audit_asvs_InrD)

text \<open>An update that keeps the key of every row it fits.\<close>

definition keeps_key :: "(generation_row \<Rightarrow> generation_row) \<Rightarrow> bool" where
  "keeps_key f \<longleftrightarrow> (\<forall>r. generation_key (f r) = generation_key r)"

lemma keys_update:
  assumes "update_generation json_bytes i s f a = Inr (x, a')" and "keeps_key f"
  shows "keys a' = keys a \<and> av_runs a' = av_runs a"
  using assms(1)
proof (cases rule: update_generation_InrD)
  case 1
  then show ?thesis by simp
next
  case (2 r)
  then show ?thesis using assms(2) by (simp add: keys_def rows_update_def keeps_key_def if_distrib cong: if_cong)
qed

lemma keeps_key_updates [simp]:
  "keeps_key (\<lambda>r. r\<lparr>vg_status := s, vg_error_code := c\<rparr>)"
  "keeps_key (ready_row candidate)"
  "keeps_key (\<lambda>r. r\<lparr>vg_status := s, vg_approved_at := t, vg_error_code := c\<rparr>)"
  "keeps_key (\<lambda>r. r\<lparr>vg_status := s, vg_asvs_run_id := j, vg_executed_at := t, vg_error_code := c\<rparr>)"
  by (simp_all add: keeps_key_def generation_key_def ready_row_def)

definition settled :: "(uuid \<times> uuid \<times> uuid \<times> timestamp \<times> json \<times> string) list \<Rightarrow> run_row list \<Rightarrow> asvs_db \<Rightarrow> bool" where
  "settled ks rs a \<longleftrightarrow> keys a = ks \<and> av_runs a = rs"

lemma settled_transactions:
  "preserves (settled ks rs) (fail_generation deps i args code fx)"
  "preserves (settled ks rs) (finish_generation deps i args pq c fx)"
  "preserves (settled ks rs) (approve deps i user jti now)"
  "preserves (settled ks rs) (restore_ready deps i code)"
  "preserves (settled ks rs) (complete_execution deps i args sha run sfx)"
  unfolding fail_generation_def finish_generation_def approve_def restore_ready_def complete_execution_def
  by (intro preserve_rules; force simp: settled_def andthen_Inr_iff map_sum_def
      dest!: keys_update keys_audit split: option.splits if_splits sum.splits)+

lemma settled_conclude: "preserves (settled ks rs) (conclude deps i args pq answer fx)"
  unfolding conclude_def by (auto split: sum.split intro!: preserve_rules settled_transactions)

lemma settledD: "preserves (settled (keys a) (av_runs a)) m \<Longrightarrow> keys (snd (m a)) = keys a \<and> av_runs (snd (m a)) = av_runs a"
  unfolding preserves_def settled_def by blast

lemma reserve_cases:
  assumes "reserve deps i now user jti pq a = (x, a')"
  obtains e where "x = Inl e" "a' = a"
    | session account day where "x = Inr ()" "quota now user jti a = (session, account, day)"
        "session < SESSION_GENERATION_LIMIT" "account < ACCOUNT_DAILY_GENERATION_LIMIT" "day < DAILY_GENERATION_LIMIT"
        "a' = a\<lparr>av_generations := av_generations a @ [pending_generation deps i now user jti pq]\<rparr>"
        "\<not> known vg_generation_id i (av_generations a)"
proof (cases x)
  case (Inl e)
  have "a' = a" using in_transaction_rollback [OF assms [unfolded Inl reserve_def]] by (rule conjunct2)
  with Inl show thesis by (rule that(1))
next
  case (Inr u)
  obtain session account day where q: "quota now user jti a = (session, account, day)" by (metis surj_pair)
  let ?r = "pending_generation deps i now user jti pq"
  have t: "\<not> SESSION_GENERATION_LIMIT \<le> session \<and> \<not> ACCOUNT_DAILY_GENERATION_LIMIT \<le> account \<and>
      \<not> DAILY_GENERATION_LIMIT \<le> day \<and> insert_generation (vi_json_bytes deps) ?r a = Inr a'"
    using in_transaction_commit [OF assms [unfolded Inr reserve_def]] unfolding q prod.case
    by (simp add: andthen_Inr_iff split: if_split_asm)
  then have "a' = a\<lparr>av_generations := av_generations a @ [?r]\<rparr>" "\<not> known vg_generation_id i (av_generations a)"
    using insert_generation_InrD [of "vi_json_bytes deps" ?r a a'] by (simp_all add: pending_generation_def)
  with t q Inr that(2) show thesis by (simp add: not_le)
qed

lemma record_run_cases:
  assumes "record_run runner user args fx records a = (x, a')"
  obtains e where "x = Inl e" "a' = a"
    | vals row where "revalidated runner records = Inr vals" "x = Inr (new_run runner user fx records vals)"
        "a' = a\<lparr>av_runs := av_runs a @ [new_run runner user fx records vals],
           av_bank := (av_bank a)\<lparr>audit_events := audit_events (av_bank a) @ [row]\<rparr>\<rparr>"
proof (cases "revalidated runner records")
  case (Inl e)
  with assms that(1) show thesis by (auto simp: record_run_def)
next
  case (Inr vals)
  let ?r = "new_run runner user fx records vals"
  obtain y a1 where y: "save_run ?r args (rx_audit fx) a = (y, a1)" by (metis surj_pair)
  show thesis
  proof (cases y)
    case (Inl e)
    then have "a1 = a" using y unfolding save_run_def by (metis in_transaction_rollback)
    with Inl y Inr assms show thesis by (intro that(1) [of e]) (simp_all add: record_run_def Let_def run_then_def)
  next
    case y': (Inr u)
    then have "\<exists>a2. insert_run ?r a = Inr a2 \<and> audit_asvs (run_audit args ?r) (rx_audit fx) a2 = Inr a1"
      using y unfolding save_run_def by (auto dest!: in_transaction_commit simp: andthen_Inr_iff)
    then have "\<exists>row. a1 = a\<lparr>av_runs := av_runs a @ [?r], av_bank := (av_bank a)\<lparr>audit_events := audit_events (av_bank a) @ [row]\<rparr>\<rparr>"
      by (auto dest!: insert_run_InrD audit_asvs_InrD)
    moreover have "x = Inr ?r" "a' = a1" using y y' Inr assms by (simp_all add: record_run_def Let_def run_then_def)
    ultimately show thesis using Inr that(2) by blast
  qed
qed

section \<open>Steps\<close>

text \<open>What one step does to the keys and the runs.\<close>

definition reserved :: "ai_deps \<Rightarrow> asvs_db \<Rightarrow> asvs_db \<Rightarrow> bool" where
  "reserved deps a a' \<longleftrightarrow> (\<exists>i now user jti pq. reserve deps i now user jti pq a = (Inr (), a'))"

definition assertions_under_test :: "assertion list" where
  "assertions_under_test = [ANONYMOUS, ADMIN_ROUTE, HISTORY, TRANSFER, REPLAY]"

definition verdicts :: "string \<Rightarrow> (string + exchange) list \<Rightarrow> evidence list" where
  "verdicts target_commit outcomes = map2 (evidence_record target_commit) assertions_under_test outcomes"

lemma run_probes_verdicts:
  obtains outcomes where "length outcomes = 5" "fst (run_probes call target_commit cookies key d) = verdicts target_commit outcomes"
proof -
  have five: "\<exists>outcomes. length outcomes = 5 \<and> [f ANONYMOUS a, f ADMIN_ROUTE b, f HISTORY c, f TRANSFER e, f REPLAY g] =
      map2 f assertions_under_test outcomes" for f a b c e g
    by (intro exI [of _ "[a, b, c, e, g]"]) (simp add: assertions_under_test_def)
  have "\<exists>outcomes. length outcomes = 5 \<and> fst (run_probes call target_commit cookies key d) = verdicts target_commit outcomes"
    unfolding run_probes_def verdicts_def Let_def by (auto split: prod.split sum.split simp: five)
  then show thesis using that by blast
qed

text \<open>A run as it is stored: the verdicts on five answers, read again, with their counts.\<close>

definition observed_run :: "asvs_deps \<Rightarrow> run_row \<Rightarrow> bool" where
  "observed_run runner r \<longleftrightarrow>
     (\<exists>outcomes vals. length outcomes = 5 \<and>
        (let records = verdicts (vd_target_commit runner) outcomes in
         revalidated runner records = Inr vals \<and> vr_evidence r = JList vals \<and>
         vr_evidence_sha256 r = digest (vd_sha256_hex runner) (evidence_bundle runner vals) \<and>
         vr_status r = run_status records \<and> vr_controls_total r = length records \<and>
         vr_controls_passed r = count_status ''pass'' records \<and> vr_controls_failed r = count_status ''fail'' records \<and>
         vr_controls_error r = count_status ''error'' records))"

lemma new_run_observed:
  assumes "length outcomes = 5" and "revalidated runner (verdicts (vd_target_commit runner) outcomes) = Inr vals"
  shows "observed_run runner (new_run runner user fx (verdicts (vd_target_commit runner) outcomes) vals)"
  unfolding observed_run_def Let_def using assms by (intro exI [of _ outcomes] exI [of _ vals]) (simp add: new_run_def)

lemma end_run_cases:
  assumes "end_run runner call fx user args approval m = m'"
  obtains e where "keys (am_store m') = keys (am_store m)" "av_generations (am_store m') = av_generations (am_store m)"
      "av_runs (am_store m') = av_runs (am_store m)" "\<not> am_locked m'"
      "am_flights m' = am_flights m @ (case approval of None \<Rightarrow> [] | Some (i, _) \<Rightarrow> [Failing i (fst (execution_error e))])"
    | r where "keys (am_store m') = keys (am_store m)" "av_generations (am_store m') = av_generations (am_store m)"
      "av_runs (am_store m') = av_runs (am_store m) @ [r]" "observed_run runner r" "\<not> am_locked m'"
      "am_flights m' = am_flights m @ (case approval of None \<Rightarrow> [] | Some (i, args', row) \<Rightarrow> [Ran i args' row r])"
proof -
  obtain records d where p: "run_probes call (vd_target_commit runner) (vd_cookies runner) (rx_key fx) (av_bank (am_store m)) = (records, d)"
    by (metis surj_pair)
  then obtain outcomes where o: "length outcomes = 5" "records = verdicts (vd_target_commit runner) outcomes"
    using run_probes_verdicts by (metis fst_conv)
  obtain x a where x: "record_run runner user args fx records ((am_store m)\<lparr>av_bank := d\<rparr>) = (x, a)" by (metis surj_pair)
  from x show thesis
  proof (cases rule: record_run_cases)
    case (1 e)
    then show thesis using assms p x by (intro that(1) [of e]) (auto simp: end_run_def Let_def split: option.splits)
  next
    case (2 vals row)
    moreover have "observed_run runner (new_run runner user fx records vals)"
      using new_run_observed [OF o(1)] 2(1) o(2) by simp
    ultimately show thesis using assms p x
      by (intro that(2) [of "new_run runner user fx records vals"]) (auto simp: end_run_def Let_def keys_def split: option.splits)
  qed
qed

lemma begin_run_store: "am_store (begin_run runner now user args approval m) = am_store m"
  by (auto simp: begin_run_def split: option.splits)

lemma storing_same: "storing (am_store m) m = m"
  by (intro machine_eqI) simp_all

lemma ask_plan_cases:
  assumes "ask_plan deps document i now user jti args m = m'"
  obtains "m' = m"
    | pq a where "prepare deps document = Inr pq" "reserve deps i now user jti pq (am_store m) = (Inr (), a)"
        "m' = launch (Generating i args pq) (storing a m)"
proof (cases "andthen (require_enabled deps) (\<lambda>_. prepare deps document)")
  case (Inl e)
  with assms that(1) show thesis by (simp add: ask_plan_def)
next
  case (Inr pq)
  obtain x a where x: "reserve deps i now user jti pq (am_store m) = (x, a)" by (metis surj_pair)
  show thesis
  proof (cases x)
    case (Inl e)
    with x have "a = am_store m" by (auto elim: reserve_cases)
    with Inl Inr x assms that(1) show thesis by (simp add: ask_plan_def storing_same)
  next
    case (Inr u)
    moreover have "prepare deps document = Inr pq"
      using \<open>andthen (require_enabled deps) (\<lambda>_. prepare deps document) = Inr pq\<close> by (auto simp: andthen_Inr_iff)
    ultimately show thesis using x assms \<open>andthen (require_enabled deps) (\<lambda>_. prepare deps document) = Inr pq\<close>
      by (intro that(2)) (auto simp: ask_plan_def)
  qed
qed

lemma flight_atD: "flight_at i m = Some f \<Longrightarrow> f \<in> set (am_flights m)"
  by (auto simp: flight_at_def split: if_splits)

lemma asvs_apply_keys:
  "keys (am_store (asvs_apply deps runner e m)) = keys (am_store m) \<or> reserved deps (am_store m) (am_store (asvs_apply deps runner e m))"
proof (cases e)
  case (AskPlan document i now user jti args)
  then have "ask_plan deps document i now user jti args m = asvs_apply deps runner e m" by (simp add: asvs_apply_def)
  then show ?thesis by (cases rule: ask_plan_cases) (auto simp: reserved_def)
next
  case (ApprovePlan i user jti now args)
  then show ?thesis using settledD [OF settled_transactions(3)]
    by (auto simp: asvs_apply_def split: prod.splits sum.splits) (metis snd_conv)+
next
  case (EndRun i call fx)
  show ?thesis
  proof (cases "flight_at i m")
    case (Some f)
    then show ?thesis
      using end_run_cases [of runner call fx _ _ _ "land i m"] EndRun by (cases f) (auto simp: asvs_apply_def, metis+)
  qed (simp add: EndRun asvs_apply_def)
qed (auto simp: asvs_apply_def begin_run_store settledD [OF settled_conclude] settledD [OF settled_transactions(4)]
    settledD [OF settled_transactions(5)] split: option.splits flight.splits)

lemma asvs_apply_runs:
  "\<exists>zs. av_runs (am_store (asvs_apply deps runner e m)) = av_runs (am_store m) @ zs \<and> list_all (observed_run runner) zs"
proof (cases e)
  case (AskPlan document i now user jti args)
  then have "ask_plan deps document i now user jti args m = asvs_apply deps runner e m" by (simp add: asvs_apply_def)
  then show ?thesis by (cases rule: ask_plan_cases) (auto elim: reserve_cases)
next
  case (ApprovePlan i user jti now args)
  have "av_runs (snd (approve deps i user jti now (am_store m))) = av_runs (am_store m)"
    using settledD [OF settled_transactions(3)] by blast
  with ApprovePlan show ?thesis by (auto simp: asvs_apply_def split: prod.splits sum.splits)
next
  case (EndRun i call fx)
  show ?thesis
  proof (cases "flight_at i m")
    case (Some f)
    show ?thesis
    proof (cases f)
      case (Running user args approval)
      have "asvs_apply deps runner e m = end_run runner call fx user args approval (land i m)"
        using EndRun Some Running by (simp add: asvs_apply_def)
      from this [symmetric] show ?thesis by (cases rule: end_run_cases) auto
    qed (use EndRun Some in \<open>simp_all add: asvs_apply_def\<close>)
  qed (simp add: EndRun asvs_apply_def)
qed (auto simp: asvs_apply_def begin_run_store settledD [OF settled_conclude] settledD [OF settled_transactions(4)]
    settledD [OF settled_transactions(5)] split: option.splits flight.splits)

end
