(* ===== verification/Asvs_Properties.thy ===== *)
theory Asvs_Properties
  imports Asvs_Facts Plan_Properties
begin

text \<open>
  What holds along every interleaving of calls to the ASVS services: the quotas of the generations,
  the runs as observed and never changed, and the plans that wait for approval.
\<close>

section \<open>Quotas\<close>

definition created_on :: "int \<Rightarrow> generation_row \<Rightarrow> bool" where
  "created_on day r \<longleftrightarrow> vg_created_at r div day_length = day"

definition keyed :: "(generation_row \<Rightarrow> bool) \<Rightarrow> bool" where
  "keyed P \<longleftrightarrow> (\<forall>r r'. generation_key r = generation_key r' \<longrightarrow> P r = P r')"

lemma keyed_counted [simp]:
  "keyed (\<lambda>r. vg_session_jti r = s)" "keyed (\<lambda>r. vg_initiated_by r = u \<and> created_on day r)" "keyed (created_on day)"
  by (simp_all add: keyed_def generation_key_def created_on_def)

lemma count_keys:
  assumes "keyed P" and "keys a' = keys a"
  shows "count_rows P a' = count_rows P a"
proof -
  let ?Q = "\<lambda>k. \<exists>r. generation_key r = k \<and> P r"
  have Q: "P r = ?Q (generation_key r)" for r using assms(1) unfolding keyed_def by blast
  have "?Q \<circ> generation_key = P" by (rule ext) (simp only: comp_apply Q [symmetric])
  then have "length (filter P rs) = length (filter ?Q (map generation_key rs))" for rs by (simp only: filter_map length_map)
  with assms(2) show ?thesis unfolding count_rows_def keys_def by (simp only:)
qed

lemma created_on_start: "created_on (now div day_length) r \<Longrightarrow> vg_created_at r \<ge> day_start now"
  by (auto simp: created_on_def day_start_def day_length_def)

lemma count_mono: "(\<And>r. P r \<Longrightarrow> Q r) \<Longrightarrow> count_rows P a \<le> count_rows Q a"
proof -
  assume le: "\<And>r. P r \<Longrightarrow> Q r"
  have "length (filter P rs) \<le> length (filter Q rs)" for rs using le by (induction rs) auto
  then show ?thesis unfolding count_rows_def .
qed

text \<open>A count that only a reservation under its limit raises.\<close>

lemma reserved_counts:
  assumes "reserved deps a a'"
  shows "count_rows (\<lambda>r. vg_session_jti r = s) a' \<le> max SESSION_GENERATION_LIMIT (count_rows (\<lambda>r. vg_session_jti r = s) a)"
    and "count_rows (\<lambda>r. vg_initiated_by r = u \<and> created_on day r) a'
      \<le> max ACCOUNT_DAILY_GENERATION_LIMIT (count_rows (\<lambda>r. vg_initiated_by r = u \<and> created_on day r) a)"
    and "count_rows (created_on day) a' \<le> max DAILY_GENERATION_LIMIT (count_rows (created_on day) a)"
proof -
  from assms obtain i now user jti pq where "reserve deps i now user jti pq a = (Inr (), a')" unfolding reserved_def by blast
  then obtain session account daily where r: "quota now user jti a = (session, account, daily)"
    "session < SESSION_GENERATION_LIMIT" "account < ACCOUNT_DAILY_GENERATION_LIMIT" "daily < DAILY_GENERATION_LIMIT"
    "a' = a\<lparr>av_generations := av_generations a @ [pending_generation deps i now user jti pq]\<rparr>"
    by (cases rule: reserve_cases) auto
  let ?r = "pending_generation deps i now user jti pq"
  have add: "count_rows P a' = count_rows P a + of_bool (P ?r)" for P unfolding r(5) count_rows_def by simp
  have today: "vg_created_at ?r div day_length = now div day_length" "vg_session_jti ?r = jti" "vg_initiated_by ?r = user"
    by (simp_all add: pending_generation_def)
  have q: "count_rows (\<lambda>r. vg_session_jti r = jti) a < SESSION_GENERATION_LIMIT"
    "count_rows (\<lambda>r. vg_initiated_by r = user \<and> vg_created_at r \<ge> day_start now) a < ACCOUNT_DAILY_GENERATION_LIMIT"
    "count_rows (\<lambda>r. vg_created_at r \<ge> day_start now) a < DAILY_GENERATION_LIMIT"
    using r(1-4) by (auto simp: quota_def)
  have le: "count_rows (\<lambda>r. vg_initiated_by r = user \<and> created_on (now div day_length) r) a
      \<le> count_rows (\<lambda>r. vg_initiated_by r = user \<and> vg_created_at r \<ge> day_start now) a"
    "count_rows (created_on (now div day_length)) a \<le> count_rows (\<lambda>r. vg_created_at r \<ge> day_start now) a"
    by (rule count_mono, simp add: created_on_start)+
  show "count_rows (\<lambda>r. vg_session_jti r = s) a' \<le> max SESSION_GENERATION_LIMIT (count_rows (\<lambda>r. vg_session_jti r = s) a)"
    using q(1) today(2) unfolding add by (cases "jti = s") auto
  show "count_rows (\<lambda>r. vg_initiated_by r = u \<and> created_on day r) a'
      \<le> max ACCOUNT_DAILY_GENERATION_LIMIT (count_rows (\<lambda>r. vg_initiated_by r = u \<and> created_on day r) a)"
    using q(2) le(1) today(1,3) unfolding add by (cases "user = u \<and> now div day_length = day") (auto simp: created_on_def)
  show "count_rows (created_on day) a' \<le> max DAILY_GENERATION_LIMIT (count_rows (created_on day) a)"
    using q(3) le(2) today(1) unfolding add by (cases "now div day_length = day") (auto simp: created_on_def)
qed

lemma step_counts:
  assumes "keyed P" and "\<And>a a'. reserved deps a a' \<Longrightarrow> count_rows P a' \<le> max limit (count_rows P a)"
  shows "count_rows P (am_store (asvs_apply deps runner e m)) \<le> max limit (count_rows P (am_store m))"
  using asvs_apply_keys [of deps runner e m]
proof
  assume "keys (am_store (asvs_apply deps runner e m)) = keys (am_store m)"
  from count_keys [OF assms(1) this] show ?thesis by simp
qed (rule assms(2))

lemma bounded_again: "c' \<le> max limit c \<Longrightarrow> c \<le> max limit k \<Longrightarrow> c' \<le> max limit (k :: nat)"
  by simp

interpretation sessions: invariant_machine "asvs_apply deps runner"
  "\<lambda>m. count_rows (\<lambda>r. vg_session_jti r = s) (am_store m) \<le> max SESSION_GENERATION_LIMIT k" for deps runner s k
  by unfold_locales (rule bounded_again [OF step_counts [OF keyed_counted(1) reserved_counts(1)]])

interpretation accounts: invariant_machine "asvs_apply deps runner"
  "\<lambda>m. count_rows (\<lambda>r. vg_initiated_by r = u \<and> created_on day r) (am_store m) \<le> max ACCOUNT_DAILY_GENERATION_LIMIT k"
  for deps runner u day k
  by unfold_locales (rule bounded_again [OF step_counts [OF keyed_counted(2) reserved_counts(2)]])

interpretation days: invariant_machine "asvs_apply deps runner"
  "\<lambda>m. count_rows (created_on day) (am_store m) \<le> max DAILY_GENERATION_LIMIT k" for deps runner day k
  by unfold_locales (rule bounded_again [OF step_counts [OF keyed_counted(3) reserved_counts(3)]])

text \<open>C0. Whatever calls are in flight and however their transactions interleave, the generations of a
  session never exceed 5, those of an account on one day 5 and those of all accounts on one day 25,
  unless there were more to begin with; a failed or rejected generation counts like any other.\<close>

theorem generations_stay_within_quota:
  "let a = am_store m; a' = am_store (fold (asvs_apply deps runner) es m) in
     count_rows (\<lambda>r. vg_session_jti r = s) a' \<le> max SESSION_GENERATION_LIMIT (count_rows (\<lambda>r. vg_session_jti r = s) a) \<and>
     count_rows (\<lambda>r. vg_initiated_by r = u \<and> created_on day r) a'
       \<le> max ACCOUNT_DAILY_GENERATION_LIMIT (count_rows (\<lambda>r. vg_initiated_by r = u \<and> created_on day r) a) \<and>
     count_rows (created_on day) a' \<le> max DAILY_GENERATION_LIMIT (count_rows (created_on day) a)"
  unfolding Let_def by (intro conjI sessions.run_inv accounts.run_inv days.run_inv) simp_all

section \<open>Runs\<close>

definition as_expected :: "assertion \<Rightarrow> string + exchange \<Rightarrow> bool" where
  "as_expected a outcome \<longleftrightarrow>
     (case outcome of
        Inl _ \<Rightarrow> False
      | Inr x \<Rightarrow> (case a of (_, _, _, expected_status, expected_code) \<Rightarrow>
          ex_status x = expected_status \<and> error_code x = Some expected_code))"

lemma evidence_record_status:
  "er_status (evidence_record target_commit a outcome) \<in> {''pass'', ''fail'', ''error''}"
  "er_status (evidence_record target_commit a outcome) = ''pass'' \<longleftrightarrow> as_expected a outcome"
  by (auto simp: evidence_record_def as_expected_def blank_record_def Let_def split: prod.split sum.split)

lemma verdicts_pass:
  assumes "length outcomes = 5"
  shows "run_status (verdicts target_commit outcomes) = ''PASS'' \<longleftrightarrow> list_all2 as_expected assertions_under_test outcomes"
proof -
  let ?rs = "verdicts target_commit outcomes"
  have five: "length outcomes = length assertions_under_test" using assms by (simp add: assertions_under_test_def)
  have "run_status ?rs = ''PASS'' \<longleftrightarrow> (\<forall>r\<in>set ?rs. er_status r \<notin> {''error'', ''fail'', ''inconclusive''})"
    unfolding run_status_def Let_def set_map image_iff by (auto split: if_split_asm)
  also have "\<dots> \<longleftrightarrow> (\<forall>r\<in>set ?rs. er_status r = ''pass'')"
    using evidence_record_status(1) unfolding verdicts_def by (fastforce simp: set_zip)
  also have "\<dots> \<longleftrightarrow> list_all2 as_expected assertions_under_test outcomes"
    unfolding verdicts_def list_all2_iff using five by (auto simp: evidence_record_status(2))
  finally show ?thesis .
qed

interpretation runs: append_only_log "asvs_apply deps runner" "\<lambda>m. av_runs (am_store m)" for deps runner
  by unfold_locales (metis asvs_apply_runs)

lemma runs_observed:
  "\<exists>zs. av_runs (am_store (fold (asvs_apply deps runner) es m)) = av_runs (am_store m) @ zs \<and> list_all (observed_run runner) zs"
proof (induction es arbitrary: m)
  case (Cons e es)
  obtain ys where "av_runs (am_store (asvs_apply deps runner e m)) = av_runs (am_store m) @ ys" "list_all (observed_run runner) ys"
    using asvs_apply_runs by blast
  moreover obtain zs where "av_runs (am_store (fold (asvs_apply deps runner) es (asvs_apply deps runner e m))) =
      av_runs (am_store (asvs_apply deps runner e m)) @ zs" "list_all (observed_run runner) zs"
    using Cons.IH by blast
  ultimately show ?case by (intro exI [of _ "ys @ zs"]) simp
qed simp

text \<open>What a stored run says: five answers of the running API stand behind it, one for a reviewed
  control, and it is \<open>PASS\<close> exactly when each was the refusal the control expects.\<close>

definition stands_on_answers :: "asvs_deps \<Rightarrow> run_row \<Rightarrow> bool" where
  "stands_on_answers runner r \<longleftrightarrow>
     (\<exists>outcomes vals. length outcomes = 5 \<and>
        revalidated runner (verdicts (vd_target_commit runner) outcomes) = Inr vals \<and> vr_evidence r = JList vals \<and>
        vr_evidence_sha256 r = digest (vd_sha256_hex runner) (evidence_bundle runner vals) \<and>
        (vr_status r = ''PASS'' \<longleftrightarrow> list_all2 as_expected assertions_under_test outcomes))"

lemma observed_stands: "observed_run runner r \<Longrightarrow> stands_on_answers runner r"
  unfolding observed_run_def stands_on_answers_def Let_def using verdicts_pass by metis

text \<open>C0. Stored runs are never changed or removed, and every run that is added stands on what the API
  answered: five outcomes, judged against the five reviewed assertions, their records read again and
  sealed by the digest; its status is \<open>PASS\<close> exactly when every answer was the expected refusal.\<close>

theorem runs_stand_on_answers:
  "\<exists>zs. av_runs (am_store (fold (asvs_apply deps runner) es m)) = av_runs (am_store m) @ zs \<and>
     list_all (stands_on_answers runner) zs"
  using runs_observed [of deps runner es m] observed_stands by (metis list_all_iff)

end
