(* ===== verification/Spec2Isabelle.thy ===== *)
theory Spec2Isabelle
  imports Api_Properties Config_Properties Migrations Catalog_Properties Attack_Tree Repository_Source Source_Properties
    Narrative_Properties Assurance_Properties Ledger_Refinement Simulation_Properties Scenario_Properties Lab_Properties
    Plan_Properties Asvs_Properties
begin

text \<open>
  A verification development of Bantam, a training bank: customer registration and login, second
  factors, accounts, transfers with strong customer authentication, a double-entry ledger, risk
  alerts and notifications fed through a transactional outbox, on one PostgreSQL database; and the
  assurance tools its administrators use: saved workflows over the graph of the bank's own source,
  snapshots of other repositories explained by a language model, costed attack scenarios and their
  Monte Carlo simulation. The sources are the Python package \<open>src/bantam\<close> and the migrations \<open>src/migrations\<close>.

  \<^bold>\<open>How the program is put together.\<close> A request reaches a FastAPI handler of
  \<open>api.py\<close>. The handler resolves the caller from the session token, checks role,
  administrator scope and recent second factor, asks the rate limiter, and runs SQL statements, some
  of them in one transaction, or calls a service: \<open>LedgerService\<close> moves money,
  \<open>SCAService\<close> makes and consumes challenges, \<open>MfaService\<close> runs the passkey and
  authenticator ceremonies, \<open>AuthService\<close> issues and parses tokens. Every state change writes
  an audit row, and most write an event into \<open>outbox_events\<close>; \<open>OutboxPublisher\<close>
  claims and publishes the events, the risk and notification workers of \<open>workers.py\<close> consume
  them and write alerts and notifications. A process starts by reading \<open>config.py\<close>, migrating the
  schema (\<open>database.py\<close>) and building the application. The assurance services
  (\<open>workflow_graph.py\<close>, \<open>repository_graph.py\<close>, \<open>source_context.py\<close>, \<open>financials.py\<close>,
  \<open>attack_simulation.py\<close>) have tables of their own beside the bank, ask a language model, check its
  answer and store what passed with an audit record.

  \<^bold>\<open>How the state corresponds.\<close> The record \<open>db\<close> of theory \<open>Store\<close> holds one list
  of rows per table, the rows in insertion order with the column names as fields. A statement is a
  function from \<open>db\<close> to an error or a \<open>db\<close>; the constraints and triggers of the
  migrations are its error branches. The tables of the assurance tools are
  \<open>assurance_db\<close> and \<open>lab_db\<close>, each with the \<open>db\<close> of the bank inside. A transaction is \<open>in_transaction\<close>, which gives back the
  old state when its body raises; several statements on an autocommit connection are chained by
  \<open>run_then\<close>, so that what was committed stays. The state of the server adds the two rate
  limiters of the process to the \<open>db\<close>. Everything a run takes from outside comes in as data:
  fresh UUIDs, clocks and salts in the records \<open>env\<close>, \<open>transfer_fresh\<close>, \<open>mfa_fresh\<close>,
  \<open>audit_fresh\<close>; the broker and its redeliveries as outcomes.

  \<^bold>\<open>The theories.\<close>
  \<open>Prelude\<close>: rows, errors as sums, transactions, procedures, and the locales
  for invariants of state machines and append-only logs.
  \<open>Net\<close>, \<open>Calendar\<close>: what is used of \<open>ipaddress\<close> and \<open>datetime\<close>.
  \<open>Domain\<close>: \<open>domain.py\<close>, \<open>errors.py\<close>, \<open>money.py\<close>.
  \<open>Store\<close>: the tables and statements of \<open>migrations/*.sql\<close>, and \<open>audit.py\<close>.
  \<open>Sca\<close>: \<open>sca.py\<close>.
  \<open>Ledger\<close>: \<open>ledger.py\<close>, \<open>create_transfer\<close> with all its guards, and
  \<open>reconcile\<close>; \<open>Ledger_Invariants\<close> has the invariant \<open>ledger_inv\<close> (every balance is
  the sum of its entries, every transaction balances, no account without overdraft permission is
  negative) and the effect of a posted transfer, \<open>Ledger_Progress\<close> when a transfer goes through
  and how it can fail, \<open>Ledger_Facts\<close> the locale a validator of challenges is used through, its
  interpretation by the SCA service, and runs of transfers, \<open>Ledger_Properties\<close> the properties;
  \<open>Ledger_Refinement\<close> has an abstract book (balances by account, requests by idempotency key), the
  locale of a book with its facts, and the simulation of the book by the service along every run.
  \<open>Demo\<close>: a small bank all witnesses run on.
  \<open>Security\<close>, \<open>Rate_Limit\<close>: \<open>security.py\<close>.
  \<open>Auth\<close>: \<open>auth.py\<close>.
  \<open>Mfa\<close>, \<open>Mfa_Properties\<close>: \<open>mfa.py\<close>, and what a sequence of ceremonies can reach.
  \<open>Outbox\<close>: the publisher of \<open>events.py\<close> as a step relation over statements of several
  publishers, and its batches as functions.
  \<open>Workers\<close>: \<open>workers.py\<close>.
  \<open>Api_Base\<close>, \<open>Api_Auth\<close>, \<open>Api_Accounts\<close>, \<open>Api_Admin\<close>, \<open>Api\<close>:
  the banking handlers of \<open>api.py\<close> and the request models of \<open>schemas.py\<close>, and
  \<open>api_step\<close>, the whole answer to one call.
  \<open>Api_Invariants\<close>: the locale \<open>api_invariant\<close>, one law per statement the handlers
  execute, with the theorem that every call keeps a property with these laws.
  \<open>Bank\<close>: \<open>bank_step\<close>, which adds the workers and the publisher, the locale
  \<open>bank_invariant\<close>, and its interpretations by the ledger invariant, the append-only evidence,
  the staff roles, the verified customers and the account rows.
  \<open>Bank_Properties\<close>, \<open>Api_Properties\<close>: the properties over them.
  \<open>Url\<close>, \<open>Text_Pattern\<close>: what is used of \<open>urllib.parse\<close> and \<open>re\<close>.
  \<open>Config\<close>, \<open>Startup\<close>, \<open>Config_Properties\<close>: \<open>config.py\<close> from the environment to
  validated settings, \<open>create_app\<close> of \<open>api.py\<close>, and what a started process can rely on.
  \<open>Migrations\<close>: \<open>database.py\<close>, the migration runner as a function and as steps of replicas that
  start together under the advisory lock.
  \<open>Graph_Catalog\<close>, \<open>Catalog_Builder\<close>, \<open>Workflow\<close>, \<open>Catalog_Properties\<close>:
  \<open>workflow_graph.py\<close>, nodes, edges and flows of a program (what the \<open>ast\<close> visitor collects from
  the source files is an argument), the validator of saved workflows and the service.
  \<open>Assurance_Store\<close>: the tables of migration 008 beside the bank.
  \<open>Repository_Source\<close>, \<open>Narrative\<close>, \<open>Attack_Tree\<close>, \<open>Repository_Service\<close>:
  \<open>repository_graph.py\<close>, the checks of a requested source and the pinned reading of GitHub, the
  redacted projection for the model and the checks of its narrative, the structure of an attack tree,
  and the service; \<open>Narrative_Properties\<close> has the property of the narratives.
  \<open>Source_Context\<close>, \<open>Source_Properties\<close>: \<open>source_context.py\<close>, the bounded and redacted
  excerpts of the source and the slice of the OpenAPI document.
  \<open>Api_Assurance\<close>, \<open>Assurance_Properties\<close>: the routes of the two graphs, and properties of the
  services behind them.
  \<open>Financials\<close>, \<open>Attack_Scenario\<close>, \<open>Simulation\<close>, \<open>Lab_Store\<close>,
  \<open>Attack_Lab\<close>, \<open>Api_Lab\<close>: \<open>financials.py\<close>, \<open>attack_simulation.py\<close> (inventory, schemas
  and checks; samplers, engine and report; the service), the tables of migration 010, and the routes.
  \<open>Scenario_Properties\<close>, \<open>Simulation_Facts\<close>, \<open>Simulation_Properties\<close>,
  \<open>Lab_Properties\<close>: what an accepted answer satisfies, ranges and termination of the samplers, the
  report and the remediations, and the invariant of the stored simulations.
  \<open>Evidence\<close>, \<open>Asvs\<close>: \<open>security/aspis/core/evidence.py\<close> and the live runner of \<open>asvs.py\<close>, which
  probes the running API over the loopback interface and records what it saw.
  \<open>Test_Plan\<close>, \<open>Plan_Facts\<close>, \<open>Plan_Properties\<close>: the test plans of \<open>asvs_ai.py\<close> a model
  proposes, their Rego modules and compiled tests, and when they are accepted.

  \<^bold>\<open>What the lemmas show.\<close> Money: the sum of all balances is zero, along every run of the
  bank; a transfer has exactly its documented effect or none, and all transfers together implement
  the abstract book; an idempotency key posts once; a reversal restores the balances; a transfer at
  or above the threshold used up a challenge made for exactly this transfer. Evidence: entries,
  history and audit trail are only appended to. Authorization: a protected route does nothing without
  a live session of a fitting role; staff roles and KYC verification change only by the callers who
  may; a customer sees only the own data; registration answers alike for taken and new addresses;
  five wrong guesses end a ceremony; accepted time steps increase. Delivery: an event counts as
  published only after the broker stored it; batches publish every event; the consumers decode what
  was posted. Boundaries: the client address cannot be forged; a process starts in production only
  with strong secrets and closed features; replicas migrate once.
  Assurance: a saved workflow is valid exactly when it is a path its actor may enter, and reads back
  as it was saved; reading a repository stays within that repository and its limits; what is sent to
  the model is bounded; an answer of the model is shown only when every reference in it was supplied
  and its trees are trees; these routes need an administrator with the scope and touch the bank by
  audit records only. Simulation: every run ends on a lively stream; the figures of a report fit
  together; remediations only help; every stored simulation can be computed again from what is stored
  beside it.

  \<^bold>\<open>Bounds.\<close> Integers are unbounded as in Python, with the \<open>BIGINT\<close> and \<open>INTEGER\<close>
  ranges of the columns checked where a statement writes them. No definition of the bank takes fuel:
  a publisher batch is a recursion over at most \<open>BATCH\<close> (50) claims, a ceremony takes at most
  \<open>MAX_ATTEMPTS\<close> (5) guesses, a claim expires after \<open>CLAIM_EXPIRY\<close> (60 seconds) and the
  pull loops run over the messages delivered. In the assurance tools the recursion follows the
  bounds of the code: calls are expanded three deep, an attack tree is walked six edges deep, a
  repository snapshot has at most 384 files, a projection shrinks until it fits 72,000 bytes, a year
  has at most 200 attempts. The rejection loop of the gamma sampler has no bound in the code: it is a
  \<open>partial_function\<close>, proved to return on every stream that is
  \<open>lively\<close> (again and again followed by a few numbers near one half). Floats of the financial
  figures are real numbers and \<open>math\<close> the real functions, so rounding is not seen. Strings are lists of 8-bit characters; upper and lower
  case are mapped on ASCII, the dash and the ellipsis of the sources are one character each, and
  \<open>ORDER BY\<close> on text follows the character codes.

  \<^bold>\<open>Parameters.\<close> HMAC-SHA256, SHA-256, bcrypt, PyJWT, Fernet, pyotp and the webauthn package are
  functions in the records \<open>libraries\<close> and \<open>mfa_library\<close>. The theorems that rely on them say
  so in a hypothesis (a token decodes to the claims it was encoded from, a keyed hash does not
  collide on the two messages), and their witnesses instantiate it with a concrete function. In the
  assurance tools the HTTP answers of GitHub and of the model provider, decoding of base64, UTF-8 and
  JSON documents, the facts an \<open>ast\<close> visitor collects, the graph builders of other repositories,
  PostgreSQL running a migration script, the stream of \<open>random.Random(seed)\<close> and the texts of the
  laboratory's two prompts are such functions.

  \<^bold>\<open>Reading conventions.\<close> A request reads its clock once. Row locks serialise the transactions
  that take them, so a step is one transaction; the interleaving of statements of one connection with
  other requests is modelled only for the publisher, whose claims are statements of their own.
  A handler whose statements are not in one transaction runs them in one step here.

  \<^bold>\<open>Not modelled.\<close> Of the ASVS assessment the prompt and schema of \<open>asvs_ai.py\<close> with its model
  client, the two services with the tables of migrations 004 and 005, and their routes. In the other services: the \<open>ast\<close> visitor of
  \<open>workflow_graph.py\<close> and the Python and Terraform builders of \<open>repository_graph.py\<close> over files of
  other repositories, which read syntax trees of languages, and the prompt texts of the laboratory.
  Input and output: the connection pool of \<open>database.py\<close>, \<open>pubsub.py\<close>, \<open>seed.py\<close>,
  \<open>cloud_run.py\<close>, \<open>__main__.py\<close>, the health check, the scripts, the web application and the
  deployment.
\<close>

end
